(* ===== verification/Go_Prelude.thy ===== *)
theory Go_Prelude
  imports
    Main
    "HOL-Library.Word"
    "HOL-Library.Multiset"
    "HOL-Library.AList"
    "HOL-Library.Sublist"
    "HOL-Library.Char_ord"
    "HOL-Library.List_Lexorder"
    "HOL-Library.Product_Lexorder"
begin

text \<open>
  The Go prelude of the SyncCam development: the parts of the Go language and of its standard
  library that the modelled packages use, and the generic lemmas the components share.

  \<^item> Go strings and byte slices are both byte sequences, modelled as \<open>string\<close>; \<open>length\<close> is Go's
    \<open>len\<close>, and the order of \<open>List_Lexorder\<close> over \<open>Char_ord\<close> is Go's bytewise string order.
  \<^item> \<open>time.Time\<close> is an instant, an \<open>int\<close> counting nanoseconds from Go's zero time
    (0001-01-01T00:00:00Z), so \<open>IsZero\<close> is equality with 0; \<open>time.Duration\<close> is an \<open>int\<close> of
    nanoseconds.
  \<^item> \<open>int64\<close> values are \<open>int\<close> with \<open>wrap64\<close> written where the code computes with them;
    \<open>uint64\<close> counters are \<open>64 word\<close>.
  \<^item> A Go map is an association list with one pair per key; iteration order is never relied on.
  \<^item> \<open>sort.Slice\<close> is an insertion sort over the caller's less function.
\<close>

type_synonym bytes = string
type_synonym gotime = int
type_synonym duration = int

named_theorems int64_simps \<open>facts that remove the 64-bit wrap-around inside its range\<close>
named_theorems go_map_simps \<open>lookup after an update or a deletion in a Go map\<close>

section \<open>Machine integers, time and durations\<close>

definition wrap64 :: "int \<Rightarrow> int" where
  "wrap64 x = (x + 2 ^ 63) mod 2 ^ 64 - 2 ^ 63"

definition maxInt64 :: int where
  "maxInt64 = 2 ^ 63 - 1"

definition minInt64 :: int where
  "minInt64 = - (2 ^ 63)"

text \<open>\<open>time.Time.Sub\<close> saturates at the ends of the duration range.\<close>

definition timeSub :: "gotime \<Rightarrow> gotime \<Rightarrow> duration" where
  "timeSub t u = max minInt64 (min maxInt64 (t - u))"

definition nanosecond :: duration where "nanosecond = 1"
definition second :: duration where "second = 1000000000"
definition minute :: duration where "minute = 60 * second"

text \<open>The instant of the Unix epoch, counted from Go's zero time.\<close>

definition unixEpoch :: gotime where
  "unixEpoch = 62135596800 * second"

definition unixNano :: "gotime \<Rightarrow> int" where
  "unixNano t = wrap64 (t - unixEpoch)"

lemma wrap64_id [int64_simps]: "- (2 ^ 63) \<le> x \<Longrightarrow> x < 2 ^ 63 \<Longrightarrow> wrap64 x = x"
  by (simp add: wrap64_def)

lemma wrap64_range: "- (2 ^ 63) \<le> wrap64 x \<and> wrap64 x < 2 ^ 63"
proof -
  have "0 \<le> (x + 2 ^ 63) mod 2 ^ 64" "(x + 2 ^ 63) mod (2 ^ 64) < (2 :: int) ^ 64"
    by (rule pos_mod_sign, simp) (rule pos_mod_bound, simp)
  then show ?thesis by (simp add: wrap64_def)
qed

lemma timeSub_less_iff: "minInt64 < d \<Longrightarrow> d \<le> maxInt64 \<Longrightarrow> timeSub t u < d \<longleftrightarrow> t - u < d"
  by (auto simp: timeSub_def)

section \<open>Text: trimming, case, decimal and hexadecimal\<close>

text \<open>The UTF-8 encodings of the code points with \<open>unicode.IsSpace\<close>.\<close>

definition spaceEncodings :: "string list" where
  "spaceEncodings =
     [[CHR 0x09], [CHR 0x0A], [CHR 0x0B], [CHR 0x0C], [CHR 0x0D], [CHR 0x20],
      [CHR 0xC2, CHR 0x85], [CHR 0xC2, CHR 0xA0], [CHR 0xE1, CHR 0x9A, CHR 0x80],
      [CHR 0xE2, CHR 0x80, CHR 0x80], [CHR 0xE2, CHR 0x80, CHR 0x81],
      [CHR 0xE2, CHR 0x80, CHR 0x82], [CHR 0xE2, CHR 0x80, CHR 0x83],
      [CHR 0xE2, CHR 0x80, CHR 0x84], [CHR 0xE2, CHR 0x80, CHR 0x85],
      [CHR 0xE2, CHR 0x80, CHR 0x86], [CHR 0xE2, CHR 0x80, CHR 0x87],
      [CHR 0xE2, CHR 0x80, CHR 0x88], [CHR 0xE2, CHR 0x80, CHR 0x89],
      [CHR 0xE2, CHR 0x80, CHR 0x8A], [CHR 0xE2, CHR 0x80, CHR 0xA8],
      [CHR 0xE2, CHR 0x80, CHR 0xA9], [CHR 0xE2, CHR 0x80, CHR 0xAF],
      [CHR 0xE2, CHR 0x81, CHR 0x9F], [CHR 0xE3, CHR 0x80, CHR 0x80]]"

function stripLeading :: "string list \<Rightarrow> string \<Rightarrow> string" where
  "stripLeading ws s =
     (case find (\<lambda>w. w \<noteq> [] \<and> prefix w s) ws of
        None \<Rightarrow> s
      | Some w \<Rightarrow> stripLeading ws (drop (length w) s))"
  by pat_completeness auto
termination
proof (relation "measure (\<lambda>(ws, s). length s)", goal_cases)
  case 1
  show ?case by simp
next
  case (2 ws s w)
  then have "w \<noteq> [] \<and> prefix w s" by (auto simp: find_Some_iff)
  then have "0 < length w" "length w \<le> length s" by (auto dest: prefix_length_le)
  then show ?case by (cases s) auto
qed

declare stripLeading.simps [simp del]

text \<open>\<open>strings.TrimSpace\<close>: the leading white space goes first, then the trailing one.\<close>

definition trimSpace :: "string \<Rightarrow> string" where
  "trimSpace s =
     rev (stripLeading (map rev spaceEncodings) (rev (stripLeading spaceEncodings s)))"

definition asciiChar :: "char \<Rightarrow> bool" where
  "asciiChar c \<longleftrightarrow> of_char c < (128 :: nat)"

definition lowerChar :: "char \<Rightarrow> char" where
  "lowerChar c =
     (if CHR ''A'' \<le> c \<and> c \<le> CHR ''Z'' then char_of (of_char c + 32 :: nat) else c)"

text \<open>
  \<open>strings.ToLower\<close>: an ASCII string is lowered byte by byte; any other string goes through the
  Unicode tables, which are the parameter \<open>uni\<close>.
\<close>

definition toLower :: "(string \<Rightarrow> string) \<Rightarrow> string \<Rightarrow> string" where
  "toLower uni s = (if list_all asciiChar s then map lowerChar s else uni s)"

definition upperChar :: "char \<Rightarrow> char" where
  "upperChar c =
     (if CHR ''a'' \<le> c \<and> c \<le> CHR ''z'' then char_of (of_char c - 32 :: nat) else c)"

text \<open>\<open>strings.ToUpper\<close>, in the same way.\<close>

definition toUpper :: "(string \<Rightarrow> string) \<Rightarrow> string \<Rightarrow> string" where
  "toUpper uni s = (if list_all asciiChar s then map upperChar s else uni s)"

fun natDigits :: "nat \<Rightarrow> string" where
  "natDigits n =
     (if n < 10 then [char_of (48 + n)] else natDigits (n div 10) @ [char_of (48 + n mod 10)])"

declare natDigits.simps [simp del]

text \<open>\<open>fmt.Sprintf("%020d", n)\<close>: zero padding to width 20, the sign included in the width.\<close>

definition padded20 :: "int \<Rightarrow> string" where
  "padded20 n =
     (let ds = natDigits (nat \<bar>n\<bar>)
      in if n < 0 then CHR ''-'' # replicate (19 - length ds) CHR ''0'' @ ds
         else replicate (20 - length ds) CHR ''0'' @ ds)"

definition hexDigit :: "nat \<Rightarrow> char" where
  "hexDigit n = (if n < 10 then char_of (48 + n) else char_of (87 + n))"

text \<open>\<open>hex.EncodeToString\<close>.\<close>

fun hexEncode :: "bytes \<Rightarrow> string" where
  "hexEncode [] = []"
| "hexEncode (b # bs) =
     hexDigit (of_char b div 16) # hexDigit (of_char b mod 16) # hexEncode bs"

definition hexValue :: "char \<Rightarrow> nat option" where
  "hexValue c =
     (let n = of_char c
      in if 48 \<le> n \<and> n \<le> 57 then Some (n - 48)
         else if 97 \<le> n \<and> n \<le> 102 then Some (n - 87)
         else if 65 \<le> n \<and> n \<le> 70 then Some (n - 55)
         else None)"

text \<open>\<open>hex.DecodeString\<close>: an odd length or a byte that is no hexadecimal digit is an error.\<close>

fun hexDecode :: "string \<Rightarrow> bytes option" where
  "hexDecode [] = Some []"
| "hexDecode [c] = None"
| "hexDecode (c # d # cs) =
     (case (hexValue c, hexValue d, hexDecode cs) of
        (Some hi, Some lo, Some bs) \<Rightarrow> Some (char_of (16 * hi + lo) # bs)
      | _ \<Rightarrow> None)"

section \<open>Sorting with a less function\<close>

fun insertLess :: "('a \<Rightarrow> 'a \<Rightarrow> bool) \<Rightarrow> 'a \<Rightarrow> 'a list \<Rightarrow> 'a list" where
  "insertLess lt x [] = [x]"
| "insertLess lt x (y # ys) = (if lt y x then y # insertLess lt x ys else x # y # ys)"

definition sortSlice :: "('a \<Rightarrow> 'a \<Rightarrow> bool) \<Rightarrow> 'a list \<Rightarrow> 'a list" where
  "sortSlice lt xs = foldr (insertLess lt) xs []"

text \<open>
  When the less function compares a key, the sort is the library's \<open>sort_key\<close>, so its result is
  fixed by the multiset of the elements once the key separates them: the random iteration order
  of a Go map cannot show.
\<close>

lemma insertLess_key:
  assumes "\<And>x y. lt x y \<longleftrightarrow> key x < key y"
  shows "insertLess lt x ys = insort_key key x ys"
  by (induction ys) (auto simp: assms not_less)

lemma sortSlice_key:
  assumes "\<And>x y. lt x y \<longleftrightarrow> key x < key y"
  shows "sortSlice lt xs = sort_key key xs"
  by (induction xs) (simp_all add: sortSlice_def insertLess_key [OF assms])

lemma mset_insertLess: "mset (insertLess lt x ys) = add_mset x (mset ys)"
  by (induction ys) auto

lemma mset_sortSlice [simp]: "mset (sortSlice lt xs) = mset xs"
  by (induction xs) (simp_all add: sortSlice_def mset_insertLess)

lemma set_sortSlice [simp]: "set (sortSlice lt xs) = set xs"
  by (metis mset_sortSlice set_mset_mset)

lemma sortSlice_Nil [simp]: "sortSlice lt xs = [] \<longleftrightarrow> xs = []"
  by (metis mset_sortSlice mset_zero_iff)

lemma find_snoc: "find P (xs @ [y]) = (case find P xs of None \<Rightarrow> if P y then Some y else None | Some x \<Rightarrow> Some x)"
  by (induction xs) auto

lemma sort_key_perm:
  assumes "mset xs = mset ys" "inj_on key (set xs)"
  shows "sort_key key xs = sort_key key ys"
  by (rule sort_key_inj_key_eq) (use assms in \<open>simp_all\<close>)

lemma distinct_map_sort_key [simp]: "distinct (map f (sort_key g xs)) \<longleftrightarrow> distinct (map f xs)"
proof -
  have "mset (map f (sort_key g xs)) = mset (map f xs)" by simp
  then show ?thesis by (rule mset_eq_imp_distinct_iff)
qed

lemma sort_key_hd_le: "sort_key key xs = y # ys \<Longrightarrow> x \<in> set xs \<Longrightarrow> key y \<le> key x"
proof -
  assume eq: "sort_key key xs = y # ys" and x: "x \<in> set xs"
  have "sorted (map key (y # ys))" unfolding eq [symmetric] by (rule sorted_sort_key)
  moreover from x have "x \<in> set (y # ys)" unfolding eq [symmetric] by simp
  ultimately show "key y \<le> key x" by auto
qed

section \<open>Lemmas on trimming\<close>

lemma stripLeading_suffix: "suffix (stripLeading ws s) s"
proof (induction ws s rule: stripLeading.induct)
  case (1 ws s)
  show ?case
  proof (cases "find (\<lambda>w. w \<noteq> [] \<and> prefix w s) ws")
    case None
    then show ?thesis by (simp add: stripLeading.simps)
  next
    case (Some w)
    with "1.IH" have "suffix (stripLeading ws (drop (length w) s)) (drop (length w) s)" by blast
    then have "suffix (stripLeading ws (drop (length w) s)) s"
      using suffix_drop suffix_order.trans by blast
    with Some show ?thesis by (simp add: stripLeading.simps [of ws s])
  qed
qed

lemma stripLeading_none:
  "find (\<lambda>w. w \<noteq> [] \<and> prefix w (stripLeading ws s)) ws = None"
proof (induction ws s rule: stripLeading.induct)
  case (1 ws s)
  then show ?case
    by (cases "find (\<lambda>w. w \<noteq> [] \<and> prefix w s) ws") (simp_all add: stripLeading.simps [of ws s])
qed

lemma stripLeading_id:
  "(\<And>w. w \<in> set ws \<Longrightarrow> w \<noteq> [] \<Longrightarrow> \<not> prefix w s) \<Longrightarrow> stripLeading ws s = s"
  by (subst stripLeading.simps) (auto split: option.split simp: find_Some_iff)

lemma stripLeading_no_prefix: "w \<in> set ws \<Longrightarrow> w \<noteq> [] \<Longrightarrow> \<not> prefix w (stripLeading ws s)"
  using stripLeading_none [of ws s] by (auto simp: find_None_iff)

lemma length_trimSpace_le: "length (trimSpace s) \<le> length s"
  using stripLeading_suffix [THEN suffix_length_le] unfolding trimSpace_def
  by (metis length_rev order_trans)

text \<open>Trimming a trimmed string changes nothing.\<close>

lemma trimSpace_idem [simp]: "trimSpace (trimSpace s) = trimSpace s"
proof -
  let ?R = "map rev spaceEncodings" and ?L = "stripLeading spaceEncodings s"
  let ?t = "stripLeading ?R (rev ?L)"
  have "prefix (rev ?t) ?L"
    using stripLeading_suffix [of ?R "rev ?L"] by (simp add: suffix_to_prefix)
  then have "stripLeading spaceEncodings (rev ?t) = rev ?t"
    by (intro stripLeading_id) (meson prefix_order.trans stripLeading_no_prefix)
  moreover have "stripLeading ?R ?t = ?t"
    by (intro stripLeading_id) (rule stripLeading_no_prefix)
  ultimately show ?thesis by (simp add: trimSpace_def)
qed

lemma trimSpace_Nil [simp]: "trimSpace [] = []"
  by (simp add: trimSpace_def stripLeading_id)

end
