(* ===== verification/Spool.thy ===== *)
theory Spool
  imports Go_Prelude
begin

text \<open>
  The durable store-and-forward queue of the edge agent, \<open>edge/internal/agent/spool.go\<close>.

  The state is the \<open>DurableSpool\<close> struct together with the directory it owns. The Go map
  \<open>entries\<close> always stores an entry under its own item id, so it is modelled as the list of its
  entries with \<open>getEntry\<close> as the lookup; the invariant says that ids are distinct. Directory
  entries are named relative to the spool's root (\<open>filepath.Join\<close> with the fixed root is
  injective). What the code takes from outside is a parameter: \<open>spoolCodec\<close> holds
  \<open>json.Marshal\<close> and \<open>json.Unmarshal\<close> of the envelope and SHA-256, fixed for the process;
  \<open>spoolEnv\<close> holds what one call meets: a reading of the clock, the random suffix of the temporary
  file and which operating-system calls succeed. Every method holds the mutex for its whole body, so each is
  one atomic step; the nil-receiver guards have no counterpart.
\<close>

section \<open>Data\<close>

type_synonym SpoolPriority = string

definition SpoolMetadata :: SpoolPriority where "SpoolMetadata = ''metadata''"
definition SpoolEvidence :: SpoolPriority where "SpoolEvidence = ''evidence''"
definition SpoolVideo :: SpoolPriority where "SpoolVideo = ''video''"

definition spoolVersion :: int where "spoolVersion = 1"
definition spoolExtension :: string where "spoolExtension = ''.msg''"
definition maxSpoolHeaderBytes :: int where "maxSpoolHeaderBytes = 4096"
definition maxSpoolIDLength :: int where "maxSpoolIDLength = 128"

datatype spoolError =
    ErrInvalidSpoolConfig | ErrInvalidSpoolItem | ErrSpoolConflict | ErrSpoolCapacity
  | ErrCorruptSpool | ErrSpoolEmpty | ErrSpoolItemNotFound
  | SpoolIO string

record SpoolItem =
  itemID :: string
  itemPriority :: SpoolPriority
  itemCreatedAt :: gotime
  itemSizeBytes :: int

record SpoolMessage =
  msgItem :: SpoolItem
  msgPayload :: bytes

record SpoolMetrics =
  mDepth :: int
  mBytes :: int
  mEnqueuedTotal :: "64 word"
  mAckedTotal :: "64 word"
  mEvictedTotal :: "64 word"
  mOldestAge :: duration

record spoolEnvelope =
  envVersion :: int
  envID :: string
  envPriority :: SpoolPriority
  envCreatedAt :: gotime
  envPayloadBytes :: int
  envPayloadSHA256 :: string

record spoolEntry =
  entItem :: SpoolItem
  entPath :: string
  entFileBytes :: int
  entPayloadHash :: string

text \<open>A directory entry: a regular file with its bytes, a directory, or anything else.\<close>

datatype dnode = DFile bytes | DDir | DOther

type_synonym disk = "(string \<times> dnode) list"

record DurableSpool =
  spMaxBytes :: int
  spMaxItemBytes :: int
  spEntries :: "spoolEntry list"
  spMetrics :: SpoolMetrics
  spDisk :: disk

datatype ioOp =
    IoMkdirAll | IoChmodDir | IoReadDir | IoInfo string | IoOpen string | IoRead string
  | IoCreateTemp | IoChmod | IoWrite | IoSync | IoClose | IoRename string | IoRemove string

record spoolCodec =
  cMarshal :: "spoolEnvelope \<Rightarrow> bytes option"
  cUnmarshal :: "bytes \<Rightarrow> spoolEnvelope option"
  cSha256 :: "bytes \<Rightarrow> bytes"

record spoolEnv =
  spNow :: gotime
  spTmp :: string
  spIo :: "ioOp \<Rightarrow> bool"
  spShortWrite :: "bytes \<Rightarrow> bytes"

definition zeroMetrics :: SpoolMetrics where
  "zeroMetrics = \<lparr>mDepth = 0, mBytes = 0, mEnqueuedTotal = 0, mAckedTotal = 0,
     mEvictedTotal = 0, mOldestAge = 0\<rparr>"

section \<open>Validation and naming\<close>

definition validSpoolChar :: "char \<Rightarrow> bool" where
  "validSpoolChar c \<longleftrightarrow>
     (CHR ''a'' \<le> c \<and> c \<le> CHR ''z'') \<or> (CHR ''A'' \<le> c \<and> c \<le> CHR ''Z'') \<or>
     (CHR ''0'' \<le> c \<and> c \<le> CHR ''9'') \<or> c = CHR ''-'' \<or> c = CHR ''_''"

text \<open>
  The loop ranges over the runes of the id. A rune outside ASCII has only bytes of 128 and more,
  which the byte test refuses as well, so the loop is a test on the bytes.
\<close>

definition validSpoolID :: "string \<Rightarrow> bool" where
  "validSpoolID s \<longleftrightarrow>
     \<not> (s = [] \<or> int (length s) > maxSpoolIDLength) \<and> list_all validSpoolChar s"

definition validSpoolPriority :: "SpoolPriority \<Rightarrow> bool" where
  "validSpoolPriority p \<longleftrightarrow> p = SpoolMetadata \<or> p = SpoolEvidence \<or> p = SpoolVideo"

definition spoolPriorityRank :: "SpoolPriority \<Rightarrow> int" where
  "spoolPriorityRank p = (if p = SpoolMetadata then 0 else if p = SpoolEvidence then 1 else 2)"

definition hashPayload :: "spoolCodec \<Rightarrow> bytes \<Rightarrow> string" where
  "hashPayload C p = hexEncode (cSha256 C p)"

definition spoolFilename :: "gotime \<Rightarrow> string \<Rightarrow> string" where
  "spoolFilename t i = padded20 (unixNano t) @ ''-'' @ i @ spoolExtension"

section \<open>Records on disk\<close>

definition encodeSpoolRecord :: "spoolCodec \<Rightarrow> spoolEnvelope \<Rightarrow> bytes \<Rightarrow> spoolError + bytes" where
  "encodeSpoolRecord C envelope payload =
     (case cMarshal C envelope of
        None \<Rightarrow> Inl ErrInvalidSpoolItem
      | Some header \<Rightarrow>
          if int (length header) > maxSpoolHeaderBytes then Inl ErrInvalidSpoolItem
          else Inr (header @ [CHR 0x0A] @ payload))"

text \<open>
  The states of the directory while one record is written: the temporary file is created, gets
  its bytes and is renamed. The deferred removal of the temporary file runs on every return.
\<close>

definition tempName :: "spoolEnv \<Rightarrow> string" where
  "tempName E = ''.spool-'' @ spTmp E"

definition removeTemp :: "spoolEnv \<Rightarrow> disk \<Rightarrow> disk" where
  "removeTemp E d = (if spIo E (IoRemove (tempName E)) then AList.delete (tempName E) d else d)"

definition writeSpoolFileAtomic ::
  "spoolEnv \<Rightarrow> string \<Rightarrow> bytes \<Rightarrow> disk \<Rightarrow> disk \<times> (spoolError + unit)" where
  "writeSpoolFileAtomic E destination rec d =
     (if \<not> spIo E IoCreateTemp then (d, Inl (SpoolIO ''create store-and-forward item''))
      else
        let created = AList.update (tempName E) (DFile []) d;
            short = AList.update (tempName E) (DFile (spShortWrite E rec)) d;
            written = AList.update (tempName E) (DFile rec) d
        in if \<not> spIo E IoChmod then
             (removeTemp E created, Inl (SpoolIO ''restrict store-and-forward item''))
           else if \<not> spIo E IoWrite then
             (removeTemp E short, Inl (SpoolIO ''write store-and-forward item''))
           else if \<not> spIo E IoSync then
             (removeTemp E written, Inl (SpoolIO ''sync store-and-forward item''))
           else if \<not> spIo E IoClose then
             (removeTemp E written, Inl (SpoolIO ''close store-and-forward item''))
           else if \<not> spIo E (IoRename destination) then
             (removeTemp E written, Inl (SpoolIO ''commit store-and-forward item''))
           else
             (removeTemp E (AList.update destination (DFile rec) (AList.delete (tempName E) written)),
              Inr ()))"

text \<open>
  \<open>bufio.Reader.ReadBytes\<close> at the first newline: the header with the newline, and the rest;
  \<open>None\<close> when the input has no newline.
\<close>

definition readHeader :: "bytes \<Rightarrow> (bytes \<times> bytes) option" where
  "readHeader c =
     (let h = takeWhile (\<lambda>x. x \<noteq> CHR 0x0A) c
      in if length h = length c then None else Some (h @ [CHR 0x0A], drop (length h + 1) c))"

text \<open>
  The body of \<open>readSpoolFile\<close> after the file is open: \<open>c\<close> are its bytes, \<open>readOk\<close> says that
  reading the payload succeeds.
\<close>

definition parseSpoolRecord ::
  "spoolCodec \<Rightarrow> int \<Rightarrow> bool \<Rightarrow> bytes \<Rightarrow> spoolError + (spoolEnvelope \<times> bytes \<times> int)" where
  "parseSpoolRecord C maxItemBytes readOk c =
     (let size = int (length c) in
      if size \<le> 0 \<or> size > wrap64 (maxItemBytes + maxSpoolHeaderBytes + 1) then Inl ErrCorruptSpool
      else
        (case readHeader c of
           None \<Rightarrow> Inl ErrCorruptSpool
         | Some (header, rest) \<Rightarrow>
             if int (length header) \<le> 1 \<or> int (length header) > maxSpoolHeaderBytes + 1
             then Inl ErrCorruptSpool
             else
               (case cUnmarshal C (butlast header) of
                  None \<Rightarrow> Inl ErrCorruptSpool
                | Some envelope \<Rightarrow>
                    if envVersion envelope \<noteq> spoolVersion \<or> envCreatedAt envelope = 0 \<or>
                       envPayloadBytes envelope \<le> 0 \<or> envPayloadBytes envelope > maxItemBytes
                    then Inl ErrCorruptSpool
                    else
                      let payload = take (nat (wrap64 (maxItemBytes + 1))) rest
                      in if \<not> readOk \<or> int (length payload) \<noteq> envPayloadBytes envelope \<or>
                            hashPayload C payload \<noteq> envPayloadSHA256 envelope
                         then Inl ErrCorruptSpool
                         else Inr (envelope, payload, size))))"

definition readSpoolFile ::
  "spoolCodec \<Rightarrow> spoolEnv \<Rightarrow> disk \<Rightarrow> string \<Rightarrow> int \<Rightarrow> spoolError + (spoolEnvelope \<times> bytes \<times> int)" where
  "readSpoolFile C E d path maxItemBytes =
     (case map_of d path of
        Some (DFile c) \<Rightarrow>
          (if \<not> spIo E (IoOpen path) then Inl (SpoolIO ''open'')
           else parseSpoolRecord C maxItemBytes (spIo E (IoRead path)) c)
      | _ \<Rightarrow> Inl (SpoolIO ''open''))"

section \<open>Ordering\<close>

definition entID :: "spoolEntry \<Rightarrow> string" where
  "entID e = itemID (entItem e)"

definition spoolLess :: "bool \<Rightarrow> spoolEntry \<Rightarrow> spoolEntry \<Rightarrow> bool" where
  "spoolLess oldestOnly left right =
     (let leftPriority = spoolPriorityRank (itemPriority (entItem left));
          rightPriority = spoolPriorityRank (itemPriority (entItem right))
      in if \<not> oldestOnly \<and> leftPriority \<noteq> rightPriority then leftPriority < rightPriority
         else if itemCreatedAt (entItem left) = itemCreatedAt (entItem right)
         then itemID (entItem left) < itemID (entItem right)
         else itemCreatedAt (entItem left) < itemCreatedAt (entItem right))"

definition sortedEntries :: "bool \<Rightarrow> spoolEntry list \<Rightarrow> spoolEntry list" where
  "sortedEntries oldestOnly es = sortSlice (spoolLess oldestOnly) es"

lemma set_sortedEntries [simp]: "set (sortedEntries b es) = set es"
  by (simp add: sortedEntries_def)


section \<open>The map of entries\<close>

definition getEntry :: "spoolEntry list \<Rightarrow> string \<Rightarrow> spoolEntry option" where
  "getEntry es i = find (\<lambda>e. entID e = i) es"

definition deleteEntry :: "string \<Rightarrow> spoolEntry list \<Rightarrow> spoolEntry list" where
  "deleteEntry i es = filter (\<lambda>e. entID e \<noteq> i) es"

definition putEntry :: "spoolEntry \<Rightarrow> spoolEntry list \<Rightarrow> spoolEntry list" where
  "putEntry e es = e # deleteEntry (entID e) es"

section \<open>Operations\<close>

text \<open>\<open>os.Remove\<close> of one file of the directory.\<close>

definition removeFile :: "spoolEnv \<Rightarrow> string \<Rightarrow> disk \<Rightarrow> disk option" where
  "removeFile E path d =
     (if spIo E (IoRemove path) \<and> map_of d path \<noteq> None then Some (AList.delete path d) else None)"

definition evictMetrics :: "spoolEntry \<Rightarrow> SpoolMetrics \<Rightarrow> SpoolMetrics" where
  "evictMetrics victim m =
     m\<lparr>mDepth := wrap64 (mDepth m - 1), mBytes := wrap64 (mBytes m - entFileBytes victim),
       mEvictedTotal := mEvictedTotal m + 1\<rparr>"

definition evictEntry :: "spoolEntry \<Rightarrow> disk \<Rightarrow> DurableSpool \<Rightarrow> DurableSpool" where
  "evictEntry victim d s =
     s\<lparr>spDisk := d, spEntries := deleteEntry (entID victim) (spEntries s),
       spMetrics := evictMetrics victim (spMetrics s)\<rparr>"

function enforceQuota ::
  "spoolEnv \<Rightarrow> string \<Rightarrow> DurableSpool \<Rightarrow> DurableSpool \<times> (spoolError + unit)" where
  "enforceQuota E protectedID s =
     (if mBytes (spMetrics s) > spMaxBytes s then
        (case dropWhile (\<lambda>e. entID e = protectedID) (sortedEntries True (spEntries s)) of
           [] \<Rightarrow> (s, Inl ErrInvalidSpoolItem)
         | victim # _ \<Rightarrow>
             (case removeFile E (entPath victim) (spDisk s) of
                None \<Rightarrow> (s, Inl (SpoolIO ''evict store-and-forward item''))
              | Some d \<Rightarrow> enforceQuota E protectedID (evictEntry victim d s)))
      else (s, Inr ()))"
  by pat_completeness auto
termination
proof (relation "measure (\<lambda>(E, p, s). length (spEntries s))", goal_cases)
  case 1
  show ?case by simp
next
  case (2 E p s victim rest d)
  then have "victim \<in> set (dropWhile (\<lambda>e. entID e = p) (sortedEntries True (spEntries s)))"
    by simp
  then have "victim \<in> set (spEntries s)" by (auto dest: set_dropWhileD)
  then show ?case
    by (auto simp: evictEntry_def deleteEntry_def intro!: length_filter_less)
qed

declare enforceQuota.simps [simp del]

definition enqueueEntry :: "spoolEntry \<Rightarrow> disk \<Rightarrow> DurableSpool \<Rightarrow> DurableSpool" where
  "enqueueEntry e d s =
     s\<lparr>spDisk := d, spEntries := putEntry e (spEntries s),
       spMetrics := (spMetrics s)\<lparr>mDepth := wrap64 (mDepth (spMetrics s) + 1),
         mBytes := wrap64 (mBytes (spMetrics s) + entFileBytes e),
         mEnqueuedTotal := mEnqueuedTotal (spMetrics s) + 1\<rparr>\<rparr>"

text \<open>The item, the envelope and the entry of an accepted payload (lines 160 to 185).\<close>

definition newItem :: "spoolEnv \<Rightarrow> string \<Rightarrow> SpoolPriority \<Rightarrow> bytes \<Rightarrow> SpoolItem" where
  "newItem E i priority payload = \<lparr>itemID = i, itemPriority = priority, itemCreatedAt = spNow E,
     itemSizeBytes = int (length payload)\<rparr>"

definition itemEnvelope :: "SpoolItem \<Rightarrow> string \<Rightarrow> spoolEnvelope" where
  "itemEnvelope it payloadHash = \<lparr>envVersion = spoolVersion, envID = itemID it,
     envPriority = itemPriority it, envCreatedAt = itemCreatedAt it,
     envPayloadBytes = itemSizeBytes it, envPayloadSHA256 = payloadHash\<rparr>"

definition newRecord ::
  "spoolCodec \<Rightarrow> spoolEnv \<Rightarrow> string \<Rightarrow> SpoolPriority \<Rightarrow> bytes \<Rightarrow> spoolError + bytes" where
  "newRecord C E i priority payload =
     encodeSpoolRecord C (itemEnvelope (newItem E i priority payload) (hashPayload C payload)) payload"

definition newEntry ::
  "spoolCodec \<Rightarrow> spoolEnv \<Rightarrow> string \<Rightarrow> SpoolPriority \<Rightarrow> bytes \<Rightarrow> bytes \<Rightarrow> spoolEntry" where
  "newEntry C E i priority payload rec = \<lparr>entItem = newItem E i priority payload,
     entPath = spoolFilename (spNow E) i, entFileBytes = int (length rec),
     entPayloadHash = hashPayload C payload\<rparr>"

text \<open>The guard of \<open>enqueue\<close>, on the trimmed id.\<close>

definition admissible :: "string \<Rightarrow> SpoolPriority \<Rightarrow> bytes \<Rightarrow> DurableSpool \<Rightarrow> bool" where
  "admissible i priority payload s \<longleftrightarrow>
     \<not> (\<not> validSpoolID i \<or> \<not> validSpoolPriority priority \<or> length payload = 0 \<or>
        int (length payload) > spMaxItemBytes s)"

definition enqueue ::
  "spoolCodec \<Rightarrow> spoolEnv \<Rightarrow> string \<Rightarrow> SpoolPriority \<Rightarrow> bytes \<Rightarrow> bool \<Rightarrow> DurableSpool \<Rightarrow>
     DurableSpool \<times> (spoolError + SpoolItem)" where
  "enqueue C E rawID priority payload allowEviction s =
     (let i = trimSpace rawID in
      if \<not> admissible i priority payload s then (s, Inl ErrInvalidSpoolItem)
      else
        (case getEntry (spEntries s) i of
           Some existing \<Rightarrow>
             if itemPriority (entItem existing) = priority \<and>
                entPayloadHash existing = hashPayload C payload
             then (s, Inr (entItem existing))
             else (s, Inl ErrSpoolConflict)
         | None \<Rightarrow>
             (case newRecord C E i priority payload of
                Inl _ \<Rightarrow> (s, Inl ErrInvalidSpoolItem)
              | Inr rec \<Rightarrow>
                  if int (length rec) > spMaxBytes s then (s, Inl ErrInvalidSpoolItem)
                  else if \<not> allowEviction \<and>
                          wrap64 (mBytes (spMetrics s) + int (length rec)) > spMaxBytes s
                  then (s, Inl ErrSpoolCapacity)
                  else
                    (case writeSpoolFileAtomic E (spoolFilename (spNow E) i) rec (spDisk s) of
                       (d, Inl err) \<Rightarrow> (s\<lparr>spDisk := d\<rparr>, Inl err)
                     | (d, Inr _) \<Rightarrow>
                         let s' = enqueueEntry (newEntry C E i priority payload rec) d s
                         in if allowEviction then
                              (case enforceQuota E i s' of
                                 (s'', Inl err) \<Rightarrow> (s'', Inl err)
                               | (s'', Inr _) \<Rightarrow> (s'', Inr (newItem E i priority payload)))
                            else (s', Inr (newItem E i priority payload))))))"

definition Enqueue ::
  "spoolCodec \<Rightarrow> spoolEnv \<Rightarrow> string \<Rightarrow> SpoolPriority \<Rightarrow> bytes \<Rightarrow> DurableSpool \<Rightarrow>
     DurableSpool \<times> (spoolError + SpoolItem)" where
  "Enqueue C E i priority payload s = enqueue C E i priority payload True s"

definition EnqueueRetained ::
  "spoolCodec \<Rightarrow> spoolEnv \<Rightarrow> string \<Rightarrow> SpoolPriority \<Rightarrow> bytes \<Rightarrow> DurableSpool \<Rightarrow>
     DurableSpool \<times> (spoolError + SpoolItem)" where
  "EnqueueRetained C E i priority payload s = enqueue C E i priority payload False s"

text \<open>The read, check and return that \<open>Next\<close> and \<open>NextPriority\<close> share.\<close>

definition readEntry ::
  "spoolCodec \<Rightarrow> spoolEnv \<Rightarrow> DurableSpool \<Rightarrow> spoolEntry \<Rightarrow> spoolError + SpoolMessage" where
  "readEntry C E s e =
     (case readSpoolFile C E (spDisk s) (entPath e) (spMaxItemBytes s) of
        Inl _ \<Rightarrow> Inl ErrCorruptSpool
      | Inr (envelope, payload, _) \<Rightarrow>
          if envID envelope \<noteq> itemID (entItem e) \<or> envPayloadSHA256 envelope \<noteq> entPayloadHash e
          then Inl ErrCorruptSpool
          else Inr \<lparr>msgItem = entItem e, msgPayload = payload\<rparr>)"

definition NextItem :: "spoolCodec \<Rightarrow> spoolEnv \<Rightarrow> DurableSpool \<Rightarrow> spoolError + SpoolMessage" where
  "NextItem C E s =
     (case sortedEntries False (spEntries s) of
        [] \<Rightarrow> Inl ErrSpoolEmpty
      | e # _ \<Rightarrow> readEntry C E s e)"

definition NextPriority ::
  "spoolCodec \<Rightarrow> spoolEnv \<Rightarrow> SpoolPriority \<Rightarrow> DurableSpool \<Rightarrow> spoolError + SpoolMessage" where
  "NextPriority C E priority s =
     (if \<not> validSpoolPriority priority then Inl ErrInvalidSpoolItem
      else
        (case dropWhile (\<lambda>e. itemPriority (entItem e) \<noteq> priority) (sortedEntries False (spEntries s)) of
           [] \<Rightarrow> Inl ErrSpoolEmpty
         | e # _ \<Rightarrow> readEntry C E s e))"

definition Ack :: "spoolEnv \<Rightarrow> string \<Rightarrow> DurableSpool \<Rightarrow> DurableSpool \<times> (spoolError + unit)" where
  "Ack E rawID s =
     (let i = trimSpace rawID in
      if \<not> validSpoolID i then (s, Inl ErrInvalidSpoolItem)
      else
        (case getEntry (spEntries s) i of
           None \<Rightarrow> (s, Inl ErrSpoolItemNotFound)
         | Some entry \<Rightarrow>
             (case removeFile E (entPath entry) (spDisk s) of
                None \<Rightarrow> (s, Inl (SpoolIO ''acknowledge store-and-forward item''))
              | Some d \<Rightarrow>
                  (s\<lparr>spDisk := d, spEntries := deleteEntry i (spEntries s),
                     spMetrics := (spMetrics s)\<lparr>mDepth := wrap64 (mDepth (spMetrics s) - 1),
                       mBytes := wrap64 (mBytes (spMetrics s) - entFileBytes entry),
                       mAckedTotal := mAckedTotal (spMetrics s) + 1\<rparr>\<rparr>, Inr ()))))"

definition Metrics :: "spoolEnv \<Rightarrow> DurableSpool \<Rightarrow> SpoolMetrics" where
  "Metrics E s =
     (case sortedEntries True (spEntries s) of
        [] \<Rightarrow> spMetrics s
      | oldest # _ \<Rightarrow>
          let age = timeSub (spNow E) (itemCreatedAt (entItem oldest))
          in (spMetrics s)\<lparr>mOldestAge := if age < 0 then 0 else age\<rparr>)"

section \<open>Restart\<close>

definition recoverEntry :: "spoolEnvelope \<Rightarrow> string \<Rightarrow> int \<Rightarrow> spoolEntry" where
  "recoverEntry envelope path fileBytes =
     \<lparr>entItem = \<lparr>itemID = envID envelope, itemPriority = envPriority envelope,
        itemCreatedAt = envCreatedAt envelope, itemSizeBytes = envPayloadBytes envelope\<rparr>,
      entPath = path, entFileBytes = fileBytes, entPayloadHash = envPayloadSHA256 envelope\<rparr>"

definition addRecovered :: "spoolEntry \<Rightarrow> DurableSpool \<Rightarrow> DurableSpool" where
  "addRecovered e s =
     s\<lparr>spEntries := putEntry e (spEntries s),
       spMetrics := (spMetrics s)\<lparr>mDepth := wrap64 (mDepth (spMetrics s) + 1),
         mBytes := wrap64 (mBytes (spMetrics s) + entFileBytes e)\<rparr>\<rparr>"

text \<open>One turn of the loop over the directory entries; \<open>Inr\<close> continues the loop.\<close>

definition recoverStep ::
  "spoolCodec \<Rightarrow> spoolEnv \<Rightarrow> string \<times> dnode \<Rightarrow> DurableSpool \<Rightarrow> DurableSpool \<times> (spoolError + unit)" where
  "recoverStep C E de s =
     (let name = fst de; isDir = (snd de = DDir) in
      if prefix ''.spool-'' name then
        (if isDir then (s, Inl ErrCorruptSpool)
         else (case removeFile E name (spDisk s) of
                 None \<Rightarrow> (s, Inl (SpoolIO ''remove incomplete store-and-forward item''))
               | Some d \<Rightarrow> (s\<lparr>spDisk := d\<rparr>, Inr ())))
      else if isDir \<or> \<not> suffix spoolExtension name then (s, Inr ())
      else if \<not> spIo E (IoInfo name) \<or> snd de = DOther then (s, Inl ErrCorruptSpool)
      else
        (case readSpoolFile C E (spDisk s) name (spMaxItemBytes s) of
           Inl _ \<Rightarrow> (s, Inl ErrCorruptSpool)
         | Inr (envelope, _, fileBytes) \<Rightarrow>
             if \<not> validSpoolID (envID envelope) \<or> \<not> validSpoolPriority (envPriority envelope)
             then (s, Inl ErrCorruptSpool)
             else if getEntry (spEntries s) (envID envelope) \<noteq> None then (s, Inl ErrCorruptSpool)
             else (addRecovered (recoverEntry envelope name fileBytes) s, Inr ())))"

fun recoverLoop ::
  "spoolCodec \<Rightarrow> spoolEnv \<Rightarrow> disk \<Rightarrow> DurableSpool \<Rightarrow> DurableSpool \<times> (spoolError + unit)" where
  "recoverLoop C E [] s = (s, Inr ())"
| "recoverLoop C E (de # des) s =
     (case recoverStep C E de s of
        (s', Inl err) \<Rightarrow> (s', Inl err)
      | (s', Inr _) \<Rightarrow> recoverLoop C E des s')"

text \<open>\<open>os.ReadDir\<close> returns the directory sorted by file name.\<close>

definition recover ::
  "spoolCodec \<Rightarrow> spoolEnv \<Rightarrow> DurableSpool \<Rightarrow> DurableSpool \<times> (spoolError + unit)" where
  "recover C E s =
     (if \<not> spIo E IoReadDir then (s, Inl (SpoolIO ''read store-and-forward directory''))
      else recoverLoop C E (sort_key fst (spDisk s)) s)"

text \<open>
  The constructor runs on the directory as a previous process left it. \<open>absOk\<close> is the outcome of
  \<open>filepath.Abs\<close>. The directory is returned with the result, because a failing call may already
  have removed incomplete items.
\<close>

definition NewDurableSpool ::
  "spoolCodec \<Rightarrow> spoolEnv \<Rightarrow> bool \<Rightarrow> string \<Rightarrow> int \<Rightarrow> int \<Rightarrow> disk \<Rightarrow>
     disk \<times> (spoolError + DurableSpool)" where
  "NewDurableSpool C E absOk root maxBytes maxItemBytes d =
     (if trimSpace root = [] \<or> maxBytes \<le> 0 \<or> maxItemBytes \<le> 0 \<or> maxItemBytes > maxBytes
      then (d, Inl ErrInvalidSpoolConfig)
      else if \<not> absOk then (d, Inl ErrInvalidSpoolConfig)
      else if \<not> spIo E IoMkdirAll then (d, Inl (SpoolIO ''create store-and-forward directory''))
      else if \<not> spIo E IoChmodDir then (d, Inl (SpoolIO ''restrict store-and-forward directory''))
      else
        let spool = \<lparr>spMaxBytes = maxBytes, spMaxItemBytes = maxItemBytes, spEntries = [],
              spMetrics = zeroMetrics, spDisk = d\<rparr>
        in (case recover C E spool of
              (s, Inl err) \<Rightarrow> (spDisk s, Inl err)
            | (s, Inr _) \<Rightarrow>
                (case enforceQuota E [] s of
                   (s', Inl err) \<Rightarrow> (spDisk s', Inl err)
                 | (s', Inr _) \<Rightarrow> (spDisk s', Inr s'))))"

end
