(* ===== verification/Identifiers.thy ===== *)
theory Identifiers
  imports Go_Prelude
begin

text \<open>
  UUID texts as the edge agent reads and writes them: \<open>canonicalReviewUUID\<close> of
  \<open>event_delivery.go\<close>, and \<open>newUUIDv4\<close>, \<open>normalizeUUIDv4\<close> and \<open>formatUUID\<close> of
  \<open>heartbeat.go\<close>. The lemmas show the hexadecimal round trip, that canonical texts are fixed
  points of both normalizations, and which bytes they can hold.
\<close>

unbundle bit_operations_syntax

section \<open>Definitions\<close>

text \<open>\<open>strings.ReplaceAll(value, "-", "")\<close>.\<close>

definition withoutDashes :: "string \<Rightarrow> string" where
  "withoutDashes s = filter (\<lambda>c. c \<noteq> CHR ''-'') s"

definition canonicalReviewUUID :: "(string \<Rightarrow> string) \<Rightarrow> string \<Rightarrow> string option" where
  "canonicalReviewUUID uni v =
     (let value = toLower uni (trimSpace v) in
      if length value \<noteq> 36 \<or> value ! 8 \<noteq> CHR ''-'' \<or> value ! 13 \<noteq> CHR ''-'' \<or>
         value ! 18 \<noteq> CHR ''-'' \<or> value ! 23 \<noteq> CHR ''-''
      then None
      else
        (case hexDecode (withoutDashes value) of
           None \<Rightarrow> None
         | Some decoded \<Rightarrow> if length decoded \<noteq> 16 then None else Some value))"

definition formatUUID :: "bytes \<Rightarrow> string" where
  "formatUUID bs =
     hexEncode (take 4 bs) @ ''-'' @ hexEncode (take 2 (drop 4 bs)) @ ''-'' @
     hexEncode (take 2 (drop 6 bs)) @ ''-'' @ hexEncode (take 2 (drop 8 bs)) @ ''-'' @
     hexEncode (take 6 (drop 10 bs))"

text \<open>A byte as the eight-bit word the bit operations work on, and back.\<close>

definition byteOf :: "char \<Rightarrow> 8 word" where
  "byteOf c = of_nat (of_char c)"

definition ofByte :: "8 word \<Rightarrow> char" where
  "ofByte w = char_of (unat w)"

definition normalizeUUIDv4 :: "string \<Rightarrow> string option" where
  "normalizeUUIDv4 v =
     (let compact = withoutDashes (trimSpace v) in
      if length compact \<noteq> 32 then None
      else
        (case hexDecode compact of
           None \<Rightarrow> None
         | Some bs \<Rightarrow>
             if length bs \<noteq> 16 \<or> drop_bit 4 (byteOf (bs ! 6)) \<noteq> 4 \<or> byteOf (bs ! 8) AND 0xc0 \<noteq> 0x80
             then None else Some (formatUUID bs)))"

text \<open>The random source is a parameter: the sixteen bytes it fills in, or its failure.\<close>

definition newUUIDv4 :: "bytes option \<Rightarrow> string option" where
  "newUUIDv4 random =
     (case random of
        None \<Rightarrow> None
      | Some bs \<Rightarrow>
          let bs6 = bs[6 := ofByte ((byteOf (bs ! 6) AND 0x0f) OR 0x40)];
              bs8 = bs6[8 := ofByte ((byteOf (bs6 ! 8) AND 0x3f) OR 0x80)]
          in Some (formatUUID bs8))"

section \<open>Hexadecimal\<close>

definition lowerHex :: "char \<Rightarrow> bool" where
  "lowerHex c \<longleftrightarrow> (let n = of_char c in (48 \<le> n \<and> n \<le> (57 :: nat)) \<or> (97 \<le> n \<and> n \<le> 102))"

definition hexChar :: "char \<Rightarrow> bool" where
  "hexChar c \<longleftrightarrow> hexValue c \<noteq> None"

lemma hexDigit_cases: "n < 16 \<Longrightarrow> lowerHex (hexDigit n) \<and> hexValue (hexDigit n) = Some n"
  by (auto simp: lowerHex_def hexDigit_def hexValue_def Let_def of_char_of)

lemma nibbles: "of_char (b :: char) div (16 :: nat) < 16" "of_char b mod (16 :: nat) < 16"
  by (rule less_mult_imp_div_less) simp_all

lemma hexDecode_encode [simp]: "hexDecode (hexEncode bs @ cs) = map_option ((@) bs) (hexDecode cs)"
proof (induction bs)
  case (Cons b bs)
  have "char_of (16 * (of_char b div 16) + of_char b mod (16 :: nat)) = b" by simp
  with Cons show ?case
    using hexDigit_cases [OF nibbles(1) [of b]] hexDigit_cases [OF nibbles(2) [of b]]
    by (cases "hexDecode cs") auto
qed (simp add: option.map_ident)

lemma hexDecode_encode_all [simp]: "hexDecode (hexEncode bs) = Some bs"
  using hexDecode_encode [of bs "[]"] by simp

lemma length_hexEncode [simp]: "length (hexEncode bs) = 2 * length bs"
  by (induction bs) auto

lemma set_hexEncode: "c \<in> set (hexEncode bs) \<Longrightarrow> lowerHex c"
  by (induction bs) (auto simp: hexDigit_cases nibbles)

lemma hexEncode_append: "hexEncode (xs @ ys) = hexEncode xs @ hexEncode ys"
  by (induction xs) auto

lemma hexValue_hexChar: "hexValue c = Some n \<Longrightarrow> hexChar c"
  by (simp add: hexChar_def)

lemma hexDecode_chars: "hexDecode s = Some bs \<Longrightarrow> c \<in> set s \<Longrightarrow> hexChar c"
  by (induction s arbitrary: bs rule: hexDecode.induct)
    (auto split: option.splits dest: hexValue_hexChar)

lemma hexDecode_length: "hexDecode s = Some bs \<Longrightarrow> length s = 2 * length bs"
  by (induction s arbitrary: bs rule: hexDecode.induct) (auto split: option.splits)

section \<open>Text without white space\<close>

text \<open>Bytes that neither begin nor end a white-space encoding.\<close>

definition solid :: "char \<Rightarrow> bool" where
  "solid c \<longleftrightarrow> c \<notin> set (map hd spaceEncodings) \<and> c \<notin> set (map last spaceEncodings)"

lemma trimSpace_solid: "list_all solid s \<Longrightarrow> trimSpace s = s"
proof -
  assume s: "list_all solid s"
  have front: "\<not> prefix w s" if "w \<in> set spaceEncodings" "w \<noteq> []" for w
  proof
    assume "prefix w s"
    then have "hd w \<in> set s" using that(2) by (metis hd_in_set set_mono_prefix subsetD)
    with s that(1) show False by (auto simp: list_all_iff solid_def)
  qed
  have "\<not> prefix w (rev s)" if w: "w \<in> set (map rev spaceEncodings)" "w \<noteq> []" for w
  proof
    assume "prefix w (rev s)"
    then have "hd w \<in> set s" using w(2) by (metis hd_in_set set_mono_prefix set_rev subsetD)
    with s w(1) show False by (auto simp: list_all_iff solid_def hd_rev)
  qed
  then have "stripLeading (map rev spaceEncodings) (rev s) = rev s" by (rule stripLeading_id)
  moreover have "stripLeading spaceEncodings s = s" by (rule stripLeading_id) (rule front)
  ultimately show ?thesis by (simp add: trimSpace_def)
qed

lemma uuid_chars: "hexChar c \<or> c = CHR ''-'' \<Longrightarrow> solid c \<and> asciiChar c"
  by (auto simp: hexChar_def hexValue_def Let_def solid_def spaceEncodings_def asciiChar_def split: if_splits)

lemma lowerHex_hexChar: "lowerHex c \<Longrightarrow> hexChar c" "lowerHex c \<Longrightarrow> c \<noteq> CHR ''-''"
    "lowerHex c \<or> c = CHR ''-'' \<Longrightarrow> lowerChar c = c"
  by (auto simp: lowerHex_def hexChar_def hexValue_def Let_def lowerChar_def less_eq_char_def)

section \<open>Canonical texts\<close>

definition uuidText :: "string \<Rightarrow> bool" where
  "uuidText u \<longleftrightarrow> length u = 36 \<and> list_all (\<lambda>c. lowerHex c \<or> c = CHR ''-'') u"

lemma uuidText_trim [simp]: "uuidText u \<Longrightarrow> trimSpace u = u"
  by (rule trimSpace_solid) (simp add: uuidText_def list_all_iff, metis lowerHex_hexChar(1) uuid_chars)

lemma uuidText_lower [simp]: "uuidText u \<Longrightarrow> toLower uni u = u"
proof -
  assume "uuidText u"
  then have u: "lowerHex c \<or> c = CHR ''-''" if "c \<in> set u" for c
    using that by (auto simp: uuidText_def list_all_iff)
  then have "asciiChar c \<and> lowerChar c = c" if "c \<in> set u" for c
    using that lowerHex_hexChar(1,3) uuid_chars by blast
  then show ?thesis by (auto simp: toLower_def list_all_iff intro!: map_idI)
qed

text \<open>The documented property of Unicode lowering that is used: a lowered text stays as it is.\<close>

definition lowerOK :: "(string \<Rightarrow> string) \<Rightarrow> bool" where
  "lowerOK uni \<longleftrightarrow> (\<forall>s. toLower uni (uni s) = uni s)"

lemma lowerChar_idem [simp]: "lowerChar (lowerChar c) = lowerChar c"
  by (auto simp: lowerChar_def less_eq_char_def of_char_of)

lemma lowerChar_ascii: "asciiChar c \<Longrightarrow> asciiChar (lowerChar c)"
  by (auto simp: lowerChar_def less_eq_char_def asciiChar_def of_char_of)

lemma toLower_idem [simp]: "lowerOK uni \<Longrightarrow> toLower uni (toLower uni s) = toLower uni s"
proof (cases "list_all asciiChar s")
  case True
  then have "list_all asciiChar (map lowerChar s)" by (auto simp: list_all_iff lowerChar_ascii)
  with True show ?thesis by (simp add: toLower_def)
qed (simp add: lowerOK_def toLower_def [of uni s])

lemma lowered_hex: "hexChar c \<Longrightarrow> lowerChar c = c \<Longrightarrow> lowerHex c"
proof -
  assume c: "hexChar c" "lowerChar c = c"
  have "of_char c < (65 :: nat) \<or> 90 < (of_char c :: nat)"
  proof (rule ccontr)
    assume n: "\<not> ?thesis"
    then have "of_char (lowerChar c) = (of_char c + 32 :: nat)"
      by (simp add: lowerChar_def less_eq_char_def of_char_of)
    with c(2) show False by simp
  qed
  with c(1) show ?thesis by (auto simp: hexChar_def hexValue_def lowerHex_def Let_def split: if_splits)
qed

lemma canonicalReviewUUID_text:
  assumes "canonicalReviewUUID uni v = Some u" "lowerOK uni"
  shows "uuidText u"
proof -
  from assms obtain bs where u: "u = toLower uni (trimSpace v)" "length u = 36"
    "hexDecode (withoutDashes u) = Some bs"
    by (auto simp: canonicalReviewUUID_def Let_def split: if_splits option.splits)
  have hex: "hexChar c \<or> c = CHR ''-''" if "c \<in> set u" for c
    using hexDecode_chars [OF u(3), of c] that by (auto simp: withoutDashes_def)
  have "toLower uni u = u" using u(1) assms(2) by simp
  moreover have "list_all asciiChar u" using hex uuid_chars by (auto simp: list_all_iff)
  ultimately have "map lowerChar u = u" by (simp add: toLower_def)
  then have "lowerChar c = c" if "c \<in> set u" for c using that by (metis map_eq_conv map_ident)
  with hex lowered_hex u(2) show ?thesis unfolding uuidText_def list_all_iff by blast
qed

lemma canonicalReviewUUID_fixed:
  assumes "canonicalReviewUUID uni v = Some u" "lowerOK uni"
  shows "canonicalReviewUUID uni u = Some u"
proof -
  from assms(1) have "u = toLower uni (trimSpace v)"
    by (auto simp: canonicalReviewUUID_def Let_def split: if_splits option.splits)
  moreover have "toLower uni (trimSpace u) = u" using canonicalReviewUUID_text [OF assms] by simp
  ultimately show ?thesis using assms(1) by (simp add: canonicalReviewUUID_def)
qed

lemma formatUUID_text: "length bs = 16 \<Longrightarrow> uuidText (formatUUID bs)"
  by (auto simp: uuidText_def formatUUID_def list_all_iff dest: set_hexEncode)

lemma withoutDashes_hex [simp]: "withoutDashes (hexEncode bs @ s) = hexEncode bs @ withoutDashes s"
  by (auto simp: withoutDashes_def dest: set_hexEncode lowerHex_hexChar(2) intro!: filter_True)

lemma withoutDashes_dash [simp]: "withoutDashes (CHR ''-'' # s) = withoutDashes s" "withoutDashes [] = []"
  by (simp_all add: withoutDashes_def)

lemma slices16: "length bs = 16 \<Longrightarrow>
    take 4 bs @ take 2 (drop 4 bs) @ take 2 (drop 6 bs) @ take 2 (drop 8 bs) @ take 6 (drop 10 bs) = bs"
  using append_take_drop_id [of 4 bs] append_take_drop_id [of 2 "drop 4 bs"] append_take_drop_id [of 2 "drop 6 bs"]
    append_take_drop_id [of 2 "drop 8 bs"] by simp

lemma withoutDashes_format: "length bs = 16 \<Longrightarrow> withoutDashes (formatUUID bs) = hexEncode bs"
  using withoutDashes_hex [of "take 6 (drop 10 bs)" "[]"] slices16 [of bs]
  by (simp add: formatUUID_def flip: hexEncode_append)

definition uuidV4 :: "bytes \<Rightarrow> bool" where
  "uuidV4 bs \<longleftrightarrow> length bs = 16 \<and> drop_bit 4 (byteOf (bs ! 6)) = 4 \<and> byteOf (bs ! 8) AND 0xc0 = 0x80"

lemma normalize_format: "uuidV4 bs \<Longrightarrow> normalizeUUIDv4 (formatUUID bs) = Some (formatUUID bs)"
  by (simp add: normalizeUUIDv4_def uuidV4_def formatUUID_text withoutDashes_format Let_def)

lemma normalizeUUIDv4_Some:
  "normalizeUUIDv4 v = Some u \<Longrightarrow> \<exists>bs. uuidV4 bs \<and> u = formatUUID bs"
  by (auto simp: normalizeUUIDv4_def uuidV4_def Let_def split: if_splits option.splits)

lemma byteOf_ofByte [simp]: "byteOf (ofByte w) = w"
proof -
  have "unat w < 256" using unsigned_less [of w, where 'a = nat] by simp
  then have "of_char (ofByte w) = unat w" by (simp add: ofByte_def of_char_of)
  then show ?thesis by (simp add: byteOf_def)
qed

lemma version_bits:
  "drop_bit 4 ((b AND 0x0f) OR 0x40) = (4 :: 8 word)" "((b AND 0x3f) OR 0x80) AND 0xc0 = (0x80 :: 8 word)"
  by (simp_all add: drop_bit_or drop_bit_and bit.conj_disj_distrib2 and.assoc)

lemma newUUIDv4_V4:
  assumes "length bs = 16"
  shows "\<exists>bs'. uuidV4 bs' \<and> newUUIDv4 (Some bs) = Some (formatUUID bs')"
proof -
  have "uuidV4 (bs[6 := ofByte ((byteOf (bs ! 6) AND 0x0f) OR 0x40), 8 := ofByte ((byteOf (bs ! 8) AND 0x3f) OR 0x80)])"
    using assms by (simp add: uuidV4_def version_bits)
  then show ?thesis by (auto simp: newUUIDv4_def Let_def)
qed

end
