(* ===== verification/Go_Float.thy ===== *)
theory Go_Float
  imports Complex_Main Go_Prelude
begin

text \<open>
  \<open>float64\<close> as far as the modelled code uses it: values are compared and copied, never computed
  with, so a finite value is the rational number it denotes. Every comparison with a NaN is false.
\<close>

datatype float64 = NaN | PosInf | NegInf | Fin rat

fun isNaN :: "float64 \<Rightarrow> bool" where
  "isNaN NaN = True"
| "isNaN _ = False"

text \<open>\<open>math.IsInf(x, 0)\<close>.\<close>

fun isInf :: "float64 \<Rightarrow> bool" where
  "isInf PosInf = True"
| "isInf NegInf = True"
| "isInf _ = False"

fun fless :: "float64 \<Rightarrow> float64 \<Rightarrow> bool" where
  "fless NaN y = False"
| "fless x NaN = False"
| "fless (Fin a) (Fin b) = (a < b)"
| "fless NegInf y = (y \<noteq> NegInf)"
| "fless x NegInf = False"
| "fless x PosInf = (x \<noteq> PosInf)"
| "fless PosInf y = False"

text \<open>\<open>x >= y\<close>, which is false when either side is a NaN.\<close>

fun fgeq :: "float64 \<Rightarrow> float64 \<Rightarrow> bool" where
  "fgeq (Fin a) (Fin b) = (a \<ge> b)"
| "fgeq x y = (fless y x \<or> (x = y \<and> x \<noteq> NaN))"

text \<open>\<open>x == y\<close> and \<open>math.Abs\<close>.\<close>

definition feq :: "float64 \<Rightarrow> float64 \<Rightarrow> bool" where
  "feq x y \<longleftrightarrow> x = y \<and> x \<noteq> NaN"

fun fabs :: "float64 \<Rightarrow> float64" where
  "fabs (Fin a) = Fin (abs a)"
| "fabs NegInf = PosInf"
| "fabs x = x"

text \<open>The guard the code writes for a finite value between two bounds.\<close>

lemma finite_between:
  "\<not> isNaN x \<Longrightarrow> \<not> isInf x \<Longrightarrow> \<not> fless x (Fin a) \<Longrightarrow> \<not> fless (Fin b) x \<Longrightarrow>
     \<exists>q. x = Fin q \<and> a \<le> q \<and> q \<le> b"
  by (cases x) auto

end
