(* ===== verification/Review_Events.thy ===== *)
theory Review_Events
  imports Spool Identifiers Go_Float
begin

text \<open>
  Delivery of review events, \<open>edge/internal/agent/event_delivery.go\<close>: validation and
  canonicalization of a metadata-only event, its durable queueing and its acknowledged delivery.

  The JSON decoder and encoder of the event and the Unicode lowering are the parameter
  \<open>eventCodec\<close>. \<open>Queue\<close> and \<open>DeliverNext\<close> call the spool through three of its operations; the
  functions \<open>QueueOver\<close> and \<open>DeliverNextOver\<close> take these operations as arguments, so that what
  depends only on the contract of the spool is proved once for the contract.
\<close>

section \<open>Data\<close>

definition maxReviewEventPayloadBytes :: int where
  "maxReviewEventPayloadBytes = 64 * 1024"

datatype reviewError =
    ErrInvalidReviewEvent string | ErrReviewEventScope | ErrReviewDeliveryConfig
  | ReviewSpool spoolError | ReviewSend string | ReviewAck spoolError

definition reviewEventTypes :: "string list" where
  "reviewEventTypes =
     [''camera_health'', ''intrusion'', ''restricted_zone'', ''loitering'', ''vehicle_activity'',
      ''weapon_review'', ''fire_review'', ''smoke_review'', ''ppe_review'', ''fall_review'',
      ''fight_review'', ''abandoned_object_review'']"

definition vehicleReviewClasses :: "string list" where
  "vehicleReviewClasses = [''bicycle'', ''bus'', ''car'', ''motorcycle'', ''truck'', ''van'']"

record reviewEventInput =
  inEventID :: "string option"
  inTenantID :: "string option"
  inDedupeKey :: "string option"
  inOccurredAt :: "gotime option"
  inSiteID :: "string option"
  inCameraID :: "string option"
  inZoneID :: "string option"
  inEventType :: "string option"
  inModelVersion :: "string option"
  inConfidence :: "float64 option"
  inEvidenceRefs :: "string list option"
  inRequiresHumanReview :: "bool option"
  inReviewState :: "string option"
  inObservedBehavior :: "string option"
  inSubjectClass :: "string option"

record reviewEvent =
  evEventID :: string
  evTenantID :: string
  evDedupeKey :: string
  evOccurredAt :: gotime
  evSiteID :: string
  evCameraID :: string
  evZoneID :: string
  evEventType :: string
  evModelVersion :: string
  evConfidence :: float64
  evEvidenceRefs :: "string list"
  evRequiresHumanReview :: bool
  evReviewState :: string
  evObservedBehavior :: string
  evSubjectClass :: string

text \<open>
  \<open>evDecode\<close> reads the first JSON value of a payload, strictly, and leaves the unread bytes;
  \<open>evAtEOF\<close> says that a second \<open>Decode\<close> of those bytes reports the end of the input.
\<close>

record eventCodec =
  evDecode :: "bytes \<Rightarrow> (reviewEventInput \<times> bytes) option"
  evAtEOF :: "bytes \<Rightarrow> bool"
  evMarshal :: "reviewEvent \<Rightarrow> bytes option"
  evLower :: "string \<Rightarrow> string"

record ReviewEventDelivery =
  dvTenantID :: string
  dvSiteID :: string

section \<open>Validation\<close>

text \<open>
  \<open>strings.IndexFunc(value, unicode.IsControl)\<close>: a byte below 32 or 127 is a control character by
  itself, and C2 followed by 80 to 9F encodes the others; neither an ASCII byte nor C2 continues
  another character.
\<close>

fun hasControl :: "string \<Rightarrow> bool" where
  "hasControl [] = False"
| "hasControl (c # cs) =
     (of_char c < (32 :: nat) \<or> of_char c = (127 :: nat) \<or>
      (c = CHR 0xC2 \<and> cs \<noteq> [] \<and> CHR 0x80 \<le> hd cs \<and> hd cs \<le> CHR 0x9F) \<or> hasControl cs)"

definition boundedReviewText :: "string \<Rightarrow> int \<Rightarrow> string option" where
  "boundedReviewText v maximum =
     (let value = trimSpace v in
      if value = [] \<or> int (length value) > maximum \<or> hasControl value then None else Some value)"

definition optionalReviewText :: "string option \<Rightarrow> string" where
  "optionalReviewText v = (case v of None \<Rightarrow> [] | Some s \<Rightarrow> trimSpace s)"

fun boundedRefs :: "string list \<Rightarrow> string list option" where
  "boundedRefs [] = Some []"
| "boundedRefs (r # rs) =
     (case boundedReviewText r 1024 of
        None \<Rightarrow> None
      | Some r' \<Rightarrow> map_option ((#) r') (boundedRefs rs))"

definition decodeReviewEvent :: "eventCodec \<Rightarrow> bytes \<Rightarrow> reviewError + reviewEventInput" where
  "decodeReviewEvent K payload =
     (if length payload = 0 \<or> int (length payload) > maxReviewEventPayloadBytes
      then Inl (ErrInvalidReviewEvent ''payload size is invalid'')
      else
        (case evDecode K payload of
           None \<Rightarrow> Inl (ErrInvalidReviewEvent ''payload is not canonical event JSON'')
         | Some (input, rest) \<Rightarrow>
             if \<not> evAtEOF K rest
             then Inl (ErrInvalidReviewEvent ''payload must contain exactly one event'')
             else if inEventID input = None \<or> inTenantID input = None \<or> inDedupeKey input = None \<or>
               inOccurredAt input = None \<or> inSiteID input = None \<or> inCameraID input = None \<or>
               inZoneID input = None \<or> inEventType input = None \<or> inModelVersion input = None \<or>
               inConfidence input = None \<or> inEvidenceRefs input = None \<or>
               inRequiresHumanReview input = None \<or> inReviewState input = None
             then Inl (ErrInvalidReviewEvent ''required event fields are missing'')
             else Inr input))"

text \<open>The identifiers of an event: the five canonical UUIDs, or the first field that is not one.\<close>

definition reviewIdentifiers ::
  "eventCodec \<Rightarrow> reviewEventInput \<Rightarrow> reviewError + (string \<times> string \<times> string \<times> string \<times> string)" where
  "reviewIdentifiers K input =
     (let uuid = canonicalReviewUUID (evLower K) in
      case uuid (the (inEventID input)) of
        None \<Rightarrow> Inl (ErrInvalidReviewEvent ''event_id must be a UUID'')
      | Some eventID \<Rightarrow>
      (case uuid (the (inTenantID input)) of
        None \<Rightarrow> Inl (ErrInvalidReviewEvent ''tenant_id must be a UUID'')
      | Some tenantID \<Rightarrow>
      (case uuid (the (inSiteID input)) of
        None \<Rightarrow> Inl (ErrInvalidReviewEvent ''site_id must be a UUID'')
      | Some siteID \<Rightarrow>
      (case uuid (the (inCameraID input)) of
        None \<Rightarrow> Inl (ErrInvalidReviewEvent ''camera_id must be a UUID'')
      | Some cameraID \<Rightarrow>
      (case uuid (the (inZoneID input)) of
        None \<Rightarrow> Inl (ErrInvalidReviewEvent ''zone_id must be a UUID'')
      | Some zoneID \<Rightarrow> Inr (eventID, tenantID, siteID, cameraID, zoneID))))))"

text \<open>The vehicle metadata of an event: the error of lines 198 to 207, if any.\<close>

definition vehicleError :: "string \<Rightarrow> string \<Rightarrow> string \<Rightarrow> reviewError option" where
  "vehicleError eventType behavior subjectClass =
     (if eventType = ''vehicle_activity'' then
        (if behavior \<noteq> ''detected''
         then Some (ErrInvalidReviewEvent ''vehicle activity behavior must be detected'')
         else if subjectClass \<notin> set vehicleReviewClasses
         then Some (ErrInvalidReviewEvent ''vehicle activity class is invalid'')
         else None)
      else if behavior \<noteq> [] \<or> subjectClass \<noteq> []
      then Some (ErrInvalidReviewEvent ''vehicle metadata is forbidden for this event type'')
      else None)"

text \<open>The canonical event of a decoded input (lines 155 to 235).\<close>

definition canonicalEvent ::
  "eventCodec \<Rightarrow> ReviewEventDelivery \<Rightarrow> reviewEventInput \<Rightarrow> reviewError + reviewEvent" where
  "canonicalEvent K d input =
     (case reviewIdentifiers K input of
        Inl err \<Rightarrow> Inl err
      | Inr (eventID, tenantID, siteID, cameraID, zoneID) \<Rightarrow>
      if tenantID \<noteq> dvTenantID d \<or> siteID \<noteq> dvSiteID d then Inl ErrReviewEventScope
      else
        let eventType = toLower (evLower K) (trimSpace (the (inEventType input))) in
        if eventType \<notin> set reviewEventTypes
        then Inl (ErrInvalidReviewEvent ''event_type is not an approved non-biometric review type'')
        else
          (case boundedReviewText (the (inDedupeKey input)) 256 of
             None \<Rightarrow> Inl (ErrInvalidReviewEvent ''dedupe_key must be the opaque canonical event key'')
           | Some dedupeKey \<Rightarrow>
          if dedupeKey \<noteq> eventType @ '':'' @ eventID
          then Inl (ErrInvalidReviewEvent ''dedupe_key must be the opaque canonical event key'')
          else
          (case boundedReviewText (the (inModelVersion input)) 128 of
             None \<Rightarrow> Inl (ErrInvalidReviewEvent ''model_version must be bounded metadata'')
           | Some modelVersion \<Rightarrow>
          let confidence = the (inConfidence input) in
          if the (inOccurredAt input) = 0 \<or> isNaN confidence \<or> isInf confidence \<or>
             fless confidence (Fin 0) \<or> fless (Fin 1) confidence
          then Inl (ErrInvalidReviewEvent ''occurrence time and confidence are invalid'')
          else if \<not> the (inRequiresHumanReview input) \<or> trimSpace (the (inReviewState input)) \<noteq> ''pending''
          then Inl (ErrInvalidReviewEvent ''event must remain pending human review'')
          else
            let behavior = optionalReviewText (inObservedBehavior input);
                subjectClass = toLower (evLower K) (optionalReviewText (inSubjectClass input)) in
            (case vehicleError eventType behavior subjectClass of
               Some err \<Rightarrow> Inl err
             | None \<Rightarrow>
            if length (the (inEvidenceRefs input)) > 32
            then Inl (ErrInvalidReviewEvent ''too many evidence references'')
            else
            (case boundedRefs (the (inEvidenceRefs input)) of
               None \<Rightarrow> Inl (ErrInvalidReviewEvent ''evidence reference must be bounded metadata'')
             | Some refs \<Rightarrow>
                 Inr \<lparr>evEventID = eventID, evTenantID = tenantID, evDedupeKey = dedupeKey,
                   evOccurredAt = the (inOccurredAt input), evSiteID = siteID, evCameraID = cameraID,
                   evZoneID = zoneID, evEventType = eventType, evModelVersion = modelVersion,
                   evConfidence = confidence, evEvidenceRefs = refs, evRequiresHumanReview = True,
                   evReviewState = ''pending'', evObservedBehavior = behavior,
                   evSubjectClass = subjectClass\<rparr>)))))"

definition validate ::
  "eventCodec \<Rightarrow> ReviewEventDelivery \<Rightarrow> bytes \<Rightarrow> reviewError + (reviewEvent \<times> bytes)" where
  "validate K d payload =
     (case decodeReviewEvent K payload of
        Inl err \<Rightarrow> Inl err
      | Inr input \<Rightarrow>
          (case canonicalEvent K d input of
             Inl err \<Rightarrow> Inl err
           | Inr event \<Rightarrow>
               (case evMarshal K event of
                  None \<Rightarrow> Inl (ErrInvalidReviewEvent ''event cannot be encoded'')
                | Some canonical \<Rightarrow> Inr (event, canonical))))"

section \<open>Queueing and delivery\<close>

definition NewReviewEventDelivery ::
  "eventCodec \<Rightarrow> string \<Rightarrow> string \<Rightarrow> reviewError + ReviewEventDelivery" where
  "NewReviewEventDelivery K tenantID siteID =
     (case canonicalReviewUUID (evLower K) tenantID of
        None \<Rightarrow> Inl ErrReviewDeliveryConfig
      | Some t \<Rightarrow>
          (case canonicalReviewUUID (evLower K) siteID of
             None \<Rightarrow> Inl ErrReviewDeliveryConfig
           | Some s \<Rightarrow> Inr \<lparr>dvTenantID = t, dvSiteID = s\<rparr>))"

definition reviewItemID :: "string \<Rightarrow> string" where
  "reviewItemID eventID = ''review-'' @ eventID"

definition QueueOver ::
  "('e \<Rightarrow> string \<Rightarrow> SpoolPriority \<Rightarrow> bytes \<Rightarrow> 's \<Rightarrow> 's \<times> (spoolError + SpoolItem)) \<Rightarrow>
     eventCodec \<Rightarrow> ReviewEventDelivery \<Rightarrow> 'e \<Rightarrow> bytes \<Rightarrow> 's \<Rightarrow> 's \<times> (reviewError + SpoolItem)" where
  "QueueOver enq K d E payload s =
     (case validate K d payload of
        Inl err \<Rightarrow> (s, Inl err)
      | Inr (event, canonical) \<Rightarrow>
          (case enq E (reviewItemID (evEventID event)) SpoolMetadata canonical s of
             (s', Inl err) \<Rightarrow> (s', Inl (ReviewSpool err))
           | (s', Inr it) \<Rightarrow> (s', Inr it)))"

text \<open>
  The sender is called at most once; \<open>send\<close> gives its error, if any, and the second component
  of the result is what it was given and accepted.
\<close>

definition DeliverNextOver ::
  "('e \<Rightarrow> SpoolPriority \<Rightarrow> 's \<Rightarrow> spoolError + SpoolMessage) \<Rightarrow>
     ('e \<Rightarrow> string \<Rightarrow> 's \<Rightarrow> 's \<times> (spoolError + unit)) \<Rightarrow> eventCodec \<Rightarrow> ReviewEventDelivery \<Rightarrow>
     'e \<Rightarrow> (bytes \<Rightarrow> string option) \<Rightarrow> 's \<Rightarrow> 's \<times> bytes list \<times> (reviewError + SpoolItem)" where
  "DeliverNextOver nxt ack K d E send s =
     (case nxt E SpoolMetadata s of
        Inl err \<Rightarrow> (s, [], Inl (ReviewSpool err))
      | Inr message \<Rightarrow>
          (case validate K d (msgPayload message) of
             Inl err \<Rightarrow> (s, [], Inl err)
           | Inr (_, canonical) \<Rightarrow>
               (case send canonical of
                  Some err \<Rightarrow> (s, [], Inl (ReviewSend err))
                | None \<Rightarrow>
                    (case ack E (itemID (msgItem message)) s of
                       (s', Inl err) \<Rightarrow> (s', [canonical], Inl (ReviewAck err))
                     | (s', Inr _) \<Rightarrow> (s', [canonical], Inr (msgItem message))))))"

definition Queue ::
  "spoolCodec \<Rightarrow> eventCodec \<Rightarrow> ReviewEventDelivery \<Rightarrow> spoolEnv \<Rightarrow> bytes \<Rightarrow> DurableSpool \<Rightarrow>
     DurableSpool \<times> (reviewError + SpoolItem)" where
  "Queue C = QueueOver (EnqueueRetained C)"

definition DeliverNext ::
  "spoolCodec \<Rightarrow> eventCodec \<Rightarrow> ReviewEventDelivery \<Rightarrow> spoolEnv \<Rightarrow> (bytes \<Rightarrow> string option) \<Rightarrow>
     DurableSpool \<Rightarrow> DurableSpool \<times> bytes list \<times> (reviewError + SpoolItem)" where
  "DeliverNext C = DeliverNextOver (NextPriority C) Ack"

end
