(* ===== verification/Spool_Laws.thy ===== *)
theory Spool_Laws
  imports Spool
begin

text \<open>
  The laws of the durable queue: the record format round trips, the order of the entries does not
  depend on the iteration order of the Go map, file names are owned by one id, and every operation
  keeps the invariant \<open>spoolInv\<close> that ties the entries, the metrics and the directory together,
  whichever operating-system calls fail.
\<close>

section \<open>The record format\<close>

text \<open>
  What the queue relies on from \<open>encoding/json\<close>: a header marshalled from an envelope whose texts
  are plain ASCII has no newline byte, is not empty and is read back as the same envelope.
\<close>

definition envelopeText :: "spoolEnvelope \<Rightarrow> bool" where
  "envelopeText e \<longleftrightarrow> validSpoolID (envID e) \<and> validSpoolPriority (envPriority e) \<and>
     (\<exists>bs. envPayloadSHA256 e = hexEncode bs)"

definition codecOK :: "spoolCodec \<Rightarrow> bool" where
  "codecOK C \<longleftrightarrow>
     (\<forall>e h. envelopeText e \<longrightarrow> cMarshal C e = Some h \<longrightarrow>
        h \<noteq> [] \<and> CHR 0x0A \<notin> set h \<and> cUnmarshal C h = Some e)"

lemma readHeader_append:
  assumes "CHR 0x0A \<notin> set h"
  shows "readHeader (h @ CHR 0x0A # p) = Some (h @ [CHR 0x0A], p)"
proof -
  have "takeWhile (\<lambda>x. x \<noteq> CHR 0x0A) (h @ CHR 0x0A # p) = h"
    using assms by (subst takeWhile_append2) auto
  then show ?thesis by (simp add: readHeader_def)
qed

lemma itemEnvelope_sel [simp]:
  "envID (itemEnvelope it h) = itemID it" "envPriority (itemEnvelope it h) = itemPriority it"
  "envCreatedAt (itemEnvelope it h) = itemCreatedAt it"
  "envPayloadBytes (itemEnvelope it h) = itemSizeBytes it"
  "envPayloadSHA256 (itemEnvelope it h) = h" "envVersion (itemEnvelope it h) = spoolVersion"
  by (simp_all add: itemEnvelope_def)

lemma parse_encode:
  assumes "codecOK C" and enc: "encodeSpoolRecord C (itemEnvelope it (hashPayload C payload)) payload = Inr rec"
    and ascii: "validSpoolID (itemID it)" "validSpoolPriority (itemPriority it)"
    and "itemCreatedAt it \<noteq> 0" "itemSizeBytes it = int (length payload)" "payload \<noteq> []"
    and max: "int (length payload) \<le> maxItem" "maxItem < 2 ^ 62"
  shows "parseSpoolRecord C maxItem True rec =
           Inr (itemEnvelope it (hashPayload C payload), payload, int (length rec))"
proof -
  let ?e = "itemEnvelope it (hashPayload C payload)"
  from enc obtain h where h: "cMarshal C ?e = Some h" "int (length h) \<le> maxSpoolHeaderBytes"
    and rec: "rec = h @ CHR 0x0A # payload"
    by (auto simp: encodeSpoolRecord_def split: option.splits if_splits)
  have "envelopeText ?e" using ascii by (auto simp: envelopeText_def hashPayload_def)
  with h \<open>codecOK C\<close> have nl: "h \<noteq> []" "CHR 0x0A \<notin> set h" "cUnmarshal C h = Some ?e"
    by (auto simp: codecOK_def)
  have w: "wrap64 (maxItem + 1) = maxItem + 1" "wrap64 (maxItem + 4096 + 1) = maxItem + 4096 + 1"
    using max by (auto intro!: wrap64_id)
  have "payload = take (nat (maxItem + 1)) payload" using max by simp
  moreover have "0 < length h" using nl by simp
  ultimately show ?thesis
    using h max nl w assms(5-7)
    by (simp add: parseSpoolRecord_def rec readHeader_append spoolVersion_def maxSpoolHeaderBytes_def)
qed

section \<open>File names\<close>

lemma length_natDigits: "n < 10 ^ k \<Longrightarrow> 0 < k \<Longrightarrow> length (natDigits n) \<le> k"
proof (induction n arbitrary: k rule: natDigits.induct)
  case (1 n)
  show ?case
  proof (cases "n < 10")
    case True
    with "1.prems" show ?thesis by (subst natDigits.simps) simp
  next
    case False
    with "1.prems" obtain j where k: "k = Suc j" "0 < j" by (cases k; cases "k - 1") auto
    with "1.prems" have "n div 10 < 10 ^ j" by (auto simp: less_mult_imp_div_less mult.commute)
    with "1.IH" [OF False] k have "length (natDigits (n div 10)) \<le> j" by blast
    with False k show ?thesis by (subst natDigits.simps) simp
  qed
qed

lemma length_padded20: "- (2 ^ 63) \<le> n \<Longrightarrow> n < 2 ^ 63 \<Longrightarrow> length (padded20 n) = 20"
proof -
  assume "- (2 ^ 63) \<le> n" "n < 2 ^ 63"
  then have "nat \<bar>n\<bar> < 10 ^ 19" by simp
  then have "length (natDigits (nat \<bar>n\<bar>)) \<le> 19" by (rule length_natDigits) simp
  then show ?thesis by (auto simp: padded20_def Let_def)
qed

lemma natDigits_chars: "c \<in> set (natDigits n) \<Longrightarrow> \<exists>k < 10 :: nat. c = char_of (48 + k)"
proof (induction n rule: natDigits.induct)
  case (1 n)
  show ?case
  proof (cases "n < 10 \<or> c \<notin> set (natDigits (n div 10))")
    case True
    with "1.prems" have "c = char_of (48 + n mod 10)"
      by (auto simp: natDigits.simps [of n] split: if_splits)
    then show ?thesis by (intro exI [of _ "n mod 10"]) simp
  next
    case False
    with "1.IH" show ?thesis by blast
  qed
qed

lemma padded20_no_dot: "CHR ''.'' \<notin> set (padded20 n)"
proof
  assume "CHR ''.'' \<in> set (padded20 n)"
  then have "CHR ''.'' \<in> set (natDigits (nat \<bar>n\<bar>))"
    by (auto simp: padded20_def Let_def split: if_splits)
  then obtain k :: nat where "k < 10" "CHR ''.'' = char_of (48 + k)"
    using natDigits_chars by blast
  then have "of_char CHR ''.'' = (48 + k) mod 256" by simp
  with \<open>k < 10\<close> show False by simp
qed

lemma length_filename_stamp: "length (padded20 (unixNano t)) = 20"
  unfolding unixNano_def using wrap64_range by (intro length_padded20) auto

text \<open>The name of a file fixes the id it stores, so two ids never share a file.\<close>

lemma spoolFilename_inj: "spoolFilename t i = spoolFilename u j \<Longrightarrow> i = j"
  by (simp add: spoolFilename_def append_eq_append_conv length_filename_stamp)

lemma spoolFilename_not_temp [simp]: "\<not> prefix ''.spool-'' (spoolFilename t i)"
proof
  assume "prefix ''.spool-'' (spoolFilename t i)"
  then have "hd (spoolFilename t i) = CHR ''.''" by (auto simp: prefix_def)
  moreover have "padded20 (unixNano t) \<noteq> []"
    using length_filename_stamp [of t] by auto
  ultimately have "CHR ''.'' \<in> set (padded20 (unixNano t))"
    by (cases "padded20 (unixNano t)") (auto simp: spoolFilename_def)
  then show False by (simp add: padded20_no_dot)
qed

lemma spoolFilename_suffix [simp]: "suffix spoolExtension (spoolFilename t i)"
  by (simp add: spoolFilename_def suffix_def)

lemma spoolFilename_neq_temp [simp]:
  "spoolFilename t i \<noteq> tempName E" "tempName E \<noteq> spoolFilename t i"
  by (metis prefixI spoolFilename_not_temp tempName_def)+

section \<open>Replay order\<close>

definition spoolKey :: "bool \<Rightarrow> spoolEntry \<Rightarrow> int \<times> gotime \<times> string" where
  "spoolKey oldestOnly e =
     (if oldestOnly then 0 else spoolPriorityRank (itemPriority (entItem e)),
      itemCreatedAt (entItem e), itemID (entItem e))"

lemma spoolLess_key: "spoolLess b x y \<longleftrightarrow> spoolKey b x < spoolKey b y"
  by (auto simp: spoolLess_def spoolKey_def Let_def)

lemma sortedEntries_key: "sortedEntries b es = sort_key (spoolKey b) es"
  unfolding sortedEntries_def by (rule sortSlice_key) (rule spoolLess_key)

lemma inj_on_spoolKey: "distinct (map entID es) \<Longrightarrow> inj_on (spoolKey b) (set es)"
  by (rule inj_onI) (auto simp: spoolKey_def distinct_map entID_def [symmetric] dest: inj_onD)

lemma mset_sortedEntries [simp]: "mset (sortedEntries b es) = mset es"
  by (simp add: sortedEntries_key)

section \<open>The invariant\<close>

definition entryOK :: "spoolCodec \<Rightarrow> int \<Rightarrow> disk \<Rightarrow> spoolEntry \<Rightarrow> bool" where
  "entryOK C maxItem d e \<longleftrightarrow>
     validSpoolID (entID e) \<and> validSpoolPriority (itemPriority (entItem e)) \<and>
     entPath e = spoolFilename (itemCreatedAt (entItem e)) (entID e) \<and>
     (\<exists>c payload. map_of d (entPath e) = Some (DFile c) \<and> entFileBytes e = int (length c) \<and>
        parseSpoolRecord C maxItem True c =
          Inr (itemEnvelope (entItem e) (entPayloadHash e), payload, int (length c)))"

text \<open>
  The directory holds no committed record but the entries' own, and no directory where an
  incomplete record is expected.
\<close>

definition dirOK :: "spoolEntry list \<Rightarrow> disk \<Rightarrow> bool" where
  "dirOK es d \<longleftrightarrow> distinct (map fst d) \<and>
     (\<forall>n nd. map_of d n = Some nd \<longrightarrow>
        (if prefix ''.spool-'' n then nd \<noteq> DDir
         else suffix spoolExtension n \<and> nd \<noteq> DDir \<longrightarrow> n \<in> entPath ` set es))"

definition totalBytes :: "spoolEntry list \<Rightarrow> int" where
  "totalBytes es = sum_list (map entFileBytes es)"

definition metricsOK :: "spoolEntry list \<Rightarrow> SpoolMetrics \<Rightarrow> bool" where
  "metricsOK es m \<longleftrightarrow> mDepth m = wrap64 (int (length es)) \<and> mBytes m = wrap64 (totalBytes es)"

definition configOK :: "DurableSpool \<Rightarrow> bool" where
  "configOK s \<longleftrightarrow> 0 < spMaxItemBytes s \<and> spMaxItemBytes s \<le> spMaxBytes s \<and> spMaxBytes s < 2 ^ 62"

definition spoolInv :: "spoolCodec \<Rightarrow> DurableSpool \<Rightarrow> bool" where
  "spoolInv C s \<longleftrightarrow> configOK s \<and> distinct (map entID (spEntries s)) \<and>
     (\<forall>e \<in> set (spEntries s). entryOK C (spMaxItemBytes s) (spDisk s) e) \<and>
     dirOK (spEntries s) (spDisk s) \<and> metricsOK (spEntries s) (spMetrics s)"

text \<open>Within the quota the wrap-around is invisible: the byte metric is the true total.\<close>

definition withinQuota :: "DurableSpool \<Rightarrow> bool" where
  "withinQuota s \<longleftrightarrow> totalBytes (spEntries s) \<le> spMaxBytes s"

lemma wrap64_add [int64_simps]: "wrap64 (wrap64 a + b) = wrap64 (a + b)"
  by (simp add: wrap64_def mod_simps algebra_simps)

lemma wrap64_add2 [int64_simps]: "wrap64 (a + wrap64 b) = wrap64 (a + b)"
  using wrap64_add [of b a] by (simp add: add.commute)

lemma wrap64_diff [int64_simps]: "wrap64 (wrap64 a - b) = wrap64 (a - b)"
  using wrap64_add [of a "- b"] by simp

lemma entPath_inj:
  "entryOK C m d e \<Longrightarrow> entryOK C m' d' e' \<Longrightarrow> entPath e = entPath e' \<Longrightarrow> entID e = entID e'"
  by (auto simp: entryOK_def dest: spoolFilename_inj)

lemma entryOK_cong:
  "entryOK C m d e \<Longrightarrow> map_of d' (entPath e) = map_of d (entPath e) \<Longrightarrow> entryOK C m d' e"
  by (auto simp: entryOK_def)

lemma entryOK_path_neq_temp: "entryOK C m d e \<Longrightarrow> entPath e \<noteq> tempName E"
  by (simp add: entryOK_def)

lemma entFileBytes_nonneg: "entryOK C m d e \<Longrightarrow> 0 \<le> entFileBytes e"
  by (auto simp: entryOK_def)

lemma totalBytes_nonneg:
  "(\<And>e. e \<in> set es \<Longrightarrow> entryOK C m d e) \<Longrightarrow> 0 \<le> totalBytes es"
  unfolding totalBytes_def by (rule sum_list_nonneg) (auto dest: entFileBytes_nonneg)

lemma metricsOK_Cons:
  assumes "metricsOK es m" "mDepth m' = wrap64 (mDepth m + 1)"
    "mBytes m' = wrap64 (mBytes m + entFileBytes e)"
  shows "metricsOK (e # es) m'"
  using assms wrap64_add [of "int (length es)" 1] wrap64_add [of "totalBytes es" "entFileBytes e"]
  by (simp add: metricsOK_def) (simp add: totalBytes_def add.commute)

section \<open>Entries as a map\<close>

lemma getEntry_Some_iff:
  "distinct (map entID es) \<Longrightarrow> getEntry es i = Some e \<longleftrightarrow> e \<in> set es \<and> entID e = i"
  by (induction es) (auto simp: getEntry_def)

lemma getEntry_None_iff: "getEntry es i = None \<longleftrightarrow> i \<notin> entID ` set es"
  by (auto simp: getEntry_def find_None_iff)

lemma set_deleteEntry [simp]: "set (deleteEntry i es) = {e \<in> set es. entID e \<noteq> i}"
  by (auto simp: deleteEntry_def)

lemma distinct_deleteEntry [simp]:
  "distinct (map entID es) \<Longrightarrow> distinct (map entID (deleteEntry i es))"
  by (simp add: deleteEntry_def distinct_map_filter)

lemma putEntry_fresh: "getEntry es (entID e) = None \<Longrightarrow> putEntry e es = e # es"
  by (auto simp: putEntry_def deleteEntry_def getEntry_None_iff image_iff intro!: filter_True)

lemma deleteEntry_split:
  assumes "distinct (map entID es)" "e \<in> set es"
  shows "mset es = add_mset e (mset (deleteEntry (entID e) es))"
  using assms
proof (induction es)
  case Nil
  then show ?case by simp
next
  case (Cons x xs)
  show ?case
  proof (cases "x = e")
    case True
    with Cons.prems have "deleteEntry (entID e) xs = xs"
      by (auto simp: deleteEntry_def image_iff intro!: filter_True)
    with True show ?thesis by (simp add: deleteEntry_def)
  next
    case False
    with Cons.prems have "e \<in> set xs" "entID x \<noteq> entID e" by auto
    with Cons show ?thesis by (simp add: deleteEntry_def)
  qed
qed

lemma totalBytes_mset: "mset es = mset es' \<Longrightarrow> totalBytes es = totalBytes es'"
  unfolding totalBytes_def by (metis mset_map sum_mset_sum_list)

lemma totalBytes_deleteEntry:
  assumes "distinct (map entID es)" "e \<in> set es"
  shows "totalBytes (deleteEntry (entID e) es) = totalBytes es - entFileBytes e"
proof -
  have "totalBytes es = totalBytes (e # deleteEntry (entID e) es)"
    by (rule totalBytes_mset) (simp add: deleteEntry_split [OF assms])
  then show ?thesis by (simp add: totalBytes_def)
qed

lemma length_deleteEntry:
  assumes "distinct (map entID es)" "e \<in> set es"
  shows "int (length (deleteEntry (entID e) es)) = int (length es) - 1"
  using deleteEntry_split [OF assms, THEN arg_cong [where f = size]] by simp

section \<open>Removing an entry keeps the invariant\<close>

lemma removeFile_Some:
  assumes "removeFile E p d = Some d'"
  shows "map_of d' = (map_of d)(p := None)" "distinct (map fst d) \<Longrightarrow> distinct (map fst d')"
  using assms by (auto simp: removeFile_def AList.delete_conv AList.distinct_delete split: if_splits)

lemma removeFile_entry:
  "entryOK C m d e \<Longrightarrow> spIo E (IoRemove (entPath e)) \<Longrightarrow>
     removeFile E (entPath e) d = Some (AList.delete (entPath e) d)"
  by (auto simp: removeFile_def entryOK_def)

lemma dirOK_delete:
  assumes "dirOK es d" "removeFile E (entPath e) d = Some d'" "e \<in> set es"
    "distinct (map entID es)"
  shows "dirOK (deleteEntry (entID e) es) d'"
proof -
  note m = removeFile_Some [OF assms(2)]
  have "n \<in> entPath ` set (deleteEntry (entID e) es)"
    if "n \<in> entPath ` set es" "n \<noteq> entPath e" for n
  proof -
    from that obtain x where x: "x \<in> set es" "n = entPath x" by auto
    with that assms(3,4) have "entID x \<noteq> entID e" by (auto simp: distinct_map dest: inj_onD)
    with x show ?thesis by auto
  qed
  then show ?thesis
    using assms(1) unfolding dirOK_def m(1) by (auto simp: m(2) split: if_splits)
qed

lemma spoolInv_drop:
  assumes inv: "spoolInv C s" and e: "e \<in> set (spEntries s)"
    and rm: "removeFile E (entPath e) (spDisk s) = Some d"
    and m: "mDepth m = wrap64 (mDepth (spMetrics s) - 1)"
      "mBytes m = wrap64 (mBytes (spMetrics s) - entFileBytes e)"
  shows "spoolInv C (s\<lparr>spDisk := d, spEntries := deleteEntry (entID e) (spEntries s), spMetrics := m\<rparr>)"
proof -
  from inv have dist: "distinct (map entID (spEntries s))"
    and ok: "\<And>x. x \<in> set (spEntries s) \<Longrightarrow> entryOK C (spMaxItemBytes s) (spDisk s) x"
    and dir: "dirOK (spEntries s) (spDisk s)" and met: "metricsOK (spEntries s) (spMetrics s)"
    by (auto simp: spoolInv_def)
  have "entryOK C (spMaxItemBytes s) d x" if "x \<in> set (spEntries s)" "entID x \<noteq> entID e" for x
  proof (rule entryOK_cong [OF ok [OF that(1)]])
    have "entPath x \<noteq> entPath e" using entPath_inj [OF ok ok, OF that(1) e] that(2) by blast
    then show "map_of d (entPath x) = map_of (spDisk s) (entPath x)"
      by (simp add: removeFile_Some(1) [OF rm])
  qed
  moreover have "dirOK (deleteEntry (entID e) (spEntries s)) d"
    by (rule dirOK_delete [OF dir rm e dist])
  moreover have "metricsOK (deleteEntry (entID e) (spEntries s)) m"
    using met m by (simp add: metricsOK_def length_deleteEntry [OF dist e]
        totalBytes_deleteEntry [OF dist e] wrap64_diff)
  ultimately show ?thesis using inv dist by (auto simp: spoolInv_def configOK_def)
qed

section \<open>Eviction\<close>

lemma evictEntry_inv:
  assumes "spoolInv C s" "e \<in> set (spEntries s)" "removeFile E (entPath e) (spDisk s) = Some d"
  shows "spoolInv C (evictEntry e d s)"
  unfolding evictEntry_def by (rule spoolInv_drop [OF assms]) (simp_all add: evictMetrics_def)

lemma dropWhile_in_set: "dropWhile P xs = y # ys \<Longrightarrow> y \<in> set xs \<and> \<not> P y"
  by (metis dropWhile_eq_Cons_conv in_set_conv_decomp append_Cons hd_dropWhile list.sel(1) list.simps(3)
      set_dropWhileD list.set_intros(1))

lemma enforceQuota_cases:
  obtains (fits) "\<not> mBytes (spMetrics s) > spMaxBytes s" "enforceQuota E p s = (s, Inr ())"
  | (stuck) "mBytes (spMetrics s) > spMaxBytes s" "\<forall>e \<in> set (spEntries s). entID e = p"
      "enforceQuota E p s = (s, Inl ErrInvalidSpoolItem)"
  | (fault) e rest where "mBytes (spMetrics s) > spMaxBytes s"
      "dropWhile (\<lambda>e. entID e = p) (sortedEntries True (spEntries s)) = e # rest"
      "removeFile E (entPath e) (spDisk s) = None"
      "enforceQuota E p s = (s, Inl (SpoolIO ''evict store-and-forward item''))"
  | (evict) e rest d where "mBytes (spMetrics s) > spMaxBytes s"
      "dropWhile (\<lambda>e. entID e = p) (sortedEntries True (spEntries s)) = e # rest"
      "removeFile E (entPath e) (spDisk s) = Some d"
      "enforceQuota E p s = enforceQuota E p (evictEntry e d s)"
proof (cases "mBytes (spMetrics s) > spMaxBytes s")
  case False
  then show thesis by (intro that(1)) (simp_all add: enforceQuota.simps [of E p s])
next
  case True
  show thesis
  proof (cases "dropWhile (\<lambda>e. entID e = p) (sortedEntries True (spEntries s))")
    case Nil
    then have "\<forall>e \<in> set (spEntries s). entID e = p" by simp
    moreover have "enforceQuota E p s = (s, Inl ErrInvalidSpoolItem)"
      using True by (subst enforceQuota.simps) (simp only: Nil list.case if_True)
    ultimately show thesis using True that(2) by blast
  next
    case (Cons e rest)
    with True show thesis
      by (cases "removeFile E (entPath e) (spDisk s)")
        (auto intro: that(3,4) simp: enforceQuota.simps [of E p s])
  qed
qed

text \<open>
  Eviction keeps the invariant on every outcome, keeps the configuration and the protected entry,
  and only ever removes entries.
\<close>

lemma enforceQuota_keeps:
  assumes "spoolInv C s" "enforceQuota E p s = (s', r)"
  shows "spoolInv C s' \<and> set (spEntries s') \<subseteq> set (spEntries s) \<and>
    (\<forall>e \<in> set (spEntries s). entID e = p \<longrightarrow> e \<in> set (spEntries s')) \<and>
    spMaxBytes s' = spMaxBytes s \<and> spMaxItemBytes s' = spMaxItemBytes s \<and>
    (r = Inr () \<longrightarrow> mBytes (spMetrics s') \<le> spMaxBytes s')"
  using assms
proof (induction "length (spEntries s)" arbitrary: s rule: less_induct)
  case less
  show ?case
  proof (cases rule: enforceQuota_cases [of s E p])
    case (evict e rest d)
    then have e: "e \<in> set (spEntries s)" "entID e \<noteq> p"
      by (auto dest!: dropWhile_in_set)
    let ?t = "evictEntry e d s"
    have len: "length (spEntries ?t) < length (spEntries s)"
      using e(1) by (auto simp: evictEntry_def deleteEntry_def intro!: length_filter_less)
    have inv: "spoolInv C ?t" by (rule evictEntry_inv [OF less.prems(1) e(1) evict(3)])
    have "enforceQuota E p ?t = (s', r)" using less.prems(2) evict(4) by simp
    from less.hyps [OF len inv this] e show ?thesis
      by (auto simp: evictEntry_def)
  qed (use less.prems in \<open>auto\<close>)
qed

text \<open>The victims are the oldest unprotected entries, oldest first, and no others.\<close>

definition others :: "string \<Rightarrow> spoolEntry list \<Rightarrow> spoolEntry list" where
  "others p es = deleteEntry p es"

lemma sortedEntries_others:
  "sortedEntries b (others p es) = filter (\<lambda>e. entID e \<noteq> p) (sortedEntries b es)"
  by (simp add: others_def deleteEntry_def sortedEntries_key filter_sort)

lemma oldest_other:
  assumes "distinct (map entID es)"
    and "dropWhile (\<lambda>e. entID e = p) (sortedEntries True es) = e # rest"
  shows "sortedEntries True (others p es) =
    e # sortedEntries True (others p (deleteEntry (entID e) es))"
proof -
  let ?P = "\<lambda>x. entID x \<noteq> p" and ?srt = "sortedEntries True es"
  have e: "entID e \<noteq> p" using assms(2) by (auto dest: dropWhile_in_set)
  have split: "?srt = takeWhile (\<lambda>x. entID x = p) ?srt @ e # rest"
    using assms(2) by (metis takeWhile_dropWhile_id)
  have "filter ?P (takeWhile (\<lambda>x. entID x = p) ?srt) = []"
    by (auto simp: filter_empty_conv dest: set_takeWhileD)
  with split e have f: "filter ?P ?srt = e # filter ?P rest"
    by (metis (mono_tags, lifting) append_Nil filter.simps(2) filter_append)
  have "distinct (map entID ?srt)" using assms(1) by (simp add: sortedEntries_key)
  then have "distinct (map entID (e # rest))" by (subst (asm) split) simp
  then have neq: "entID x \<noteq> entID e" if "x \<in> set rest" for x using that by (auto simp: image_iff)
  let ?Q = "\<lambda>x. entID x \<noteq> entID e"
  have "filter ?P (filter ?Q ?srt) = filter ?Q (filter ?P ?srt)"
    unfolding filter_filter by (rule filter_cong) auto
  also have "\<dots> = filter ?Q (filter ?P rest)" using f by simp
  also have "\<dots> = filter ?P rest" by (rule filter_True) (use neq in auto)
  finally have "filter ?P (filter ?Q ?srt) = filter ?P rest" .
  then show ?thesis
    using f by (simp add: sortedEntries_others sortedEntries_others [unfolded others_def])
qed

lemma enforceQuota_oldest_first:
  assumes "spoolInv C s" "enforceQuota E p s = (s', r)"
  shows "\<exists>victims. sortedEntries True (others p (spEntries s)) =
    victims @ sortedEntries True (others p (spEntries s'))"
  using assms
proof (induction "length (spEntries s)" arbitrary: s rule: less_induct)
  case less
  show ?case
  proof (cases rule: enforceQuota_cases [of s E p])
    case (evict e rest d)
    then have e: "e \<in> set (spEntries s)" by (auto dest!: dropWhile_in_set)
    let ?t = "evictEntry e d s"
    have len: "length (spEntries ?t) < length (spEntries s)"
      using e by (auto simp: evictEntry_def deleteEntry_def intro!: length_filter_less)
    have inv: "spoolInv C ?t" by (rule evictEntry_inv [OF less.prems(1) e evict(3)])
    have "enforceQuota E p ?t = (s', r)" using less.prems(2) evict(4) by simp
    from less.hyps [OF len inv this] obtain victims where
      "sortedEntries True (others p (spEntries ?t)) =
         victims @ sortedEntries True (others p (spEntries s'))" by blast
    moreover have "distinct (map entID (spEntries s))" using less.prems(1) by (simp add: spoolInv_def)
    ultimately show ?thesis
      using oldest_other [OF _ evict(2)] by (intro exI [of _ "e # victims"]) (simp add: evictEntry_def)
  qed (use less.prems in \<open>auto\<close>)
qed

section \<open>Writing an entry keeps the invariant\<close>

lemma newEntry_sel [simp]:
  "entID (newEntry C E i pr payload rec) = i" "entItem (newEntry C E i pr payload rec) = newItem E i pr payload"
  "entPath (newEntry C E i pr payload rec) = spoolFilename (spNow E) i"
  "entFileBytes (newEntry C E i pr payload rec) = int (length rec)"
  "entPayloadHash (newEntry C E i pr payload rec) = hashPayload C payload"
  "itemID (newItem E i pr payload) = i" "itemPriority (newItem E i pr payload) = pr"
  "itemCreatedAt (newItem E i pr payload) = spNow E"
  "itemSizeBytes (newItem E i pr payload) = int (length payload)"
  by (simp_all add: newEntry_def newItem_def entID_def)

lemma enqueue_cases:
  assumes "enqueue C E rawID pr payload ev s = (s', r)"
  obtains
    (invalid) "s' = s" "r = Inl ErrInvalidSpoolItem"
      "\<not> admissible (trimSpace rawID) pr payload s \<or> (getEntry (spEntries s) (trimSpace rawID) = None \<and>
         (\<forall>rec. newRecord C E (trimSpace rawID) pr payload = Inr rec \<longrightarrow> int (length rec) > spMaxBytes s))"
  | (replay) e where "s' = s" "r = Inr (entItem e)" "getEntry (spEntries s) (trimSpace rawID) = Some e"
      "itemPriority (entItem e) = pr" "entPayloadHash e = hashPayload C payload"
  | (conflict) e where "s' = s" "r = Inl ErrSpoolConflict"
      "getEntry (spEntries s) (trimSpace rawID) = Some e"
      "itemPriority (entItem e) \<noteq> pr \<or> entPayloadHash e \<noteq> hashPayload C payload"
  | (capacity) rec where "s' = s" "r = Inl ErrSpoolCapacity" "\<not> ev"
      "newRecord C E (trimSpace rawID) pr payload = Inr rec"
      "wrap64 (mBytes (spMetrics s) + int (length rec)) > spMaxBytes s"
  | (fault) rec d err where "s' = s\<lparr>spDisk := d\<rparr>" "r = Inl err"
      "newRecord C E (trimSpace rawID) pr payload = Inr rec"
      "writeSpoolFileAtomic E (spoolFilename (spNow E) (trimSpace rawID)) rec (spDisk s) = (d, Inl err)"
  | (stored) rec d where "admissible (trimSpace rawID) pr payload s"
      "getEntry (spEntries s) (trimSpace rawID) = None"
      "newRecord C E (trimSpace rawID) pr payload = Inr rec" "int (length rec) \<le> spMaxBytes s"
      "ev \<or> wrap64 (mBytes (spMetrics s) + int (length rec)) \<le> spMaxBytes s"
      "writeSpoolFileAtomic E (spoolFilename (spNow E) (trimSpace rawID)) rec (spDisk s) = (d, Inr ())"
      "if ev then enforceQuota E (trimSpace rawID)
           (enqueueEntry (newEntry C E (trimSpace rawID) pr payload rec) d s) =
           (s', map_sum id (\<lambda>_. ()) r) \<and> (\<forall>it. r = Inr it \<longrightarrow> it = newItem E (trimSpace rawID) pr payload)
       else s' = enqueueEntry (newEntry C E (trimSpace rawID) pr payload rec) d s \<and>
         r = Inr (newItem E (trimSpace rawID) pr payload)"
proof (cases "admissible (trimSpace rawID) pr payload s")
  case False
  with assms show thesis by (intro that(1)) (simp_all add: enqueue_def)
next
  case adm: True
  note u = assms [unfolded enqueue_def Let_def, simplified adm]
  show thesis
  proof (cases "getEntry (spEntries s) (trimSpace rawID)")
    case (Some e)
    with u show thesis by (auto split: if_splits intro: that(2,3))
  next
    case None
    show thesis
    proof (cases "newRecord C E (trimSpace rawID) pr payload")
      case (Inl err)
      with u None show thesis by (intro that(1)) simp_all
    next
      case (Inr rec)
      with u None adm show thesis
        by (auto split: if_splits prod.splits sum.splits
            intro: that(1) that(4) [OF _ _ _ Inr] that(5) [OF _ _ Inr] that(6) [OF adm None Inr])
    qed
  qed
qed

lemma write_disk:
  assumes "writeSpoolFileAtomic E p rec d = (d', r)" "p \<noteq> tempName E"
  shows "n \<noteq> tempName E \<Longrightarrow>
      map_of d' n = (if r = Inr () \<and> n = p then Some (DFile rec) else map_of d n)"
    and "map_of d' (tempName E) = Some DDir \<Longrightarrow> map_of d (tempName E) = Some DDir"
    and "distinct (map fst d) \<Longrightarrow> distinct (map fst d')"
  using assms
  by (auto simp: writeSpoolFileAtomic_def removeTemp_def Let_def AList.delete_conv AList.update_conv
      AList.distinct_update AList.distinct_delete split: if_splits)

lemma prefix_tempName [simp]: "prefix ''.spool-'' (tempName E)"
  by (simp add: tempName_def)

lemma dirOK_disk:
  assumes "dirOK es d" "set es \<subseteq> set es'" "distinct (map fst d) \<Longrightarrow> distinct (map fst d')"
    and "\<And>n. n \<noteq> tempName E \<Longrightarrow> map_of d' n = map_of d n \<or> n \<in> entPath ` set es' \<and> \<not> prefix ''.spool-'' n"
    and "map_of d' (tempName E) = Some DDir \<Longrightarrow> map_of d (tempName E) = Some DDir"
  shows "dirOK es' d'"
proof -
  have "if prefix ''.spool-'' n then nd \<noteq> DDir
        else suffix spoolExtension n \<and> nd \<noteq> DDir \<longrightarrow> n \<in> entPath ` set es'"
    if nd: "map_of d' n = Some nd" for n nd
  proof (cases "n = tempName E")
    case True
    have "map_of d (tempName E) \<noteq> Some DDir" using assms(1) prefix_tempName unfolding dirOK_def by metis
    with True nd assms(5) show ?thesis by auto
  next
    case False
    from assms(1,2) have "if prefix ''.spool-'' n then nd \<noteq> DDir
        else suffix spoolExtension n \<and> nd \<noteq> DDir \<longrightarrow> n \<in> entPath ` set es'"
      if "map_of d n = Some nd" using that unfolding dirOK_def by (meson image_mono subsetD)
    with assms(4) [OF False] nd show ?thesis by auto
  qed
  with assms(1,3) show ?thesis by (auto simp: dirOK_def)
qed

lemma fault_inv:
  assumes inv: "spoolInv C s"
    and w: "writeSpoolFileAtomic E (spoolFilename t i) rec (spDisk s) = (d, Inl err)"
  shows "spoolInv C (s\<lparr>spDisk := d\<rparr>)"
proof -
  note wd = write_disk [OF w spoolFilename_neq_temp(1)]
  have "dirOK (spEntries s) d"
    by (rule dirOK_disk [where E = E and d = "spDisk s" and es = "spEntries s"])
      (use inv wd in \<open>auto simp: spoolInv_def\<close>)
  moreover have "entryOK C (spMaxItemBytes s) d e" if "e \<in> set (spEntries s)" for e
  proof (rule entryOK_cong)
    show ok: "entryOK C (spMaxItemBytes s) (spDisk s) e" using inv that by (auto simp: spoolInv_def)
    show "map_of d (entPath e) = map_of (spDisk s) (entPath e)"
      using wd(1) entryOK_path_neq_temp [OF ok] by simp
  qed
  ultimately show ?thesis using inv by (auto simp: spoolInv_def configOK_def)
qed

lemma newEntry_OK:
  assumes "codecOK C" "newRecord C E i pr payload = Inr rec" "admissible i pr payload s"
    "spNow E \<noteq> 0" "spMaxItemBytes s < 2 ^ 62" "map_of d (spoolFilename (spNow E) i) = Some (DFile rec)"
  shows "entryOK C (spMaxItemBytes s) d (newEntry C E i pr payload rec)"
proof -
  have "parseSpoolRecord C (spMaxItemBytes s) True rec =
      Inr (itemEnvelope (newItem E i pr payload) (hashPayload C payload), payload, int (length rec))"
    by (rule parse_encode) (use assms in \<open>auto simp: newRecord_def admissible_def\<close>)
  with assms(3,6) show ?thesis by (auto simp: entryOK_def admissible_def)
qed

lemma addEntry_dir:
  assumes inv: "spoolInv C s" and "codecOK C" "spNow E \<noteq> 0"
    and fresh: "getEntry (spEntries s) i = None" and adm: "admissible i pr payload s"
    and rec: "newRecord C E i pr payload = Inr rec"
    and d: "\<And>n. n \<noteq> tempName E \<Longrightarrow> map_of d n =
        (if n = spoolFilename (spNow E) i then Some (DFile rec) else map_of (spDisk s) n)"
      "map_of d (tempName E) = Some DDir \<Longrightarrow> map_of (spDisk s) (tempName E) = Some DDir"
      "distinct (map fst (spDisk s)) \<Longrightarrow> distinct (map fst d)"
    and es: "es = newEntry C E i pr payload rec # spEntries s"
  shows "distinct (map entID es)" "dirOK es d" "\<forall>e \<in> set es. entryOK C (spMaxItemBytes s) d e"
proof -
  have "entryOK C (spMaxItemBytes s) d (newEntry C E i pr payload rec)"
    by (rule newEntry_OK) (use assms in \<open>auto simp: spoolInv_def configOK_def\<close>)
  moreover have "entryOK C (spMaxItemBytes s) d x" if "x \<in> set (spEntries s)" for x
  proof (rule entryOK_cong)
    show ok: "entryOK C (spMaxItemBytes s) (spDisk s) x" using inv that by (auto simp: spoolInv_def)
    have "entPath x \<noteq> spoolFilename (spNow E) i"
      using ok fresh that by (auto simp: entryOK_def getEntry_None_iff dest: spoolFilename_inj)
    then show "map_of d (entPath x) = map_of (spDisk s) (entPath x)"
      using d(1) entryOK_path_neq_temp [OF ok] by simp
  qed
  ultimately show "\<forall>e \<in> set es. entryOK C (spMaxItemBytes s) d e" by (simp add: es)
  show "dirOK es d"
    by (rule dirOK_disk [where E = E and d = "spDisk s" and es = "spEntries s"])
      (use inv d in \<open>auto simp: spoolInv_def es\<close>)
  show "distinct (map entID es)"
    using inv fresh by (auto simp: spoolInv_def getEntry_None_iff es)
qed

lemma enqueueEntry_inv:
  assumes inv: "spoolInv C s" and "codecOK C" "spNow E \<noteq> 0"
    and fresh: "getEntry (spEntries s) i = None" and adm: "admissible i pr payload s"
    and rec: "newRecord C E i pr payload = Inr rec"
    and w: "writeSpoolFileAtomic E (spoolFilename (spNow E) i) rec (spDisk s) = (d, Inr ())"
  shows "spoolInv C (enqueueEntry (newEntry C E i pr payload rec) d s)"
proof -
  let ?e = "newEntry C E i pr payload rec" and ?es = "spEntries s"
  note wd = write_disk [OF w spoolFilename_neq_temp(1)]
  note dir = addEntry_dir [OF assms(1-6) _ wd(2,3) refl, simplified]
  have put: "putEntry ?e ?es = ?e # ?es" using fresh by (simp add: putEntry_fresh)
  have "metricsOK (?e # ?es) (spMetrics (enqueueEntry ?e d s))"
    by (rule metricsOK_Cons [of _ "spMetrics s"]) (use inv in \<open>auto simp: spoolInv_def enqueueEntry_def\<close>)
  then show ?thesis
    using inv dir wd(1) by (simp add: spoolInv_def configOK_def enqueueEntry_def put)
qed

lemma enqueue_inv:
  assumes inv: "spoolInv C s" and C: "codecOK C" "spNow E \<noteq> 0"
    and run: "enqueue C E rawID pr payload ev s = (s', r)"
  shows "spoolInv C s'"
  using run
proof (cases rule: enqueue_cases)
  case (fault rec d err)
  then show ?thesis using fault_inv [OF inv] by blast
next
  case (stored rec d)
  have "spoolInv C (enqueueEntry (newEntry C E (trimSpace rawID) pr payload rec) d s)"
    by (rule enqueueEntry_inv [OF inv C stored(2,1,3,6)])
  then show ?thesis using stored(7) by (auto split: if_splits dest: enforceQuota_keeps)
qed (use inv in auto)

lemma ack_cases:
  assumes "Ack E rawID s = (s', r)" "distinct (map entID (spEntries s))"
  obtains
    (refused) err where "s' = s" "r = Inl err"
  | (acked) e d where "e \<in> set (spEntries s)" "entID e = trimSpace rawID" "r = Inr ()"
      "removeFile E (entPath e) (spDisk s) = Some d"
      "s' = s\<lparr>spDisk := d, spEntries := deleteEntry (entID e) (spEntries s),
         spMetrics := (spMetrics s)\<lparr>mDepth := wrap64 (mDepth (spMetrics s) - 1),
           mBytes := wrap64 (mBytes (spMetrics s) - entFileBytes e),
           mAckedTotal := mAckedTotal (spMetrics s) + 1\<rparr>\<rparr>"
proof (cases "validSpoolID (trimSpace rawID)")
  case False
  with assms(1) show thesis by (intro that(1) [of ErrInvalidSpoolItem]) (simp_all add: Ack_def)
next
  case valid: True
  note u = assms(1) [unfolded Ack_def Let_def, simplified valid]
  show thesis
  proof (cases "getEntry (spEntries s) (trimSpace rawID)")
    case None
    with u show thesis by (intro that(1) [of ErrSpoolItemNotFound]) simp_all
  next
    case (Some e)
    then have e: "e \<in> set (spEntries s)" "entID e = trimSpace rawID"
      by (simp_all add: getEntry_Some_iff [OF assms(2)])
    show thesis
    proof (cases "removeFile E (entPath e) (spDisk s)")
      case None
      with u Some show thesis
        by (intro that(1) [of "SpoolIO ''acknowledge store-and-forward item''"]) simp_all
    next
      case (Some d)
      with u \<open>getEntry _ _ = _\<close> e show thesis by (intro that(2) [OF e]) auto
    qed
  qed
qed

lemma ack_inv:
  assumes inv: "spoolInv C s" and run: "Ack E rawID s = (s', r)"
  shows "spoolInv C s'"
proof -
  have dist: "distinct (map entID (spEntries s))" using inv by (simp add: spoolInv_def)
  show ?thesis
    using run dist
  proof (cases rule: ack_cases)
    case (acked e d)
    then show ?thesis using spoolInv_drop [OF inv acked(1,4)] by simp
  qed (use inv in simp)
qed

end
