(* ===== verification/Spool_Restart.thy ===== *)
theory Spool_Restart
  imports Spool_Laws
begin

text \<open>
  Restart of the durable queue: what \<open>NewDurableSpool\<close> rebuilds from the directory a previous
  process left behind, in an orderly state or after a crash at any point of writing one record.
\<close>

section \<open>Directories a crash can leave\<close>

text \<open>
  The directory while \<open>writeSpoolFileAtomic\<close> runs: unchanged, with a temporary file that holds any
  part of the record, or with the record renamed to its destination. A rename is atomic, and the
  file was synced before it.
\<close>

inductive writeCrash :: "spoolEnv \<Rightarrow> string \<Rightarrow> bytes \<Rightarrow> disk \<Rightarrow> disk \<Rightarrow> bool" for E dest rec d where
  before: "writeCrash E dest rec d d"
| temporary: "prefix p rec \<Longrightarrow> writeCrash E dest rec d (AList.update (tempName E) (DFile p) d)"
| renamed: "writeCrash E dest rec d (AList.update dest (DFile rec) (AList.delete (tempName E) d))"

inductive_simps writeCrash_iff: "writeCrash E dest rec d d'"

section \<open>Recovery rebuilds the entries\<close>

definition emptySpool :: "int \<Rightarrow> int \<Rightarrow> disk \<Rightarrow> DurableSpool" where
  "emptySpool maxBytes maxItemBytes d = \<lparr>spMaxBytes = maxBytes, spMaxItemBytes = maxItemBytes,
     spEntries = [], spMetrics = zeroMetrics, spDisk = d\<rparr>"

definition ioFine :: "spoolEnv \<Rightarrow> bool" where
  "ioFine E \<longleftrightarrow> (\<forall>op. spIo E op)"

definition listed :: "disk \<Rightarrow> disk \<Rightarrow> bool" where
  "listed des d \<longleftrightarrow> (\<forall>x \<in> set des. map_of d (fst x) = Some (snd x))"

lemma listed_Cons [simp]: "listed ((n, nd) # des) d \<longleftrightarrow> map_of d n = Some nd \<and> listed des d"
  by (auto simp: listed_def)

lemma listed_delete: "listed des d \<Longrightarrow> n \<notin> fst ` set des \<Longrightarrow> listed des (AList.delete n d)"
  by (auto simp: listed_def AList.delete_conv)

text \<open>The loop invariant: what is rebuilt so far is a part of the wanted entries.\<close>

definition partOf :: "spoolCodec \<Rightarrow> spoolEntry list \<Rightarrow> disk \<Rightarrow> DurableSpool \<Rightarrow> bool" where
  "partOf C es des s \<longleftrightarrow> distinct (map entID es) \<and>
     (\<forall>e \<in> set es. entryOK C (spMaxItemBytes s) (spDisk s) e) \<and> dirOK es (spDisk s) \<and>
     distinct (map entID (spEntries s)) \<and> set (spEntries s) \<subseteq> set es \<and>
     metricsOK (spEntries s) (spMetrics s) \<and> distinct (map fst des) \<and>
     listed des (spDisk s) \<and>
     (\<forall>e \<in> set (spEntries s). entPath e \<notin> fst ` set des)"

lemma recoverEntry_envelope:
  "recoverEntry (itemEnvelope (entItem e) (entPayloadHash e)) (entPath e) (entFileBytes e) = e"
  by (cases e; cases "entItem e") (simp add: recoverEntry_def itemEnvelope_def)

lemma parse_readOk:
  "parseSpoolRecord C m True c = Inr x \<Longrightarrow> parseSpoolRecord C m b c = (if b then Inr x else Inl ErrCorruptSpool)"
  by (cases b) (auto simp: parseSpoolRecord_def Let_def split: if_splits option.splits)

lemma partOf_skip:
  assumes "partOf C es (de # des) s" "fst de \<notin> entPath ` set es"
  shows "partOf C es des s"
  using assms by (cases de) (auto simp: partOf_def)

lemma partOf_removeTemp:
  assumes "partOf C es ((n, nd) # des) s" "prefix ''.spool-'' n"
  shows "partOf C es des (s\<lparr>spDisk := AList.delete n (spDisk s)\<rparr>)"
proof -
  from assms(1) have ok: "\<And>e. e \<in> set es \<Longrightarrow> entryOK C (spMaxItemBytes s) (spDisk s) e"
    by (simp add: partOf_def)
  have "entPath e \<noteq> n" if "e \<in> set es" for e
    using ok [OF that] assms(2) by (auto simp: entryOK_def)
  then have "entryOK C (spMaxItemBytes s) (AList.delete n (spDisk s)) e" if "e \<in> set es" for e
    using that ok by (intro entryOK_cong [OF ok]) (auto simp: AList.delete_conv)
  moreover have "dirOK es (AList.delete n (spDisk s))"
    using assms(1) by (auto simp: partOf_def dirOK_def AList.delete_conv AList.distinct_delete
        split: if_splits)
  moreover have "listed des (AList.delete n (spDisk s))"
    using assms(1) by (auto simp: partOf_def intro: listed_delete)
  ultimately show ?thesis using assms(1) by (simp add: partOf_def)
qed

lemma partOf_add:
  assumes part: "partOf C es ((entPath e, nd) # des) s" and e: "e \<in> set es"
  shows "getEntry (spEntries s) (entID e) = None" "partOf C es des (addRecovered e s)"
proof -
  have "entID x \<noteq> entID e" if "x \<in> set (spEntries s)" for x
  proof
    assume "entID x = entID e"
    then have "x = e" using part that e by (auto simp: partOf_def distinct_map dest: inj_onD)
    with part that show False by (auto simp: partOf_def)
  qed
  then show fresh: "getEntry (spEntries s) (entID e) = None"
    by (metis getEntry_None_iff imageE)
  have sel: "spEntries (addRecovered e s) = e # spEntries s" "spDisk (addRecovered e s) = spDisk s"
    "spMaxItemBytes (addRecovered e s) = spMaxItemBytes s"
    by (simp_all add: addRecovered_def putEntry_fresh [OF fresh])
  have "metricsOK (e # spEntries s) (spMetrics (addRecovered e s))"
    by (rule metricsOK_Cons [of _ "spMetrics s"])
      (use part in \<open>auto simp: partOf_def addRecovered_def\<close>)
  moreover have "distinct (map entID (e # spEntries s))"
    using part fresh by (auto simp: partOf_def getEntry_None_iff)
  ultimately show "partOf C es des (addRecovered e s)"
    using part e unfolding partOf_def sel by auto
qed

lemma partOf_same_path:
  assumes part: "partOf C es des s" and x: "x \<in> set es" "y \<in> set es" "entPath x = entPath y"
  shows "x = y"
proof -
  have "entID x = entID y"
    by (rule entPath_inj [OF _ _ x(3), of C "spMaxItemBytes s" "spDisk s" "spMaxItemBytes s" "spDisk s"])
      (use part x(1,2) in \<open>simp_all add: partOf_def\<close>)
  then show ?thesis using part x(1,2) by (auto simp: partOf_def distinct_map dest: inj_onD)
qed

lemma partOf_entry:
  assumes part: "partOf C es ((n, nd) # des) s" and "\<not> prefix ''.spool-'' n"
    "suffix spoolExtension n" "nd \<noteq> DDir"
  obtains e c payload where "e \<in> set es" "n = entPath e" "nd = DFile c"
    "parseSpoolRecord C (spMaxItemBytes s) True c =
       Inr (itemEnvelope (entItem e) (entPayloadHash e), payload, entFileBytes e)"
    "validSpoolID (entID e)" "validSpoolPriority (itemPriority (entItem e))"
proof -
  have nd: "map_of (spDisk s) n = Some nd" using part by (simp add: partOf_def)
  then have "n \<in> entPath ` set es" using part assms(2-4) unfolding partOf_def dirOK_def by metis
  then obtain e where e: "e \<in> set es" "n = entPath e" by auto
  then have "entryOK C (spMaxItemBytes s) (spDisk s) e" using part by (simp add: partOf_def)
  with e nd that show thesis by (auto simp: entryOK_def)
qed

lemma recoverStep_ok:
  assumes part: "partOf C es (de # des) s"
  obtains (fault) s' err where "recoverStep C E de s = (s', Inl err)" "\<not> ioFine E"
  | (ok) s' where "recoverStep C E de s = (s', Inr ())" "partOf C es des s'"
      "spMaxBytes s' = spMaxBytes s" "spMaxItemBytes s' = spMaxItemBytes s"
      "{e \<in> set es. entPath e = fst de} \<union> set (spEntries s) = set (spEntries s')"
proof -
  obtain n nd where de: "de = (n, nd)" by force
  have nd: "map_of (spDisk s) n = Some nd" using part de by (simp add: partOf_def)
  have owner: "\<not> prefix ''.spool-'' (entPath e) \<and> suffix spoolExtension (entPath e) \<and>
      (\<exists>c. map_of (spDisk s) (entPath e) = Some (DFile c))" if "e \<in> set es" for e
    using part that by (auto simp: partOf_def entryOK_def)
  consider (temp) "prefix ''.spool-'' n" | (skip) "\<not> prefix ''.spool-'' n" "nd = DDir \<or> \<not> suffix spoolExtension n"
    | (committed) "\<not> prefix ''.spool-'' n" "suffix spoolExtension n" "nd \<noteq> DDir" by blast
  then show thesis
  proof cases
    case temp
    then have "nd \<noteq> DDir" using part nd unfolding partOf_def dirOK_def by metis
    moreover have "{e \<in> set es. entPath e = n} = {}" using owner temp by blast
    ultimately show thesis
      using temp nd partOf_removeTemp [OF part [unfolded de] temp]
        fault [of s "SpoolIO ''remove incomplete store-and-forward item''"]
        ok [of "s\<lparr>spDisk := AList.delete n (spDisk s)\<rparr>"]
      by (cases "spIo E (IoRemove n)") (auto simp: de recoverStep_def removeFile_def ioFine_def)
  next
    case skip
    have "{e \<in> set es. entPath e = n} = {}" using owner skip nd by fastforce
    then show thesis
      using skip partOf_skip [OF part] by (intro ok [of s]) (auto simp: de recoverStep_def)
  next
    case committed
    then obtain e c payload where e: "e \<in> set es" "n = entPath e" "nd = DFile c"
      "parseSpoolRecord C (spMaxItemBytes s) True c =
         Inr (itemEnvelope (entItem e) (entPayloadHash e), payload, entFileBytes e)"
      "validSpoolID (entID e)" "validSpoolPriority (itemPriority (entItem e))"
      by (rule partOf_entry [OF part [unfolded de]])
    note add = partOf_add [OF part [unfolded de e(2)] e(1)]
    have "{x \<in> set es. entPath x = n} = {e}"
      using e(1,2) partOf_same_path [OF part] by auto
    moreover note facts = committed nd e add putEntry_fresh [OF add(1)] parse_readOk [OF e(4)]
    ultimately show thesis
    proof (cases "spIo E (IoInfo n) \<and> spIo E (IoOpen n) \<and> spIo E (IoRead n)")
      case True
      with facts \<open>{x \<in> set es. entPath x = n} = {e}\<close> show thesis
        by (intro ok [of "addRecovered e s"])
          (auto simp: de recoverStep_def readSpoolFile_def recoverEntry_envelope entID_def addRecovered_def)
    next
      case False
      with facts show thesis
        by (intro fault [of s ErrCorruptSpool]) (auto simp: de recoverStep_def readSpoolFile_def ioFine_def Let_def)
    qed
  qed
qed

lemma recoverLoop_ok:
  assumes "partOf C es des s" "recoverLoop C E des s = (s', r)"
  shows "(ioFine E \<longrightarrow> r = Inr ()) \<and> (r = Inr () \<longrightarrow> partOf C es [] s' \<and>
    spMaxBytes s' = spMaxBytes s \<and> spMaxItemBytes s' = spMaxItemBytes s \<and>
    {e \<in> set es. entPath e \<in> fst ` set des} \<union> set (spEntries s) = set (spEntries s'))"
  using assms
proof (induction des arbitrary: s)
  case Nil
  then show ?case by auto
next
  case (Cons de des)
  from Cons.prems(1) show ?case
  proof (cases rule: recoverStep_ok [where E = E])
    case (fault s1 err)
    with Cons.prems(2) show ?thesis by auto
  next
    case (ok s1)
    with Cons.prems(2) have "recoverLoop C E des s1 = (s', r)" by simp
    from Cons.IH [OF ok(2) this] ok show ?thesis by auto
  qed
qed

text \<open>
  Recovery from a directory that holds exactly the records of \<open>es\<close>, besides temporary files and
  foreign names: if it succeeds, it rebuilds exactly \<open>es\<close>, in some order, and it can only fail
  where the operating system fails.
\<close>

lemma recover_ok:
  assumes ids: "distinct (map entID es)" and dir: "dirOK es d"
    and ok: "\<And>e. e \<in> set es \<Longrightarrow> entryOK C m d e"
    and conf: "0 < m" "m \<le> M" "M < 2 ^ 62"
    and run: "recover C E (emptySpool M m d) = (s, r)"
  shows "ioFine E \<Longrightarrow> r = Inr ()"
    and "r = Inr () \<Longrightarrow> spoolInv C s \<and> spMaxBytes s = M \<and> spMaxItemBytes s = m \<and>
      mset (spEntries s) = mset es"
proof -
  let ?s = "emptySpool M m d" and ?des = "sort_key fst d"
  have part: "partOf C es ?des ?s"
    using ids dir ok by (auto simp: partOf_def emptySpool_def dirOK_def metricsOK_def zeroMetrics_def
        totalBytes_def wrap64_id listed_def)
  have loop: "recoverLoop C E ?des ?s = (s, r)" if "spIo E IoReadDir"
    using run that by (simp add: recover_def emptySpool_def)
  show "ioFine E \<Longrightarrow> r = Inr ()" using recoverLoop_ok [OF part] loop by (simp add: ioFine_def)
  assume "r = Inr ()"
  then have "recoverLoop C E ?des ?s = (s, Inr ())"
    using run loop by (auto simp: recover_def split: if_splits)
  from recoverLoop_ok [OF part this] have s: "partOf C es [] s" "spMaxBytes s = M" "spMaxItemBytes s = m"
    "{e \<in> set es. entPath e \<in> fst ` set ?des} \<union> set (spEntries ?s) = set (spEntries s)"
    by (auto simp: emptySpool_def)
  have "entPath e \<in> fst ` set d" if "e \<in> set es" for e
    using ok [OF that] by (force simp: entryOK_def dest: map_of_SomeD)
  with s(4) have set: "set (spEntries s) = set es" by (auto simp: emptySpool_def)
  have "distinct es" "distinct (spEntries s)" using ids s(1) by (auto simp: partOf_def distinct_map)
  with set have "mset (spEntries s) = mset es" by (simp add: set_eq_iff_mset_eq_distinct)
  then show "spoolInv C s \<and> spMaxBytes s = M \<and> spMaxItemBytes s = m \<and> mset (spEntries s) = mset es"
    using s set conf by (auto simp: spoolInv_def partOf_def configOK_def dirOK_def)
qed

section \<open>The constructor\<close>

lemma totalBytes_sum:
  "distinct (map entID es) \<Longrightarrow> totalBytes es = (\<Sum>e \<in> set es. entFileBytes e)"
  unfolding totalBytes_def by (metis distinct_map sum_list_distinct_conv_sum_set)

lemma spoolInv_total:
  assumes "spoolInv C s"
  shows "0 \<le> totalBytes (spEntries s)" "totalBytes (spEntries s) < 2 ^ 63 \<Longrightarrow>
    mBytes (spMetrics s) = totalBytes (spEntries s)"
proof -
  show nonneg: "0 \<le> totalBytes (spEntries s)"
    by (rule totalBytes_nonneg) (use assms in \<open>auto simp: spoolInv_def\<close>)
  then show "totalBytes (spEntries s) < 2 ^ 63 \<Longrightarrow> mBytes (spMetrics s) = totalBytes (spEntries s)"
    using assms by (simp add: spoolInv_def metricsOK_def wrap64_id)
qed

lemma withinQuota_mBytes:
  "spoolInv C s \<Longrightarrow> withinQuota s \<Longrightarrow> mBytes (spMetrics s) = totalBytes (spEntries s)"
  using spoolInv_total(2) [of C s] by (simp add: withinQuota_def spoolInv_def configOK_def)

lemma withinQuota_cong:
  "mset (spEntries s') = mset (spEntries s) \<Longrightarrow> spMaxBytes s' = spMaxBytes s \<Longrightarrow>
     withinQuota s' \<longleftrightarrow> withinQuota s"
  using totalBytes_mset [of "spEntries s'" "spEntries s"] by (simp add: withinQuota_def)

lemma new_from_recover:
  assumes "recover C E (emptySpool M m d) = (s, Inr ())" "spoolInv C s" "withinQuota s"
    "ioFine E" "trimSpace root \<noteq> []" "0 < m" "m \<le> M"
  shows "NewDurableSpool C E True root M m d = (spDisk s, Inr s)"
proof -
  have "enforceQuota E [] s = (s, Inr ())"
    using assms(2,3) withinQuota_mBytes [OF assms(2,3)]
    by (subst enforceQuota.simps) (simp add: withinQuota_def)
  then show ?thesis
    using assms unfolding NewDurableSpool_def Let_def emptySpool_def [symmetric]
    by (simp add: ioFine_def)
qed

text \<open>The directory after a crash is one of two orderly directories.\<close>

lemma writeCrash_dir:
  assumes inv: "spoolInv C s" and C: "codecOK C" "spNow E \<noteq> 0"
    and fresh: "getEntry (spEntries s) i = None" "admissible i pr payload s"
    and rec: "newRecord C E i pr payload = Inr rec"
    and crash: "writeCrash E (spoolFilename (spNow E) i) rec (spDisk s) d"
  obtains es where "es = spEntries s \<and> (\<forall>n. \<not> prefix ''.spool-'' n \<longrightarrow> map_of d n = map_of (spDisk s) n) \<or>
      es = newEntry C E i pr payload rec # spEntries s \<and> (\<forall>n. \<not> prefix ''.spool-'' n \<longrightarrow>
        map_of d n = (if n = spoolFilename (spNow E) i then Some (DFile rec) else map_of (spDisk s) n))"
    "distinct (map entID es)" "dirOK es d" "\<And>e. e \<in> set es \<Longrightarrow> entryOK C (spMaxItemBytes s) d e"
proof -
  let ?dest = "spoolFilename (spNow E) i" and ?e = "newEntry C E i pr payload rec"
  define E1 where "E1 = E\<lparr>spIo := (\<lambda>op. op \<noteq> IoRename ?dest \<and> op \<noteq> IoRemove (tempName E))\<rparr>"
  have keep: "n \<noteq> tempName E" if "\<not> prefix ''.spool-'' n" for n using that by auto
  consider "d = spDisk s" | p where "d = AList.update (tempName E) (DFile p) (spDisk s)"
    | "d = AList.update ?dest (DFile rec) (AList.delete (tempName E) (spDisk s))"
    using crash by (auto simp: writeCrash_iff)
  then show thesis
  proof cases
    case 1
    then show thesis using inv that [of "spEntries s"] by (auto simp: spoolInv_def)
  next
    case (2 p)
    have "writeSpoolFileAtomic E1 ?dest p (spDisk s) =
        (d, Inl (SpoolIO ''commit store-and-forward item''))"
      by (simp add: writeSpoolFileAtomic_def removeTemp_def E1_def tempName_def 2 Let_def)
    from fault_inv [OF inv this] show thesis using that [of "spEntries s"] keep
      by (auto simp: spoolInv_def 2 AList.update_conv)
  next
    case 3
    have "map_of d n = (if n = ?dest then Some (DFile rec) else map_of (spDisk s) n)"
      if "n \<noteq> tempName E" for n using that by (simp add: 3 AList.update_conv AList.delete_conv)
    moreover have "map_of d (tempName E) = None" by (simp add: 3 AList.update_conv AList.delete_conv)
    moreover have "distinct (map fst (spDisk s)) \<Longrightarrow> distinct (map fst d)"
      by (simp add: 3 AList.distinct_update AList.distinct_delete)
    ultimately show thesis
      using addEntry_dir [OF inv C fresh rec, of d "?e # spEntries s"] that [of "?e # spEntries s"] keep by auto
  qed
qed

section \<open>Every history keeps the invariant\<close>

text \<open>
  The histories of one spool directory under one configuration: a process starts on an empty
  directory, enqueues, acknowledges, stops or crashes while it writes, and a new process starts on
  what is left. Any operating-system call of any step may fail.
\<close>

inductive spoolReach :: "spoolCodec \<Rightarrow> int \<Rightarrow> int \<Rightarrow> DurableSpool \<Rightarrow> bool" for C M m where
  start: "NewDurableSpool C E a root M m [] = (d, Inr s) \<Longrightarrow> spoolReach C M m s"
| enqueue: "spoolReach C M m s \<Longrightarrow> spNow E \<noteq> 0 \<Longrightarrow>
    enqueue C E i pr payload ev s = (s', r) \<Longrightarrow> spoolReach C M m s'"
| ack: "spoolReach C M m s \<Longrightarrow> Ack E i s = (s', r) \<Longrightarrow> spoolReach C M m s'"
| restart: "spoolReach C M m s \<Longrightarrow> NewDurableSpool C E a root M m (spDisk s) = (d, Inr s') \<Longrightarrow>
    spoolReach C M m s'"
| crash: "spoolReach C M m s \<Longrightarrow> spNow E \<noteq> 0 \<Longrightarrow> getEntry (spEntries s) i = None \<Longrightarrow>
    admissible i pr payload s \<Longrightarrow> newRecord C E i pr payload = Inr rec \<Longrightarrow>
    writeCrash E (spoolFilename (spNow E) i) rec (spDisk s) d \<Longrightarrow>
    NewDurableSpool C E' a root M m d = (d', Inr s') \<Longrightarrow> spoolReach C M m s'"

lemma NewDurableSpool_Inr:
  assumes "NewDurableSpool C E a root M m d = (d', Inr s')"
  obtains s where "recover C E (emptySpool M m d) = (s, Inr ())" "enforceQuota E [] s = (s', Inr ())"
    "0 < m" "m \<le> M" "d' = spDisk s'"
  using assms unfolding NewDurableSpool_def Let_def emptySpool_def [symmetric]
  by (auto split: if_splits prod.splits sum.splits)

lemma new_inv:
  assumes "NewDurableSpool C E a root M m d = (d', Inr s')" "M < 2 ^ 62"
    and es: "distinct (map entID es)" "dirOK es d" "\<And>e. e \<in> set es \<Longrightarrow> entryOK C m d e"
  shows "spoolInv C s' \<and> spMaxBytes s' = M \<and> spMaxItemBytes s' = m"
proof -
  from assms(1) obtain s where s: "recover C E (emptySpool M m d) = (s, Inr ())"
    "enforceQuota E [] s = (s', Inr ())" "0 < m" "m \<le> M" by (rule NewDurableSpool_Inr)
  from recover_ok(2) [OF es s(3,4) assms(2) s(1)] have "spoolInv C s" "spMaxBytes s = M" "spMaxItemBytes s = m"
    by auto
  with enforceQuota_keeps [OF _ s(2)] show ?thesis by auto
qed

lemma enqueue_config:
  assumes "spoolInv C s" "codecOK C" "spNow E \<noteq> 0" "enqueue C E rawID pr payload ev s = (s', r)"
  shows "spMaxBytes s' = spMaxBytes s \<and> spMaxItemBytes s' = spMaxItemBytes s"
  using assms(4)
proof (cases rule: enqueue_cases)
  case (stored rec d)
  let ?t = "enqueueEntry (newEntry C E (trimSpace rawID) pr payload rec) d s"
  have "spoolInv C ?t" by (rule enqueueEntry_inv [OF assms(1-3) stored(2,1,3,6)])
  from enforceQuota_keeps [OF this] stored(7) show ?thesis
    by (auto simp: enqueueEntry_def split: if_splits)
qed auto

lemma spoolReach_inv:
  assumes "spoolReach C M m s" "codecOK C" "M < 2 ^ 62"
  shows "spoolInv C s \<and> spMaxBytes s = M \<and> spMaxItemBytes s = m"
  using assms(1)
proof (induction rule: spoolReach.induct)
  case (start E a root d s)
  then show ?case by (rule new_inv [OF _ assms(3), of _ _ _ _ _ _ _ _ "[]"]) (simp_all add: dirOK_def)
next
  case (enqueue s E i pr payload ev s' r)
  then show ?case using enqueue_inv enqueue_config assms(2) by blast
next
  case (ack s E i s' r)
  then have "spMaxBytes s' = spMaxBytes s \<and> spMaxItemBytes s' = spMaxItemBytes s"
    by (auto simp: Ack_def Let_def split: if_splits option.splits)
  with ack ack_inv show ?case by auto
next
  case (restart s E a root d s')
  then show ?case
    by (intro new_inv [OF restart.hyps(2) assms(3), of "spEntries s"]) (auto simp: spoolInv_def)
next
  case (crash s E i pr payload rec d E' a root d' s')
  from crash.IH have inv: "spoolInv C s" "spMaxItemBytes s = m" by auto
  obtain es where es: "distinct (map entID es)" "dirOK es d" "\<And>e. e \<in> set es \<Longrightarrow> entryOK C m d e"
    using writeCrash_dir [OF inv(1) assms(2) crash.hyps(2-6)] inv(2) by metis
  show ?case by (rule new_inv [OF crash.hyps(7) assms(3) es])
qed

end
