(* ===== verification/Spool_Spec.thy ===== *)
theory Spool_Spec
  imports Spool_Restart
begin

text \<open>
  The abstract specification of the durable queue: a finite map from item ids to messages.
  \<open>spoolMap\<close> reads it off the entries and the files of the directory; the lemmas say how every
  operation moves it.
\<close>

section \<open>The abstraction\<close>

definition storedPayload :: "spoolCodec \<Rightarrow> DurableSpool \<Rightarrow> spoolEntry \<Rightarrow> bytes option" where
  "storedPayload C s e =
     (case map_of (spDisk s) (entPath e) of
        Some (DFile c) \<Rightarrow>
          (case parseSpoolRecord C (spMaxItemBytes s) True c of Inr (_, p, _) \<Rightarrow> Some p | _ \<Rightarrow> None)
      | _ \<Rightarrow> None)"

definition spoolMap :: "spoolCodec \<Rightarrow> DurableSpool \<Rightarrow> string \<Rightarrow> SpoolMessage option" where
  "spoolMap C s i =
     (case getEntry (spEntries s) i of
        None \<Rightarrow> None
      | Some e \<Rightarrow> map_option (\<lambda>p. \<lparr>msgItem = entItem e, msgPayload = p\<rparr>) (storedPayload C s e))"

lemma storedPayload_cong:
  "map_of (spDisk s') (entPath e) = map_of (spDisk s) (entPath e) \<Longrightarrow>
     spMaxItemBytes s' = spMaxItemBytes s \<Longrightarrow> storedPayload C s' e = storedPayload C s e"
  by (simp add: storedPayload_def split: option.split dnode.split)

lemma storedPayload_Some:
  assumes "spoolInv C s" "e \<in> set (spEntries s)"
  obtains p where "storedPayload C s e = Some p" "hashPayload C p = entPayloadHash e"
    "int (length p) = itemSizeBytes (entItem e)"
proof -
  from assms obtain c p where c: "map_of (spDisk s) (entPath e) = Some (DFile c)"
    "parseSpoolRecord C (spMaxItemBytes s) True c =
       Inr (itemEnvelope (entItem e) (entPayloadHash e), p, int (length c))"
    by (auto simp: spoolInv_def entryOK_def)
  then have "hashPayload C p = entPayloadHash e" "int (length p) = itemSizeBytes (entItem e)"
    by (auto simp: parseSpoolRecord_def Let_def split: if_splits option.splits)
  with c that show thesis by (simp add: storedPayload_def)
qed

lemma spoolMap_Some_iff:
  assumes "spoolInv C s"
  shows "spoolMap C s i = Some msg \<longleftrightarrow> (\<exists>e \<in> set (spEntries s). entID e = i \<and> msgItem msg = entItem e \<and>
    storedPayload C s e = Some (msgPayload msg))"
proof -
  have dist: "distinct (map entID (spEntries s))" using assms by (simp add: spoolInv_def)
  show ?thesis
  proof
    assume "spoolMap C s i = Some msg"
    then obtain e where "getEntry (spEntries s) i = Some e" "msgItem msg = entItem e"
      "storedPayload C s e = Some (msgPayload msg)"
      by (auto simp: spoolMap_def split: option.splits)
    then show "\<exists>e \<in> set (spEntries s). entID e = i \<and> msgItem msg = entItem e \<and>
        storedPayload C s e = Some (msgPayload msg)"
      using getEntry_Some_iff [OF dist] by blast
  next
    assume "\<exists>e \<in> set (spEntries s). entID e = i \<and> msgItem msg = entItem e \<and>
        storedPayload C s e = Some (msgPayload msg)"
    then obtain e where e: "getEntry (spEntries s) i = Some e" "msgItem msg = entItem e"
      "storedPayload C s e = Some (msgPayload msg)"
      using getEntry_Some_iff [OF dist] by blast
    then show "spoolMap C s i = Some msg" by (cases msg) (simp add: spoolMap_def)
  qed
qed

lemma dom_spoolMap: "spoolInv C s \<Longrightarrow> dom (spoolMap C s) = entID ` set (spEntries s)"
proof -
  assume inv: "spoolInv C s"
  have "i \<in> dom (spoolMap C s)" if "i \<in> entID ` set (spEntries s)" for i
  proof -
    from that obtain e where e: "e \<in> set (spEntries s)" "entID e = i" by auto
    then obtain p where "storedPayload C s e = Some p" using storedPayload_Some [OF inv] by blast
    with e have "spoolMap C s i = Some \<lparr>msgItem = entItem e, msgPayload = p\<rparr>"
      by (auto simp: spoolMap_Some_iff [OF inv])
    then show ?thesis by (rule domI)
  qed
  then show ?thesis by (auto simp: spoolMap_Some_iff [OF inv])
qed

text \<open>Two spools with the same entries and the same files for them have the same map.\<close>

lemma spoolMap_cong:
  assumes inv: "spoolInv C s" "spoolInv C s'" and set: "set (spEntries s') = set (spEntries s)"
    and files: "\<And>e. e \<in> set (spEntries s) \<Longrightarrow> map_of (spDisk s') (entPath e) = map_of (spDisk s) (entPath e)"
    and "spMaxItemBytes s' = spMaxItemBytes s"
  shows "spoolMap C s' = spoolMap C s"
proof -
  have "storedPayload C s' e = storedPayload C s e" if "e \<in> set (spEntries s)" for e
    by (rule storedPayload_cong) (use files [OF that] assms(5) in auto)
  then have "spoolMap C s' i = Some msg \<longleftrightarrow> spoolMap C s i = Some msg" for i msg
    unfolding spoolMap_Some_iff [OF inv(1)] spoolMap_Some_iff [OF inv(2)] set by auto
  then show ?thesis by (metis (no_types) ext not_None_eq)
qed

section \<open>Each operation on the map\<close>

lemma newRecord_parse:
  assumes "spoolInv C s" "codecOK C" "spNow E \<noteq> 0" "admissible i pr payload s"
    "newRecord C E i pr payload = Inr rec"
  shows "parseSpoolRecord C (spMaxItemBytes s) True rec =
    Inr (itemEnvelope (newItem E i pr payload) (hashPayload C payload), payload, int (length rec))"
  by (rule parse_encode) (use assms in \<open>auto simp: newRecord_def admissible_def spoolInv_def configOK_def\<close>)

lemma spoolMap_add:
  assumes inv: "spoolInv C s" "spoolInv C s'" and C: "codecOK C" "spNow E \<noteq> 0"
    and new: "getEntry (spEntries s) i = None" "admissible i pr payload s" "newRecord C E i pr payload = Inr rec"
    and set: "set (spEntries s') = insert (newEntry C E i pr payload rec) (set (spEntries s))"
    and files: "\<And>n. \<not> prefix ''.spool-'' n \<Longrightarrow> map_of (spDisk s') n =
        (if n = spoolFilename (spNow E) i then Some (DFile rec) else map_of (spDisk s) n)"
    and m: "spMaxItemBytes s' = spMaxItemBytes s"
  shows "spoolMap C s' = (spoolMap C s)(i \<mapsto> \<lparr>msgItem = newItem E i pr payload, msgPayload = payload\<rparr>)"
proof -
  let ?e = "newEntry C E i pr payload rec"
  have ok: "entryOK C (spMaxItemBytes s) (spDisk s) x" if "x \<in> set (spEntries s)" for x
    using inv(1) that by (simp add: spoolInv_def)
  have new_p: "storedPayload C s' ?e = Some payload"
    using newRecord_parse [OF inv(1) C new(2,3)] files [of "spoolFilename (spNow E) i"]
    by (simp add: storedPayload_def m)
  have old_p: "storedPayload C s' x = storedPayload C s x" if x: "x \<in> set (spEntries s)" for x
  proof (rule storedPayload_cong [OF _ m])
    have "entPath x \<noteq> spoolFilename (spNow E) i"
      using ok [OF x] new(1) x by (auto simp: entryOK_def getEntry_None_iff dest: spoolFilename_inj)
    then show "map_of (spDisk s') (entPath x) = map_of (spDisk s) (entPath x)"
      using files [of "entPath x"] ok [OF x] by (simp add: entryOK_def)
  qed
  have fresh: "entID x \<noteq> i" if "x \<in> set (spEntries s)" for x
    using new(1) that by (auto simp: getEntry_None_iff)
  have "spoolMap C s' j = Some msg \<longleftrightarrow>
      ((spoolMap C s)(i \<mapsto> \<lparr>msgItem = newItem E i pr payload, msgPayload = payload\<rparr>)) j = Some msg" for j msg
    using new_p old_p fresh
    by (cases msg) (auto simp: spoolMap_Some_iff [OF inv(1)] spoolMap_Some_iff [OF inv(2)] set)
  then show ?thesis by (metis (no_types) ext not_None_eq)
qed

lemma spoolMap_remove:
  assumes inv: "spoolInv C s" "spoolInv C s'" and e: "e \<in> set (spEntries s)"
    and rm: "removeFile E (entPath e) (spDisk s) = Some (spDisk s')"
    and es: "spEntries s' = deleteEntry (entID e) (spEntries s)"
    and m: "spMaxItemBytes s' = spMaxItemBytes s"
  shows "spoolMap C s' = (spoolMap C s)(entID e := None)"
proof -
  have ok: "entryOK C (spMaxItemBytes s) (spDisk s) x" if "x \<in> set (spEntries s)" for x
    using inv(1) that by (simp add: spoolInv_def)
  have "storedPayload C s' x = storedPayload C s x"
    if "x \<in> set (spEntries s)" "entID x \<noteq> entID e" for x
  proof (rule storedPayload_cong [OF _ m])
    have "entPath x \<noteq> entPath e" using entPath_inj [OF ok ok, OF that(1) e] that(2) by blast
    then show "map_of (spDisk s') (entPath x) = map_of (spDisk s) (entPath x)"
      by (simp add: removeFile_Some(1) [OF rm])
  qed
  then have "spoolMap C s' j = Some msg \<longleftrightarrow> ((spoolMap C s)(entID e := None)) j = Some msg" for j msg
    by (auto simp: spoolMap_Some_iff [OF inv(1)] spoolMap_Some_iff [OF inv(2)] es)
  then show ?thesis by (metis (no_types) ext not_None_eq)
qed

text \<open>Acknowledgment deletes one binding or, when it fails, nothing at all.\<close>

lemma ack_spec:
  assumes inv: "spoolInv C s" and run: "Ack E rawID s = (s', r)"
  shows "if r = Inr () then spoolMap C s' = (spoolMap C s)(trimSpace rawID := None) else s' = s"
proof -
  have dist: "distinct (map entID (spEntries s))" using inv by (simp add: spoolInv_def)
  show ?thesis
    using run dist
  proof (cases rule: ack_cases)
    case (acked e d)
    have "spoolMap C s' = (spoolMap C s)(entID e := None)"
      by (rule spoolMap_remove [OF inv ack_inv [OF inv run] acked(1)]) (use acked in auto)
    with acked show ?thesis by simp
  qed auto
qed

text \<open>
  Eviction removes the files of its victims only: the map is the old one restricted to the
  entries that are left.
\<close>

lemma enforceQuota_spec:
  assumes "spoolInv C s" "enforceQuota E p s = (s', r)"
  shows "spoolMap C s' = spoolMap C s |` (entID ` set (spEntries s'))"
  using assms
proof (induction "length (spEntries s)" arbitrary: s rule: less_induct)
  case less
  note inv = less.prems(1)
  have stop: "spoolMap C s = spoolMap C s |` (entID ` set (spEntries s))"
    unfolding dom_spoolMap [OF inv, symmetric] by (simp add: restrict_map_def fun_eq_iff domIff)
  show ?case
  proof (cases rule: enforceQuota_cases [of s E p])
    case (evict e rest d)
    then have e: "e \<in> set (spEntries s)" by (auto dest!: dropWhile_in_set)
    let ?t = "evictEntry e d s"
    have len: "length (spEntries ?t) < length (spEntries s)"
      using e by (auto simp: evictEntry_def deleteEntry_def intro!: length_filter_less)
    have inv_t: "spoolInv C ?t" by (rule evictEntry_inv [OF inv e evict(3)])
    have run: "enforceQuota E p ?t = (s', r)" using less.prems(2) evict(4) by simp
    have "spoolMap C ?t = (spoolMap C s)(entID e := None)"
      by (rule spoolMap_remove [OF inv inv_t e]) (use evict in \<open>auto simp: evictEntry_def\<close>)
    moreover have "entID e \<notin> entID ` set (spEntries s')"
      using enforceQuota_keeps [OF inv_t run] by (auto simp: evictEntry_def)
    ultimately show ?thesis
      using less.hyps [OF len inv_t run] by (auto simp: restrict_map_def fun_eq_iff)
  qed (use less.prems stop in auto)
qed

section \<open>Enqueue on the map\<close>

lemma totalBytes_subset:
  assumes "distinct (map entID es)" "distinct (map entID es')" "set es' \<subseteq> set es"
    "\<And>e. e \<in> set es \<Longrightarrow> 0 \<le> entFileBytes e"
  shows "totalBytes es' \<le> totalBytes es"
  unfolding totalBytes_sum [OF assms(1)] totalBytes_sum [OF assms(2)]
  by (rule sum_mono2) (use assms in auto)

lemma totalBytes_inv_subset:
  assumes "spoolInv C s" "spoolInv C s'" "set (spEntries s') \<subseteq> set (spEntries s)"
  shows "totalBytes (spEntries s') \<le> totalBytes (spEntries s)"
  by (rule totalBytes_subset) (use assms in \<open>auto simp: spoolInv_def dest: entFileBytes_nonneg\<close>)

text \<open>
  When the operating system works and the protected record fits by itself, eviction always ends
  within the quota.
\<close>

lemma enforceQuota_succeeds:
  assumes "spoolInv C s" "ioFine E" "totalBytes (spEntries s) < 2 ^ 63"
    "\<And>e. e \<in> set (spEntries s) \<Longrightarrow> entID e = p \<Longrightarrow> entFileBytes e \<le> spMaxBytes s"
    "enforceQuota E p s = (s', r)"
  shows "r = Inr ()"
  using assms
proof (induction "length (spEntries s)" arbitrary: s rule: less_induct)
  case less
  note inv = less.prems(1)
  have dist: "distinct (map entID (spEntries s))" using inv by (simp add: spoolInv_def)
  show ?case
  proof (cases rule: enforceQuota_cases [of s E p])
    case stuck
    have "spEntries s = [] \<or> (\<exists>e. spEntries s = [e])"
      using dist stuck(2) by (cases "spEntries s"; cases "tl (spEntries s)") auto
    then have "totalBytes (spEntries s) \<le> spMaxBytes s"
      using less.prems(4) stuck(2) inv by (auto simp: totalBytes_def spoolInv_def configOK_def)
    with stuck(1) spoolInv_total(2) [OF inv less.prems(3)] show ?thesis by simp
  next
    case (fault e rest)
    then have "e \<in> set (spEntries s)" by (auto dest!: dropWhile_in_set)
    then have "entryOK C (spMaxItemBytes s) (spDisk s) e" using inv by (simp add: spoolInv_def)
    from removeFile_entry [OF this, of E] fault(3) less.prems(2) show ?thesis by (simp add: ioFine_def)
  next
    case (evict e rest d)
    then have e: "e \<in> set (spEntries s)" by (auto dest!: dropWhile_in_set)
    let ?t = "evictEntry e d s"
    have len: "length (spEntries ?t) < length (spEntries s)"
      using e by (auto simp: evictEntry_def deleteEntry_def intro!: length_filter_less)
    have inv_t: "spoolInv C ?t" by (rule evictEntry_inv [OF inv e evict(3)])
    have "totalBytes (spEntries ?t) \<le> totalBytes (spEntries s)"
      by (rule totalBytes_inv_subset [OF inv inv_t]) (auto simp: evictEntry_def)
    then show ?thesis
      using less.hyps [OF len inv_t less.prems(2)] less.prems(3-5) evict(4) by (simp add: evictEntry_def)
  qed (use less.prems in auto)
qed

lemma others_newEntry: "getEntry es i = None \<Longrightarrow> others i (putEntry (newEntry C E i pr payload rec) es) = others i es"
  by (simp add: putEntry_def others_def deleteEntry_def)

lemma enqueueEntry_sel:
  assumes "getEntry (spEntries s) i = None"
  shows "spEntries (enqueueEntry (newEntry C E i pr payload rec) d s) =
      newEntry C E i pr payload rec # spEntries s"
    "spMaxBytes (enqueueEntry e d s) = spMaxBytes s" "spMaxItemBytes (enqueueEntry e d s) = spMaxItemBytes s"
    "spDisk (enqueueEntry e d s) = d"
  by (simp_all add: enqueueEntry_def putEntry_fresh assms)

text \<open>The state between the write and the eviction.\<close>

lemma stored_map:
  assumes inv: "spoolInv C s" and C: "codecOK C" "spNow E \<noteq> 0"
    and new: "getEntry (spEntries s) i = None" "admissible i pr payload s" "newRecord C E i pr payload = Inr rec"
    and w: "writeSpoolFileAtomic E (spoolFilename (spNow E) i) rec (spDisk s) = (d, Inr ())"
  shows "spoolMap C (enqueueEntry (newEntry C E i pr payload rec) d s) =
    (spoolMap C s)(i \<mapsto> \<lparr>msgItem = newItem E i pr payload, msgPayload = payload\<rparr>)"
proof (rule spoolMap_add [OF inv enqueueEntry_inv [OF inv C new w] C new])
  fix n
  assume "\<not> prefix ''.spool-'' n"
  then have "n \<noteq> tempName E" by auto
  then show "map_of (spDisk (enqueueEntry (newEntry C E i pr payload rec) d s)) n =
      (if n = spoolFilename (spNow E) i then Some (DFile rec) else map_of (spDisk s) n)"
    using write_disk(1) [OF w spoolFilename_neq_temp(1)] by (simp add: enqueueEntry_sel [OF new(1)])
qed (simp_all add: enqueueEntry_sel [OF new(1)])

lemma fault_map:
  assumes inv: "spoolInv C s"
    and w: "writeSpoolFileAtomic E (spoolFilename t i) rec (spDisk s) = (d, Inl err)"
  shows "spoolMap C (s\<lparr>spDisk := d\<rparr>) = spoolMap C s"
proof (rule spoolMap_cong [OF inv fault_inv [OF inv w]])
  fix e
  assume "e \<in> set (spEntries s)"
  then have "entryOK C (spMaxItemBytes s) (spDisk s) e" using inv by (simp add: spoolInv_def)
  from entryOK_path_neq_temp [OF this]
  show "map_of (spDisk (s\<lparr>spDisk := d\<rparr>)) (entPath e) = map_of (spDisk s) (entPath e)"
    using write_disk(1) [OF w spoolFilename_neq_temp(1)] by simp
qed simp_all

section \<open>Reading the next message\<close>

lemma readEntry_ok:
  assumes "spoolInv C s" "ioFine E" "e \<in> set (spEntries s)"
  obtains msg where "readEntry C E s e = Inr msg" "msgItem msg = entItem e" "spoolMap C s (entID e) = Some msg"
proof -
  from assms obtain c p where c: "map_of (spDisk s) (entPath e) = Some (DFile c)"
    "parseSpoolRecord C (spMaxItemBytes s) True c =
       Inr (itemEnvelope (entItem e) (entPayloadHash e), p, int (length c))"
    by (auto simp: spoolInv_def entryOK_def)
  let ?msg = "\<lparr>msgItem = entItem e, msgPayload = p\<rparr>"
  have "readEntry C E s e = Inr ?msg"
    using c assms(2) by (simp add: readEntry_def readSpoolFile_def ioFine_def)
  moreover have "spoolMap C s (entID e) = Some ?msg"
    using c assms(3) by (auto simp: spoolMap_Some_iff [OF assms(1)] storedPayload_def)
  ultimately show thesis using that by simp
qed

text \<open>
  Without the assumption on the operating system: what is returned is a stored message, or the
  call fails; it never changes the spool.
\<close>

lemma readEntry_sound:
  assumes "spoolInv C s" "e \<in> set (spEntries s)" "readEntry C E s e = Inr msg"
  shows "msgItem msg = entItem e \<and> spoolMap C s (entID e) = Some msg"
proof -
  from assms obtain c p where c: "map_of (spDisk s) (entPath e) = Some (DFile c)"
    "parseSpoolRecord C (spMaxItemBytes s) True c =
       Inr (itemEnvelope (entItem e) (entPayloadHash e), p, int (length c))"
    by (auto simp: spoolInv_def entryOK_def)
  then have "msg = \<lparr>msgItem = entItem e, msgPayload = p\<rparr>"
    using assms(3) parse_readOk [OF c(2)]
    by (auto simp: readEntry_def readSpoolFile_def split: if_splits)
  moreover have "spoolMap C s (entID e) = Some \<lparr>msgItem = entItem e, msgPayload = p\<rparr>"
    using c assms(2) by (auto simp: spoolMap_Some_iff [OF assms(1)] storedPayload_def)
  ultimately show ?thesis by simp
qed

lemma sorted_first:
  assumes "sortedEntries False es = e # rest" "x \<in> set es"
  shows "e \<in> set es" "spoolKey False e \<le> spoolKey False x"
proof -
  have "e \<in> set (sortedEntries False es)" using assms(1) by simp
  then show "e \<in> set es" by simp
  show "spoolKey False e \<le> spoolKey False x"
    using sort_key_hd_le [of "spoolKey False" es e rest x] assms by (simp add: sortedEntries_key)
qed

lemma sorted_first_priority:
  assumes "dropWhile (\<lambda>e. itemPriority (entItem e) \<noteq> pr) (sortedEntries False es) = e # rest"
  shows "e \<in> set es" "itemPriority (entItem e) = pr"
    "x \<in> set es \<Longrightarrow> itemPriority (entItem x) = pr \<Longrightarrow> spoolKey False e \<le> spoolKey False x"
proof -
  let ?P = "\<lambda>e. itemPriority (entItem e) = pr"
  show "e \<in> set es" "?P e" using dropWhile_in_set [OF assms] by auto
  have split: "sortedEntries False es = takeWhile (\<lambda>e. \<not> ?P e) (sortedEntries False es) @ e # rest"
    using assms by (metis takeWhile_dropWhile_id)
  assume x: "x \<in> set es" "?P x"
  have "sorted (map (spoolKey False) (sortedEntries False es))" by (simp add: sortedEntries_key)
  then have s: "\<forall>y \<in> set rest. spoolKey False e \<le> spoolKey False y"
    by (subst (asm) split) (simp add: sorted_append)
  have "x \<in> set (sortedEntries False es)" using x(1) by simp
  then have "x \<in> set (e # rest)" using x(2)
    by (subst (asm) split) (auto dest: set_takeWhileD)
  with s show "spoolKey False e \<le> spoolKey False x" by auto
qed

end
