(* ===== verification/Spool_Contract.thy ===== *)
theory Spool_Contract
  imports Spool_Spec Identifiers
begin

text \<open>
  The contract of the durable queue: what a restart, a crash, an enqueue and an acknowledgment do to
  the stored messages, and the two interfaces other components use it through. \<open>retained_queue\<close> is
  a queue that loses nothing by itself, \<open>recoverable_queue\<close> also survives a restart of the
  process; the spool is an instance of both for every codec.
\<close>

section \<open>Restart, enqueue and acknowledgment\<close>

lemma recoverStep_disk:
  "recoverStep C E de s = (s', r) \<Longrightarrow> \<not> prefix ''.spool-'' n \<Longrightarrow>
     map_of (spDisk s') n = map_of (spDisk s) n"
  by (auto simp: recoverStep_def Let_def removeFile_def addRecovered_def AList.delete_conv
      split: if_splits option.splits sum.splits)

lemma recoverLoop_disk:
  "recoverLoop C E des s = (s', r) \<Longrightarrow> \<not> prefix ''.spool-'' n \<Longrightarrow>
     map_of (spDisk s') n = map_of (spDisk s) n"
  by (induction des arbitrary: s) (auto split: prod.splits sum.splits dest: recoverStep_disk)

lemma recover_disk:
  "recover C E s = (s', r) \<Longrightarrow> \<not> prefix ''.spool-'' n \<Longrightarrow> map_of (spDisk s') n = map_of (spDisk s) n"
  by (auto simp: recover_def split: if_splits dest: recoverLoop_disk)

lemma new_starts:
  assumes es: "distinct (map entID es)" "dirOK es d" "\<And>e. e \<in> set es \<Longrightarrow> entryOK C m d e"
    and conf: "0 < m" "m \<le> M" "M < 2 ^ 62" and io: "ioFine E" "trimSpace root \<noteq> []"
    and quota: "totalBytes es \<le> M"
  shows "\<exists>s. NewDurableSpool C E True root M m d = (spDisk s, Inr s) \<and> spoolInv C s \<and>
    spMaxItemBytes s = m \<and> mset (spEntries s) = mset es \<and>
    (\<forall>n. \<not> prefix ''.spool-'' n \<longrightarrow> map_of (spDisk s) n = map_of d n)"
proof -
  obtain s r where run: "recover C E (emptySpool M m d) = (s, r)" by force
  have "r = Inr ()" by (rule recover_ok(1) [OF es conf run io(1)])
  note s = run [unfolded this] recover_ok(2) [OF es conf run this]
  have "withinQuota s" using s quota totalBytes_mset [of "spEntries s" es] by (simp add: withinQuota_def)
  moreover from this have "NewDurableSpool C E True root M m d = (spDisk s, Inr s)"
    using s conf io by (intro new_from_recover) auto
  moreover have "map_of (spDisk s) n = map_of d n" if "\<not> prefix ''.spool-'' n" for n
    using recover_disk [OF run that] by (simp add: emptySpool_def)
  ultimately show ?thesis using s by blast
qed

lemma same_spoolMap:
  assumes inv: "spoolInv C s" "spoolInv C s'" and "mset (spEntries s') = mset (spEntries s)"
    and "\<And>n. \<not> prefix ''.spool-'' n \<Longrightarrow> map_of (spDisk s') n = map_of (spDisk s) n"
    and "spMaxItemBytes s' = spMaxItemBytes s"
  shows "spoolMap C s' = spoolMap C s"
  by (rule spoolMap_cong [OF inv mset_eq_setD [OF assms(3)]])
    (use assms in \<open>auto simp: spoolInv_def entryOK_def\<close>)

lemma quota_from_metric:
  assumes "spoolInv C s" "totalBytes (spEntries s) < 2 ^ 63" "mBytes (spMetrics s) \<le> spMaxBytes s"
  shows "withinQuota s"
  using assms spoolInv_total(2) [OF assms(1,2)] by (simp add: withinQuota_def)

text \<open>The state between the write and the eviction holds at most two quotas of bytes.\<close>

lemma stored_total:
  assumes "spoolInv C s" "withinQuota s" "getEntry (spEntries s) i = None" "int (length rec) \<le> spMaxBytes s"
  shows "totalBytes (spEntries (enqueueEntry (newEntry C E i pr payload rec) d s)) < 2 ^ 63"
  using assms by (simp add: enqueueEntry_sel totalBytes_def withinQuota_def spoolInv_def configOK_def)

lemma write_succeeds:
  "ioFine E \<Longrightarrow> \<exists>d'. writeSpoolFileAtomic E p rec d = (d', Inr ())"
  by (simp add: writeSpoolFileAtomic_def ioFine_def Let_def)

text \<open>A successful enqueue leaves an entry of the id with the priority and the hash of the request.\<close>

lemma enqueue_entry:
  assumes inv: "spoolInv C s" and C: "codecOK C" "spNow E \<noteq> 0"
    and run: "enqueue C E rawID pr payload ev s = (s', Inr it)"
  obtains e where "e \<in> set (spEntries s')" "entID e = trimSpace rawID" "entItem e = it"
    "itemPriority it = pr" "entPayloadHash e = hashPayload C payload"
  using run
proof (cases rule: enqueue_cases)
  case (replay e)
  have "distinct (map entID (spEntries s))" using inv by (simp add: spoolInv_def)
  with replay show thesis by (intro that [of e]) (auto simp: getEntry_Some_iff)
next
  case (stored rec d)
  let ?e = "newEntry C E (trimSpace rawID) pr payload rec" and ?t = "enqueueEntry (newEntry C E (trimSpace rawID) pr payload rec) d s"
  have "?e \<in> set (spEntries s')"
    using stored(7) enqueueEntry_sel(1) [OF stored(2)]
      enforceQuota_keeps [OF enqueueEntry_inv [OF inv C stored(2,1,3,6)], of E "trimSpace rawID" s' "Inr ()"]
    by (auto split: if_splits)
  moreover have "it = newItem E (trimSpace rawID) pr payload" using stored(7) by (auto split: if_splits)
  ultimately show thesis by (intro that [of ?e]) auto
qed auto

lemma enqueue_runs:
  assumes "spoolInv C s" "withinQuota s" "codecOK C" "spNow E \<noteq> 0" "ioFine E"
    "getEntry (spEntries s) (trimSpace rawID) = None" "admissible (trimSpace rawID) pr payload s"
    "newRecord C E (trimSpace rawID) pr payload = Inr rec" "int (length rec) \<le> spMaxBytes s"
  shows "\<exists>s'. Enqueue C E rawID pr payload s = (s', Inr (newItem E (trimSpace rawID) pr payload))"
proof -
  let ?i = "trimSpace rawID"
  obtain d where w: "writeSpoolFileAtomic E (spoolFilename (spNow E) ?i) rec (spDisk s) = (d, Inr ())"
    using write_succeeds [OF assms(5)] by blast
  let ?t = "enqueueEntry (newEntry C E ?i pr payload rec) d s"
  obtain s' r where run: "enforceQuota E ?i ?t = (s', r)" by force
  have "r = Inr ()"
  proof (rule enforceQuota_succeeds [OF enqueueEntry_inv [OF assms(1,3,4,6-8) w] assms(5) _ _ run])
    show "totalBytes (spEntries ?t) < 2 ^ 63" by (rule stored_total [OF assms(1,2,6,9)])
    show "entFileBytes e \<le> spMaxBytes ?t" if "e \<in> set (spEntries ?t)" "entID e = ?i" for e
      using that assms(6,9) by (auto simp: enqueueEntry_sel [OF assms(6)] getEntry_None_iff image_iff)
  qed
  with run w assms(6-9) show ?thesis by (simp add: Enqueue_def enqueue_def Let_def)
qed

lemma ack_runs:
  assumes "spoolInv C s" "ioFine E" "spoolMap C s (trimSpace rawID) \<noteq> None"
  shows "\<exists>s'. Ack E rawID s = (s', Inr ())"
proof -
  obtain e where e: "e \<in> set (spEntries s)" "entID e = trimSpace rawID"
    using assms(3) domIff [of "trimSpace rawID" "spoolMap C s"] unfolding dom_spoolMap [OF assms(1)] by auto
  have ok: "entryOK C (spMaxItemBytes s) (spDisk s) e" "distinct (map entID (spEntries s))"
    using assms(1) e(1) by (simp_all add: spoolInv_def)
  have "validSpoolID (trimSpace rawID)" using ok(1) e(2) by (simp add: entryOK_def)
  with e ok removeFile_entry [OF ok(1), of E] assms(2) show ?thesis
    by (simp add: Ack_def getEntry_Some_iff [THEN iffD2, of _ e] ioFine_def)
qed

lemma ran_spoolMap:
  "spoolInv C s \<Longrightarrow> msg \<in> ran (spoolMap C s) \<Longrightarrow> \<exists>e \<in> set (spEntries s). msgItem msg = entItem e"
  unfolding ran_def using spoolMap_Some_iff by blast

lemma crash_map:
  assumes "spoolInv C s" "codecOK C" "spNow E \<noteq> 0" "getEntry (spEntries s) i = None"
    "admissible i pr payload s" "newRecord C E i pr payload = Inr rec"
    "totalBytes (spEntries s) + int (length rec) \<le> spMaxBytes s"
    "writeCrash E (spoolFilename (spNow E) i) rec (spDisk s) d" "ioFine E'" "trimSpace root \<noteq> []"
  shows "\<exists>s'. NewDurableSpool C E' True root (spMaxBytes s) (spMaxItemBytes s) d = (spDisk s', Inr s') \<and>
    (spoolMap C s' = spoolMap C s \<or>
     spoolMap C s' = (spoolMap C s)(i \<mapsto> \<lparr>msgItem = newItem E i pr payload, msgPayload = payload\<rparr>))"
proof -
  obtain es where es: "es = spEntries s \<and> (\<forall>n. \<not> prefix ''.spool-'' n \<longrightarrow> map_of d n = map_of (spDisk s) n) \<or>
      es = newEntry C E i pr payload rec # spEntries s \<and> (\<forall>n. \<not> prefix ''.spool-'' n \<longrightarrow>
        map_of d n = (if n = spoolFilename (spNow E) i then Some (DFile rec) else map_of (spDisk s) n))"
    and dir: "distinct (map entID es)" "dirOK es d" "\<And>e. e \<in> set es \<Longrightarrow> entryOK C (spMaxItemBytes s) d e"
    by (rule writeCrash_dir [OF assms(1-6,8)]) (rule that)
  have "totalBytes es \<le> spMaxBytes s" using es assms(7) by (auto simp: totalBytes_def)
  then obtain s' where s': "NewDurableSpool C E' True root (spMaxBytes s) (spMaxItemBytes s) d = (spDisk s', Inr s')"
    "spoolInv C s'" "spMaxItemBytes s' = spMaxItemBytes s" "mset (spEntries s') = mset es"
    "\<forall>n. \<not> prefix ''.spool-'' n \<longrightarrow> map_of (spDisk s') n = map_of d n"
    using new_starts [OF dir _ _ _ assms(9,10)] assms(1) unfolding spoolInv_def configOK_def by blast
  note set = mset_eq_setD [OF s'(4)]
  from es show ?thesis
  proof
    assume "es = spEntries s \<and> (\<forall>n. \<not> prefix ''.spool-'' n \<longrightarrow> map_of d n = map_of (spDisk s) n)"
    then have "spoolMap C s' = spoolMap C s" using s' by (intro same_spoolMap assms(1)) auto
    with s'(1) show ?thesis by blast
  next
    assume "es = newEntry C E i pr payload rec # spEntries s \<and> (\<forall>n. \<not> prefix ''.spool-'' n \<longrightarrow>
        map_of d n = (if n = spoolFilename (spNow E) i then Some (DFile rec) else map_of (spDisk s) n))"
    then have "spoolMap C s' = (spoolMap C s)(i \<mapsto> \<lparr>msgItem = newItem E i pr payload, msgPayload = payload\<rparr>)"
      using s' set by (intro spoolMap_add [OF assms(1) s'(2) assms(2-6)]) auto
    with s'(1) show ?thesis by blast
  qed
qed

lemma retained_map:
  assumes "spoolInv C s" "withinQuota s" "codecOK C" "spNow E \<noteq> 0"
    "EnqueueRetained C E rawID pr payload s = (s', r)"
  shows "withinQuota s' \<and> spoolInv C s' \<and>
    spoolMap C s' =
      (case r of
         Inl err \<Rightarrow> spoolMap C s
       | Inr it \<Rightarrow>
           if spoolMap C s (trimSpace rawID) = None
           then (spoolMap C s)(trimSpace rawID \<mapsto> \<lparr>msgItem = it, msgPayload = payload\<rparr>)
           else spoolMap C s)"
proof -
  have inv': "spoolInv C s'" using enqueue_inv [OF assms(1,3,4)] assms(5) by (simp add: EnqueueRetained_def)
  have dom: "spoolMap C s i = None \<longleftrightarrow> getEntry (spEntries s) i = None" for i
    using dom_spoolMap [OF assms(1)] by (auto simp: getEntry_None_iff domIff)
  note dom' = dom [THEN iffD2]
  show ?thesis
    using assms(5) [unfolded EnqueueRetained_def]
  proof (cases rule: enqueue_cases)
    case (fault rec d err)
    then show ?thesis using inv' fault_map [OF assms(1) fault(4)] assms(2) by (simp add: withinQuota_def)
  next
    case (stored rec d)
    let ?t = "enqueueEntry (newEntry C E (trimSpace rawID) pr payload rec) d s"
    have t: "s' = ?t" "r = Inr (newItem E (trimSpace rawID) pr payload)" using stored(7) by auto
    have "mBytes (spMetrics ?t) = wrap64 (mBytes (spMetrics s) + int (length rec))"
      by (simp add: enqueueEntry_def)
    then have "withinQuota ?t"
      using stored(5) stored_total [OF assms(1,2) stored(2,4)] inv' t enqueueEntry_sel(2) [OF stored(2)]
      by (intro quota_from_metric [of C]) auto
    with t inv' dom' [OF stored(2)] stored_map [OF assms(1,3,4) stored(2,1,3,6)] show ?thesis by simp
  qed (use assms inv' dom in auto)
qed

text \<open>Reopening the directory of a spool within its quota changes no message, whatever else fails.\<close>

lemma new_same:
  assumes inv: "spoolInv C s" "withinQuota s"
    and run: "NewDurableSpool C E a root (spMaxBytes s) (spMaxItemBytes s) (spDisk s) = (d', Inr s')"
  shows "spoolInv C s' \<and> withinQuota s' \<and> spoolMap C s' = spoolMap C s"
proof -
  obtain t where t: "recover C E (emptySpool (spMaxBytes s) (spMaxItemBytes s) (spDisk s)) = (t, Inr ())"
    "enforceQuota E [] t = (s', Inr ())"
    using NewDurableSpool_Inr [OF run] by metis
  have rec: "spoolInv C t" "spMaxBytes t = spMaxBytes s" "spMaxItemBytes t = spMaxItemBytes s"
    "mset (spEntries t) = mset (spEntries s)"
    using recover_ok(2) [of "spEntries s" "spDisk s" C "spMaxItemBytes s" "spMaxBytes s" E t "Inr ()"] inv(1) t(1)
    by (auto simp: spoolInv_def configOK_def)
  have quota: "withinQuota t" using withinQuota_cong [OF rec(4,2)] inv(2) by simp
  have "s' = t"
    using t(2) quota withinQuota_mBytes [OF rec(1) quota] by (subst (asm) enforceQuota.simps) (simp add: withinQuota_def)
  moreover have "spoolMap C t = spoolMap C s"
    by (rule same_spoolMap [OF inv(1) rec(1,4) _ rec(3)]) (use recover_disk [OF t(1)] in \<open>simp add: emptySpool_def\<close>)
  ultimately show ?thesis using rec quota by simp
qed

section \<open>The interfaces\<close>

locale retained_queue =
  fixes qinv :: "'s \<Rightarrow> bool"
    and contents :: "'s \<Rightarrow> string \<Rightarrow> SpoolMessage option"
    and digest :: "bytes \<Rightarrow> string"
    and good :: "'e \<Rightarrow> bool"
    and enq :: "'e \<Rightarrow> string \<Rightarrow> SpoolPriority \<Rightarrow> bytes \<Rightarrow> 's \<Rightarrow> 's \<times> (spoolError + SpoolItem)"
    and nxt :: "'e \<Rightarrow> SpoolPriority \<Rightarrow> 's \<Rightarrow> spoolError + SpoolMessage"
    and ack :: "'e \<Rightarrow> string \<Rightarrow> 's \<Rightarrow> 's \<times> (spoolError + unit)"
  assumes enq_keeps_inv: "qinv s \<Longrightarrow> good E \<Longrightarrow> enq E i pr p s = (s', r) \<Longrightarrow> qinv s'"
    and enq_fails: "qinv s \<Longrightarrow> good E \<Longrightarrow> enq E i pr p s = (s', Inl err) \<Longrightarrow> contents s' = contents s"
    and enq_new: "qinv s \<Longrightarrow> good E \<Longrightarrow> trimSpace i = i \<Longrightarrow> contents s i = None \<Longrightarrow>
      enq E i pr p s = (s', Inr it) \<Longrightarrow> contents s' = (contents s)(i \<mapsto> \<lparr>msgItem = it, msgPayload = p\<rparr>)"
    and enq_replay: "qinv s \<Longrightarrow> good E \<Longrightarrow> trimSpace i = i \<Longrightarrow> contents s i = Some msg \<Longrightarrow>
      enq E i pr p s = (s', Inr it) \<Longrightarrow> s' = s \<and> it = msgItem msg \<and> digest (msgPayload msg) = digest p"
    and nxt_stored: "qinv s \<Longrightarrow> nxt E pr s = Inr msg \<Longrightarrow>
      contents s (itemID (msgItem msg)) = Some msg \<and> trimSpace (itemID (msgItem msg)) = itemID (msgItem msg) \<and>
      itemPriority (msgItem msg) = pr"
    and ack_keeps_inv: "qinv s \<Longrightarrow> ack E i s = (s', u) \<Longrightarrow> qinv s'"
    and ack_removes: "qinv s \<Longrightarrow> trimSpace i = i \<Longrightarrow> ack E i s = (s', Inr ()) \<Longrightarrow>
      contents s' = (contents s)(i := None)"
    and ack_fails: "qinv s \<Longrightarrow> ack E i s = (s', Inl err) \<Longrightarrow> s' = s"
begin

text \<open>A successful enqueue leaves a message of the id whose payload has the digest of the request.\<close>

lemma enq_stores:
  assumes "qinv s" "good E" "trimSpace i = i" "enq E i pr p s = (s', Inr it)"
  shows "\<exists>msg. contents s' i = Some msg \<and> digest (msgPayload msg) = digest p"
proof (cases "contents s i")
  case None
  from enq_new [OF assms(1-3) this assms(4)] show ?thesis by simp
next
  case (Some msg)
  from enq_replay [OF assms(1-3) this assms(4)] Some show ?thesis by auto
qed

text \<open>No enqueue touches a message that is stored already.\<close>

lemma enq_keeps:
  assumes "qinv s" "good E" "trimSpace i = i" "enq E i pr p s = (s', r)" "contents s j = Some msg"
  shows "contents s' j = Some msg"
proof (cases r)
  case (Inl err)
  with enq_fails [of s E i pr p s' err] assms show ?thesis by simp
next
  case (Inr it)
  show ?thesis
  proof (cases "contents s i")
    case None
    with enq_new [of s E i pr p s' it] Inr assms show ?thesis by (cases "j = i") auto
  next
    case (Some m)
    with enq_replay [of s E i m pr p s' it] Inr assms show ?thesis by simp
  qed
qed

end

locale recoverable_queue = retained_queue qinv contents digest good enq nxt ack
  for qinv :: "'s \<Rightarrow> bool" and contents digest and good :: "'e \<Rightarrow> bool" and enq nxt ack +
  fixes reopen :: "'o \<Rightarrow> 's \<Rightarrow> 's option"
  assumes reopen_same: "qinv s \<Longrightarrow> reopen how s = Some s' \<Longrightarrow> qinv s' \<and> contents s' = contents s"

section \<open>The spool provides them\<close>

definition spoolReady :: "spoolCodec \<Rightarrow> DurableSpool \<Rightarrow> bool" where
  "spoolReady C s \<longleftrightarrow> codecOK C \<and> spoolInv C s \<and> withinQuota s"

definition clockSet :: "spoolEnv \<Rightarrow> bool" where
  "clockSet E \<longleftrightarrow> spNow E \<noteq> 0"

text \<open>The process ends and another one opens the directory with the same limits.\<close>

definition reopenSpool :: "spoolCodec \<Rightarrow> spoolEnv \<times> bool \<times> string \<Rightarrow> DurableSpool \<Rightarrow> DurableSpool option" where
  "reopenSpool C how s =
     (case how of (E, a, root) \<Rightarrow>
        (case NewDurableSpool C E a root (spMaxBytes s) (spMaxItemBytes s) (spDisk s) of
           (_, Inr s') \<Rightarrow> Some s'
         | _ \<Rightarrow> None))"

lemma spoolMap_trimmed: "spoolInv C s \<Longrightarrow> spoolMap C s i = Some msg \<Longrightarrow> validSpoolID i \<and> itemID (msgItem msg) = i"
proof -
  assume inv: "spoolInv C s" and "spoolMap C s i = Some msg"
  then obtain e where "e \<in> set (spEntries s)" "entID e = i" "msgItem msg = entItem e"
    using spoolMap_Some_iff [OF inv] by blast
  with inv show ?thesis by (auto simp: spoolInv_def entryOK_def entID_def)
qed

lemma ack_ready:
  assumes "spoolReady C s" "Ack E i s = (s', r)"
  shows "spoolReady C s'"
proof -
  have inv: "spoolInv C s" "withinQuota s" "codecOK C" using assms(1) by (auto simp: spoolReady_def)
  have dist: "distinct (map entID (spEntries s))" using inv(1) by (simp add: spoolInv_def)
  note inv' = ack_inv [OF inv(1) assms(2)]
  have "set (spEntries s') \<subseteq> set (spEntries s) \<and> spMaxBytes s' = spMaxBytes s"
    using assms(2) dist by (cases rule: ack_cases) auto
  then have "withinQuota s'"
    using totalBytes_inv_subset [OF inv(1) inv'] inv(2) by (simp add: withinQuota_def)
  with inv inv' show ?thesis by (simp add: spoolReady_def)
qed

lemma validSpoolID_trim: "validSpoolID i \<Longrightarrow> trimSpace i = i"
proof (rule trimSpace_solid)
  assume "validSpoolID i"
  then have "list_all validSpoolChar i" by (simp add: validSpoolID_def)
  moreover have "validSpoolChar c \<Longrightarrow> solid c" for c
    by (auto simp: solid_def spaceEncodings_def validSpoolChar_def less_eq_char_def)
  ultimately show "list_all solid i" by (simp add: list_all_iff)
qed

lemma nextPriority_stored:
  assumes "spoolInv C s" "NextPriority C E pr s = Inr msg"
  shows "spoolMap C s (itemID (msgItem msg)) = Some msg \<and> itemPriority (msgItem msg) = pr"
proof (cases "dropWhile (\<lambda>e. itemPriority (entItem e) \<noteq> pr) (sortedEntries False (spEntries s))")
  case Nil
  then show ?thesis using assms(2) unfolding NextPriority_def Nil by (auto split: if_splits)
next
  case (Cons e rest)
  then have "readEntry C E s e = Inr msg" using assms(2) unfolding NextPriority_def Cons by (auto split: if_splits)
  with sorted_first_priority(1,2) [OF Cons] readEntry_sound [OF assms(1)] show ?thesis by (simp add: entID_def)
qed

lemma next_nonempty:
  assumes "spoolInv C s" "ioFine E" "validSpoolPriority pr" "spoolMap C s i = Some msg" "itemPriority (msgItem msg) = pr"
  shows "\<exists>msg'. NextPriority C E pr s = Inr msg'"
proof (cases "dropWhile (\<lambda>e. itemPriority (entItem e) \<noteq> pr) (sortedEntries False (spEntries s))")
  case Nil
  then have none: "\<forall>e \<in> set (sortedEntries False (spEntries s)). itemPriority (entItem e) \<noteq> pr"
    by (simp only: dropWhile_eq_Nil_conv)
  obtain e where "e \<in> set (spEntries s)" "msgItem msg = entItem e"
    using assms(4) spoolMap_Some_iff [OF assms(1)] by blast
  with none assms(5) show ?thesis by simp
next
  case (Cons e rest)
  obtain msg' where "readEntry C E s e = Inr msg'"
    by (rule readEntry_ok [OF assms(1,2) sorted_first_priority(1) [OF Cons]])
  with assms(3) show ?thesis unfolding NextPriority_def Cons by simp
qed

lemma retained_replay:
  assumes "spoolInv C s" "spoolMap C s (trimSpace i) = Some msg" "EnqueueRetained C E i pr p s = (s', Inr it)"
  shows "s' = s \<and> it = msgItem msg \<and> hashPayload C (msgPayload msg) = hashPayload C p"
proof -
  have dist: "distinct (map entID (spEntries s))" using assms(1) by (simp add: spoolInv_def)
  obtain e where e: "e \<in> set (spEntries s)" "entID e = trimSpace i" "msgItem msg = entItem e"
    "storedPayload C s e = Some (msgPayload msg)"
    using assms(2) spoolMap_Some_iff [OF assms(1)] by blast
  then have get: "getEntry (spEntries s) (trimSpace i) = Some e" by (simp add: getEntry_Some_iff [OF dist])
  have "hashPayload C (msgPayload msg) = entPayloadHash e"
    using storedPayload_Some [OF assms(1) e(1)] e(4) by auto
  with assms(3) get e(3) show ?thesis
    by (auto simp: EnqueueRetained_def enqueue_def Let_def split: if_splits)
qed

interpretation rq: recoverable_queue "spoolReady C" "spoolMap C" "hashPayload C" clockSet "EnqueueRetained C"
  "NextPriority C" Ack "reopenSpool C" for C
proof (unfold_locales, goal_cases)
  case (1 s E i pr p s' r)
  then show ?case using retained_map [of C s E i pr p s' r] by (simp add: spoolReady_def clockSet_def)
next
  case (2 s E i pr p s' err)
  then show ?case using retained_map [of C s E i pr p s' "Inl err"] by (simp add: spoolReady_def clockSet_def)
next
  case (3 s E i pr p s' it)
  then show ?case using retained_map [of C s E i pr p s' "Inr it"] by (simp add: spoolReady_def clockSet_def)
next
  case (4 s E i msg pr p s' it)
  then show ?case using retained_replay [of C s i msg] by (simp add: spoolReady_def)
next
  case (5 s E pr msg)
  then show ?case
    using nextPriority_stored [of C s E pr msg] spoolMap_trimmed [of C s] validSpoolID_trim by (auto simp: spoolReady_def)
next
  case (6 s E i s' u)
  then show ?case by (rule ack_ready)
next
  case (7 s i E s')
  then show ?case using ack_spec [of C s E i s' "Inr ()"] by (simp add: spoolReady_def)
next
  case (8 s E i s' err)
  then show ?case using ack_spec [of C s E i s' "Inl err"] by (simp add: spoolReady_def)
next
  case (9 s how s')
  then show ?case
    using new_same [of C s] by (auto simp: spoolReady_def reopenSpool_def split: prod.splits sum.splits)
qed

end
