(* ===== verification/Delivery.thy ===== *)
theory Delivery
  imports Review_Events Spool_Contract
begin

text \<open>
  Laws of review event delivery: canonicalization is idempotent, the queue ids are valid spool ids,
  and, over the contract of the queue alone, an event that was queued is stored until the sender has
  accepted it.
\<close>

section \<open>Canonical events\<close>

definition eventInput :: "reviewEvent \<Rightarrow> reviewEventInput" where
  "eventInput e = \<lparr>inEventID = Some (evEventID e), inTenantID = Some (evTenantID e),
     inDedupeKey = Some (evDedupeKey e), inOccurredAt = Some (evOccurredAt e),
     inSiteID = Some (evSiteID e), inCameraID = Some (evCameraID e), inZoneID = Some (evZoneID e),
     inEventType = Some (evEventType e), inModelVersion = Some (evModelVersion e),
     inConfidence = Some (evConfidence e), inEvidenceRefs = Some (evEvidenceRefs e),
     inRequiresHumanReview = Some (evRequiresHumanReview e), inReviewState = Some (evReviewState e),
     inObservedBehavior = (if evObservedBehavior e = [] then None else Some (evObservedBehavior e)),
     inSubjectClass = (if evSubjectClass e = [] then None else Some (evSubjectClass e))\<rparr>"

text \<open>
  What is relied on from \<open>encoding/json\<close> and \<open>strings.ToLower\<close>: an event whose texts came out of
  the decoder is marshalled to one JSON value that decodes to the same fields (empty optional ones
  omitted), and lowering is idempotent.
\<close>

definition eventCodecOK :: "eventCodec \<Rightarrow> bool" where
  "eventCodecOK K \<longleftrightarrow> lowerOK (evLower K) \<and>
     (\<forall>payload input rest d e b. evDecode K payload = Some (input, rest) \<longrightarrow>
        canonicalEvent K d input = Inr e \<longrightarrow> evMarshal K e = Some b \<longrightarrow>
        b \<noteq> [] \<and> (\<exists>rest'. evDecode K b = Some (eventInput e, rest') \<and> evAtEOF K rest'))"

lemma boundedReviewText_fixed: "boundedReviewText v n = Some u \<Longrightarrow> boundedReviewText u n = Some u"
  by (auto simp: boundedReviewText_def Let_def split: if_splits)

lemma boundedRefs_fixed: "boundedRefs rs = Some rs' \<Longrightarrow> boundedRefs rs' = Some rs' \<and> length rs' = length rs"
  by (induction rs arbitrary: rs') (auto split: option.splits dest: boundedReviewText_fixed)

lemma plainWords:
  "w \<in> set (reviewEventTypes @ vehicleReviewClasses @ [''pending'', ''detected'']) \<Longrightarrow> trimSpace w = w \<and> toLower uni w = w"
proof -
  assume w: "w \<in> set (reviewEventTypes @ vehicleReviewClasses @ [''pending'', ''detected''])"
  have "list_all (\<lambda>w. list_all solid w \<and> list_all asciiChar w \<and> map lowerChar w = w)
      (reviewEventTypes @ vehicleReviewClasses @ [''pending'', ''detected''])"
    by code_simp
  with w have "list_all solid w" "list_all asciiChar w" "map lowerChar w = w" by (auto simp: list_all_iff)
  then show ?thesis by (simp add: trimSpace_solid toLower_def)
qed

text \<open>The vehicle metadata of an accepted event is one of the approved words or empty.\<close>

lemma vehicleError_None:
  assumes "vehicleError t b c = None"
  shows "(b = ''detected'' \<and> c \<in> set vehicleReviewClasses) \<or> b = [] \<and> c = []"
  using assms by (auto simp: vehicleError_def split: if_splits)

lemma canonicalEvent_cases:
  assumes "canonicalEvent K d input = Inr e"
  shows "reviewIdentifiers K input = Inr (evEventID e, evTenantID e, evSiteID e, evCameraID e, evZoneID e) \<and>
    evTenantID e = dvTenantID d \<and> evSiteID e = dvSiteID d \<and> evEventType e \<in> set reviewEventTypes \<and>
    boundedReviewText (the (inDedupeKey input)) 256 = Some (evDedupeKey e) \<and>
    evDedupeKey e = evEventType e @ '':'' @ evEventID e \<and>
    boundedReviewText (the (inModelVersion input)) 128 = Some (evModelVersion e) \<and>
    evOccurredAt e \<noteq> 0 \<and> \<not> isNaN (evConfidence e) \<and> \<not> isInf (evConfidence e) \<and>
    \<not> fless (evConfidence e) (Fin 0) \<and> \<not> fless (Fin 1) (evConfidence e) \<and>
    evRequiresHumanReview e \<and> evReviewState e = ''pending'' \<and>
    vehicleError (evEventType e) (evObservedBehavior e) (evSubjectClass e) = None \<and>
    length (the (inEvidenceRefs input)) \<le> 32 \<and> boundedRefs (the (inEvidenceRefs input)) = Some (evEvidenceRefs e)"
  using assms unfolding canonicalEvent_def Let_def
  by (auto split: if_splits option.splits sum.splits prod.splits)

lemma reviewIdentifiers_fixed:
  assumes "reviewIdentifiers K input = Inr (i, t, s, c, z)" "lowerOK (evLower K)"
    "inEventID input' = Some i" "inTenantID input' = Some t" "inSiteID input' = Some s"
    "inCameraID input' = Some c" "inZoneID input' = Some z"
  shows "reviewIdentifiers K input' = Inr (i, t, s, c, z)"
  using assms unfolding reviewIdentifiers_def Let_def
  by (auto split: option.splits dest: canonicalReviewUUID_fixed)

lemma canonicalEvent_fixed:
  assumes ok: "canonicalEvent K d input = Inr e" and lower: "lowerOK (evLower K)"
  shows "canonicalEvent K d (eventInput e) = Inr e"
proof -
  note e = canonicalEvent_cases [OF ok]
  have ids: "reviewIdentifiers K (eventInput e) = Inr (evEventID e, evTenantID e, evSiteID e, evCameraID e, evZoneID e)"
    by (rule reviewIdentifiers_fixed [of K input]) (use e lower in \<open>simp_all add: eventInput_def\<close>)
  have ty: "toLower (evLower K) (trimSpace (evEventType e)) = evEventType e" using e plainWords by simp
  have st: "trimSpace (evReviewState e) = ''pending''" using e plainWords [of "''pending''"] by simp
  have veh: "optionalReviewText (inObservedBehavior (eventInput e)) = evObservedBehavior e"
    "toLower (evLower K) (optionalReviewText (inSubjectClass (eventInput e))) = evSubjectClass e"
    using vehicleError_None [of "evEventType e" "evObservedBehavior e" "evSubjectClass e"] e
      plainWords [of "evSubjectClass e"] plainWords [of "''detected''"]
    by (auto simp: eventInput_def optionalReviewText_def toLower_def)
  have texts: "boundedReviewText (evDedupeKey e) 256 = Some (evDedupeKey e)"
    "boundedReviewText (evModelVersion e) 128 = Some (evModelVersion e)"
    "boundedRefs (evEvidenceRefs e) = Some (evEvidenceRefs e)" "length (evEvidenceRefs e) \<le> 32"
    using e boundedReviewText_fixed boundedRefs_fixed by (blast, blast, blast, metis)
  show ?thesis
    unfolding canonicalEvent_def Let_def ids veh
    using e ty st texts by (simp add: eventInput_def)
qed

text \<open>Validating a canonical payload of admissible size gives the same event and the same bytes.\<close>

lemma validate_fixed:
  assumes "validate K d payload = Inr (e, b)" "eventCodecOK K" "int (length b) \<le> maxReviewEventPayloadBytes"
  shows "validate K d b = Inr (e, b)"
proof -
  from assms(1) obtain input rest where in1: "evDecode K payload = Some (input, rest)"
    "canonicalEvent K d input = Inr e" "evMarshal K e = Some b"
    by (auto simp: validate_def decodeReviewEvent_def split: if_splits option.splits sum.splits)
  then obtain rest' where "b \<noteq> []" "evDecode K b = Some (eventInput e, rest')" "evAtEOF K rest'"
    using assms(2) unfolding eventCodecOK_def by blast
  then have "decodeReviewEvent K b = Inr (eventInput e)"
    using assms(3) by (simp add: decodeReviewEvent_def) (simp add: eventInput_def)
  moreover have "canonicalEvent K d (eventInput e) = Inr e"
    by (rule canonicalEvent_fixed [OF in1(2)]) (use assms(2) in \<open>simp add: eventCodecOK_def\<close>)
  ultimately show ?thesis using in1(3) by (simp add: validate_def)
qed

lemma validate_id:
  assumes "validate K d payload = Inr (e, b)" "lowerOK (evLower K)"
  shows "uuidText (evEventID e)"
proof -
  from assms(1) obtain input where "canonicalEvent K d input = Inr e"
    by (auto simp: validate_def split: option.splits sum.splits)
  then have "reviewIdentifiers K input = Inr (evEventID e, evTenantID e, evSiteID e, evCameraID e, evZoneID e)"
    using canonicalEvent_cases by blast
  then have "\<exists>v. canonicalReviewUUID (evLower K) v = Some (evEventID e)"
    unfolding reviewIdentifiers_def Let_def by (auto split: option.splits)
  with assms(2) canonicalReviewUUID_text show ?thesis by blast
qed

text \<open>The spool accepts the id of every valid event.\<close>

lemma reviewItemID_valid: "uuidText u \<Longrightarrow> validSpoolID (reviewItemID u)"
proof -
  assume u: "uuidText u"
  have "lowerHex c \<or> c = CHR ''-'' \<Longrightarrow> validSpoolChar c" for c
    by (auto simp: lowerHex_def validSpoolChar_def Let_def less_eq_char_def)
  with u show ?thesis
    by (auto simp: uuidText_def reviewItemID_def validSpoolID_def maxSpoolIDLength_def list_all_iff validSpoolChar_def)
qed

lemma reviewItemID_trim [simp]: "uuidText u \<Longrightarrow> trimSpace (reviewItemID u) = reviewItemID u"
  by (rule validSpoolID_trim [OF reviewItemID_valid])

section \<open>Nothing queued is lost\<close>

text \<open>
  \<open>queued\<close> lists the events for which \<open>Queue\<close> returned success, with their canonical payloads;
  \<open>accepted\<close> lists what the sender accepted. Every queued event is stored, or a payload with its
  digest was validated and its canonical form accepted.
\<close>

definition accounted ::
  "(string \<Rightarrow> SpoolMessage option) \<Rightarrow> (bytes \<Rightarrow> string) \<Rightarrow> eventCodec \<Rightarrow> ReviewEventDelivery \<Rightarrow>
     (string \<times> bytes) list \<Rightarrow> bytes list \<Rightarrow> bool" where
  "accounted m dig K d queued accepted \<longleftrightarrow>
     (\<forall>(i, c) \<in> set queued.
        (\<exists>msg. m (reviewItemID i) = Some msg \<and> dig (msgPayload msg) = dig c) \<or>
        (\<exists>p e b. dig p = dig c \<and> validate K d p = Inr (e, b) \<and> b \<in> set accepted))"

definition queuedBy :: "eventCodec \<Rightarrow> ReviewEventDelivery \<Rightarrow> bytes \<Rightarrow> reviewError + SpoolItem \<Rightarrow> (string \<times> bytes) list" where
  "queuedBy K d payload r =
     (case (r, validate K d payload) of
        (Inr _, Inr (e, c)) \<Rightarrow> [(evEventID e, c)]
      | _ \<Rightarrow> [])"

lemma accounted_mono:
  assumes "accounted m dig K d q a" "\<And>i msg. m i = Some msg \<Longrightarrow> m' i = Some msg" "set a \<subseteq> set a'"
  shows "accounted m' dig K d q a'"
  using assms unfolding accounted_def by fastforce

lemma accounted_Cons:
  "accounted m dig K d (x # q) a \<longleftrightarrow> accounted m dig K d [x] a \<and> accounted m dig K d q a"
  by (auto simp: accounted_def)

context retained_queue
begin

lemma queue_keeps_inv:
  "qinv s \<Longrightarrow> good E \<Longrightarrow> QueueOver enq K d E payload s = (s', r) \<Longrightarrow> qinv s'"
  by (auto simp: QueueOver_def split: sum.splits prod.splits dest: enq_keeps_inv)

lemma queue_accounted:
  assumes "qinv s" "good E" "lowerOK (evLower K)" "QueueOver enq K d E payload s = (s', r)"
    "accounted (contents s) digest K d q a"
  shows "accounted (contents s') digest K d (queuedBy K d payload r @ q) a"
proof (cases "validate K d payload")
  case (Inl err)
  with assms show ?thesis by (auto simp: QueueOver_def queuedBy_def)
next
  case (Inr ec)
  obtain e c where v: "validate K d payload = Inr (e, c)" using Inr by (cases ec) auto
  have u: "trimSpace (reviewItemID (evEventID e)) = reviewItemID (evEventID e)"
    using validate_id [OF v assms(3)] by simp
  obtain r' where run: "enq E (reviewItemID (evEventID e)) SpoolMetadata c s = (s', r')"
    and r: "r = (case r' of Inl err \<Rightarrow> Inl (ReviewSpool err) | Inr it \<Rightarrow> Inr it)"
    using assms(4) v by (auto simp: QueueOver_def split: prod.splits sum.splits)
  have old: "accounted (contents s') digest K d q a"
    by (rule accounted_mono [OF assms(5)]) (use enq_keeps [OF assms(1,2) u run] in auto)
  show ?thesis
  proof (cases r')
    case (Inr it)
    obtain msg where "contents s' (reviewItemID (evEventID e)) = Some msg" "digest (msgPayload msg) = digest c"
      using enq_stores [OF assms(1,2) u run [unfolded Inr]] by blast
    then have "accounted (contents s') digest K d [(evEventID e, c)] a" by (simp add: accounted_def)
    with Inr old r v show ?thesis by (simp add: queuedBy_def accounted_Cons [of _ _ _ _ _ q])
  qed (use old r in \<open>simp add: queuedBy_def\<close>)
qed

lemma deliver_cases:
  assumes "qinv s" "DeliverNextOver nxt ack K d E send s = (s', sent, r)"
  obtains (unsent) err where "s' = s" "sent = []" "r = Inl err"
  | (unacked) err msg e b where "s' = s" "sent = [b]" "r = Inl (ReviewAck err)"
      "contents s (itemID (msgItem msg)) = Some msg" "validate K d (msgPayload msg) = Inr (e, b)" "send b = None"
  | (delivered) msg e b where "sent = [b]" "r = Inr (msgItem msg)" "qinv s'"
      "contents s (itemID (msgItem msg)) = Some msg" "validate K d (msgPayload msg) = Inr (e, b)" "send b = None"
      "contents s' = (contents s)(itemID (msgItem msg) := None)" "nxt E SpoolMetadata s = Inr msg"
proof (cases "nxt E SpoolMetadata s")
  case (Inl err)
  with assms(2) show thesis by (intro unsent) (auto simp: DeliverNextOver_def)
next
  case msg: (Inr msg)
  note st = nxt_stored [OF assms(1) msg]
  show thesis
  proof (cases "validate K d (msgPayload msg)")
    case (Inl err)
    with assms(2) msg show thesis by (intro unsent) (auto simp: DeliverNextOver_def)
  next
    case (Inr eb)
    then obtain e b where v: "validate K d (msgPayload msg) = Inr (e, b)" by (cases eb) auto
    show thesis
    proof (cases "send b")
      case (Some err)
      with assms(2) msg v show thesis by (intro unsent) (auto simp: DeliverNextOver_def)
    next
      case None
      obtain t u where run: "ack E (itemID (msgItem msg)) s = (t, u)" by force
      show thesis
      proof (cases u)
        case (Inl err)
        with ack_fails [OF assms(1)] run assms(2) msg v None st show thesis
          by (intro unacked [of b err msg e]) (auto simp: DeliverNextOver_def)
      next
        case (Inr x)
        with ack_removes [OF assms(1)] ack_keeps_inv [OF assms(1)] run assms(2) msg v None st show thesis
          by (intro delivered [of b msg e]) (auto simp: DeliverNextOver_def)
      qed
    qed
  qed
qed

lemma deliver_accounted:
  assumes "qinv s" "DeliverNextOver nxt ack K d E send s = (s', sent, r)"
    "accounted (contents s) digest K d q a"
  shows "qinv s' \<and> accounted (contents s') digest K d q (sent @ a)"
  using assms(1,2)
proof (cases rule: deliver_cases)
  case unsent
  with assms show ?thesis by simp
next
  case unacked
  then have "accounted (contents s') digest K d q (sent @ a)"
    by (intro accounted_mono [OF assms(3)]) auto
  with assms(1) unacked(1) show ?thesis by simp
next
  case (delivered msg e b)
  have "accounted (contents s') digest K d q (sent @ a)"
    unfolding accounted_def
  proof (intro ballI, clarify)
    fix i c
    assume "(i, c) \<in> set q" and none: "\<nexists>p e b. digest p = digest c \<and> validate K d p = Inr (e, b) \<and> b \<in> set (sent @ a)"
    then obtain m where m: "contents s (reviewItemID i) = Some m" "digest (msgPayload m) = digest c"
      using assms(3) unfolding accounted_def by fastforce
    have "reviewItemID i \<noteq> itemID (msgItem msg)"
    proof
      assume "reviewItemID i = itemID (msgItem msg)"
      then have "m = msg" using m(1) delivered(4) by simp
      with none m(2) delivered(1,5) show False by auto
    qed
    with m show "\<exists>msg. contents s' (reviewItemID i) = Some msg \<and> digest (msgPayload msg) = digest c"
      by (simp add: delivered(7))
  qed
  with delivered(3) show ?thesis by blast
qed

end

end
