(* ===== verification/Spool_Props.thy ===== *)
theory Spool_Props
  imports Spool_Contract
begin

text \<open>
  The properties of the durable queue: what restart, enqueue, acknowledgment and replay promise.
  Each property with hypotheses is followed by a witness at a concrete spool, codec and environment.
\<close>

section \<open>A concrete codec and concrete spools\<close>

text \<open>
  A codec for witnesses: the fields of the envelope separated by commas, numbers in unary. It
  marshals version 1 envelopes with positive numbers and fails on the others.
\<close>

definition unary :: "int \<Rightarrow> string" where
  "unary n = replicate (nat n) CHR ''1''"

definition field :: "string \<Rightarrow> string" where
  "field s = takeWhile (\<lambda>c. c \<noteq> CHR '','') s"

definition nextField :: "string \<Rightarrow> string" where
  "nextField s = tl (dropWhile (\<lambda>c. c \<noteq> CHR '','') s)"

definition refMarshal :: "spoolEnvelope \<Rightarrow> bytes option" where
  "refMarshal e =
     (if envVersion e = 1 \<and> 0 \<le> envCreatedAt e \<and> 0 \<le> envPayloadBytes e
      then Some (envID e @ '','' @ envPriority e @ '','' @ unary (envCreatedAt e) @ '','' @
        unary (envPayloadBytes e) @ '','' @ envPayloadSHA256 e)
      else None)"

definition refUnmarshal :: "bytes \<Rightarrow> spoolEnvelope option" where
  "refUnmarshal h =
     (let h2 = nextField h; h3 = nextField h2; h4 = nextField h3
      in Some \<lparr>envVersion = 1, envID = field h, envPriority = field h2,
           envCreatedAt = int (length (field h3)), envPayloadBytes = int (length (field h4)),
           envPayloadSHA256 = nextField h4\<rparr>)"

definition refCodec :: spoolCodec where
  "refCodec = \<lparr>cMarshal = refMarshal, cUnmarshal = refUnmarshal, cSha256 = (\<lambda>p. take 32 (p @ replicate 32 CHR 0x00))\<rparr>"

lemma field_append [simp]: "CHR '','' \<notin> set x \<Longrightarrow> field (x @ CHR '','' # y) = x"
  unfolding field_def by (subst takeWhile_append2) auto

lemma nextField_append [simp]: "CHR '','' \<notin> set x \<Longrightarrow> nextField (x @ CHR '','' # y) = y"
  unfolding nextField_def by (subst dropWhile_append2) auto

lemma hexDigit_range: "n < 16 \<Longrightarrow> of_char (hexDigit n) \<noteq> (10 :: nat) \<and> of_char (hexDigit n) \<noteq> (44 :: nat)"
  by (auto simp: hexDigit_def)

lemma hexEncode_range: "c \<in> set (hexEncode bs) \<Longrightarrow> c \<noteq> CHR 0x0A \<and> c \<noteq> CHR '',''"
proof (induction bs rule: hexEncode.induct)
  case (2 b bs)
  have "hexDigit n \<noteq> CHR 0x0A \<and> hexDigit n \<noteq> CHR '',''" if "n < 16" for n
    using hexDigit_range [OF that] by auto
  moreover have "of_char b div (16 :: nat) < 16" by (rule less_mult_imp_div_less) simp
  moreover have "of_char b mod (16 :: nat) < 16" by simp
  ultimately show ?case using 2 by auto
qed simp

lemma refCodec_OK: "codecOK refCodec"
proof -
  have "h \<noteq> [] \<and> CHR 0x0A \<notin> set h \<and> refUnmarshal h = Some e"
    if "envelopeText e" "refMarshal e = Some h" for e h
  proof -
    from that(1) have plain: "CHR '','' \<notin> set (envID e)" "CHR 0x0A \<notin> set (envID e)" "envID e \<noteq> []"
      "CHR '','' \<notin> set (envPriority e)" "CHR 0x0A \<notin> set (envPriority e)"
      "CHR 0x0A \<notin> set (envPayloadSHA256 e)"
      by (auto simp: envelopeText_def validSpoolID_def list_all_iff validSpoolChar_def
          validSpoolPriority_def SpoolMetadata_def SpoolEvidence_def SpoolVideo_def dest: hexEncode_range)
    have u: "CHR '','' \<notin> set (unary n)" "CHR 0x0A \<notin> set (unary n)" for n by (auto simp: unary_def)
    from that(2) have h: "h = envID e @ CHR '','' # envPriority e @ CHR '','' # unary (envCreatedAt e) @
        CHR '','' # unary (envPayloadBytes e) @ CHR '','' # envPayloadSHA256 e"
      and e: "envVersion e = 1" "0 \<le> envCreatedAt e" "0 \<le> envPayloadBytes e"
      by (auto simp: refMarshal_def split: if_splits)
    show ?thesis using plain u e by (cases e) (simp add: h refUnmarshal_def unary_def)
  qed
  then show ?thesis by (auto simp: codecOK_def refCodec_def)
qed

definition wEnv :: "int \<Rightarrow> spoolEnv" where
  "wEnv t = \<lparr>spNow = t, spTmp = ''1'', spIo = (\<lambda>_. True), spShortWrite = (\<lambda>_. [])\<rparr>"

definition wSpool :: DurableSpool where
  "wSpool = emptySpool 1000 100 []"

lemma wEnv_fine [simp]: "ioFine (wEnv t)" "spNow (wEnv t) = t"
  by (simp_all add: ioFine_def wEnv_def)

lemma wSpool_inv: "spoolInv refCodec wSpool" "withinQuota wSpool" "spDisk wSpool = []" "spEntries wSpool = []"
    "spMaxBytes wSpool = 1000" "spMaxItemBytes wSpool = 100"
  by (simp_all add: wSpool_def emptySpool_def spoolInv_def configOK_def dirOK_def metricsOK_def
      zeroMetrics_def totalBytes_def wrap64_def withinQuota_def)

lemma trimSpace_plain [simp]: "trimSpace ''a'' = ''a''" "trimSpace ''root'' = ''root''"
  by code_simp+

text \<open>The record that stores payload x under id a, written at instant 5.\<close>

definition wRecord :: bytes where
  "wRecord = the (case newRecord refCodec (wEnv 5) ''a'' SpoolMetadata ''x'' of Inr rec \<Rightarrow> Some rec | _ \<Rightarrow> None)"

lemma wRecord_eq: "newRecord refCodec (wEnv 5) ''a'' SpoolMetadata ''x'' = Inr wRecord" "length wRecord = 85"
  by code_simp+

lemma wAdmissible: "admissible ''a'' SpoolMetadata ''x'' wSpool" "getEntry (spEntries wSpool) i = None"
  by code_simp (simp add: wSpool_inv getEntry_def)

lemma wStored:
  obtains s' it where "enqueue refCodec (wEnv 5) ''a'' SpoolMetadata ''x'' True wSpool = (s', Inr it)"
    "spoolInv refCodec s'" "spMaxItemBytes s' = 100" "spoolMap refCodec s' ''a'' \<noteq> None"
    "\<exists>msg \<in> ran (spoolMap refCodec s'). itemPriority (msgItem msg) = SpoolMetadata"
proof -
  obtain s' it where run: "enqueue refCodec (wEnv 5) ''a'' SpoolMetadata ''x'' True wSpool = (s', Inr it)"
    using enqueue_runs [of refCodec wSpool "wEnv 5" "''a''" SpoolMetadata "''x''" wRecord]
    by (auto simp: wSpool_inv refCodec_OK wRecord_eq wAdmissible getEntry_def Enqueue_def)
  have inv: "spoolInv refCodec s'" using enqueue_inv [OF wSpool_inv(1) refCodec_OK _ run] by simp
  have max: "spMaxItemBytes s' = 100"
    using enqueue_config [OF wSpool_inv(1) refCodec_OK _ run] by (simp add: wSpool_inv)
  obtain e where e: "e \<in> set (spEntries s')" "entID e = ''a''" "itemPriority (entItem e) = SpoolMetadata"
    using enqueue_entry [OF wSpool_inv(1) refCodec_OK _ run] by auto
  then obtain p where "storedPayload refCodec s' e = Some p" using storedPayload_Some [OF inv] by blast
  with e have "spoolMap refCodec s' ''a'' = Some \<lparr>msgItem = entItem e, msgPayload = p\<rparr>"
    by (auto simp: spoolMap_Some_iff [OF inv])
  with e(3) have "spoolMap refCodec s' ''a'' \<noteq> None"
    "\<exists>msg \<in> ran (spoolMap refCodec s'). itemPriority (msgItem msg) = SpoolMetadata"
    by (force simp: ran_def)+
  with run inv max show thesis by (rule that)
qed

section \<open>Properties\<close>

text \<open>C11: In every history of a spool directory (starts, enqueues, acknowledgments, restarts and
  crashes in the middle of a write, with any operating-system failures) the index, the metrics and
  the files agree: ids are distinct, every entry's file parses to its envelope, no other committed
  record is in the directory, and depth and byte counters are the true ones modulo 64-bit wrap.\<close>

theorem spool_reachable_invariant:
  assumes "spoolReach C M m s" "codecOK C" "M < 2 ^ 62"
  shows "spoolInv C s"
  using spoolReach_inv [OF assms] by blast

theorem spool_reachable_invariant_witness: "spoolInv refCodec wSpool"
proof (rule spool_reachable_invariant [of refCodec 1000 100])
  have "NewDurableSpool refCodec (wEnv 5) True ''root'' 1000 100 [] = ([], Inr wSpool)"
    by (simp add: NewDurableSpool_def recover_def wEnv_def wSpool_def emptySpool_def
        enforceQuota.simps zeroMetrics_def)
  then show "spoolReach refCodec 1000 100 wSpool" by (rule spoolReach.start)
qed (simp_all add: refCodec_OK)

text \<open>C14: Restart is lossless: constructing a spool on the directory of a spool within its quota
  succeeds when the operating system does, and holds the same messages with the same payloads.\<close>

theorem restart_rebuilds_queue:
  assumes "spoolInv C s" "withinQuota s" "ioFine E" "trimSpace root \<noteq> []"
  shows "\<exists>s'. NewDurableSpool C E True root (spMaxBytes s) (spMaxItemBytes s) (spDisk s) = (spDisk s', Inr s') \<and>
    spoolMap C s' = spoolMap C s \<and> mset (spEntries s') = mset (spEntries s) \<and> spoolInv C s'"
proof -
  obtain s' where s': "NewDurableSpool C E True root (spMaxBytes s) (spMaxItemBytes s) (spDisk s) = (spDisk s', Inr s')"
    "spoolInv C s'" "spMaxItemBytes s' = spMaxItemBytes s" "mset (spEntries s') = mset (spEntries s)"
    "\<forall>n. \<not> prefix ''.spool-'' n \<longrightarrow> map_of (spDisk s') n = map_of (spDisk s) n"
    using new_starts [of "spEntries s" "spDisk s" C "spMaxItemBytes s" "spMaxBytes s" E root] assms
    unfolding spoolInv_def configOK_def withinQuota_def by blast
  have "spoolMap C s' = spoolMap C s" by (rule same_spoolMap) (use assms(1) s' in auto)
  with s' show ?thesis by blast
qed

theorem restart_rebuilds_queue_witness:
  "\<exists>s'. NewDurableSpool refCodec (wEnv 5) True ''root'' 1000 100 [] = (spDisk s', Inr s') \<and>
    spoolMap refCodec s' = spoolMap refCodec wSpool \<and> mset (spEntries s') = {#} \<and> spoolInv refCodec s'"
  using restart_rebuilds_queue [of refCodec wSpool "wEnv 5" "''root''"] by (simp add: wSpool_inv)

text \<open>C13: A crash at any point of writing a record is atomic: after restart the queue holds exactly
  the old messages, or the old messages and the new one, never a partial record.\<close>

theorem crash_is_atomic:
  assumes "spoolInv C s" "codecOK C" "spNow E \<noteq> 0" "getEntry (spEntries s) i = None"
    "admissible i pr payload s" "newRecord C E i pr payload = Inr rec"
    "totalBytes (spEntries s) + int (length rec) \<le> spMaxBytes s"
    "writeCrash E (spoolFilename (spNow E) i) rec (spDisk s) d" "ioFine E'" "trimSpace root \<noteq> []"
  shows "\<exists>s'. NewDurableSpool C E' True root (spMaxBytes s) (spMaxItemBytes s) d = (spDisk s', Inr s') \<and>
    (spoolMap C s' = spoolMap C s \<or>
     spoolMap C s' = (spoolMap C s)(i \<mapsto> \<lparr>msgItem = newItem E i pr payload, msgPayload = payload\<rparr>))"
  by (rule crash_map [OF assms])

theorem crash_is_atomic_witness:
  "\<exists>s'. NewDurableSpool refCodec (wEnv 6) True ''root'' 1000 100
      (AList.update ''.spool-1'' (DFile (take 10 wRecord)) []) = (spDisk s', Inr s') \<and>
    (spoolMap refCodec s' = spoolMap refCodec wSpool \<or> spoolMap refCodec s' = (spoolMap refCodec wSpool)
       (''a'' \<mapsto> \<lparr>msgItem = newItem (wEnv 5) ''a'' SpoolMetadata ''x'', msgPayload = ''x''\<rparr>))"
proof -
  have "writeCrash (wEnv 5) dest wRecord [] (AList.update ''.spool-1'' (DFile (take 10 wRecord)) [])" for dest
    using writeCrash.temporary [of "take 10 wRecord" wRecord "wEnv 5" dest "[]"]
    by (simp add: take_is_prefix tempName_def wEnv_def)
  then show ?thesis
    using crash_is_atomic [of refCodec wSpool "wEnv 5" "''a''" SpoolMetadata "''x''" wRecord
      "AList.update ''.spool-1'' (DFile (take 10 wRecord)) []" "wEnv 6" "''root''"]
    by (simp add: wSpool_inv refCodec_OK wRecord_eq wAdmissible totalBytes_def getEntry_def)
qed

text \<open>A successful \<open>Enqueue\<close> ends within the byte quota, stores the payload under the trimmed id,
  and pays for it only by evicting the oldest other items: the surviving ones are a suffix of the age
  order and keep their messages.\<close>

theorem enqueue_contract:
  assumes "spoolInv C s" "withinQuota s" "codecOK C" "spNow E \<noteq> 0"
    "getEntry (spEntries s) (trimSpace rawID) = None"
    "Enqueue C E rawID pr payload s = (s', Inr it)"
  shows "withinQuota s' \<and> it = newItem E (trimSpace rawID) pr payload \<and>
    spoolMap C s' (trimSpace rawID) = Some \<lparr>msgItem = it, msgPayload = payload\<rparr> \<and>
    (\<exists>victims. sortedEntries True (spEntries s) =
       victims @ sortedEntries True (others (trimSpace rawID) (spEntries s'))) \<and>
    (\<forall>j msg. j \<noteq> trimSpace rawID \<longrightarrow> spoolMap C s' j = Some msg \<longrightarrow> spoolMap C s j = Some msg)"
  using assms(6) [unfolded Enqueue_def]
proof (cases rule: enqueue_cases)
  case (replay e)
  with assms(5) show ?thesis by simp
next
  case (stored rec d)
  let ?i = "trimSpace rawID" and ?t = "enqueueEntry (newEntry C E (trimSpace rawID) pr payload rec) d s"
  have run: "enforceQuota E ?i ?t = (s', Inr ())" and it: "it = newItem E ?i pr payload"
    using stored(7) by auto
  have inv_t: "spoolInv C ?t" by (rule enqueueEntry_inv [OF assms(1,3,4) stored(2,1,3,6)])
  note keeps = enforceQuota_keeps [OF inv_t run]
  have "totalBytes (spEntries s') < 2 ^ 63"
    using stored_total [OF assms(1,2) stored(2,4), of E pr payload d] keeps
      totalBytes_inv_subset [OF inv_t, of s'] by linarith
  then have quota: "withinQuota s'" using keeps by (intro quota_from_metric [of C]) auto
  have "others ?i (spEntries ?t) = spEntries s"
    using stored(2) by (auto simp: enqueueEntry_sel [OF stored(2)] others_def deleteEntry_def getEntry_None_iff
        image_iff intro!: filter_True)
  then have "\<exists>victims. sortedEntries True (spEntries s) = victims @ sortedEntries True (others ?i (spEntries s'))"
    using enforceQuota_oldest_first [OF inv_t run] by simp
  moreover have map: "spoolMap C s' = ((spoolMap C s)(?i \<mapsto> \<lparr>msgItem = it, msgPayload = payload\<rparr>))
      |` (entID ` set (spEntries s'))"
    using enforceQuota_spec [OF inv_t run] stored_map [OF assms(1,3,4) stored(2,1,3,6)] it by simp
  moreover have "?i \<in> entID ` set (spEntries s')"
    using keeps enqueueEntry_sel(1) [OF stored(2)] by (force simp: image_iff)
  ultimately show ?thesis using quota it by (auto simp: restrict_map_def split: if_splits)
qed auto

theorem enqueue_contract_witness:
  "\<exists>s' it. Enqueue refCodec (wEnv 5) ''a'' SpoolMetadata ''x'' wSpool = (s', Inr it) \<and> withinQuota s' \<and>
     spoolMap refCodec s' ''a'' = Some \<lparr>msgItem = it, msgPayload = ''x''\<rparr>"
proof -
  obtain s' where run: "Enqueue refCodec (wEnv 5) ''a'' SpoolMetadata ''x'' wSpool =
      (s', Inr (newItem (wEnv 5) ''a'' SpoolMetadata ''x''))"
    using enqueue_runs [of refCodec wSpool "wEnv 5" "''a''" SpoolMetadata "''x''" wRecord]
    by (auto simp: wSpool_inv refCodec_OK wRecord_eq wAdmissible getEntry_def)
  with enqueue_contract [OF wSpool_inv(1,2) refCodec_OK _ _ run] show ?thesis
    by (auto simp: wAdmissible)
qed

text \<open>C30: \<open>Enqueue\<close> is never refused for lack of space: when the operating system works, a valid new
  item whose record fits the quota by itself is stored, whatever the queue holds.\<close>

theorem enqueue_makes_room:
  assumes "spoolInv C s" "withinQuota s" "codecOK C" "spNow E \<noteq> 0" "ioFine E"
    "getEntry (spEntries s) (trimSpace rawID) = None" "admissible (trimSpace rawID) pr payload s"
    "newRecord C E (trimSpace rawID) pr payload = Inr rec" "int (length rec) \<le> spMaxBytes s"
  shows "\<exists>s'. Enqueue C E rawID pr payload s = (s', Inr (newItem E (trimSpace rawID) pr payload)) \<and>
    (\<exists>e \<in> set (spEntries s'). entItem e = newItem E (trimSpace rawID) pr payload)"
proof -
  obtain s' where run: "Enqueue C E rawID pr payload s = (s', Inr (newItem E (trimSpace rawID) pr payload))"
    using enqueue_runs [OF assms] by blast
  then have "\<exists>e \<in> set (spEntries s'). entItem e = newItem E (trimSpace rawID) pr payload"
    using enqueue_entry [OF assms(1,3,4)] unfolding Enqueue_def by metis
  with run show ?thesis by blast
qed

theorem enqueue_makes_room_witness:
  "\<exists>s'. Enqueue refCodec (wEnv 5) ''a'' SpoolMetadata ''x'' wSpool =
    (s', Inr (newItem (wEnv 5) ''a'' SpoolMetadata ''x''))"
  using enqueue_makes_room [of refCodec wSpool "wEnv 5" "''a''" SpoolMetadata "''x''" wRecord]
  by (auto simp: wSpool_inv refCodec_OK wRecord_eq wAdmissible getEntry_def)

text \<open>C12: \<open>EnqueueRetained\<close> refines insertion into a map bounded by the quota: it never evicts, a new
  item adds exactly one binding, a replay or any error leaves every stored message as it was.\<close>

theorem enqueue_retained_refines:
  assumes "spoolInv C s" "withinQuota s" "codecOK C" "spNow E \<noteq> 0"
    "EnqueueRetained C E rawID pr payload s = (s', r)"
  shows "withinQuota s' \<and> spoolInv C s' \<and>
    spoolMap C s' =
      (case r of
         Inl err \<Rightarrow> spoolMap C s
       | Inr it \<Rightarrow>
           if spoolMap C s (trimSpace rawID) = None
           then (spoolMap C s)(trimSpace rawID \<mapsto> \<lparr>msgItem = it, msgPayload = payload\<rparr>)
           else spoolMap C s)"
  by (rule retained_map [OF assms])

theorem enqueue_retained_refines_witness:
  "\<exists>s' r. EnqueueRetained refCodec (wEnv 5) ''a'' SpoolMetadata ''x'' wSpool = (s', r) \<and> withinQuota s'"
proof -
  obtain s' r where run: "EnqueueRetained refCodec (wEnv 5) ''a'' SpoolMetadata ''x'' wSpool = (s', r)" by force
  with enqueue_retained_refines [OF wSpool_inv(1,2) refCodec_OK _ run] show ?thesis by simp
qed

text \<open>Enqueueing is idempotent: after a success, the same request with any clock and any variant
  returns the same item and changes nothing, and a request with the same id and another priority or
  another payload hash is a conflict that changes nothing.\<close>

theorem enqueue_idempotent:
  assumes "spoolInv C s" "codecOK C" "spNow E \<noteq> 0" "enqueue C E rawID pr payload ev s = (s', Inr it)"
    "admissible (trimSpace rawID) pr' payload' s'"
  shows "enqueue C E' rawID pr' payload' ev' s' =
    (s', if pr' = pr \<and> hashPayload C payload' = hashPayload C payload then Inr it else Inl ErrSpoolConflict)"
proof -
  obtain e where e: "e \<in> set (spEntries s')" "entID e = trimSpace rawID" "entItem e = it"
    "itemPriority it = pr" "entPayloadHash e = hashPayload C payload"
    using enqueue_entry [OF assms(1-4)] by blast
  have "distinct (map entID (spEntries s'))"
    using enqueue_inv [OF assms(1-4)] by (simp add: spoolInv_def)
  then have "getEntry (spEntries s') (trimSpace rawID) = Some e" using e by (simp add: getEntry_Some_iff)
  with e assms(5) show ?thesis by (auto simp: enqueue_def)
qed

theorem enqueue_idempotent_witness:
  "\<exists>s' it. enqueue refCodec (wEnv 5) ''a'' SpoolMetadata ''x'' True wSpool = (s', Inr it) \<and>
     enqueue refCodec (wEnv 9) ''a'' SpoolMetadata ''x'' False s' = (s', Inr it) \<and>
     enqueue refCodec (wEnv 9) ''a'' SpoolVideo ''x'' False s' = (s', Inl ErrSpoolConflict)"
proof -
  obtain s' it where run: "enqueue refCodec (wEnv 5) ''a'' SpoolMetadata ''x'' True wSpool = (s', Inr it)"
    and max: "spMaxItemBytes s' = 100"
    by (rule wStored)
  have adm: "admissible ''a'' SpoolMetadata ''x'' s'" "admissible ''a'' SpoolVideo ''x'' s'"
    using max by (simp_all add: admissible_def validSpoolID_def validSpoolChar_def validSpoolPriority_def
        maxSpoolIDLength_def)
  note idem = enqueue_idempotent [OF wSpool_inv(1) refCodec_OK _ run, of _ _ "wEnv 9" False]
  have "enqueue refCodec (wEnv 9) ''a'' SpoolMetadata ''x'' False s' = (s', Inr it)"
    "enqueue refCodec (wEnv 9) ''a'' SpoolVideo ''x'' False s' = (s', Inl ErrSpoolConflict)"
    using idem [of SpoolMetadata "''x''"] idem [of SpoolVideo "''x''"] adm
    by (simp_all add: SpoolVideo_def SpoolMetadata_def)
  with run show ?thesis by blast
qed

text \<open>\<open>Next\<close> on a non-empty queue returns the stored message with the least priority rank, then the
  earliest creation time, then the least id, whatever order the Go map iterates in; on an empty queue
  it reports \<open>ErrSpoolEmpty\<close>.\<close>

theorem next_is_least:
  assumes "spoolInv C s" "ioFine E"
  shows "case NextItem C E s of
      Inl err \<Rightarrow> err = ErrSpoolEmpty \<and> spoolMap C s = Map.empty
    | Inr msg \<Rightarrow> spoolMap C s (itemID (msgItem msg)) = Some msg \<and>
        (\<forall>msg' \<in> ran (spoolMap C s).
           (spoolPriorityRank (itemPriority (msgItem msg)), itemCreatedAt (msgItem msg), itemID (msgItem msg)) \<le>
           (spoolPriorityRank (itemPriority (msgItem msg')), itemCreatedAt (msgItem msg'), itemID (msgItem msg')))"
proof (cases "sortedEntries False (spEntries s)")
  case Nil
  then have "spEntries s = []" using set_sortedEntries [of False "spEntries s"] by simp
  then have "spoolMap C s = Map.empty" using dom_spoolMap [OF assms(1)] by simp
  moreover have "NextItem C E s = Inl ErrSpoolEmpty" using Nil by (simp add: NextItem_def)
  ultimately show ?thesis by simp
next
  case (Cons e rest)
  then have e: "e \<in> set (spEntries s)" using set_sortedEntries [of False "spEntries s"] by auto
  obtain msg where msg: "readEntry C E s e = Inr msg" "msgItem msg = entItem e" "spoolMap C s (entID e) = Some msg"
    using readEntry_ok [OF assms e] .
  have "NextItem C E s = Inr msg" using msg(1) by (simp add: NextItem_def Cons)
  moreover have "\<forall>msg' \<in> ran (spoolMap C s).
      (spoolPriorityRank (itemPriority (msgItem msg)), itemCreatedAt (msgItem msg), itemID (msgItem msg)) \<le>
      (spoolPriorityRank (itemPriority (msgItem msg')), itemCreatedAt (msgItem msg'), itemID (msgItem msg'))"
  proof
    fix msg'
    assume "msg' \<in> ran (spoolMap C s)"
    then obtain x where x: "x \<in> set (spEntries s)" "msgItem msg' = entItem x"
      using ran_spoolMap [OF assms(1)] by blast
    from sorted_first(2) [OF Cons x(1)]
    show "(spoolPriorityRank (itemPriority (msgItem msg)), itemCreatedAt (msgItem msg), itemID (msgItem msg)) \<le>
      (spoolPriorityRank (itemPriority (msgItem msg')), itemCreatedAt (msgItem msg'), itemID (msgItem msg'))"
      unfolding spoolKey_def msg(2) x(2) by simp
  qed
  ultimately show ?thesis using msg(2,3) by (simp add: entID_def)
qed

theorem next_is_least_witness:
  "\<exists>s msg. spoolMap refCodec s ''a'' \<noteq> None \<and> NextItem refCodec (wEnv 7) s = Inr msg \<and>
     spoolMap refCodec s (itemID (msgItem msg)) = Some msg"
proof -
  obtain s where s: "spoolInv refCodec s" "spoolMap refCodec s ''a'' \<noteq> None" by (rule wStored)
  with next_is_least [OF s(1), of "wEnv 7"] show ?thesis
    by (intro exI [of _ s]) (auto split: sum.splits)
qed

text \<open>\<open>NextPriority\<close> returns the oldest stored message of exactly the asked class, with ties broken
  by id, and reports an empty class although other classes hold messages.\<close>

theorem next_priority_is_oldest_of_class:
  assumes "spoolInv C s" "ioFine E" "validSpoolPriority pr"
  shows "case NextPriority C E pr s of
      Inl err \<Rightarrow> err = ErrSpoolEmpty \<and> (\<forall>msg \<in> ran (spoolMap C s). itemPriority (msgItem msg) \<noteq> pr)
    | Inr msg \<Rightarrow> spoolMap C s (itemID (msgItem msg)) = Some msg \<and> itemPriority (msgItem msg) = pr \<and>
        (\<forall>msg' \<in> ran (spoolMap C s). itemPriority (msgItem msg') = pr \<longrightarrow>
           (itemCreatedAt (msgItem msg), itemID (msgItem msg)) \<le> (itemCreatedAt (msgItem msg'), itemID (msgItem msg')))"
proof (cases "dropWhile (\<lambda>e. itemPriority (entItem e) \<noteq> pr) (sortedEntries False (spEntries s))")
  case Nil
  then have "\<forall>e \<in> set (sortedEntries False (spEntries s)). itemPriority (entItem e) \<noteq> pr"
    by (simp only: dropWhile_eq_Nil_conv)
  then have "\<forall>msg \<in> ran (spoolMap C s). itemPriority (msgItem msg) \<noteq> pr"
    by (auto simp: ran_def spoolMap_Some_iff [OF assms(1)])
  moreover have "NextPriority C E pr s = Inl ErrSpoolEmpty"
    using assms(3) by (simp only: NextPriority_def Nil) simp
  ultimately show ?thesis by simp
next
  case (Cons e rest)
  note first = sorted_first_priority [OF Cons]
  obtain msg where msg: "readEntry C E s e = Inr msg" "msgItem msg = entItem e" "spoolMap C s (entID e) = Some msg"
    using readEntry_ok [OF assms(1,2) first(1)] .
  have "NextPriority C E pr s = Inr msg" using msg(1) assms(3) by (simp only: NextPriority_def Cons) simp
  moreover have "(itemCreatedAt (msgItem msg), itemID (msgItem msg)) \<le> (itemCreatedAt (msgItem msg'), itemID (msgItem msg'))"
    if r: "msg' \<in> ran (spoolMap C s)" "itemPriority (msgItem msg') = pr" for msg'
  proof -
    obtain x where x: "x \<in> set (spEntries s)" "msgItem msg' = entItem x"
      using ran_spoolMap [OF assms(1) r(1)] by blast
    show ?thesis using first(3) [OF x(1)] first(2) r(2) unfolding spoolKey_def msg(2) x(2) by simp
  qed
  ultimately show ?thesis using msg(2,3) first(2) by (simp add: entID_def)
qed

theorem next_priority_is_oldest_of_class_witness:
  "\<exists>s msg. spoolMap refCodec s ''a'' \<noteq> None \<and> NextPriority refCodec (wEnv 7) SpoolMetadata s = Inr msg \<and>
     itemPriority (msgItem msg) = SpoolMetadata"
proof -
  obtain s where s: "spoolInv refCodec s" "spoolMap refCodec s ''a'' \<noteq> None"
    "\<exists>msg \<in> ran (spoolMap refCodec s). itemPriority (msgItem msg) = SpoolMetadata"
    by (rule wStored)
  with next_priority_is_oldest_of_class [OF s(1), of "wEnv 7" SpoolMetadata] show ?thesis
    by (intro exI [of _ s]) (auto simp: validSpoolPriority_def split: sum.splits)
qed

text \<open>Acknowledgment removes exactly the acknowledged message, and only on success; any refusal or
  operating-system failure leaves the whole state unchanged, and after a success a second
  acknowledgment of the id is \<open>ErrSpoolItemNotFound\<close>.\<close>

theorem ack_exact:
  assumes "spoolInv C s" "Ack E rawID s = (s', r)"
  shows "spoolInv C s' \<and>
    (case r of
       Inl err \<Rightarrow> s' = s
     | Inr _ \<Rightarrow> spoolMap C s (trimSpace rawID) \<noteq> None \<and> spoolMap C s' = (spoolMap C s)(trimSpace rawID := None) \<and>
         Ack E' rawID s' = (s', Inl ErrSpoolItemNotFound))"
proof -
  have dist: "distinct (map entID (spEntries s))" using assms(1) by (simp add: spoolInv_def)
  note inv' = ack_inv [OF assms]
  show ?thesis
    using assms(2) dist
  proof (cases rule: ack_cases)
    case (acked e d)
    have "spoolMap C s (trimSpace rawID) \<noteq> None"
      using acked(1,2) domIff [of "trimSpace rawID" "spoolMap C s"] unfolding dom_spoolMap [OF assms(1)] by force
    moreover have "getEntry (spEntries s') (trimSpace rawID) = None" using acked by (auto simp: getEntry_None_iff)
    moreover have "validSpoolID (trimSpace rawID)"
      using assms(1) acked(1,2) by (auto simp: spoolInv_def entryOK_def)
    ultimately show ?thesis using ack_spec [OF assms] acked(3) inv' by (simp add: Ack_def)
  qed (use assms(1) in auto)
qed

theorem ack_exact_witness:
  "\<exists>s s'. Ack (wEnv 7) ''a'' s = (s', Inr ()) \<and> spoolMap refCodec s ''a'' \<noteq> None \<and>
     Ack (wEnv 8) ''a'' s' = (s', Inl ErrSpoolItemNotFound)"
proof -
  obtain s where s: "spoolInv refCodec s" "spoolMap refCodec s ''a'' \<noteq> None" by (rule wStored)
  then obtain s' where run: "Ack (wEnv 7) ''a'' s = (s', Inr ())" using ack_runs [OF s(1)] by fastforce
  with ack_exact [OF s(1) run, of "wEnv 8"] s(2) show ?thesis by auto
qed

end
