(* ===== verification/Delivery_Props.thy ===== *)
theory Delivery_Props
  imports Delivery Spool_Props
begin

text \<open>
  The properties of review event delivery: nothing queued is lost before the sender accepted it,
  acknowledgment follows acceptance, what leaves the device is bounded and pending human review.
\<close>

section \<open>Histories of a delivery\<close>

text \<open>
  A delivery over one spool: events are queued, the next one is delivered, other producers retain
  items of their own, and the process may restart between any two steps. A crash between the
  sender's acceptance and the acknowledgment is a delivery whose acknowledgment fails, followed by a
  restart.
\<close>

inductive deliveryReach ::
  "spoolCodec \<Rightarrow> eventCodec \<Rightarrow> ReviewEventDelivery \<Rightarrow> DurableSpool \<Rightarrow> (string \<times> bytes) list \<Rightarrow> bytes list \<Rightarrow> bool"
  for C K d where
  start: "spoolReady C s \<Longrightarrow> deliveryReach C K d s [] []"
| queue: "deliveryReach C K d s q a \<Longrightarrow> clockSet E \<Longrightarrow> Queue C K d E payload s = (s', r) \<Longrightarrow>
    deliveryReach C K d s' (queuedBy K d payload r @ q) a"
| deliver: "deliveryReach C K d s q a \<Longrightarrow> DeliverNext C K d E send s = (s', sent, r) \<Longrightarrow>
    deliveryReach C K d s' q (sent @ a)"
| retain: "deliveryReach C K d s q a \<Longrightarrow> clockSet E \<Longrightarrow> EnqueueRetained C E i pr p s = (s', r') \<Longrightarrow>
    deliveryReach C K d s' q a"
| restart: "deliveryReach C K d s q a \<Longrightarrow> reopenSpool C how s = Some s' \<Longrightarrow> deliveryReach C K d s' q a"

lemma retained_trim: "EnqueueRetained C E i pr p s = EnqueueRetained C E (trimSpace i) pr p s"
  by (simp add: EnqueueRetained_def enqueue_def)

lemma deliveryReach_accounted:
  assumes "deliveryReach C K d s q a" "lowerOK (evLower K)"
  shows "spoolReady C s \<and> accounted (spoolMap C s) (hashPayload C) K d q a"
  using assms(1)
proof (induction rule: deliveryReach.induct)
  case (start s)
  then show ?case by (simp add: accounted_def)
next
  case (queue s q a E payload s' r)
  then show ?case
    using rq.queue_accounted [OF _ _ assms(2)] rq.queue_keeps_inv unfolding Queue_def by blast
next
  case (deliver s q a E send s' sent r)
  then show ?case using rq.deliver_accounted unfolding DeliverNext_def by blast
next
  case (retain s q a E i pr p s' r')
  have run: "EnqueueRetained C E (trimSpace i) pr p s = (s', r')" using retain(3) retained_trim by metis
  have ready: "spoolReady C s" using retain.IH by blast
  have "accounted (spoolMap C s') (hashPayload C) K d q a"
    by (rule accounted_mono [OF conjunct2 [OF retain.IH]])
      (use rq.enq_keeps [OF ready retain(2) trimSpace_idem run] in auto)
  then show ?case using rq.enq_keeps_inv [OF ready retain(2) run] by blast
next
  case (restart s q a how s')
  then show ?case using rq.reopen_same [of C s how s'] by simp
qed

section \<open>A concrete event\<close>

definition wUUID :: string where
  "wUUID = ''0a1b2c3d-0a1b-4c3d-8a1b-0a1b2c3d4e5f''"

definition wEvent :: reviewEvent where
  "wEvent = \<lparr>evEventID = wUUID, evTenantID = wUUID, evDedupeKey = ''intrusion:'' @ wUUID,
     evOccurredAt = 7, evSiteID = wUUID, evCameraID = wUUID, evZoneID = wUUID,
     evEventType = ''intrusion'', evModelVersion = ''m1'', evConfidence = Fin (1 / 2),
     evEvidenceRefs = [''ref''], evRequiresHumanReview = True, evReviewState = ''pending'',
     evObservedBehavior = [], evSubjectClass = []\<rparr>"

text \<open>A codec that knows one event: its canonical bytes are the single letter e.\<close>

definition wCodec :: eventCodec where
  "wCodec = \<lparr>evDecode = (\<lambda>p. if p = ''e'' then Some (eventInput wEvent, []) else None),
     evAtEOF = (\<lambda>r. r = []), evMarshal = (\<lambda>e. if e = wEvent then Some ''e'' else None),
     evLower = map lowerChar\<rparr>"

definition wDelivery :: ReviewEventDelivery where
  "wDelivery = \<lparr>dvTenantID = wUUID, dvSiteID = wUUID\<rparr>"

lemma wCodec_OK: "eventCodecOK wCodec" "lowerOK (evLower wCodec)"
proof -
  have "toLower (map lowerChar) (map lowerChar s) = map lowerChar s" for s by (simp add: toLower_def)
  then show "lowerOK (evLower wCodec)" by (simp add: lowerOK_def wCodec_def)
  then show "eventCodecOK wCodec" by (auto simp: eventCodecOK_def) (auto simp: wCodec_def split: if_splits)
qed

lemma wValidate: "validate wCodec wDelivery ''e'' = Inr (wEvent, ''e'')"
  by code_simp

lemma wReady: "spoolReady refCodec wSpool"
  by (simp add: spoolReady_def refCodec_OK wSpool_inv)

text \<open>The spool after the event is queued.\<close>

lemma wQueued:
  obtains s it where "Queue refCodec wCodec wDelivery (wEnv 5) ''e'' wSpool = (s, Inr it)" "spoolReady refCodec s"
    "spoolMap refCodec s (reviewItemID wUUID) = Some \<lparr>msgItem = it, msgPayload = ''e''\<rparr>"
    "spoolMap refCodec s = [reviewItemID wUUID \<mapsto> \<lparr>msgItem = it, msgPayload = ''e''\<rparr>]" "itemPriority it = SpoolMetadata"
proof -
  have id: "evEventID wEvent = wUUID" by (simp add: wEvent_def)
  have trim: "trimSpace (reviewItemID wUUID) = reviewItemID wUUID" by code_simp
  obtain rec where rec: "newRecord refCodec (wEnv 5) (reviewItemID wUUID) SpoolMetadata ''e'' = Inr rec"
    "int (length rec) \<le> 1000"
  proof -
    have "case newRecord refCodec (wEnv 5) (reviewItemID wUUID) SpoolMetadata ''e'' of
      Inr rec \<Rightarrow> int (length rec) \<le> 1000 | _ \<Rightarrow> False" by code_simp
    then show thesis using that by (auto split: sum.splits)
  qed
  have adm: "admissible (reviewItemID wUUID) SpoolMetadata ''e'' wSpool" by code_simp
  obtain dd where w: "writeSpoolFileAtomic (wEnv 5) (spoolFilename 5 (reviewItemID wUUID)) rec [] = (dd, Inr ())"
    using write_succeeds [of "wEnv 5" "spoolFilename 5 (reviewItemID wUUID)" rec "[]"] by auto
  have metric: "mBytes (spMetrics wSpool) = 0" by (simp add: wSpool_def emptySpool_def zeroMetrics_def)
  have "wrap64 (int (length rec)) = int (length rec)" using rec(2) by (intro wrap64_id) auto
  then obtain s where s: "EnqueueRetained refCodec (wEnv 5) (reviewItemID wUUID) SpoolMetadata ''e'' wSpool =
      (s, Inr (newItem (wEnv 5) (reviewItemID wUUID) SpoolMetadata ''e''))"
    using rec adm w metric
    by (auto simp: EnqueueRetained_def enqueue_def Let_def trim getEntry_def wSpool_inv)
  have empty: "spoolMap refCodec wSpool = Map.empty" by (simp add: spoolMap_def wSpool_inv getEntry_def fun_eq_iff)
  have clock: "clockSet (wEnv 5)" by (simp add: clockSet_def)
  note map = rq.enq_new [OF wReady clock trim _ s] and ready = rq.enq_keeps_inv [OF wReady clock s]
  have "Queue refCodec wCodec wDelivery (wEnv 5) ''e'' wSpool =
      (s, Inr (newItem (wEnv 5) (reviewItemID wUUID) SpoolMetadata ''e''))"
    using s by (simp add: Queue_def QueueOver_def wValidate id)
  then show thesis using that ready map empty by simp
qed

section \<open>Properties\<close>

text \<open>C3: At-least-once delivery: in every history of queueing, delivering, other retained enqueues and
  restarts, an event for which \<open>Queue\<close> returned success is still stored under its id, or the sender
  accepted the canonical form of a payload with its digest.\<close>

theorem review_events_never_lost:
  assumes "deliveryReach C K d s q a" "lowerOK (evLower K)" "(i, c) \<in> set q"
  shows "(\<exists>msg. spoolMap C s (reviewItemID i) = Some msg \<and> hashPayload C (msgPayload msg) = hashPayload C c) \<or>
    (\<exists>p e b. hashPayload C p = hashPayload C c \<and> validate K d p = Inr (e, b) \<and> b \<in> set a)"
  using deliveryReach_accounted [OF assms(1,2)] assms(3) unfolding accounted_def by blast

theorem review_events_never_lost_witness:
  "\<exists>s q. deliveryReach refCodec wCodec wDelivery s q [] \<and> (wUUID, ''e'') \<in> set q \<and>
     (\<exists>msg. spoolMap refCodec s (reviewItemID wUUID) = Some msg \<and>
        hashPayload refCodec (msgPayload msg) = hashPayload refCodec ''e'')"
proof -
  obtain s it where run: "Queue refCodec wCodec wDelivery (wEnv 5) ''e'' wSpool = (s, Inr it)" by (rule wQueued)
  have "deliveryReach refCodec wCodec wDelivery s (queuedBy wCodec wDelivery ''e'' (Inr it) @ []) []"
    by (rule deliveryReach.queue [OF deliveryReach.start [OF wReady] _ run]) (simp add: clockSet_def)
  then have reach: "deliveryReach refCodec wCodec wDelivery s [(wUUID, ''e'')] []"
    by (simp add: queuedBy_def wValidate wEvent_def)
  from review_events_never_lost [OF this wCodec_OK(2), of wUUID "''e''"] reach show ?thesis by fastforce
qed

text \<open>\<open>DeliverNext\<close> acknowledges only what the sender accepted: on success exactly the delivered
  metadata message leaves the queue, after one accepted send of its canonical form; on any error the
  queue is unchanged, and at most one payload was sent.\<close>

theorem delivery_acks_only_accepted:
  assumes "spoolReady C s" "DeliverNext C K d E send s = (s', sent, r)"
  shows "case r of
      Inl err \<Rightarrow> s' = s \<and> length sent \<le> 1
    | Inr it \<Rightarrow> \<exists>msg e b. NextPriority C E SpoolMetadata s = Inr msg \<and> msgItem msg = it \<and>
        validate K d (msgPayload msg) = Inr (e, b) \<and> sent = [b] \<and> send b = None \<and>
        spoolMap C s' = (spoolMap C s)(itemID it := None)"
  using assms(1,2) [unfolded DeliverNext_def]
  by (cases rule: rq.deliver_cases) auto

theorem delivery_acks_only_accepted_witness:
  "case DeliverNext refCodec wCodec wDelivery (wEnv 5) (\<lambda>_. Some ''down'') wSpool of
     (s', sent, Inl err) \<Rightarrow> s' = wSpool \<and> length sent \<le> 1
   | (s', sent, Inr it) \<Rightarrow> False"
proof -
  obtain s' sent r where run: "DeliverNext refCodec wCodec wDelivery (wEnv 5) (\<lambda>_. Some ''down'') wSpool = (s', sent, r)"
    by (metis prod.exhaust)
  with delivery_acks_only_accepted [OF wReady run] show ?thesis by (auto split: sum.splits)
qed

text \<open>Delivery makes progress: when the operating system works, the oldest metadata message is a
  valid event and the sender accepts it, \<open>DeliverNext\<close> succeeds and the queue shrinks by that message.\<close>

theorem delivery_progress:
  assumes "spoolReady C s" "ioFine E" "NextPriority C E SpoolMetadata s = Inr msg"
    "validate K d (msgPayload msg) = Inr (e, b)" "send b = None"
  shows "\<exists>s'. DeliverNext C K d E send s = (s', [b], Inr (msgItem msg)) \<and>
    dom (spoolMap C s') = dom (spoolMap C s) - {itemID (msgItem msg)} \<and> itemID (msgItem msg) \<in> dom (spoolMap C s)"
proof -
  have st: "spoolMap C s (itemID (msgItem msg)) = Some msg" "trimSpace (itemID (msgItem msg)) = itemID (msgItem msg)"
    using rq.nxt_stored [OF assms(1,3)] by auto
  obtain s' where ack: "Ack E (itemID (msgItem msg)) s = (s', Inr ())"
    using ack_runs [of C s E "itemID (msgItem msg)"] assms(1,2) st by (auto simp: spoolReady_def)
  have "DeliverNext C K d E send s = (s', [b], Inr (msgItem msg))"
    using assms(3-5) ack by (simp add: DeliverNext_def DeliverNextOver_def)
  moreover have "spoolMap C s' = (spoolMap C s)(itemID (msgItem msg) := None)"
    by (rule rq.ack_removes [OF assms(1) st(2) ack])
  ultimately show ?thesis using st(1) by auto
qed

theorem delivery_progress_witness:
  "\<exists>s s' it. spoolMap refCodec s (reviewItemID wUUID) \<noteq> None \<and>
     DeliverNext refCodec wCodec wDelivery (wEnv 7) (\<lambda>_. None) s = (s', [''e''], Inr it)"
proof -
  obtain s it where s: "spoolReady refCodec s"
    "spoolMap refCodec s (reviewItemID wUUID) = Some \<lparr>msgItem = it, msgPayload = ''e''\<rparr>"
    "spoolMap refCodec s = [reviewItemID wUUID \<mapsto> \<lparr>msgItem = it, msgPayload = ''e''\<rparr>]" "itemPriority it = SpoolMetadata"
    by (rule wQueued)
  have inv: "spoolInv refCodec s" using s(1) by (simp add: spoolReady_def)
  have nonempty: "NextPriority refCodec (wEnv 7) SpoolMetadata s \<noteq> Inl err" for err
    using next_nonempty [OF inv, of "wEnv 7" SpoolMetadata] s(2,4) by (force simp: validSpoolPriority_def)
  then obtain msg where msg: "NextPriority refCodec (wEnv 7) SpoolMetadata s = Inr msg"
    by (metis sum.exhaust)
  then have "msgPayload msg = ''e''"
    using rq.nxt_stored [OF s(1) msg] s(3) by (auto split: if_splits)
  then have "validate wCodec wDelivery (msgPayload msg) = Inr (wEvent, ''e'')" by (simp add: wValidate)
  from delivery_progress [OF s(1) _ msg this, of "\<lambda>_. None"] s(2) show ?thesis by auto
qed

text \<open>Canonicalization is idempotent: a canonical payload of admissible size validates to the same
  event and the same bytes, so delivery sends what was queued and replays are recognised.\<close>

theorem review_canonical_fixed_point:
  assumes "validate K d payload = Inr (e, b)" "eventCodecOK K" "int (length b) \<le> maxReviewEventPayloadBytes"
  shows "validate K d b = Inr (e, b)"
  by (rule validate_fixed [OF assms])

theorem review_canonical_fixed_point_witness:
  "validate wCodec wDelivery ''e'' = Inr (wEvent, ''e'')"
  by (rule review_canonical_fixed_point [OF wValidate wCodec_OK(1)]) (simp add: maxReviewEventPayloadBytes_def)

text \<open>What validation lets through is in scope, of an approved non-biometric type, pending human
  review, with a confidence between 0 and 1, at most 32 evidence references, the canonical dedupe
  key, and an id the spool accepts.\<close>

theorem review_event_is_bounded:
  assumes "validate K d payload = Inr (e, b)" "lowerOK (evLower K)"
  shows "evTenantID e = dvTenantID d \<and> evSiteID e = dvSiteID d \<and> evEventType e \<in> set reviewEventTypes \<and>
    evRequiresHumanReview e \<and> evReviewState e = ''pending'' \<and> evDedupeKey e = evEventType e @ '':'' @ evEventID e \<and>
    (\<exists>x. evConfidence e = Fin x \<and> 0 \<le> x \<and> x \<le> 1) \<and> length (evEvidenceRefs e) \<le> 32 \<and>
    (evEventType e \<noteq> ''vehicle_activity'' \<longrightarrow> evObservedBehavior e = [] \<and> evSubjectClass e = []) \<and>
    validSpoolID (reviewItemID (evEventID e))"
proof -
  from assms(1) obtain input where "canonicalEvent K d input = Inr e"
    by (auto simp: validate_def split: option.splits sum.splits)
  note e = canonicalEvent_cases [OF this]
  have "\<exists>x. evConfidence e = Fin x \<and> 0 \<le> x \<and> x \<le> 1" using e by (intro finite_between) auto
  moreover have "length (evEvidenceRefs e) \<le> 32" using e boundedRefs_fixed by metis
  moreover have "evEventType e \<noteq> ''vehicle_activity'' \<longrightarrow> evObservedBehavior e = [] \<and> evSubjectClass e = []"
    using e by (auto simp: vehicleError_def split: if_splits)
  ultimately show ?thesis using e reviewItemID_valid [OF validate_id [OF assms]] by blast
qed

theorem review_event_is_bounded_witness:
  "length (evEvidenceRefs wEvent) \<le> 32 \<and> validSpoolID (reviewItemID (evEventID wEvent))"
  using review_event_is_bounded [OF wValidate wCodec_OK(2)] by blast

end
