(* ===== verification/Privacy_Rights.thy ===== *)
theory Privacy_Rights
  imports Go_Prelude
begin

text \<open>
  The privacy-rights case workflow, \<open>backend/internal/privacyrights\<close>: draft validation
  (\<open>intake.go\<close>), the case state machine (\<open>state_machine.go\<close>) and the idempotent, optimistic
  store of one case (\<open>test_store.go\<close>).

  \<open>uuid.Parse\<close> with \<open>Version\<close> is the parameter \<open>uv\<close>: the version of the UUID a text parses to.
  A \<open>time.Time\<close> whose location the code inspects is a \<open>stamp\<close>: the instant and whether its
  location is \<open>time.UTC\<close>.
\<close>

section \<open>Drafts\<close>

definition TestOnlyPolicyMode :: string where "TestOnlyPolicyMode = ''test_only''"
definition maxPolicyIdentifierLength :: int where "maxPolicyIdentifierLength = 64"
definition maxTestDeadline :: duration where "maxTestDeadline = 366 * 24 * 60 * minute"

definition requestKinds :: "string list" where
  "requestKinds = [''access'', ''correction'', ''erasure'', ''withdrawal'', ''grievance'',
     ''nomination'', ''portability'', ''opt_out'', ''limitation'']"

definition VerificationPending :: string where "VerificationPending = ''verification_pending''"
definition UnderReview :: string where "UnderReview = ''under_review''"
definition FulfillmentPending :: string where "FulfillmentPending = ''fulfillment_pending''"
definition Completed :: string where "Completed = ''completed''"
definition Rejected :: string where "Rejected = ''rejected''"
definition PartiallyFulfilled :: string where "PartiallyFulfilled = ''partially_fulfilled''"

record stamp =
  instant :: gotime
  isUTC :: bool

record TestPolicy =
  polMode :: string
  polJurisdictionID :: string
  polPurposeID :: string
  polPolicyVersion :: string
  polLegalClockID :: string
  polDeadlineInterval :: duration

record DraftInput =
  diCaseID :: string
  diTenantID :: string
  diSubjectID :: string
  diRequesterID :: string
  diKind :: string

record CaseDraft =
  cdCaseID :: string
  cdTenantID :: string
  cdSubjectID :: string
  cdRequesterID :: string
  cdKind :: string
  cdState :: string
  cdVersion :: int
  cdReceivedAt :: stamp
  cdUpdatedAt :: stamp
  cdDueAt :: stamp
  cdJurisdictionID :: string
  cdPurposeID :: string
  cdPolicyVersion :: string
  cdLegalClockID :: string

datatype rightsError =
    ErrInvalidIntakeDraft | ErrInvalidTestOnlyCaseStore | ErrTransitionCommandConflict
  | ErrTransitionVersionConflict

definition validUUIDv4 :: "(string \<Rightarrow> nat option) \<Rightarrow> string \<Rightarrow> bool" where
  "validUUIDv4 uv value \<longleftrightarrow> uv value = Some 4"

definition validRequestKind :: "string \<Rightarrow> bool" where
  "validRequestKind kind \<longleftrightarrow> kind \<in> set requestKinds"

text \<open>A byte of 128 or more belongs to a rune outside the allowed ranges.\<close>

definition validPolicyChar :: "char \<Rightarrow> bool" where
  "validPolicyChar c \<longleftrightarrow>
     \<not> ((c < CHR ''a'' \<or> c > CHR ''z'') \<and> (c < CHR ''0'' \<or> c > CHR ''9'') \<and>
        c \<noteq> CHR ''-'' \<and> c \<noteq> CHR ''_'' \<and> c \<noteq> CHR ''.'')"

definition validPolicyIdentifier :: "string \<Rightarrow> bool" where
  "validPolicyIdentifier value \<longleftrightarrow>
     \<not> (value \<noteq> trimSpace value \<or> value = [] \<or> int (length value) > maxPolicyIdentifierLength) \<and>
     list_all validPolicyChar value"

definition validTestPolicy :: "TestPolicy \<Rightarrow> bool" where
  "validTestPolicy policy \<longleftrightarrow>
     \<not> (polMode policy \<noteq> TestOnlyPolicyMode \<or> polDeadlineInterval policy \<le> 0 \<or>
        polDeadlineInterval policy > maxTestDeadline) \<and>
     validPolicyIdentifier (polJurisdictionID policy) \<and> validPolicyIdentifier (polPurposeID policy) \<and>
     validPolicyIdentifier (polPolicyVersion policy) \<and> validPolicyIdentifier (polLegalClockID policy)"

definition validDraftInput :: "(string \<Rightarrow> nat option) \<Rightarrow> DraftInput \<Rightarrow> bool" where
  "validDraftInput uv input \<longleftrightarrow>
     validUUIDv4 uv (diCaseID input) \<and> validUUIDv4 uv (diTenantID input) \<and>
     validUUIDv4 uv (diSubjectID input) \<and> validRequestKind (diKind input) \<and>
     (diRequesterID input = [] \<or> validUUIDv4 uv (diRequesterID input))"

text \<open>\<open>t.Add(d)\<close> keeps the location.\<close>

definition stampAdd :: "stamp \<Rightarrow> duration \<Rightarrow> stamp" where
  "stampAdd t d = t\<lparr>instant := instant t + d\<rparr>"

definition CreateTestDraft ::
  "(string \<Rightarrow> nat option) \<Rightarrow> DraftInput \<Rightarrow> TestPolicy \<Rightarrow> stamp \<Rightarrow> rightsError + CaseDraft" where
  "CreateTestDraft uv input policy receivedAt =
     (if \<not> validDraftInput uv input \<or> \<not> validTestPolicy policy \<or> instant receivedAt = 0 \<or> \<not> isUTC receivedAt
      then Inl ErrInvalidIntakeDraft
      else Inr \<lparr>cdCaseID = diCaseID input, cdTenantID = diTenantID input, cdSubjectID = diSubjectID input,
        cdRequesterID = diRequesterID input, cdKind = diKind input, cdState = VerificationPending,
        cdVersion = 1, cdReceivedAt = receivedAt, cdUpdatedAt = receivedAt,
        cdDueAt = stampAdd receivedAt (polDeadlineInterval policy),
        cdJurisdictionID = polJurisdictionID policy, cdPurposeID = polPurposeID policy,
        cdPolicyVersion = polPolicyVersion policy, cdLegalClockID = polLegalClockID policy\<rparr>)"

section \<open>Transitions\<close>

definition validTransition :: "string \<Rightarrow> string \<Rightarrow> bool" where
  "validTransition currentState nextState =
     (if currentState = VerificationPending then nextState = UnderReview \<or> nextState = Rejected
      else if currentState = UnderReview then nextState = FulfillmentPending \<or> nextState = Rejected
      else if currentState = FulfillmentPending then nextState = Completed \<or> nextState = PartiallyFulfilled
      else False)"

definition validCaseState :: "string \<Rightarrow> bool" where
  "validCaseState state \<longleftrightarrow> state = VerificationPending \<or> state = UnderReview \<or>
     state = FulfillmentPending \<or> state = Completed \<or> state = Rejected \<or> state = PartiallyFulfilled"

definition draftInput :: "CaseDraft \<Rightarrow> DraftInput" where
  "draftInput draft = \<lparr>diCaseID = cdCaseID draft, diTenantID = cdTenantID draft,
     diSubjectID = cdSubjectID draft, diRequesterID = cdRequesterID draft, diKind = cdKind draft\<rparr>"

definition validTestCaseDraft :: "(string \<Rightarrow> nat option) \<Rightarrow> CaseDraft \<Rightarrow> TestPolicy \<Rightarrow> bool" where
  "validTestCaseDraft uv draft policy =
     (if \<not> validDraftInput uv (draftInput draft) \<or> \<not> validTestPolicy policy \<or>
         \<not> validCaseState (cdState draft) \<or> cdVersion draft < 1 then False
      else if cdJurisdictionID draft \<noteq> polJurisdictionID policy \<or> cdPurposeID draft \<noteq> polPurposeID policy \<or>
         cdPolicyVersion draft \<noteq> polPolicyVersion policy \<or> cdLegalClockID draft \<noteq> polLegalClockID policy
      then False
      else if instant (cdReceivedAt draft) = 0 \<or> instant (cdUpdatedAt draft) = 0 \<or>
         instant (cdDueAt draft) = 0 \<or> \<not> isUTC (cdReceivedAt draft) \<or> \<not> isUTC (cdUpdatedAt draft) \<or>
         \<not> isUTC (cdDueAt draft) \<or> instant (cdUpdatedAt draft) < instant (cdReceivedAt draft)
      then False
      else instant (cdDueAt draft) = instant (cdReceivedAt draft) + polDeadlineInterval policy)"

definition TransitionTestDraft ::
  "(string \<Rightarrow> nat option) \<Rightarrow> CaseDraft \<Rightarrow> TestPolicy \<Rightarrow> string \<Rightarrow> stamp \<Rightarrow> rightsError + CaseDraft" where
  "TransitionTestDraft uv draft policy nextState transitionedAt =
     (if \<not> validTestCaseDraft uv draft policy \<or> \<not> validTransition (cdState draft) nextState \<or>
         instant transitionedAt = 0 \<or> \<not> isUTC transitionedAt \<or>
         \<not> instant transitionedAt > instant (cdUpdatedAt draft)
      then Inl ErrInvalidIntakeDraft
      else Inr (draft\<lparr>cdState := nextState, cdVersion := wrap64 (cdVersion draft + 1),
        cdUpdatedAt := transitionedAt\<rparr>))"

section \<open>The store of one case\<close>

record TransitionCommand =
  cmdRequestID :: string
  cmdExpectedVersion :: int
  cmdNextState :: string
  cmdTransitionedAt :: stamp

record TransitionResult =
  resDraft :: CaseDraft
  resReplayed :: bool

record transitionReceipt =
  rcCommand :: TransitionCommand
  rcDraft :: CaseDraft

record TestOnlyCaseStore =
  stPolicy :: TestPolicy
  stDraft :: CaseDraft
  stReceipts :: "string \<rightharpoonup> transitionReceipt"

definition NewTestOnlyCaseStore ::
  "(string \<Rightarrow> nat option) \<Rightarrow> CaseDraft \<Rightarrow> TestPolicy \<Rightarrow> rightsError + TestOnlyCaseStore" where
  "NewTestOnlyCaseStore uv draft policy =
     (if \<not> validTestCaseDraft uv draft policy then Inl ErrInvalidTestOnlyCaseStore
      else Inr \<lparr>stPolicy = policy, stDraft = draft, stReceipts = Map.empty\<rparr>)"

definition validTransitionCommand :: "(string \<Rightarrow> nat option) \<Rightarrow> TransitionCommand \<Rightarrow> bool" where
  "validTransitionCommand uv command \<longleftrightarrow>
     validUUIDv4 uv (cmdRequestID command) \<and> cmdExpectedVersion command \<ge> 1 \<and>
     cmdNextState command \<noteq> [] \<and> instant (cmdTransitionedAt command) \<noteq> 0 \<and>
     isUTC (cmdTransitionedAt command)"

definition sameTransitionCommand :: "TransitionCommand \<Rightarrow> TransitionCommand \<Rightarrow> bool" where
  "sameTransitionCommand left right \<longleftrightarrow>
     cmdRequestID left = cmdRequestID right \<and> cmdExpectedVersion left = cmdExpectedVersion right \<and>
     cmdNextState left = cmdNextState right \<and>
     instant (cmdTransitionedAt left) = instant (cmdTransitionedAt right)"

definition Apply ::
  "(string \<Rightarrow> nat option) \<Rightarrow> TransitionCommand \<Rightarrow> TestOnlyCaseStore \<Rightarrow>
     TestOnlyCaseStore \<times> (rightsError + TransitionResult)" where
  "Apply uv command s =
     (if \<not> validTransitionCommand uv command then (s, Inl ErrInvalidTestOnlyCaseStore)
      else
        (case stReceipts s (cmdRequestID command) of
           Some receipt \<Rightarrow>
             if \<not> sameTransitionCommand (rcCommand receipt) command
             then (s, Inl ErrTransitionCommandConflict)
             else (s, Inr \<lparr>resDraft = rcDraft receipt, resReplayed = True\<rparr>)
         | None \<Rightarrow>
             if cmdExpectedVersion command \<noteq> cdVersion (stDraft s)
             then (s, Inl ErrTransitionVersionConflict)
             else
               (case TransitionTestDraft uv (stDraft s) (stPolicy s) (cmdNextState command)
                       (cmdTransitionedAt command) of
                  Inl err \<Rightarrow> (s, Inl err)
                | Inr nextDraft \<Rightarrow>
                    (s\<lparr>stDraft := nextDraft,
                       stReceipts := (stReceipts s)(cmdRequestID command \<mapsto>
                         \<lparr>rcCommand = command, rcDraft = nextDraft\<rparr>)\<rparr>,
                     Inr \<lparr>resDraft = nextDraft, resReplayed = False\<rparr>))))"

definition Snapshot :: "TestOnlyCaseStore \<Rightarrow> CaseDraft" where
  "Snapshot s = stDraft s"

section \<open>The abstract workflow\<close>

text \<open>How far a case has come: 3 for the three final states.\<close>

definition progress :: "string \<Rightarrow> nat" where
  "progress state =
     (if state = VerificationPending then 0 else if state = UnderReview then 1
      else if state = FulfillmentPending then 2 else 3)"

lemmas case_states = VerificationPending_def UnderReview_def FulfillmentPending_def Completed_def
  Rejected_def PartiallyFulfilled_def

lemma validTransition_progress:
  "validTransition a b \<Longrightarrow> validCaseState b \<and> progress a < progress b \<and> progress b \<le> 3"
  by (auto simp: validTransition_def validCaseState_def progress_def case_states split: if_splits)

lemma progress_le: "progress a \<le> 3"
  by (simp add: progress_def)

lemma TransitionTestDraft_Inr:
  assumes "TransitionTestDraft uv draft policy st t = Inr draft'" "cdVersion draft < 2 ^ 62"
  shows "validTestCaseDraft uv draft' policy \<and> cdVersion draft' = cdVersion draft + 1 \<and>
    progress (cdState draft) < progress (cdState draft') \<and> validTransition (cdState draft) (cdState draft') \<and>
    instant (cdUpdatedAt draft) < instant (cdUpdatedAt draft') \<and> cdReceivedAt draft' = cdReceivedAt draft \<and>
    draftInput draft' = draftInput draft"
proof -
  have ok: "validTestCaseDraft uv draft policy" "validTransition (cdState draft) st"
    and d: "draft' = draft\<lparr>cdState := st, cdVersion := wrap64 (cdVersion draft + 1), cdUpdatedAt := t\<rparr>"
    and t: "instant t \<noteq> 0" "isUTC t" "instant (cdUpdatedAt draft) < instant t"
    using assms(1) by (auto simp: TransitionTestDraft_def split: if_splits)
  have "1 \<le> cdVersion draft" using ok(1) by (auto simp: validTestCaseDraft_def split: if_splits)
  then have "wrap64 (cdVersion draft + 1) = cdVersion draft + 1" using assms(2) by (intro wrap64_id) auto
  with ok d t validTransition_progress [OF ok(2)] show ?thesis
    by (auto simp: validTestCaseDraft_def draftInput_def split: if_splits)
qed

section \<open>The invariant of the store\<close>

text \<open>
  A history of the store, from the draft it was created with; \<open>v0\<close> is the version of that draft.
  Every receipt holds a valid draft made from the version its command expected, and no two receipts
  expected the same version.
\<close>

inductive caseReach :: "(string \<Rightarrow> nat option) \<Rightarrow> CaseDraft \<Rightarrow> TestPolicy \<Rightarrow> TestOnlyCaseStore \<Rightarrow> bool"
  for uv draft policy where
  start: "NewTestOnlyCaseStore uv draft policy = Inr s \<Longrightarrow> caseReach uv draft policy s"
| step: "caseReach uv draft policy s \<Longrightarrow> Apply uv command s = (s', r) \<Longrightarrow> caseReach uv draft policy s'"

definition receiptsOK :: "(string \<Rightarrow> nat option) \<Rightarrow> TestOnlyCaseStore \<Rightarrow> bool" where
  "receiptsOK uv s \<longleftrightarrow>
     (\<forall>i rc. stReceipts s i = Some rc \<longrightarrow>
        cmdRequestID (rcCommand rc) = i \<and> validTransitionCommand uv (rcCommand rc) \<and>
        validTestCaseDraft uv (rcDraft rc) (stPolicy s) \<and>
        cdVersion (rcDraft rc) = cmdExpectedVersion (rcCommand rc) + 1 \<and>
        cdState (rcDraft rc) = cmdNextState (rcCommand rc) \<and>
        cdVersion (rcDraft rc) \<le> cdVersion (stDraft s)) \<and>
     (\<forall>i j rc rc'. stReceipts s i = Some rc \<longrightarrow> stReceipts s j = Some rc' \<longrightarrow>
        cmdExpectedVersion (rcCommand rc) = cmdExpectedVersion (rcCommand rc') \<longrightarrow> i = j)"

definition caseInv :: "(string \<Rightarrow> nat option) \<Rightarrow> CaseDraft \<Rightarrow> TestPolicy \<Rightarrow> TestOnlyCaseStore \<Rightarrow> bool" where
  "caseInv uv draft policy s \<longleftrightarrow> stPolicy s = policy \<and> validTestCaseDraft uv (stDraft s) policy \<and>
     cdVersion (stDraft s) - cdVersion draft \<le> int (progress (cdState (stDraft s))) - int (progress (cdState draft)) \<and>
     cdVersion draft \<le> cdVersion (stDraft s) \<and> receiptsOK uv s"

text \<open>The three ways \<open>Apply\<close> ends.\<close>

lemma Apply_cases:
  assumes "Apply uv command s = (s', r)"
  obtains (refused) err where "s' = s" "r = Inl err"
  | (replay) rc where "s' = s" "stReceipts s (cmdRequestID command) = Some rc"
      "sameTransitionCommand (rcCommand rc) command" "r = Inr \<lparr>resDraft = rcDraft rc, resReplayed = True\<rparr>"
  | (applied) d where "validTransitionCommand uv command" "stReceipts s (cmdRequestID command) = None"
      "cmdExpectedVersion command = cdVersion (stDraft s)"
      "TransitionTestDraft uv (stDraft s) (stPolicy s) (cmdNextState command) (cmdTransitionedAt command) = Inr d"
      "s' = s\<lparr>stDraft := d, stReceipts := (stReceipts s)(cmdRequestID command \<mapsto> \<lparr>rcCommand = command, rcDraft = d\<rparr>)\<rparr>"
      "r = Inr \<lparr>resDraft = d, resReplayed = False\<rparr>"
  using assms unfolding Apply_def by (auto split: if_splits option.splits sum.splits)

lemma TransitionTestDraft_state:
  "TransitionTestDraft uv draft policy st t = Inr draft' \<Longrightarrow> cdState draft' = st"
  by (auto simp: TransitionTestDraft_def split: if_splits)

lemma Apply_inv:
  assumes inv: "caseInv uv draft policy s" and small: "cdVersion draft < 2 ^ 61"
    and run: "Apply uv command s = (s', r)"
  shows "caseInv uv draft policy s'"
  using run
proof (cases rule: Apply_cases)
  case (applied d)
  have "cdVersion (stDraft s) < 2 ^ 62"
    using inv small progress_le [of "cdState (stDraft s)"] by (simp add: caseInv_def)
  note d = TransitionTestDraft_Inr [OF applied(4) this] TransitionTestDraft_state [OF applied(4)]
  have pol: "stPolicy s = policy" using inv by (simp add: caseInv_def)
  have old: "cmdExpectedVersion (rcCommand rc) < cdVersion (stDraft s)" if "stReceipts s i = Some rc" for i rc
    using inv that unfolding caseInv_def receiptsOK_def by fastforce
  have "receiptsOK uv s" using inv by (simp add: caseInv_def)
  then have "receiptsOK uv s'"
    unfolding receiptsOK_def applied(5)
    using d applied(1,3) old by (auto simp: pol) fastforce+
  with inv d pol applied(5) show ?thesis by (auto simp: caseInv_def)
qed (use inv in simp_all)

lemma caseReach_inv:
  assumes "caseReach uv draft policy s" "cdVersion draft < 2 ^ 61"
  shows "caseInv uv draft policy s"
  using assms(1)
proof induction
  case (start s)
  then show ?case
    by (auto simp: NewTestOnlyCaseStore_def caseInv_def receiptsOK_def split: if_splits)
next
  case (step s command s' r)
  then show ?case using Apply_inv [OF _ assms(2)] by blast
qed

text \<open>Receipts are never changed.\<close>

lemma Apply_keeps_receipt:
  assumes "Apply uv command s = (s', r)" "stReceipts s i = Some rc"
  shows "stReceipts s' i = Some rc"
  using assms(1) by (cases rule: Apply_cases) (use assms(2) in auto)

section \<open>Properties\<close>

definition runCommands ::
  "(string \<Rightarrow> nat option) \<Rightarrow> TransitionCommand list \<Rightarrow> TestOnlyCaseStore \<Rightarrow> TestOnlyCaseStore" where
  "runCommands uv commands s = foldl (\<lambda>s command. fst (Apply uv command s)) s commands"

lemma runCommands_keeps_receipt:
  "stReceipts s i = Some rc \<Longrightarrow> stReceipts (runCommands uv commands s) i = Some rc"
proof (induction commands arbitrary: s)
  case (Cons c cs)
  have "stReceipts (fst (Apply uv c s)) i = Some rc"
    by (rule Apply_keeps_receipt [OF _ Cons.prems]) (rule prod.collapse [symmetric])
  with Cons.IH show ?case by (simp add: runCommands_def)
qed (simp add: runCommands_def)

lemma sameTransitionCommand_refl: "sameTransitionCommand c c"
  by (simp add: sameTransitionCommand_def)

text \<open>The UUID reader, the policy, the draft and the commands the witnesses use.\<close>

definition wUV :: "string \<Rightarrow> nat option" where
  "wUV v = (if v = [] then None else Some 4)"

definition wPolicy :: TestPolicy where
  "wPolicy = \<lparr>polMode = ''test_only'', polJurisdictionID = ''in'', polPurposeID = ''p'',
     polPolicyVersion = ''v1'', polLegalClockID = ''c'', polDeadlineInterval = 100\<rparr>"

definition wDraft :: CaseDraft where
  "wDraft = \<lparr>cdCaseID = ''c1'', cdTenantID = ''t1'', cdSubjectID = ''s1'', cdRequesterID = [],
     cdKind = ''access'', cdState = VerificationPending, cdVersion = 1,
     cdReceivedAt = \<lparr>instant = 5, isUTC = True\<rparr>, cdUpdatedAt = \<lparr>instant = 5, isUTC = True\<rparr>,
     cdDueAt = \<lparr>instant = 105, isUTC = True\<rparr>, cdJurisdictionID = ''in'', cdPurposeID = ''p'',
     cdPolicyVersion = ''v1'', cdLegalClockID = ''c''\<rparr>"

definition wStore :: TestOnlyCaseStore where
  "wStore = \<lparr>stPolicy = wPolicy, stDraft = wDraft, stReceipts = Map.empty\<rparr>"

definition wCommand :: "string \<Rightarrow> int \<Rightarrow> string \<Rightarrow> gotime \<Rightarrow> TransitionCommand" where
  "wCommand i v st t = \<lparr>cmdRequestID = i, cmdExpectedVersion = v, cmdNextState = st,
     cmdTransitionedAt = \<lparr>instant = t, isUTC = True\<rparr>\<rparr>"

definition wApplied :: TestOnlyCaseStore where
  "wApplied = fst (Apply wUV (wCommand ''r1'' 1 UnderReview 6) wStore)"

lemma wValid: "validTestCaseDraft wUV wDraft wPolicy"
  by code_simp

lemma wDraft_sel: "cdState wDraft = ''verification_pending''" "cdVersion wDraft = 1"
    "instant (cdUpdatedAt wDraft) = 5"
  by (simp_all add: wDraft_def VerificationPending_def)

lemma wApply: "Apply wUV (wCommand ''r1'' 1 UnderReview 6) wStore = (wApplied,
    Inr \<lparr>resDraft = wDraft\<lparr>cdState := UnderReview, cdVersion := 2, cdUpdatedAt := \<lparr>instant = 6, isUTC = True\<rparr>\<rparr>,
      resReplayed = False\<rparr>)"
  by (rule prod_eqI) (simp_all add: wApplied_def Apply_def TransitionTestDraft_def wStore_def wValid wCommand_def
      validTransitionCommand_def wUV_def validUUIDv4_def UnderReview_def validTransition_def wDraft_sel
      VerificationPending_def wrap64_def)

lemma wReach: "caseReach wUV wDraft wPolicy wStore" "caseReach wUV wDraft wPolicy wApplied"
proof -
  show r: "caseReach wUV wDraft wPolicy wStore"
    by (rule caseReach.start) (simp add: NewTestOnlyCaseStore_def wValid wStore_def)
  show "caseReach wUV wDraft wPolicy wApplied" by (rule caseReach.step [OF r wApply])
qed

text \<open>C31: In every history of the case store the draft stays valid for its policy, its version counts
  the accepted transitions without ever exceeding the three the workflow has, and at most one request
  was accepted for each expected version (no lost update).\<close>

theorem case_store_invariant:
  assumes "caseReach uv draft policy s" "cdVersion draft < 2 ^ 61"
  shows "validTestCaseDraft uv (stDraft s) policy \<and> cdVersion draft \<le> cdVersion (stDraft s) \<and>
    cdVersion (stDraft s) \<le> cdVersion draft + 3 \<and>
    (\<forall>i j rc rc'. stReceipts s i = Some rc \<longrightarrow> stReceipts s j = Some rc' \<longrightarrow>
       cmdExpectedVersion (rcCommand rc) = cmdExpectedVersion (rcCommand rc') \<longrightarrow> i = j)"
  using caseReach_inv [OF assms] progress_le [of "cdState (stDraft s)"]
  by (auto simp: caseInv_def receiptsOK_def)

theorem case_store_invariant_witness:
  "validTestCaseDraft wUV (stDraft wApplied) wPolicy \<and> cdVersion (stDraft wApplied) \<le> 4"
  using case_store_invariant [OF wReach(2)] by (simp add: wDraft_def)

text \<open>Transitions are idempotent across the whole life of the store: once a command was accepted, the
  same command after any further commands returns the original draft, flagged as a replay, and changes
  nothing; the same request id with other details is a conflict.\<close>

theorem case_transition_idempotent:
  assumes "caseReach uv draft policy s" "cdVersion draft < 2 ^ 61" "Apply uv command s = (s', Inr res)"
  shows "Apply uv command (runCommands uv later s') =
      (runCommands uv later s', Inr \<lparr>resDraft = resDraft res, resReplayed = True\<rparr>) \<and>
    (\<forall>other. validTransitionCommand uv other \<longrightarrow> cmdRequestID other = cmdRequestID command \<longrightarrow>
       \<not> sameTransitionCommand command other \<longrightarrow>
       Apply uv other (runCommands uv later s') = (runCommands uv later s', Inl ErrTransitionCommandConflict))"
proof -
  have valid: "validTransitionCommand uv command" using assms(3) by (auto simp: Apply_def split: if_splits)
  obtain rc where rc: "stReceipts s' (cmdRequestID command) = Some rc" "sameTransitionCommand (rcCommand rc) command"
    "rcDraft rc = resDraft res"
    using assms(3) by (cases rule: Apply_cases) (auto simp: sameTransitionCommand_refl)
  note kept = runCommands_keeps_receipt [OF rc(1), of uv later]
  show ?thesis
    using kept rc valid by (auto simp: Apply_def sameTransitionCommand_def)
qed

theorem case_transition_idempotent_witness:
  "\<exists>res. Apply wUV (wCommand ''r1'' 1 UnderReview 6) (runCommands wUV [wCommand ''r2'' 2 Rejected 7] wApplied) =
     (runCommands wUV [wCommand ''r2'' 2 Rejected 7] wApplied, Inr \<lparr>resDraft = res, resReplayed = True\<rparr>)"
proof -
  from case_transition_idempotent [OF wReach(1) _ wApply, of "[wCommand ''r2'' 2 Rejected 7]"]
  show ?thesis by (simp add: wDraft_def)
qed

end
