(* ===== verification/Base64_Url.thy ===== *)
theory Base64_Url
  imports Go_Prelude
begin

text \<open>
  \<open>base64.RawURLEncoding\<close> of the Go library, which realtime tickets and device claims use: the
  encoder, the decoder (line breaks are skipped, unused trailing bits are not looked at), and the
  round trip.
\<close>

section \<open>Definitions\<close>

definition base64Alphabet :: string where
  "base64Alphabet = ''ABCDEFGHIJKLMNOPQRSTUVWXYZabcdefghijklmnopqrstuvwxyz0123456789-_''"

definition base64Char :: "nat \<Rightarrow> char" where
  "base64Char n = base64Alphabet ! n"

text \<open>\<open>base64.RawURLEncoding.EncodeToString\<close>.\<close>

fun rawURLEncode :: "bytes \<Rightarrow> string" where
  "rawURLEncode [] = []"
| "rawURLEncode [a] =
     (let n = of_char a * 16 in [base64Char (n div 64), base64Char (n mod 64)])"
| "rawURLEncode [a, b] =
     (let n = (of_char a * 256 + of_char b) * 4
      in [base64Char (n div 4096), base64Char (n div 64 mod 64), base64Char (n mod 64)])"
| "rawURLEncode (a # b # c # bs) =
     (let n = (of_char a * 256 + of_char b) * 256 + of_char c
      in [base64Char (n div 262144), base64Char (n div 4096 mod 64), base64Char (n div 64 mod 64),
          base64Char (n mod 64)] @ rawURLEncode bs)"

definition base64Value :: "char \<Rightarrow> nat option" where
  "base64Value c = (if c \<in> set base64Alphabet then Some (length (takeWhile (\<lambda>d. d \<noteq> c) base64Alphabet)) else None)"

fun decodeQuanta :: "nat list \<Rightarrow> bytes option" where
  "decodeQuanta [] = Some []"
| "decodeQuanta [a] = None"
| "decodeQuanta [a, b] = Some [char_of ((a * 64 + b) div 16)]"
| "decodeQuanta [a, b, c] =
     (let n = ((a * 64 + b) * 64 + c) div 4 in Some [char_of (n div 256), char_of (n mod 256)])"
| "decodeQuanta (a # b # c # d # vs) =
     (let n = ((a * 64 + b) * 64 + c) * 64 + d in
      map_option (\<lambda>bs. char_of (n div 65536) # char_of (n div 256 mod 256) # char_of (n mod 256) # bs) (decodeQuanta vs))"

text \<open>\<open>base64.RawURLEncoding.DecodeString\<close>.\<close>

definition rawURLDecode :: "string \<Rightarrow> bytes option" where
  "rawURLDecode s =
     (let vs = map base64Value (filter (\<lambda>c. c \<noteq> CHR 0x0A \<and> c \<noteq> CHR 0x0D) s) in
      if None \<in> set vs then None else decodeQuanta (map the vs))"

section \<open>The round trip\<close>

text \<open>The six-bit numbers whose characters the encoder writes.\<close>

fun sextets :: "bytes \<Rightarrow> nat list" where
  "sextets [] = []"
| "sextets [a] = (let n = of_char a * 16 in [n div 64, n mod 64])"
| "sextets [a, b] = (let n = (of_char a * 256 + of_char b) * 4 in [n div 4096, n div 64 mod 64, n mod 64])"
| "sextets (a # b # c # bs) =
     (let n = (of_char a * 256 + of_char b) * 256 + of_char c
      in [n div 262144, n div 4096 mod 64, n div 64 mod 64, n mod 64] @ sextets bs)"

lemma rawURLEncode_sextets: "rawURLEncode bs = map base64Char (sextets bs)"
  by (induction bs rule: rawURLEncode.induct) (simp_all add: Let_def)

lemma byte_bound: "of_char (c :: char) \<le> (255 :: nat)"
proof -
  have "of_char c < (256 :: nat)" by simp
  then show ?thesis by linarith
qed

lemma byte_parts: "(m * 256 + of_char b) div (256 :: nat) = m" "(m * 256 + of_char b) mod (256 :: nat) = of_char (b :: char)"
proof -
  have "of_char b < (256 :: nat)" by simp
  then show "(m * 256 + of_char b) div (256 :: nat) = m" "(m * 256 + of_char b) mod (256 :: nat) = of_char b"
    by (simp_all only: add.commute [of "m * 256"] div_mult_self1 mod_mult_self1 div_less mod_less add_0_right)
qed

lemma sextets_bound: "n \<in> set (sextets bs) \<Longrightarrow> n < 64"
proof (induction bs rule: sextets.induct)
  case (2 a)
  with byte_bound [of a] show ?case by (auto simp: Let_def)
next
  case (3 a b)
  with byte_bound [of a] byte_bound [of b] show ?case by (auto simp: Let_def)
next
  case (4 a b c bs)
  with byte_bound [of a] byte_bound [of b] byte_bound [of c] show ?case by (auto simp: Let_def)
qed simp

lemma decodeQuanta_sextets: "decodeQuanta (sextets bs) = Some bs"
proof (induction bs rule: sextets.induct)
  case (2 a)
  have "n * 16 div 64 * 64 + n * 16 mod 64 = n * 16" for n :: nat by (rule div_mult_mod_eq)
  then show ?case by (simp add: Let_def)
next
  case (3 a b)
  define n :: nat where "n = (of_char a * 256 + of_char b) * 4"
  have "n div 4096 = n div 64 div 64" by (simp add: div_mult2_eq [symmetric])
  then have "(n div 4096 * 64 + n div 64 mod 64) * 64 + n mod 64 = n" by simp
  moreover have "n div 4 = of_char a * 256 + of_char b" by (simp add: n_def)
  ultimately show ?case
    unfolding sextets.simps decodeQuanta.simps Let_def n_def [symmetric] by (simp only: byte_parts char_of_char)
next
  case (4 a b c bs)
  define n :: nat where "n = (of_char a * 256 + of_char b) * 256 + of_char c"
  have "n div 4096 = n div 64 div 64" "n div 262144 = n div 64 div 64 div 64" by (simp_all add: div_mult2_eq [symmetric])
  then have "((n div 262144 * 64 + n div 4096 mod 64) * 64 + n div 64 mod 64) * 64 + n mod 64 = n" by simp
  moreover have "n div 65536 = n div 256 div 256" by (simp add: div_mult2_eq [symmetric])
  moreover have "n div 256 = of_char a * 256 + of_char b" "n mod 256 = of_char c"
    unfolding n_def by (simp_all only: byte_parts)
  ultimately show ?case
    unfolding sextets.simps append.simps decodeQuanta.simps Let_def n_def [symmetric] 4 [OF refl]
    by (simp only: byte_parts char_of_char option.map)
qed simp

lemma base64_chars: "list_all (\<lambda>n. base64Value (base64Char n) = Some n \<and> base64Char n \<noteq> CHR 0x0A \<and> base64Char n \<noteq> CHR 0x0D \<and>
    base64Char n \<noteq> CHR ''.'') [0..<64]"
  by code_simp

lemma base64Value_Char [simp]: "n < 64 \<Longrightarrow> base64Value (base64Char n) = Some n"
  using base64_chars by (auto simp: list_all_iff)

lemma base64Char_plain: "n < 64 \<Longrightarrow> base64Char n \<noteq> CHR 0x0A \<and> base64Char n \<noteq> CHR 0x0D \<and> base64Char n \<noteq> CHR ''.''"
  using base64_chars by (simp add: list_all_iff)

theorem rawURLDecode_encode [simp]: "rawURLDecode (rawURLEncode bs) = Some bs"
proof -
  have plain: "filter (\<lambda>c. c \<noteq> CHR 0x0A \<and> c \<noteq> CHR 0x0D) (rawURLEncode bs) = rawURLEncode bs"
    by (rule filter_True) (auto simp: rawURLEncode_sextets dest!: sextets_bound base64Char_plain)
  have "map base64Value (rawURLEncode bs) = map Some (sextets bs)"
    by (auto simp: rawURLEncode_sextets dest: sextets_bound)
  then show ?thesis unfolding rawURLDecode_def Let_def plain by (auto simp: decodeQuanta_sextets comp_def)
qed

lemma rawURLEncode_chars:
  assumes "c \<in> set (rawURLEncode bs)"
  shows "c \<noteq> CHR ''.'' \<and> c \<in> set base64Alphabet"
proof -
  obtain n where n: "n < 64" "c = base64Char n" using assms by (auto simp: rawURLEncode_sextets dest: sextets_bound)
  have "n < length base64Alphabet" using n(1) by (simp add: base64Alphabet_def)
  with base64Char_plain [OF n(1)] n(2) show ?thesis by (simp add: base64Char_def)
qed

end
