(* ===== verification/Realtime.thy ===== *)
theory Realtime
  imports Base64_Url
begin

text \<open>
  The realtime boundary, \<open>backend/internal/realtime\<close>: single-use connection tickets
  (\<open>tickets.go\<close>) and the five-minute replay buffer (\<open>repository.go\<close>).

  SHA-256 is a parameter, and so is \<open>uuid.Parse\<close>, as the canonical text of the UUID a string
  denotes. The tables \<open>site_sequences\<close> and \<open>messages\<close> are a map and a list of rows in insertion
  order. \<open>Replay\<close> runs three statements in a read-committed transaction: each sees its own
  snapshot of the tables and its own clock.
\<close>

section \<open>Tickets\<close>

definition TicketTTL :: duration where "TicketTTL = 30 * second"

record TicketClaims =
  tcTenantID :: string
  tcSiteID :: string
  tcUserID :: string

record ticketEntry =
  teClaims :: TicketClaims
  teExpires :: gotime

type_synonym MemoryTicketStore = "bytes \<rightharpoonup> ticketEntry"

datatype ticketError = ErrInvalidTicket | TicketClaimsRequired | TicketRandom

definition Issue ::
  "(bytes \<Rightarrow> bytes) \<Rightarrow> bytes option \<Rightarrow> gotime \<Rightarrow> TicketClaims \<Rightarrow> MemoryTicketStore \<Rightarrow>
     MemoryTicketStore \<times> (ticketError + string \<times> gotime)" where
  "Issue sha random now claims s =
     (if tcTenantID claims = [] \<or> tcSiteID claims = [] \<or> tcUserID claims = []
      then (s, Inl TicketClaimsRequired)
      else
        (case random of
           None \<Rightarrow> (s, Inl TicketRandom)
         | Some bs \<Rightarrow>
             let token = rawURLEncode bs;
                 live = (\<lambda>k. case s k of
                           Some entry \<Rightarrow> if teExpires entry > now then Some entry else None
                         | None \<Rightarrow> None);
                 expires = now + TicketTTL
             in (live(sha token \<mapsto> \<lparr>teClaims = claims, teExpires = expires\<rparr>), Inr (token, expires))))"

definition Consume ::
  "(bytes \<Rightarrow> bytes) \<Rightarrow> gotime \<Rightarrow> string \<Rightarrow> MemoryTicketStore \<Rightarrow>
     MemoryTicketStore \<times> (ticketError + TicketClaims)" where
  "Consume sha now token s =
     (if token = [] then (s, Inl ErrInvalidTicket)
      else
        let hash = sha token; s' = s(hash := None)
        in case s hash of
             None \<Rightarrow> (s', Inl ErrInvalidTicket)
           | Some entry \<Rightarrow>
               if \<not> teExpires entry > now then (s', Inl ErrInvalidTicket) else (s', Inr (teClaims entry)))"

section \<open>The replay buffer\<close>

definition TopicAlertCreated :: string where "TopicAlertCreated = ''alerts.created''"
definition TopicAlertState :: string where "TopicAlertState = ''alerts.state''"
definition ReplayLimit :: nat where "ReplayLimit = 100"
definition MaxReplayWindow :: int where "MaxReplayWindow = 8192"

record RealtimeMessage =
  rmTenantID :: string
  rmSiteID :: string
  rmSequence :: int
  rmTopic :: string
  rmPayload :: bytes
  rmCreated :: gotime

record realtimeRow =
  rrMessage :: RealtimeMessage
  rrExpires :: gotime

record realtimeDB =
  dbSequences :: "string \<times> string \<rightharpoonup> int"
  dbMessages :: "realtimeRow list"

record ReplayResult =
  rpMessages :: "RealtimeMessage list"
  rpCurrentSequence :: int
  rpGap :: bool

datatype realtimeError =
    RtInvalidTenant | RtInvalidSite | RtTopic string | RtEncode | RtDatabase string
  | RtNegativeSequence | RtAheadOfStream

text \<open>
  \<open>Append\<close> runs in the caller's transaction. \<open>payload\<close> is the result of \<open>json.Marshal\<close>;
  \<open>seqFails\<close> and \<open>insFails\<close> are failures of the two statements, and a sequence beyond the range of
  \<open>bigint\<close> fails as well. The row expires five minutes after the clock of its insertion.
\<close>

definition realtimeAppend ::
  "(string \<Rightarrow> string option) \<Rightarrow> bool \<Rightarrow> bool \<Rightarrow> gotime \<Rightarrow> string \<Rightarrow> string \<Rightarrow> string \<Rightarrow> bytes option \<Rightarrow>
     realtimeDB \<Rightarrow> realtimeError + (realtimeDB \<times> int)" where
  "realtimeAppend cn seqFails insFails now tenantID siteID topic payload db =
     (case cn tenantID of
        None \<Rightarrow> Inl RtInvalidTenant
      | Some tenant \<Rightarrow>
      (case cn siteID of
        None \<Rightarrow> Inl RtInvalidSite
      | Some site \<Rightarrow>
          if topic \<noteq> TopicAlertCreated \<and> topic \<noteq> TopicAlertState then Inl (RtTopic topic)
          else
            (case payload of
               None \<Rightarrow> Inl RtEncode
             | Some body \<Rightarrow>
                 let sequence = (case dbSequences db (tenant, site) of None \<Rightarrow> 1 | Some n \<Rightarrow> n + 1)
                 in if seqFails \<or> sequence > maxInt64 then Inl (RtDatabase ''allocate realtime sequence'')
                    else if insFails then Inl (RtDatabase ''append realtime message'')
                    else Inr (db\<lparr>dbSequences := (dbSequences db)((tenant, site) \<mapsto> sequence),
                        dbMessages := dbMessages db @ [\<lparr>rrMessage = \<lparr>rmTenantID = tenant, rmSiteID = site,
                          rmSequence = sequence, rmTopic = topic, rmPayload = body, rmCreated = now\<rparr>,
                          rrExpires = now + 5 * minute\<rparr>]\<rparr>, sequence))))"

definition realtimeBegin ::
  "(string \<Rightarrow> string option) \<Rightarrow> (string \<Rightarrow> bool) \<Rightarrow> string \<Rightarrow> string \<Rightarrow> realtimeError + (string \<times> string)" where
  "realtimeBegin cn fails tenantID siteID =
     (case cn tenantID of
        None \<Rightarrow> Inl RtInvalidTenant
      | Some tenant \<Rightarrow>
      (case cn siteID of
        None \<Rightarrow> Inl RtInvalidSite
      | Some site \<Rightarrow>
          if fails ''begin'' then Inl (RtDatabase ''begin realtime transaction'')
          else if fails ''tenant'' then Inl (RtDatabase ''set realtime tenant context'')
          else Inr (tenant, site)))"

definition lastSequence :: "realtimeDB \<Rightarrow> string \<Rightarrow> string \<Rightarrow> int" where
  "lastSequence db tenant site = (case dbSequences db (tenant, site) of None \<Rightarrow> 0 | Some n \<Rightarrow> n)"

definition Current ::
  "(string \<Rightarrow> string option) \<Rightarrow> (string \<Rightarrow> bool) \<Rightarrow> string \<Rightarrow> string \<Rightarrow> realtimeDB \<Rightarrow> realtimeError + int" where
  "Current cn fails tenantID siteID db =
     (case realtimeBegin cn fails tenantID siteID of
        Inl err \<Rightarrow> Inl err
      | Inr (tenant, site) \<Rightarrow>
          if fails ''sequence'' then Inl (RtDatabase ''read realtime sequence'')
          else if fails ''commit'' then Inl (RtDatabase ''commit realtime sequence read'')
          else Inr (lastSequence db tenant site))"

definition siteRows :: "realtimeDB \<Rightarrow> string \<Rightarrow> string \<Rightarrow> realtimeRow list" where
  "siteRows db tenant site =
     filter (\<lambda>r. rmTenantID (rrMessage r) = tenant \<and> rmSiteID (rrMessage r) = site) (dbMessages db)"

definition rowSeq :: "realtimeRow \<Rightarrow> int" where
  "rowSeq r = rmSequence (rrMessage r)"

text \<open>\<open>COALESCE(min(sequence), 0)\<close> over the rows that have not expired.\<close>

definition replayFloor :: "gotime \<Rightarrow> realtimeRow list \<Rightarrow> int" where
  "replayFloor now rows =
     (case filter (\<lambda>r. rrExpires r > now) rows of
        [] \<Rightarrow> 0
      | r # rs \<Rightarrow> foldr min (map rowSeq rs) (rowSeq r))"

definition replayRows :: "gotime \<Rightarrow> int \<Rightarrow> realtimeRow list \<Rightarrow> RealtimeMessage list" where
  "replayRows now after rows =
     map rrMessage (take ReplayLimit
       (sort_key rowSeq (filter (\<lambda>r. rowSeq r > after \<and> rrExpires r > now) rows)))"

text \<open>
  \<open>db1\<close>, \<open>db2\<close>, \<open>db3\<close> are the snapshots of the three statements, \<open>now2\<close> and \<open>now3\<close> the clocks
  of the last two.
\<close>

definition PostgresReplay ::
  "(string \<Rightarrow> string option) \<Rightarrow> (string \<Rightarrow> bool) \<Rightarrow> gotime \<Rightarrow> gotime \<Rightarrow> realtimeDB \<Rightarrow> realtimeDB \<Rightarrow> realtimeDB \<Rightarrow>
     string \<Rightarrow> string \<Rightarrow> int \<Rightarrow> realtimeError + ReplayResult" where
  "PostgresReplay cn fails now2 now3 db1 db2 db3 tenantID siteID after =
     (if after < 0 then Inl RtNegativeSequence
      else
        (case realtimeBegin cn fails tenantID siteID of
           Inl err \<Rightarrow> Inl err
         | Inr (tenant, site) \<Rightarrow>
             if fails ''sequence'' then Inl (RtDatabase ''read realtime sequence'')
             else
               let current = lastSequence db1 tenant site in
               if after > current then Inl RtAheadOfStream
               else if fails ''floor'' then Inl (RtDatabase ''read realtime replay floor'')
               else
                 let oldest = replayFloor now2 (siteRows db2 tenant site);
                     gap = (after < current \<and> (oldest = 0 \<or> after < wrap64 (oldest - 1))) \<or>
                           wrap64 (current - after) > MaxReplayWindow
                 in if \<not> gap \<and> fails ''rows'' then Inl (RtDatabase ''replay realtime messages'')
                    else if fails ''commit'' then Inl (RtDatabase ''commit realtime replay'')
                    else Inr \<lparr>rpMessages = (if gap then [] else replayRows now3 after (siteRows db3 tenant site)),
                      rpCurrentSequence = current, rpGap = gap\<rparr>))"

end
