(* ===== verification/Realtime_Props.thy ===== *)
theory Realtime_Props
  imports Realtime
begin

text \<open>
  Laws of the realtime boundary: tickets are honoured at most once and only before they expire, and a
  replay that reports no gap is gap-free.
\<close>

section \<open>Tickets\<close>

text \<open>
  A history of a ticket store: the hashes of the issued tickets with claims and expiry, and the
  hashes that were honoured.
\<close>

inductive ticketReach ::
  "(bytes \<Rightarrow> bytes) \<Rightarrow> MemoryTicketStore \<Rightarrow> (bytes \<times> TicketClaims \<times> gotime) list \<Rightarrow> bytes list \<Rightarrow> bool" for sha where
  start: "ticketReach sha Map.empty [] []"
| issue: "ticketReach sha s issued used \<Longrightarrow> Issue sha random now claims s = (s', r) \<Longrightarrow>
    ticketReach sha s' (case r of Inr (token, expires) \<Rightarrow> (sha token, claims, expires) # issued | Inl _ \<Rightarrow> issued) used"
| consume: "ticketReach sha s issued used \<Longrightarrow> Consume sha now token s = (s', r') \<Longrightarrow>
    ticketReach sha s' issued (case r' of Inr _ \<Rightarrow> sha token # used | Inl _ \<Rightarrow> used)"

definition issuedCount :: "bytes \<Rightarrow> (bytes \<times> TicketClaims \<times> gotime) list \<Rightarrow> nat" where
  "issuedCount h issued = length (filter (\<lambda>x. fst x = h) issued)"

definition ticketInv ::
  "MemoryTicketStore \<Rightarrow> (bytes \<times> TicketClaims \<times> gotime) list \<Rightarrow> bytes list \<Rightarrow> bool" where
  "ticketInv s issued used \<longleftrightarrow>
     (\<forall>h entry. s h = Some entry \<longrightarrow> (h, teClaims entry, teExpires entry) \<in> set issued) \<and>
     (\<forall>h. count_list used h + (if s h = None then 0 else 1) \<le> issuedCount h issued)"

lemma Issue_cases:
  assumes "Issue sha random now claims s = (s', r)"
  obtains (refused) err where "s' = s" "r = Inl err"
  | (issued) token where "r = Inr (token, now + TicketTTL)"
      "s' (sha token) = Some \<lparr>teClaims = claims, teExpires = now + TicketTTL\<rparr>"
      "\<And>h. h \<noteq> sha token \<Longrightarrow> s' h = None \<or> s' h = s h"
  using assms by (auto simp: Issue_def Let_def split: if_splits option.splits)

lemma Consume_cases:
  assumes "Consume sha now token s = (s', r)"
  obtains (refused) err where "r = Inl err" "s' = s \<or> s' = s(sha token := None)"
  | (honoured) entry where "s (sha token) = Some entry" "now < teExpires entry" "r = Inr (teClaims entry)"
      "s' = s(sha token := None)"
proof (cases "token = []")
  case True
  with assms show thesis by (intro refused) (auto simp: Consume_def)
next
  case token: False
  show thesis
  proof (cases "s (sha token)")
    case None
    with assms token show thesis by (intro refused) (auto simp: Consume_def Let_def)
  next
    case (Some entry)
    with assms token show thesis
      by (cases "now < teExpires entry") (auto simp: Consume_def Let_def intro: refused honoured)
  qed
qed

lemma ticketReach_inv: "ticketReach sha s issued used \<Longrightarrow> ticketInv s issued used"
proof (induction rule: ticketReach.induct)
  case start
  show ?case by (simp add: ticketInv_def)
next
  case (issue s issued used random now claims s' r)
  from issue(2) show ?case
  proof (cases rule: Issue_cases)
    case (refused err)
    with issue show ?thesis by simp
  next
    case (issued token)
    let ?new = "(sha token, claims, now + TicketTTL) # issued"
    have ent: "(h, teClaims e, teExpires e) \<in> set ?new" if "s' h = Some e" for h e
      using that issue.IH issued(2) issued(3) [of h] by (cases "h = sha token") (auto simp: ticketInv_def)
    have cnt: "count_list used h + (if s' h = None then 0 else 1) \<le> issuedCount h ?new" for h
    proof -
      have "count_list used h + (if s h = None then 0 else 1) \<le> issuedCount h issued"
        using issue.IH by (simp add: ticketInv_def)
      then show ?thesis using issued(3) [of h] by (cases "h = sha token") (auto simp: issuedCount_def split: if_splits)
    qed
    from ent cnt show ?thesis by (simp add: ticketInv_def issued(1))
  qed
next
  case (consume s issued used now token s' r')
  have old: "count_list used h + (if s h = None then 0 else 1) \<le> issuedCount h issued" for h
    using consume.IH by (simp add: ticketInv_def)
  from consume(2) show ?case
  proof (cases rule: Consume_cases)
    case (refused err)
    have "count_list used h + (if s' h = None then 0 else 1) \<le> issuedCount h issued" for h
      using refused(2) old [of h] by (cases "h = sha token") (auto split: if_splits)
    moreover have "s' h = Some e \<Longrightarrow> s h = Some e" for h e using refused(2) by (auto split: if_splits)
    ultimately show ?thesis using consume.IH by (simp add: ticketInv_def refused(1))
  next
    case (honoured entry)
    have "count_list (sha token # used) h + (if s' h = None then 0 else 1) \<le> issuedCount h issued" for h
      using old [of h] honoured by (cases "h = sha token") (auto split: if_splits)
    moreover have "s' h = Some e \<Longrightarrow> s h = Some e" for h e using honoured(4) by (auto split: if_splits)
    ultimately show ?thesis using consume.IH by (simp add: ticketInv_def honoured(3))
  qed
qed

section \<open>The replay buffer\<close>

text \<open>A history of the buffer under a clock that does not go back.\<close>

inductive rtReach :: "(string \<Rightarrow> string option) \<Rightarrow> gotime \<Rightarrow> realtimeDB \<Rightarrow> bool" for cn where
  start: "rtReach cn t \<lparr>dbSequences = Map.empty, dbMessages = []\<rparr>"
| append: "rtReach cn t db \<Longrightarrow> t \<le> now \<Longrightarrow>
    realtimeAppend cn sf xf now tenantID siteID topic payload db = Inr (db', n) \<Longrightarrow> rtReach cn now db'"

definition streamOK :: "int \<Rightarrow> realtimeRow list \<Rightarrow> bool" where
  "streamOK n rows \<longleftrightarrow> 0 \<le> n \<and> n \<le> maxInt64 \<and> map rowSeq rows = [1..n] \<and> sorted (map rrExpires rows)"

definition rtInv :: "gotime \<Rightarrow> realtimeDB \<Rightarrow> bool" where
  "rtInv t db \<longleftrightarrow> (\<forall>tenant site. streamOK (lastSequence db tenant site) (siteRows db tenant site) \<and>
     (\<forall>r \<in> set (siteRows db tenant site). rrExpires r \<le> t + 5 * minute))"

lemma append_rows:
  assumes "realtimeAppend cn sf xf now tenantID siteID topic payload db = Inr (db', n)"
  obtains tenant site row where "cn tenantID = Some tenant" "cn siteID = Some site"
    "n = lastSequence db tenant site + 1" "n \<le> maxInt64" "rowSeq row = n" "rrExpires row = now + 5 * minute"
    "\<And>t s. lastSequence db' t s = (if (t, s) = (tenant, site) then n else lastSequence db t s)"
    "\<And>t s. siteRows db' t s = siteRows db t s @ (if (t, s) = (tenant, site) then [row] else [])"
proof -
  obtain tenant site body where k: "cn tenantID = Some tenant" "cn siteID = Some site" "payload = Some body"
    using assms by (auto simp: realtimeAppend_def split: option.splits if_splits)
  define row where "row = \<lparr>rrMessage = \<lparr>rmTenantID = tenant, rmSiteID = site,
    rmSequence = lastSequence db tenant site + 1, rmTopic = topic, rmPayload = body, rmCreated = now\<rparr>,
    rrExpires = now + 5 * minute\<rparr>"
  have seq: "(case dbSequences db (tenant, site) of None \<Rightarrow> 1 | Some n \<Rightarrow> n + 1) = lastSequence db tenant site + 1"
    by (simp add: lastSequence_def split: option.split)
  have n: "n = lastSequence db tenant site + 1" "n \<le> maxInt64"
    and db': "db' = db\<lparr>dbSequences := (dbSequences db)((tenant, site) \<mapsto> n), dbMessages := dbMessages db @ [row]\<rparr>"
    using assms by (auto simp: realtimeAppend_def Let_def k seq row_def split: if_splits)
  show thesis
    by (rule that [of tenant site row]) (use k n in \<open>auto simp: row_def rowSeq_def n(1) db' lastSequence_def siteRows_def\<close>)
qed

lemma rtReach_inv: "rtReach cn t db \<Longrightarrow> rtInv t db"
proof (induction rule: rtReach.induct)
  case (start t)
  show ?case by (simp add: rtInv_def streamOK_def lastSequence_def siteRows_def maxInt64_def)
next
  case (append t db now sf xf tenantID siteID topic payload db' n)
  obtain tenant site row where a: "n = lastSequence db tenant site + 1" "n \<le> maxInt64" "rowSeq row = n"
    "rrExpires row = now + 5 * minute"
    "\<And>t s. lastSequence db' t s = (if (t, s) = (tenant, site) then n else lastSequence db t s)"
    "\<And>t s. siteRows db' t s = siteRows db t s @ (if (t, s) = (tenant, site) then [row] else [])"
    using append_rows [OF append(3)] by metis
  have old: "streamOK (lastSequence db t s) (siteRows db t s)" "\<And>r. r \<in> set (siteRows db t s) \<Longrightarrow> rrExpires r \<le> now + 5 * minute" for t s
    using append.IH append(2) unfolding rtInv_def by (blast, fastforce)
  have "streamOK (lastSequence db' t s) (siteRows db' t s)" for t s
  proof (cases "(t, s) = (tenant, site)")
    case True
    have "[1..n] = [1..n - 1] @ [n]" using old(1) [of tenant site] a(1) by (intro upto_rec2) (simp add: streamOK_def)
    then show ?thesis
      using True old(1) [of tenant site] old(2) [of _ tenant site] a(1-4) by (auto simp: a(5,6) streamOK_def sorted_append)
  qed (use old(1) in \<open>auto simp: a(5,6)\<close>)
  moreover have "rrExpires r \<le> now + 5 * minute" if "r \<in> set (siteRows db' t s)" for r t s
    using that old(2) a(4) by (auto simp: a(6) split: if_splits)
  ultimately show ?case by (simp add: rtInv_def)
qed

lemma upto_filter: "0 \<le> a \<Longrightarrow> filter (\<lambda>x. a < x) [1..n] = [a + 1..n]"
proof (cases "a \<le> n")
  case True
  assume "0 \<le> a"
  with True have "[1..n] = [1..a] @ [a + 1..n]" by (cases "a = 0") (simp, intro upto_split2, auto)
  moreover have "filter (\<lambda>x. a < x) [1..a] = []" by auto
  moreover have "filter (\<lambda>x. a < x) [a + 1..n] = [a + 1..n]" by (rule filter_True) auto
  ultimately show ?thesis by simp
qed (auto simp: filter_empty_conv)

lemma stream_sorted: "streamOK n rows \<Longrightarrow> sorted (map rowSeq rows)"
  by (simp add: streamOK_def)

lemma foldr_min_first:
  "(\<And>y. y \<in> set ys \<Longrightarrow> (x :: int) \<le> y) \<Longrightarrow> foldr min ys x = x"
  by (induction ys) auto

text \<open>In a stream the floor is the sequence of the first row that has not expired.\<close>

lemma replayFloor_stream:
  assumes "streamOK n rows"
  shows "(replayFloor now rows = 0 \<and> (\<forall>r \<in> set rows. rrExpires r \<le> now)) \<or>
    (\<exists>r \<in> set rows. replayFloor now rows = rowSeq r \<and> 1 \<le> rowSeq r \<and> rowSeq r \<le> n \<and> now < rrExpires r)"
proof (cases "filter (\<lambda>r. rrExpires r > now) rows")
  case Nil
  then show ?thesis by (auto simp: replayFloor_def filter_empty_conv)
next
  case (Cons r rs)
  have "sorted (map rowSeq (filter (\<lambda>r. rrExpires r > now) rows))"
    by (rule sorted_filter [OF stream_sorted [OF assms]])
  then have "\<And>y. y \<in> set (map rowSeq rs) \<Longrightarrow> rowSeq r \<le> y" unfolding Cons by auto
  then have "foldr min (map rowSeq rs) (rowSeq r) = rowSeq r" by (rule foldr_min_first)
  then have "replayFloor now rows = rowSeq r" unfolding replayFloor_def Cons by simp
  moreover have r: "r \<in> set rows" "now < rrExpires r"
    using Cons by (auto simp: filter_eq_Cons_iff)
  moreover have "rowSeq r \<in> set [1..n]" using r(1) assms unfolding streamOK_def by (metis image_eqI list.set_map)
  ultimately show ?thesis by auto
qed

text \<open>Later rows expire later.\<close>

lemma stream_expiry:
  assumes "streamOK n rows" "r \<in> set rows" "x \<in> set rows" "rowSeq r \<le> rowSeq x"
  shows "rrExpires r \<le> rrExpires x"
proof -
  obtain i where i: "i < length rows" "rows ! i = r" using assms(2) by (auto simp: in_set_conv_nth)
  obtain j where j: "j < length rows" "rows ! j = x" using assms(3) by (auto simp: in_set_conv_nth)
  have "map rowSeq rows = [1..n]" "0 \<le> n" using assms(1) by (simp_all add: streamOK_def)
  then have len: "int (length rows) = n" using length_map [of rowSeq rows] by simp
  have seq: "rowSeq (rows ! k) = 1 + int k" if "k < length rows" for k
    using assms(1) that len nth_map [of k rows rowSeq] by (simp add: streamOK_def)
  have "i \<le> j" using assms(4) seq [OF i(1)] seq [OF j(1)] i(2) j(2) by simp
  then have "map rrExpires rows ! i \<le> map rrExpires rows ! j"
    using assms(1) j(1) by (intro sorted_nth_mono) (auto simp: streamOK_def)
  with i j show ?thesis by simp
qed

lemma replayRows_contiguous:
  assumes "streamOK n rows" "0 \<le> after" "\<And>r. r \<in> set rows \<Longrightarrow> after < rowSeq r \<Longrightarrow> now < rrExpires r"
  shows "map rmSequence (replayRows now after rows) = take ReplayLimit [after + 1..n]"
proof -
  have "filter (\<lambda>r. rowSeq r > after \<and> rrExpires r > now) rows = filter (\<lambda>r. rowSeq r > after) rows"
    using assms(3) by (auto intro: filter_cong)
  moreover have "sort_key rowSeq (filter (\<lambda>r. rowSeq r > after) rows) = filter (\<lambda>r. rowSeq r > after) rows"
    by (rule sort_key_id_if_sorted) (rule sorted_filter [OF stream_sorted [OF assms(1)]])
  moreover have "map rowSeq (filter (\<lambda>r. rowSeq r > after) rows) = [after + 1..n]"
    using assms(1) upto_filter [OF assms(2), of n] filter_map [of "\<lambda>x. after < x" rowSeq rows]
    by (simp add: streamOK_def comp_def)
  moreover have "map rmSequence (map rrMessage rs) = map rowSeq rs" for rs by (simp add: rowSeq_def)
  ultimately show ?thesis unfolding replayRows_def by (simp only: take_map [symmetric])
qed

lemma Replay_Inr:
  assumes run: "PostgresReplay cn fails now2 now3 db1 db2 db3 tenantID siteID after = Inr res"
    and k: "cn tenantID = Some tenant" "cn siteID = Some site"
  shows "0 \<le> after" "after \<le> lastSequence db1 tenant site"
    "\<not> rpGap res \<Longrightarrow> after < lastSequence db1 tenant site \<Longrightarrow> replayFloor now2 (siteRows db2 tenant site) \<noteq> 0 \<and>
      \<not> after < wrap64 (replayFloor now2 (siteRows db2 tenant site) - 1)"
    "\<not> rpGap res \<Longrightarrow> rpMessages res = replayRows now3 after (siteRows db3 tenant site)"
proof -
  have b: "realtimeBegin cn fails tenantID siteID = Inr (tenant, site)" and after: "0 \<le> after"
    using run k unfolding PostgresReplay_def realtimeBegin_def by (auto split: if_splits)
  note u = run [unfolded PostgresReplay_def b Let_def, simplified]
  show "0 \<le> after" "after \<le> lastSequence db1 tenant site" using u by (auto split: if_splits)
  show "rpMessages res = replayRows now3 after (siteRows db3 tenant site)" if "\<not> rpGap res"
    using u that by (auto split: if_splits)
  show "replayFloor now2 (siteRows db2 tenant site) \<noteq> 0 \<and>
      \<not> after < wrap64 (replayFloor now2 (siteRows db2 tenant site) - 1)"
    if "\<not> rpGap res" "after < lastSequence db1 tenant site"
    using u that by (auto split: if_splits)
qed

section \<open>Properties\<close>

text \<open>C20: Tickets are single-use and short-lived: over any history, a ticket hash is honoured at most as
  often as it was issued; an honoured ticket carries the claims it was issued with, before its expiry,
  and the same token is refused from then on.\<close>

theorem ticket_single_use:
  assumes "ticketReach sha s issued used" "Consume sha now token s = (s', Inr claims)"
  shows "(\<exists>expires. (sha token, claims, expires) \<in> set issued \<and> now < expires) \<and>
    count_list (sha token # used) (sha token) \<le> issuedCount (sha token) issued \<and>
    snd (Consume sha now' token s') = Inl ErrInvalidTicket"
proof -
  obtain entry where e: "s (sha token) = Some entry" "now < teExpires entry" "claims = teClaims entry"
    "s' = s(sha token := None)"
    using assms(2) by (cases rule: Consume_cases) auto
  have inv: "ticketInv s issued used" by (rule ticketReach_inv [OF assms(1)])
  then have "(sha token, claims, teExpires entry) \<in> set issued" using e by (auto simp: ticketInv_def)
  moreover have "count_list used (sha token) + 1 \<le> issuedCount (sha token) issued"
    using inv e(1) unfolding ticketInv_def by (metis option.distinct(1))
  ultimately show ?thesis using e by (auto simp: Consume_def Let_def)
qed

definition wClaims :: TicketClaims where
  "wClaims = \<lparr>tcTenantID = ''t'', tcSiteID = ''s'', tcUserID = ''u''\<rparr>"

theorem ticket_single_use_witness:
  "\<exists>s s'. Issue id (Some ''ab'') 100 wClaims Map.empty = (s, Inr (rawURLEncode ''ab'', 100 + TicketTTL)) \<and>
     Consume id 101 (rawURLEncode ''ab'') s = (s', Inr wClaims) \<and>
     snd (Consume id 102 (rawURLEncode ''ab'') s') = Inl ErrInvalidTicket"
proof -
  define tok where "tok = rawURLEncode ''ab''"
  define s where "s = [tok \<mapsto> \<lparr>teClaims = wClaims, teExpires = 100 + TicketTTL\<rparr>]"
  have ne: "tok \<noteq> []" unfolding tok_def rawURLEncode.simps Let_def by (rule list.distinct(2))
  have i: "Issue id (Some ''ab'') 100 wClaims Map.empty = (s, Inr (tok, 100 + TicketTTL))"
    unfolding Issue_def Let_def option.case tok_def [symmetric] by (simp add: wClaims_def s_def)
  have c: "Consume id 101 tok s = (s(tok := None), Inr wClaims)"
    using ne by (simp add: Consume_def s_def TicketTTL_def second_def)
  have reach: "ticketReach id s [(tok, wClaims, 100 + TicketTTL)] []"
    using ticketReach.issue [OF ticketReach.start i] by simp
  from ticket_single_use [OF reach c, of 102] i c show ?thesis unfolding tok_def [symmetric] by blast
qed

text \<open>Replay without a gap flag is gap-free: if no message the client lacks expires between the two
  message statements and messages appended meanwhile are fresh, the result is exactly the next
  sequences after the client's position, in order and at most one hundred of them.\<close>

theorem replay_gap_free:
  assumes "rtReach cn t1 db1" "rtReach cn t2 db2" "rtReach cn t3 db3"
    and "cn tenantID = Some tenant" "cn siteID = Some site"
    and grow: "prefix (siteRows db1 tenant site) (siteRows db2 tenant site)"
      "prefix (siteRows db2 tenant site) (siteRows db3 tenant site)"
    and run: "PostgresReplay cn fails now2 now3 db1 db2 db3 tenantID siteID after = Inr res" "\<not> rpGap res"
    and live: "\<And>r. r \<in> set (siteRows db3 tenant site) \<Longrightarrow> after < rowSeq r \<Longrightarrow> now2 < rrExpires r \<Longrightarrow> now3 < rrExpires r"
      "\<And>r. r \<in> set (siteRows db3 tenant site) \<Longrightarrow> lastSequence db1 tenant site < rowSeq r \<Longrightarrow> now2 < rrExpires r"
  shows "map rmSequence (rpMessages res) = take 100 [after + 1..lastSequence db3 tenant site]"
proof -
  note inv = rtReach_inv [OF assms(1)] rtReach_inv [OF assms(2)] rtReach_inv [OF assms(3)]
  have s: "streamOK (lastSequence db1 tenant site) (siteRows db1 tenant site)"
    "streamOK (lastSequence db2 tenant site) (siteRows db2 tenant site)"
    "streamOK (lastSequence db3 tenant site) (siteRows db3 tenant site)"
    using inv by (auto simp: rtInv_def)
  let ?old = "replayFloor now2 (siteRows db2 tenant site)"
  have res: "0 \<le> after" "after \<le> lastSequence db1 tenant site"
    "after < lastSequence db1 tenant site \<Longrightarrow> ?old \<noteq> 0 \<and> \<not> after < wrap64 (?old - 1)"
    "rpMessages res = replayRows now3 after (siteRows db3 tenant site)"
    by (rule Replay_Inr(1) [OF run(1) assms(4,5)], rule Replay_Inr(2) [OF run(1) assms(4,5)],
      erule Replay_Inr(3) [OF run(1) assms(4,5) run(2)], rule Replay_Inr(4) [OF run(1) assms(4,5) run(2)])
  have alive: "now3 < rrExpires x" if x: "x \<in> set (siteRows db3 tenant site)" "after < rowSeq x" for x
  proof (cases "lastSequence db1 tenant site < rowSeq x")
    case True
    with live x show ?thesis by blast
  next
    case False
    with x(2) res(3) have "?old \<noteq> 0" "\<not> after < wrap64 (?old - 1)" by auto
    moreover obtain r where r: "r \<in> set (siteRows db2 tenant site)" "?old = rowSeq r" "1 \<le> rowSeq r"
      "rowSeq r \<le> lastSequence db2 tenant site" "now2 < rrExpires r"
      using replayFloor_stream [OF s(2), of now2] calculation(1) by auto
    moreover have "wrap64 (?old - 1) = ?old - 1"
      using r s(2) by (intro wrap64_id) (auto simp: streamOK_def maxInt64_def)
    ultimately have "rowSeq r \<le> rowSeq x" using x(2) by simp
    moreover have "r \<in> set (siteRows db3 tenant site)" using r(1) grow(2) set_mono_prefix by blast
    ultimately have "rrExpires r \<le> rrExpires x" using stream_expiry [OF s(3) _ x(1)] by blast
    with r(5) live(1) [OF x] show ?thesis by simp
  qed
  show ?thesis unfolding res(4) using replayRows_contiguous [OF s(3) res(1) alive] by (simp add: ReplayLimit_def)
qed

definition wStream :: "gotime \<Rightarrow> gotime \<Rightarrow> realtimeDB" where
  "wStream t u = \<lparr>dbSequences = [(''t'', ''s'') \<mapsto> 2], dbMessages =
     [\<lparr>rrMessage = \<lparr>rmTenantID = ''t'', rmSiteID = ''s'', rmSequence = 1, rmTopic = TopicAlertState, rmPayload = ''p'', rmCreated = t\<rparr>,
        rrExpires = t + 5 * minute\<rparr>,
      \<lparr>rrMessage = \<lparr>rmTenantID = ''t'', rmSiteID = ''s'', rmSequence = 2, rmTopic = TopicAlertState, rmPayload = ''q'', rmCreated = u\<rparr>,
        rrExpires = u + 5 * minute\<rparr>]\<rparr>"

lemma wStream_reach: "t \<le> u \<Longrightarrow> rtReach Some u (wStream t u)"
proof -
  assume le: "t \<le> u"
  obtain db n where 1: "realtimeAppend Some False False t ''t'' ''s'' TopicAlertState (Some ''p'')
      \<lparr>dbSequences = Map.empty, dbMessages = []\<rparr> = Inr (db, n)"
    by (simp add: realtimeAppend_def Let_def maxInt64_def)
  then have db: "db = \<lparr>dbSequences = [(''t'', ''s'') \<mapsto> 1], dbMessages =
     [\<lparr>rrMessage = \<lparr>rmTenantID = ''t'', rmSiteID = ''s'', rmSequence = 1, rmTopic = TopicAlertState, rmPayload = ''p'', rmCreated = t\<rparr>,
        rrExpires = t + 5 * minute\<rparr>]\<rparr>"
    by (auto simp: realtimeAppend_def Let_def maxInt64_def)
  have "realtimeAppend Some False False u ''t'' ''s'' TopicAlertState (Some ''q'') db = Inr (wStream t u, 2)"
    by (simp add: db realtimeAppend_def Let_def maxInt64_def wStream_def)
  with rtReach.append [OF rtReach.append [OF rtReach.start order_refl 1] le] show ?thesis by blast
qed

theorem replay_gap_free_witness:
  "\<exists>res. PostgresReplay Some (\<lambda>_. False) 20 21 (wStream 5 6) (wStream 5 6) (wStream 5 6) ''t'' ''s'' 1 = Inr res \<and>
     map rmSequence (rpMessages res) = take 100 [2..2]"
proof -
  let ?db = "wStream 5 6"
  have "case PostgresReplay Some (\<lambda>_. False) 20 21 ?db ?db ?db ''t'' ''s'' 1 of Inr res \<Rightarrow> \<not> rpGap res | _ \<Rightarrow> False" by code_simp
  then obtain res where run: "PostgresReplay Some (\<lambda>_. False) 20 21 ?db ?db ?db ''t'' ''s'' 1 = Inr res" "\<not> rpGap res"
    by (auto split: sum.splits)
  have reach: "rtReach Some 6 ?db" by (rule wStream_reach) simp
  have last: "lastSequence ?db ''t'' ''s'' = 2" by code_simp
  have "list_all (\<lambda>r. now3 < rrExpires r) (siteRows ?db ''t'' ''s'')" if "now3 \<in> {20, 21 :: int}" for now3
    using that by (auto simp: wStream_def siteRows_def minute_def second_def)
  then have live: "r \<in> set (siteRows ?db ''t'' ''s'') \<Longrightarrow> 20 < rrExpires r \<and> 21 < rrExpires r" for r
    by (auto simp: list_all_iff)
  have "map rmSequence (rpMessages res) = take 100 [1 + 1..lastSequence ?db ''t'' ''s'']"
    by (rule replay_gap_free [OF reach reach reach _ _ _ _ run]) (use live in auto)
  with run(1) last show ?thesis by auto
qed

text \<open>The two message statements of a replay read the clock separately, and a message that expires
  between them is skipped without a gap flag: there is a history in which the client, at position 0 of a
  stream of two live messages, receives only the second one and is told there is no gap.\<close>

theorem replay_can_skip_silently:
  "rtReach Some 60 (wStream 5 60) \<and>
   (case PostgresReplay Some (\<lambda>_. False) (4 + 5 * minute) (5 + 5 * minute) (wStream 5 60) (wStream 5 60) (wStream 5 60) ''t'' ''s'' 0 of
      Inr res \<Rightarrow> \<not> rpGap res \<and> map rmSequence (rpMessages res) = [2] | Inl _ \<Rightarrow> False)"
  by (rule conjI [OF wStream_reach]) (simp, code_simp)

end
