(* ===== verification/Outbox.thy ===== *)
theory Outbox
  imports Go_Prelude
begin

text \<open>
  The transactional outbox, \<open>backend/internal/outbox/dispatcher.go\<close>: claiming a batch under a
  lease, finishing a message, and the dispatcher.

  The table \<open>messaging.outbox_messages\<close> is the list of its rows, \<open>message_id\<close> being its primary
  key. The SQL statements are list functions with the conditions of their \<open>WHERE\<close> clauses.
  UUIDs in the table are their canonical texts; \<open>uuid.Parse\<close> is the parameter \<open>cn\<close>, which gives
  the canonical text. An \<open>obEnv\<close> holds what one transaction meets: the clock, the rows that other
  transactions have locked, which database calls fail, and whether a commit that reports an error
  was nevertheless applied. \<open>UPDATE ... RETURNING\<close> gives no order, so \<open>obOrder\<close> arranges the
  returned rows.
\<close>

section \<open>The table\<close>

record outboxRow =
  obTenant :: string
  obMessageID :: string
  obTopic :: string
  obPartitionKey :: string
  obPayload :: bytes
  obHeaders :: bytes
  obOccurredAt :: gotime
  obCreatedAt :: gotime
  obPublishedAt :: "gotime option"
  obLeaseOwner :: "string option"
  obLeaseExpires :: "gotime option"
  obAttempts :: int
  obLastError :: "string option"

type_synonym outboxTable = "outboxRow list"

record OutboxMessage =
  omMessageID :: string
  omTenantID :: string
  omTopic :: string
  omPartitionKey :: string
  omPayload :: bytes
  omHeaders :: bytes
  omOccurredAt :: gotime

datatype obCall = ObBegin | ObSetTenant | ObQuery | ObScan | ObRows | ObExec | ObCommit

datatype outboxError =
    ObInvalidTenant | ObInvalidWorker | ObInvalidMessageID | ObInvalidLimit | ObDatabase obCall
  | ObLeaseLost | ObPublish string string | ObPublishRelease string string outboxError

record obEnv =
  obNow :: gotime
  obLocked :: "string \<Rightarrow> bool"
  obFails :: "obCall \<Rightarrow> bool"
  obCommitApplied :: bool
  obOrder :: "outboxRow list \<Rightarrow> outboxRow list"

section \<open>The store\<close>

definition beginTenantTx :: "(string \<Rightarrow> string option) \<Rightarrow> obEnv \<Rightarrow> string \<Rightarrow> outboxError + string" where
  "beginTenantTx cn E tenantID =
     (case cn tenantID of
        None \<Rightarrow> Inl ObInvalidTenant
      | Some tenant \<Rightarrow>
          if obFails E ObBegin then Inl (ObDatabase ObBegin)
          else if obFails E ObSetTenant then Inl (ObDatabase ObSetTenant)
          else Inr tenant)"

text \<open>The commit of a transaction that turned \<open>db\<close> into \<open>db'\<close>.\<close>

definition commitTx :: "obEnv \<Rightarrow> outboxTable \<Rightarrow> outboxTable \<Rightarrow> 'a \<Rightarrow> outboxTable \<times> (outboxError + 'a)" where
  "commitTx E db db' x =
     (if obFails E ObCommit then (if obCommitApplied E then db' else db, Inl (ObDatabase ObCommit))
      else (db', Inr x))"

definition claimable :: "obEnv \<Rightarrow> string \<Rightarrow> outboxRow \<Rightarrow> bool" where
  "claimable E tenant r \<longleftrightarrow> obTenant r = tenant \<and> obPublishedAt r = None \<and>
     (case obLeaseExpires r of None \<Rightarrow> True | Some t \<Rightarrow> t \<le> obNow E)"

definition claimCandidates :: "obEnv \<Rightarrow> string \<Rightarrow> nat \<Rightarrow> outboxTable \<Rightarrow> outboxRow list" where
  "claimCandidates E tenant limit db =
     take limit (filter (\<lambda>r. \<not> obLocked E (obMessageID r))
       (sort_key (\<lambda>r. (obCreatedAt r, obMessageID r)) (filter (claimable E tenant) db)))"

definition leaseRow :: "obEnv \<Rightarrow> string \<Rightarrow> outboxRow \<Rightarrow> outboxRow" where
  "leaseRow E worker r = r\<lparr>obLeaseOwner := Some worker, obLeaseExpires := Some (obNow E + 60 * second),
     obAttempts := obAttempts r + 1, obLastError := None\<rparr>"

definition leaseRows :: "obEnv \<Rightarrow> string \<Rightarrow> string \<Rightarrow> string list \<Rightarrow> outboxTable \<Rightarrow> outboxTable" where
  "leaseRows E tenant worker ids db =
     map (\<lambda>r. if obTenant r = tenant \<and> obMessageID r \<in> set ids then leaseRow E worker r else r) db"

definition rowMessage :: "outboxRow \<Rightarrow> OutboxMessage" where
  "rowMessage r = \<lparr>omMessageID = obMessageID r, omTenantID = obTenant r, omTopic = obTopic r,
     omPartitionKey = obPartitionKey r, omPayload = obPayload r, omHeaders = obHeaders r,
     omOccurredAt = obOccurredAt r\<rparr>"

definition Claim ::
  "(string \<Rightarrow> string option) \<Rightarrow> obEnv \<Rightarrow> string \<Rightarrow> string \<Rightarrow> int \<Rightarrow> outboxTable \<Rightarrow>
     outboxTable \<times> (outboxError + OutboxMessage list)" where
  "Claim cn E tenantID workerID limit db =
     (if cn tenantID = None then (db, Inl ObInvalidTenant)
      else
        (case cn workerID of
           None \<Rightarrow> (db, Inl ObInvalidWorker)
         | Some worker \<Rightarrow>
             if limit < 1 \<or> limit > 100 then (db, Inl ObInvalidLimit)
             else
               (case beginTenantTx cn E tenantID of
                  Inl err \<Rightarrow> (db, Inl err)
                | Inr tenant \<Rightarrow>
                    if obFails E ObQuery then (db, Inl (ObDatabase ObQuery))
                    else
                      let claimed = claimCandidates E tenant (nat limit) db
                      in if obFails E ObScan then (db, Inl (ObDatabase ObScan))
                         else if obFails E ObRows then (db, Inl (ObDatabase ObRows))
                         else commitTx E db (leaseRows E tenant worker (map obMessageID claimed) db)
                                (map rowMessage (obOrder E claimed)))))"

definition finishRow :: "obEnv \<Rightarrow> string \<Rightarrow> outboxRow \<Rightarrow> outboxRow" where
  "finishRow E failure r =
     (if failure \<noteq> []
      then r\<lparr>obLeaseOwner := None, obLeaseExpires := None, obLastError := Some failure\<rparr>
      else r\<lparr>obPublishedAt := Some (obNow E), obLeaseOwner := None, obLeaseExpires := None,
        obLastError := None\<rparr>)"

definition finishMatch :: "string \<Rightarrow> string \<Rightarrow> string \<Rightarrow> outboxRow \<Rightarrow> bool" where
  "finishMatch tenant worker message r \<longleftrightarrow> obTenant r = tenant \<and> obMessageID r = message \<and>
     obLeaseOwner r = Some worker \<and> obPublishedAt r = None"

definition finish ::
  "(string \<Rightarrow> string option) \<Rightarrow> obEnv \<Rightarrow> string \<Rightarrow> string \<Rightarrow> string \<Rightarrow> string \<Rightarrow> outboxTable \<Rightarrow>
     outboxTable \<times> (outboxError + unit)" where
  "finish cn E tenantID workerID messageID failure db =
     (case cn workerID of
        None \<Rightarrow> (db, Inl ObInvalidWorker)
      | Some worker \<Rightarrow>
          (case cn messageID of
             None \<Rightarrow> (db, Inl ObInvalidMessageID)
           | Some message \<Rightarrow>
               (case beginTenantTx cn E tenantID of
                  Inl err \<Rightarrow> (db, Inl err)
                | Inr tenant \<Rightarrow>
                    if obFails E ObExec then (db, Inl (ObDatabase ObExec))
                    else if length (filter (finishMatch tenant worker message) db) \<noteq> 1
                    then (db, Inl ObLeaseLost)
                    else commitTx E db
                      (map (\<lambda>r. if finishMatch tenant worker message r then finishRow E failure r else r) db) ())))"

definition MarkPublished ::
  "(string \<Rightarrow> string option) \<Rightarrow> obEnv \<Rightarrow> string \<Rightarrow> string \<Rightarrow> string \<Rightarrow> outboxTable \<Rightarrow>
     outboxTable \<times> (outboxError + unit)" where
  "MarkPublished cn E tenantID workerID messageID db = finish cn E tenantID workerID messageID [] db"

definition MarkFailed ::
  "(string \<Rightarrow> string option) \<Rightarrow> obEnv \<Rightarrow> string \<Rightarrow> string \<Rightarrow> string \<Rightarrow> string \<Rightarrow> outboxTable \<Rightarrow>
     outboxTable \<times> (outboxError + unit)" where
  "MarkFailed cn E tenantID workerID messageID failure db =
     finish cn E tenantID workerID messageID (if length failure > 2000 then take 2000 failure else failure) db"

section \<open>The dispatcher\<close>

text \<open>
  The \<open>Store\<close> interface over a state: the dispatcher is written against it. The publisher gives
  its error, if any.
\<close>

record ('e, 's) outboxStore =
  storeClaim :: "'e \<Rightarrow> string \<Rightarrow> string \<Rightarrow> int \<Rightarrow> 's \<Rightarrow> 's \<times> (outboxError + OutboxMessage list)"
  storeMarkPublished :: "'e \<Rightarrow> string \<Rightarrow> string \<Rightarrow> string \<Rightarrow> 's \<Rightarrow> 's \<times> (outboxError + unit)"
  storeMarkFailed :: "'e \<Rightarrow> string \<Rightarrow> string \<Rightarrow> string \<Rightarrow> string \<Rightarrow> 's \<Rightarrow> 's \<times> (outboxError + unit)"

record DispatchResult =
  drClaimed :: int
  drPublished :: int
  drFailed :: int

definition PostgresStore :: "(string \<Rightarrow> string option) \<Rightarrow> (obEnv, outboxTable) outboxStore" where
  "PostgresStore cn = \<lparr>storeClaim = Claim cn, storeMarkPublished = MarkPublished cn,
     storeMarkFailed = MarkFailed cn\<rparr>"

text \<open>One turn of the loop; the environments of the store calls are a list of readings \<open>env\<close>.\<close>

fun dispatchLoop ::
  "('e, 's) outboxStore \<Rightarrow> (OutboxMessage \<Rightarrow> string option) \<Rightarrow> string \<Rightarrow> string \<Rightarrow> (nat \<Rightarrow> 'e) \<Rightarrow> nat \<Rightarrow>
     OutboxMessage list \<Rightarrow> 's \<Rightarrow> DispatchResult \<Rightarrow> outboxError list \<Rightarrow> 's \<times> DispatchResult \<times> outboxError list" where
  "dispatchLoop store publish tenantID workerID env n [] s result failures = (s, result, failures)"
| "dispatchLoop store publish tenantID workerID env n (message # ms) s result failures =
     (case publish message of
        Some err \<Rightarrow>
          (case storeMarkFailed store (env n) tenantID workerID (omMessageID message) err s of
             (s', Inl markErr) \<Rightarrow>
               dispatchLoop store publish tenantID workerID env (Suc n) ms s'
                 (result\<lparr>drFailed := drFailed result + 1\<rparr>)
                 (failures @ [ObPublishRelease (omMessageID message) err markErr])
           | (s', Inr _) \<Rightarrow>
               dispatchLoop store publish tenantID workerID env (Suc n) ms s'
                 (result\<lparr>drFailed := drFailed result + 1\<rparr>)
                 (failures @ [ObPublish (omMessageID message) err]))
      | None \<Rightarrow>
          (case storeMarkPublished store (env n) tenantID workerID (omMessageID message) s of
             (s', Inl err) \<Rightarrow>
               dispatchLoop store publish tenantID workerID env (Suc n) ms s'
                 (result\<lparr>drFailed := drFailed result + 1\<rparr>) (failures @ [err])
           | (s', Inr _) \<Rightarrow>
               dispatchLoop store publish tenantID workerID env (Suc n) ms s'
                 (result\<lparr>drPublished := drPublished result + 1\<rparr>) failures))"

definition DispatchTenant ::
  "('e, 's) outboxStore \<Rightarrow> (OutboxMessage \<Rightarrow> string option) \<Rightarrow> string \<Rightarrow> int \<Rightarrow> (nat \<Rightarrow> 'e) \<Rightarrow> string \<Rightarrow> 's \<Rightarrow>
     's \<times> DispatchResult \<times> outboxError list" where
  "DispatchTenant store publish workerID configuredBatch env tenantID s =
     (let batchSize = (if configuredBatch = 0 then 25 else configuredBatch) in
      case storeClaim store (env 0) tenantID workerID batchSize s of
        (s', Inl err) \<Rightarrow> (s', \<lparr>drClaimed = 0, drPublished = 0, drFailed = 0\<rparr>, [err])
      | (s', Inr messages) \<Rightarrow>
          dispatchLoop store publish tenantID workerID env 1 messages s'
            \<lparr>drClaimed = int (length messages), drPublished = 0, drFailed = 0\<rparr> [])"

end
