(* ===== verification/Audit_Chain.thy ===== *)
theory Audit_Chain
  imports Go_Prelude
begin

text \<open>
  The audit hash chain, \<open>backend/internal/audit/append.go\<close>.

  The table \<open>audit.events\<close> is the list of its rows in the order of \<open>chain_sequence\<close>; the advisory
  lock serializes the appends of one tenant and day, so each append is one step. SHA-256,
  \<open>json.Marshal\<close>, the two time formats and \<open>uuid.Parse\<close> are the fields of \<open>auditLib\<close>, fixed for
  the process. States of a resource are of any type.

  \<open>arPayload\<close> and \<open>arTimeText\<close> are the bytes that entered the hash. The column
  \<open>canonical_payload\<close> is \<open>jsonb\<close>: it keeps the members of the event, its \<open>occurred_at\<close> among
  them, but not their order, so an auditor marshals the event again to obtain these bytes.
\<close>

section \<open>Data\<close>

record 'j AuditEvent =
  aeTenantID :: string
  aeActorID :: string
  aeAction :: string
  aeResourceType :: string
  aeResourceID :: string
  aeRequestID :: string
  aeBeforeState :: 'j
  aeAfterState :: 'j
  aeOccurredAt :: gotime

record 'j canonicalAuditEvent =
  caVersion :: int
  caTenantID :: string
  caActorID :: string
  caAction :: string
  caResourceType :: string
  caResourceID :: string
  caRequestID :: string
  caOccurredAt :: string
  caBeforeState :: 'j
  caAfterState :: 'j

record auditRow =
  arTenant :: string
  arChainDate :: string
  arOccurredAt :: gotime
  arActorID :: string
  arAction :: string
  arResourceType :: string
  arResourceID :: string
  arRequest :: string
  arBeforeState :: bytes
  arAfterState :: bytes
  arPayload :: bytes
  arTimeText :: string
  arPreviousHash :: bytes
  arRecordHash :: bytes

record 'j auditLib =
  auSha :: "bytes \<Rightarrow> bytes"
  auMarshalEvent :: "'j canonicalAuditEvent \<Rightarrow> bytes option"
  auMarshalState :: "'j \<Rightarrow> bytes option"
  auDate :: "gotime \<Rightarrow> string"
  auNano :: "gotime \<Rightarrow> string"
  auUUID :: "string \<Rightarrow> string option"

datatype auditCall = AuLock | AuHead | AuInsert
datatype auditError = AuDatabase auditCall | AuCanonicalize | AuBefore | AuAfter

section \<open>Appending\<close>

definition chainRows :: "auditRow list \<Rightarrow> string \<Rightarrow> string \<Rightarrow> auditRow list" where
  "chainRows db tenant date = filter (\<lambda>r. arTenant r = tenant \<and> arChainDate r = date) db"

definition zeroHash :: bytes where
  "zeroHash = replicate 32 CHR 0x00"

text \<open>\<open>copy(previousHash, storedPrevious)\<close> over the zeroed buffer of 32 bytes.\<close>

definition copyHash :: "bytes \<Rightarrow> bytes" where
  "copyHash stored = take 32 stored @ drop (length stored) zeroHash"

definition previousHashOf :: "auditRow list \<Rightarrow> bytes" where
  "previousHashOf rows = (if rows = [] then zeroHash else copyHash (arRecordHash (last rows)))"

definition recordHashOf :: "(bytes \<Rightarrow> bytes) \<Rightarrow> bytes \<Rightarrow> bytes \<Rightarrow> string \<Rightarrow> bytes" where
  "recordHashOf sha previous payload timeText = sha (previous @ sha payload @ timeText)"

definition canonicalAudit :: "'j auditLib \<Rightarrow> 'j AuditEvent \<Rightarrow> 'j canonicalAuditEvent" where
  "canonicalAudit L event = \<lparr>caVersion = 1, caTenantID = aeTenantID event, caActorID = aeActorID event,
     caAction = aeAction event, caResourceType = aeResourceType event, caResourceID = aeResourceID event,
     caRequestID = aeRequestID event, caOccurredAt = auNano L (aeOccurredAt event),
     caBeforeState = aeBeforeState event, caAfterState = aeAfterState event\<rparr>"

text \<open>
  \<open>fails\<close> are failures of the three statements; a tenant or request id that is no UUID makes the
  statement that casts it fail. \<open>now\<close> replaces a zero occurrence time.
\<close>

definition auditAppend ::
  "'j auditLib \<Rightarrow> (auditCall \<Rightarrow> bool) \<Rightarrow> gotime \<Rightarrow> 'j AuditEvent \<Rightarrow> auditRow list \<Rightarrow>
     auditError + (auditRow list \<times> bytes)" where
  "auditAppend L fails now event0 db =
     (let event = (if aeOccurredAt event0 = 0 then event0\<lparr>aeOccurredAt := now\<rparr> else event0);
          date = auDate L (aeOccurredAt event) in
      if fails AuLock then Inl (AuDatabase AuLock)
      else
        (case auUUID L (aeTenantID event) of
           None \<Rightarrow> Inl (AuDatabase AuHead)
         | Some tenant \<Rightarrow>
             if fails AuHead then Inl (AuDatabase AuHead)
             else
               let previous = previousHashOf (chainRows db tenant date);
                   canonical = canonicalAudit L event in
               (case auMarshalEvent L canonical of
                  None \<Rightarrow> Inl AuCanonicalize
                | Some payload \<Rightarrow>
                    let recordHash = recordHashOf (auSha L) previous payload (caOccurredAt canonical) in
                    (case auMarshalState L (aeBeforeState event) of
                       None \<Rightarrow> Inl AuBefore
                     | Some before \<Rightarrow>
                    (case auMarshalState L (aeAfterState event) of
                       None \<Rightarrow> Inl AuAfter
                     | Some after \<Rightarrow>
                    (case auUUID L (aeRequestID event) of
                       None \<Rightarrow> Inl (AuDatabase AuInsert)
                     | Some request \<Rightarrow>
                         if fails AuInsert then Inl (AuDatabase AuInsert)
                         else Inr (db @ [\<lparr>arTenant = tenant, arChainDate = date,
                           arOccurredAt = aeOccurredAt event, arActorID = aeActorID event,
                           arAction = aeAction event, arResourceType = aeResourceType event,
                           arResourceID = aeResourceID event, arRequest = request,
                           arBeforeState = before, arAfterState = after, arPayload = payload,
                           arTimeText = caOccurredAt canonical, arPreviousHash = previous,
                           arRecordHash = recordHash\<rparr>], recordHash)))))))"

section \<open>Verification of a chain\<close>

text \<open>The check an auditor runs over the rows of one tenant and day.\<close>

fun verifyChain :: "(bytes \<Rightarrow> bytes) \<Rightarrow> bytes \<Rightarrow> auditRow list \<Rightarrow> bool" where
  "verifyChain sha previous [] = True"
| "verifyChain sha previous (r # rs) =
     (arPreviousHash r = previous \<and>
      arRecordHash r = recordHashOf sha previous (arPayload r) (arTimeText r) \<and>
      verifyChain sha (arRecordHash r) rs)"

definition chainHead :: "bytes \<Rightarrow> auditRow list \<Rightarrow> bytes" where
  "chainHead previous rows = (if rows = [] then previous else arRecordHash (last rows))"

lemma verifyChain_snoc:
  "verifyChain sha p (rs @ [r]) \<longleftrightarrow> verifyChain sha p rs \<and> arPreviousHash r = chainHead p rs \<and>
     arRecordHash r = recordHashOf sha (chainHead p rs) (arPayload r) (arTimeText r)"
  by (induction rs arbitrary: p) (auto simp: chainHead_def)

inductive auditReach :: "'j auditLib \<Rightarrow> auditRow list \<Rightarrow> bool" for L where
  start: "auditReach L []"
| append: "auditReach L db \<Longrightarrow> auditAppend L fails now event db = Inr (db', h) \<Longrightarrow> auditReach L db'"

lemma auditAppend_row:
  assumes "auditAppend L fails now event db = Inr (db', h)"
  obtains r where "db' = db @ [r]" "arRecordHash r = h"
    "arPreviousHash r = previousHashOf (chainRows db (arTenant r) (arChainDate r))"
    "h = recordHashOf (auSha L) (arPreviousHash r) (arPayload r) (arTimeText r)"
  by (rule that [of "last db'"]) (use assms in \<open>auto simp: auditAppend_def Let_def split: if_splits option.splits\<close>)

lemma chainRows_snoc:
  "chainRows (db @ [r]) t d = chainRows db t d @ (if arTenant r = t \<and> arChainDate r = d then [r] else [])"
  by (simp add: chainRows_def)

lemma previousHashOf_head:
  assumes "\<And>r. r \<in> set rows \<Longrightarrow> length (arRecordHash r) = 32"
  shows "previousHashOf rows = chainHead zeroHash rows"
  using assms last_in_set [of rows]
  by (auto simp: previousHashOf_def chainHead_def copyHash_def zeroHash_def)

lemma auditReach_verifies:
  assumes "auditReach L db" "\<And>x. length (auSha L x) = 32"
  shows "verifyChain (auSha L) zeroHash (chainRows db t d) \<and> (\<forall>r \<in> set db. length (arRecordHash r) = 32)"
  using assms(1)
proof (induction arbitrary: t d)
  case start
  show ?case by (simp add: chainRows_def)
next
  case (append db fails now event db' h)
  obtain r where r: "db' = db @ [r]" "arRecordHash r = h"
    "arPreviousHash r = previousHashOf (chainRows db (arTenant r) (arChainDate r))"
    "h = recordHashOf (auSha L) (arPreviousHash r) (arPayload r) (arTimeText r)"
    by (rule auditAppend_row [OF append(2)])
  have "length (arRecordHash x) = 32" if "x \<in> set (chainRows db (arTenant r) (arChainDate r))" for x
    using append.IH that by (auto simp: chainRows_def)
  then have "arPreviousHash r = chainHead zeroHash (chainRows db (arTenant r) (arChainDate r))"
    unfolding r(3) by (rule previousHashOf_head)
  then show ?case
    using append.IH r assms(2) by (auto simp: r(1) chainRows_snoc verifyChain_snoc recordHashOf_def)
qed

text \<open>The byte strings that are hashed in a chain.\<close>

fun hashedInputs :: "(bytes \<Rightarrow> bytes) \<Rightarrow> bytes \<Rightarrow> auditRow list \<Rightarrow> bytes set" where
  "hashedInputs sha previous [] = {}"
| "hashedInputs sha previous (r # rs) =
     {arPayload r, previous @ sha (arPayload r) @ arTimeText r} \<union> hashedInputs sha (arRecordHash r) rs"

lemma hashedInputs_snoc:
  "hashedInputs sha p (rs @ [r]) =
     hashedInputs sha p rs \<union> {arPayload r, chainHead p rs @ sha (arPayload r) @ arTimeText r}"
  by (induction rs arbitrary: p) (auto simp: chainHead_def)

text \<open>Two verified chains of the same length with the same head are the same, unless SHA-256 collides.\<close>

lemma chain_binds:
  assumes len: "\<And>x. length (sha x) = 32" and "length rs = length rs'"
    and "verifyChain sha zeroHash rs" "verifyChain sha zeroHash rs'"
    and "chainHead zeroHash rs = chainHead zeroHash rs'"
    and free: "\<And>x y. x \<in> hashedInputs sha zeroHash rs \<union> hashedInputs sha zeroHash rs' \<Longrightarrow>
      y \<in> hashedInputs sha zeroHash rs \<union> hashedInputs sha zeroHash rs' \<Longrightarrow> sha x = sha y \<Longrightarrow> x = y"
  shows "map (\<lambda>r. (arPayload r, arTimeText r)) rs = map (\<lambda>r. (arPayload r, arTimeText r)) rs'"
  using assms(2-)
proof (induction rs arbitrary: rs' rule: rev_induct)
  case Nil
  then show ?case by simp
next
  case (snoc r rs)
  obtain q qs where q: "rs' = qs @ [q]" using snoc.prems(1) by (cases rs' rule: rev_cases) auto
  let ?p = "chainHead zeroHash rs" and ?p' = "chainHead zeroHash qs"
  note v = snoc.prems(2,3) [unfolded q verifyChain_snoc]
  have hl: "length (chainHead zeroHash xs) = 32" if "verifyChain sha zeroHash xs" for xs
    using that by (cases xs rule: rev_cases)
      (auto simp: verifyChain_snoc chainHead_def recordHashOf_def len zeroHash_def)
  have same: "sha (?p @ sha (arPayload r) @ arTimeText r) = sha (?p' @ sha (arPayload q) @ arTimeText q)"
    using v snoc.prems(4) by (simp add: q chainHead_def recordHashOf_def)
  have "?p @ sha (arPayload r) @ arTimeText r = ?p' @ sha (arPayload q) @ arTimeText q"
    by (rule snoc.prems(5) [OF _ _ same]) (simp_all add: q hashedInputs_snoc)
  then have eq: "?p = ?p'" "sha (arPayload r) = sha (arPayload q)" "arTimeText r = arTimeText q"
    using hl [of rs] hl [of qs] v(1,2) len by (simp_all add: append_eq_append_conv)
  have "arPayload r = arPayload q" by (rule snoc.prems(5) [OF _ _ eq(2)]) (simp_all add: q hashedInputs_snoc)
  moreover have "map (\<lambda>r. (arPayload r, arTimeText r)) rs = map (\<lambda>r. (arPayload r, arTimeText r)) qs"
  proof (rule snoc.IH)
    show "length rs = length qs" using snoc.prems(1) q by simp
    show "verifyChain sha zeroHash rs" "verifyChain sha zeroHash qs" using v by auto
    show "?p = ?p'" by (rule eq(1))
    show "x = y" if "x \<in> hashedInputs sha zeroHash rs \<union> hashedInputs sha zeroHash qs"
      "y \<in> hashedInputs sha zeroHash rs \<union> hashedInputs sha zeroHash qs" "sha x = sha y" for x y
      by (rule snoc.prems(5) [OF _ _ that(3)]) (use that(1,2) in \<open>auto simp: q hashedInputs_snoc\<close>)
  qed
  ultimately show ?case using eq(3) q by simp
qed

section \<open>Properties\<close>

definition wAuditLib :: "string auditLib" where
  "wAuditLib = \<lparr>auSha = (\<lambda>x. take 32 (x @ zeroHash)), auMarshalEvent = (\<lambda>e. Some (caAction e)), auMarshalState = Some,
     auDate = (\<lambda>t. ''2026-01-01''), auNano = (\<lambda>t. ''12:00''), auUUID = Some\<rparr>"

definition wAudit :: "string AuditEvent" where
  "wAudit = \<lparr>aeTenantID = ''t'', aeActorID = ''a'', aeAction = ''create'', aeResourceType = ''zone'', aeResourceID = ''z'',
     aeRequestID = ''r'', aeBeforeState = ''null'', aeAfterState = ''x'', aeOccurredAt = 9\<rparr>"

lemma wAudit_sha: "length (auSha wAuditLib x) = 32"
  by (simp add: wAuditLib_def zeroHash_def)

lemma wAudit_reach: "\<exists>r. auditReach wAuditLib [r] \<and> arPayload r = ''create'' \<and> arTenant r = ''t'' \<and> arChainDate r = ''2026-01-01''"
proof -
  obtain db h where run: "auditAppend wAuditLib (\<lambda>_. False) 1 wAudit [] = Inr (db, h)"
    by (simp add: auditAppend_def Let_def wAuditLib_def wAudit_def canonicalAudit_def)
  have "\<exists>r. db = [r] \<and> arPayload r = ''create'' \<and> arTenant r = ''t'' \<and> arChainDate r = ''2026-01-01''"
    using run by (auto simp: auditAppend_def Let_def wAuditLib_def wAudit_def canonicalAudit_def)
  with auditReach.append [OF auditReach.start run] show ?thesis by blast
qed

text \<open>C18: Every tenant-day chain the appender can produce verifies: each row carries the hash of its
  predecessor (zeros for the first one) and the hash of its own contents.\<close>

theorem audit_chain_verifies:
  assumes "auditReach L db" "\<And>x. length (auSha L x) = 32"
  shows "verifyChain (auSha L) zeroHash (chainRows db tenant date)"
  using auditReach_verifies [OF assms] by blast

theorem audit_chain_verifies_witness:
  "\<exists>r. arPayload r = ''create'' \<and> verifyChain (auSha wAuditLib) zeroHash (chainRows [r] ''t'' ''2026-01-01'')"
proof -
  obtain r where "auditReach wAuditLib [r]" "arPayload r = ''create''" using wAudit_reach by blast
  with audit_chain_verifies [OF _ wAudit_sha] show ?thesis by blast
qed

text \<open>C19: The chain is tamper-evident: two chains of the same length that verify and end in the same
  hash have the same canonical payloads and times in every row, unless SHA-256 collides on the inputs
  that were hashed.\<close>

theorem audit_chain_tamper_evident:
  assumes "\<And>x. length (sha x) = 32" "length rs = length rs'"
    "verifyChain sha zeroHash rs" "verifyChain sha zeroHash rs'"
    "chainHead zeroHash rs = chainHead zeroHash rs'"
    "inj_on sha (hashedInputs sha zeroHash rs \<union> hashedInputs sha zeroHash rs')"
  shows "map (\<lambda>r. (arPayload r, arTimeText r)) rs = map (\<lambda>r. (arPayload r, arTimeText r)) rs'"
  by (rule chain_binds [OF assms(1-5)]) (auto intro: inj_onD [OF assms(6)])

theorem audit_chain_tamper_evident_witness:
  "\<exists>r. auditReach wAuditLib [r] \<and> map (\<lambda>r. (arPayload r, arTimeText r)) [r] = map (\<lambda>r. (arPayload r, arTimeText r)) [r]"
proof -
  obtain r where r: "auditReach wAuditLib [r]" "arPayload r = ''create''" "arTenant r = ''t''" "arChainDate r = ''2026-01-01''"
    using wAudit_reach by blast
  have v: "verifyChain (auSha wAuditLib) zeroHash [r]"
    using auditReach_verifies [OF r(1) wAudit_sha, of "''t''" "''2026-01-01''"] r(3,4) by (simp add: chainRows_def)
  have "auSha wAuditLib ''create'' \<noteq> auSha wAuditLib (zeroHash @ x)" for x
    by (simp add: wAuditLib_def zeroHash_def numeral_eq_Suc)
  then have "inj_on (auSha wAuditLib) (hashedInputs (auSha wAuditLib) zeroHash [r] \<union> hashedInputs (auSha wAuditLib) zeroHash [r])"
    by (auto simp: inj_on_def r(2) dest: sym)
  from audit_chain_tamper_evident [OF wAudit_sha refl v v refl this] r(1) show ?thesis by blast
qed

end
