(* ===== verification/Eventing.thy ===== *)
theory Eventing
  imports Outbox Audit_Chain Go_Float
begin

text \<open>
  Event intake, \<open>backend/internal/eventing/repository.go\<close>: the PostgreSQL repository, which commits
  a detection event, its outbox message and its audit record in one transaction, and the memory
  repository.

  The tables are lists of rows; the outbox rows are those of \<open>Outbox\<close> and the audit rows those of
  \<open>Audit_Chain\<close>, so the messages stored here are the ones the dispatcher claims. SHA-256 and the JSON
  encodings are fields of \<open>eventLib\<close>, with \<open>uuid.Parse\<close>, the \<open>uuid\<close> cast of the database, the
  Unicode lowering and the conversion of a value to \<open>any\<close>. An \<open>eventEnv\<close> holds what one call meets:
  clocks, the fresh message id, failing statements, and whether a commit that reports an error was
  applied. The advisory lock makes the calls of one tenant and dedupe key sequential, so a call is
  one step.
\<close>

section \<open>Data\<close>

definition OutboxTopic :: string where "OutboxTopic = ''detection-events-v1''"

record DetectionEvent =
  deEventID :: string
  deTenantID :: string
  deDedupeKey :: string
  deOccurredAt :: gotime
  deSiteID :: string
  deCameraID :: string
  deZoneID :: string
  deEventType :: string
  deModelVersion :: string
  deConfidence :: float64
  deEvidenceRefs :: "string list"
  deRequiresHumanReview :: bool
  deReviewState :: string
  deObservedBehavior :: string
  deSubjectClass :: string

record IngestCommand =
  icActorID :: string
  icRequestID :: string
  icEvent :: DetectionEvent

record IngestResult =
  irEventID :: string
  irAccepted :: bool
  irReplayed :: bool

datatype evCall = EvBegin | EvSetTenant | EvLock | EvRead | EvEvidence | EvHeaders | EvOutbox | EvCommit

datatype eventError =
    ErrDedupeConflict | ErrEventConflict | ErrSiteNotFound | ErrAttendanceUnavailable
  | EvInvalidTenant | EvEncode | EvInsertError | EvDatabase evCall | EvAudit auditError

record 'j eventLib =
  elAudit :: "'j auditLib"
  elMarshal :: "DetectionEvent \<Rightarrow> bytes option"
  elParses :: "string \<Rightarrow> bool"
  elUUID :: "string \<Rightarrow> string option"
  elLower :: "string \<Rightarrow> string"
  elAny :: "DetectionEvent \<Rightarrow> 'j"
  elNil :: 'j
  elHeaders :: bytes

record eventEnv =
  eeNow :: gotime
  eeClock :: gotime
  eeMessageID :: string
  eeFails :: "evCall \<Rightarrow> bool"
  eeInsertCode :: "string option"
  eeAudit :: "auditCall \<Rightarrow> bool"
  eeCommitApplied :: bool

record detectionRow =
  dtTenant :: string
  dtEventID :: string
  dtSite :: string
  dtCamera :: string
  dtZone :: string
  dtRequestHash :: string
  dtEvent :: DetectionEvent
  dtPayload :: bytes

record eventDB =
  edSites :: "string \<Rightarrow> string \<Rightarrow> bool"
  edEvents :: "detectionRow list"
  edOutbox :: outboxTable
  edAudit :: "auditRow list"

section \<open>Normalization\<close>

definition normalizeEvent :: "(string \<Rightarrow> string) \<Rightarrow> DetectionEvent \<Rightarrow> DetectionEvent" where
  "normalizeEvent uni event = event\<lparr>
     deEventID := trimSpace (deEventID event),
     deTenantID := trimSpace (deTenantID event),
     deDedupeKey := trimSpace (deDedupeKey event),
     deSiteID := trimSpace (deSiteID event),
     deCameraID := trimSpace (deCameraID event),
     deZoneID := trimSpace (deZoneID event),
     deEventType := trimSpace (deEventType event),
     deModelVersion := trimSpace (deModelVersion event),
     deObservedBehavior := trimSpace (deObservedBehavior event),
     deSubjectClass := trimSpace (toLower uni (deSubjectClass event)),
     deEvidenceRefs := map trimSpace (deEvidenceRefs event)\<rparr>"

definition canonicalPayload :: "'j eventLib \<Rightarrow> DetectionEvent \<Rightarrow> (bytes \<times> string) option" where
  "canonicalPayload L event =
     (case elMarshal L (normalizeEvent (elLower L) event) of
        None \<Rightarrow> None
      | Some payload \<Rightarrow> Some (payload, hexEncode (auSha (elAudit L) payload)))"

text \<open>
  \<open>strings.EqualFold\<close> with the constant: no letter of it has a folding outside ASCII, so the
  comparison is the one of the ASCII lower cases.
\<close>

definition attendanceReview :: "string \<Rightarrow> bool" where
  "attendanceReview eventType \<longleftrightarrow> map lowerChar (trimSpace eventType) = ''attendance_review''"

definition classifyInsertError :: "string \<Rightarrow> eventError" where
  "classifyInsertError code =
     (if code = ''23503'' then ErrSiteNotFound
      else if code = ''23505'' then ErrEventConflict
      else EvInsertError)"

section \<open>The PostgreSQL repository\<close>

text \<open>
  The insertion into \<open>events.detection_events\<close>: its failure is an SQLSTATE. \<open>eeInsertCode\<close> stands
  for every failure but those of the identifier casts, of the primary key and of the site's foreign key.
\<close>

definition insertDetection ::
  "'j eventLib \<Rightarrow> eventEnv \<Rightarrow> eventDB \<Rightarrow> string \<Rightarrow> DetectionEvent \<Rightarrow> string \<Rightarrow> bytes \<Rightarrow> string + detectionRow" where
  "insertDetection L E db tenant event requestHash payload =
     (case (elUUID L (deEventID event), elUUID L (deSiteID event), elUUID L (deCameraID event), elUUID L (deZoneID event)) of
        (Some eventID, Some site, Some camera, Some zone) \<Rightarrow>
          (case eeInsertCode E of
             Some code \<Rightarrow> Inl code
           | None \<Rightarrow>
               if \<exists>r \<in> set (edEvents db). dtTenant r = tenant \<and> dtEventID r = eventID then Inl ''23505''
               else if \<not> edSites db tenant site then Inl ''23503''
               else Inr \<lparr>dtTenant = tenant, dtEventID = eventID, dtSite = site, dtCamera = camera, dtZone = zone,
                 dtRequestHash = requestHash, dtEvent = event, dtPayload = payload\<rparr>)
      | _ \<Rightarrow> Inl ''22P02'')"

definition outboxInsert ::
  "'j eventLib \<Rightarrow> eventEnv \<Rightarrow> string \<Rightarrow> DetectionEvent \<Rightarrow> bytes \<Rightarrow> outboxRow" where
  "outboxInsert L E tenant event payload =
     \<lparr>obTenant = tenant, obMessageID = eeMessageID E, obTopic = OutboxTopic,
      obPartitionKey = deTenantID event @ '':'' @ deCameraID event, obPayload = payload, obHeaders = elHeaders L,
      obOccurredAt = deOccurredAt event, obCreatedAt = eeClock E, obPublishedAt = None, obLeaseOwner = None,
      obLeaseExpires = None, obAttempts = 0, obLastError = None\<rparr>"

definition ingestAudit :: "'j eventLib \<Rightarrow> eventEnv \<Rightarrow> IngestCommand \<Rightarrow> DetectionEvent \<Rightarrow> 'j AuditEvent" where
  "ingestAudit L E command event =
     \<lparr>aeTenantID = deTenantID event, aeActorID = icActorID command, aeAction = ''event.accepted'',
      aeResourceType = ''detection_event'', aeResourceID = deEventID event, aeRequestID = icRequestID command,
      aeBeforeState = elNil L, aeAfterState = elAny L event, aeOccurredAt = eeNow E\<rparr>"

definition dedupeRow :: "eventDB \<Rightarrow> string \<Rightarrow> string \<Rightarrow> detectionRow option" where
  "dedupeRow db tenant key = find (\<lambda>r. dtTenant r = tenant \<and> deDedupeKey (dtEvent r) = key) (edEvents db)"

definition commitEvent ::
  "eventEnv \<Rightarrow> eventDB \<Rightarrow> eventDB \<Rightarrow> IngestResult \<Rightarrow> eventDB \<times> (eventError + IngestResult)" where
  "commitEvent E db db' result =
     (if eeFails E EvCommit then (if eeCommitApplied E then db' else db, Inl (EvDatabase EvCommit))
      else (db', Inr result))"

text \<open>The part of \<open>Ingest\<close> that stores a new event, its message and its audit record.\<close>

definition storeEvent ::
  "'j eventLib \<Rightarrow> eventEnv \<Rightarrow> IngestCommand \<Rightarrow> eventDB \<Rightarrow> string \<Rightarrow> DetectionEvent \<Rightarrow> bytes \<Rightarrow> string \<Rightarrow>
     eventDB \<times> (eventError + IngestResult)" where
  "storeEvent L E command db tenant event payload requestHash =
     (if eeFails E EvEvidence then (db, Inl (EvDatabase EvEvidence))
      else
        (case insertDetection L E db tenant event requestHash payload of
           Inl code \<Rightarrow> (db, Inl (classifyInsertError code))
         | Inr row \<Rightarrow>
             if eeFails E EvHeaders then (db, Inl (EvDatabase EvHeaders))
             else if eeFails E EvOutbox \<or> (\<exists>m \<in> set (edOutbox db). obMessageID m = eeMessageID E)
             then (db, Inl (EvDatabase EvOutbox))
             else
               (case auditAppend (elAudit L) (eeAudit E) (eeNow E) (ingestAudit L E command event) (edAudit db) of
                  Inl err \<Rightarrow> (db, Inl (EvAudit err))
                | Inr (audit, _) \<Rightarrow>
                    commitEvent E db
                      (db\<lparr>edEvents := edEvents db @ [row],
                          edOutbox := edOutbox db @ [outboxInsert L E tenant event payload],
                          edAudit := audit\<rparr>)
                      \<lparr>irEventID = deEventID event, irAccepted = True, irReplayed = False\<rparr>)))"

definition PostgresIngest ::
  "'j eventLib \<Rightarrow> eventEnv \<Rightarrow> IngestCommand \<Rightarrow> eventDB \<Rightarrow> eventDB \<times> (eventError + IngestResult)" where
  "PostgresIngest L E command db =
     (if attendanceReview (deEventType (icEvent command)) then (db, Inl ErrAttendanceUnavailable)
      else
        let event = normalizeEvent (elLower L) (icEvent command) in
        if \<not> elParses L (deTenantID event) then (db, Inl EvInvalidTenant)
        else if eeFails E EvBegin then (db, Inl (EvDatabase EvBegin))
        else if eeFails E EvSetTenant then (db, Inl (EvDatabase EvSetTenant))
        else if eeFails E EvLock then (db, Inl (EvDatabase EvLock))
        else
          (case canonicalPayload L event of
             None \<Rightarrow> (db, Inl EvEncode)
           | Some (payload, requestHash) \<Rightarrow>
               (case elUUID L (deTenantID event) of
                  None \<Rightarrow> (db, Inl (EvDatabase EvRead))
                | Some tenant \<Rightarrow>
                    if eeFails E EvRead then (db, Inl (EvDatabase EvRead))
                    else
                      (case dedupeRow db tenant (deDedupeKey event) of
                         Some stored \<Rightarrow>
                           if dtRequestHash stored \<noteq> requestHash then (db, Inl ErrDedupeConflict)
                           else commitEvent E db db
                             \<lparr>irEventID = dtEventID stored, irAccepted = True, irReplayed = True\<rparr>
                       | None \<Rightarrow> storeEvent L E command db tenant event payload requestHash))))"

section \<open>The memory repository\<close>

record memoryReplay =
  mrHash :: string
  mrEventID :: string

type_synonym eventMemory = "string \<rightharpoonup> memoryReplay"

definition MemoryIngest ::
  "'j eventLib \<Rightarrow> IngestCommand \<Rightarrow> eventMemory \<Rightarrow> eventMemory \<times> (eventError + IngestResult)" where
  "MemoryIngest L command m =
     (if attendanceReview (deEventType (icEvent command)) then (m, Inl ErrAttendanceUnavailable)
      else
        let event = normalizeEvent (elLower L) (icEvent command) in
        (case canonicalPayload L event of
           None \<Rightarrow> (m, Inl EvEncode)
         | Some (_, hash) \<Rightarrow>
             let key = deTenantID event @ '':'' @ deDedupeKey event in
             (case m key of
                Some stored \<Rightarrow>
                  if mrHash stored \<noteq> hash then (m, Inl ErrDedupeConflict)
                  else (m, Inr \<lparr>irEventID = mrEventID stored, irAccepted = True, irReplayed = True\<rparr>)
              | None \<Rightarrow>
                  (m(key \<mapsto> \<lparr>mrHash = hash, mrEventID = deEventID event\<rparr>),
                   Inr \<lparr>irEventID = deEventID event, irAccepted = True, irReplayed = False\<rparr>))))"

end
