(* ===== verification/Idempotency.thy ===== *)
theory Idempotency
  imports Go_Prelude
begin

text \<open>
  The contract of the idempotent operations of the control plane. Event intake, alert
  acknowledgment and the configuration writes keep, under a caller's key, the hash of the accepted
  request and the answer they gave; a call with a known key changes nothing and repeats that answer
  or fails. The interface \<open>idempotent_calls\<close> states this of one call; its lemmas are about whole
  histories of calls, in which any call may fail at any point.
\<close>

fun runCalls :: "('e \<Rightarrow> 'c \<Rightarrow> 's \<Rightarrow> 's \<times> 'r) \<Rightarrow> ('e \<times> 'c) list \<Rightarrow> 's \<Rightarrow> 's \<times> 'r list" where
  "runCalls call [] s = (s, [])"
| "runCalls call ((e, c) # calls) s =
     (let (s1, r) = call e c s; (s2, rs) = runCalls call calls s1 in (s2, r # rs))"

lemma runCalls_Cons:
  assumes "call e c s = (s1, r)"
  shows "fst (runCalls call ((e, c) # calls) s) = fst (runCalls call calls s1)"
    "snd (runCalls call ((e, c) # calls) s) ! 0 = r"
    "snd (runCalls call ((e, c) # calls) s) ! Suc n = snd (runCalls call calls s1) ! n"
  using assms by (auto split: prod.splits)

lemma runCalls_length [simp]: "length (snd (runCalls call calls s)) = length calls"
proof (induction calls arbitrary: s)
  case (Cons x calls)
  obtain e c where x: "x = (e, c)" by (cases x)
  obtain s1 r where "call e c s = (s1, r)" by force
  with Cons [of s1] x show ?case by (auto split: prod.splits)
qed simp

text \<open>The state before the n-th call, and what that call does.\<close>

lemma runCalls_nth:
  "n < length calls \<Longrightarrow>
   call (fst (calls ! n)) (snd (calls ! n)) (fst (runCalls call (take n calls) s)) =
     (fst (runCalls call (take (Suc n) calls) s), snd (runCalls call calls s) ! n)"
proof (induction calls arbitrary: s n)
  case (Cons x calls)
  obtain e c where x: "x = (e, c)" by (cases x)
  obtain s1 r where run: "call e c s = (s1, r)" by force
  show ?case using Cons x runCalls_Cons [of call, OF run] run by (cases n) auto
qed simp

lemma runCalls_take:
  "m \<le> n \<Longrightarrow> fst (runCalls call (take n calls) s) =
     fst (runCalls call (drop m (take n calls)) (fst (runCalls call (take m calls) s)))"
proof (induction calls arbitrary: s m n)
  case (Cons x calls)
  obtain e c where x: "x = (e, c)" by (cases x)
  obtain s1 r where run: "call e c s = (s1, r)" by force
  show ?case
  proof (cases m)
    case (Suc m')
    with Cons.prems obtain n' where n: "n = Suc n'" "m' \<le> n'" by (cases n) auto
    with Cons.IH [OF n(2), of s1] show ?thesis by (simp add: Suc x runCalls_Cons(1) [of call, OF run] del: runCalls.simps)
  qed simp
qed simp

text \<open>A property that every call keeps holds after every history.\<close>

lemma runCalls_invariant:
  assumes "I s" "\<And>e c s s' r. (e, c) \<in> set calls \<Longrightarrow> I s \<Longrightarrow> call e c s = (s', r) \<Longrightarrow> I s'"
  shows "I (fst (runCalls call calls s))"
  using assms
proof (induction calls arbitrary: s)
  case (Cons x calls)
  obtain e c where x: "x = (e, c)" by (cases x)
  obtain s1 r where run: "call e c s = (s1, r)" by force
  have "I s1" by (rule Cons.prems(2) [OF _ Cons.prems(1) run]) (simp add: x)
  then have "I (fst (runCalls call calls s1))" by (rule Cons.IH) (rule Cons.prems(2), auto)
  then show ?case unfolding x runCalls_Cons(1) [of call, OF run] .
qed simp

text \<open>
  The interface \<open>retained_calls\<close> is for a store that forgets keys after a while: \<open>live\<close> are the states and
  \<open>ok\<close> the calls of a period in which nothing is forgotten.
\<close>

locale retained_calls =
  fixes call :: "'e \<Rightarrow> 'c \<Rightarrow> 's \<Rightarrow> 's \<times> ('err + 'r)"
    and key :: "'c \<Rightarrow> 'k"
    and hash :: "'c \<Rightarrow> string"
    and answer :: "'r \<Rightarrow> 'v"
    and replayed :: "'r \<Rightarrow> bool"
    and stored :: "'s \<Rightarrow> 'k \<Rightarrow> (string \<times> 'v) option"
    and live :: "'s \<Rightarrow> bool"
    and ok :: "'e \<Rightarrow> bool"
  assumes keeps: "live s \<Longrightarrow> ok e \<Longrightarrow> call e c s = (s', r) \<Longrightarrow> live s'"
    and known: "live s \<Longrightarrow> ok e \<Longrightarrow> call e c s = (s', r) \<Longrightarrow> stored s (key c) = Some (h, v) \<Longrightarrow>
      stored s' = stored s \<and> (\<forall>x. r = Inr x \<longrightarrow> h = hash c \<and> answer x = v \<and> replayed x)"
    and fresh: "live s \<Longrightarrow> ok e \<Longrightarrow> call e c s = (s', r) \<Longrightarrow> stored s (key c) = None \<Longrightarrow>
      (stored s' = stored s \<and> (\<forall>x. r \<noteq> Inr x)) \<or>
      (\<exists>v. stored s' = (stored s)(key c \<mapsto> (hash c, v)) \<and> (\<forall>x. r = Inr x \<longrightarrow> answer x = v \<and> \<not> replayed x))"
begin

lemma stays:
  assumes "live s" "ok e" "call e c s = (s', r)" "stored s k = Some p"
  shows "stored s' k = Some p"
proof (cases "stored s (key c)")
  case None
  with assms(4) have "k \<noteq> key c" by auto
  with fresh [OF assms(1-3) None] assms(4) show ?thesis by auto
next
  case (Some q)
  with known [OF assms(1-3), of "fst q" "snd q"] assms(4) show ?thesis by simp
qed

lemma accepted_is_stored:
  assumes "live s" "ok e" "call e c s = (s', Inr x)"
  shows "stored s' (key c) = Some (hash c, answer x)"
proof (cases "stored s (key c)")
  case None
  from fresh [OF assms None] show ?thesis by auto
next
  case (Some q)
  with known [OF assms, of "fst q" "snd q"] show ?thesis by (cases q) auto
qed

lemma later_calls:
  assumes "live s" "\<And>x. x \<in> set calls \<Longrightarrow> ok (fst x)" "stored s k = Some (h, v)" "j < length calls" "key (snd (calls ! j)) = k"
    "snd (runCalls call calls s) ! j = Inr y"
  shows "hash (snd (calls ! j)) = h \<and> answer y = v \<and> replayed y"
  using assms
proof (induction calls arbitrary: s j)
  case (Cons x calls)
  obtain e d where x: "x = (e, d)" by (cases x)
  obtain s1 r where run: "call e d s = (s1, r)" by force
  have ok: "ok e" using Cons.prems(2) [of x] x by simp
  show ?case
  proof (cases j)
    case 0
    then have "key d = k" "r = Inr y" using Cons.prems(5,6) x runCalls_Cons(2) [of call, OF run] by auto
    with known [OF Cons.prems(1) ok run, of h v] Cons.prems(3) 0 x show ?thesis by simp
  next
    case (Suc j')
    have "snd (runCalls call calls s1) ! j' = Inr y"
      using Cons.prems(6) Suc x runCalls_Cons(3) [of call, OF run] by simp
    with Cons.IH [OF keeps [OF Cons.prems(1) ok run] _ stays [OF Cons.prems(1) ok run Cons.prems(3)], of j'] Cons.prems(2,4,5) Suc
    show ?thesis by simp
  qed
qed simp

text \<open>Of the calls with one key the first accepted one decides; every later accepted one repeats it.\<close>

lemma accepted_once:
  assumes "live s" "\<And>x. x \<in> set calls \<Longrightarrow> ok (fst x)" "i < j" "j < length calls" "key (snd (calls ! i)) = key (snd (calls ! j))"
    "snd (runCalls call calls s) ! i = Inr x" "snd (runCalls call calls s) ! j = Inr y"
  shows "hash (snd (calls ! j)) = hash (snd (calls ! i)) \<and> replayed y \<and> answer y = answer x"
  using assms
proof (induction calls arbitrary: s i j)
  case (Cons z calls)
  obtain e d where z: "z = (e, d)" by (cases z)
  obtain s1 r where run: "call e d s = (s1, r)" by force
  have ok: "ok e" using Cons.prems(2) [of z] z by simp
  have live: "live s1" by (rule keeps [OF Cons.prems(1) ok run])
  obtain j' where j: "j = Suc j'" using Cons.prems(3) by (cases j) auto
  have y: "snd (runCalls call calls s1) ! j' = Inr y"
    using Cons.prems(7) j z runCalls_Cons(3) [of call, OF run] by simp
  show ?case
  proof (cases i)
    case 0
    then have "r = Inr x" using Cons.prems(6) z runCalls_Cons(2) [of call, OF run] by simp
    with accepted_is_stored [OF Cons.prems(1) ok] run have "stored s1 (key d) = Some (hash d, answer x)" by blast
    from later_calls [OF live _ this _ _ y] Cons.prems(2,4,5) 0 j z show ?thesis by simp
  next
    case (Suc i')
    have "snd (runCalls call calls s1) ! i' = Inr x"
      using Cons.prems(6) Suc z runCalls_Cons(3) [of call, OF run] by simp
    from Cons.IH [OF live _ _ _ _ this y] Cons.prems(2,3,4,5) Suc j show ?thesis by simp
  qed
qed simp

end

text \<open>A store that never forgets.\<close>

locale idempotent_calls =
  fixes call :: "'e \<Rightarrow> 'c \<Rightarrow> 's \<Rightarrow> 's \<times> ('err + 'r)"
    and key :: "'c \<Rightarrow> 'k"
    and hash :: "'c \<Rightarrow> string"
    and answer :: "'r \<Rightarrow> 'v"
    and replayed :: "'r \<Rightarrow> bool"
    and stored :: "'s \<Rightarrow> 'k \<Rightarrow> (string \<times> 'v) option"
  assumes known: "call e c s = (s', r) \<Longrightarrow> stored s (key c) = Some (h, v) \<Longrightarrow>
      s' = s \<and> (\<forall>x. r = Inr x \<longrightarrow> h = hash c \<and> answer x = v \<and> replayed x)"
    and fresh: "call e c s = (s', r) \<Longrightarrow> stored s (key c) = None \<Longrightarrow>
      (stored s' = stored s \<and> (\<forall>x. r \<noteq> Inr x)) \<or>
      (\<exists>v. stored s' = (stored s)(key c \<mapsto> (hash c, v)) \<and> (\<forall>x. r = Inr x \<longrightarrow> answer x = v \<and> \<not> replayed x))"

sublocale idempotent_calls < forever: retained_calls call key hash answer replayed stored "\<lambda>_. True" "\<lambda>_. True"
proof unfold_locales
  show "stored s' = stored s \<and> (\<forall>x. r = Inr x \<longrightarrow> h = hash c \<and> answer x = v \<and> replayed x)"
    if "call e c s = (s', r)" "stored s (key c) = Some (h, v)" for e c s s' r h v
    using known [OF that] by simp
qed (simp, rule fresh)

context idempotent_calls
begin

lemmas once_decided = forever.accepted_once [OF TrueI TrueI]

text \<open>A replayed answer was given to an earlier call, or was stored before the history began.\<close>

lemma replay_has_origin:
  assumes "j < length calls" "stored s (key (snd (calls ! j))) = None" "snd (runCalls call calls s) ! j = Inr y" "replayed y"
  shows "\<exists>i < j. key (snd (calls ! i)) = key (snd (calls ! j)) \<and> hash (snd (calls ! i)) = hash (snd (calls ! j))"
  using assms
proof (induction calls arbitrary: s j)
  case (Cons z calls)
  obtain e d where z: "z = (e, d)" by (cases z)
  obtain s1 r where run: "call e d s = (s1, r)" by force
  show ?case
  proof (cases j)
    case 0
    then have "r = Inr y" "stored s (key d) = None"
      using Cons.prems(2,3) z runCalls_Cons(2) [of call, OF run] by simp_all
    with fresh [OF run] Cons.prems(4) show ?thesis by auto
  next
    case (Suc j')
    have y: "snd (runCalls call calls s1) ! j' = Inr y"
      using Cons.prems(3) Suc z runCalls_Cons(3) [of call, OF run] by simp
    show ?thesis
    proof (cases "stored s1 (key (snd (calls ! j')))")
      case None
      from Cons.IH [OF _ None y Cons.prems(4)] Cons.prems(1) Suc obtain i where
        "i < j'" "key (snd (calls ! i)) = key (snd (calls ! j'))" "hash (snd (calls ! i)) = hash (snd (calls ! j'))" by auto
      then show ?thesis using Suc by (intro exI [of _ "Suc i"]) simp
    next
      case (Some q)
      have none: "stored s (key (snd (calls ! j'))) = None" using Cons.prems(2) Suc by simp
      have "stored s (key d) = None \<and> key d = key (snd (calls ! j')) \<and> fst q = hash d"
      proof (cases "stored s (key d)")
        case None
        from fresh [OF run None] Some none show ?thesis by (auto split: if_splits)
      next
        case (Some p)
        with known [OF run, of "fst p" "snd p"] none \<open>stored s1 _ = Some q\<close> show ?thesis by simp
      qed
      moreover have "hash (snd (calls ! j')) = fst q"
        by (rule forever.later_calls [OF TrueI TrueI, of s1 _ _ "snd q" j' calls y, THEN conjunct1])
          (use Some y Cons.prems(1) Suc in \<open>simp_all\<close>)
      ultimately show ?thesis using Suc z by (intro exI [of _ 0]) simp
    qed
  qed
qed simp

end

end
