(* ===== verification/Eventing_Props.thy ===== *)
theory Eventing_Props
  imports Eventing Idempotency
begin

text \<open>
  Laws of the event intake. Both repositories provide the interface \<open>idempotent_calls\<close>, so that
  repeated deliveries of an event are accepted once. The PostgreSQL repository keeps its three tables
  in step.
\<close>

section \<open>One call of the PostgreSQL repository\<close>

definition eventKey :: "'j eventLib \<Rightarrow> IngestCommand \<Rightarrow> string option \<times> string" where
  "eventKey L c = (let event = normalizeEvent (elLower L) (icEvent c) in (elUUID L (deTenantID event), deDedupeKey event))"

definition eventHash :: "'j eventLib \<Rightarrow> IngestCommand \<Rightarrow> string" where
  "eventHash L c = (case canonicalPayload L (normalizeEvent (elLower L) (icEvent c)) of None \<Rightarrow> [] | Some (_, h) \<Rightarrow> h)"

definition storedEvent :: "eventDB \<Rightarrow> string option \<times> string \<Rightarrow> (string \<times> string) option" where
  "storedEvent db k = (case fst k of None \<Rightarrow> None
     | Some tenant \<Rightarrow> map_option (\<lambda>r. (dtRequestHash r, dtEventID r)) (dedupeRow db tenant (snd k)))"

definition canonEventID :: "'j eventLib \<Rightarrow> string \<Rightarrow> string" where
  "canonEventID L i = (case elUUID L i of None \<Rightarrow> i | Some j \<Rightarrow> j)"

text \<open>What a transaction that stores an event adds to the tables.\<close>

definition ingestAdds :: "'j eventLib \<Rightarrow> eventEnv \<Rightarrow> IngestCommand \<Rightarrow> eventDB \<Rightarrow> eventDB \<Rightarrow> bool" where
  "ingestAdds L E c db db' \<longleftrightarrow> (\<exists>row msg rec event. let tenant = dtTenant row in
     db' = db\<lparr>edEvents := edEvents db @ [row], edOutbox := edOutbox db @ [msg], edAudit := edAudit db @ [rec]\<rparr> \<and>
     event = normalizeEvent (elLower L) (icEvent c) \<and> \<not> attendanceReview (deEventType (icEvent c)) \<and>
     elUUID L (deTenantID event) = Some tenant \<and> elUUID L (deEventID event) = Some (dtEventID row) \<and>
     dtEvent row = event \<and> canonicalPayload L event = Some (dtPayload row, dtRequestHash row) \<and>
     edSites db tenant (dtSite row) \<and>
     dedupeRow db tenant (deDedupeKey event) = None \<and>
     (\<forall>r \<in> set (edEvents db). dtTenant r = tenant \<longrightarrow> dtEventID r \<noteq> dtEventID row) \<and>
     msg = outboxInsert L E tenant event (dtPayload row) \<and> (\<forall>m \<in> set (edOutbox db). obMessageID m \<noteq> obMessageID msg) \<and>
     arAction rec = ''event.accepted'' \<and> arResourceID rec = deEventID event \<and> arActorID rec = icActorID c \<and>
     (\<exists>h. auditAppend (elAudit L) (eeAudit E) (eeNow E) (ingestAudit L E c event) (edAudit db) = Inr (edAudit db @ [rec], h)))"

lemma auditAppend_ingest:
  assumes "auditAppend L fails now event db = Inr (db', h)"
  shows "\<exists>r. db' = db @ [r] \<and> arAction r = aeAction event \<and> arResourceID r = aeResourceID event \<and> arActorID r = aeActorID event"
  using assms by (auto simp: auditAppend_def Let_def split: if_splits option.splits)

lemma commitEvent_cases:
  "commitEvent E db db1 x = (db', r) \<Longrightarrow> (db' = db \<and> (\<exists>e. r = Inl e)) \<or> (db' = db1 \<and> (\<forall>y. r = Inr y \<longrightarrow> y = x))"
  by (auto simp: commitEvent_def split: if_splits)

lemma storeEvent_cases:
  assumes "storeEvent L E c db tenant event payload h = (db', r)"
    "event = normalizeEvent (elLower L) (icEvent c)" "\<not> attendanceReview (deEventType (icEvent c))"
    "elUUID L (deTenantID event) = Some tenant" "canonicalPayload L event = Some (payload, h)"
    "dedupeRow db tenant (deDedupeKey event) = None"
  shows "(db' = db \<and> (\<forall>x. r \<noteq> Inr x)) \<or>
    (ingestAdds L E c db db' \<and> (\<forall>x. r = Inr x \<longrightarrow> x = \<lparr>irEventID = deEventID event, irAccepted = True, irReplayed = False\<rparr>))"
proof -
  have "(db' = db \<and> (\<exists>e. r = Inl e)) \<or>
    (\<exists>row audit hh. insertDetection L E db tenant event h payload = Inr row \<and>
      (\<forall>m \<in> set (edOutbox db). obMessageID m \<noteq> eeMessageID E) \<and>
      auditAppend (elAudit L) (eeAudit E) (eeNow E) (ingestAudit L E c event) (edAudit db) = Inr (audit, hh) \<and>
      commitEvent E db (db\<lparr>edEvents := edEvents db @ [row],
        edOutbox := edOutbox db @ [outboxInsert L E tenant event payload], edAudit := audit\<rparr>)
        \<lparr>irEventID = deEventID event, irAccepted = True, irReplayed = False\<rparr> = (db', r))"
    using assms(1) unfolding storeEvent_def by (simp split: if_split_asm sum.split_asm prod.split_asm) blast+
  then show ?thesis
  proof (elim disjE exE conjE, goal_cases)
    case 1
    then show ?thesis by simp
  next
    case (2 row audit hh)
    from commitEvent_cases [OF 2(4)] show ?thesis
    proof
      assume db': "db' = db\<lparr>edEvents := edEvents db @ [row],
        edOutbox := edOutbox db @ [outboxInsert L E tenant event payload], edAudit := audit\<rparr> \<and>
        (\<forall>x. r = Inr x \<longrightarrow> x = \<lparr>irEventID = deEventID event, irAccepted = True, irReplayed = False\<rparr>)"
      obtain rec where rec: "audit = edAudit db @ [rec]" "arAction rec = ''event.accepted''"
          "arResourceID rec = deEventID event" "arActorID rec = icActorID c"
        using auditAppend_ingest [OF 2(3)] by (auto simp: ingestAudit_def)
      have row: "dtTenant row = tenant" "elUUID L (deEventID event) = Some (dtEventID row)" "dtEvent row = event"
          "dtPayload row = payload" "dtRequestHash row = h" "edSites db tenant (dtSite row)"
          "\<forall>r \<in> set (edEvents db). dtTenant r = tenant \<longrightarrow> dtEventID r \<noteq> dtEventID row"
        using 2(1) by (auto simp: insertDetection_def split: option.splits if_splits)
      have "ingestAdds L E c db db'"
        unfolding ingestAdds_def Let_def
        by (rule exI [of _ row], rule exI [of _ "outboxInsert L E tenant event payload"], rule exI [of _ rec],
            rule exI [of _ event])
          (use 2(2,3) db' rec row assms(2-6) in \<open>auto simp: outboxInsert_def\<close>)
      with db' show ?thesis by blast
    qed auto
  qed
qed

lemma PostgresIngest_cases:
  assumes "PostgresIngest L E c db = (db', r)"
  shows "(db' = db \<and> (\<forall>x. r \<noteq> Inr x)) \<or>
    (\<exists>row tenant. elUUID L (deTenantID (normalizeEvent (elLower L) (icEvent c))) = Some tenant \<and> db' = db \<and>
      dedupeRow db tenant (deDedupeKey (normalizeEvent (elLower L) (icEvent c))) = Some row \<and>
      dtRequestHash row = eventHash L c \<and>
      (\<forall>x. r = Inr x \<longrightarrow> x = \<lparr>irEventID = dtEventID row, irAccepted = True, irReplayed = True\<rparr>)) \<or>
    (ingestAdds L E c db db' \<and> (\<forall>x. r = Inr x \<longrightarrow> x = \<lparr>irEventID = deEventID (normalizeEvent (elLower L) (icEvent c)),
      irAccepted = True, irReplayed = False\<rparr>))"
proof -
  let ?e = "normalizeEvent (elLower L) (icEvent c)"
  consider "db' = db \<and> (\<forall>x. r \<noteq> Inr x)" | payload h tenant where
      "\<not> attendanceReview (deEventType (icEvent c))" "canonicalPayload L ?e = Some (payload, h)"
      "elUUID L (deTenantID ?e) = Some tenant"
      "(case dedupeRow db tenant (deDedupeKey ?e) of
         Some stored \<Rightarrow> if dtRequestHash stored \<noteq> h then (db, Inl ErrDedupeConflict)
           else commitEvent E db db \<lparr>irEventID = dtEventID stored, irAccepted = True, irReplayed = True\<rparr>
       | None \<Rightarrow> storeEvent L E c db tenant ?e payload h) = (db', r)"
    using assms by (auto simp: PostgresIngest_def Let_def split: if_splits option.splits)
  then show ?thesis
  proof cases
    case 1
    then show ?thesis by blast
  next
    case (2 payload h tenant)
    show ?thesis
    proof (cases "dedupeRow db tenant (deDedupeKey ?e)")
      case None
      with 2 have "storeEvent L E c db tenant ?e payload h = (db', r)" by simp
      from storeEvent_cases [OF this refl 2(1,3,2) None] show ?thesis by blast
    next
      case (Some row)
      with 2 show ?thesis
        by (auto simp: eventHash_def commitEvent_def split: if_splits)
    qed
  qed
qed

lemma list_all2_snoc [simp]: "list_all2 P (xs @ [x]) (ys @ [y]) \<longleftrightarrow> list_all2 P xs ys \<and> P x y"
  using list_all2_rev [of P "x # rev xs" "y # rev ys"] by auto

lemma storedEvent_adds:
  assumes "ingestAdds L E c db db'"
  shows "storedEvent db (eventKey L c) = None \<and>
    storedEvent db' = (storedEvent db)(eventKey L c \<mapsto>
      (eventHash L c, canonEventID L (deEventID (normalizeEvent (elLower L) (icEvent c)))))"
proof -
  let ?e = "normalizeEvent (elLower L) (icEvent c)"
  obtain row where row: "edEvents db' = edEvents db @ [row]" "elUUID L (deTenantID ?e) = Some (dtTenant row)"
      "elUUID L (deEventID ?e) = Some (dtEventID row)" "dtEvent row = ?e"
      "canonicalPayload L ?e = Some (dtPayload row, dtRequestHash row)"
      "dedupeRow db (dtTenant row) (deDedupeKey ?e) = None"
    using assms by (auto simp: ingestAdds_def Let_def)
  have key: "eventKey L c = (Some (dtTenant row), deDedupeKey ?e)" by (simp add: eventKey_def Let_def row(2))
  have "storedEvent db' k = ((storedEvent db)(eventKey L c \<mapsto> (eventHash L c, canonEventID L (deEventID ?e)))) k" for k
  proof (cases "fst k")
    case None
    then have "k \<noteq> eventKey L c" using key by auto
    then show ?thesis using None by (simp add: storedEvent_def)
  next
    case (Some t)
    then show ?thesis
      using row key by (cases k) (auto simp: storedEvent_def dedupeRow_def find_snoc eventHash_def canonEventID_def split: option.splits)
  qed
  then show ?thesis using key row(6) by (auto simp: storedEvent_def)
qed

lemma storedEvent_key:
  "elUUID L (deTenantID (normalizeEvent (elLower L) (icEvent c))) = Some tenant \<Longrightarrow>
   storedEvent db (eventKey L c) = map_option (\<lambda>r. (dtRequestHash r, dtEventID r))
     (dedupeRow db tenant (deDedupeKey (normalizeEvent (elLower L) (icEvent c))))"
  by (simp add: storedEvent_def eventKey_def Let_def)

text \<open>What two answers to one key have in common: the stored id, which a replay repeats.\<close>

definition eventAnswer :: "'j eventLib \<Rightarrow> IngestResult \<Rightarrow> string" where
  "eventAnswer L x = (if irReplayed x then irEventID x else canonEventID L (irEventID x))"

interpretation pgIntake: idempotent_calls "PostgresIngest L" "eventKey L" "eventHash L" "eventAnswer L" irReplayed storedEvent for L
proof (unfold_locales, goal_cases)
  case (1 E c db db' r h i)
  from PostgresIngest_cases [OF 1(1)] show ?case
  proof (elim disjE exE conjE, goal_cases)
    case (2 row tenant)
    then have "Some (h, i) = Some (dtRequestHash row, dtEventID row)" using 1(2) by (simp add: storedEvent_key)
    with 2 show ?case by (cases r) (simp_all add: eventAnswer_def)
  next
    case 3
    with storedEvent_adds [of L E c db db'] 1(2) show ?case by simp
  qed auto
next
  case (2 E c db db' r)
  from PostgresIngest_cases [OF 2(1)] show ?case
  proof (elim disjE exE conjE, goal_cases)
    case (2 row tenant)
    then have "storedEvent db (eventKey L c) \<noteq> None" by (simp add: storedEvent_key)
    with \<open>storedEvent db (eventKey L c) = None\<close> show ?case by simp
  next
    case 3
    with storedEvent_adds [of L E c db db'] show ?case by (auto simp: eventAnswer_def)
  qed auto
qed

text \<open>The memory repository provides the interface as well; its ids are kept as they were sent.\<close>

definition memoryKey :: "'j eventLib \<Rightarrow> IngestCommand \<Rightarrow> string" where
  "memoryKey L c = (let event = normalizeEvent (elLower L) (icEvent c) in deTenantID event @ '':'' @ deDedupeKey event)"

definition storedMemory :: "eventMemory \<Rightarrow> string \<Rightarrow> (string \<times> string) option" where
  "storedMemory m k = map_option (\<lambda>r. (mrHash r, mrEventID r)) (m k)"

interpretation memIntake: idempotent_calls "\<lambda>_ :: unit. MemoryIngest L" "memoryKey L" "eventHash L" irEventID irReplayed storedMemory for L
proof (unfold_locales, goal_cases)
  case (1 E c db db' r h i)
  then show ?case
    by (auto simp: MemoryIngest_def Let_def storedMemory_def memoryKey_def eventHash_def split: if_splits option.splits)
next
  case (2 E c db db' r)
  then show ?case
    by (auto simp: MemoryIngest_def Let_def storedMemory_def memoryKey_def eventHash_def fun_eq_iff split: if_splits option.splits)
qed

section \<open>The three tables\<close>

definition eventsInv :: "eventDB \<Rightarrow> bool" where
  "eventsInv db \<longleftrightarrow>
     list_all2 (\<lambda>e m. obTenant m = dtTenant e \<and> obPayload m = dtPayload e \<and> obTopic m = OutboxTopic)
       (edEvents db) (edOutbox db) \<and>
     list_all2 (\<lambda>e a. arAction a = ''event.accepted'' \<and> arResourceID a = deEventID (dtEvent e))
       (edEvents db) (edAudit db) \<and>
     distinct (map (\<lambda>e. (dtTenant e, deDedupeKey (dtEvent e))) (edEvents db)) \<and>
     distinct (map (\<lambda>e. (dtTenant e, dtEventID e)) (edEvents db)) \<and>
     distinct (map obMessageID (edOutbox db)) \<and>
     (\<forall>e \<in> set (edEvents db). \<not> attendanceReview (deEventType (dtEvent e)))"

inductive eventReach :: "'j eventLib \<Rightarrow> eventDB \<Rightarrow> bool" for L where
  start: "edEvents db = [] \<Longrightarrow> edOutbox db = [] \<Longrightarrow> edAudit db = [] \<Longrightarrow> eventReach L db"
| ingest: "eventReach L db \<Longrightarrow> eventReach L (fst (PostgresIngest L E c db))"

lemma dedupeRow_None: "dedupeRow db t k = None \<longleftrightarrow> (t, k) \<notin> set (map (\<lambda>e. (dtTenant e, deDedupeKey (dtEvent e))) (edEvents db))"
  by (auto simp: dedupeRow_def find_None_iff)

lemma ingestAdds_inv:
  assumes "eventsInv db" "ingestAdds L E c db db'"
  shows "eventsInv db'"
proof -
  obtain row rec event where a: "event = normalizeEvent (elLower L) (icEvent c)"
      "db' = db\<lparr>edEvents := edEvents db @ [row],
        edOutbox := edOutbox db @ [outboxInsert L E (dtTenant row) event (dtPayload row)], edAudit := edAudit db @ [rec]\<rparr>"
      "\<not> attendanceReview (deEventType (icEvent c))" "dtEvent row = event"
      "dedupeRow db (dtTenant row) (deDedupeKey event) = None"
      "\<forall>r \<in> set (edEvents db). dtTenant r = dtTenant row \<longrightarrow> dtEventID r \<noteq> dtEventID row"
      "\<forall>m \<in> set (edOutbox db). obMessageID m \<noteq> eeMessageID E"
      "arAction rec = ''event.accepted''" "arResourceID rec = deEventID event"
    using assms(2) by (auto simp: ingestAdds_def Let_def outboxInsert_def)
  have "\<not> attendanceReview (deEventType event)" using a(1,3) by (simp add: attendanceReview_def normalizeEvent_def)
  with a assms(1) show ?thesis
    unfolding eventsInv_def dedupeRow_None
    by (auto simp: outboxInsert_def list_all2_snoc)
qed

lemma eventReach_inv: "eventReach L db \<Longrightarrow> eventsInv db"
proof (induction rule: eventReach.induct)
  case (start db)
  then show ?case by (simp add: eventsInv_def)
next
  case (ingest db E c)
  obtain db' r where run: "PostgresIngest L E c db = (db', r)" by force
  from PostgresIngest_cases [OF run] ingest.IH ingestAdds_inv [of db L E c db'] run show ?case by auto
qed

section \<open>Properties\<close>

definition wAuditLibS :: "string auditLib" where
  "wAuditLibS = \<lparr>auSha = (\<lambda>x. x), auMarshalEvent = (\<lambda>e. Some (caAction e)), auMarshalState = Some,
     auDate = (\<lambda>t. ''d''), auNano = (\<lambda>t. ''n''), auUUID = Some\<rparr>"

definition wEventLib :: "string eventLib" where
  "wEventLib = \<lparr>elAudit = wAuditLibS, elMarshal = (\<lambda>e. Some (deEventID e)), elParses = (\<lambda>_. True), elUUID = Some,
     elLower = (\<lambda>x. x), elAny = deEventID, elNil = ''null'', elHeaders = ''{}''\<rparr>"

definition wEventEnv :: "string \<Rightarrow> eventEnv" where
  "wEventEnv m = \<lparr>eeNow = 7, eeClock = 7, eeMessageID = m, eeFails = (\<lambda>_. False), eeInsertCode = None,
     eeAudit = (\<lambda>_. False), eeCommitApplied = True\<rparr>"

definition wIngest :: "string \<Rightarrow> IngestCommand" where
  "wIngest i = \<lparr>icActorID = ''a'', icRequestID = ''r'', icEvent = \<lparr>deEventID = i, deTenantID = ''t'', deDedupeKey = ''k'',
     deOccurredAt = 5, deSiteID = ''s'', deCameraID = ''c'', deZoneID = ''z'', deEventType = ''intrusion'',
     deModelVersion = ''m'', deConfidence = Fin 0, deEvidenceRefs = [], deRequiresHumanReview = True,
     deReviewState = ''pending'', deObservedBehavior = [], deSubjectClass = []\<rparr>\<rparr>"

definition wEventDB :: eventDB where
  "wEventDB = \<lparr>edSites = (\<lambda>_ _. True), edEvents = [], edOutbox = [], edAudit = []\<rparr>"

text \<open>C27: Event intake is idempotent: of any two accepted calls with the same tenant and dedupe key, the later
  one carries the same request hash, is a replay, and answers with the event id of the earlier one, whatever
  other calls and database failures lie between them.\<close>

theorem ingest_idempotent:
  assumes "i < j" "j < length calls" "eventKey L (snd (calls ! i)) = eventKey L (snd (calls ! j))"
    "snd (runCalls (PostgresIngest L) calls db) ! i = Inr x" "snd (runCalls (PostgresIngest L) calls db) ! j = Inr y"
  shows "eventHash L (snd (calls ! j)) = eventHash L (snd (calls ! i)) \<and> irReplayed y \<and>
    irEventID y = (if irReplayed x then irEventID x else canonEventID L (irEventID x))"
  using pgIntake.once_decided [OF assms] by (auto simp: eventAnswer_def)

theorem ingest_idempotent_witness:
  "\<exists>y. snd (runCalls (PostgresIngest wEventLib) [(wEventEnv ''m1'', wIngest ''e''), (wEventEnv ''m2'', wIngest ''e'')] wEventDB) ! 1 = Inr y \<and>
     irReplayed y \<and> irEventID y = ''e''"
proof -
  let ?calls = "[(wEventEnv ''m1'', wIngest ''e''), (wEventEnv ''m2'', wIngest ''e'')]"
  have x: "snd (runCalls (PostgresIngest wEventLib) ?calls wEventDB) ! 0 = Inr \<lparr>irEventID = ''e'', irAccepted = True, irReplayed = False\<rparr>"
    by code_simp
  have "case snd (runCalls (PostgresIngest wEventLib) ?calls wEventDB) ! 1 of Inr y \<Rightarrow> True | Inl _ \<Rightarrow> False" by code_simp
  then obtain y where y: "snd (runCalls (PostgresIngest wEventLib) ?calls wEventDB) ! 1 = Inr y" by (auto split: sum.splits)
  from ingest_idempotent [OF _ _ _ x y] have "irReplayed y \<and> irEventID y = ''e''" by (simp add: canonEventID_def wEventLib_def)
  with y show ?thesis by blast
qed

text \<open>C28: The event, outbox and audit tables stay in step: in every reachable state the n-th event has the n-th
  outbox message, with its tenant and payload, and the n-th audit record; no dedupe key, event id or message id
  occurs twice, and no attendance event was stored.\<close>

theorem ingest_atomic:
  assumes "eventReach L db"
  shows "eventsInv db"
  by (rule eventReach_inv [OF assms])

theorem ingest_atomic_witness:
  "eventsInv (fst (PostgresIngest wEventLib (wEventEnv ''m'') (wIngest ''e'') wEventDB)) \<and>
   length (edOutbox (fst (PostgresIngest wEventLib (wEventEnv ''m'') (wIngest ''e'') wEventDB))) = 1"
proof -
  have "eventReach wEventLib (fst (PostgresIngest wEventLib (wEventEnv ''m'') (wIngest ''e'') wEventDB))"
    by (rule eventReach.ingest, rule eventReach.start) (simp_all add: wEventDB_def)
  from ingest_atomic [OF this] show ?thesis
    by (simp, code_simp)
qed

end
