(* ===== verification/Alerting.thy ===== *)
theory Alerting
  imports Eventing Realtime
begin

text \<open>
  The operator queue, \<open>backend/internal/alerting\<close>: the projection of outbox messages to alerts
  (\<open>projection.go\<close>) and the acknowledgment workflow (\<open>workflow.go\<close>), over PostgreSQL and in memory.

  The tables are lists of rows with the constraints of the schema; row-level security confines every
  statement to the tenant of the transaction. The audit chain and the replay buffer are those of
  \<open>Audit_Chain\<close> and \<open>Realtime\<close>. The field \<open>llStamp\<close> of \<open>alertLib\<close> is the instant a \<open>timestamptz\<close> column
  keeps of a time; its other fields are JSON, UUIDs and the conversion to \<open>any\<close>. An \<open>alertEnv\<close> holds
  clocks, fresh identifiers and failing calls. Advisory and row locks serialize the calls that touch
  the same rows, so a call is one step.
\<close>

section \<open>Data\<close>

definition ConsumerName :: string where "ConsumerName = ''alert-projector-v1''"

record Alert =
  alID :: string
  alTenantID :: string
  alEventID :: string
  alSiteID :: string
  alCameraID :: string
  alZoneID :: string
  alEventType :: string
  alSeverity :: string
  alStatus :: string
  alConfidence :: float64
  alOccurredAt :: gotime
  alCreatedAt :: gotime
  alAckedAt :: "gotime option"
  alAckedBy :: string

record alertRow =
  arwAlert :: Alert
  arwPriority :: int

record alertAction =
  aaTenant :: string
  aaAlert :: string
  aaActor :: string
  aaRequest :: string

record AcknowledgeCommand =
  akTenantID :: string
  akSiteID :: string
  akAlertID :: string
  akActorID :: string
  akRequestID :: string
  akIdempotencyKey :: string

record AcknowledgeResult =
  akrAlert :: Alert
  akrReplayed :: bool

datatype alCall =
    AlBegin | AlSetTenant | AlList | AlScan | AlRows | AlReceipt | AlInsert | AlLock | AlReplay | AlDecode
  | AlSelect | AlUpdate | AlAction | AlStore | AlSequence | AlMessage | AlCommit

datatype alertError =
    ErrAlertNotFound | ErrAlertStateConflict | ErrIdempotencyConflict
  | AlInvalidTenant | AlInvalidSite | AlTopic string | AlDecodeEvent | AlTenantMismatch | AlInvalidIdentifier
  | AlActorRequired | AlKeyRequired | AlEncode | AlDatabase alCall | AlAudit auditError | AlRealtime realtimeError

record 'j alertLib =
  llAudit :: "'j auditLib"
  llParses :: "string \<Rightarrow> bool"
  llUUID :: "string \<Rightarrow> string option"
  llStamp :: "gotime \<Rightarrow> gotime"
  llUnmarshalEvent :: "bytes \<Rightarrow> DetectionEvent option"
  llMarshal :: "Alert \<Rightarrow> bytes option"
  llUnmarshal :: "bytes \<Rightarrow> Alert option"
  llCreated :: "Alert \<Rightarrow> bytes option"
  llState :: "Alert \<Rightarrow> bytes option"
  llAny :: "Alert \<Rightarrow> 'j"
  llNil :: 'j

record alertEnv =
  lnNow :: gotime
  lnClock :: gotime
  lnAlertID :: string
  lnFails :: "alCall \<Rightarrow> bool"
  lnAudit :: "auditCall \<Rightarrow> bool"
  lnCommitApplied :: bool

record alertDB =
  adReceipts :: "(string \<times> string \<times> string) list"
  adAlerts :: "alertRow list"
  adActions :: "alertAction list"
  adIdempotency :: "string \<times> string \<rightharpoonup> string \<times> bytes"
  adAudit :: "auditRow list"
  adRealtime :: realtimeDB

section \<open>Reading the queue\<close>

definition alertBeginTx :: "'j alertLib \<Rightarrow> alertEnv \<Rightarrow> string \<Rightarrow> alertError + string" where
  "alertBeginTx L E tenantID =
     (if \<not> llParses L tenantID then Inl AlInvalidTenant
      else if lnFails E AlBegin then Inl (AlDatabase AlBegin)
      else if lnFails E AlSetTenant then Inl (AlDatabase AlSetTenant)
      else (case llUUID L tenantID of None \<Rightarrow> Inl (AlDatabase AlSelect) | Some tenant \<Rightarrow> Inr tenant))"

text \<open>\<open>ORDER BY priority DESC, occurred_at, alert_id LIMIT 100\<close> over the rows of the tenant.\<close>

definition queueRows :: "string \<Rightarrow> string option \<Rightarrow> alertRow list \<Rightarrow> Alert list" where
  "queueRows tenant site rows =
     map arwAlert (take 100
       (sort_key (\<lambda>r. (- arwPriority r, alOccurredAt (arwAlert r), alID (arwAlert r)))
         (filter (\<lambda>r. alTenantID (arwAlert r) = tenant \<and>
           (case site of None \<Rightarrow> True | Some s \<Rightarrow> alSiteID (arwAlert r) = s)) rows)))"

definition alertList :: "'j alertLib \<Rightarrow> alertEnv \<Rightarrow> string \<Rightarrow> string \<Rightarrow> alertDB \<Rightarrow> alertError + Alert list" where
  "alertList L E tenantID siteID db =
     (case alertBeginTx L E tenantID of
        Inl err \<Rightarrow> Inl err
      | Inr tenant \<Rightarrow>
          (case (if siteID = [] then Some None else map_option Some (llUUID L siteID)) of
             None \<Rightarrow> Inl (AlDatabase AlList)
           | Some site \<Rightarrow>
               if lnFails E AlList then Inl (AlDatabase AlList)
               else if lnFails E AlScan then Inl (AlDatabase AlScan)
               else if lnFails E AlRows then Inl (AlDatabase AlRows)
               else if lnFails E AlCommit then Inl (AlDatabase AlCommit)
               else Inr (queueRows tenant site (adAlerts db))))"

definition alertListAll :: "'j alertLib \<Rightarrow> alertEnv \<Rightarrow> string \<Rightarrow> alertDB \<Rightarrow> alertError + Alert list" where
  "alertListAll L E tenantID db = alertList L E tenantID [] db"

definition alertListSite :: "'j alertLib \<Rightarrow> alertEnv \<Rightarrow> string \<Rightarrow> string \<Rightarrow> alertDB \<Rightarrow> alertError + Alert list" where
  "alertListSite L E tenantID siteID db =
     (if \<not> llParses L siteID then Inl AlInvalidSite else alertList L E tenantID siteID db)"

definition findAlert :: "alertDB \<Rightarrow> (Alert \<Rightarrow> bool) \<Rightarrow> Alert option" where
  "findAlert db P = find P (map arwAlert (adAlerts db))"

definition alertGet :: "'j alertLib \<Rightarrow> alertEnv \<Rightarrow> string \<Rightarrow> string \<Rightarrow> alertDB \<Rightarrow> alertError + Alert" where
  "alertGet L E tenantID alertID db =
     (if \<not> llParses L alertID then Inl ErrAlertNotFound
      else
        (case alertBeginTx L E tenantID of
           Inl err \<Rightarrow> Inl err
         | Inr tenant \<Rightarrow>
             (case llUUID L alertID of
                None \<Rightarrow> Inl (AlDatabase AlSelect)
              | Some aid \<Rightarrow>
                  if lnFails E AlSelect then Inl (AlDatabase AlSelect)
                  else
                    (case findAlert db (\<lambda>a. alTenantID a = tenant \<and> alID a = aid) of
                       None \<Rightarrow> Inl ErrAlertNotFound
                     | Some alert \<Rightarrow> if lnFails E AlCommit then Inl (AlDatabase AlCommit) else Inr alert))))"

section \<open>Projection\<close>

definition classify :: "string \<Rightarrow> string \<times> int" where
  "classify eventType =
     (if eventType \<in> {''weapon_review'', ''fire_review'', ''smoke_review'', ''fall_review'', ''fight_review''}
      then (''critical'', 500)
      else if eventType \<in> {''intrusion'', ''restricted_zone'', ''abandoned_object_review''} then (''high'', 400)
      else if eventType \<in> {''loitering'', ''vehicle_activity'', ''ppe_review'', ''camera_health''} then (''medium'', 300)
      else if eventType = ''attendance_review'' then (''info'', 100)
      else (''low'', 200))"

definition commitAlert :: "alertEnv \<Rightarrow> alertDB \<Rightarrow> alertDB \<Rightarrow> 'a \<Rightarrow> alertDB \<times> (alertError + 'a)" where
  "commitAlert E db db' x =
     (if lnFails E AlCommit then (if lnCommitApplied E then db' else db, Inl (AlDatabase AlCommit)) else (db', Inr x))"

definition projectedAlert :: "alertEnv \<Rightarrow> DetectionEvent \<Rightarrow> Alert" where
  "projectedAlert E event =
     \<lparr>alID = lnAlertID E, alTenantID = deTenantID event, alEventID = deEventID event, alSiteID = deSiteID event,
      alCameraID = deCameraID event, alZoneID = deZoneID event, alEventType = deEventType event,
      alSeverity = fst (classify (deEventType event)), alStatus = ''unacknowledged'',
      alConfidence = deConfidence event, alOccurredAt = deOccurredAt event, alCreatedAt = lnNow E,
      alAckedAt = None, alAckedBy = []\<rparr>"

text \<open>
  The insertion into \<open>alerts.alerts\<close>, under its primary key, the unique event and the foreign key on
  the event; \<open>events\<close> tells which events exist.
\<close>

definition insertAlert ::
  "'j alertLib \<Rightarrow> alertEnv \<Rightarrow> (string \<Rightarrow> string \<Rightarrow> bool) \<Rightarrow> alertDB \<Rightarrow> Alert \<Rightarrow> int \<Rightarrow> alertRow option" where
  "insertAlert L E events db alert priority =
     (case (llUUID L (alID alert), llUUID L (alTenantID alert), llUUID L (alEventID alert), llUUID L (alSiteID alert),
            llUUID L (alCameraID alert), llUUID L (alZoneID alert)) of
        (Some aid, Some tenant, Some eid, Some site, Some camera, Some zone) \<Rightarrow>
          if lnFails E AlInsert \<or> \<not> events tenant eid \<or>
             (\<exists>r \<in> set (adAlerts db). alTenantID (arwAlert r) = tenant \<and>
                (alID (arwAlert r) = aid \<or> alEventID (arwAlert r) = eid))
          then None
          else Some \<lparr>arwAlert = alert\<lparr>alID := aid, alTenantID := tenant, alEventID := eid, alSiteID := site,
                       alCameraID := camera, alZoneID := zone, alOccurredAt := llStamp L (alOccurredAt alert),
                       alCreatedAt := llStamp L (alCreatedAt alert)\<rparr>,
                     arwPriority = priority\<rparr>
      | _ \<Rightarrow> None)"

definition projectAudit :: "'j alertLib \<Rightarrow> string \<Rightarrow> Alert \<Rightarrow> 'j AuditEvent" where
  "projectAudit L messageID alert =
     \<lparr>aeTenantID = alTenantID alert, aeActorID = ''system:alert-projector'', aeAction = ''alert.created'',
      aeResourceType = ''alert'', aeResourceID = alID alert, aeRequestID = messageID,
      aeBeforeState = llNil L, aeAfterState = llAny L alert, aeOccurredAt = alCreatedAt alert\<rparr>"

definition alertRealtime ::
  "'j alertLib \<Rightarrow> alertEnv \<Rightarrow> string \<Rightarrow> string \<Rightarrow> string \<Rightarrow> bytes option \<Rightarrow> realtimeDB \<Rightarrow> realtimeError + (realtimeDB \<times> int)" where
  "alertRealtime L E tenantID siteID topic payload db =
     realtimeAppend (llUUID L) (lnFails E AlSequence) (lnFails E AlMessage) (lnClock E) tenantID siteID topic payload db"

text \<open>The transaction of \<open>Publish\<close> after a new receipt: the alert, its audit record and its notification.\<close>

definition projectAlert ::
  "'j alertLib \<Rightarrow> alertEnv \<Rightarrow> (string \<Rightarrow> string \<Rightarrow> bool) \<Rightarrow> OutboxMessage \<Rightarrow> DetectionEvent \<Rightarrow>
     string \<times> string \<times> string \<Rightarrow> alertDB \<Rightarrow> alertDB \<times> (alertError + unit)" where
  "projectAlert L E events message event receipt db =
     (let alert = projectedAlert E event in
      case insertAlert L E events db alert (snd (classify (deEventType event))) of
        None \<Rightarrow> (db, Inl (AlDatabase AlInsert))
      | Some row \<Rightarrow>
          (case auditAppend (llAudit L) (lnAudit E) (lnNow E) (projectAudit L (omMessageID message) alert) (adAudit db) of
             Inl err \<Rightarrow> (db, Inl (AlAudit err))
           | Inr (audit, _) \<Rightarrow>
               (case alertRealtime L E (alTenantID alert) (alSiteID alert) TopicAlertCreated (llCreated L alert) (adRealtime db) of
                  Inl err \<Rightarrow> (db, Inl (AlRealtime err))
                | Inr (rt, _) \<Rightarrow>
                    commitAlert E db (db\<lparr>adReceipts := adReceipts db @ [receipt], adAlerts := adAlerts db @ [row],
                      adAudit := audit, adRealtime := rt\<rparr>) ())))"

definition Publish ::
  "'j alertLib \<Rightarrow> alertEnv \<Rightarrow> (string \<Rightarrow> string \<Rightarrow> bool) \<Rightarrow> OutboxMessage \<Rightarrow> alertDB \<Rightarrow> alertDB \<times> (alertError + unit)" where
  "Publish L E events message db =
     (if omTopic message \<noteq> OutboxTopic then (db, Inl (AlTopic (omTopic message)))
      else
        (case llUnmarshalEvent L (omPayload message) of
           None \<Rightarrow> (db, Inl AlDecodeEvent)
         | Some event \<Rightarrow>
             if deTenantID event \<noteq> omTenantID message then (db, Inl AlTenantMismatch)
             else
               (case alertBeginTx L E (omTenantID message) of
                  Inl err \<Rightarrow> (db, Inl err)
                | Inr tenant \<Rightarrow>
                    (case llUUID L (omMessageID message) of
                       None \<Rightarrow> (db, Inl (AlDatabase AlReceipt))
                     | Some mid \<Rightarrow>
                         if lnFails E AlReceipt then (db, Inl (AlDatabase AlReceipt))
                         else
                           let receipt = (tenant, ConsumerName, mid) in
                           if receipt \<in> set (adReceipts db) then commitAlert E db db ()
                           else projectAlert L E events message event receipt db))))"

section \<open>Acknowledgment\<close>

definition validateAcknowledge :: "'j alertLib \<Rightarrow> AcknowledgeCommand \<Rightarrow> alertError option" where
  "validateAcknowledge L command =
     (if \<not> list_all (llParses L) [akTenantID command, akSiteID command, akAlertID command, akRequestID command]
      then Some AlInvalidIdentifier
      else if trimSpace (akActorID command) = [] \<or> length (akActorID command) > 128 then Some AlActorRequired
      else if trimSpace (akIdempotencyKey command) = [] \<or> length (akIdempotencyKey command) > 128 then Some AlKeyRequired
      else None)"

definition acknowledgeHash :: "'j alertLib \<Rightarrow> string \<Rightarrow> string" where
  "acknowledgeHash L alertID = hexEncode (auSha (llAudit L) (''acknowledge:'' @ alertID))"

definition ackMatch :: "string \<Rightarrow> string \<Rightarrow> string \<Rightarrow> Alert \<Rightarrow> bool" where
  "ackMatch tenant aid site a \<longleftrightarrow> alTenantID a = tenant \<and> alID a = aid \<and> alSiteID a = site"

definition ackRow :: "'j alertLib \<Rightarrow> alertEnv \<Rightarrow> AcknowledgeCommand \<Rightarrow> alertRow \<Rightarrow> alertRow" where
  "ackRow L E command r = r\<lparr>arwAlert := (arwAlert r)\<lparr>alStatus := ''acknowledged'',
     alAckedAt := Some (llStamp L (lnNow E)), alAckedBy := akActorID command\<rparr>\<rparr>"

definition ackAudit :: "'j alertLib \<Rightarrow> alertEnv \<Rightarrow> AcknowledgeCommand \<Rightarrow> Alert \<Rightarrow> Alert \<Rightarrow> 'j AuditEvent" where
  "ackAudit L E command before after =
     \<lparr>aeTenantID = akTenantID command, aeActorID = akActorID command, aeAction = ''alert.acknowledged'',
      aeResourceType = ''alert'', aeResourceID = akAlertID command, aeRequestID = akRequestID command,
      aeBeforeState = llAny L before, aeAfterState = llAny L after, aeOccurredAt = lnNow E\<rparr>"

text \<open>The transition of a locked, unacknowledged alert with its action, audit record, notification and replay record.\<close>

definition applyAcknowledge ::
  "'j alertLib \<Rightarrow> alertEnv \<Rightarrow> AcknowledgeCommand \<Rightarrow> string \<Rightarrow> string \<Rightarrow> string \<Rightarrow> Alert \<Rightarrow> alertDB \<Rightarrow>
     alertDB \<times> (alertError + AcknowledgeResult)" where
  "applyAcknowledge L E command tenant aid site before db =
     (let match = (\<lambda>r. ackMatch tenant aid site (arwAlert r) \<and> alStatus (arwAlert r) = ''unacknowledged'') in
      if lnFails E AlUpdate then (db, Inl (AlDatabase AlUpdate))
      else if length (filter match (adAlerts db)) \<noteq> 1 then (db, Inl ErrAlertStateConflict)
      else
        let alert = before\<lparr>alStatus := ''acknowledged'', alAckedAt := Some (lnNow E), alAckedBy := akActorID command\<rparr> in
        (case llUUID L (akRequestID command) of
           None \<Rightarrow> (db, Inl (AlDatabase AlAction))
         | Some request \<Rightarrow>
             if lnFails E AlAction \<or> (\<exists>a \<in> set (adActions db). aaTenant a = tenant \<and> aaRequest a = request)
             then (db, Inl (AlDatabase AlAction))
             else
               (case auditAppend (llAudit L) (lnAudit E) (lnNow E) (ackAudit L E command before alert) (adAudit db) of
                  Inl err \<Rightarrow> (db, Inl (AlAudit err))
                | Inr (audit, _) \<Rightarrow>
                    (case alertRealtime L E (akTenantID command) (akSiteID command) TopicAlertState (llState L alert) (adRealtime db) of
                       Inl err \<Rightarrow> (db, Inl (AlRealtime err))
                     | Inr (rt, _) \<Rightarrow>
                         (case llMarshal L alert of
                            None \<Rightarrow> (db, Inl AlEncode)
                          | Some response \<Rightarrow>
                              if lnFails E AlStore then (db, Inl (AlDatabase AlStore))
                              else commitAlert E db
                                (db\<lparr>adAlerts := map (\<lambda>r. if match r then ackRow L E command r else r) (adAlerts db),
                                    adActions := adActions db @ [\<lparr>aaTenant = tenant, aaAlert = aid,
                                      aaActor = akActorID command, aaRequest = request\<rparr>],
                                    adIdempotency := (adIdempotency db)((tenant, akIdempotencyKey command) \<mapsto>
                                      (acknowledgeHash L (akAlertID command), response)),
                                    adAudit := audit, adRealtime := rt\<rparr>)
                                \<lparr>akrAlert = alert, akrReplayed = False\<rparr>)))))"

definition Acknowledge ::
  "'j alertLib \<Rightarrow> alertEnv \<Rightarrow> AcknowledgeCommand \<Rightarrow> alertDB \<Rightarrow> alertDB \<times> (alertError + AcknowledgeResult)" where
  "Acknowledge L E command db =
     (case validateAcknowledge L command of
        Some err \<Rightarrow> (db, Inl err)
      | None \<Rightarrow>
          (case alertBeginTx L E (akTenantID command) of
             Inl err \<Rightarrow> (db, Inl err)
           | Inr tenant \<Rightarrow>
               if lnFails E AlLock then (db, Inl (AlDatabase AlLock))
               else if lnFails E AlReplay then (db, Inl (AlDatabase AlReplay))
               else
                 (case adIdempotency db (tenant, akIdempotencyKey command) of
                    Some (storedHash, storedResponse) \<Rightarrow>
                      if storedHash \<noteq> acknowledgeHash L (akAlertID command) then (db, Inl ErrIdempotencyConflict)
                      else
                        (case llUnmarshal L storedResponse of
                           None \<Rightarrow> (db, Inl (AlDatabase AlDecode))
                         | Some alert \<Rightarrow> commitAlert E db db \<lparr>akrAlert = alert, akrReplayed = True\<rparr>)
                  | None \<Rightarrow>
                      (case (llUUID L (akAlertID command), llUUID L (akSiteID command)) of
                         (Some aid, Some site) \<Rightarrow>
                           if lnFails E AlSelect then (db, Inl (AlDatabase AlSelect))
                           else
                             (case findAlert db (ackMatch tenant aid site) of
                                None \<Rightarrow> (db, Inl ErrAlertNotFound)
                              | Some alert \<Rightarrow>
                                  if alStatus alert \<noteq> ''unacknowledged'' then (db, Inl ErrAlertStateConflict)
                                  else applyAcknowledge L E command tenant aid site alert db)
                       | _ \<Rightarrow> (db, Inl (AlDatabase AlSelect))))))"

section \<open>The memory repository\<close>

type_synonym alertMemory = "Alert list"

definition memoryList :: "string \<Rightarrow> alertMemory \<Rightarrow> Alert list" where
  "memoryList tenantID alerts = filter (\<lambda>a. alTenantID a = tenantID) alerts"

definition memoryListSite :: "string \<Rightarrow> string \<Rightarrow> alertMemory \<Rightarrow> Alert list" where
  "memoryListSite tenantID siteID alerts = filter (\<lambda>a. alTenantID a = tenantID \<and> alSiteID a = siteID) alerts"

definition memoryGet :: "string \<Rightarrow> string \<Rightarrow> alertMemory \<Rightarrow> alertError + Alert" where
  "memoryGet tenantID alertID alerts =
     (case find (\<lambda>a. alTenantID a = tenantID \<and> alID a = alertID) alerts of
        None \<Rightarrow> Inl ErrAlertNotFound
      | Some a \<Rightarrow> Inr a)"

fun memoryAckLoop ::
  "gotime \<Rightarrow> AcknowledgeCommand \<Rightarrow> alertMemory \<Rightarrow> alertMemory \<times> (alertError + AcknowledgeResult)" where
  "memoryAckLoop now command [] = ([], Inl ErrAlertNotFound)"
| "memoryAckLoop now command (alert # alerts) =
     (if alTenantID alert \<noteq> akTenantID command \<or> alSiteID alert \<noteq> akSiteID command \<or> alID alert \<noteq> akAlertID command
      then (let (rest, r) = memoryAckLoop now command alerts in (alert # rest, r))
      else if alStatus alert \<noteq> ''unacknowledged'' then (alert # alerts, Inl ErrAlertStateConflict)
      else
        let acked = alert\<lparr>alStatus := ''acknowledged'', alAckedAt := Some now, alAckedBy := akActorID command\<rparr>
        in (acked # alerts, Inr \<lparr>akrAlert = acked, akrReplayed = False\<rparr>))"

definition MemoryAcknowledge ::
  "'j alertLib \<Rightarrow> gotime \<Rightarrow> AcknowledgeCommand \<Rightarrow> alertMemory \<Rightarrow> alertMemory \<times> (alertError + AcknowledgeResult)" where
  "MemoryAcknowledge L now command alerts =
     (case validateAcknowledge L command of
        Some err \<Rightarrow> (alerts, Inl err)
      | None \<Rightarrow> memoryAckLoop now command alerts)"

end
