(* ===== verification/Alerting_Props.thy ===== *)
theory Alerting_Props
  imports Alerting Idempotency
begin

text \<open>
  Laws of the operator queue: what one projection and one acknowledgment do to the tables, that the
  acknowledgment provides the interface \<open>idempotent_calls\<close>, and that an alert is acknowledged once.
\<close>

section \<open>One projection\<close>

lemma commitAlert_cases:
  "commitAlert E db db1 x = (db', r) \<Longrightarrow> (db' = db \<and> (\<exists>e. r = Inl e)) \<or> (db' = db1 \<and> (\<forall>y. r = Inr y \<longrightarrow> y = x))"
  by (auto simp: commitAlert_def split: if_splits)

lemma commitAlert_same: "commitAlert E db db x = (db', r) \<Longrightarrow> db' = db \<and> (\<forall>y. r = Inr y \<longrightarrow> y = x)"
  by (auto simp: commitAlert_def split: if_splits)

definition projectAdds ::
  "'j alertLib \<Rightarrow> (string \<Rightarrow> string \<Rightarrow> bool) \<Rightarrow> OutboxMessage \<Rightarrow> alertDB \<Rightarrow> alertDB \<Rightarrow> bool" where
  "projectAdds L events m db db' \<longleftrightarrow> (\<exists>event tenant mid row eid.
     llUnmarshalEvent L (omPayload m) = Some event \<and> deTenantID event = omTenantID m \<and>
     llUUID L (omTenantID m) = Some tenant \<and> llUUID L (omMessageID m) = Some mid \<and>
     llUUID L (deEventID event) = Some eid \<and> events tenant eid \<and>
     (tenant, ConsumerName, mid) \<notin> set (adReceipts db) \<and>
     (\<forall>r \<in> set (adAlerts db). alTenantID (arwAlert r) = tenant \<longrightarrow>
        alEventID (arwAlert r) \<noteq> eid \<and> alID (arwAlert r) \<noteq> alID (arwAlert row)) \<and>
     alTenantID (arwAlert row) = tenant \<and> alEventID (arwAlert row) = eid \<and>
     alStatus (arwAlert row) = ''unacknowledged'' \<and> arwPriority row = snd (classify (deEventType event)) \<and>
     alSeverity (arwAlert row) = fst (classify (deEventType event)) \<and>
     adReceipts db' = adReceipts db @ [(tenant, ConsumerName, mid)] \<and> adAlerts db' = adAlerts db @ [row] \<and>
     adActions db' = adActions db \<and> adIdempotency db' = adIdempotency db)"

definition receiptOf :: "'j alertLib \<Rightarrow> OutboxMessage \<Rightarrow> alertDB \<Rightarrow> bool" where
  "receiptOf L m db \<longleftrightarrow> (\<exists>tenant mid. llUUID L (omTenantID m) = Some tenant \<and> llUUID L (omMessageID m) = Some mid \<and>
     (tenant, ConsumerName, mid) \<in> set (adReceipts db))"

lemma insertAlert_Some:
  assumes "insertAlert L E events db alert p = Some row"
  shows "llUUID L (alTenantID alert) = Some (alTenantID (arwAlert row)) \<and> llUUID L (alEventID alert) = Some (alEventID (arwAlert row)) \<and>
    alStatus (arwAlert row) = alStatus alert \<and> alSeverity (arwAlert row) = alSeverity alert \<and> arwPriority row = p \<and>
    events (alTenantID (arwAlert row)) (alEventID (arwAlert row)) \<and>
    (\<forall>r \<in> set (adAlerts db). alTenantID (arwAlert r) = alTenantID (arwAlert row) \<longrightarrow>
       alEventID (arwAlert r) \<noteq> alEventID (arwAlert row) \<and> alID (arwAlert r) \<noteq> alID (arwAlert row))"
  using assms by (auto simp: insertAlert_def split: option.splits if_splits)

lemma projectAlert_cases:
  assumes "projectAlert L E events m event receipt db = (db', r)"
  shows "(db' = db \<and> (\<exists>e. r = Inl e)) \<or> (\<exists>row.
    insertAlert L E events db (projectedAlert E event) (snd (classify (deEventType event))) = Some row \<and>
    adReceipts db' = adReceipts db @ [receipt] \<and> adAlerts db' = adAlerts db @ [row] \<and>
    adActions db' = adActions db \<and> adIdempotency db' = adIdempotency db)"
proof (cases "insertAlert L E events db (projectedAlert E event) (snd (classify (deEventType event)))")
  case None
  then show ?thesis using assms by (auto simp: projectAlert_def)
next
  case (Some row)
  then show ?thesis
    using assms unfolding projectAlert_def Let_def
    by (auto split: sum.split_asm prod.split_asm dest!: commitAlert_cases)
qed

lemma Publish_cases:
  assumes "Publish L E events m db = (db', r)"
  shows "(db' = db \<and> (\<exists>e. r = Inl e)) \<or> (db' = db \<and> receiptOf L m db) \<or> projectAdds L events m db db'"
proof -
  consider "db' = db" "\<exists>e. r = Inl e" | event tenant mid where
      "llUnmarshalEvent L (omPayload m) = Some event" "deTenantID event = omTenantID m"
      "llUUID L (omTenantID m) = Some tenant" "llUUID L (omMessageID m) = Some mid"
      "(if (tenant, ConsumerName, mid) \<in> set (adReceipts db) then commitAlert E db db ()
        else projectAlert L E events m event (tenant, ConsumerName, mid) db) = (db', r)"
    using assms by (auto simp: Publish_def alertBeginTx_def Let_def split: if_split_asm option.split_asm)
  then show ?thesis
  proof cases
    case (2 event tenant mid)
    show ?thesis
    proof (cases "(tenant, ConsumerName, mid) \<in> set (adReceipts db)")
      case True
      with 2(5) commitAlert_same [of E db "()" db' r] have "db' = db" by simp
      with True 2(3,4) show ?thesis unfolding receiptOf_def by blast
    next
      case False
      with 2(5) have "projectAlert L E events m event (tenant, ConsumerName, mid) db = (db', r)" by simp
      from projectAlert_cases [OF this] show ?thesis
      proof
        assume "\<exists>row. insertAlert L E events db (projectedAlert E event) (snd (classify (deEventType event))) = Some row \<and>
          adReceipts db' = adReceipts db @ [(tenant, ConsumerName, mid)] \<and> adAlerts db' = adAlerts db @ [row] \<and>
          adActions db' = adActions db \<and> adIdempotency db' = adIdempotency db"
        then obtain row where row: "insertAlert L E events db (projectedAlert E event) (snd (classify (deEventType event))) = Some row"
          "adReceipts db' = adReceipts db @ [(tenant, ConsumerName, mid)]" "adAlerts db' = adAlerts db @ [row]"
          "adActions db' = adActions db" "adIdempotency db' = adIdempotency db" by blast
        from insertAlert_Some [OF row(1)] have t: "alTenantID (arwAlert row) = tenant"
          using 2(2,3) by (simp add: projectedAlert_def)
        have "projectAdds L events m db db'"
          unfolding projectAdds_def
          by (rule exI [of _ event], rule exI [of _ tenant], rule exI [of _ mid], rule exI [of _ row],
              rule exI [of _ "alEventID (arwAlert row)"])
            (use insertAlert_Some [OF row(1)] row(2-) 2(1-4) False t in \<open>simp add: projectedAlert_def\<close>)
        then show ?thesis by blast
      qed blast
    qed
  qed blast
qed

lemma Publish_receipt: "Publish L E events m db = (db', Inr u) \<Longrightarrow> receiptOf L m db'"
  using Publish_cases [of L E events m db db' "Inr u"]
  by (auto simp: receiptOf_def projectAdds_def)

section \<open>One acknowledgment\<close>

definition ackKey :: "'j alertLib \<Rightarrow> AcknowledgeCommand \<Rightarrow> string option \<times> string" where
  "ackKey L c = (llUUID L (akTenantID c), akIdempotencyKey c)"

definition storedAck :: "'j alertLib \<Rightarrow> alertDB \<Rightarrow> string option \<times> string \<Rightarrow> (string \<times> Alert option) option" where
  "storedAck L db k = (case fst k of None \<Rightarrow> None
     | Some tenant \<Rightarrow> map_option (\<lambda>(h, response). (h, llUnmarshal L response)) (adIdempotency db (tenant, snd k)))"

definition ackAnswer :: "'j alertLib \<Rightarrow> AcknowledgeResult \<Rightarrow> Alert option" where
  "ackAnswer L x = (if akrReplayed x then Some (akrAlert x)
     else (case llMarshal L (akrAlert x) of None \<Rightarrow> None | Some b \<Rightarrow> llUnmarshal L b))"

definition unackedMatch :: "string \<Rightarrow> string \<Rightarrow> string \<Rightarrow> alertRow \<Rightarrow> bool" where
  "unackedMatch tenant aid site r \<longleftrightarrow> ackMatch tenant aid site (arwAlert r) \<and> alStatus (arwAlert r) = ''unacknowledged''"

definition ackAdds :: "'j alertLib \<Rightarrow> alertEnv \<Rightarrow> AcknowledgeCommand \<Rightarrow> alertDB \<Rightarrow> alertDB \<Rightarrow> AcknowledgeResult \<Rightarrow> bool" where
  "ackAdds L E c db db' x \<longleftrightarrow> (\<exists>tenant aid site response request.
     llUUID L (akTenantID c) = Some tenant \<and> llUUID L (akAlertID c) = Some aid \<and> llUUID L (akSiteID c) = Some site \<and>
     adIdempotency db (tenant, akIdempotencyKey c) = None \<and>
     length (filter (unackedMatch tenant aid site) (adAlerts db)) = 1 \<and> \<not> akrReplayed x \<and>
     alID (akrAlert x) = aid \<and> alTenantID (akrAlert x) = tenant \<and> alAckedBy (akrAlert x) = akActorID c \<and>
     llMarshal L (akrAlert x) = Some response \<and> adReceipts db' = adReceipts db \<and>
     adAlerts db' = map (\<lambda>r. if unackedMatch tenant aid site r then ackRow L E c r else r) (adAlerts db) \<and>
     adActions db' = adActions db @ [\<lparr>aaTenant = tenant, aaAlert = aid, aaActor = akActorID c, aaRequest = request\<rparr>] \<and>
     adIdempotency db' = (adIdempotency db)((tenant, akIdempotencyKey c) \<mapsto> (acknowledgeHash L (akAlertID c), response)))"

lemma applyAcknowledge_cases:
  assumes "applyAcknowledge L E c tenant aid site before db = (db', r)" "ackMatch tenant aid site before"
    "llUUID L (akTenantID c) = Some tenant" "llUUID L (akAlertID c) = Some aid" "llUUID L (akSiteID c) = Some site"
    "adIdempotency db (tenant, akIdempotencyKey c) = None"
  shows "(db' = db \<and> (\<exists>e. r = Inl e)) \<or> (\<exists>x. ackAdds L E c db db' x \<and> (\<forall>y. r = Inr y \<longrightarrow> y = x))"
proof -
  let ?alert = "before\<lparr>alStatus := ''acknowledged'', alAckedAt := Some (lnNow E), alAckedBy := akActorID c\<rparr>"
  let ?x = "\<lparr>akrAlert = ?alert, akrReplayed = False\<rparr>"
  have um: "(\<lambda>r. ackMatch tenant aid site (arwAlert r) \<and> alStatus (arwAlert r) = ''unacknowledged'') = unackedMatch tenant aid site"
    by (simp add: unackedMatch_def fun_eq_iff)
  have "(db' = db \<and> (\<exists>e. r = Inl e)) \<or> (\<exists>request response audit rt.
      length (filter (unackedMatch tenant aid site) (adAlerts db)) = 1 \<and> llMarshal L ?alert = Some response \<and>
      commitAlert E db (db\<lparr>adAlerts := map (\<lambda>r. if unackedMatch tenant aid site r then ackRow L E c r else r) (adAlerts db),
        adActions := adActions db @ [\<lparr>aaTenant = tenant, aaAlert = aid, aaActor = akActorID c, aaRequest = request\<rparr>],
        adIdempotency := (adIdempotency db)((tenant, akIdempotencyKey c) \<mapsto> (acknowledgeHash L (akAlertID c), response)),
        adAudit := audit, adRealtime := rt\<rparr>) ?x = (db', r))"
    using assms(1) unfolding applyAcknowledge_def Let_def um
    by (simp split: if_split_asm option.split_asm sum.split_asm prod.split_asm) blast+
  then show ?thesis
  proof (elim disjE exE conjE, goal_cases)
    case (2 request response audit rt)
    from commitAlert_cases [OF 2(3)] show ?thesis
    proof
      assume db': "db' = db\<lparr>adAlerts := map (\<lambda>r. if unackedMatch tenant aid site r then ackRow L E c r else r) (adAlerts db),
        adActions := adActions db @ [\<lparr>aaTenant = tenant, aaAlert = aid, aaActor = akActorID c, aaRequest = request\<rparr>],
        adIdempotency := (adIdempotency db)((tenant, akIdempotencyKey c) \<mapsto> (acknowledgeHash L (akAlertID c), response)),
        adAudit := audit, adRealtime := rt\<rparr> \<and> (\<forall>y. r = Inr y \<longrightarrow> y = ?x)"
      have "ackAdds L E c db db' ?x"
        unfolding ackAdds_def
        by (rule exI [of _ tenant], rule exI [of _ aid], rule exI [of _ site], rule exI [of _ response], rule exI [of _ request])
          (use assms(2-6) 2(1,2) db' in \<open>simp add: ackMatch_def\<close>)
      with db' show ?thesis by blast
    qed blast
  qed blast
qed

lemma Acknowledge_cases:
  assumes "Acknowledge L E c db = (db', r)"
  shows "(db' = db \<and> (\<exists>e. r = Inl e)) \<or>
    (\<exists>tenant response a. llUUID L (akTenantID c) = Some tenant \<and> db' = db \<and>
      adIdempotency db (tenant, akIdempotencyKey c) = Some (acknowledgeHash L (akAlertID c), response) \<and>
      llUnmarshal L response = Some a \<and> (\<forall>y. r = Inr y \<longrightarrow> y = \<lparr>akrAlert = a, akrReplayed = True\<rparr>)) \<or>
    (\<exists>x. ackAdds L E c db db' x \<and> (\<forall>y. r = Inr y \<longrightarrow> y = x))"
proof -
  consider "db' = db" "\<exists>e. r = Inl e" | tenant response a where
      "llUUID L (akTenantID c) = Some tenant"
      "adIdempotency db (tenant, akIdempotencyKey c) = Some (acknowledgeHash L (akAlertID c), response)"
      "llUnmarshal L response = Some a" "commitAlert E db db \<lparr>akrAlert = a, akrReplayed = True\<rparr> = (db', r)" |
    tenant aid site before where "llUUID L (akTenantID c) = Some tenant" "llUUID L (akAlertID c) = Some aid"
      "llUUID L (akSiteID c) = Some site" "adIdempotency db (tenant, akIdempotencyKey c) = None"
      "findAlert db (ackMatch tenant aid site) = Some before"
      "applyAcknowledge L E c tenant aid site before db = (db', r)"
    using assms by (auto simp: Acknowledge_def alertBeginTx_def split: if_split_asm option.split_asm)
  then show ?thesis
  proof cases
    case (2 tenant response a)
    from commitAlert_same [OF 2(4)] 2(1-3) show ?thesis by blast
  next
    case (3 tenant aid site before)
    have "ackMatch tenant aid site before" using 3(5) by (auto simp: findAlert_def find_Some_iff)
    from applyAcknowledge_cases [OF 3(6) this 3(1-4)] show ?thesis by blast
  qed blast
qed

lemma storedAck_key:
  "llUUID L (akTenantID c) = Some tenant \<Longrightarrow>
   storedAck L db (ackKey L c) = map_option (\<lambda>(h, response). (h, llUnmarshal L response)) (adIdempotency db (tenant, akIdempotencyKey c))"
  by (simp add: storedAck_def ackKey_def)

lemma storedAck_adds:
  assumes "ackAdds L E c db db' x"
  shows "storedAck L db (ackKey L c) = None \<and>
    storedAck L db' = (storedAck L db)(ackKey L c \<mapsto> (acknowledgeHash L (akAlertID c), ackAnswer L x))"
proof -
  obtain tenant response where a: "llUUID L (akTenantID c) = Some tenant" "adIdempotency db (tenant, akIdempotencyKey c) = None"
      "llMarshal L (akrAlert x) = Some response" "\<not> akrReplayed x"
      "adIdempotency db' = (adIdempotency db)((tenant, akIdempotencyKey c) \<mapsto> (acknowledgeHash L (akAlertID c), response))"
    using assms by (auto simp: ackAdds_def)
  have "storedAck L db' k = ((storedAck L db)(ackKey L c \<mapsto> (acknowledgeHash L (akAlertID c), ackAnswer L x))) k" for k
    using a by (cases k) (auto simp: storedAck_def ackKey_def ackAnswer_def split: option.split)
  then show ?thesis using a(1,2) by (auto simp: storedAck_key)
qed

interpretation ackCalls: idempotent_calls "Acknowledge L" "ackKey L" "\<lambda>c. acknowledgeHash L (akAlertID c)" "ackAnswer L"
    akrReplayed "storedAck L" for L
proof (unfold_locales, goal_cases)
  case (1 E c db db' r h v)
  from Acknowledge_cases [OF 1(1)] show ?case
  proof (elim disjE exE conjE, goal_cases)
    case (2 tenant response a)
    then have "(h, v) = (acknowledgeHash L (akAlertID c), Some a)" using 1(2) by (simp add: storedAck_key)
    with 2 show ?case by (cases r) (simp_all add: ackAnswer_def)
  next
    case (3 x)
    with storedAck_adds [of L E c db db' x] 1(2) show ?case by simp
  qed auto
next
  case (2 E c db db' r)
  from Acknowledge_cases [OF 2(1)] show ?case
  proof (elim disjE exE conjE, goal_cases)
    case (2 tenant response a)
    then have "storedAck L db (ackKey L c) \<noteq> None" by (simp add: storedAck_key)
    with \<open>storedAck L db (ackKey L c) = None\<close> show ?case by simp
  next
    case (3 x)
    have "\<not> akrReplayed x" using 3(1) by (auto simp: ackAdds_def)
    with 3 storedAck_adds [of L E c db db' x] show ?case by auto
  qed auto
qed

section \<open>An alert is acknowledged once\<close>

definition alertKey :: "Alert \<Rightarrow> string \<times> string" where
  "alertKey a = (alTenantID a, alID a)"

definition alertKeys :: "alertDB \<Rightarrow> (string \<times> string) list" where
  "alertKeys db = map (\<lambda>r. alertKey (arwAlert r)) (adAlerts db)"

definition unackedKeys :: "alertDB \<Rightarrow> (string \<times> string) set" where
  "unackedKeys db = (\<lambda>r. alertKey (arwAlert r)) ` {r \<in> set (adAlerts db). alStatus (arwAlert r) = ''unacknowledged''}"

lemma ackRow_simps [simp]:
  "alertKey (arwAlert (ackRow L E c r)) = alertKey (arwAlert r)"
  "alStatus (arwAlert (ackRow L E c r)) = ''acknowledged''"
  "alEventID (arwAlert (ackRow L E c r)) = alEventID (arwAlert r)"
  "alTenantID (arwAlert (ackRow L E c r)) = alTenantID (arwAlert r)"
  by (simp_all add: ackRow_def alertKey_def)

lemma ackAdds_keys: "ackAdds L E c db db' x \<Longrightarrow> alertKeys db' = alertKeys db \<and> unackedKeys db' \<subseteq> unackedKeys db"
  by (auto simp: ackAdds_def alertKeys_def unackedKeys_def split: if_splits)

lemma ackAdds_acked:
  assumes "ackAdds L E c db db' x" "distinct (alertKeys db)"
  shows "alertKey (akrAlert x) \<in> unackedKeys db \<and> alertKey (akrAlert x) \<notin> unackedKeys db'"
proof -
  obtain tenant aid site where a: "length (filter (unackedMatch tenant aid site) (adAlerts db)) = 1"
      "alertKey (akrAlert x) = (tenant, aid)"
      "adAlerts db' = map (\<lambda>r. if unackedMatch tenant aid site r then ackRow L E c r else r) (adAlerts db)"
    using assms(1) by (auto simp: ackAdds_def alertKey_def)
  obtain q where q: "q \<in> set (adAlerts db)" "unackedMatch tenant aid site q"
    using a(1) filter_False [of "adAlerts db" "unackedMatch tenant aid site"] by fastforce
  then have key: "alertKey (arwAlert q) = (tenant, aid)" "alStatus (arwAlert q) = ''unacknowledged''"
    by (auto simp: unackedMatch_def ackMatch_def alertKey_def)
  have "r = q" if "r \<in> set (adAlerts db)" "alertKey (arwAlert r) = (tenant, aid)" for r
    by (rule inj_onD [of "\<lambda>r. alertKey (arwAlert r)" "set (adAlerts db)"])
      (use assms(2) that q(1) key(1) in \<open>simp_all add: alertKeys_def distinct_map\<close>)
  then have "alStatus (arwAlert r) \<noteq> ''unacknowledged''"
    if "r \<in> set (adAlerts db')" "alertKey (arwAlert r) = (tenant, aid)" for r
    using that q(2) unfolding a(3) by (auto split: if_splits)
  then show ?thesis using q(1) key unfolding unackedKeys_def a(2) by (auto simp: image_iff intro!: bexI [of _ q])
qed

lemma Acknowledge_keys:
  "Acknowledge L E c db = (db', r) \<Longrightarrow> alertKeys db' = alertKeys db \<and> unackedKeys db' \<subseteq> unackedKeys db"
  using Acknowledge_cases [of L E c db db' r] ackAdds_keys [of L E c db db'] by blast

lemma Acknowledge_fresh:
  assumes "Acknowledge L E c db = (db', Inr x)" "\<not> akrReplayed x"
  shows "ackAdds L E c db db' x"
  using Acknowledge_cases [OF assms(1)] assms(2) by auto

lemma ackRun_keys:
  "alertKeys (fst (runCalls (Acknowledge L) calls db)) = alertKeys db \<and>
   unackedKeys (fst (runCalls (Acknowledge L) calls db)) \<subseteq> unackedKeys db"
  by (rule runCalls_invariant) (simp, use Acknowledge_keys subset_trans in metis)

lemma ack_not_twice:
  assumes "distinct (alertKeys db)" "i < j" "j < length calls"
    "snd (runCalls (Acknowledge L) calls db) ! i = Inr x" "\<not> akrReplayed x"
    "snd (runCalls (Acknowledge L) calls db) ! j = Inr y" "\<not> akrReplayed y"
  shows "alertKey (akrAlert x) \<noteq> alertKey (akrAlert y)"
proof -
  let ?s = "\<lambda>n. fst (runCalls (Acknowledge L) (take n calls) db)"
  have dist: "distinct (alertKeys (?s n))" for n using assms(1) ackRun_keys [of L _ db] by simp
  note at = runCalls_nth [of _ calls "Acknowledge L" db]
  have "ackAdds L (fst (calls ! i)) (snd (calls ! i)) (?s i) (?s (Suc i)) x"
    using at [of i] assms by (intro Acknowledge_fresh) simp_all
  then have x: "alertKey (akrAlert x) \<notin> unackedKeys (?s (Suc i))" using ackAdds_acked dist by blast
  have "ackAdds L (fst (calls ! j)) (snd (calls ! j)) (?s j) (?s (Suc j)) y"
    using at [of j] assms by (intro Acknowledge_fresh) simp_all
  then have y: "alertKey (akrAlert y) \<in> unackedKeys (?s j)" using ackAdds_acked dist by blast
  have "unackedKeys (?s j) \<subseteq> unackedKeys (?s (Suc i))"
    unfolding runCalls_take [of "Suc i" j "Acknowledge L" calls db, OF Suc_leI [OF assms(2)]]
    by (rule ackRun_keys [THEN conjunct2])
  with x y show ?thesis by auto
qed

section \<open>Properties\<close>

definition wAlertLib :: "string alertLib" where
  "wAlertLib = \<lparr>llAudit = \<lparr>auSha = (\<lambda>x. x), auMarshalEvent = (\<lambda>e. Some (caAction e)), auMarshalState = Some,
       auDate = (\<lambda>t. ''d''), auNano = (\<lambda>t. ''n''), auUUID = Some\<rparr>,
     llParses = (\<lambda>_. True), llUUID = Some, llStamp = (\<lambda>t. t), llUnmarshalEvent = (\<lambda>_. None),
     llMarshal = (\<lambda>a. if a = \<lparr>alID = ''a'', alTenantID = ''t'', alEventID = ''e'', alSiteID = ''s'', alCameraID = ''c'',
       alZoneID = ''z'', alEventType = ''intrusion'', alSeverity = ''high'', alStatus = ''acknowledged'', alConfidence = Fin 0,
       alOccurredAt = 1, alCreatedAt = 2, alAckedAt = Some 7, alAckedBy = ''op''\<rparr> then Some ''A'' else None),
     llUnmarshal = (\<lambda>b. if b = ''A'' then Some \<lparr>alID = ''a'', alTenantID = ''t'', alEventID = ''e'', alSiteID = ''s'', alCameraID = ''c'',
       alZoneID = ''z'', alEventType = ''intrusion'', alSeverity = ''high'', alStatus = ''acknowledged'', alConfidence = Fin 0,
       alOccurredAt = 1, alCreatedAt = 2, alAckedAt = Some 7, alAckedBy = ''op''\<rparr> else None),
     llCreated = (\<lambda>_. Some ''C''), llState = (\<lambda>_. Some ''S''), llAny = alID, llNil = ''null''\<rparr>"

definition wAlertEnv :: alertEnv where
  "wAlertEnv = \<lparr>lnNow = 7, lnClock = 7, lnAlertID = ''a'', lnFails = (\<lambda>_. False), lnAudit = (\<lambda>_. False), lnCommitApplied = True\<rparr>"

definition wAlertDB :: alertDB where
  "wAlertDB = \<lparr>adReceipts = [], adAlerts = [\<lparr>arwAlert = \<lparr>alID = ''a'', alTenantID = ''t'', alEventID = ''e'', alSiteID = ''s'',
       alCameraID = ''c'', alZoneID = ''z'', alEventType = ''intrusion'', alSeverity = ''high'', alStatus = ''unacknowledged'',
       alConfidence = Fin 0, alOccurredAt = 1, alCreatedAt = 2, alAckedAt = None, alAckedBy = []\<rparr>, arwPriority = 400\<rparr>],
     adActions = [], adIdempotency = (\<lambda>_. None), adAudit = [], adRealtime = \<lparr>dbSequences = (\<lambda>_. None), dbMessages = []\<rparr>\<rparr>"

definition wAck :: AcknowledgeCommand where
  "wAck = \<lparr>akTenantID = ''t'', akSiteID = ''s'', akAlertID = ''a'', akActorID = ''op'', akRequestID = ''r'', akIdempotencyKey = ''k''\<rparr>"

text \<open>C16: An alert is acknowledged once, and a retry repeats the answer: of two successful calls, one with the
  idempotency key of an earlier one returns the same alert as a replay, and two that are no replays acknowledged
  different alerts, whatever calls and failures lie between them.\<close>

theorem acknowledge_once:
  assumes "distinct (alertKeys db)" "i < j" "j < length calls"
    "\<And>a b. llMarshal L a = Some b \<Longrightarrow> llUnmarshal L b = Some a"
    "snd (runCalls (Acknowledge L) calls db) ! i = Inr x" "snd (runCalls (Acknowledge L) calls db) ! j = Inr y"
  shows "(ackKey L (snd (calls ! i)) = ackKey L (snd (calls ! j)) \<longrightarrow> akrReplayed y \<and> akrAlert y = akrAlert x) \<and>
    (\<not> akrReplayed x \<longrightarrow> \<not> akrReplayed y \<longrightarrow> alertKey (akrAlert x) \<noteq> alertKey (akrAlert y))"
proof (intro conjI impI)
  assume "ackKey L (snd (calls ! i)) = ackKey L (snd (calls ! j))"
  from ackCalls.once_decided [OF assms(2,3) this assms(5,6)]
  show "akrReplayed y" "akrAlert y = akrAlert x"
    by (auto simp: ackAnswer_def assms(4) split: if_splits option.splits)
qed (rule ack_not_twice [OF assms(1-3,5) _ assms(6)])

theorem acknowledge_once_witness:
  "\<exists>x y. snd (runCalls (Acknowledge wAlertLib) [(wAlertEnv, wAck), (wAlertEnv, wAck)] wAlertDB) = [Inr x, Inr y] \<and>
     akrReplayed y \<and> akrAlert y = akrAlert x"
proof -
  let ?calls = "[(wAlertEnv, wAck), (wAlertEnv, wAck)]" and ?rs = "snd (runCalls (Acknowledge wAlertLib) [(wAlertEnv, wAck), (wAlertEnv, wAck)] wAlertDB)"
  have "case ?rs of [Inr x, Inr y] \<Rightarrow> True | _ \<Rightarrow> False" by code_simp
  then obtain x y where rs: "?rs = [Inr x, Inr y]" by (auto split: list.splits sum.splits)
  have "distinct (alertKeys wAlertDB)" by (simp add: alertKeys_def wAlertDB_def)
  moreover have "llMarshal wAlertLib a = Some b \<Longrightarrow> llUnmarshal wAlertLib b = Some a" for a b
    by (auto simp: wAlertLib_def split: if_splits)
  ultimately have "akrReplayed y \<and> akrAlert y = akrAlert x"
    using acknowledge_once [of wAlertDB 0 1 ?calls wAlertLib x y] rs by simp
  with rs show ?thesis by blast
qed

end
