(* ===== verification/Outbox_Props.thy ===== *)
theory Outbox_Props
  imports Outbox
begin

text \<open>
  Laws of the outbox. The dispatcher is verified against the interface \<open>lease_store\<close>, which the
  PostgreSQL store provides; the claim is verified on the table: it leases the oldest available
  messages exclusively.
\<close>

section \<open>The interface of the dispatcher\<close>

locale lease_store =
  fixes store :: "('e, 's) outboxStore"
    and published :: "'s \<Rightarrow> string set"
    and key :: "string \<Rightarrow> string"
  assumes claim_keeps: "storeClaim store E t w n s = (s', r) \<Longrightarrow> published s' = published s"
    and mark_adds: "storeMarkPublished store E t w m s = (s', u) \<Longrightarrow>
      published s \<subseteq> published s' \<and> published s' \<subseteq> insert (key m) (published s)"
    and mark_sound: "storeMarkPublished store E t w m s = (s', Inr ()) \<Longrightarrow> key m \<in> published s'"
    and release_keeps: "failure \<noteq> [] \<Longrightarrow> storeMarkFailed store E t w m failure s = (s', u) \<Longrightarrow>
      published s' = published s"
begin

lemma loop_published:
  assumes "dispatchLoop store publish t w env n ms s res fs = (s', res', fs')"
    "\<And>m. m \<in> set ms \<Longrightarrow> publish m \<noteq> Some []"
  shows "published s \<subseteq> published s' \<and>
    published s' \<subseteq> published s \<union> {key (omMessageID m) | m. m \<in> set ms \<and> publish m = None}"
  using assms
proof (induction ms arbitrary: n s res fs)
  case (Cons m ms)
  have ms: "publish x \<noteq> Some []" if "x \<in> set ms" for x using Cons.prems(2) that by simp
  show ?case
  proof (cases "publish m")
    case None
    obtain t1 u where run: "storeMarkPublished store (env n) t w (omMessageID m) s = (t1, u)" by force
    note step = mark_adds [OF run]
    have "\<exists>res1 fs1. dispatchLoop store publish t w env (Suc n) ms t1 res1 fs1 = (s', res', fs')"
      using Cons.prems(1) None run by (cases u) auto
    then obtain res1 fs1 where "dispatchLoop store publish t w env (Suc n) ms t1 res1 fs1 = (s', res', fs')" by blast
    from Cons.IH [OF this ms] have ih: "published t1 \<subseteq> published s'"
      "published s' \<subseteq> published t1 \<union> {key (omMessageID m) | m. m \<in> set ms \<and> publish m = None}" by auto
    have "{key (omMessageID x) | x. x \<in> set (m # ms) \<and> publish x = None} =
        insert (key (omMessageID m)) {key (omMessageID x) | x. x \<in> set ms \<and> publish x = None}" using None by auto
    with ih step show ?thesis by blast
  next
    case (Some err)
    obtain t1 u where run: "storeMarkFailed store (env n) t w (omMessageID m) err s = (t1, u)" by force
    have step: "published t1 = published s"
      by (rule release_keeps [OF _ run]) (use Cons.prems(2) [of m] Some in auto)
    have "\<exists>res1 fs1. dispatchLoop store publish t w env (Suc n) ms t1 res1 fs1 = (s', res', fs')"
      using Cons.prems(1) Some run by (cases u) auto
    then obtain res1 fs1 where "dispatchLoop store publish t w env (Suc n) ms t1 res1 fs1 = (s', res', fs')" by blast
    from Cons.IH [OF this ms] step Some show ?thesis by auto
  qed
qed simp

text \<open>
  Publishing is safe: what a dispatch adds to the published messages was claimed by it and accepted
  by the publisher.
\<close>

lemma dispatch_published:
  assumes "DispatchTenant store publish w b env t s = (s', res, fs)" "\<And>m. publish m \<noteq> Some []"
  shows "published s \<subseteq> published s' \<and> (\<forall>i \<in> published s' - published s.
    \<exists>s1 ms m. storeClaim store (env 0) t w (if b = 0 then 25 else b) s = (s1, Inr ms) \<and> m \<in> set ms \<and>
      i = key (omMessageID m) \<and> publish m = None)"
proof -
  obtain s1 r where run: "storeClaim store (env 0) t w (if b = 0 then 25 else b) s = (s1, r)" by force
  note claim = claim_keeps [OF run]
  show ?thesis
  proof (cases r)
    case (Inl err)
    then have "s' = s1" using assms(1) run by (simp add: DispatchTenant_def)
    with claim show ?thesis by simp
  next
    case (Inr ms)
    then have "dispatchLoop store publish t w env 1 ms s1 \<lparr>drClaimed = int (length ms), drPublished = 0, drFailed = 0\<rparr> [] = (s', res, fs)"
      using assms(1) run by (simp add: DispatchTenant_def)
    from loop_published [OF this assms(2)] claim run Inr show ?thesis by blast
  qed
qed

end

text \<open>The counters of the loop, for any store.\<close>

lemma loop_counts:
  assumes "dispatchLoop store publish t w env n ms s res fs = (s', res', fs')"
  shows "drPublished res' + drFailed res' = drPublished res + drFailed res + int (length ms) \<and>
    drClaimed res' = drClaimed res \<and> int (length fs') - int (length fs) = drFailed res' - drFailed res \<and>
    drPublished res \<le> drPublished res' \<and> drFailed res \<le> drFailed res'"
  using assms
proof (induction ms arbitrary: n s res fs)
  case (Cons m ms)
  obtain s1 res1 fs1 where
    run: "dispatchLoop store publish t w env (Suc n) ms s1 res1 fs1 = (s', res', fs')"
    and res1: "drPublished res1 + drFailed res1 = drPublished res + drFailed res + 1 \<and> drClaimed res1 = drClaimed res \<and>
      int (length fs1) - int (length fs) = drFailed res1 - drFailed res \<and>
      drPublished res \<le> drPublished res1 \<and> drFailed res \<le> drFailed res1"
  proof (cases "publish m")
    case None
    obtain t1 u where "storeMarkPublished store (env n) t w (omMessageID m) s = (t1, u)" by force
    with Cons.prems None show thesis by (cases u) (auto intro: that)
  next
    case (Some err)
    obtain t1 u where "storeMarkFailed store (env n) t w (omMessageID m) err s = (t1, u)" by force
    with Cons.prems Some show thesis by (cases u) (auto intro: that)
  qed
  from Cons.IH [OF run] res1 show ?case by auto
qed simp

section \<open>The PostgreSQL store provides it\<close>

definition publishedIDs :: "outboxTable \<Rightarrow> string set" where
  "publishedIDs db = set (map obMessageID (filter (\<lambda>r. obPublishedAt r \<noteq> None) db))"

lemma publishedIDs_iff: "i \<in> publishedIDs db \<longleftrightarrow> (\<exists>r \<in> set db. obPublishedAt r \<noteq> None \<and> obMessageID r = i)"
  by (auto simp: publishedIDs_def)

definition canonicalID :: "(string \<Rightarrow> string option) \<Rightarrow> string \<Rightarrow> string" where
  "canonicalID cn m = (case cn m of Some i \<Rightarrow> i | None \<Rightarrow> m)"

text \<open>The tables a transaction can leave, whatever fails.\<close>

lemma Claim_table:
  assumes "Claim cn E t w n db = (db', r)"
  shows "db' = db \<or> (\<exists>tenant worker. cn t = Some tenant \<and> cn w = Some worker \<and>
    db' = leaseRows E tenant worker (map obMessageID (claimCandidates E tenant (nat n) db)) db)"
  using assms by (auto simp: Claim_def beginTenantTx_def commitTx_def Let_def split: if_splits option.splits)

lemma finish_table:
  assumes "finish cn E t w m failure db = (db', r)"
  shows "(db' = db \<and> r \<noteq> Inr ()) \<or> (\<exists>tenant worker message. cn t = Some tenant \<and> cn w = Some worker \<and> cn m = Some message \<and>
    length (filter (finishMatch tenant worker message) db) = 1 \<and>
    db' = map (\<lambda>r. if finishMatch tenant worker message r then finishRow E failure r else r) db)"
  using assms by (auto simp: finish_def beginTenantTx_def commitTx_def split: if_splits option.splits)

lemma publishedIDs_map:
  assumes "\<And>r. obMessageID (f r) = obMessageID r" "\<And>r. obPublishedAt (f r) = obPublishedAt r"
  shows "publishedIDs (map f db) = publishedIDs db"
  by (simp add: publishedIDs_def filter_map comp_def assms)

lemma leaseRows_published: "publishedIDs (leaseRows E tenant worker ids db) = publishedIDs db"
  unfolding leaseRows_def by (rule publishedIDs_map) (simp_all add: leaseRow_def)

lemma finish_published:
  assumes "finish cn E t w m failure db = (db', r)"
  shows "failure \<noteq> [] \<Longrightarrow> publishedIDs db' = publishedIDs db"
    and "publishedIDs db \<subseteq> publishedIDs db' \<and> publishedIDs db' \<subseteq> insert (canonicalID cn m) (publishedIDs db)"
    and "failure = [] \<Longrightarrow> r = Inr () \<Longrightarrow> canonicalID cn m \<in> publishedIDs db'"
proof -
  let ?upd = "\<lambda>tenant worker message r. if finishMatch tenant worker message r then finishRow E failure r else r"
  have same: "obMessageID (?upd a b c x) = obMessageID x" for a b c x by (simp add: finishRow_def)
  have keep: "obPublishedAt x \<noteq> None \<Longrightarrow> ?upd a b c x = x" for a b c x by (auto simp: finishMatch_def)
  have new: "obPublishedAt (?upd a b c x) \<noteq> None \<Longrightarrow> obPublishedAt x = None \<Longrightarrow> obMessageID x = c \<and> failure = []" for a b c x
    by (auto simp: finishMatch_def finishRow_def split: if_splits)
  consider (none) "db' = db" "r \<noteq> Inr ()" | (upd) tenant worker message where "cn m = Some message"
      "length (filter (finishMatch tenant worker message) db) = 1" "db' = map (?upd tenant worker message) db"
    using finish_table [OF assms] by blast
  note cases = this
  show sub: "publishedIDs db \<subseteq> publishedIDs db' \<and> publishedIDs db' \<subseteq> insert (canonicalID cn m) (publishedIDs db)"
  proof (cases rule: cases)
    case upd
    have "i \<in> publishedIDs db'" if i: "i \<in> publishedIDs db" for i
    proof -
      obtain x where x: "x \<in> set db" "obPublishedAt x \<noteq> None" "obMessageID x = i"
        using i by (auto simp: publishedIDs_iff)
      have "x \<in> set db'" unfolding upd(3) set_map by (rule image_eqI [where x = x]) (use keep [OF x(2)] x(1) in auto)
      with x show ?thesis unfolding publishedIDs_iff by blast
    qed
    moreover have "i = canonicalID cn m \<or> i \<in> publishedIDs db" if i: "i \<in> publishedIDs db'" for i
    proof -
      obtain x where "x \<in> set db" "obPublishedAt (?upd tenant worker message x) \<noteq> None" "i = obMessageID x"
        using i unfolding publishedIDs_iff upd(3) set_map by (auto simp only: same ball_simps bex_simps)
      with new [of tenant worker message x] upd(1) show ?thesis
        unfolding publishedIDs_iff canonicalID_def by (cases "obPublishedAt x") auto
    qed
    ultimately show ?thesis by blast
  qed auto
  show "failure \<noteq> [] \<Longrightarrow> publishedIDs db' = publishedIDs db"
  proof (cases rule: cases)
    case upd
    assume f: "failure \<noteq> []"
    have "obPublishedAt (?upd tenant worker message x) = obPublishedAt x" for x using f by (simp add: finishRow_def)
    then show ?thesis using same unfolding upd(3) by (intro publishedIDs_map) auto
  qed simp
  show "failure = [] \<Longrightarrow> r = Inr () \<Longrightarrow> canonicalID cn m \<in> publishedIDs db'"
  proof (cases rule: cases)
    case upd
    assume f: "failure = []"
    obtain x where "x \<in> set db" "finishMatch tenant worker message x"
      using upd(2) filter_False [of db "finishMatch tenant worker message"] by fastforce
    then have x: "finishRow E failure x \<in> set db'" "obMessageID x = message"
      unfolding upd(3) by (auto simp: finishMatch_def image_iff)
    then have "\<exists>r \<in> set db'. obPublishedAt r \<noteq> None \<and> obMessageID r = message"
      using f by (intro bexI [of _ "finishRow E failure x"]) (auto simp: finishRow_def)
    with upd(1) show ?thesis unfolding publishedIDs_iff canonicalID_def by simp
  qed simp
qed

interpretation pg: lease_store "PostgresStore cn" publishedIDs "canonicalID cn" for cn
proof (unfold_locales, goal_cases)
  case (1 E t w n s s' r)
  then show ?case using Claim_table [of cn E t w n s s' r] leaseRows_published by (auto simp: PostgresStore_def)
next
  case (2 E t w m s s' u)
  then show ?case using finish_published(2) by (simp add: PostgresStore_def MarkPublished_def)
next
  case (3 E t w m s s')
  then show ?case using finish_published(3) by (simp add: PostgresStore_def MarkPublished_def)
next
  case (4 failure E t w m s s' u)
  then have "(if length failure > 2000 then take 2000 failure else failure) \<noteq> []" by auto
  with 4 show ?case using finish_published(1) by (simp add: PostgresStore_def MarkFailed_def)
qed

section \<open>Claims on the table\<close>

lemma claimCandidates_set:
  "r \<in> set (claimCandidates E tenant n db) \<Longrightarrow> r \<in> set db \<and> claimable E tenant r \<and> \<not> obLocked E (obMessageID r)"
  unfolding claimCandidates_def by (auto dest!: in_set_takeD)

text \<open>The candidates come first in age order.\<close>

lemma claimCandidates_oldest:
  assumes r: "r \<in> set (claimCandidates E tenant n db)" and x: "x \<in> set db" "claimable E tenant x"
    "\<not> obLocked E (obMessageID x)" "x \<notin> set (claimCandidates E tenant n db)"
  shows "(obCreatedAt r, obMessageID r) \<le> (obCreatedAt x, obMessageID x)"
proof -
  let ?k = "\<lambda>r. (obCreatedAt r, obMessageID r)"
  let ?l = "filter (\<lambda>r. \<not> obLocked E (obMessageID r)) (sort_key ?k (filter (claimable E tenant) db))"
  have sorted: "sorted (map ?k ?l)" by (rule sorted_filter) (rule sorted_sort_key)
  have "x \<in> set ?l" using x by simp
  then have "x \<in> set (drop n ?l)"
    using x(4) unfolding claimCandidates_def by (metis Un_iff append_take_drop_id set_append)
  moreover have "sorted (map ?k (take n ?l @ drop n ?l))" using sorted by simp
  ultimately show ?thesis
    using r unfolding claimCandidates_def map_append sorted_append by auto
qed

lemma Claim_Inr:
  assumes "Claim cn E t w n db = (db', Inr ms)"
  obtains tenant worker where "cn t = Some tenant" "cn w = Some worker" "1 \<le> n" "n \<le> 100"
    "db' = leaseRows E tenant worker (map obMessageID (claimCandidates E tenant (nat n) db)) db"
    "ms = map rowMessage (obOrder E (claimCandidates E tenant (nat n) db))"
  using assms by (auto simp: Claim_def beginTenantTx_def commitTx_def Let_def split: if_splits option.splits)

lemma leaseRows_eq:
  assumes "distinct (map obMessageID db)"
  shows "leaseRows E tenant worker (map obMessageID (claimCandidates E tenant n db)) db =
    map (\<lambda>r. if r \<in> set (claimCandidates E tenant n db) then leaseRow E worker r else r) db"
  unfolding leaseRows_def
proof (rule map_cong [OF refl])
  fix r
  assume r: "r \<in> set db"
  have "obMessageID r \<in> obMessageID ` set (claimCandidates E tenant n db) \<longleftrightarrow> r \<in> set (claimCandidates E tenant n db)"
  proof
    assume "obMessageID r \<in> obMessageID ` set (claimCandidates E tenant n db)"
    then obtain x where "x \<in> set (claimCandidates E tenant n db)" "obMessageID x = obMessageID r" by auto
    with claimCandidates_set [of x] assms r show "r \<in> set (claimCandidates E tenant n db)"
      by (metis distinct_map inj_onD)
  qed simp
  then show "(if obTenant r = tenant \<and> obMessageID r \<in> set (map obMessageID (claimCandidates E tenant n db))
      then leaseRow E worker r else r) = (if r \<in> set (claimCandidates E tenant n db) then leaseRow E worker r else r)"
    using claimCandidates_set [of r E tenant n db] by (auto simp: claimable_def)
qed

section \<open>Histories\<close>

text \<open>What workers and producers do to the table: claims, the two marks, and insertions under fresh identifiers.\<close>

datatype obStep =
    DoClaim obEnv string string int
  | DoPublished obEnv string string string
  | DoFailed obEnv string string string string
  | DoInsert outboxRow

text \<open>The new table, and the identifiers that a claim returned.\<close>

fun obRun :: "(string \<Rightarrow> string option) \<Rightarrow> obStep \<Rightarrow> outboxTable \<Rightarrow> outboxTable \<times> string list" where
  "obRun cn (DoClaim E t w n) db =
     (case Claim cn E t w n db of (db', Inl err) \<Rightarrow> (db', []) | (db', Inr ms) \<Rightarrow> (db', map omMessageID ms))"
| "obRun cn (DoPublished E t w m) db = (fst (MarkPublished cn E t w m db), [])"
| "obRun cn (DoFailed E t w m failure) db = (fst (MarkFailed cn E t w m failure db), [])"
| "obRun cn (DoInsert r) db = (if obMessageID r \<in> obMessageID ` set db then db else db @ [r], [])"

fun obHistory :: "(string \<Rightarrow> string option) \<Rightarrow> obStep list \<Rightarrow> outboxTable \<Rightarrow> outboxTable \<times> string list" where
  "obHistory cn [] db = (db, [])"
| "obHistory cn (step # steps) db =
     (case obRun cn step db of (db1, ids) \<Rightarrow> case obHistory cn steps db1 of (db2, rest) \<Rightarrow> (db2, ids @ rest))"

text \<open>A step before \<open>until\<close> that is not a mark of message \<open>i\<close> by the worker \<open>worker\<close>.\<close>

fun foreign :: "(string \<Rightarrow> string option) \<Rightarrow> gotime \<Rightarrow> string \<Rightarrow> string \<Rightarrow> obStep \<Rightarrow> bool" where
  "foreign cn until worker i (DoClaim E t w n) \<longleftrightarrow> obNow E < until \<and> (\<forall>xs. mset (obOrder E xs) = mset xs)"
| "foreign cn until worker i (DoPublished E t w m) \<longleftrightarrow> \<not> (cn w = Some worker \<and> cn m = Some i)"
| "foreign cn until worker i (DoFailed E t w m failure) \<longleftrightarrow> \<not> (cn w = Some worker \<and> cn m = Some i)"
| "foreign cn until worker i (DoInsert r) \<longleftrightarrow> True"

definition held :: "gotime \<Rightarrow> string \<Rightarrow> string \<Rightarrow> outboxTable \<Rightarrow> bool" where
  "held until worker i db \<longleftrightarrow> distinct (map obMessageID db) \<and>
     (\<exists>r \<in> set db. obMessageID r = i \<and> obLeaseOwner r = Some worker \<and> obLeaseExpires r = Some until \<and> obPublishedAt r = None)"

lemma held_not_candidate:
  assumes "held until worker i db" "obNow E < until" "x \<in> set (claimCandidates E tenant n db)"
  shows "obMessageID x \<noteq> i"
proof
  assume i: "obMessageID x = i"
  from assms(1) obtain r where r: "r \<in> set db" "obMessageID r = i" "obLeaseExpires r = Some until" and d: "distinct (map obMessageID db)"
    by (auto simp: held_def)
  have x: "x \<in> set db" "claimable E tenant x" using claimCandidates_set [OF assms(3)] by auto
  with r i d have "x = r" by (metis distinct_map inj_onD)
  with x(2) r(3) assms(2) show False by (simp add: claimable_def)
qed

text \<open>A table that keeps the identifiers and the row of \<open>i\<close> keeps the lease.\<close>

lemma held_map:
  assumes "held until worker i db" "\<And>r. obMessageID (f r) = obMessageID r" "\<And>r. r \<in> set db \<Longrightarrow> obMessageID r = i \<Longrightarrow> obLeaseOwner r = Some worker \<Longrightarrow> f r = r"
  shows "held until worker i (map f db)"
proof -
  have "map obMessageID (map f db) = map obMessageID db" using assms(2) by simp
  moreover from assms(1) obtain r where r: "r \<in> set db" "obMessageID r = i" "obLeaseOwner r = Some worker" "obLeaseExpires r = Some until" "obPublishedAt r = None"
    by (auto simp: held_def)
  moreover have "f r = r" by (rule assms(3) [OF r(1-3)])
  ultimately show ?thesis using assms(1) unfolding held_def by (metis image_eqI image_set)
qed

lemma Claim_fst:
  "fst (Claim cn E t w n db) = db \<or>
   (\<exists>tenant worker. fst (Claim cn E t w n db) = leaseRows E tenant worker (map obMessageID (claimCandidates E tenant (nat n) db)) db)"
  unfolding Claim_def Let_def commitTx_def by (auto split: option.split sum.split)

lemma finish_fst:
  "fst (finish cn E t w m failure db) = db \<or>
   (\<exists>tenant worker message. cn w = Some worker \<and> cn m = Some message \<and>
      fst (finish cn E t w m failure db) = map (\<lambda>r. if finishMatch tenant worker message r then finishRow E failure r else r) db)"
  unfolding finish_def commitTx_def by (auto split: option.split sum.split)

lemma finish_held:
  assumes "held until worker i db" "\<not> (cn w = Some worker \<and> cn m = Some i)"
  shows "held until worker i (fst (finish cn E t w m failure db))"
  using finish_fst [of cn E t w m failure db]
proof (elim disjE exE conjE)
  fix tenant worker' message
  assume w: "cn w = Some worker'" "cn m = Some message"
    "fst (finish cn E t w m failure db) = map (\<lambda>r. if finishMatch tenant worker' message r then finishRow E failure r else r) db"
  show ?thesis
    unfolding w(3) by (rule held_map [OF assms(1)]) (use assms(2) w(1,2) in \<open>auto simp: finishMatch_def finishRow_def\<close>)
qed (use assms(1) in simp)

lemma obRun_held:
  assumes "held until worker i db" "foreign cn until worker i step"
  shows "held until worker i (fst (obRun cn step db)) \<and> i \<notin> set (snd (obRun cn step db))"
proof (cases step)
  case (DoClaim E t w n)
  then have now: "obNow E < until" and perm: "set (obOrder E xs) = set xs" for xs using assms(2) mset_eq_setD by auto
  have "held until worker i (fst (Claim cn E t w n db))"
    using Claim_fst [of cn E t w n db]
  proof (elim disjE exE)
    fix tenant worker'
    assume c: "fst (Claim cn E t w n db) = leaseRows E tenant worker' (map obMessageID (claimCandidates E tenant (nat n) db)) db"
    have "i \<notin> set (map obMessageID (claimCandidates E tenant (nat n) db))" using held_not_candidate [OF assms(1) now] by auto
    then show ?thesis unfolding c leaseRows_def by (intro held_map [OF assms(1)]) (auto simp: leaseRow_def)
  qed (use assms(1) in simp)
  moreover have "i \<notin> omMessageID ` set ms" if run: "Claim cn E t w n db = (db', Inr ms)" for db' ms
  proof -
    obtain tenant where "ms = map rowMessage (obOrder E (claimCandidates E tenant (nat n) db))" using Claim_Inr [OF run] by metis
    then have "omMessageID ` set ms = obMessageID ` set (claimCandidates E tenant (nat n) db)" by (simp add: image_image rowMessage_def perm)
    then show ?thesis using held_not_candidate [OF assms(1) now] by auto
  qed
  ultimately show ?thesis by (auto simp: DoClaim split: prod.split sum.split)
next
  case (DoInsert r)
  then show ?thesis using assms(1) by (auto simp: held_def)
qed (use assms finish_held in \<open>simp_all add: MarkPublished_def MarkFailed_def\<close>)

lemma obHistory_held:
  assumes "held until worker i db" "\<And>step. step \<in> set steps \<Longrightarrow> foreign cn until worker i step"
  shows "i \<notin> set (snd (obHistory cn steps db))"
  using assms
proof (induction steps arbitrary: db)
  case (Cons step steps)
  obtain db1 ids where run: "obRun cn step db = (db1, ids)" by force
  have "held until worker i db1 \<and> i \<notin> set ids" using obRun_held [OF Cons.prems(1), of cn step] Cons.prems(2) run by simp
  with Cons.IH [of db1] Cons.prems(2) show ?case by (auto simp: run split: prod.split)
qed simp

section \<open>A concrete table\<close>

definition wRow :: "string \<Rightarrow> gotime \<Rightarrow> outboxRow" where
  "wRow i t = \<lparr>obTenant = ''t'', obMessageID = i, obTopic = ''x'', obPartitionKey = ''k'', obPayload = ''p'',
     obHeaders = ''h'', obOccurredAt = t, obCreatedAt = t, obPublishedAt = None, obLeaseOwner = None,
     obLeaseExpires = None, obAttempts = 0, obLastError = None\<rparr>"

definition wObEnv :: "gotime \<Rightarrow> obEnv" where
  "wObEnv t = \<lparr>obNow = t, obLocked = (\<lambda>_. False), obFails = (\<lambda>_. False), obCommitApplied = False, obOrder = id\<rparr>"

definition wTable :: outboxTable where
  "wTable = [wRow ''m2'' 9, wRow ''m1'' 5]"

lemma wClaim: "Claim Some (wObEnv 10) ''t'' ''w'' 1 wTable =
    (leaseRows (wObEnv 10) ''t'' ''w'' [''m1''] wTable, Inr [rowMessage (wRow ''m1'' 5)])"
  by (simp add: Claim_def beginTenantTx_def commitTx_def wObEnv_def claimCandidates_def claimable_def wTable_def
      wRow_def)

section \<open>Properties\<close>

text \<open>C17: Leases are exclusive: a successful claim takes only unpublished messages of the tenant whose lease
  is free or expired and marks exactly these as leased to the worker for sixty seconds. Until then, in every
  history of claims, marks and insertions by anyone, no claim returns one of them again, as long as the worker that
  claimed the message does not mark it itself (a mark as failed gives the lease up).\<close>

theorem claim_is_exclusive:
  assumes "distinct (map obMessageID db)" "mset (obOrder E (claimCandidates E tenant (nat n) db)) = mset (claimCandidates E tenant (nat n) db)"
    "cn t = Some tenant" "cn w = Some worker" "Claim cn E t w n db = (db', Inr ms)"
  shows "int (length ms) \<le> n \<and> (\<forall>m \<in> set ms. omTenantID m = tenant) \<and>
    (\<exists>claimed. mset (map omMessageID ms) = mset (map obMessageID claimed) \<and> (\<forall>r \<in> set claimed. r \<in> set db \<and> claimable E tenant r) \<and>
      db' = map (\<lambda>r. if r \<in> set claimed then leaseRow E worker r else r) db) \<and>
    (\<forall>m \<in> set ms. \<forall>steps. list_all (foreign cn (obNow E + 60 * second) worker (omMessageID m)) steps \<longrightarrow>
       omMessageID m \<notin> set (snd (obHistory cn steps db')))"
proof -
  let ?c = "claimCandidates E tenant (nat n) db"
  have w: "1 \<le> n" "n \<le> 100" "db' = leaseRows E tenant worker (map obMessageID ?c) db" "ms = map rowMessage (obOrder E ?c)"
    using Claim_Inr [OF assms(5)] assms(3,4) by (metis option.inject)+
  have db': "db' = map (\<lambda>r. if r \<in> set ?c then leaseRow E worker r else r) db"
    unfolding w(3) by (rule leaseRows_eq [OF assms(1)])
  have set_c: "set (obOrder E ?c) = set ?c" using mset_eq_setD [OF assms(2)] .
  have len: "int (length ms) \<le> n" using w(1,4) mset_eq_length [OF assms(2)] by (simp add: claimCandidates_def)
  have ids: "mset (map omMessageID ms) = mset (map obMessageID ?c)" using assms(2) by (simp add: w(4) comp_def rowMessage_def)
  have "held (obNow E + 60 * second) worker (omMessageID m) db'" if "m \<in> set ms" for m
  proof -
    from that set_c obtain r where r: "r \<in> set ?c" "m = rowMessage r" by (auto simp: w(4))
    then have "r \<in> set db" "obPublishedAt r = None" using claimCandidates_set [OF r(1)] by (auto simp: claimable_def)
    then have "leaseRow E worker r \<in> set db'" using r(1) unfolding db' by force
    moreover have "map obMessageID db' = map obMessageID db" unfolding db' by (simp add: leaseRow_def)
    ultimately show ?thesis using assms(1) r(2) \<open>obPublishedAt r = None\<close> unfolding held_def
      by (intro conjI bexI [of _ "leaseRow E worker r"]) (simp_all add: leaseRow_def rowMessage_def)
  qed
  then have again: "\<forall>m \<in> set ms. \<forall>steps. list_all (foreign cn (obNow E + 60 * second) worker (omMessageID m)) steps \<longrightarrow>
       omMessageID m \<notin> set (snd (obHistory cn steps db'))"
    by (intro ballI allI impI, intro obHistory_held) (auto simp: list_all_iff)
  have "\<forall>m \<in> set ms. omTenantID m = tenant"
    using set_c claimCandidates_set [of _ E tenant "nat n" db] by (auto simp: w(4) rowMessage_def claimable_def)
  moreover have "\<forall>r \<in> set ?c. r \<in> set db \<and> claimable E tenant r" using claimCandidates_set by blast
  ultimately show ?thesis using len ids db' again by blast
qed

text \<open>Another worker marks the message and claims; it gets the other message only.\<close>

definition wSteps :: "obStep list" where
  "wSteps = [DoFailed (wObEnv 15) ''t'' ''v'' ''m1'' ''down'', DoClaim (wObEnv 20) ''t'' ''v'' 5]"

theorem claim_is_exclusive_witness:
  "''m1'' \<notin> set (snd (obHistory Some wSteps (leaseRows (wObEnv 10) ''t'' ''w'' [''m1''] wTable))) \<and>
   snd (obHistory Some wSteps (leaseRows (wObEnv 10) ''t'' ''w'' [''m1''] wTable)) = [''m2'']"
proof -
  have "distinct (map obMessageID wTable)" by (simp add: wTable_def wRow_def)
  from claim_is_exclusive [OF this, of "wObEnv 10" "''t''" 1 Some "''t''" "''w''" "''w''", OF _ _ _ wClaim]
  have "list_all (foreign Some (10 + 60 * second) ''w'' ''m1'') wSteps \<longrightarrow>
      ''m1'' \<notin> set (snd (obHistory Some wSteps (leaseRows (wObEnv 10) ''t'' ''w'' [''m1''] wTable)))"
    by (simp add: wObEnv_def rowMessage_def wRow_def)
  moreover have "list_all (foreign Some (10 + 60 * second) ''w'' ''m1'') wSteps" by (simp add: wSteps_def wObEnv_def second_def)
  moreover have "snd (obHistory Some wSteps (leaseRows (wObEnv 10) ''t'' ''w'' [''m1''] wTable)) = [''m2'']" by code_simp
  ultimately show ?thesis by blast
qed

text \<open>Claims are fair: every claimed message is at least as old, by creation time and id, as every
  available message of the tenant that the claim left behind.\<close>

theorem claim_is_oldest_first:
  assumes "cn t = Some tenant" "Claim cn E t w n db = (db', Inr ms)" "distinct (map obMessageID db)"
    "mset (obOrder E (claimCandidates E tenant (nat n) db)) = mset (claimCandidates E tenant (nat n) db)"
    "r \<in> set db" "obMessageID r \<in> omMessageID ` set ms"
    "x \<in> set db" "claimable E tenant x" "\<not> obLocked E (obMessageID x)" "obMessageID x \<notin> omMessageID ` set ms"
  shows "(obCreatedAt r, obMessageID r) \<le> (obCreatedAt x, obMessageID x)"
proof -
  let ?c = "claimCandidates E tenant (nat n) db"
  have "ms = map rowMessage (obOrder E ?c)" using Claim_Inr [OF assms(2)] assms(1) by (metis option.inject)
  then have ids: "omMessageID ` set ms = obMessageID ` set ?c"
    using mset_eq_setD [OF assms(4)] by (simp add: image_image rowMessage_def)
  obtain y where y: "y \<in> set ?c" "obMessageID y = obMessageID r" using assms(6) unfolding ids by auto
  then have "y = r" using claimCandidates_set [OF y(1)] assms(3,5) by (metis distinct_map inj_onD)
  moreover have "x \<notin> set ?c" using assms(10) unfolding ids by blast
  ultimately show ?thesis using claimCandidates_oldest [OF y(1) assms(7-9)] by simp
qed

theorem claim_is_oldest_first_witness:
  "(obCreatedAt (wRow ''m1'' 5), obMessageID (wRow ''m1'' 5)) \<le> (obCreatedAt (wRow ''m2'' 9), obMessageID (wRow ''m2'' 9))"
  by (rule claim_is_oldest_first [OF _ wClaim]) (simp_all add: wTable_def wRow_def wObEnv_def rowMessage_def claimable_def)

text \<open>Dispatch never loses a message: a message becomes published in the PostgreSQL store only if the
  dispatch claimed it and the publisher accepted it, whatever database calls fail, as long as no
  publisher error has an empty text; and published messages stay published.\<close>

theorem dispatch_publishes_only_accepted:
  assumes "DispatchTenant (PostgresStore cn) publish w b env t db = (db', res, fs)" "\<And>m. publish m \<noteq> Some []"
  shows "publishedIDs db \<subseteq> publishedIDs db' \<and> (\<forall>i \<in> publishedIDs db' - publishedIDs db.
    \<exists>db1 ms m. Claim cn (env 0) t w (if b = 0 then 25 else b) db = (db1, Inr ms) \<and> m \<in> set ms \<and>
      i = canonicalID cn (omMessageID m) \<and> publish m = None)"
proof -
  have "storeClaim (PostgresStore cn) = Claim cn" by (simp add: PostgresStore_def)
  with pg.dispatch_published [OF assms] show ?thesis by simp
qed

definition wDispatch :: "(OutboxMessage \<Rightarrow> string option) \<Rightarrow> outboxTable \<times> DispatchResult \<times> outboxError list" where
  "wDispatch publish = DispatchTenant (PostgresStore Some) publish ''w'' 1 (\<lambda>n. wObEnv 10) ''t'' wTable"

theorem dispatch_publishes_only_accepted_witness:
  "publishedIDs (fst (wDispatch (\<lambda>_. Some ''broker down''))) = {}"
proof -
  obtain db' res fs where run: "wDispatch (\<lambda>_. Some ''broker down'') = (db', res, fs)" by (metis prod.exhaust)
  have "publishedIDs wTable = {}" by (simp add: publishedIDs_def wTable_def wRow_def)
  with dispatch_publishes_only_accepted [OF run [unfolded wDispatch_def]] run show ?thesis by auto
qed

text \<open>Every claimed message is accounted for once, as published or as failed; the joined error has one
  part per failure, so a nil error means that everything claimed was published.\<close>

theorem dispatch_accounts_for_every_message:
  assumes "DispatchTenant store publish w b env t s = (s', res, fs)"
  shows "0 \<le> drPublished res \<and> 0 \<le> drFailed res \<and>
    (drClaimed res = drPublished res + drFailed res \<and> int (length fs) = drFailed res \<or>
     (\<exists>s1 err. storeClaim store (env 0) t w (if b = 0 then 25 else b) s = (s1, Inl err) \<and> fs = [err] \<and> drClaimed res = 0))"
proof -
  obtain s1 r where run: "storeClaim store (env 0) t w (if b = 0 then 25 else b) s = (s1, r)" by force
  show ?thesis
  proof (cases r)
    case (Inl err)
    with assms run show ?thesis by (auto simp: DispatchTenant_def)
  next
    case (Inr ms)
    then have "dispatchLoop store publish t w env 1 ms s1 \<lparr>drClaimed = int (length ms), drPublished = 0, drFailed = 0\<rparr> [] = (s', res, fs)"
      using assms run by (simp add: DispatchTenant_def)
    from loop_counts [OF this] show ?thesis by simp
  qed
qed

theorem dispatch_accounts_for_every_message_witness:
  "\<exists>db' res fs. wDispatch (\<lambda>_. None) = (db', res, fs) \<and> 0 \<le> drPublished res \<and> 0 \<le> drFailed res"
proof -
  obtain db' res fs where run: "wDispatch (\<lambda>_. None) = (db', res, fs)" by (metis prod.exhaust)
  with dispatch_accounts_for_every_message [OF run [unfolded wDispatch_def]] show ?thesis by blast
qed

text \<open>A publisher failure with an empty error text is recorded as a successful publication.\<close>

lemma empty_failure_marks_published:
  "publishedIDs (fst (wDispatch (\<lambda>_. Some []))) = {''m1''} \<and> drFailed (fst (snd (wDispatch (\<lambda>_. Some [])))) = 1"
proof -
  have "publishedIDs (fst (wDispatch (\<lambda>_. Some []))) = {''m1''}" by code_simp
  moreover have "drFailed (fst (snd (wDispatch (\<lambda>_. Some [])))) = 1" by code_simp
  ultimately show ?thesis by simp
qed

end
