(* ===== verification/Pipeline.thy ===== *)
theory Pipeline
  imports Eventing_Props Alerting_Props Outbox_Props
begin

text \<open>
  The path of an event through the control plane: intake, outbox, dispatcher, alert projection and
  acknowledgment, as they share one database. A step is one transaction of one component, so any
  interleaving of any number of dispatchers and requests is a history. \<open>psClaimed\<close> are the messages
  that some dispatcher has received from a claim and \<open>psDone\<close> those whose \<open>Publish\<close> returned without
  an error: a dispatcher publishes only messages it claimed and marks a message as published only
  after that, in the order of \<open>DispatchTenant\<close>.
\<close>

section \<open>The system\<close>

record pipeState =
  psEvents :: eventDB
  psAlerts :: alertDB
  psClaimed :: "OutboxMessage list"
  psDone :: "OutboxMessage list"

definition eventExists :: "eventDB \<Rightarrow> string \<Rightarrow> string \<Rightarrow> bool" where
  "eventExists db tenant eid \<longleftrightarrow> (\<exists>e \<in> set (edEvents db). dtTenant e = tenant \<and> dtEventID e = eid)"

definition pipeIngest :: "'j eventLib \<Rightarrow> eventEnv \<Rightarrow> IngestCommand \<Rightarrow> pipeState \<Rightarrow> pipeState" where
  "pipeIngest L E c s =
     (let ev = fst (PostgresIngest L E c ((psEvents s)\<lparr>edAudit := adAudit (psAlerts s)\<rparr>))
      in s\<lparr>psEvents := ev, psAlerts := (psAlerts s)\<lparr>adAudit := edAudit ev\<rparr>\<rparr>)"

definition pipeClaim :: "(string \<Rightarrow> string option) \<Rightarrow> obEnv \<Rightarrow> string \<Rightarrow> string \<Rightarrow> int \<Rightarrow> pipeState \<Rightarrow> pipeState" where
  "pipeClaim cn E tenantID workerID limit s =
     (let (table, r) = Claim cn E tenantID workerID limit (edOutbox (psEvents s))
      in s\<lparr>psEvents := (psEvents s)\<lparr>edOutbox := table\<rparr>,
           psClaimed := psClaimed s @ (case r of Inr ms \<Rightarrow> ms | Inl _ \<Rightarrow> [])\<rparr>)"

definition pipePublish :: "'j alertLib \<Rightarrow> alertEnv \<Rightarrow> OutboxMessage \<Rightarrow> pipeState \<Rightarrow> pipeState" where
  "pipePublish L E m s =
     (let (al, r) = Publish L E (eventExists (psEvents s)) m (psAlerts s)
      in s\<lparr>psAlerts := al, psDone := psDone s @ (case r of Inr _ \<Rightarrow> [m] | Inl _ \<Rightarrow> [])\<rparr>)"

definition pipeFinish :: "(outboxTable \<Rightarrow> outboxTable \<times> (outboxError + unit)) \<Rightarrow> pipeState \<Rightarrow> pipeState" where
  "pipeFinish mark s = s\<lparr>psEvents := (psEvents s)\<lparr>edOutbox := fst (mark (edOutbox (psEvents s)))\<rparr>\<rparr>"

definition pipeAcknowledge :: "'j alertLib \<Rightarrow> alertEnv \<Rightarrow> AcknowledgeCommand \<Rightarrow> pipeState \<Rightarrow> pipeState" where
  "pipeAcknowledge L E c s = s\<lparr>psAlerts := fst (Acknowledge L E c (psAlerts s))\<rparr>"

inductive pipeReach :: "'j eventLib \<Rightarrow> 'j alertLib \<Rightarrow> (string \<Rightarrow> string option) \<Rightarrow> pipeState \<Rightarrow> bool" for L A cn where
  start: "edEvents (psEvents s) = [] \<Longrightarrow> edOutbox (psEvents s) = [] \<Longrightarrow> adReceipts (psAlerts s) = [] \<Longrightarrow>
    adAlerts (psAlerts s) = [] \<Longrightarrow> psClaimed s = [] \<Longrightarrow> psDone s = [] \<Longrightarrow> pipeReach L A cn s"
| ingest: "pipeReach L A cn s \<Longrightarrow> cn (eeMessageID E) = Some (eeMessageID E) \<Longrightarrow> pipeReach L A cn (pipeIngest L E c s)"
| claim: "pipeReach L A cn s \<Longrightarrow> (\<And>xs. set (obOrder E xs) = set xs) \<Longrightarrow> pipeReach L A cn (pipeClaim cn E t w n s)"
| publish: "pipeReach L A cn s \<Longrightarrow> m \<in> set (psClaimed s) \<Longrightarrow> pipeReach L A cn (pipePublish A P m s)"
| mark: "pipeReach L A cn s \<Longrightarrow> m \<in> set (psDone s) \<Longrightarrow>
    pipeReach L A cn (pipeFinish (MarkPublished cn E t w (omMessageID m)) s)"
| release: "pipeReach L A cn s \<Longrightarrow> failure \<noteq> [] \<Longrightarrow> pipeReach L A cn (pipeFinish (MarkFailed cn E t w i failure) s)"
| acknowledge: "pipeReach L A cn s \<Longrightarrow> pipeReach L A cn (pipeAcknowledge A P k s)"

section \<open>The invariant\<close>

text \<open>The columns of an outbox message that no later statement changes.\<close>

definition obFixed :: "outboxRow \<Rightarrow> string \<times> string \<times> string \<times> bytes" where
  "obFixed r = (obTenant r, obMessageID r, obTopic r, obPayload r)"

definition msgFixed :: "OutboxMessage \<Rightarrow> string \<times> string \<times> string \<times> bytes" where
  "msgFixed m = (omTenantID m, omMessageID m, omTopic m, omPayload m)"

text \<open>An accepted event with its message.\<close>

definition links :: "pipeState \<Rightarrow> (detectionRow \<times> string \<times> string \<times> string \<times> bytes) set" where
  "links s = set (zip (edEvents (psEvents s)) (map obFixed (edOutbox (psEvents s))))"

definition linkOK :: "'j eventLib \<Rightarrow> (string \<Rightarrow> string option) \<Rightarrow> detectionRow \<times> string \<times> string \<times> string \<times> bytes \<Rightarrow> bool" where
  "linkOK L cn = (\<lambda>(e, t, i, topic, p). t = dtTenant e \<and> topic = OutboxTopic \<and> cn i = Some i \<and> (\<exists>x. cn x = Some t) \<and>
     (\<exists>event. elMarshal L event = Some p \<and> elUUID L (deEventID event) = Some (dtEventID e)))"

definition alertFor :: "pipeState \<Rightarrow> string \<Rightarrow> string \<Rightarrow> bool" where
  "alertFor s tenant eid \<longleftrightarrow> (\<exists>r \<in> set (adAlerts (psAlerts s)). alTenantID (arwAlert r) = tenant \<and> alEventID (arwAlert r) = eid)"

definition pipeInv :: "'j eventLib \<Rightarrow> (string \<Rightarrow> string option) \<Rightarrow> pipeState \<Rightarrow> bool" where
  "pipeInv L cn s \<longleftrightarrow>
     length (edEvents (psEvents s)) = length (edOutbox (psEvents s)) \<and>
     (\<forall>l \<in> links s. linkOK L cn l) \<and>
     distinct (map obMessageID (edOutbox (psEvents s))) \<and>
     distinct (map (\<lambda>r. (alTenantID (arwAlert r), alEventID (arwAlert r))) (adAlerts (psAlerts s))) \<and>
     (\<forall>r \<in> set (adAlerts (psAlerts s)). eventExists (psEvents s) (alTenantID (arwAlert r)) (alEventID (arwAlert r))) \<and>
     (\<forall>(t, c, i) \<in> set (adReceipts (psAlerts s)). \<exists>e topic p. (e, t, i, topic, p) \<in> links s \<and> alertFor s t (dtEventID e)) \<and>
     (\<forall>m \<in> set (psClaimed s). \<exists>e. (e, msgFixed m) \<in> links s) \<and>
     (\<forall>m \<in> set (psDone s). (omTenantID m, ConsumerName, omMessageID m) \<in> set (adReceipts (psAlerts s))) \<and>
     (\<forall>i \<in> publishedIDs (edOutbox (psEvents s)). \<exists>t. (t, ConsumerName, i) \<in> set (adReceipts (psAlerts s)))"

lemma links_length: "length (edEvents (psEvents s)) = length (edOutbox (psEvents s)) \<Longrightarrow>
    m \<in> set (edOutbox (psEvents s)) \<Longrightarrow> \<exists>e. (e, obFixed m) \<in> links s"
proof -
  assume len: "length (edEvents (psEvents s)) = length (edOutbox (psEvents s))" and "m \<in> set (edOutbox (psEvents s))"
  then obtain i where i: "i < length (edOutbox (psEvents s))" "edOutbox (psEvents s) ! i = m" by (auto simp: in_set_conv_nth)
  then have "zip (edEvents (psEvents s)) (map obFixed (edOutbox (psEvents s))) ! i = (edEvents (psEvents s) ! i, obFixed m)"
    using len by simp
  with i len show ?thesis unfolding links_def by (metis length_map length_zip min.idem nth_mem)
qed

text \<open>A step that leaves the fixed columns and the alert tables alone keeps most of the invariant.\<close>

lemma pipeInv_outbox:
  assumes "pipeInv L cn s" "map obFixed tbl = map obFixed (edOutbox (psEvents s))"
    "set ms \<subseteq> {m. \<exists>e. (e, msgFixed m) \<in> links s}"
    "\<forall>i \<in> publishedIDs tbl. i \<in> publishedIDs (edOutbox (psEvents s)) \<or> (\<exists>t. (t, ConsumerName, i) \<in> set (adReceipts (psAlerts s)))"
  shows "pipeInv L cn (s\<lparr>psEvents := (psEvents s)\<lparr>edOutbox := tbl\<rparr>, psClaimed := psClaimed s @ ms\<rparr>)"
proof -
  let ?s = "s\<lparr>psEvents := (psEvents s)\<lparr>edOutbox := tbl\<rparr>, psClaimed := psClaimed s @ ms\<rparr>"
  have l: "links ?s = links s" by (simp add: links_def assms(2))
  have len: "length tbl = length (edOutbox (psEvents s))" using arg_cong [OF assms(2), of length] by simp
  have ids: "map obMessageID tbl = map obMessageID (edOutbox (psEvents s))"
    using arg_cong [OF assms(2), of "map (fst \<circ> snd)"] by (simp add: obFixed_def comp_def)
  have a: "alertFor ?s = alertFor s" by (simp add: alertFor_def fun_eq_iff)
  have e: "eventExists (psEvents ?s) = eventExists (psEvents s)" by (simp add: eventExists_def fun_eq_iff)
  note p = assms(1) [unfolded pipeInv_def]
  have pub: "\<forall>i \<in> publishedIDs tbl. \<exists>t. (t, ConsumerName, i) \<in> set (adReceipts (psAlerts s))" using p assms(4) by blast
  show ?thesis unfolding pipeInv_def l a e using p assms(3) len ids pub by auto
qed

section \<open>The steps keep the invariant\<close>

text \<open>
  What the path relies on: all components read UUIDs alike, the canonical text of a UUID is a fixed
  point, and the decoder of the projector reads back the event the intake encoded.
\<close>

definition pipeLaws :: "'j eventLib \<Rightarrow> 'j alertLib \<Rightarrow> (string \<Rightarrow> string option) \<Rightarrow> bool" where
  "pipeLaws L A cn \<longleftrightarrow> elUUID L = cn \<and> llUUID A = cn \<and> (\<forall>x y. cn x = Some y \<longrightarrow> cn y = Some y) \<and>
     (\<forall>event p. elMarshal L event = Some p \<longrightarrow> llUnmarshalEvent A p = Some event)"

lemma Claim_messages:
  assumes "Claim cn E t w n db = (db', Inr ms)" "\<And>xs. set (obOrder E xs) = set xs"
  shows "set ms \<subseteq> rowMessage ` set db"
proof -
  obtain tenant where "ms = map rowMessage (obOrder E (claimCandidates E tenant (nat n) db))"
    using assms(1) by (auto simp: Claim_def beginTenantTx_def commitTx_def Let_def split: if_splits option.splits)
  moreover have "set (claimCandidates E tenant (nat n) db) \<subseteq> set db"
    by (auto simp: claimCandidates_def dest!: in_set_takeD)
  ultimately show ?thesis by (auto simp: assms(2))
qed

lemma leaseRows_fixed: "map obFixed (leaseRows E tenant worker ids db) = map obFixed db"
  by (simp add: leaseRows_def leaseRow_def obFixed_def)

lemma finish_fixed: "map obFixed (fst (finish cn E t w m failure db)) = map obFixed db"
proof -
  obtain db' r where run: "finish cn E t w m failure db = (db', r)" by force
  have "obFixed (finishRow E failure x) = obFixed x" for x by (simp add: finishRow_def obFixed_def)
  then show ?thesis using finish_table [OF run] run by auto
qed

lemma pipeInv_claim:
  assumes "pipeInv L cn s" "\<And>xs. set (obOrder E xs) = set xs"
  shows "pipeInv L cn (pipeClaim cn E t w n s)"
proof -
  obtain tbl r where run: "Claim cn E t w n (edOutbox (psEvents s)) = (tbl, r)" by force
  have len: "length (edEvents (psEvents s)) = length (edOutbox (psEvents s))" using assms(1) by (simp add: pipeInv_def)
  have fixed: "map obFixed tbl = map obFixed (edOutbox (psEvents s))" "publishedIDs tbl = publishedIDs (edOutbox (psEvents s))"
    using Claim_table [OF run] leaseRows_fixed leaseRows_published by auto
  have "\<exists>e. (e, msgFixed m) \<in> links s" if r: "r = Inr ms" and m: "m \<in> set ms" for m ms
  proof -
    obtain x where "x \<in> set (edOutbox (psEvents s))" "m = rowMessage x"
      using Claim_messages [OF run [unfolded r] assms(2)] m by blast
    then show ?thesis using links_length [OF len] by (simp add: msgFixed_def obFixed_def rowMessage_def)
  qed
  then have ms: "set (case r of Inr ms \<Rightarrow> ms | Inl _ \<Rightarrow> []) \<subseteq> {m. \<exists>e. (e, msgFixed m) \<in> links s}"
    by (auto split: sum.splits)
  show ?thesis
    using pipeInv_outbox [OF assms(1) fixed(1) ms] fixed(2) run by (simp add: pipeClaim_def)
qed

lemma pipeInv_finish:
  assumes "pipeInv L cn s" "map obFixed (fst (mark (edOutbox (psEvents s)))) = map obFixed (edOutbox (psEvents s))"
    "\<forall>i \<in> publishedIDs (fst (mark (edOutbox (psEvents s)))). i \<in> publishedIDs (edOutbox (psEvents s)) \<or>
       (\<exists>t. (t, ConsumerName, i) \<in> set (adReceipts (psAlerts s)))"
  shows "pipeInv L cn (pipeFinish mark s)"
  using pipeInv_outbox [OF assms(1,2), of "[]"] assms(3) by (simp add: pipeFinish_def)

lemma pipeInv_release:
  assumes "pipeInv L cn s" "failure \<noteq> []"
  shows "pipeInv L cn (pipeFinish (MarkFailed cn E t w i failure) s)"
proof (rule pipeInv_finish [OF assms(1)])
  let ?f = "if length failure > 2000 then take 2000 failure else failure"
  obtain db' r where run: "finish cn E t w i ?f (edOutbox (psEvents s)) = (db', r)" by force
  have "?f \<noteq> []" using assms(2) by auto
  from finish_published(1) [OF run this] run
  show "\<forall>j \<in> publishedIDs (fst (MarkFailed cn E t w i failure (edOutbox (psEvents s)))). j \<in> publishedIDs (edOutbox (psEvents s)) \<or>
      (\<exists>t. (t, ConsumerName, j) \<in> set (adReceipts (psAlerts s)))" by (simp add: MarkFailed_def)
qed (simp add: MarkFailed_def finish_fixed)

lemma pipeInv_done:
  assumes "pipeInv L cn s" "m \<in> set (psDone s)"
  shows "(omTenantID m, ConsumerName, omMessageID m) \<in> set (adReceipts (psAlerts s)) \<and> cn (omMessageID m) = Some (omMessageID m)"
proof -
  have r: "(omTenantID m, ConsumerName, omMessageID m) \<in> set (adReceipts (psAlerts s))" using assms by (simp add: pipeInv_def)
  then obtain e topic p where "(e, omTenantID m, omMessageID m, topic, p) \<in> links s"
    using assms(1) unfolding pipeInv_def by fast
  then have "linkOK L cn (e, omTenantID m, omMessageID m, topic, p)" using assms(1) by (simp add: pipeInv_def)
  with r show ?thesis by (simp add: linkOK_def)
qed

lemma pipeInv_mark:
  assumes "pipeInv L cn s" "m \<in> set (psDone s)"
  shows "pipeInv L cn (pipeFinish (MarkPublished cn E t w (omMessageID m)) s)"
proof (rule pipeInv_finish [OF assms(1)])
  obtain db' r where run: "finish cn E t w (omMessageID m) [] (edOutbox (psEvents s)) = (db', r)" by force
  from finish_published(2) [OF run] pipeInv_done [OF assms] run
  show "\<forall>j \<in> publishedIDs (fst (MarkPublished cn E t w (omMessageID m) (edOutbox (psEvents s)))). j \<in> publishedIDs (edOutbox (psEvents s)) \<or>
      (\<exists>t. (t, ConsumerName, j) \<in> set (adReceipts (psAlerts s)))" by (auto simp: MarkPublished_def canonicalID_def)
qed (simp add: MarkPublished_def finish_fixed)

lemma publishedIDs_snoc: "obPublishedAt m = None \<Longrightarrow> publishedIDs (db @ [m]) = publishedIDs db"
  by (simp add: publishedIDs_def)

lemma pipeInv_ingest:
  assumes "pipeInv L cn s" "pipeLaws L A cn" "cn (eeMessageID E) = Some (eeMessageID E)"
  shows "pipeInv L cn (pipeIngest L E c s)"
proof -
  let ?db = "(psEvents s)\<lparr>edAudit := adAudit (psAlerts s)\<rparr>" and ?s = "pipeIngest L E c s"
  let ?event = "normalizeEvent (elLower L) (icEvent c)"
  obtain db' r where run: "PostgresIngest L E c ?db = (db', r)" by force
  have s': "?s = s\<lparr>psEvents := db', psAlerts := (psAlerts s)\<lparr>adAudit := edAudit db'\<rparr>\<rparr>" using run by (simp add: pipeIngest_def)
  note p = assms(1) [unfolded pipeInv_def]
  consider "db' = ?db" | row msg rec where
      "db' = ?db\<lparr>edEvents := edEvents ?db @ [row], edOutbox := edOutbox ?db @ [msg], edAudit := edAudit ?db @ [rec]\<rparr>"
      "elUUID L (deTenantID ?event) = Some (dtTenant row)" "elUUID L (deEventID ?event) = Some (dtEventID row)"
      "canonicalPayload L ?event = Some (dtPayload row, dtRequestHash row)"
      "msg = outboxInsert L E (dtTenant row) ?event (dtPayload row)" "\<forall>m \<in> set (edOutbox ?db). obMessageID m \<noteq> obMessageID msg"
    using PostgresIngest_cases [OF run] by (auto simp: ingestAdds_def Let_def)
  then show ?thesis
  proof cases
    case 1
    have "links ?s = links s" "alertFor ?s = alertFor s" "eventExists (psEvents ?s) = eventExists (psEvents s)"
      by (simp_all add: s' 1 links_def alertFor_def eventExists_def fun_eq_iff)
    with p show ?thesis unfolding pipeInv_def by (simp add: s' 1)
  next
    case (2 row msg rec)
    have l: "links ?s = insert (row, obFixed msg) (links s)" using p by (simp add: s' 2(1) links_def)
    have ok: "linkOK L cn (row, obFixed msg)"
    proof -
      have "elMarshal L (normalizeEvent (elLower L) ?event) = Some (dtPayload row)"
        using 2(4) by (simp add: canonicalPayload_def split: option.splits)
      moreover have "deEventID (normalizeEvent (elLower L) ?event) = deEventID ?event" by (simp add: normalizeEvent_def)
      moreover have "cn (deTenantID ?event) = Some (dtTenant row)" using assms(2) 2(2) by (simp add: pipeLaws_def)
      ultimately show ?thesis using 2(3) assms(3) by (auto simp: linkOK_def obFixed_def 2(5) outboxInsert_def)
    qed
    have a: "alertFor ?s = alertFor s" by (simp add: s' alertFor_def fun_eq_iff)
    have e: "eventExists (psEvents s) t i \<Longrightarrow> eventExists (psEvents ?s) t i" for t i by (auto simp: s' 2(1) eventExists_def)
    have pub: "publishedIDs (edOutbox (psEvents ?s)) = publishedIDs (edOutbox (psEvents s))"
      using publishedIDs_snoc [of msg "edOutbox (psEvents s)"] by (simp add: s' 2(1) 2(5) outboxInsert_def)
    have keep: "adAlerts (psAlerts ?s) = adAlerts (psAlerts s)" "adReceipts (psAlerts ?s) = adReceipts (psAlerts s)"
      "psClaimed ?s = psClaimed s" "psDone ?s = psDone s" by (simp_all add: s')
    have "length (edEvents (psEvents ?s)) = length (edOutbox (psEvents ?s))"
      "distinct (map obMessageID (edOutbox (psEvents ?s)))" using p 2(6) by (auto simp: s' 2(1))
    moreover have "\<forall>(t, c, i) \<in> set (adReceipts (psAlerts s)). \<exists>e topic p. (e, t, i, topic, p) \<in> links ?s \<and> alertFor s t (dtEventID e)"
      using p unfolding l by fast
    ultimately show ?thesis unfolding pipeInv_def a pub keep using p ok e by (auto simp: l)
  qed
qed

lemma pipeInv_alerts:
  assumes "pipeInv L cn s" "adReceipts al = adReceipts (psAlerts s)"
    "map (\<lambda>r. (alTenantID (arwAlert r), alEventID (arwAlert r))) (adAlerts al) =
     map (\<lambda>r. (alTenantID (arwAlert r), alEventID (arwAlert r))) (adAlerts (psAlerts s))"
    "\<forall>m \<in> set ms. (omTenantID m, ConsumerName, omMessageID m) \<in> set (adReceipts (psAlerts s))"
  shows "pipeInv L cn (s\<lparr>psAlerts := al, psDone := psDone s @ ms\<rparr>)"
proof -
  let ?s = "s\<lparr>psAlerts := al, psDone := psDone s @ ms\<rparr>" and ?k = "\<lambda>r. (alTenantID (arwAlert r), alEventID (arwAlert r))"
  have k: "?k ` set (adAlerts al) = ?k ` set (adAlerts (psAlerts s))" using arg_cong [OF assms(3), of set] by simp
  have a: "alertFor ?s t i \<longleftrightarrow> (t, i) \<in> ?k ` set (adAlerts al)" "alertFor s t i \<longleftrightarrow> (t, i) \<in> ?k ` set (adAlerts (psAlerts s))" for t i
    by (auto simp: alertFor_def image_iff)
  have a': "alertFor ?s = alertFor s" by (simp add: fun_eq_iff a k)
  have l: "links ?s = links s" by (simp add: links_def)
  note p = assms(1) [unfolded pipeInv_def]
  have "\<forall>q \<in> ?k ` set (adAlerts al). eventExists (psEvents s) (fst q) (snd q)" unfolding k using p by auto
  then have "\<forall>r \<in> set (adAlerts al). eventExists (psEvents s) (alTenantID (arwAlert r)) (alEventID (arwAlert r))" by auto
  then show ?thesis unfolding pipeInv_def a' l using p assms(2,3,4) by auto
qed

lemma pipeInv_acknowledge:
  assumes "pipeInv L cn s"
  shows "pipeInv L cn (pipeAcknowledge A P k s)"
proof -
  obtain al r where run: "Acknowledge A P k (psAlerts s) = (al, r)" by force
  have "adReceipts al = adReceipts (psAlerts s) \<and>
    map (\<lambda>r. (alTenantID (arwAlert r), alEventID (arwAlert r))) (adAlerts al) =
    map (\<lambda>r. (alTenantID (arwAlert r), alEventID (arwAlert r))) (adAlerts (psAlerts s))"
    using Acknowledge_cases [OF run] by (auto simp: ackAdds_def)
  with pipeInv_alerts [OF assms, of al "[]"] run show ?thesis by (simp add: pipeAcknowledge_def)
qed

lemma pipeInv_publish:
  assumes "pipeInv L cn s" "pipeLaws L A cn" "m \<in> set (psClaimed s)"
  shows "pipeInv L cn (pipePublish A P m s)"
proof -
  obtain al r where run: "Publish A P (eventExists (psEvents s)) m (psAlerts s) = (al, r)" by force
  note p = assms(1) [unfolded pipeInv_def] and laws = assms(2) [unfolded pipeLaws_def]
  obtain e where link: "(e, msgFixed m) \<in> links s" using p assms(3) by blast
  then have ok: "linkOK L cn (e, msgFixed m)" using p by blast
  then have can: "cn (omTenantID m) = Some (omTenantID m)" "cn (omMessageID m) = Some (omMessageID m)" "omTenantID m = dtTenant e"
    using laws by (auto simp: linkOK_def msgFixed_def)
  obtain event where ev: "llUnmarshalEvent A (omPayload m) = Some event" "cn (deEventID event) = Some (dtEventID e)"
    using ok laws by (auto simp: linkOK_def msgFixed_def)
  have s': "pipePublish A P m s = s\<lparr>psAlerts := al, psDone := psDone s @ (case r of Inr _ \<Rightarrow> [m] | Inl _ \<Rightarrow> [])\<rparr>"
    using run by (simp add: pipePublish_def)
  from Publish_cases [OF run] show ?thesis
  proof (elim disjE conjE exE, goal_cases)
    case (1 err)
    with pipeInv_alerts [OF assms(1), of al "[]"] s' show ?case by simp
  next
    case 2
    then have "(omTenantID m, ConsumerName, omMessageID m) \<in> set (adReceipts (psAlerts s))"
      using laws can by (auto simp: receiptOf_def)
    with 2 pipeInv_alerts [OF assms(1), of al "case r of Inr _ \<Rightarrow> [m] | Inl _ \<Rightarrow> []"] show ?case
      unfolding s' by (auto split: sum.splits)
  next
    case 3
    then obtain row where row: "eventExists (psEvents s) (omTenantID m) (dtEventID e)"
        "\<forall>r \<in> set (adAlerts (psAlerts s)). alTenantID (arwAlert r) = omTenantID m \<longrightarrow> alEventID (arwAlert r) \<noteq> dtEventID e"
        "alTenantID (arwAlert row) = omTenantID m" "alEventID (arwAlert row) = dtEventID e"
        "adReceipts al = adReceipts (psAlerts s) @ [(omTenantID m, ConsumerName, omMessageID m)]"
        "adAlerts al = adAlerts (psAlerts s) @ [row]"
      using laws can ev by (auto simp: projectAdds_def)
    let ?s = "pipePublish A P m s"
    have l: "links ?s = links s" by (simp add: s' links_def)
    have a: "alertFor s t i \<Longrightarrow> alertFor ?s t i" "alertFor ?s (omTenantID m) (dtEventID e)" for t i
      using row by (auto simp: s' alertFor_def)
    have "\<forall>(t, c, i) \<in> set (adReceipts al). \<exists>e topic q. (e, t, i, topic, q) \<in> links s \<and> alertFor ?s t (dtEventID e)"
    proof -
      have "\<forall>(t, c, i) \<in> set (adReceipts (psAlerts s)). \<exists>e topic q. (e, t, i, topic, q) \<in> links s \<and> alertFor ?s t (dtEventID e)"
        using p a(1) by fast
      moreover have "\<exists>e topic q. (e, omTenantID m, omMessageID m, topic, q) \<in> links s \<and> alertFor ?s (omTenantID m) (dtEventID e)"
        using link a(2) unfolding msgFixed_def by blast
      ultimately show ?thesis unfolding row(5) by auto
    qed
    moreover have "distinct (map (\<lambda>r. (alTenantID (arwAlert r), alEventID (arwAlert r))) (adAlerts al))"
      using p row(2,3,4) unfolding row(6) by auto
    moreover have "\<forall>m' \<in> set (psDone ?s). (omTenantID m', ConsumerName, omMessageID m') \<in> set (adReceipts al)"
      using p row(5) by (auto simp: s' split: sum.splits)
    moreover have "\<forall>i \<in> publishedIDs (edOutbox (psEvents s)). \<exists>t. (t, ConsumerName, i) \<in> set (adReceipts al)"
      using p row(5) by auto
    ultimately show ?case unfolding pipeInv_def l using p row(1,3,4,6) by (simp add: s')
  qed
qed

lemma pipeReach_inv:
  assumes "pipeReach L A cn s" "pipeLaws L A cn"
  shows "pipeInv L cn s"
  using assms(1)
proof (induction rule: pipeReach.induct)
  case (start s)
  then show ?case by (simp add: pipeInv_def links_def publishedIDs_def)
qed (auto intro: pipeInv_ingest [OF _ assms(2)] pipeInv_claim pipeInv_publish [OF _ assms(2)] pipeInv_mark pipeInv_release
  pipeInv_acknowledge)

lemma zip_snd_unique:
  assumes "(a, x) \<in> set (zip as xs)" "(b, y) \<in> set (zip as xs)" "f x = f y" "distinct (map f xs)"
  shows "a = b"
proof -
  obtain i j where i: "i < length as" "i < length xs" "a = as ! i" "x = xs ! i"
    and j: "j < length as" "j < length xs" "b = as ! j" "y = xs ! j"
    using assms(1,2) by (auto simp: in_set_zip)
  have "map f xs ! i = map f xs ! j" using i j assms(3) by simp
  then have "i = j" using nth_eq_iff_index_eq [OF assms(4), of i j] i(2) j(2) by simp
  with i j show ?thesis by simp
qed

lemma filter_key_single: "distinct (map k xs) \<Longrightarrow> y \<in> set xs \<Longrightarrow> length (filter (\<lambda>r. k r = k y) xs) = 1"
proof (induction xs)
  case (Cons x xs)
  show ?case
  proof (cases "k x = k y")
    case True
    with Cons.prems(1) have "k r \<noteq> k y" if "r \<in> set xs" for r using imageI [OF that, of k] by auto
    then have "filter (\<lambda>r. k r = k y) xs = []" by (simp add: filter_empty_conv)
    with True show ?thesis by simp
  next
    case False
    with Cons show ?thesis by auto
  qed
qed simp

lemma alertFor_unique:
  assumes "pipeInv L cn s" "alertFor s t i"
  shows "length (filter (\<lambda>r. alTenantID (arwAlert r) = t \<and> alEventID (arwAlert r) = i) (adAlerts (psAlerts s))) = 1"
proof -
  let ?k = "\<lambda>r. (alTenantID (arwAlert r), alEventID (arwAlert r))"
  obtain q where q: "q \<in> set (adAlerts (psAlerts s))" "?k q = (t, i)" using assms(2) by (auto simp: alertFor_def)
  have "length (filter (\<lambda>r. ?k r = ?k q) (adAlerts (psAlerts s))) = 1"
    by (rule filter_key_single) (use assms(1) q(1) in \<open>simp_all add: pipeInv_def\<close>)
  with q(2) show ?thesis by simp
qed

section \<open>Property\<close>

definition wPipeEvent :: DetectionEvent where
  "wPipeEvent = icEvent (wIngest ''e'')"

definition wPipeEventLib :: "string eventLib" where
  "wPipeEventLib = wEventLib\<lparr>elMarshal := (\<lambda>e. if e = wPipeEvent then Some ''E'' else None)\<rparr>"

definition wPipeAlertLib :: "string alertLib" where
  "wPipeAlertLib = wAlertLib\<lparr>llUnmarshalEvent := (\<lambda>p. if p = ''E'' then Some wPipeEvent else None)\<rparr>"

definition wPipeState :: pipeState where
  "wPipeState =
     (let s0 = \<lparr>psEvents = wEventDB, psAlerts = wAlertDB\<lparr>adAlerts := []\<rparr>, psClaimed = [], psDone = []\<rparr>;
          s1 = pipeIngest wPipeEventLib (wEventEnv ''m'') (wIngest ''e'') s0;
          s2 = pipeClaim Some (wObEnv 10) ''t'' ''w'' 1 s1;
          s3 = pipePublish wPipeAlertLib wAlertEnv (hd (psClaimed s2)) s2
      in pipeFinish (MarkPublished Some (wObEnv 11) ''t'' ''w'' (omMessageID (hd (psDone s3)))) s3)"

text \<open>C1: Alerts are projected exactly once, end to end. In every history of intakes, claims, projections,
  marks and acknowledgments, with any failures and any number of dispatchers: no event has two alerts, every
  alert belongs to an accepted event, and the event of every outbox message that is marked as published has
  exactly one alert.\<close>

theorem alerts_exactly_once:
  assumes "pipeReach L A cn s" "pipeLaws L A cn"
  shows "distinct (map (\<lambda>r. (alTenantID (arwAlert r), alEventID (arwAlert r))) (adAlerts (psAlerts s))) \<and>
    (\<forall>r \<in> set (adAlerts (psAlerts s)). eventExists (psEvents s) (alTenantID (arwAlert r)) (alEventID (arwAlert r))) \<and>
    (\<forall>(e, m) \<in> set (zip (edEvents (psEvents s)) (edOutbox (psEvents s))). obPublishedAt m \<noteq> None \<longrightarrow>
       length (filter (\<lambda>r. alTenantID (arwAlert r) = dtTenant e \<and> alEventID (arwAlert r) = dtEventID e) (adAlerts (psAlerts s))) = 1)"
proof -
  have inv: "pipeInv L cn s" by (rule pipeReach_inv [OF assms])
  note p = inv [unfolded pipeInv_def]
  have "length (filter (\<lambda>r. alTenantID (arwAlert r) = dtTenant e \<and> alEventID (arwAlert r) = dtEventID e) (adAlerts (psAlerts s))) = 1"
    if em: "(e, m) \<in> set (zip (edEvents (psEvents s)) (edOutbox (psEvents s)))" and pub: "obPublishedAt m \<noteq> None" for e m
  proof -
    have link: "(e, obFixed m) \<in> links s" using em by (auto simp: links_def in_set_zip)
    have "obMessageID m \<in> publishedIDs (edOutbox (psEvents s))"
      using em pub by (auto simp: publishedIDs_iff dest: set_zip_rightD)
    then obtain t where "(t, ConsumerName, obMessageID m) \<in> set (adReceipts (psAlerts s))" using p by blast
    then obtain d topic q where d: "(d, t, obMessageID m, topic, q) \<in> links s" "alertFor s t (dtEventID d)" using p by fast
    have "d = e"
      by (rule zip_snd_unique [of d "(t, obMessageID m, topic, q)" _ "map obFixed (edOutbox (psEvents s))" e "obFixed m" "fst \<circ> snd"])
        (use d(1) link p in \<open>simp_all add: links_def obFixed_def comp_def\<close>)
    moreover have "t = dtTenant d" using p d(1) by (auto simp: linkOK_def)
    ultimately show ?thesis using alertFor_unique [OF inv d(2)] by simp
  qed
  with p show ?thesis by blast
qed

lemma wPipeState_reach: "pipeReach wPipeEventLib wPipeAlertLib Some wPipeState"
proof -
  let ?s0 = "\<lparr>psEvents = wEventDB, psAlerts = wAlertDB\<lparr>adAlerts := []\<rparr>, psClaimed = [], psDone = []\<rparr>"
  let ?s1 = "pipeIngest wPipeEventLib (wEventEnv ''m'') (wIngest ''e'') ?s0"
  let ?s2 = "pipeClaim Some (wObEnv 10) ''t'' ''w'' 1 ?s1"
  let ?s3 = "pipePublish wPipeAlertLib wAlertEnv (hd (psClaimed ?s2)) ?s2"
  have "pipeReach wPipeEventLib wPipeAlertLib Some ?s0"
    by (rule pipeReach.start) (simp_all add: wEventDB_def wAlertDB_def)
  then have "pipeReach wPipeEventLib wPipeAlertLib Some ?s1" by (rule pipeReach.ingest) simp
  then have "pipeReach wPipeEventLib wPipeAlertLib Some ?s2" by (rule pipeReach.claim) (simp add: wObEnv_def)
  moreover have "psClaimed ?s2 \<noteq> []" by code_simp
  ultimately have "pipeReach wPipeEventLib wPipeAlertLib Some ?s3" by (intro pipeReach.publish) simp_all
  moreover have "psDone ?s3 \<noteq> []" by code_simp
  ultimately have "pipeReach wPipeEventLib wPipeAlertLib Some
      (pipeFinish (MarkPublished Some (wObEnv 11) ''t'' ''w'' (omMessageID (hd (psDone ?s3)))) ?s3)"
    by (intro pipeReach.mark) simp_all
  then show ?thesis by (simp only: wPipeState_def Let_def)
qed

theorem alerts_exactly_once_witness:
  "length (adAlerts (psAlerts wPipeState)) = 1 \<and> map obPublishedAt (edOutbox (psEvents wPipeState)) = [Some 11] \<and>
   distinct (map (\<lambda>r. (alTenantID (arwAlert r), alEventID (arwAlert r))) (adAlerts (psAlerts wPipeState)))"
proof -
  have laws: "pipeLaws wPipeEventLib wPipeAlertLib Some"
    by (simp add: pipeLaws_def wPipeEventLib_def wPipeAlertLib_def wEventLib_def wAlertLib_def)
  have "length (adAlerts (psAlerts wPipeState)) = 1" "map obPublishedAt (edOutbox (psEvents wPipeState)) = [Some 11]" by code_simp+
  with alerts_exactly_once [OF wPipeState_reach laws] show ?thesis by blast
qed

end
