(* ===== verification/Mask_Release.thy ===== *)
theory Mask_Release
  imports Go_Float
begin

text \<open>
  The controlled release of privacy masks at the edge, \<open>edge/internal/agent/privacy_mask_*.go\<close>:
  static verification of a candidate, verification of signed hardware-in-loop evidence, the release
  gate, the hardware-bound adapter and the loader of local bundles.

  A \<open>maskLib\<close> holds what these files call: the version that \<open>uuid.Parse\<close> reads from a text and the
  canonical text of a UUID, SHA-256, Ed25519 verification, the time format and the JSON coders. The
  hardware executor and the status reporter are arguments.
\<close>

section \<open>Data\<close>

record PrivacyMaskCandidate =
  pcRequestID :: string
  pcTenantID :: string
  pcSiteID :: string
  pcCameraID :: string
  pcStatus :: string
  pcRequestedBy :: string
  pcApproverIDs :: "string list"
  pcGeometry :: bytes

type_synonym PipelineStage = string

definition PipelineDecode :: PipelineStage where "PipelineDecode = ''decode''"
definition PipelineMask :: PipelineStage where "PipelineMask = ''mask''"
definition PipelineEncode :: PipelineStage where "PipelineEncode = ''encode''"

record PreEncodeVerification =
  pvVerifierVersion :: int
  pvCandidateHash :: string
  pvStages :: "PipelineStage list"

record canonicalCandidate =
  ccVersion :: int
  ccCandidate :: PrivacyMaskCandidate
  ccStages :: "PipelineStage list"

record PrivacyMaskHILAttestation =
  haTestRunID :: string
  haDeviceID :: string
  haCandidateHash :: string
  haHarnessID :: string
  haExecutionKind :: string
  haAttestedAt :: gotime
  haEncoderBuildHash :: string
  haEncodedProbeHash :: string
  haMaskBeforeEncode :: bool
  haEncoderBypassDenied :: bool
  haRawFramesRetained :: bool
  haSignature :: bytes

record canonicalHIL =
  chVersion :: int
  chTestRunID :: string
  chDeviceID :: string
  chCandidateHash :: string
  chHarnessID :: string
  chExecutionKind :: string
  chAttestedAt :: string
  chEncoderBuildHash :: string
  chEncodedProbeHash :: string
  chMaskBeforeEncode :: bool
  chEncoderBypassDenied :: bool
  chRawFramesRetained :: bool

record PrivacyMaskHILVerification =
  hvTestRunID :: string
  hvCandidateHash :: string
  hvEvidenceHash :: string

record PrivacyMaskReleaseManifest =
  pmReleaseID :: string
  pmDeviceID :: string
  pmVersion :: int
  pmCandidate :: PrivacyMaskCandidate
  pmPipeline :: "PipelineStage list"
  pmHILEvidence :: PrivacyMaskHILAttestation

type_synonym maskPoint = "float64 list"
type_synonym maskRings = "maskPoint list list"

text \<open>A JSON value as the token stream of \<open>json.Decoder\<close> presents it.\<close>

datatype jsonValue = JScalar | JArray "jsonValue list" | JObject "(string \<times> jsonValue) list"

record PrivacyMaskReleaseBundle =
  pbSchemaVersion :: int
  pbProfileID :: string
  pbRelease :: PrivacyMaskReleaseManifest

text \<open>
  \<open>mlGeometry\<close> is \<open>json.Unmarshal\<close> into type and coordinates and \<open>mlStrictGeometry\<close> tells that the
  strict decoder accepts the text as one such value; \<open>mlCanonical\<close> is \<open>json.Marshal\<close> after
  \<open>json.Unmarshal\<close> into \<open>any\<close>; \<open>mlTokens\<close> and \<open>mlBundle\<close> read one value and leave the rest.
\<close>

record maskLib =
  mlVersion :: "string \<Rightarrow> int option"
  mlCanonicalUUID :: "string \<Rightarrow> string"
  mlSha :: "bytes \<Rightarrow> bytes"
  mlVerify :: "bytes \<Rightarrow> bytes \<Rightarrow> bytes \<Rightarrow> bool"
  mlNano :: "gotime \<Rightarrow> string"
  mlValid :: "bytes \<Rightarrow> bool"
  mlGeometry :: "bytes \<Rightarrow> (string \<times> maskRings) option"
  mlStrictGeometry :: "bytes \<Rightarrow> bool"
  mlCanonical :: "bytes \<Rightarrow> bytes option"
  mlMarshalCandidate :: "canonicalCandidate \<Rightarrow> bytes option"
  mlMarshalHIL :: "canonicalHIL \<Rightarrow> bytes option"
  mlTokens :: "bytes \<Rightarrow> (jsonValue \<times> bytes) option"
  mlBundle :: "bytes \<Rightarrow> (PrivacyMaskReleaseBundle \<times> bytes) option"
  mlEOF :: "bytes \<Rightarrow> bool"

definition uuid4 :: "maskLib \<Rightarrow> string \<Rightarrow> bool" where
  "uuid4 L s \<longleftrightarrow> mlVersion L s = Some 4"

section \<open>Candidates\<close>

definition maxMaskGeometryBytes :: int where "maxMaskGeometryBytes = 65536"
definition maxMaskVertices :: nat where "maxMaskVertices = 128"

definition normalizedCoordinate :: "float64 \<Rightarrow> bool" where
  "normalizedCoordinate v \<longleftrightarrow> \<not> isNaN v \<and> \<not> isInf v \<and> fgeq v (Fin 0) \<and> fgeq (Fin 1) v"

definition samePoint :: "maskPoint \<Rightarrow> maskPoint \<Rightarrow> bool" where
  "samePoint l r \<longleftrightarrow> length l = 2 \<and> length r = 2 \<and> feq (l ! 0) (r ! 0) \<and> feq (l ! 1) (r ! 1)"

fun checkRings :: "nat \<Rightarrow> maskRings \<Rightarrow> bool" where
  "checkRings vertices [] = True"
| "checkRings vertices (ring # rings) =
     (length ring \<ge> 4 \<and> vertices + length ring \<le> maxMaskVertices \<and> samePoint (hd ring) (last ring) \<and>
      list_all (\<lambda>p. length p = 2 \<and> normalizedCoordinate (p ! 0) \<and> normalizedCoordinate (p ! 1)) ring \<and>
      checkRings (vertices + length ring) rings)"

definition canonicalGeometry :: "maskLib \<Rightarrow> bytes \<Rightarrow> bytes option" where
  "canonicalGeometry L raw =
     (if raw = [] \<or> int (length raw) > maxMaskGeometryBytes \<or> \<not> mlValid L raw then None
      else
        (case mlGeometry L raw of
           None \<Rightarrow> None
         | Some (kind, rings) \<Rightarrow>
             if kind \<noteq> ''Polygon'' \<or> rings = [] \<or> \<not> checkRings 0 rings then None else mlCanonical L raw))"

fun checkApprovers :: "string \<Rightarrow> string list \<Rightarrow> string list \<Rightarrow> bool" where
  "checkApprovers requester seen [] = True"
| "checkApprovers requester seen (a # as) =
     (let approver = trimSpace a in
      approver \<noteq> [] \<and> length approver \<le> 128 \<and> approver \<noteq> requester \<and> approver \<notin> set seen \<and>
      checkApprovers requester (approver # seen) as)"

definition validatePrivacyMaskCandidate :: "maskLib \<Rightarrow> PrivacyMaskCandidate \<Rightarrow> bool" where
  "validatePrivacyMaskCandidate L c \<longleftrightarrow>
     list_all (uuid4 L) [pcRequestID c, pcTenantID c, pcSiteID c, pcCameraID c] \<and>
     (let requester = trimSpace (pcRequestedBy c) in
      pcStatus c = ''approved'' \<and> requester \<noteq> [] \<and> length requester \<le> 128 \<and> length (pcApproverIDs c) = 2 \<and>
      checkApprovers requester [] (pcApproverIDs c)) \<and>
     canonicalGeometry L (pcGeometry c) \<noteq> None"

definition isStrictPreEncodePipeline :: "PipelineStage list \<Rightarrow> bool" where
  "isStrictPreEncodePipeline stages \<longleftrightarrow>
     length stages = 3 \<and> stages ! 0 = PipelineDecode \<and> stages ! 1 = PipelineMask \<and> stages ! 2 = PipelineEncode"

definition VerifyPreEncodePrivacyMask ::
  "maskLib \<Rightarrow> PrivacyMaskCandidate \<Rightarrow> PipelineStage list \<Rightarrow> PreEncodeVerification option" where
  "VerifyPreEncodePrivacyMask L candidate stages =
     (if \<not> validatePrivacyMaskCandidate L candidate \<or> \<not> isStrictPreEncodePipeline stages then None
      else
        (case canonicalGeometry L (pcGeometry candidate) of
           None \<Rightarrow> None
         | Some geometry \<Rightarrow>
             (case mlMarshalCandidate L \<lparr>ccVersion = 1, ccCandidate = candidate\<lparr>pcGeometry := geometry\<rparr>, ccStages = stages\<rparr> of
                None \<Rightarrow> None
              | Some payload \<Rightarrow>
                  Some \<lparr>pvVerifierVersion = 1, pvCandidateHash = hexEncode (mlSha L payload), pvStages = stages\<rparr>)))"

section \<open>Hardware-in-loop evidence\<close>

definition validSHA256Hex :: "string \<Rightarrow> bool" where
  "validSHA256Hex v \<longleftrightarrow> length v = 64 \<and> hexDecode v \<noteq> None"

definition validateHILAttestation :: "maskLib \<Rightarrow> PrivacyMaskHILAttestation \<Rightarrow> bool" where
  "validateHILAttestation L a \<longleftrightarrow>
     uuid4 L (haTestRunID a) \<and> uuid4 L (haDeviceID a) \<and>
     validSHA256Hex (haCandidateHash a) \<and> validSHA256Hex (haEncoderBuildHash a) \<and> validSHA256Hex (haEncodedProbeHash a) \<and>
     trimSpace (haHarnessID a) \<noteq> [] \<and> length (trimSpace (haHarnessID a)) \<le> 128 \<and> haExecutionKind a = ''physical'' \<and>
     haAttestedAt a \<noteq> 0 \<and> haMaskBeforeEncode a \<and> haEncoderBypassDenied a \<and> \<not> haRawFramesRetained a \<and>
     length (haSignature a) = 64"

definition canonicalHILPayload :: "maskLib \<Rightarrow> PrivacyMaskHILAttestation \<Rightarrow> bytes option" where
  "canonicalHILPayload L a = mlMarshalHIL L
     \<lparr>chVersion = 1, chTestRunID = haTestRunID a, chDeviceID = haDeviceID a, chCandidateHash = haCandidateHash a,
      chHarnessID = trimSpace (haHarnessID a), chExecutionKind = haExecutionKind a, chAttestedAt = mlNano L (haAttestedAt a),
      chEncoderBuildHash = haEncoderBuildHash a, chEncodedProbeHash = haEncodedProbeHash a,
      chMaskBeforeEncode = haMaskBeforeEncode a, chEncoderBypassDenied = haEncoderBypassDenied a,
      chRawFramesRetained = haRawFramesRetained a\<rparr>"

definition VerifyPrivacyMaskHILEvidence ::
  "maskLib \<Rightarrow> PrivacyMaskHILAttestation \<Rightarrow> (string \<rightharpoonup> bytes) \<Rightarrow> PrivacyMaskHILVerification option" where
  "VerifyPrivacyMaskHILEvidence L a keys =
     (if \<not> validateHILAttestation L a then None
      else
        (case keys (trimSpace (haHarnessID a)) of
           None \<Rightarrow> None
         | Some key \<Rightarrow>
             if length key \<noteq> 32 then None
             else
               (case canonicalHILPayload L a of
                  None \<Rightarrow> None
                | Some payload \<Rightarrow>
                    if \<not> mlVerify L key payload (haSignature a) then None
                    else Some \<lparr>hvTestRunID = haTestRunID a, hvCandidateHash = haCandidateHash a,
                           hvEvidenceHash = hexEncode (mlSha L payload)\<rparr>)))"

section \<open>The release gate\<close>

datatype PrivacyMaskReleaseState = PrivacyMaskReleaseAccepted | PrivacyMaskReleaseFailed | PrivacyMaskReleaseNone

record PrivacyMaskReleaseStatus =
  psReleaseID :: string
  psDeviceID :: string
  psVersion :: int
  psCandidateHash :: string
  psEvidenceHash :: string
  psState :: PrivacyMaskReleaseState
  psErrorCode :: string

datatype maskError = ErrInvalidPrivacyMaskRelease | ErrInvalidPrivacyMaskHardwareAdapter | MaskExecutor string | MaskReport string

record ControlledPrivacyMaskRelease =
  crKeys :: "string \<rightharpoonup> bytes"
  crLastAccepted :: "PrivacyMaskReleaseStatus option"

definition NewControlledPrivacyMaskRelease :: "(string \<times> bytes) list \<Rightarrow> maskError + ControlledPrivacyMaskRelease" where
  "NewControlledPrivacyMaskRelease keys =
     (if keys = [] \<or> (\<exists>(harness, key) \<in> set keys. harness = [] \<or> length key \<noteq> 32) then Inl ErrInvalidPrivacyMaskRelease
      else Inr \<lparr>crKeys = map_of keys, crLastAccepted = None\<rparr>)"

definition failedStatus :: "string \<Rightarrow> string \<Rightarrow> string \<Rightarrow> PrivacyMaskReleaseStatus" where
  "failedStatus releaseID deviceID hash = \<lparr>psReleaseID = releaseID, psDeviceID = deviceID, psVersion = 0,
     psCandidateHash = hash, psEvidenceHash = [], psState = PrivacyMaskReleaseFailed, psErrorCode = ''verification_failed''\<rparr>"

definition verifiedStatus ::
  "maskLib \<Rightarrow> ControlledPrivacyMaskRelease \<Rightarrow> PrivacyMaskReleaseManifest \<Rightarrow> PrivacyMaskReleaseStatus + PrivacyMaskReleaseStatus" where
  "verifiedStatus L r m =
     (if \<not> uuid4 L (pmReleaseID m) \<or> pmVersion m < 1 then Inl (failedStatus [] [] [])
      else if \<not> uuid4 L (pmDeviceID m) then Inl (failedStatus (pmReleaseID m) [] [])
      else
        (case VerifyPreEncodePrivacyMask L (pmCandidate m) (pmPipeline m) of
           None \<Rightarrow> Inl (failedStatus (pmReleaseID m) (pmDeviceID m) [])
         | Some v \<Rightarrow>
             if haDeviceID (pmHILEvidence m) \<noteq> pmDeviceID m \<or> haCandidateHash (pmHILEvidence m) \<noteq> pvCandidateHash v
             then Inl (failedStatus (pmReleaseID m) (pmDeviceID m) [])
             else
               (case VerifyPrivacyMaskHILEvidence L (pmHILEvidence m) (crKeys r) of
                  None \<Rightarrow> Inl (failedStatus (pmReleaseID m) (pmDeviceID m) (pvCandidateHash v))
                | Some h \<Rightarrow>
                    if hvCandidateHash h \<noteq> pvCandidateHash v
                    then Inl (failedStatus (pmReleaseID m) (pmDeviceID m) (pvCandidateHash v))
                    else Inr \<lparr>psReleaseID = pmReleaseID m, psDeviceID = pmDeviceID m, psVersion = pmVersion m,
                      psCandidateHash = pvCandidateHash v, psEvidenceHash = hvEvidenceHash h,
                      psState = PrivacyMaskReleaseNone, psErrorCode = []\<rparr>)))"

text \<open>
  \<open>apply\<close> is the applier over its own state, \<open>report\<close> the error of the reporter, if any. The result has
  the gate, the applier, the status that was reported and the error returned.
\<close>

definition Accept ::
  "maskLib \<Rightarrow> (PrivacyMaskReleaseManifest \<Rightarrow> 'a \<Rightarrow> 'a \<times> maskError option) \<Rightarrow> (PrivacyMaskReleaseStatus \<Rightarrow> string option) \<Rightarrow>
     PrivacyMaskReleaseManifest \<Rightarrow> ControlledPrivacyMaskRelease \<times> 'a \<Rightarrow>
     (ControlledPrivacyMaskRelease \<times> 'a) \<times> PrivacyMaskReleaseStatus \<times> maskError option" where
  "Accept L apply report m s =
     (case s of (r, a) \<Rightarrow>
      case verifiedStatus L r m of
        Inl status \<Rightarrow>
          (s, status\<lparr>psState := PrivacyMaskReleaseFailed, psErrorCode := ''verification_failed''\<rparr>, Some ErrInvalidPrivacyMaskRelease)
      | Inr status \<Rightarrow>
          if (case crLastAccepted r of None \<Rightarrow> False | Some l \<Rightarrow> pmVersion m \<le> psVersion l)
          then (s, status\<lparr>psState := PrivacyMaskReleaseFailed, psErrorCode := ''stale_release''\<rparr>, Some ErrInvalidPrivacyMaskRelease)
          else
            (case apply m a of
               (a', Some err) \<Rightarrow>
                 ((r, a'), status\<lparr>psState := PrivacyMaskReleaseFailed, psErrorCode := ''apply_failed''\<rparr>, Some err)
             | (a', None) \<Rightarrow>
                 let accepted = status\<lparr>psState := PrivacyMaskReleaseAccepted\<rparr>
                 in ((r\<lparr>crLastAccepted := Some accepted\<rparr>, a'), accepted, map_option MaskReport (report accepted))))"

section \<open>The hardware adapter\<close>

definition maxPrivacyMaskHardwareProfileIDLength :: nat where "maxPrivacyMaskHardwareProfileIDLength = 128"

record PrivacyMaskHardwareProfile =
  hpProfileID :: string
  hpDeviceID :: string
  hpHarnessID :: string

record HardwarePrivacyMaskActivation =
  hmProfileID :: string
  hmReleaseID :: string
  hmDeviceID :: string
  hmVersion :: int
  hmCandidateHash :: string
  hmPipeline :: "PipelineStage list"

record HardwareBoundPrivacyMaskAdapter =
  hbProfile :: PrivacyMaskHardwareProfile
  hbKey :: bytes
  hbActive :: "HardwarePrivacyMaskActivation option"

definition validatePrivacyMaskHardwareProfile :: "maskLib \<Rightarrow> PrivacyMaskHardwareProfile \<Rightarrow> bool" where
  "validatePrivacyMaskHardwareProfile L p \<longleftrightarrow>
     hpProfileID p = trimSpace (hpProfileID p) \<and> hpHarnessID p = trimSpace (hpHarnessID p) \<and> hpProfileID p \<noteq> [] \<and>
     hpHarnessID p \<noteq> [] \<and> length (hpProfileID p) \<le> maxPrivacyMaskHardwareProfileIDLength \<and> length (hpHarnessID p) \<le> 128 \<and>
     uuid4 L (hpDeviceID p)"

definition NewHardwareBoundPrivacyMaskAdapter ::
  "maskLib \<Rightarrow> PrivacyMaskHardwareProfile \<Rightarrow> bytes \<Rightarrow> maskError + HardwareBoundPrivacyMaskAdapter" where
  "NewHardwareBoundPrivacyMaskAdapter L profile key =
     (if \<not> validatePrivacyMaskHardwareProfile L profile \<or> length key \<noteq> 32 then Inl ErrInvalidPrivacyMaskHardwareAdapter
      else Inr \<lparr>hbProfile = profile\<lparr>hpProfileID := trimSpace (hpProfileID profile), hpHarnessID := trimSpace (hpHarnessID profile)\<rparr>,
        hbKey = key, hbActive = None\<rparr>)"

definition activationFor ::
  "maskLib \<Rightarrow> HardwareBoundPrivacyMaskAdapter \<Rightarrow> PrivacyMaskReleaseManifest \<Rightarrow> HardwarePrivacyMaskActivation option" where
  "activationFor L a m =
     (let p = hbProfile a; e = pmHILEvidence m in
      if \<not> validatePrivacyMaskHardwareProfile L p then None
      else if pmDeviceID m \<noteq> hpDeviceID p \<or> haDeviceID e \<noteq> hpDeviceID p \<or> trimSpace (haHarnessID e) \<noteq> hpHarnessID p \<or>
        haExecutionKind e \<noteq> ''physical'' \<or> \<not> haMaskBeforeEncode e \<or> \<not> haEncoderBypassDenied e \<or> haRawFramesRetained e then None
      else
        (case VerifyPreEncodePrivacyMask L (pmCandidate m) (pmPipeline m) of
           None \<Rightarrow> None
         | Some v \<Rightarrow>
             if haCandidateHash e \<noteq> pvCandidateHash v \<or>
                VerifyPrivacyMaskHILEvidence L e [hpHarnessID p \<mapsto> hbKey a] = None \<or>
                \<not> uuid4 L (pmReleaseID m) \<or> pmVersion m < 1 then None
             else Some \<lparr>hmProfileID = hpProfileID p, hmReleaseID = pmReleaseID m, hmDeviceID = pmDeviceID m,
               hmVersion = pmVersion m, hmCandidateHash = pvCandidateHash v, hmPipeline = pmPipeline m\<rparr>))"

text \<open>\<open>execute\<close> is the error of the hardware executor, if any.\<close>

definition ApplyVerifiedRelease ::
  "maskLib \<Rightarrow> (HardwarePrivacyMaskActivation \<Rightarrow> string option) \<Rightarrow> PrivacyMaskReleaseManifest \<Rightarrow>
     HardwareBoundPrivacyMaskAdapter \<Rightarrow> HardwareBoundPrivacyMaskAdapter \<times> maskError option" where
  "ApplyVerifiedRelease L execute m a =
     (case activationFor L a m of
        None \<Rightarrow> (a, Some ErrInvalidPrivacyMaskHardwareAdapter)
      | Some activation \<Rightarrow>
          let run = (case execute activation of
                       Some err \<Rightarrow> (a, Some (MaskExecutor err))
                     | None \<Rightarrow> (a\<lparr>hbActive := Some activation\<rparr>, None))
          in case hbActive a of
               None \<Rightarrow> run
             | Some active \<Rightarrow>
                 if hmVersion activation < hmVersion active then (a, Some ErrInvalidPrivacyMaskHardwareAdapter)
                 else if hmVersion activation = hmVersion active
                 then (if activation = active then (a, None) else (a, Some ErrInvalidPrivacyMaskHardwareAdapter))
                 else run)"

section \<open>The bundle loader\<close>

definition maxPrivacyMaskReleaseBundleBytes :: nat where "maxPrivacyMaskReleaseBundleBytes = 131072"

record PrivacyMaskReleaseScope =
  rsTenantID :: string
  rsSiteID :: string
  rsCameraID :: string
  rsProfile :: PrivacyMaskHardwareProfile

record PrivacyMaskReleaseLoader =
  rlScope :: PrivacyMaskReleaseScope
  rlKey :: bytes

record LoadedPrivacyMaskRelease =
  lpManifest :: PrivacyMaskReleaseManifest
  lpProfileID :: string
  lpCandidateHash :: string
  lpEvidenceHash :: string

definition validatePrivacyMaskReleaseScope :: "maskLib \<Rightarrow> PrivacyMaskReleaseScope \<Rightarrow> bool" where
  "validatePrivacyMaskReleaseScope L s \<longleftrightarrow>
     list_all (uuid4 L) [rsTenantID s, rsSiteID s, rsCameraID s] \<and> validatePrivacyMaskHardwareProfile L (rsProfile s)"

definition NewPrivacyMaskReleaseLoader :: "maskLib \<Rightarrow> PrivacyMaskReleaseScope \<Rightarrow> bytes \<Rightarrow> PrivacyMaskReleaseLoader option" where
  "NewPrivacyMaskReleaseLoader L s key =
     (if \<not> validatePrivacyMaskReleaseScope L s \<or> length key \<noteq> 32 then None else Some \<lparr>rlScope = s, rlKey = key\<rparr>)"

fun scanUniqueJSONValue :: "jsonValue \<Rightarrow> bool" where
  "scanUniqueJSONValue JScalar = True"
| "scanUniqueJSONValue (JArray vs) = list_all scanUniqueJSONValue vs"
| "scanUniqueJSONValue (JObject kvs) = (distinct (map fst kvs) \<and> list_all (\<lambda>kv. scanUniqueJSONValue (snd kv)) kvs)"

definition rejectDuplicateJSONFields :: "maskLib \<Rightarrow> bytes \<Rightarrow> bool" where
  "rejectDuplicateJSONFields L payload =
     (case mlTokens L payload of None \<Rightarrow> False | Some (v, rest) \<Rightarrow> scanUniqueJSONValue v \<and> mlEOF L rest)"

text \<open>\<open>content\<close> is all the reader would give, \<open>None\<close> when reading fails.\<close>

definition Load :: "maskLib \<Rightarrow> PrivacyMaskReleaseLoader \<Rightarrow> bytes option \<Rightarrow> LoadedPrivacyMaskRelease option" where
  "Load L l content =
     (let s = rlScope l in
      if \<not> validatePrivacyMaskReleaseScope L s \<or> length (rlKey l) \<noteq> 32 then None
      else
        (case map_option (take (maxPrivacyMaskReleaseBundleBytes + 1)) content of
           None \<Rightarrow> None
         | Some payload \<Rightarrow>
             if payload = [] \<or> length payload > maxPrivacyMaskReleaseBundleBytes \<or> \<not> rejectDuplicateJSONFields L payload then None
             else
               (case mlBundle L payload of
                  None \<Rightarrow> None
                | Some (bundle, rest) \<Rightarrow>
                    let m = pbRelease bundle; c = pmCandidate m; e = pmHILEvidence m; p = rsProfile s in
                    if \<not> mlEOF L rest \<or> pbSchemaVersion bundle \<noteq> 1 \<or> pbProfileID bundle \<noteq> hpProfileID p \<or>
                       \<not> uuid4 L (pmReleaseID m) \<or> pmVersion m < 1 \<or> \<not> mlStrictGeometry L (pcGeometry c) \<or>
                       pcTenantID c \<noteq> rsTenantID s \<or> pcSiteID c \<noteq> rsSiteID s \<or> pcCameraID c \<noteq> rsCameraID s \<or>
                       pmDeviceID m \<noteq> hpDeviceID p \<or> haDeviceID e \<noteq> hpDeviceID p \<or> haHarnessID e \<noteq> hpHarnessID p
                    then None
                    else
                      (case VerifyPreEncodePrivacyMask L c (pmPipeline m) of
                         None \<Rightarrow> None
                       | Some v \<Rightarrow>
                           if haCandidateHash e \<noteq> pvCandidateHash v then None
                           else
                             (case VerifyPrivacyMaskHILEvidence L e [hpHarnessID p \<mapsto> rlKey l] of
                                None \<Rightarrow> None
                              | Some h \<Rightarrow>
                                  if hvCandidateHash h \<noteq> pvCandidateHash v then None
                                  else Some \<lparr>lpManifest = m, lpProfileID = hpProfileID p,
                                    lpCandidateHash = pvCandidateHash v, lpEvidenceHash = hvEvidenceHash h\<rparr>)))))"

end
