(* ===== verification/Mask_Frame.thy ===== *)
theory Mask_Frame
  imports Mask_Release
begin

text \<open>
  The frame path of the edge agent: the mask that is applied before analytics
  (\<open>privacy_mask_frame.go\<close>) and the sampler behind it (\<open>frame_sampling.go\<close>).

  The arithmetic of \<open>float64\<close> is the parameter \<open>floatOps\<close>: which points a polygon contains is computed
  with the expressions of the code over it, and no property depends on how they round. Pixels are
  bytes; the buffer a frame owns is the list in the frame, which the mask overwrites and passes on.
\<close>

section \<open>Frames\<close>

definition maxMaskFrameDimension :: int where "maxMaskFrameDimension = 8192"

record RGB24Frame =
  frCameraID :: string
  frSequence :: "64 word"
  frObservedAt :: gotime
  frWidth :: int
  frHeight :: int
  frPixels :: bytes

definition validateRGB24Frame :: "maskLib \<Rightarrow> RGB24Frame \<Rightarrow> bool" where
  "validateRGB24Frame L f \<longleftrightarrow>
     uuid4 L (frCameraID f) \<and> 0 < frWidth f \<and> frWidth f \<le> maxMaskFrameDimension \<and>
     0 < frHeight f \<and> frHeight f \<le> maxMaskFrameDimension \<and>
     (let want = frWidth f * frHeight f * 3 in
      0 < want \<and> want \<le> maxMaskFrameDimension * maxMaskFrameDimension * 3 \<and> int (length (frPixels f)) = want)"

section \<open>Geometry\<close>

record floatOps =
  foOfInt :: "int \<Rightarrow> float64"
  foAdd :: "float64 \<Rightarrow> float64 \<Rightarrow> float64"
  foSub :: "float64 \<Rightarrow> float64 \<Rightarrow> float64"
  foMul :: "float64 \<Rightarrow> float64 \<Rightarrow> float64"
  foDiv :: "float64 \<Rightarrow> float64 \<Rightarrow> float64"
  foAbs :: "float64 \<Rightarrow> float64"
  foMin :: "float64 \<Rightarrow> float64 \<Rightarrow> float64"
  foMax :: "float64 \<Rightarrow> float64 \<Rightarrow> float64"
  foHalf :: float64
  foEpsilon :: float64

definition pointOnSegment ::
  "floatOps \<Rightarrow> float64 \<Rightarrow> float64 \<Rightarrow> float64 \<Rightarrow> float64 \<Rightarrow> float64 \<Rightarrow> float64 \<Rightarrow> bool" where
  "pointOnSegment F px py ax ay bx by =
     (let cross = foSub F (foMul F (foSub F px ax) (foSub F by ay)) (foMul F (foSub F py ay) (foSub F bx ax)) in
      if fless (foEpsilon F) (foAbs F cross) then False
      else fgeq px (foSub F (foMin F ax bx) (foEpsilon F)) \<and> fgeq (foAdd F (foMax F ax bx) (foEpsilon F)) px \<and>
           fgeq py (foSub F (foMin F ay by) (foEpsilon F)) \<and> fgeq (foAdd F (foMax F ay by) (foEpsilon F)) py)"

fun ringLoop :: "floatOps \<Rightarrow> float64 \<Rightarrow> float64 \<Rightarrow> bool \<Rightarrow> maskPoint list \<Rightarrow> bool \<times> bool" where
  "ringLoop F x y inside (point # succ # rest) =
     (if pointOnSegment F x y (point ! 0) (point ! 1) (succ ! 0) (succ ! 1) then (True, True)
      else if fless y (point ! 1) = fless y (succ ! 1) then ringLoop F x y inside (succ # rest)
      else
        let intersection = foAdd F (foDiv F (foMul F (foSub F (succ ! 0) (point ! 0)) (foSub F y (point ! 1)))
                             (foSub F (succ ! 1) (point ! 1))) (point ! 0)
        in ringLoop F x y (if fless x intersection then \<not> inside else inside) (succ # rest))"
| "ringLoop F x y inside ring = (inside, False)"

definition pointInMaskRing :: "floatOps \<Rightarrow> float64 \<Rightarrow> float64 \<Rightarrow> maskPoint list \<Rightarrow> bool \<times> bool" where
  "pointInMaskRing F x y ring = ringLoop F x y False ring"

fun holeLoop :: "floatOps \<Rightarrow> float64 \<Rightarrow> float64 \<Rightarrow> maskRings \<Rightarrow> bool" where
  "holeLoop F x y [] = True"
| "holeLoop F x y (hole # holes) =
     (let (insideHole, holeBoundary) = pointInMaskRing F x y hole in
      if holeBoundary then True else if insideHole then False else holeLoop F x y holes)"

definition maskedPoint :: "floatOps \<Rightarrow> float64 \<Rightarrow> float64 \<Rightarrow> maskRings \<Rightarrow> bool" where
  "maskedPoint F x y rings =
     (let (insideOuter, boundary) = pointInMaskRing F x y (hd rings) in
      if boundary then True else if \<not> insideOuter then False else holeLoop F x y (tl rings))"

section \<open>The mask\<close>

record PreAnalyticsPrivacyMask =
  fmCameraID :: string
  fmReleaseID :: string
  fmReleaseVersion :: int
  fmCandidateHash :: string
  fmRings :: maskRings
  fmMaskWidth :: int
  fmMaskHeight :: int
  fmMaskPixels :: "bool list"

definition validFrameMaskActivation :: "maskLib \<Rightarrow> HardwarePrivacyMaskActivation \<Rightarrow> bool" where
  "validFrameMaskActivation L a \<longleftrightarrow>
     (let profileID = trimSpace (hmProfileID a) in
      profileID \<noteq> [] \<and> profileID = hmProfileID a \<and> length profileID \<le> maxPrivacyMaskHardwareProfileIDLength) \<and>
     hmVersion a \<ge> 1 \<and> isStrictPreEncodePipeline (hmPipeline a) \<and> uuid4 L (hmReleaseID a) \<and> uuid4 L (hmDeviceID a)"

definition NewPreAnalyticsPrivacyMask ::
  "maskLib \<Rightarrow> PrivacyMaskCandidate \<Rightarrow> HardwareBoundPrivacyMaskAdapter \<Rightarrow> PreAnalyticsPrivacyMask option" where
  "NewPreAnalyticsPrivacyMask L candidate adapter =
     (case hbActive adapter of
        None \<Rightarrow> None
      | Some activation \<Rightarrow>
          if \<not> validFrameMaskActivation L activation then None
          else
            (case VerifyPreEncodePrivacyMask L candidate [PipelineDecode, PipelineMask, PipelineEncode] of
               None \<Rightarrow> None
             | Some v \<Rightarrow>
                 if hmCandidateHash activation \<noteq> pvCandidateHash v then None
                 else
                   (case mlGeometry L (pcGeometry candidate) of
                      None \<Rightarrow> None
                    | Some (_, rings) \<Rightarrow>
                        if rings = [] then None
                        else Some \<lparr>fmCameraID = pcCameraID candidate, fmReleaseID = hmReleaseID activation,
                          fmReleaseVersion = hmVersion activation, fmCandidateHash = pvCandidateHash v, fmRings = rings,
                          fmMaskWidth = 0, fmMaskHeight = 0, fmMaskPixels = []\<rparr>)))"

definition maskAt :: "floatOps \<Rightarrow> maskRings \<Rightarrow> int \<Rightarrow> int \<Rightarrow> nat \<Rightarrow> nat \<Rightarrow> bool" where
  "maskAt F rings width height x y =
     maskedPoint F (foDiv F (foAdd F (foOfInt F (int x)) (foHalf F)) (foOfInt F width))
       (foDiv F (foAdd F (foOfInt F (int y)) (foHalf F)) (foOfInt F height)) rings"

definition computeMask :: "floatOps \<Rightarrow> maskRings \<Rightarrow> int \<Rightarrow> int \<Rightarrow> bool list" where
  "computeMask F rings width height =
     concat (map (\<lambda>y. map (\<lambda>x. maskAt F rings width height x y) [0..<nat width]) [0..<nat height])"

definition maskFor :: "floatOps \<Rightarrow> int \<Rightarrow> int \<Rightarrow> PreAnalyticsPrivacyMask \<Rightarrow> PreAnalyticsPrivacyMask \<times> bool list" where
  "maskFor F width height m =
     (if fmMaskWidth m = width \<and> fmMaskHeight m = height \<and> int (length (fmMaskPixels m)) = width * height
      then (m, fmMaskPixels m)
      else
        let bits = computeMask F (fmRings m) width height
        in (m\<lparr>fmMaskWidth := width, fmMaskHeight := height, fmMaskPixels := bits\<rparr>, bits))"

fun maskLoop :: "nat \<Rightarrow> bool list \<Rightarrow> bytes \<Rightarrow> bytes" where
  "maskLoop pixel [] pixels = pixels"
| "maskLoop pixel (masked # bits) pixels =
     maskLoop (Suc pixel) bits
       (if masked
        then pixels[pixel * 3 := CHR 0x00, pixel * 3 + 1 := CHR 0x00, pixel * 3 + 2 := CHR 0x00]
        else pixels)"

datatype frameError = ErrInvalidPrivacyMaskFrame | ErrInvalidAnalyticsFrame | FrameContext string | FrameConsumer string

text \<open>
  \<open>active\<close> is the active release of the adapter, \<open>ctxErr\<close> the error of the context, and \<open>consume\<close> the
  consumer over its own state.
\<close>

definition Forward ::
  "maskLib \<Rightarrow> floatOps \<Rightarrow> (RGB24Frame \<Rightarrow> 'c \<Rightarrow> 'c \<times> frameError option) \<Rightarrow> HardwarePrivacyMaskActivation option \<Rightarrow>
     string option \<Rightarrow> RGB24Frame \<Rightarrow> PreAnalyticsPrivacyMask \<times> 'c \<Rightarrow> (PreAnalyticsPrivacyMask \<times> 'c) \<times> frameError option" where
  "Forward L F consume active ctxErr frame s =
     (case s of (m, c) \<Rightarrow>
      if \<not> validateRGB24Frame L frame \<or> frCameraID frame \<noteq> fmCameraID m then (s, Some ErrInvalidPrivacyMaskFrame)
      else
        (case active of
           None \<Rightarrow> (s, Some ErrInvalidPrivacyMaskFrame)
         | Some a \<Rightarrow>
             if hmReleaseID a \<noteq> fmReleaseID m \<or> hmVersion a \<noteq> fmReleaseVersion m \<or> hmCandidateHash a \<noteq> fmCandidateHash m
             then (s, Some ErrInvalidPrivacyMaskFrame)
             else
               (case ctxErr of
                  Some err \<Rightarrow> (s, Some (FrameContext err))
                | None \<Rightarrow>
                    let (m', bits) = maskFor F (frWidth frame) (frHeight frame) m;
                        (c', r) = consume (frame\<lparr>frPixels := maskLoop 0 bits (frPixels frame)\<rparr>) c
                    in ((m', c'), r))))"

section \<open>The sampler\<close>

definition MinAnalyticsFrameFPS :: int where "MinAnalyticsFrameFPS = 5"
definition MaxAnalyticsFrameFPS :: int where "MaxAnalyticsFrameFPS = 10"

record FrameSamplingMetrics =
  smAcceptedFrames :: "64 word"
  smForwardedFrames :: "64 word"
  smRateSuppressedFrames :: "64 word"
  smDuplicateFrames :: "64 word"
  smDownstreamFailures :: "64 word"

record AnalyticsFrameSampler =
  asCameraID :: string
  asInterval :: duration
  asInitialized :: bool
  asLastSequence :: "64 word"
  asLastObserved :: gotime
  asLastSampled :: gotime
  asLastDigest :: "bytes option"
  asMetrics :: FrameSamplingMetrics

definition NewAnalyticsFrameSampler :: "maskLib \<Rightarrow> string \<Rightarrow> int \<Rightarrow> AnalyticsFrameSampler option" where
  "NewAnalyticsFrameSampler L cameraID framesPerSecond =
     (if \<not> uuid4 L cameraID \<or> framesPerSecond < MinAnalyticsFrameFPS \<or> framesPerSecond > MaxAnalyticsFrameFPS then None
      else Some \<lparr>asCameraID = mlCanonicalUUID L cameraID, asInterval = second div framesPerSecond, asInitialized = False,
        asLastSequence = 0, asLastObserved = 0, asLastSampled = 0, asLastDigest = None,
        asMetrics = \<lparr>smAcceptedFrames = 0, smForwardedFrames = 0, smRateSuppressedFrames = 0, smDuplicateFrames = 0,
          smDownstreamFailures = 0\<rparr>\<rparr>)"

text \<open>\<open>binary.BigEndian.PutUint64\<close>.\<close>

definition bigEndian64 :: "int \<Rightarrow> bytes" where
  "bigEndian64 n = map (\<lambda>k. char_of (n div 256 ^ k mod 256)) [7, 6, 5, 4, 3, 2, 1, 0]"

definition analyticsFrameDigest :: "maskLib \<Rightarrow> RGB24Frame \<Rightarrow> bytes" where
  "analyticsFrameDigest L f = mlSha L (bigEndian64 (frWidth f) @ bigEndian64 (frHeight f) @ frPixels f)"

text \<open>The last component is the frame that was handed to the analytics consumer, if any.\<close>

definition ConsumeMaskedFrame ::
  "maskLib \<Rightarrow> (RGB24Frame \<Rightarrow> string option) \<Rightarrow> string option \<Rightarrow> RGB24Frame \<Rightarrow> AnalyticsFrameSampler \<Rightarrow>
     AnalyticsFrameSampler \<times> frameError option \<times> RGB24Frame option" where
  "ConsumeMaskedFrame L consume ctxErr frame s =
     (if \<not> validateRGB24Frame L frame \<or> frCameraID frame \<noteq> asCameraID s \<or> frSequence frame = 0 \<or> frObservedAt frame = 0
      then (s, Some ErrInvalidAnalyticsFrame, None)
      else
        (case ctxErr of
           Some err \<Rightarrow> (s, Some (FrameContext err), None)
         | None \<Rightarrow>
             let digest = analyticsFrameDigest L frame; observedAt = frObservedAt frame in
             if asInitialized s \<and> (frSequence frame \<le> asLastSequence s \<or> observedAt < asLastObserved s)
             then (s, Some ErrInvalidAnalyticsFrame, None)
             else
               let k = asMetrics s;
                   k1 = k\<lparr>smAcceptedFrames := smAcceptedFrames k + 1\<rparr>;
                   s1 = s\<lparr>asInitialized := True, asLastSequence := frSequence frame, asLastObserved := observedAt\<rparr> in
               if asLastSampled s \<noteq> 0 \<and> timeSub observedAt (asLastSampled s) < asInterval s
               then (s1\<lparr>asMetrics := k1\<lparr>smRateSuppressedFrames := smRateSuppressedFrames k + 1\<rparr>\<rparr>, None, None)
               else
                 let s2 = s1\<lparr>asLastSampled := observedAt\<rparr> in
                 if asLastDigest s = Some digest
                 then (s2\<lparr>asMetrics := k1\<lparr>smDuplicateFrames := smDuplicateFrames k + 1\<rparr>\<rparr>, None, None)
                 else
                   let s3 = s2\<lparr>asLastDigest := Some digest\<rparr> in
                   (case consume frame of
                      Some err \<Rightarrow>
                        (s3\<lparr>asMetrics := k1\<lparr>smDownstreamFailures := smDownstreamFailures k + 1\<rparr>\<rparr>, Some (FrameConsumer err), Some frame)
                    | None \<Rightarrow>
                        (s3\<lparr>asMetrics := k1\<lparr>smForwardedFrames := smForwardedFrames k + 1\<rparr>\<rparr>, None, Some frame))))"

definition isMaskSamplerChain :: "PreAnalyticsPrivacyMask \<Rightarrow> AnalyticsFrameSampler option \<Rightarrow> string \<Rightarrow> bool" where
  "isMaskSamplerChain m consumer cameraID \<longleftrightarrow> fmCameraID m = cameraID \<and>
     (case consumer of None \<Rightarrow> False | Some s \<Rightarrow> asCameraID s = cameraID)"

end
