(* ===== verification/Rtsp.thy ===== *)
theory Rtsp
  imports Mask_Frame
begin

text \<open>
  Camera ingest at the edge: decoder selection (\<open>decode.go\<close>), the supervised FFmpeg pull
  (\<open>rtsp.go\<close>) and the retry loop of the privacy release worker
  (\<open>privacy_mask_release_supervisor.go\<close>, \<open>privacy_mask_release_worker.go\<close>).

  The process runner, \<open>url.Parse\<close> and the context are outside this code: an \<open>attemptEnv\<close> lists what
  one turn of the supervisor's loop meets. A loop that runs until it is cancelled is a function of the
  list of turns it makes.
\<close>

section \<open>Decoder selection\<close>

definition CodecH264 :: string where "CodecH264 = ''h264''"
definition CodecH265 :: string where "CodecH265 = ''h265''"
definition DecodeAuto :: string where "DecodeAuto = ''auto''"
definition DecodeSoftware :: string where "DecodeSoftware = ''software''"
definition DecodeNVIDIAJetson :: string where "DecodeNVIDIAJetson = ''nvidia-jetson''"
definition DecodeNVIDIACUDA :: string where "DecodeNVIDIACUDA = ''nvidia-cuda''"

record DecodeProfile =
  dpCodec :: string
  dpPreference :: string
  dpAvailableDecoders :: "string list"

record DecoderSelection =
  dsCodec :: string
  dsName :: string
  dsHardwareAccelerated :: bool
  dsBackend :: string

definition normalizeVideoCodec :: "(string \<Rightarrow> string) \<Rightarrow> string \<Rightarrow> string option" where
  "normalizeVideoCodec uni codec =
     (let c = toLower uni (trimSpace codec) in
      if c \<in> {''h264'', ''avc'', ''avc1''} then Some CodecH264
      else if c \<in> {''h265'', ''hevc'', ''hev1''} then Some CodecH265
      else None)"

definition decoderNames :: "string \<Rightarrow> string \<times> string \<times> string" where
  "decoderNames codec =
     (if codec = CodecH265 then (''hevc'', ''hevc_nvv4l2dec'', ''hevc_cuvid'')
      else (''h264'', ''h264_nvv4l2dec'', ''h264_cuvid''))"

definition SelectDecoder :: "(string \<Rightarrow> string) \<Rightarrow> DecodeProfile \<Rightarrow> DecoderSelection option" where
  "SelectDecoder uni profile =
     (case normalizeVideoCodec uni (dpCodec profile) of
        None \<Rightarrow> None
      | Some codec \<Rightarrow>
          let p = toLower uni (trimSpace (dpPreference profile));
              preference = (if p = [] then DecodeAuto else p);
              available = map (\<lambda>d. toLower uni (trimSpace d)) (dpAvailableDecoders profile);
              (software, jetson, cuda) = decoderNames codec;
              selection = (\<lambda>name backend hardware.
                \<lparr>dsCodec = codec, dsName = name, dsHardwareAccelerated = hardware, dsBackend = backend\<rparr>);
              has = (\<lambda>name. name \<in> set available) in
          if preference = DecodeAuto then
            (if has jetson then Some (selection jetson DecodeNVIDIAJetson True)
             else if has cuda then Some (selection cuda DecodeNVIDIACUDA True)
             else Some (selection software DecodeSoftware False))
          else if preference = DecodeSoftware then Some (selection software DecodeSoftware False)
          else if preference = DecodeNVIDIAJetson then
            (if \<not> has jetson then None else Some (selection jetson DecodeNVIDIAJetson True))
          else if preference = DecodeNVIDIACUDA then
            (if \<not> has cuda then None else Some (selection cuda DecodeNVIDIACUDA True))
          else None)"

section \<open>Fixed-size frames from the decoder\<close>

definition maxDecodedFrameBytes :: int where "maxDecodedFrameBytes = 64 * 2 ^ 20"

datatype rtspError =
    ErrInvalidRTSPSource | ErrInvalidRTSPConfig | ErrInvalidDecodeProfile | RtspConsumer | RtspIncomplete | RtspOutput
  | RtspStopped | RtspEnded | RtspContext string

text \<open>
  The decoder's output is the bytes it will write and whether the stream then ends properly. Each
  turn reads one full frame, and the shorter rest decides how the loop ends.
\<close>

function frameLoop ::
  "nat \<Rightarrow> (bytes \<Rightarrow> 's \<Rightarrow> 's \<times> bool) \<Rightarrow> bool \<Rightarrow> bytes \<Rightarrow> 's \<Rightarrow> 's \<times> rtspError option" where
  "frameLoop n consume eof data s =
     (if n = 0 then (s, Some ErrInvalidRTSPConfig)
      else if n \<le> length data
      then (case consume (take n data) s of
              (s', False) \<Rightarrow> (s', Some RtspConsumer)
            | (s', True) \<Rightarrow> frameLoop n consume eof (drop n data) s')
      else if data = [] \<and> eof then (s, None)
      else if data \<noteq> [] then (s, Some RtspIncomplete)
      else (s, Some RtspOutput))"
  by pat_completeness auto
termination by (relation "measure (\<lambda>(n, consume, eof, data, s). length data)") auto

declare frameLoop.simps [simp del]

definition consumeFixedRGB24Frames ::
  "int \<Rightarrow> (bytes \<Rightarrow> 's \<Rightarrow> 's \<times> bool) \<Rightarrow> bool \<Rightarrow> bytes \<Rightarrow> 's \<Rightarrow> 's \<times> rtspError option" where
  "consumeFixedRGB24Frames frameBytes consume eof data s =
     (if frameBytes \<le> 0 \<or> frameBytes > maxDecodedFrameBytes then (s, Some ErrInvalidRTSPConfig)
      else frameLoop (nat frameBytes) consume eof data s)"

section \<open>The supervised pull\<close>

record RTSPSource =
  rtID :: string
  rtURL :: string
  rtTransport :: string

text \<open>\<open>rcPipeline\<close> is the mask with the sampler it feeds, if one is configured.\<close>

record RTSPIngestConfig =
  rcBinary :: string
  rcConnectTimeout :: duration
  rcRetryMinimum :: duration
  rcRetryMaximum :: duration
  rcDecode :: "DecodeProfile option"
  rcFrameWidth :: int
  rcFrameHeight :: int
  rcPipeline :: "(PreAnalyticsPrivacyMask \<times> AnalyticsFrameSampler option) option"

datatype RTSPState = RTSPConnecting | RTSPStreaming | RTSPRetrying | RTSPStopped

record RTSPStatus =
  rsSourceID :: string
  rsState :: RTSPState
  rsAttempt :: int
  rsDecoder :: "DecoderSelection option"
  rsErr :: "rtspError option"

record RTSPIngest =
  riSource :: RTSPSource
  riConfig :: RTSPIngestConfig
  riDecoder :: "DecoderSelection option"
  riFrameBytes :: int
  riSequence :: "64 word"
  riLastFrameObserved :: gotime
  riStatus :: RTSPStatus

definition validateDecodedFrameConfig :: "maskLib \<Rightarrow> string \<Rightarrow> RTSPIngestConfig \<Rightarrow> int option" where
  "validateDecodedFrameConfig L sourceID config =
     (if rcPipeline config = None \<and> rcFrameWidth config = 0 \<and> rcFrameHeight config = 0 then Some 0
      else
        (case rcPipeline config of
           None \<Rightarrow> None
         | Some (m, sampler) \<Rightarrow>
             if \<not> isMaskSamplerChain m sampler sourceID \<or> \<not> uuid4 L sourceID \<or>
                rcFrameWidth config \<le> 0 \<or> rcFrameWidth config > maxMaskFrameDimension \<or>
                rcFrameHeight config \<le> 0 \<or> rcFrameHeight config > maxMaskFrameDimension then None
             else
               let frameBytes = rcFrameWidth config * rcFrameHeight config * 3 in
               if frameBytes \<le> 0 \<or> frameBytes > maxDecodedFrameBytes then None else Some frameBytes))"

definition rtspTransport :: "(string \<Rightarrow> string) \<Rightarrow> string \<Rightarrow> string" where
  "rtspTransport uni transport =
     (let t = toLower uni (trimSpace transport) in if t = [] then ''tcp'' else t)"

definition rtspDefaults :: "RTSPIngestConfig \<Rightarrow> RTSPIngestConfig" where
  "rtspDefaults config = config\<lparr>rcBinary := (if rcBinary config = [] then ''ffmpeg'' else rcBinary config),
     rcConnectTimeout := (if rcConnectTimeout config = 0 then 10 * second else rcConnectTimeout config),
     rcRetryMinimum := (if rcRetryMinimum config = 0 then second else rcRetryMinimum config),
     rcRetryMaximum := (if rcRetryMaximum config = 0 then 30 * second else rcRetryMaximum config)\<rparr>"

definition initialIngest :: "RTSPSource \<Rightarrow> RTSPIngestConfig \<Rightarrow> int \<Rightarrow> DecoderSelection option \<Rightarrow> RTSPIngest" where
  "initialIngest source config frameBytes decoder =
     \<lparr>riSource = source, riConfig = config, riDecoder = decoder, riFrameBytes = frameBytes,
      riSequence = 0, riLastFrameObserved = 0,
      riStatus = \<lparr>rsSourceID = rtID source, rsState = RTSPStopped, rsAttempt = 0, rsDecoder = decoder, rsErr = None\<rparr>\<rparr>"

text \<open>\<open>url.Parse\<close> gives scheme, host, fragment and the text of the URL.\<close>

definition NewRTSPIngest ::
  "maskLib \<Rightarrow> (string \<Rightarrow> string) \<Rightarrow> (string \<Rightarrow> (string \<times> string \<times> string \<times> string) option) \<Rightarrow> bool \<Rightarrow>
     RTSPSource \<Rightarrow> RTSPIngestConfig \<Rightarrow> rtspError + RTSPIngest" where
  "NewRTSPIngest L uni parse frameRunner source0 config0 =
     (let sid = trimSpace (rtID source0) in
      if sid = [] \<or> length sid > 128 \<or> (\<exists>c \<in> set sid. c \<in> {CHR 0x0D, CHR 0x0A, CHR 0x09}) then Inl ErrInvalidRTSPSource
      else
        (case parse (trimSpace (rtURL source0)) of
           None \<Rightarrow> Inl ErrInvalidRTSPSource
         | Some (scheme, host, fragment, canonical) \<Rightarrow>
             if (scheme \<noteq> ''rtsp'' \<and> scheme \<noteq> ''rtsps'') \<or> host = [] \<or> fragment \<noteq> [] then Inl ErrInvalidRTSPSource
             else
               let transport = rtspTransport uni (rtTransport source0);
                   source = \<lparr>rtID = sid, rtURL = canonical, rtTransport = transport\<rparr>;
                   config = rtspDefaults config0 in
               if transport \<noteq> ''tcp'' \<and> transport \<noteq> ''udp'' then Inl ErrInvalidRTSPSource
               else if rcConnectTimeout config \<le> 0 \<or> rcRetryMinimum config \<le> 0 \<or> rcRetryMaximum config < rcRetryMinimum config \<or>
                 trimSpace (rcBinary config) = [] then Inl ErrInvalidRTSPConfig
               else
                 (case validateDecodedFrameConfig L sid config of
                    None \<Rightarrow> Inl ErrInvalidRTSPConfig
                  | Some frameBytes \<Rightarrow>
                      if rcPipeline config \<noteq> None \<and> \<not> frameRunner then Inl ErrInvalidRTSPConfig
                      else
                        (case (case rcDecode config of
                                 None \<Rightarrow> Some None
                               | Some profile \<Rightarrow> map_option Some (SelectDecoder uni profile)) of
                           None \<Rightarrow> Inl ErrInvalidDecodeProfile
                         | Some decoder \<Rightarrow>
                             Inr (initialIngest source config frameBytes decoder)))))"

definition newStatus :: "RTSPIngest \<Rightarrow> RTSPState \<Rightarrow> int \<Rightarrow> rtspError option \<Rightarrow> RTSPStatus" where
  "newStatus i state attempt err =
     \<lparr>rsSourceID = rtID (riSource i), rsState = state, rsAttempt = attempt, rsDecoder = riDecoder i, rsErr = err\<rparr>"

definition arguments :: "RTSPIngest \<Rightarrow> string list" where
  "arguments i =
     [''-nostdin'', ''-hide_banner'', ''-loglevel'', ''warning'', ''-rtsp_transport'', rtTransport (riSource i),
      ''-rw_timeout'', natDigits (nat (rcConnectTimeout (riConfig i) div 1000))] @
     (case riDecoder i of None \<Rightarrow> [] | Some d \<Rightarrow> [''-c:v'', dsName d]) @
     [''-i'', rtURL (riSource i), ''-map'', ''0:v:0'', ''-an''] @
     (if rcPipeline (riConfig i) = None then [''-f'', ''null'', ''-'']
      else [''-s:v'', natDigits (nat (rcFrameWidth (riConfig i))) @ ''x'' @ natDigits (nat (rcFrameHeight (riConfig i))),
            ''-pix_fmt'', ''rgb24'', ''-f'', ''rawvideo'', ''pipe:1''])"

text \<open>The frame that the callback of \<open>runAttempt\<close> makes of a decoded buffer at time \<open>now\<close>.\<close>

definition observeFrame :: "gotime \<Rightarrow> bytes \<Rightarrow> RTSPIngest \<Rightarrow> RTSPIngest \<times> RGB24Frame" where
  "observeFrame now pixels i =
     (let observedAt = (if \<not> now > riLastFrameObserved i then riLastFrameObserved i + nanosecond else now);
          i' = i\<lparr>riSequence := riSequence i + 1, riLastFrameObserved := observedAt\<rparr>
      in (i', \<lparr>frCameraID = rtID (riSource i), frSequence = riSequence i', frObservedAt = observedAt,
        frWidth = rcFrameWidth (riConfig i), frHeight = rcFrameHeight (riConfig i), frPixels = pixels\<rparr>))"

fun retryLoop :: "nat \<Rightarrow> duration \<Rightarrow> duration \<Rightarrow> duration" where
  "retryLoop 0 delay maximum = (if delay > maximum then maximum else delay)"
| "retryLoop (Suc n) delay maximum =
     (if \<not> delay < maximum then (if delay > maximum then maximum else delay)
      else if delay > maximum div 2 then maximum
      else retryLoop n (wrap64 (delay * 2)) maximum)"

definition retryDelay :: "duration \<Rightarrow> duration \<Rightarrow> int \<Rightarrow> duration" where
  "retryDelay minimum maximum attempt = retryLoop (nat (attempt - 1)) minimum maximum"

text \<open>
  One turn of \<open>Run\<close>: the context before it, whether the process started, whether the attempt failed, the
  context after it, and the error of the sleep.
\<close>

record attemptEnv =
  aeBefore :: "string option"
  aeStarted :: bool
  aeFailed :: bool
  aeAfter :: "string option"
  aeSleep :: "string option"

text \<open>
  The reported statuses with the delays slept between attempts, and the error \<open>Run\<close> returns once a
  turn ends it.
\<close>

fun rtspRun :: "RTSPIngest \<Rightarrow> int \<Rightarrow> attemptEnv list \<Rightarrow> RTSPStatus list \<times> duration list \<times> string option" where
  "rtspRun i attempt [] = ([], [], None)"
| "rtspRun i attempt (E # envs) =
     (case aeBefore E of
        Some err \<Rightarrow> ([newStatus i RTSPStopped attempt None], [], Some err)
      | None \<Rightarrow>
          let attempt' = attempt + 1;
              opening = newStatus i RTSPConnecting attempt' None #
                (if aeStarted E then [newStatus i RTSPStreaming attempt' None] else []) in
          (case aeAfter E of
             Some err \<Rightarrow> (opening @ [newStatus i RTSPStopped attempt' None], [], Some err)
           | None \<Rightarrow>
               let safeErr = (if aeFailed E then RtspStopped else RtspEnded);
                   retrying = opening @ [newStatus i RTSPRetrying attempt' (Some safeErr)];
                   delay = retryDelay (rcRetryMinimum (riConfig i)) (rcRetryMaximum (riConfig i)) attempt' in
               (case aeSleep E of
                  Some err \<Rightarrow> (retrying @ [newStatus i RTSPStopped attempt' None], [delay], Some err)
                | None \<Rightarrow>
                    let (statuses, delays, r) = rtspRun i attempt' envs in (retrying @ statuses, delay # delays, r))))"

section \<open>The privacy release worker\<close>

definition nextPrivacyMaskReleaseRetryDelay :: "duration \<Rightarrow> duration \<Rightarrow> duration" where
  "nextPrivacyMaskReleaseRetryDelay delay maximum =
     (if delay \<ge> maximum \<or> delay > maximum div 2 then maximum else wrap64 (delay * 2))"

text \<open>
  A turn of the supervisor: the error of the worker, the error of the context, and the error of the
  wait. The result has the waits and, once a turn ends the run, its error (\<open>Some None\<close> for none).
\<close>

fun supervise ::
  "duration \<Rightarrow> duration \<Rightarrow> (string option \<times> string option \<times> string option) list \<Rightarrow> duration list \<times> string option option" where
  "supervise delay maximum [] = ([], None)"
| "supervise delay maximum ((worker, ctxErr, waitErr) # turns) =
     (if worker = None then ([], Some None)
      else
        (case ctxErr of
           Some err \<Rightarrow> ([], Some (Some err))
         | None \<Rightarrow>
             (case waitErr of
                Some err \<Rightarrow> ([delay], Some (Some err))
              | None \<Rightarrow>
                  let (waits, r) = supervise (nextPrivacyMaskReleaseRetryDelay delay maximum) maximum turns
                  in (delay # waits, r))))"

definition supervisorRun ::
  "duration \<Rightarrow> duration \<Rightarrow> (string option \<times> string option \<times> string option) list \<Rightarrow>
     (duration list \<times> string option option) option" where
  "supervisorRun initial maximum turns =
     (if initial \<le> 0 \<or> maximum < initial then None else Some (supervise initial maximum turns))"

text \<open>The worker: the error of each synchronization, then that of the context, ends it.\<close>

fun workerRun :: "(string option \<times> string option) list \<Rightarrow> nat \<times> string option" where
  "workerRun [] = (0, None)"
| "workerRun ((syncErr, ctxErr) # turns) =
     (case syncErr of
        Some err \<Rightarrow> (1, Some err)
      | None \<Rightarrow>
          (case ctxErr of
             Some err \<Rightarrow> (1, Some err)
           | None \<Rightarrow> let (n, r) = workerRun turns in (Suc n, r)))"

end
