(* ===== verification/Mask_Props.thy ===== *)
theory Mask_Props
  imports Mask_Frame
begin

text \<open>
  Laws of the privacy mask: what the release gate lets through, that no frame leaves the mask with a
  masked pixel, and the rate and order of the frames behind the sampler.
\<close>

section \<open>The release gate\<close>

text \<open>What an accepted status says about the manifest it stands for.\<close>

definition releaseJustified :: "maskLib \<Rightarrow> (string \<rightharpoonup> bytes) \<Rightarrow> PrivacyMaskReleaseManifest \<Rightarrow> PrivacyMaskReleaseStatus \<Rightarrow> bool" where
  "releaseJustified L keys m st \<longleftrightarrow>
     psReleaseID st = pmReleaseID m \<and> psDeviceID st = pmDeviceID m \<and> psVersion st = pmVersion m \<and> pmVersion m \<ge> 1 \<and>
     pcStatus (pmCandidate m) = ''approved'' \<and>
     (\<exists>x y. map trimSpace (pcApproverIDs (pmCandidate m)) = [x, y] \<and> x \<noteq> y \<and> trimSpace (pcRequestedBy (pmCandidate m)) \<notin> {x, y}) \<and>
     pmPipeline m = [PipelineDecode, PipelineMask, PipelineEncode] \<and>
     (\<exists>v. VerifyPreEncodePrivacyMask L (pmCandidate m) (pmPipeline m) = Some v \<and> psCandidateHash st = pvCandidateHash v) \<and>
     (let e = pmHILEvidence m in
      haDeviceID e = pmDeviceID m \<and> haCandidateHash e = psCandidateHash st \<and> haExecutionKind e = ''physical'' \<and>
      haMaskBeforeEncode e \<and> haEncoderBypassDenied e \<and> \<not> haRawFramesRetained e \<and>
      (\<exists>key payload. keys (trimSpace (haHarnessID e)) = Some key \<and> canonicalHILPayload L e = Some payload \<and>
         mlVerify L key payload (haSignature e)))"

lemma checkApprovers_two:
  assumes "length as = 2" "checkApprovers requester [] as"
  shows "\<exists>x y. map trimSpace as = [x, y] \<and> x \<noteq> y \<and> requester \<notin> {x, y}"
proof -
  obtain a b where "as = [a, b]" using assms(1) by (auto simp: numeral_2_eq_2 length_Suc_conv)
  with assms(2) show ?thesis by (auto simp: Let_def)
qed

lemma strict_stages: "isStrictPreEncodePipeline stages \<longleftrightarrow> stages = [PipelineDecode, PipelineMask, PipelineEncode]"
  by (auto simp: isStrictPreEncodePipeline_def numeral_3_eq_3 numeral_2_eq_2 length_Suc_conv)

lemma VerifyPreEncode_Some:
  assumes "VerifyPreEncodePrivacyMask L c stages = Some v"
  shows "validatePrivacyMaskCandidate L c \<and> stages = [PipelineDecode, PipelineMask, PipelineEncode]"
  using assms by (auto simp: VerifyPreEncodePrivacyMask_def strict_stages split: if_splits)

lemma VerifyHIL_Some:
  assumes "VerifyPrivacyMaskHILEvidence L a keys = Some h"
  shows "validateHILAttestation L a \<and> hvCandidateHash h = haCandidateHash a \<and>
    (\<exists>key payload. keys (trimSpace (haHarnessID a)) = Some key \<and> canonicalHILPayload L a = Some payload \<and>
       mlVerify L key payload (haSignature a))"
  using assms by (auto simp: VerifyPrivacyMaskHILEvidence_def split: if_splits option.splits)

lemma verifiedStatus_Inr:
  assumes "verifiedStatus L r m = Inr st"
  shows "releaseJustified L (crKeys r) m st"
proof -
  obtain v h where v: "VerifyPreEncodePrivacyMask L (pmCandidate m) (pmPipeline m) = Some v"
      "VerifyPrivacyMaskHILEvidence L (pmHILEvidence m) (crKeys r) = Some h"
      "pmVersion m \<ge> 1" "haDeviceID (pmHILEvidence m) = pmDeviceID m" "haCandidateHash (pmHILEvidence m) = pvCandidateHash v"
      "psReleaseID st = pmReleaseID m" "psDeviceID st = pmDeviceID m" "psVersion st = pmVersion m" "psCandidateHash st = pvCandidateHash v"
    using assms by (auto simp: verifiedStatus_def split: if_splits option.splits)
  have c: "pcStatus (pmCandidate m) = ''approved''"
    "\<exists>x y. map trimSpace (pcApproverIDs (pmCandidate m)) = [x, y] \<and> x \<noteq> y \<and> trimSpace (pcRequestedBy (pmCandidate m)) \<notin> {x, y}"
    using VerifyPreEncode_Some [OF v(1)] checkApprovers_two
    by (auto simp: validatePrivacyMaskCandidate_def Let_def simp del: checkApprovers.simps)
  show ?thesis
    unfolding releaseJustified_def Let_def
    using c v VerifyPreEncode_Some [OF v(1)] VerifyHIL_Some [OF v(2)] by (simp add: validateHILAttestation_def)
qed

inductive gateReach ::
  "maskLib \<Rightarrow> (string \<rightharpoonup> bytes) \<Rightarrow> ControlledPrivacyMaskRelease \<times> HardwareBoundPrivacyMaskAdapter \<Rightarrow> bool" for L keys where
  start: "NewControlledPrivacyMaskRelease ks = Inr r \<Longrightarrow> map_of ks = keys \<Longrightarrow>
    NewHardwareBoundPrivacyMaskAdapter L profile key = Inr a \<Longrightarrow> gateReach L keys (r, a)"
| accept: "gateReach L keys s \<Longrightarrow> gateReach L keys (fst (Accept L (ApplyVerifiedRelease L execute) report m s))"

text \<open>The status and the activation of one release.\<close>

definition sameRelease :: "PrivacyMaskReleaseStatus \<Rightarrow> HardwarePrivacyMaskActivation \<Rightarrow> bool" where
  "sameRelease st act \<longleftrightarrow> hmReleaseID act = psReleaseID st \<and> hmDeviceID act = psDeviceID st \<and>
     hmVersion act = psVersion st \<and> hmCandidateHash act = psCandidateHash st"

definition gateInv :: "maskLib \<Rightarrow> (string \<rightharpoonup> bytes) \<Rightarrow> ControlledPrivacyMaskRelease \<times> HardwareBoundPrivacyMaskAdapter \<Rightarrow> bool" where
  "gateInv L keys s \<longleftrightarrow> crKeys (fst s) = keys \<and>
     (case crLastAccepted (fst s) of
        None \<Rightarrow> hbActive (snd s) = None
      | Some st \<Rightarrow> (\<exists>m. releaseJustified L keys m st) \<and> (\<exists>act. hbActive (snd s) = Some act \<and> sameRelease st act))"

lemma ApplyVerified_cases:
  assumes "ApplyVerifiedRelease L execute m a = (a', err)"
  shows "(err \<noteq> None \<and> a' = a) \<or>
    (err = None \<and> (\<exists>act v. hbActive a' = Some act \<and> VerifyPreEncodePrivacyMask L (pmCandidate m) (pmPipeline m) = Some v \<and>
      hmReleaseID act = pmReleaseID m \<and> hmDeviceID act = pmDeviceID m \<and> hmVersion act = pmVersion m \<and>
      hmCandidateHash act = pvCandidateHash v))"
proof (cases "activationFor L a m")
  case None
  then show ?thesis using assms by (auto simp: ApplyVerifiedRelease_def)
next
  case (Some act)
  then obtain v where v: "VerifyPreEncodePrivacyMask L (pmCandidate m) (pmPipeline m) = Some v" "hmReleaseID act = pmReleaseID m"
      "hmDeviceID act = pmDeviceID m" "hmVersion act = pmVersion m" "hmCandidateHash act = pvCandidateHash v"
    by (auto simp: activationFor_def Let_def split: if_splits option.splits)
  have "(err \<noteq> None \<and> a' = a) \<or> (err = None \<and> hbActive a' = Some act)"
    using assms Some by (auto simp: ApplyVerifiedRelease_def Let_def split: option.splits if_splits)
  with v show ?thesis by blast
qed

lemma Accept_cases:
  assumes "Accept L (ApplyVerifiedRelease L execute) report m (r, a) = ((r', a'), st, err)"
  shows "(r' = r \<and> a' = a) \<or>
    (verifiedStatus L r m = Inr (st\<lparr>psState := PrivacyMaskReleaseNone\<rparr>) \<and> r' = r\<lparr>crLastAccepted := Some st\<rparr> \<and>
     (case crLastAccepted r of None \<Rightarrow> True | Some l \<Rightarrow> psVersion l < pmVersion m) \<and>
     ApplyVerifiedRelease L execute m a = (a', None))"
proof (cases "verifiedStatus L r m")
  case (Inl s0)
  then show ?thesis using assms by (simp add: Accept_def)
next
  case (Inr s0)
  have s0: "psState s0 = PrivacyMaskReleaseNone"
    using Inr by (auto simp: verifiedStatus_def split: if_splits option.splits)
  obtain b e where run: "ApplyVerifiedRelease L execute m a = (b, e)" by force
  show ?thesis
  proof (cases "case crLastAccepted r of None \<Rightarrow> False | Some l \<Rightarrow> pmVersion m \<le> psVersion l")
    case True
    then show ?thesis using assms Inr by (simp add: Accept_def)
  next
    case False
    then have v: "case crLastAccepted r of None \<Rightarrow> True | Some l \<Rightarrow> psVersion l < pmVersion m" by (auto split: option.splits)
    show ?thesis
    proof (cases e)
      case None
      then have "st = s0\<lparr>psState := PrivacyMaskReleaseAccepted\<rparr>" "r' = r\<lparr>crLastAccepted := Some st\<rparr>" "a' = b"
        using assms Inr False run by (auto simp: Accept_def Let_def)
      with s0 v Inr run None show ?thesis by simp
    next
      case (Some x)
      then show ?thesis using assms Inr False run ApplyVerified_cases [OF run] by (auto simp: Accept_def)
    qed
  qed
qed

lemma justified_state: "releaseJustified L keys m (st\<lparr>psState := x\<rparr>) = releaseJustified L keys m st"
  by (simp add: releaseJustified_def)

lemma gateInv_accept:
  assumes "gateInv L keys s"
  shows "gateInv L keys (fst (Accept L (ApplyVerifiedRelease L execute) report m s))"
proof -
  obtain r a where s: "s = (r, a)" by (cases s)
  obtain r' a' st err where run: "Accept L (ApplyVerifiedRelease L execute) report m (r, a) = ((r', a'), st, err)"
    by (metis prod.exhaust)
  show ?thesis
    using Accept_cases [OF run]
  proof (elim disjE conjE)
    assume "r' = r" "a' = a"
    with assms run show ?thesis by (simp add: s)
  next
    assume v: "verifiedStatus L r m = Inr (st\<lparr>psState := PrivacyMaskReleaseNone\<rparr>)" and r': "r' = r\<lparr>crLastAccepted := Some st\<rparr>"
      and ap: "ApplyVerifiedRelease L execute m a = (a', None)"
    have keys: "crKeys r = keys" using assms by (simp add: gateInv_def s)
    have j: "releaseJustified L keys m st" using verifiedStatus_Inr [OF v] by (simp add: justified_state keys)
    obtain act w where act: "hbActive a' = Some act" "VerifyPreEncodePrivacyMask L (pmCandidate m) (pmPipeline m) = Some w"
        "hmReleaseID act = pmReleaseID m" "hmDeviceID act = pmDeviceID m" "hmVersion act = pmVersion m" "hmCandidateHash act = pvCandidateHash w"
      using ApplyVerified_cases [OF ap] by auto
    have "sameRelease st act" using j act(2-) by (auto simp: sameRelease_def releaseJustified_def)
    with j act(1) run r' keys show ?thesis by (auto simp: gateInv_def s)
  qed
qed

lemma gateReach_inv: "gateReach L keys s \<Longrightarrow> gateInv L keys s"
proof (induction rule: gateReach.induct)
  case (start ks r profile key a)
  then show ?case
    by (auto simp: gateInv_def NewControlledPrivacyMaskRelease_def NewHardwareBoundPrivacyMaskAdapter_def split: if_splits)
next
  case (accept s execute report m)
  then show ?case by (intro gateInv_accept)
qed

lemma accept_never_rolls_back:
  assumes "crLastAccepted (fst s) = Some st"
  shows "\<exists>st'. crLastAccepted (fst (fst (Accept L (ApplyVerifiedRelease L execute) report m s))) = Some st' \<and>
    (st' = st \<or> psVersion st < psVersion st')"
proof -
  obtain r a where s: "s = (r, a)" by (cases s)
  obtain r' a' q err where run: "Accept L (ApplyVerifiedRelease L execute) report m (r, a) = ((r', a'), q, err)"
    by (metis prod.exhaust)
  have "psVersion q = pmVersion m" if "verifiedStatus L r m = Inr (q\<lparr>psState := PrivacyMaskReleaseNone\<rparr>)"
    using verifiedStatus_Inr [OF that] by (simp add: releaseJustified_def)
  with Accept_cases [OF run] assms run show ?thesis by (auto simp: s)
qed

section \<open>The mask on frames\<close>

lemma maskLoop_length [simp]: "length (maskLoop n bits pixels) = length pixels"
  by (induction bits arbitrary: n pixels) auto

text \<open>Pixel \<open>i\<close> of a buffer is its bytes \<open>3 i\<close> to \<open>3 i + 2\<close>.\<close>

lemma maskLoop_nth:
  assumes "k < 3" "3 * i + k < length pixels"
  shows "maskLoop n bits pixels ! (3 * i + k) =
    (if n \<le> i \<and> i < n + length bits \<and> bits ! (i - n) then CHR 0x00 else pixels ! (3 * i + k))"
  using assms(2)
proof (induction bits arbitrary: n pixels)
  case (Cons b bits)
  let ?p = "pixels[n * 3 := CHR 0x00, n * 3 + 1 := CHR 0x00, n * 3 + 2 := CHR 0x00]"
  have p: "?p ! (3 * i + k) = (if i = n then CHR 0x00 else pixels ! (3 * i + k))"
  proof (cases "i = n")
    case True
    with assms(1) Cons.prems show ?thesis by (cases k; cases "k - 1") (auto simp: nth_list_update)
  next
    case False
    then have "n * 3 \<noteq> 3 * i + k" "n * 3 + 1 \<noteq> 3 * i + k" "n * 3 + 2 \<noteq> 3 * i + k" using assms(1) by presburger+
    with False show ?thesis by simp
  qed
  show ?case
  proof (cases "i = n")
    case True
    with p Cons.IH [of "if b then ?p else pixels" "Suc n"] Cons.prems show ?thesis by auto
  next
    case False
    have "n \<le> i \<and> i < n + length (b # bits) \<and> (b # bits) ! (i - n) \<longleftrightarrow> Suc n \<le> i \<and> i < Suc n + length bits \<and> bits ! (i - Suc n)"
      using False by (auto simp: nth_Cons')
    with False p Cons.IH [of "if b then ?p else pixels" "Suc n"] Cons.prems show ?thesis by (cases b) auto
  qed
qed auto

lemma computeMask_length: "0 \<le> w \<Longrightarrow> 0 \<le> h \<Longrightarrow> int (length (computeMask F rings w h)) = w * h"
  by (simp add: computeMask_def length_concat comp_def sum_list_triv)

lemma concat_grid_nth:
  "x < w \<Longrightarrow> y < length ys \<Longrightarrow> concat (map (\<lambda>y. map (f y) [0..<w]) ys) ! (y * w + x) = f (ys ! y) x"
proof (induction ys arbitrary: y)
  case (Cons a ys)
  show ?case
  proof (cases y)
    case (Suc y')
    with Cons.IH [of y'] Cons.prems show ?thesis by (simp add: nth_append add.assoc)
  qed (use Cons.prems in \<open>simp add: nth_append\<close>)
qed simp

lemma computeMask_nth:
  assumes "x < nat w" "y < nat h"
  shows "computeMask F rings w h ! (y * nat w + x) = maskAt F rings w h x y"
  using concat_grid_nth [of x "nat w" y "[0..<nat h]" "\<lambda>y x. maskAt F rings w h x y"] assms
  by (simp add: computeMask_def)

text \<open>The cached mask is the one its dimensions determine.\<close>

definition cacheOK :: "floatOps \<Rightarrow> PreAnalyticsPrivacyMask \<Rightarrow> bool" where
  "cacheOK F m \<longleftrightarrow> fmMaskPixels m = [] \<or> fmMaskPixels m = computeMask F (fmRings m) (fmMaskWidth m) (fmMaskHeight m)"

lemma maskFor_correct:
  assumes "cacheOK F m" "0 < w" "0 < h" "maskFor F w h m = (m', bits)"
  shows "bits = computeMask F (fmRings m) w h \<and> cacheOK F m' \<and> fmRings m' = fmRings m \<and> fmCameraID m' = fmCameraID m \<and>
    fmReleaseID m' = fmReleaseID m \<and> fmReleaseVersion m' = fmReleaseVersion m \<and> fmCandidateHash m' = fmCandidateHash m"
proof (cases "fmMaskWidth m = w \<and> fmMaskHeight m = h \<and> int (length (fmMaskPixels m)) = w * h")
  case True
  have "0 < w * h" using assms(2,3) by simp
  with True have "fmMaskPixels m \<noteq> []" by auto
  with True assms show ?thesis by (auto simp: maskFor_def cacheOK_def)
next
  case False
  with assms(4) have "m' = m\<lparr>fmMaskWidth := w, fmMaskHeight := h, fmMaskPixels := bits\<rparr>" "bits = computeMask F (fmRings m) w h"
    by (auto simp: maskFor_def Let_def)
  then show ?thesis by (simp add: cacheOK_def)
qed

text \<open>A frame whose masked pixels are black and whose other pixels are those of the original.\<close>

definition maskedVersion :: "floatOps \<Rightarrow> maskRings \<Rightarrow> RGB24Frame \<Rightarrow> RGB24Frame \<Rightarrow> bool" where
  "maskedVersion F rings frame out \<longleftrightarrow>
     out = frame\<lparr>frPixels := frPixels out\<rparr> \<and> length (frPixels out) = length (frPixels frame) \<and>
     (\<forall>x < nat (frWidth frame). \<forall>y < nat (frHeight frame). \<forall>k < 3.
        frPixels out ! (3 * (y * nat (frWidth frame) + x) + k) =
          (if maskAt F rings (frWidth frame) (frHeight frame) x y then CHR 0x00
           else frPixels frame ! (3 * (y * nat (frWidth frame) + x) + k)))"

lemma grid_index:
  assumes "x < w" "y < h"
  shows "y * w + x < w * (h :: nat)"
proof -
  have "y * w + x < Suc y * w" using assms(1) by simp
  also have "\<dots> \<le> h * w" by (rule mult_le_mono1) (use assms(2) in simp)
  finally show ?thesis by (simp add: mult.commute)
qed

lemma maskLoop_masked:
  assumes "validateRGB24Frame L frame" "bits = computeMask F rings (frWidth frame) (frHeight frame)"
  shows "maskedVersion F rings frame (frame\<lparr>frPixels := maskLoop 0 bits (frPixels frame)\<rparr>)"
proof -
  let ?w = "nat (frWidth frame)" and ?h = "nat (frHeight frame)"
  have pos: "0 < frWidth frame" "0 < frHeight frame" and len: "int (length (frPixels frame)) = frWidth frame * frHeight frame * 3"
    using assms(1) by (auto simp: validateRGB24Frame_def Let_def)
  have "int (length (frPixels frame)) = int (3 * (?w * ?h))" using len pos by simp
  then have size: "length (frPixels frame) = 3 * (?w * ?h)" by (simp only: of_nat_eq_iff)
  have "int (length bits) = int (?w * ?h)"
    using computeMask_length [of "frWidth frame" "frHeight frame" F rings] pos assms(2) by simp
  then have bl: "length bits = ?w * ?h" by (simp only: of_nat_eq_iff)
  have "maskLoop 0 bits (frPixels frame) ! (3 * (y * ?w + x) + k) =
      (if maskAt F rings (frWidth frame) (frHeight frame) x y then CHR 0x00 else frPixels frame ! (3 * (y * ?w + x) + k))"
    if "x < ?w" "y < ?h" "k < 3" for x y k
  proof -
    have i: "y * ?w + x < ?w * ?h" by (rule grid_index [OF that(1,2)])
    have b: "bits ! (y * ?w + x) = maskAt F rings (frWidth frame) (frHeight frame) x y"
      unfolding assms(2) by (rule computeMask_nth [OF that(1,2)])
    have "3 * (y * ?w + x) + k < length (frPixels frame)" using i that(3) size by simp
    from maskLoop_nth [OF that(3) this, of 0 bits] i bl b show ?thesis by simp
  qed
  then show ?thesis by (simp add: maskedVersion_def)
qed

inductive maskReach :: "maskLib \<Rightarrow> floatOps \<Rightarrow> PreAnalyticsPrivacyMask \<Rightarrow> bool" for L F where
  start: "NewPreAnalyticsPrivacyMask L candidate adapter = Some m \<Longrightarrow> maskReach L F m"
| forward: "maskReach L F m \<Longrightarrow> Forward L F (\<lambda>f c. (c @ [f], None)) active ctxErr frame (m, []) = ((m', c), err) \<Longrightarrow> maskReach L F m'"

lemma Forward_mask:
  assumes "Forward L F consume active ctxErr frame (m, c) = ((m', c'), err)" "cacheOK F m"
  shows "cacheOK F m' \<and> fmRings m' = fmRings m \<and>
    ((c' = c \<and> err \<noteq> None) \<or>
     (\<exists>out a. consume out c = (c', err) \<and> maskedVersion F (fmRings m) frame out \<and> frCameraID frame = fmCameraID m \<and>
        active = Some a \<and> hmReleaseID a = fmReleaseID m \<and> hmVersion a = fmReleaseVersion m \<and> hmCandidateHash a = fmCandidateHash m))"
proof -
  consider "m' = m" "c' = c" "err \<noteq> None" | a where "active = Some a" "validateRGB24Frame L frame" "frCameraID frame = fmCameraID m"
      "hmReleaseID a = fmReleaseID m" "hmVersion a = fmReleaseVersion m" "hmCandidateHash a = fmCandidateHash m"
      "(let (m', bits) = maskFor F (frWidth frame) (frHeight frame) m;
            (c', r) = consume (frame\<lparr>frPixels := maskLoop 0 bits (frPixels frame)\<rparr>) c in ((m', c'), r)) = ((m', c'), err)"
    using assms(1) by (auto simp: Forward_def split: if_splits option.splits)
  then show ?thesis
  proof cases
    case 1
    with assms(2) show ?thesis by simp
  next
    case (2 a)
    obtain m1 bits where mf: "maskFor F (frWidth frame) (frHeight frame) m = (m1, bits)" by force
    have pos: "0 < frWidth frame" "0 < frHeight frame" using 2(2) by (simp_all add: validateRGB24Frame_def)
    note mc = maskFor_correct [OF assms(2) pos mf]
    have "consume (frame\<lparr>frPixels := maskLoop 0 bits (frPixels frame)\<rparr>) c = (c', err)" "m' = m1"
      using 2(7) mf by (auto split: prod.splits)
    with maskLoop_masked [OF 2(2)] mc 2(1,3-6) show ?thesis by blast
  qed
qed

lemma maskReach_cache: "maskReach L F m \<Longrightarrow> cacheOK F m"
proof (induction rule: maskReach.induct)
  case (start candidate adapter m)
  then show ?case by (auto simp: NewPreAnalyticsPrivacyMask_def cacheOK_def split: option.splits if_splits)
next
  case (forward m active ctxErr frame m' c err)
  then show ?case using Forward_mask [OF forward(2)] by blast
qed

section \<open>The sampler\<close>

text \<open>A run of the sampler and the frames it handed on, in order.\<close>

fun samplerRun ::
  "maskLib \<Rightarrow> ((RGB24Frame \<Rightarrow> string option) \<times> string option \<times> RGB24Frame) list \<Rightarrow> AnalyticsFrameSampler \<Rightarrow>
     AnalyticsFrameSampler \<times> RGB24Frame list" where
  "samplerRun L [] s = (s, [])"
| "samplerRun L ((consume, ctxErr, frame) # calls) s =
     (let (s1, _, out) = ConsumeMaskedFrame L consume ctxErr frame s; (s2, outs) = samplerRun L calls s1
      in (s2, case out of None \<Rightarrow> outs | Some f \<Rightarrow> f # outs))"

definition metricsBalance :: "FrameSamplingMetrics \<Rightarrow> bool" where
  "metricsBalance k \<longleftrightarrow> smAcceptedFrames k =
     smForwardedFrames k + smRateSuppressedFrames k + smDuplicateFrames k + smDownstreamFailures k"

text \<open>What the state of the sampler says about every later frame.\<close>

definition samplerOK :: "AnalyticsFrameSampler \<Rightarrow> bool" where
  "samplerOK s \<longleftrightarrow> 0 < asInterval s \<and> asInterval s \<le> second \<and> metricsBalance (asMetrics s) \<and>
     (asLastSampled s \<noteq> 0 \<longrightarrow> asInitialized s \<and> asLastSampled s \<le> asLastObserved s)"

lemma ConsumeMaskedFrame_cases:
  assumes "ConsumeMaskedFrame L consume ctxErr frame s = (s', err, out)" "samplerOK s"
  shows "samplerOK s' \<and> asInterval s' = asInterval s \<and>
    (case out of
       None \<Rightarrow> asLastDigest s' = asLastDigest s \<and>
         (s' = s \<or> asInitialized s' \<and> (asInitialized s \<longrightarrow> asLastSequence s < asLastSequence s')) \<and>
         (asLastSampled s' = asLastSampled s \<or> asLastSampled s' \<noteq> 0 \<and> (asLastSampled s \<noteq> 0 \<longrightarrow> asLastSampled s + asInterval s \<le> asLastSampled s'))
     | Some f \<Rightarrow> f = frame \<and> asInitialized s' \<and> asLastSequence s' = frSequence f \<and> asLastSampled s' = frObservedAt f \<and> frObservedAt f \<noteq> 0 \<and>
         asLastDigest s' = Some (analyticsFrameDigest L f) \<and> asLastDigest s \<noteq> Some (analyticsFrameDigest L f) \<and>
         (asInitialized s \<longrightarrow> asLastSequence s < frSequence f) \<and>
         (asLastSampled s \<noteq> 0 \<longrightarrow> asLastSampled s + asInterval s \<le> frObservedAt f))"
proof -
  have sub: "timeSub t (asLastSampled s) < asInterval s \<longleftrightarrow> t - asLastSampled s < asInterval s" for t
    by (rule timeSub_less_iff) (use assms(2) in \<open>simp_all add: samplerOK_def second_def minInt64_def maxInt64_def\<close>)
  show ?thesis
    using assms unfolding ConsumeMaskedFrame_def sub
    by (auto simp: Let_def samplerOK_def metricsBalance_def split: if_splits option.splits)
qed

lemma samplerRun_spaced:
  assumes "samplerOK s" "samplerRun L calls s = (s', outs)"
  shows "samplerOK s' \<and> asInterval s' = asInterval s \<and>
    (\<forall>f \<in> set outs. (asInitialized s \<longrightarrow> asLastSequence s < frSequence f) \<and>
       (asLastSampled s \<noteq> 0 \<longrightarrow> asLastSampled s + asInterval s \<le> frObservedAt f)) \<and>
    sorted_wrt (\<lambda>f g. frSequence f < frSequence g \<and> frObservedAt f + asInterval s \<le> frObservedAt g) outs \<and>
    (outs \<noteq> [] \<longrightarrow> asLastDigest s \<noteq> Some (analyticsFrameDigest L (hd outs))) \<and>
    successively (\<lambda>f g. analyticsFrameDigest L f \<noteq> analyticsFrameDigest L g) outs"
  using assms
proof (induction calls arbitrary: s s' outs)
  case (Cons call calls)
  obtain consume ctxErr frame where call: "call = (consume, ctxErr, frame)" by (cases call)
  obtain s1 err out where step: "ConsumeMaskedFrame L consume ctxErr frame s = (s1, err, out)" by (metis prod.exhaust)
  obtain s2 outs1 where run: "samplerRun L calls s1 = (s2, outs1)" by force
  have s': "s' = s2" and outs: "outs = (case out of None \<Rightarrow> outs1 | Some f \<Rightarrow> f # outs1)"
    using Cons.prems(2) step run by (auto simp: call)
  note c = ConsumeMaskedFrame_cases [OF step Cons.prems(1)]
  note ih = Cons.IH [OF c [THEN conjunct1] run]
  have iv: "asInterval s1 = asInterval s" "0 < asInterval s" using c Cons.prems(1) by (simp_all add: samplerOK_def)
  show ?case
  proof (cases out)
    case None
    have o: "outs = outs1" using outs None by simp
    have "(asInitialized s \<longrightarrow> asLastSequence s < frSequence f) \<and> (asLastSampled s \<noteq> 0 \<longrightarrow> asLastSampled s + asInterval s \<le> frObservedAt f)"
      if "f \<in> set outs1" for f
    proof -
      have h: "asInitialized s1 \<longrightarrow> asLastSequence s1 < frSequence f" "asLastSampled s1 \<noteq> 0 \<longrightarrow> asLastSampled s1 + asInterval s \<le> frObservedAt f"
        using ih that iv by auto
      have k: "s1 = s \<or> asInitialized s1 \<and> (asInitialized s \<longrightarrow> asLastSequence s < asLastSequence s1)"
        "asLastSampled s1 = asLastSampled s \<or> asLastSampled s1 \<noteq> 0 \<and> (asLastSampled s \<noteq> 0 \<longrightarrow> asLastSampled s + asInterval s \<le> asLastSampled s1)"
        using c None by auto
      have "asInitialized s \<longrightarrow> asLastSequence s < frSequence f" using h(1) k(1) order.strict_trans by blast
      moreover have "asLastSampled s \<noteq> 0 \<longrightarrow> asLastSampled s + asInterval s \<le> frObservedAt f" using h(2) k(2) iv(2) by auto
      ultimately show ?thesis by simp
    qed
    moreover have "asLastDigest s1 = asLastDigest s" using c None by simp
    ultimately show ?thesis using ih iv(1) unfolding o s' by simp
  next
    case (Some f)
    have o: "outs = f # outs1" using outs Some by simp
    have k: "asInitialized s1" "asLastSequence s1 = frSequence f" "asLastSampled s1 = frObservedAt f" "frObservedAt f \<noteq> 0"
        "asLastDigest s1 = Some (analyticsFrameDigest L f)" "asLastDigest s \<noteq> Some (analyticsFrameDigest L f)"
        "asInitialized s \<longrightarrow> asLastSequence s < frSequence f" "asLastSampled s \<noteq> 0 \<longrightarrow> asLastSampled s + asInterval s \<le> frObservedAt f"
      using c Some by auto
    have later: "frSequence f < frSequence g \<and> frObservedAt f + asInterval s \<le> frObservedAt g" if "g \<in> set outs1" for g
      using ih that k iv by auto
    have first: "(asInitialized s \<longrightarrow> asLastSequence s < frSequence g) \<and> (asLastSampled s \<noteq> 0 \<longrightarrow> asLastSampled s + asInterval s \<le> frObservedAt g)"
      if "g \<in> set outs1" for g using later [OF that] k(7,8) iv(2) by auto
    have "successively (\<lambda>f g. analyticsFrameDigest L f \<noteq> analyticsFrameDigest L g) (f # outs1)"
      using ih k(5) by (cases outs1) auto
    with ih k(6-8) later first iv(1) show ?thesis unfolding o s' by simp
  qed
qed simp

section \<open>Properties\<close>

definition wRing :: "maskPoint list" where
  "wRing = [[Fin 0, Fin 0], [Fin 1, Fin 0], [Fin 1, Fin 1], [Fin 0, Fin 0]]"

definition wMaskLib :: maskLib where
  "wMaskLib = \<lparr>mlVersion = (\<lambda>_. Some 4), mlCanonicalUUID = (\<lambda>s. s), mlSha = (\<lambda>x. take 32 (x @ replicate 32 CHR 0x00)),
     mlVerify = (\<lambda>k p sig. k = replicate 32 CHR 0x01), mlNano = (\<lambda>_. ''n''), mlValid = (\<lambda>_. True),
     mlGeometry = (\<lambda>_. Some (''Polygon'', [wRing])), mlStrictGeometry = (\<lambda>_. True), mlCanonical = Some,
     mlMarshalCandidate = (\<lambda>c. Some (pcRequestID (ccCandidate c))), mlMarshalHIL = (\<lambda>_. Some ''h''), mlTokens = (\<lambda>_. None),
     mlBundle = (\<lambda>_. None), mlEOF = (\<lambda>_. True)\<rparr>"

definition wCandidate :: PrivacyMaskCandidate where
  "wCandidate = \<lparr>pcRequestID = ''q'', pcTenantID = ''t'', pcSiteID = ''s'', pcCameraID = ''c'', pcStatus = ''approved'',
     pcRequestedBy = ''r'', pcApproverIDs = [''a'', ''b''], pcGeometry = ''g''\<rparr>"

definition wManifest :: PrivacyMaskReleaseManifest where
  "wManifest = \<lparr>pmReleaseID = ''rel'', pmDeviceID = ''d'', pmVersion = 1, pmCandidate = wCandidate,
     pmPipeline = [''decode'', ''mask'', ''encode''],
     pmHILEvidence = \<lparr>haTestRunID = ''run'', haDeviceID = ''d'', haCandidateHash = ''71'' @ replicate 62 CHR ''0'', haHarnessID = ''h'',
       haExecutionKind = ''physical'', haAttestedAt = 5, haEncoderBuildHash = replicate 64 CHR ''0'',
       haEncodedProbeHash = replicate 64 CHR ''0'', haMaskBeforeEncode = True, haEncoderBypassDenied = True,
       haRawFramesRetained = False, haSignature = replicate 64 CHR ''0''\<rparr>\<rparr>"

definition wGate :: "ControlledPrivacyMaskRelease \<times> HardwareBoundPrivacyMaskAdapter" where
  "wGate = (\<lparr>crKeys = [''h'' \<mapsto> replicate 32 CHR 0x01], crLastAccepted = None\<rparr>,
     \<lparr>hbProfile = \<lparr>hpProfileID = ''p'', hpDeviceID = ''d'', hpHarnessID = ''h''\<rparr>, hbKey = replicate 32 CHR 0x01, hbActive = None\<rparr>)"

definition wAccepted :: "ControlledPrivacyMaskRelease \<times> HardwareBoundPrivacyMaskAdapter" where
  "wAccepted = fst (Accept wMaskLib (ApplyVerifiedRelease wMaskLib (\<lambda>_. None)) (\<lambda>_. None) wManifest wGate)"

lemma wAccepted_reach: "gateReach wMaskLib [''h'' \<mapsto> replicate 32 CHR 0x01] wAccepted"
proof -
  have "trimSpace ''p'' = ''p''" "trimSpace ''h'' = ''h''" by code_simp+
  then have "gateReach wMaskLib [''h'' \<mapsto> replicate 32 CHR 0x01] wGate"
    unfolding wGate_def
    by (intro gateReach.start [of "[(''h'', replicate 32 CHR 0x01)]" _ _ _ "\<lparr>hpProfileID = ''p'', hpDeviceID = ''d'', hpHarnessID = ''h''\<rparr>" "replicate 32 CHR 0x01"])
      (simp_all add: NewControlledPrivacyMaskRelease_def NewHardwareBoundPrivacyMaskAdapter_def
        validatePrivacyMaskHardwareProfile_def uuid4_def wMaskLib_def maxPrivacyMaskHardwareProfileIDLength_def)
  then show ?thesis unfolding wAccepted_def by (rule gateReach.accept)
qed

text \<open>C6: The release gate: whenever a mask release is accepted, its candidate was approved by two distinct people
  other than the requester, its pipeline is exactly decode, mask, encode, and physical hardware-in-loop evidence for
  this device and this candidate was signed by a trusted harness; the adapter runs that very release; and no later
  call replaces it by the same or an older version.\<close>

theorem mask_release_gate:
  assumes "gateReach L keys s" "crLastAccepted (fst s) = Some st"
  shows "(\<exists>m. releaseJustified L keys m st) \<and> (\<exists>act. hbActive (snd s) = Some act \<and> sameRelease st act) \<and>
    (\<exists>st'. crLastAccepted (fst (fst (Accept L (ApplyVerifiedRelease L execute) report m' s))) = Some st' \<and>
      (st' = st \<or> psVersion st < psVersion st'))"
  using gateReach_inv [OF assms(1)] assms(2) accept_never_rolls_back [OF assms(2)] by (simp add: gateInv_def)

theorem mask_release_gate_witness:
  "\<exists>st act. crLastAccepted (fst wAccepted) = Some st \<and> hbActive (snd wAccepted) = Some act \<and> sameRelease st act \<and> psVersion st = 1"
proof -
  have "map_option psVersion (crLastAccepted (fst wAccepted)) = Some 1" by code_simp
  then obtain st where st: "crLastAccepted (fst wAccepted) = Some st" "psVersion st = 1" by auto
  from mask_release_gate [OF wAccepted_reach st(1)] st show ?thesis by blast
qed

definition wMask :: PreAnalyticsPrivacyMask where
  "wMask = \<lparr>fmCameraID = ''c'', fmReleaseID = ''rel'', fmReleaseVersion = 1, fmCandidateHash = ''71'' @ replicate 62 CHR ''0'',
     fmRings = [wRing], fmMaskWidth = 0, fmMaskHeight = 0, fmMaskPixels = []\<rparr>"

definition wFrame :: RGB24Frame where
  "wFrame = \<lparr>frCameraID = ''c'', frSequence = 1, frObservedAt = 5, frWidth = 1, frHeight = 1, frPixels = ''xyz''\<rparr>"

definition onFin :: "(rat \<Rightarrow> rat \<Rightarrow> rat) \<Rightarrow> float64 \<Rightarrow> float64 \<Rightarrow> float64" where
  "onFin f x y = (case (x, y) of (Fin a, Fin b) \<Rightarrow> Fin (f a b) | _ \<Rightarrow> NaN)"

definition wFloat :: floatOps where
  "wFloat = \<lparr>foOfInt = (\<lambda>n. Fin (of_int n)), foAdd = onFin (+), foSub = onFin (-), foMul = onFin (*), foDiv = onFin (/),
     foAbs = (\<lambda>x. onFin (\<lambda>a _. \<bar>a\<bar>) x x), foMin = onFin min, foMax = onFin max, foHalf = Fin (1 / 2), foEpsilon = Fin 0\<rparr>"

text \<open>C4: No unmasked frame leaves the mask: a frame reaches the consumer only while the release the mask was built
  for is the active one, and then every pixel the polygon covers is black, every other pixel is that of the camera, and
  size and metadata are unchanged; the cached pixel mask never goes stale. In all other cases the consumer is not called
  and an error is returned.\<close>

theorem no_unmasked_frame:
  assumes "maskReach L F m" "Forward L F consume active ctxErr frame (m, c) = ((m', c'), err)"
  shows "(c' = c \<and> err \<noteq> None) \<or>
    (\<exists>out a. consume out c = (c', err) \<and> maskedVersion F (fmRings m) frame out \<and> frCameraID out = fmCameraID m \<and>
       active = Some a \<and> hmReleaseID a = fmReleaseID m \<and> hmVersion a = fmReleaseVersion m \<and> hmCandidateHash a = fmCandidateHash m)"
proof -
  have cam: "frCameraID out = frCameraID frame" if "maskedVersion F (fmRings m) frame out" for out
  proof -
    have "frCameraID out = frCameraID (frame\<lparr>frPixels := frPixels out\<rparr>)" using that by (simp only: maskedVersion_def)
    then show ?thesis by simp
  qed
  from Forward_mask [OF assms(2) maskReach_cache [OF assms(1)]] cam show ?thesis by auto
qed

theorem no_unmasked_frame_witness:
  "\<exists>out. maskedVersion wFloat [wRing] wFrame out \<and> frCameraID out = ''c''"
proof -
  let ?act = "the (hbActive (snd wAccepted))"
  have act: "?act = \<lparr>hmProfileID = ''p'', hmReleaseID = ''rel'', hmDeviceID = ''d'', hmVersion = 1,
      hmCandidateHash = ''71'' @ replicate 62 CHR ''0'', hmPipeline = [''decode'', ''mask'', ''encode'']\<rparr>" by code_simp
  have "NewPreAnalyticsPrivacyMask wMaskLib wCandidate (snd wAccepted) = Some wMask" by code_simp
  then have reach: "maskReach wMaskLib wFloat wMask" by (rule maskReach.start)
  have valid: "validateRGB24Frame wMaskLib wFrame" by code_simp
  obtain m' c' err where run: "Forward wMaskLib wFloat (\<lambda>f c. (c @ [f], None)) (Some ?act) None wFrame (wMask, []) = ((m', c'), err)"
    by (metis prod.exhaust)
  then have "err = None"
    using valid by (simp add: Forward_def act wMask_def wFrame_def split: prod.splits)
  with no_unmasked_frame [OF reach run] show ?thesis by (auto simp: wMask_def)
qed

text \<open>C33: The cost bound of the analytics sampler: over any sequence of frames, those handed to analytics are at least
  100 milliseconds apart, so at most ten per second, in strictly increasing sequence order, no two consecutive ones
  are identical, and the counters always balance.\<close>

theorem sampler_rate_bound:
  assumes "NewAnalyticsFrameSampler L cameraID fps = Some s" "samplerRun L calls s = (s', outs)"
  shows "sorted_wrt (\<lambda>f g. frSequence f < frSequence g \<and> frObservedAt f + second div 10 \<le> frObservedAt g) outs \<and>
    successively (\<lambda>f g. analyticsFrameDigest L f \<noteq> analyticsFrameDigest L g) outs \<and> metricsBalance (asMetrics s')"
proof -
  have fps: "5 \<le> fps" "fps \<le> 10" and s: "asInterval s = second div fps" "asLastSampled s = 0" "metricsBalance (asMetrics s)"
    using assms(1) by (auto simp: NewAnalyticsFrameSampler_def MinAnalyticsFrameFPS_def MaxAnalyticsFrameFPS_def metricsBalance_def
      split: if_splits)
  have iv: "second div 10 \<le> asInterval s" unfolding s(1) by (rule zdiv_mono2) (use fps in \<open>simp_all add: second_def\<close>)
  have "asInterval s \<le> second div 1" unfolding s(1) by (rule zdiv_mono2) (use fps in \<open>simp_all add: second_def\<close>)
  then have ok: "samplerOK s" using s iv by (simp add: samplerOK_def second_def)
  note r = samplerRun_spaced [OF ok assms(2)]
  have "sorted_wrt (\<lambda>f g. frSequence f < frSequence g \<and> frObservedAt f + second div 10 \<le> frObservedAt g) outs"
    by (rule sorted_wrt_mono_rel [of _ "\<lambda>f g. frSequence f < frSequence g \<and> frObservedAt f + asInterval s \<le> frObservedAt g"])
      (use r iv in auto)
  with r show ?thesis by (simp add: samplerOK_def)
qed

theorem sampler_rate_bound_witness:
  "\<exists>s s' outs. NewAnalyticsFrameSampler wMaskLib ''c'' 10 = Some s \<and>
     samplerRun wMaskLib [(\<lambda>_. None, None, wFrame), (\<lambda>_. None, None, wFrame\<lparr>frSequence := 2, frObservedAt := 9, frPixels := ''abc''\<rparr>)] s = (s', outs) \<and>
     length outs = 1 \<and> metricsBalance (asMetrics s')"
proof -
  obtain s where s: "NewAnalyticsFrameSampler wMaskLib ''c'' 10 = Some s" "length (snd (samplerRun wMaskLib
      [(\<lambda>_. None, None, wFrame), (\<lambda>_. None, None, wFrame\<lparr>frSequence := 2, frObservedAt := 9, frPixels := ''abc''\<rparr>)] s)) = 1"
  proof -
    have "case NewAnalyticsFrameSampler wMaskLib ''c'' 10 of None \<Rightarrow> False | Some s \<Rightarrow> length (snd (samplerRun wMaskLib
      [(\<lambda>_. None, None, wFrame), (\<lambda>_. None, None, wFrame\<lparr>frSequence := 2, frObservedAt := 9, frPixels := ''abc''\<rparr>)] s)) = 1" by code_simp
    then show thesis by (intro that [of "the (NewAnalyticsFrameSampler wMaskLib ''c'' 10)"]) (auto split: option.splits)
  qed
  obtain s' outs where "samplerRun wMaskLib
      [(\<lambda>_. None, None, wFrame), (\<lambda>_. None, None, wFrame\<lparr>frSequence := 2, frObservedAt := 9, frPixels := ''abc''\<rparr>)] s = (s', outs)" by force
  with sampler_rate_bound [OF s(1) this] s show ?thesis by auto
qed

end
