(* ===== verification/Rtsp_Props.thy ===== *)
theory Rtsp_Props
  imports Rtsp Mask_Props
begin

text \<open>
  Laws of camera ingest: the closed form of the bounded exponential backoff, for the camera supervisor
  and for the privacy release supervisor, and the frames read from the decoder.
\<close>

section \<open>Backoff\<close>

text \<open>The reference definition: doubling, cut off at the maximum.\<close>

definition backoff :: "duration \<Rightarrow> duration \<Rightarrow> nat \<Rightarrow> duration" where
  "backoff minimum maximum n = min maximum (minimum * 2 ^ n)"

lemma backoff_range: "0 < lo \<Longrightarrow> lo \<le> hi \<Longrightarrow> lo \<le> backoff lo hi n \<and> backoff lo hi n \<le> hi"
proof -
  assume lo: "0 < lo" "lo \<le> hi"
  have "1 \<le> (2 :: int) ^ n" by simp
  then have "lo * 1 \<le> lo * 2 ^ n" using lo(1) by (intro mult_left_mono) auto
  with lo show ?thesis by (auto simp: backoff_def)
qed

lemma backoff_Suc: "backoff lo hi (Suc n) = backoff (lo * 2) hi n"
  by (simp add: backoff_def mult.assoc)

lemma backoff_top: "0 < hi \<Longrightarrow> hi \<le> lo \<Longrightarrow> backoff lo hi n = hi"
proof -
  assume h: "0 < hi" "hi \<le> lo"
  have "lo * 1 \<le> lo * 2 ^ n" using h by (intro mult_left_mono) auto
  then have "hi \<le> lo * 2 ^ n" using h(2) by linarith
  then show ?thesis by (simp add: backoff_def min_def)
qed

lemma double_wrap: "0 < d \<Longrightarrow> d \<le> hi div 2 \<Longrightarrow> hi \<le> maxInt64 \<Longrightarrow> wrap64 (d * 2) = d * 2"
  by (rule wrap64_id) (simp_all add: maxInt64_def)

lemma retryLoop_backoff:
  assumes "0 < lo" "lo \<le> hi" "hi \<le> maxInt64"
  shows "retryLoop n lo hi = backoff lo hi n"
  using assms
proof (induction n arbitrary: lo)
  case 0
  then show ?case by (simp add: backoff_def min_def)
next
  case (Suc n)
  consider "lo = hi" | "lo < hi" "hi div 2 < lo" | "lo < hi" "lo \<le> hi div 2" using Suc.prems(2) by fastforce
  then show ?case
  proof cases
    case 1
    then show ?thesis using Suc.prems(1) backoff_top [of hi lo "Suc n"] by simp
  next
    case 2
    then have "hi \<le> lo * 2" by linarith
    then show ?thesis using 2 Suc.prems(1,2) backoff_top [of hi "lo * 2" n] by (simp add: backoff_Suc)
  next
    case 3
    have "lo * 2 \<le> hi" using 3(2) by linarith
    with 3 Suc.IH [of "lo * 2"] Suc.prems double_wrap [of lo hi] show ?thesis by (simp add: backoff_Suc)
  qed
qed

lemma retryDelay_backoff:
  assumes "0 < lo" "lo \<le> hi" "hi \<le> maxInt64"
  shows "retryDelay lo hi attempt = backoff lo hi (nat (attempt - 1))"
  by (simp add: retryDelay_def retryLoop_backoff [OF assms])

lemma rtspRun_delays:
  assumes "0 < rcRetryMinimum (riConfig i)" "rcRetryMinimum (riConfig i) \<le> rcRetryMaximum (riConfig i)"
    "rcRetryMaximum (riConfig i) \<le> maxInt64" "0 \<le> a" "rtspRun i a envs = (sts, delays, r)" "n < length delays"
  shows "delays ! n = backoff (rcRetryMinimum (riConfig i)) (rcRetryMaximum (riConfig i)) (nat a + n)"
  using assms(4-)
proof (induction envs arbitrary: a sts delays r n)
  case (Cons E envs)
  have d: "retryDelay (rcRetryMinimum (riConfig i)) (rcRetryMaximum (riConfig i)) (a + 1) =
      backoff (rcRetryMinimum (riConfig i)) (rcRetryMaximum (riConfig i)) (nat a)"
    using retryDelay_backoff [OF assms(1-3), of "a + 1"] by simp
  have head: "delays ! 0 = backoff (rcRetryMinimum (riConfig i)) (rcRetryMaximum (riConfig i)) (nat a)"
    using Cons.prems(2,3) d by (auto simp: Let_def split: option.splits prod.splits)
  show ?case
  proof (cases n)
    case 0
    with head show ?thesis by simp
  next
    case (Suc m)
    obtain sts' delays' r' where rest: "rtspRun i (a + 1) envs = (sts', delays', r')" by (metis prod.exhaust)
    have "m < length delays'" "delays ! n = delays' ! m"
      using Cons.prems(2,3) rest Suc by (auto simp: Let_def split: option.splits prod.splits)
    with Cons.IH [OF _ rest, of m] Cons.prems(1) Suc show ?thesis by (simp add: nat_add_distrib)
  qed
qed simp

lemma next_backoff:
  assumes "0 < lo" "lo \<le> hi" "hi \<le> maxInt64"
  shows "nextPrivacyMaskReleaseRetryDelay lo hi = backoff lo hi 1"
proof (cases "lo \<le> hi div 2")
  case True
  then have "lo * 2 \<le> hi" by linarith
  with True assms double_wrap [OF assms(1) True assms(3)] show ?thesis
    by (auto simp: nextPrivacyMaskReleaseRetryDelay_def backoff_def)
next
  case False
  then have "hi \<le> lo * 2" by linarith
  with False show ?thesis by (simp add: nextPrivacyMaskReleaseRetryDelay_def backoff_def)
qed

lemma backoff_backoff: "0 < lo \<Longrightarrow> lo \<le> hi \<Longrightarrow> backoff (backoff lo hi 1) hi n = backoff lo hi (Suc n)"
  using backoff_top [of hi hi n] backoff_top [of hi "lo * 2" n]
  by (cases "lo * 2 \<le> hi") (simp_all add: backoff_Suc, simp_all add: backoff_def min_def)

lemma supervise_waits:
  assumes "0 < lo" "lo \<le> hi" "hi \<le> maxInt64" "n < length (fst (supervise lo hi turns))"
  shows "fst (supervise lo hi turns) ! n = backoff lo hi n"
  using assms
proof (induction turns arbitrary: lo n)
  case (Cons t turns)
  obtain w c q where t: "t = (w, c, q)" by (cases t)
  let ?next = "backoff lo hi 1"
  have nx: "0 < ?next" "?next \<le> hi" using backoff_range [OF Cons.prems(1,2), of 1] Cons.prems(1) by auto
  show ?case
  proof (cases n)
    case 0
    with Cons.prems show ?thesis by (auto simp: t backoff_def min_def split: option.splits prod.splits if_splits)
  next
    case (Suc m)
    have "m < length (fst (supervise ?next hi turns))" "fst (supervise lo hi (t # turns)) ! n = fst (supervise ?next hi turns) ! m"
      using Cons.prems(4) Suc next_backoff [OF Cons.prems(1-3)]
      by (auto simp: t Let_def split: option.splits prod.splits if_splits)
    with Cons.IH [OF nx Cons.prems(3)] backoff_backoff [OF Cons.prems(1,2)] Suc show ?thesis by simp
  qed
qed simp

lemma NewRTSPIngest_retry:
  assumes "NewRTSPIngest L uni parse frameRunner source config = Inr i"
  shows "0 < rcRetryMinimum (riConfig i)" "rcRetryMinimum (riConfig i) \<le> rcRetryMaximum (riConfig i)"
proof -
  let ?bad = "rcConnectTimeout (rtspDefaults config) \<le> 0 \<or> rcRetryMinimum (rtspDefaults config) \<le> 0 \<or>
    rcRetryMaximum (rtspDefaults config) < rcRetryMinimum (rtspDefaults config) \<or> trimSpace (rcBinary (rtspDefaults config)) = []"
  have "\<not> ?bad"
  proof
    assume ?bad
    then show False
      using assms unfolding NewRTSPIngest_def Let_def by (simp only: if_True split: if_split_asm option.split_asm prod.split_asm) simp_all
  qed
  moreover have "riConfig i = rtspDefaults config"
  proof -
    define P where "P x \<longleftrightarrow> (\<forall>j. x = Inr j \<longrightarrow> riConfig j = rtspDefaults config)" for x :: "rtspError + RTSPIngest"
    have P: "P (Inl e)" "P (Inr (initialIngest s (rtspDefaults config) f d))" for e s f d
      by (simp_all add: P_def initialIngest_def)
    have "P (NewRTSPIngest L uni parse frameRunner source config)"
      unfolding NewRTSPIngest_def Let_def by (simp only: P simp_thms split: if_split option.split prod.split)
    with assms show ?thesis by (simp add: P_def)
  qed
  ultimately have "riConfig i = rtspDefaults config \<and> \<not> ?bad" by blast
  then show "0 < rcRetryMinimum (riConfig i)" "rcRetryMinimum (riConfig i) \<le> rcRetryMaximum (riConfig i)" by auto
qed

section \<open>Frames\<close>

text \<open>The consumer with a record of what it was given, and the first frame that it refuses.\<close>

definition logged :: "(bytes \<Rightarrow> 's \<Rightarrow> 's \<times> bool) \<Rightarrow> bytes \<Rightarrow> bytes list \<times> 's \<Rightarrow> (bytes list \<times> 's) \<times> bool" where
  "logged consume p gs = (case consume p (snd gs) of (s', ok) \<Rightarrow> ((fst gs @ [p], s'), ok))"

fun refused :: "(bytes \<Rightarrow> 's \<Rightarrow> 's \<times> bool) \<Rightarrow> bytes list \<Rightarrow> 's \<Rightarrow> nat option" where
  "refused consume [] s = None"
| "refused consume (p # ps) s =
     (case consume p s of (s', False) \<Rightarrow> Some 0 | (s', True) \<Rightarrow> map_option Suc (refused consume ps s'))"

text \<open>What the consumer gets of the complete frames, and how the reading ends.\<close>

definition readOutcome :: "(bytes \<Rightarrow> 's \<Rightarrow> 's \<times> bool) \<Rightarrow> bool \<Rightarrow> bytes list \<Rightarrow> bytes \<Rightarrow> 's \<Rightarrow> bytes list \<times> rtspError option" where
  "readOutcome consume eof frames rest s =
     (case refused consume frames s of
        Some k \<Rightarrow> (take (Suc k) frames, Some RtspConsumer)
      | None \<Rightarrow> (frames, if rest \<noteq> [] then Some RtspIncomplete else if eof then None else Some RtspOutput))"

lemma frameLoop_frames:
  assumes "0 < n"
  shows "\<exists>frames rest s'. frameLoop n (logged consume) eof data (sofar, s) =
      ((sofar @ fst (readOutcome consume eof frames rest s), s'), snd (readOutcome consume eof frames rest s)) \<and>
    data = concat frames @ rest \<and> (\<forall>p \<in> set frames. length p = n) \<and> length rest < n"
proof (induction "length data" arbitrary: data sofar s rule: less_induct)
  case less
  show ?case
  proof (cases "n \<le> length data")
    case True
    have len: "length (drop n data) < length data" using True assms by simp
    obtain s1 ok where c: "consume (take n data) s = (s1, ok)" by force
    from less [OF len, of "sofar @ [take n data]" s1] obtain frames rest s' where
      h: "frameLoop n (logged consume) eof (drop n data) (sofar @ [take n data], s1) =
          (((sofar @ [take n data]) @ fst (readOutcome consume eof frames rest s1), s'), snd (readOutcome consume eof frames rest s1))"
        "drop n data = concat frames @ rest" "\<forall>p \<in> set frames. length p = n" "length rest < n" by blast
    have "data = take n data @ drop n data" by simp
    then have "data = concat (take n data # frames) @ rest" using h(2) by simp
    moreover have "\<exists>s'. frameLoop n (logged consume) eof data (sofar, s) =
        ((sofar @ fst (readOutcome consume eof (take n data # frames) rest s), s'), snd (readOutcome consume eof (take n data # frames) rest s))"
      using True assms h(1) c by (subst frameLoop.simps) (cases ok; simp add: logged_def readOutcome_def split: option.split)
    ultimately show ?thesis using h(3,4) True by (intro exI [of _ "take n data # frames"] exI [of _ rest]) auto
  next
    case False
    then show ?thesis using assms
      by (intro exI [of _ "[]"] exI [of _ data]) (subst frameLoop.simps, auto simp: readOutcome_def)
  qed
qed

section \<open>Properties\<close>

text \<open>Retries back off exponentially within the configured bounds, without overflow: the n-th wait of a camera
  supervisor is the minimum doubled n times, cut off at the maximum, and never below the minimum; the waits of the
  privacy release supervisor follow the same law.\<close>

theorem retry_delays_bounded:
  assumes "NewRTSPIngest L uni parse frameRunner source config = Inr i" "rcRetryMaximum (riConfig i) \<le> maxInt64"
    "rtspRun i 0 envs = (sts, delays, r)" "n < length delays"
    "supervisorRun lo hi turns = Some (waits, q)" "hi \<le> maxInt64" "k < length waits"
  shows "delays ! n = min (rcRetryMaximum (riConfig i)) (rcRetryMinimum (riConfig i) * 2 ^ n) \<and>
    rcRetryMinimum (riConfig i) \<le> delays ! n \<and> 0 < delays ! n \<and>
    waits ! k = min hi (lo * 2 ^ k) \<and> lo \<le> waits ! k"
proof -
  note c = NewRTSPIngest_retry [OF assms(1)]
  have d: "delays ! n = backoff (rcRetryMinimum (riConfig i)) (rcRetryMaximum (riConfig i)) n"
    using rtspRun_delays [OF c assms(2) _ assms(3,4)] by simp
  have s: "0 < lo" "lo \<le> hi" "supervise lo hi turns = (waits, q)"
    using assms(5) by (auto simp: supervisorRun_def split: if_splits)
  have w: "waits ! k = backoff lo hi k" using supervise_waits [OF s(1,2) assms(6), of k turns] s(3) assms(7) by simp
  show ?thesis using backoff_range [OF c, of n] backoff_range [OF s(1,2), of k] c(1) d w by (auto simp: backoff_def)
qed

definition wRtsp :: "rtspError + RTSPIngest" where
  "wRtsp = NewRTSPIngest wMaskLib (\<lambda>s. s) (\<lambda>u. Some (''rtsp'', ''h'', [], u)) False
     \<lparr>rtID = ''cam'', rtURL = ''rtsp://h'', rtTransport = []\<rparr>
     \<lparr>rcBinary = [], rcConnectTimeout = 0, rcRetryMinimum = 0, rcRetryMaximum = 0, rcDecode = None, rcFrameWidth = 0,
       rcFrameHeight = 0, rcPipeline = None\<rparr>"

definition wTurn :: attemptEnv where
  "wTurn = \<lparr>aeBefore = None, aeStarted = True, aeFailed = True, aeAfter = None, aeSleep = None\<rparr>"

theorem retry_delays_bounded_witness:
  "\<exists>i sts delays r. wRtsp = Inr i \<and> rtspRun i 0 [wTurn, wTurn] = (sts, delays, r) \<and> delays ! 1 = 2 * second"
proof -
  have "case wRtsp of Inl _ \<Rightarrow> False | Inr i \<Rightarrow> rcRetryMaximum (riConfig i) = 30 * second \<and> rcRetryMinimum (riConfig i) = second \<and>
      length (fst (snd (rtspRun i 0 [wTurn, wTurn]))) = 2" by code_simp
  then obtain i where i: "wRtsp = Inr i" "rcRetryMaximum (riConfig i) = 30 * second" "rcRetryMinimum (riConfig i) = second"
      "length (fst (snd (rtspRun i 0 [wTurn, wTurn]))) = 2"
    by (auto split: sum.splits)
  obtain sts delays r where run: "rtspRun i 0 [wTurn, wTurn] = (sts, delays, r)" by (metis prod.exhaust)
  have sup: "supervisorRun 1 2 [(Some [], None, None)] = Some ([1], None)" by (simp add: supervisorRun_def)
  have "delays ! 1 = min (rcRetryMaximum (riConfig i)) (rcRetryMinimum (riConfig i) * 2 ^ 1)"
    using retry_delays_bounded [OF i(1) [unfolded wRtsp_def] _ run _ sup, of 1 0] i(2,4) run
    by (simp add: second_def maxInt64_def)
  then have "delays ! 1 = 2 * second" using i(2,3) by (simp add: second_def)
  with i(1) run show ?thesis by blast
qed

text \<open>C34: Reading decoded video is exact for every finite output of the decoder and every consumer. The output splits
  into complete frames of the configured size and a shorter rest; the consumer receives these frames in order and
  nothing else, all of them or up to and with the first that it refuses, which ends the reading with an error;
  without a refusal the reading succeeds exactly when the output ends properly on a frame boundary.\<close>

theorem decoded_frames_exact:
  assumes "0 < frameBytes" "frameBytes \<le> maxDecodedFrameBytes"
  shows "\<exists>frames rest s'. data = concat frames @ rest \<and> (\<forall>p \<in> set frames. int (length p) = frameBytes) \<and> int (length rest) < frameBytes \<and>
    consumeFixedRGB24Frames frameBytes (logged consume) eof data ([], s) =
      (case refused consume frames s of
         Some k \<Rightarrow> ((take (Suc k) frames, s'), Some RtspConsumer)
       | None \<Rightarrow> ((frames, s'), if rest \<noteq> [] then Some RtspIncomplete else if eof then None else Some RtspOutput))"
proof -
  have "0 < nat frameBytes" using assms(1) by simp
  from frameLoop_frames [OF this, of consume eof data "[]" s] obtain frames rest s' where
    "frameLoop (nat frameBytes) (logged consume) eof data ([], s) =
       ((fst (readOutcome consume eof frames rest s), s'), snd (readOutcome consume eof frames rest s))"
    "data = concat frames @ rest" "\<forall>p \<in> set frames. length p = nat frameBytes" "length rest < nat frameBytes" by auto
  with assms show ?thesis
    by (intro exI [of _ frames] exI [of _ rest] exI [of _ s']) (auto simp: consumeFixedRGB24Frames_def readOutcome_def split: option.split)
qed

text \<open>A consumer that refuses the second frame of three, with a rest.\<close>

theorem decoded_frames_exact_witness:
  "\<exists>frames rest s'. ''abcdefghij'' = concat frames @ rest \<and> int (length rest) < 3 \<and>
     consumeFixedRGB24Frames 3 (logged (\<lambda>p n. (n + 1, n < (1 :: int)))) True ''abcdefghij'' ([], 0) = ((take 2 frames, s'), Some RtspConsumer)"
proof -
  let ?c = "\<lambda>p n :: int. (n + 1, n < 1)"
  have run: "consumeFixedRGB24Frames 3 (logged ?c) True ''abcdefghij'' ([], 0) = (([''abc'', ''def''], 2), Some RtspConsumer)"
    by (simp add: consumeFixedRGB24Frames_def maxDecodedFrameBytes_def frameLoop.simps logged_def)
  have "(0 :: int) < 3" "(3 :: int) \<le> maxDecodedFrameBytes" by (simp_all add: maxDecodedFrameBytes_def)
  from decoded_frames_exact [OF this, of "''abcdefghij''" ?c True 0] obtain frames rest s' where f: "''abcdefghij'' = concat frames @ rest"
      "int (length rest) < 3" "consumeFixedRGB24Frames 3 (logged ?c) True ''abcdefghij'' ([], 0) =
      (case refused ?c frames 0 of Some k \<Rightarrow> ((take (Suc k) frames, s'), Some RtspConsumer)
       | None \<Rightarrow> ((frames, s'), if rest \<noteq> [] then Some RtspIncomplete else if True then None else Some RtspOutput))" by blast
  then obtain k where k: "refused ?c frames 0 = Some k" "take (Suc k) frames = [''abc'', ''def'']" using run by (auto split: option.split_asm if_split_asm)
  then have "take 2 frames = take (Suc k) frames" by (cases frames; cases "tl frames") (auto split: if_split_asm)
  with f k run show ?thesis by (intro exI [of _ frames] exI [of _ rest] exI [of _ s']) simp
qed

end
