(* ===== verification/Edge_Config.thy ===== *)
theory Edge_Config
  imports Identifiers
begin

text \<open>
  Configuration delivery at the edge, \<open>edge/internal/agent/configuration.go\<close>: pulling a revision,
  verifying its hash, replacing the active file atomically, and reporting the outcome.

  A \<open>configLib\<close> has SHA-256 and the JSON coders; an \<open>exchange\<close> is what one HTTP request meets: the
  response, if any, with its status and its body. The file system keeps the content of the active file;
  the temporary file is removed again on every path, and a failing \<open>rename\<close> leaves the active file as
  it was. \<open>syncMu\<close> serializes the synchronizations, so each is one step.
\<close>

section \<open>Revisions\<close>

record ConfigurationRevision =
  cvID :: string
  cvTenantID :: string
  cvSiteID :: string
  cvNumber :: int
  cvPayload :: bytes
  cvContentHash :: string
  cvCreatedAt :: gotime

record configLib =
  clSha :: "bytes \<Rightarrow> bytes"
  clValid :: "bytes \<Rightarrow> bool"
  clCanonical :: "bytes \<Rightarrow> bytes option"
  clMarshal :: "ConfigurationRevision \<Rightarrow> bytes option"
  clEnvelope :: "bytes \<Rightarrow> ConfigurationRevision option"
  clStatusData :: "bytes \<Rightarrow> bytes option"

datatype configError =
    ErrInvalidConfiguration | ErrConfigResponse | CfRequest string | CfStatus int | CfContext string | CfFile string
  | CfEndpoint | CfDeviceID

text \<open>\<open>strings.EqualFold\<close> with a hexadecimal text, whose letters have no folding outside ASCII.\<close>

definition equalFoldHex :: "string \<Rightarrow> string \<Rightarrow> bool" where
  "equalFoldHex s h \<longleftrightarrow> map lowerChar s = map lowerChar h"

definition validateConfiguration :: "configLib \<Rightarrow> ConfigurationRevision \<Rightarrow> bool" where
  "validateConfiguration L r \<longleftrightarrow>
     cvNumber r \<ge> 1 \<and> cvPayload r \<noteq> [] \<and> clValid L (cvPayload r) \<and> length (cvContentHash r) = 64 \<and> cvCreatedAt r \<noteq> 0 \<and>
     (case clCanonical L (cvPayload r) of
        None \<Rightarrow> False
      | Some canonical \<Rightarrow> equalFoldHex (cvContentHash r) (hexEncode (clSha L canonical)))"

section \<open>The client\<close>

text \<open>\<open>url.Parse\<close> gives scheme, host, whether user, query and fragment are empty, and the path.\<close>

record parsedURL =
  puScheme :: string
  puHost :: string
  puPlain :: bool
  puPath :: string

record ConfigurationClient =
  ccEndpoint :: parsedURL
  ccDeviceID :: string

definition trimRightSlash :: "string \<Rightarrow> string" where
  "trimRightSlash s = rev (dropWhile (\<lambda>c. c = CHR ''/'') (rev s))"

definition NewConfigurationClient ::
  "(string \<Rightarrow> parsedURL option) \<Rightarrow> string \<Rightarrow> string \<Rightarrow> configError + ConfigurationClient" where
  "NewConfigurationClient parse endpoint deviceID =
     (case parse (trimSpace endpoint) of
        None \<Rightarrow> Inl CfEndpoint
      | Some u \<Rightarrow>
          if puScheme u \<noteq> ''https'' \<or> puHost u = [] \<or> \<not> puPlain u then Inl CfEndpoint
          else
            (case normalizeUUIDv4 deviceID of
               None \<Rightarrow> Inl CfDeviceID
             | Some d \<Rightarrow> Inr \<lparr>ccEndpoint = u\<lparr>puPath := trimRightSlash (puPath u)\<rparr>, ccDeviceID = d\<rparr>))"

definition maxConfigBody :: nat where "maxConfigBody = 1048576"

text \<open>\<open>Inl\<close> is a request that got no response.\<close>

type_synonym exchange = "string + int \<times> bytes"

definition pullPath :: "ConfigurationClient \<Rightarrow> string" where
  "pullPath c = puPath (ccEndpoint c) @ ''/v1/edge/devices/'' @ ccDeviceID c @ ''/config''"

definition Pull :: "configLib \<Rightarrow> exchange \<Rightarrow> int \<Rightarrow> configError + ConfigurationRevision option" where
  "Pull L exchange afterRevision =
     (if afterRevision < 0 then Inl ErrInvalidConfiguration
      else
        (case exchange of
           Inl err \<Rightarrow> Inl (CfRequest err)
         | Inr (status, body) \<Rightarrow>
             if status = 204 then Inr None
             else if status \<noteq> 200 then Inl (CfStatus status)
             else
               (case clEnvelope L (take maxConfigBody body) of
                  None \<Rightarrow> Inl ErrConfigResponse
                | Some revision \<Rightarrow>
                    if validateConfiguration L revision then Inr (Some revision) else Inl ErrInvalidConfiguration)))"

definition Report :: "configLib \<Rightarrow> bytes option \<Rightarrow> exchange \<Rightarrow> int \<Rightarrow> string \<Rightarrow> string \<Rightarrow> configError option" where
  "Report L random exchange revision state errorMessage =
     (if revision < 1 \<or> (state \<noteq> ''applied'' \<and> state \<noteq> ''failed'') \<or> length (trimSpace errorMessage) > 512 \<or>
         (state = ''applied'' \<and> trimSpace errorMessage \<noteq> []) then Some ErrInvalidConfiguration
      else if newUUIDv4 random = None then Some (CfRequest ''generate correlation id'')
      else
        (case exchange of
           Inl err \<Rightarrow> Some (CfRequest err)
         | Inr (status, body) \<Rightarrow>
             if status \<noteq> 200 then Some (CfStatus status)
             else
               (case clStatusData L (take maxConfigBody body) of
                  None \<Rightarrow> Some ErrConfigResponse
                | Some data \<Rightarrow> if data = [] then Some ErrConfigResponse else None)))"

section \<open>The atomic applier\<close>

datatype fileCall = FileMkdir | FileCreate | FileWrite | FileSync | FileClose | FileRename

text \<open>The file system holds the content of \<open>a.Path\<close>; \<open>path\<close> is that path.\<close>

definition ApplyAtomic ::
  "configLib \<Rightarrow> (fileCall \<Rightarrow> bool) \<Rightarrow> string option \<Rightarrow> string \<Rightarrow> ConfigurationRevision \<Rightarrow> bytes option \<Rightarrow>
     bytes option \<times> configError option" where
  "ApplyAtomic L fails ctxErr path revision active =
     (if \<not> validateConfiguration L revision then (active, Some ErrInvalidConfiguration)
      else if trimSpace path = [] then (active, Some ErrInvalidConfiguration)
      else
        (case ctxErr of
           Some err \<Rightarrow> (active, Some (CfContext err))
         | None \<Rightarrow>
             if fails FileMkdir then (active, Some (CfFile ''create configuration directory''))
             else if fails FileCreate then (active, Some (CfFile ''create temporary configuration''))
             else
               (case clMarshal L revision of
                  None \<Rightarrow> (active, Some (CfFile ''encode configuration revision''))
                | Some encoded \<Rightarrow>
                    if fails FileWrite then (active, Some (CfFile ''write temporary configuration''))
                    else if fails FileSync then (active, Some (CfFile ''sync temporary configuration''))
                    else if fails FileClose then (active, Some (CfFile ''close temporary configuration''))
                    else if fails FileRename then (active, Some (CfFile ''activate configuration atomically''))
                    else (Some encoded, None))))"

section \<open>The synchronizer\<close>

text \<open>The applied revision and the active file.\<close>

record configSync =
  csApplied :: int
  csActive :: "bytes option"

text \<open>What one synchronization meets: the answers of the server as functions of what is asked.\<close>

record syncEnv =
  seUUID :: "bytes option"
  sePull :: "int \<Rightarrow> exchange"
  seReport :: "int \<times> string \<times> string \<Rightarrow> exchange"
  seFails :: "fileCall \<Rightarrow> bool"
  seContext :: "string option"
  seErrorText :: "configError \<Rightarrow> string"

definition NewConfigurationSynchronizer :: "int \<Rightarrow> bytes option \<Rightarrow> configSync option" where
  "NewConfigurationSynchronizer applied active =
     (if applied < 0 then None else Some \<lparr>csApplied = applied, csActive = active\<rparr>)"

definition safeConfigurationError :: "string \<Rightarrow> string" where
  "safeConfigurationError text = (let message = trimSpace text in if length message > 512 then take 512 message else message)"

definition AppliedRevision :: "configSync \<Rightarrow> int" where "AppliedRevision s = csApplied s"

text \<open>The last component is the arguments of the call of \<open>Report\<close>, if there was one.\<close>

definition Sync ::
  "configLib \<Rightarrow> string \<Rightarrow> syncEnv \<Rightarrow> configSync \<Rightarrow> configSync \<times> configError option \<times> (int \<times> string \<times> string) option" where
  "Sync L path E s =
     (case Pull L (sePull E (csApplied s)) (csApplied s) of
        Inl err \<Rightarrow> (s, Some err, None)
      | Inr None \<Rightarrow> (s, None, None)
      | Inr (Some revision) \<Rightarrow>
          if cvNumber revision \<le> csApplied s then (s, None, None)
          else
            (case ApplyAtomic L (seFails E) (seContext E) path revision (csActive s) of
               (active, Some err) \<Rightarrow>
                 (s\<lparr>csActive := active\<rparr>, Some err,
                  Some (cvNumber revision, ''failed'', safeConfigurationError (seErrorText E err)))
             | (active, None) \<Rightarrow>
                 (s\<lparr>csApplied := cvNumber revision, csActive := active\<rparr>,
                  Report L (seUUID E) (seReport E (cvNumber revision, ''applied'', [])) (cvNumber revision) ''applied'' [],
                  Some (cvNumber revision, ''applied'', []))))"

definition SyncIfDesired ::
  "configLib \<Rightarrow> string \<Rightarrow> syncEnv \<Rightarrow> int \<Rightarrow> configSync \<Rightarrow> configSync \<times> configError option \<times> (int \<times> string \<times> string) option" where
  "SyncIfDesired L path E desired s =
     (if desired < 0 then (s, Some ErrInvalidConfiguration, None)
      else if desired \<le> AppliedRevision s then (s, None, None)
      else Sync L path E s)"

text \<open>
  The loop runs one synchronization per tick until the context is done; \<open>ticks\<close> are the environments of
  the ticks that came before, \<open>cancelled\<close> is \<open>ctx.Err()\<close> after the first synchronization, \<open>done\<close> at the end.
\<close>

definition ConfigPollInterval :: duration where "ConfigPollInterval = 30 * second"

definition configRun ::
  "configLib \<Rightarrow> string \<Rightarrow> duration \<Rightarrow> syncEnv \<Rightarrow> string option \<Rightarrow> syncEnv list \<Rightarrow> string \<Rightarrow> configSync \<Rightarrow> configSync \<times> configError" where
  "configRun L path interval E cancelled ticks done s =
     (if interval \<le> 0 \<or> interval > ConfigPollInterval then (s, ErrInvalidConfiguration)
      else
        (case (Sync L path E s, cancelled) of
           ((s', Some _, _), Some err) \<Rightarrow> (s', CfContext err)
         | ((s', _, _), _) \<Rightarrow> (fold (\<lambda>E s. fst (Sync L path E s)) ticks s', CfContext done)))"

section \<open>Laws\<close>

text \<open>The synchronizer's file is the one it started with or holds the verified revision it counts as applied.\<close>

definition revisionOK :: "configLib \<Rightarrow> configSync \<Rightarrow> configSync \<Rightarrow> bool" where
  "revisionOK L s0 s \<longleftrightarrow> s = s0 \<or>
     (\<exists>r. cvNumber r = csApplied s \<and> csApplied s0 < csApplied s \<and> validateConfiguration L r \<and>
        clMarshal L r \<noteq> None \<and> csActive s = clMarshal L r)"

lemma ApplyAtomic_cases:
  assumes "ApplyAtomic L fails ctxErr path r active = (active', err)"
  shows "(err \<noteq> None \<and> active' = active) \<or> (err = None \<and> validateConfiguration L r \<and> clMarshal L r \<noteq> None \<and> active' = clMarshal L r)"
  using assms by (auto simp: ApplyAtomic_def split: if_splits option.splits)

lemma Sync_cases:
  assumes "Sync L path E s = (s', err, rep)"
  shows "(s' = s \<and> (\<forall>n st m. rep = Some (n, st, m) \<longrightarrow> st = ''failed'' \<and> err \<noteq> None)) \<or>
    (\<exists>r. csApplied s < csApplied s' \<and> cvNumber r = csApplied s' \<and> validateConfiguration L r \<and> clMarshal L r \<noteq> None \<and>
      csActive s' = clMarshal L r \<and> rep = Some (csApplied s', ''applied'', []))"
proof -
  consider "s' = s" "rep = None" | r where "\<not> cvNumber r \<le> csApplied s"
      "(case ApplyAtomic L (seFails E) (seContext E) path r (csActive s) of
         (active, Some err) \<Rightarrow> (s\<lparr>csActive := active\<rparr>, Some err, Some (cvNumber r, ''failed'', safeConfigurationError (seErrorText E err)))
       | (active, None) \<Rightarrow> (s\<lparr>csApplied := cvNumber r, csActive := active\<rparr>,
           Report L (seUUID E) (seReport E (cvNumber r, ''applied'', [])) (cvNumber r) ''applied'' [], Some (cvNumber r, ''applied'', []))) = (s', err, rep)"
    using assms by (auto simp: Sync_def split: sum.splits option.splits if_splits)
  then show ?thesis
  proof cases
    case (2 r)
    obtain active e where run: "ApplyAtomic L (seFails E) (seContext E) path r (csActive s) = (active, e)" by force
    show ?thesis
    proof (cases e)
      case None
      with run 2 ApplyAtomic_cases [OF run] show ?thesis by auto
    next
      case (Some x)
      with run 2(2) ApplyAtomic_cases [OF run] show ?thesis by auto
    qed
  qed simp
qed

lemma SyncIfDesired_cases:
  assumes "SyncIfDesired L path E desired s = (s', err, rep)"
  shows "(s' = s \<and> rep = None) \<or> Sync L path E s = (s', err, rep)"
  using assms by (auto simp: SyncIfDesired_def split: if_splits)

inductive configReach :: "configLib \<Rightarrow> string \<Rightarrow> configSync \<Rightarrow> configSync \<Rightarrow> bool" for L path s0 where
  start: "configReach L path s0 s0"
| sync: "configReach L path s0 s \<Longrightarrow> configReach L path s0 (fst (Sync L path E s))"
| desired: "configReach L path s0 s \<Longrightarrow> configReach L path s0 (fst (SyncIfDesired L path E n s))"

lemma configReach_fold: "configReach L path s0 s \<Longrightarrow> configReach L path s0 (fold (\<lambda>E s. fst (Sync L path E s)) ticks s)"
  by (induction ticks arbitrary: s) (auto intro: configReach.sync)

text \<open>The loop adds no state of its own.\<close>

lemma configReach_run:
  assumes "configReach L path s0 s"
  shows "configReach L path s0 (fst (configRun L path interval E cancelled ticks done s))"
proof -
  obtain s' err rep where run: "Sync L path E s = (s', err, rep)" by (metis prod.exhaust)
  then have "configReach L path s0 s'" using configReach.sync [OF assms, of E] by simp
  then show ?thesis using assms configReach_fold by (simp add: configRun_def run split: option.split)
qed

lemma revisionOK_Sync:
  assumes "revisionOK L s0 s" "Sync L path E s = (s', err, rep)"
  shows "revisionOK L s0 s'"
  using Sync_cases [OF assms(2)] assms(1)
proof (elim disjE conjE exE)
  fix r
  assume r: "csApplied s < csApplied s'" "cvNumber r = csApplied s'" "validateConfiguration L r" "clMarshal L r \<noteq> None"
    "csActive s' = clMarshal L r"
  have "csApplied s0 \<le> csApplied s" using assms(1) by (auto simp: revisionOK_def)
  with r show ?thesis unfolding revisionOK_def by auto
qed simp

lemma configReach_OK: "configReach L path s0 s \<Longrightarrow> revisionOK L s0 s"
proof (induction rule: configReach.induct)
  case start
  show ?case by (simp add: revisionOK_def)
next
  case (sync s E)
  obtain s' err rep where "Sync L path E s = (s', err, rep)" by (metis prod.exhaust)
  with revisionOK_Sync [OF sync.IH this] show ?case by simp
next
  case (desired s E n)
  obtain s' err rep where run: "SyncIfDesired L path E n s = (s', err, rep)" by (metis prod.exhaust)
  from SyncIfDesired_cases [OF run] revisionOK_Sync [OF desired.IH, of path E s' err rep] desired.IH run show ?case by auto
qed

section \<open>Property\<close>

definition wRevision :: ConfigurationRevision where
  "wRevision = \<lparr>cvID = ''i'', cvTenantID = ''t'', cvSiteID = ''s'', cvNumber = 3, cvPayload = ''{}'',
     cvContentHash = ''7b7D'' @ replicate 60 CHR ''0'', cvCreatedAt = 1\<rparr>"

definition wConfigLib :: configLib where
  "wConfigLib = \<lparr>clSha = (\<lambda>x. take 32 (x @ replicate 32 CHR 0x00)), clValid = (\<lambda>_. True), clCanonical = Some,
     clMarshal = (\<lambda>r. Some (cvPayload r)), clEnvelope = (\<lambda>b. Some wRevision), clStatusData = Some\<rparr>"

definition wSyncEnv :: syncEnv where
  "wSyncEnv = \<lparr>seUUID = None, sePull = (\<lambda>_. Inr (200, ''x'')), seReport = (\<lambda>_. Inl ''down''), seFails = (\<lambda>_. False), seContext = None,
     seErrorText = (\<lambda>_. ''e'')\<rparr>"

text \<open>C35: Configuration only moves forward, to verified content: after any number of synchronizations, whatever fails,
  either nothing has changed, or the active file holds a complete revision whose content hash is that of its payload,
  its number is the applied revision and exceeds the initial one. A step never lowers the applied revision; it reports
  a revision as applied exactly when it activated it, and after a failure applied revision and file are unchanged.
  All of it also holds of the state in which the polling loop ends.\<close>

theorem config_sync_safe:
  assumes "configReach L path s0 s" "Sync L path E s = (s', err, rep)"
  shows "revisionOK L s0 s \<and> csApplied s \<le> csApplied s' \<and>
    (if s' = s then \<forall>n st m. rep = Some (n, st, m) \<longrightarrow> st = ''failed'' \<and> err \<noteq> None
     else rep = Some (csApplied s', ''applied'', []) \<and> csApplied s < csApplied s') \<and>
    revisionOK L s0 (fst (configRun L path interval E cancelled ticks done s))"
  using configReach_OK [OF assms(1)] Sync_cases [OF assms(2)] configReach_OK [OF configReach_run [OF assms(1)]] by auto

theorem config_sync_safe_witness:
  "\<exists>s' err rep. Sync wConfigLib ''/c'' wSyncEnv \<lparr>csApplied = 2, csActive = None\<rparr> = (s', err, rep) \<and>
     csApplied s' = 3 \<and> rep = Some (3, ''applied'', [])"
proof -
  let ?s = "\<lparr>csApplied = 2, csActive = None\<rparr>"
  obtain s' err rep where run: "Sync wConfigLib ''/c'' wSyncEnv ?s = (s', err, rep)" by (metis prod.exhaust)
  have "csApplied (fst (Sync wConfigLib ''/c'' wSyncEnv ?s)) = 3"
  proof -
    have "validateConfiguration wConfigLib wRevision" "trimSpace ''/c'' \<noteq> []" "cvNumber wRevision = 3" by code_simp+
    moreover have "clEnvelope wConfigLib b = Some wRevision" "clMarshal wConfigLib r = Some (cvPayload r)" for b r
      by (simp_all add: wConfigLib_def)
    ultimately show ?thesis by (simp add: Sync_def Pull_def ApplyAtomic_def wSyncEnv_def)
  qed
  with run have "csApplied s' = 3" by simp
  then show ?thesis using config_sync_safe [OF configReach.start run, of 1 None "[wSyncEnv]" "''done''"] run
    by (auto split: if_splits)
qed

end
