(* ===== verification/Device_Routes.thy ===== *)
theory Device_Routes
  imports Identifiers
begin

text \<open>
  What the routes of devices share: the check that the path names the device of the client certificate
  (\<open>httpapi/configuration_delivery.go\<close>), and the integers of \<open>strconv\<close> in their queries, with the proof that a formatted
  number is read back.
\<close>

section \<open>Definitions\<close>

text \<open>\<open>verified\<close> is the device the client certificate names, \<open>pathID\<close> the one in the path.\<close>

definition verifiedDeviceRequest :: "string option \<Rightarrow> string \<Rightarrow> string option" where
  "verifiedDeviceRequest verified pathID = (if verified = Some (trimSpace pathID) then Some (trimSpace pathID) else None)"

text \<open>\<open>strconv.ParseInt(s, 10, 64)\<close> and \<open>strconv.FormatInt\<close>.\<close>

fun digitsValue :: "int \<Rightarrow> string \<Rightarrow> int option" where
  "digitsValue n [] = Some n"
| "digitsValue n (c # cs) =
     (if CHR ''0'' \<le> c \<and> c \<le> CHR ''9'' then digitsValue (10 * n + (int (of_char c) - 48)) cs else None)"

definition parseInt64 :: "string \<Rightarrow> int option" where
  "parseInt64 s =
     (let digits = (if s \<noteq> [] \<and> (hd s = CHR ''-'' \<or> hd s = CHR ''+'') then tl s else s);
          negative = (s \<noteq> [] \<and> hd s = CHR ''-'') in
      if digits = [] then None
      else
        (case digitsValue 0 digits of
           None \<Rightarrow> None
         | Some n \<Rightarrow>
             let v = (if negative then - n else n) in
             if minInt64 \<le> v \<and> v \<le> maxInt64 then Some v else None))"

definition formatInt :: "int \<Rightarrow> string" where
  "formatInt n = (if n < 0 then CHR ''-'' # natDigits (nat (- n)) else natDigits (nat n))"

section \<open>Parsing and formatting integers\<close>

lemma digitsValue_snoc:
  "digitsValue m (ds @ [c]) =
     (case digitsValue m ds of None \<Rightarrow> None | Some n \<Rightarrow> digitsValue n [c])"
  by (induction ds arbitrary: m) auto

lemma digit_char: "d < 10 \<Longrightarrow> CHR ''0'' \<le> (char_of (48 + d) :: char) \<and> char_of (48 + d) \<le> (CHR ''9'' :: char) \<and>
    of_char (char_of (48 + d) :: char) = 48 + (d :: nat)"
  by (simp add: less_eq_char_def of_char_of)

lemma digitsValue_natDigits: "digitsValue 0 (natDigits n) = Some (int n)"
proof (induction n rule: natDigits.induct)
  case (1 n)
  have d: "digitsValue m [char_of (48 + d)] = Some (10 * m + int d)" if "d < 10" for m d
    using digit_char [OF that] by simp
  show ?case
  proof (cases "n < 10")
    case True
    have "natDigits n = [char_of (48 + n)]" using True by (subst natDigits.simps) simp
    then show ?thesis using d [OF True, of 0] by simp
  next
    case False
    have "natDigits n = natDigits (n div 10) @ [char_of (48 + n mod 10)]" using False by (subst natDigits.simps) simp
    moreover have "10 * int (n div 10) + int (n mod 10) = int n"
      by (metis mult_div_mod_eq of_nat_add of_nat_mult of_nat_numeral)
    ultimately show ?thesis using 1 False d [of "n mod 10" "int (n div 10)"]
      by (simp only: digitsValue_snoc option.case) simp
  qed
qed

lemma natDigits_digits: "c \<in> set (natDigits n) \<Longrightarrow> \<exists>d < (10 :: nat). c = char_of (48 + d)"
proof (induction n rule: natDigits.induct)
  case (1 n)
  show ?case
  proof (cases "n < 10")
    case True
    with 1(2) show ?thesis by (subst (asm) natDigits.simps) auto
  next
    case False
    from 1(2) False have "c \<in> set (natDigits (n div 10)) \<or> c = char_of (48 + n mod 10)"
      by (subst (asm) natDigits.simps) auto
    with 1(1) [OF False] show ?thesis by (metis mod_less_divisor zero_less_numeral)
  qed
qed

lemma natDigits_ne [simp]: "natDigits n \<noteq> []"
  by (subst natDigits.simps) auto

lemma parse_format: "0 \<le> n \<Longrightarrow> n \<le> maxInt64 \<Longrightarrow> trimSpace (formatInt n) \<noteq> [] \<and> parseInt64 (trimSpace (formatInt n)) = Some n"
proof -
  assume n: "0 \<le> n" "n \<le> maxInt64"
  let ?s = "natDigits (nat n)"
  have digit: "hexChar c \<and> c \<noteq> CHR ''-'' \<and> c \<noteq> CHR ''+''" if "c \<in> set ?s" for c
  proof -
    from natDigits_digits [OF that] obtain d where d: "d < (10 :: nat)" "c = char_of (48 + d)" by blast
    have "of_char c = 48 + d" using digit_char [OF d(1)] d(2) by simp
    then have "hexChar c" "of_char c \<noteq> (45 :: nat)" "of_char c \<noteq> (43 :: nat)" using d(1) by (auto simp: hexChar_def hexValue_def Let_def)
    then show ?thesis by auto
  qed
  then have "list_all solid ?s" using uuid_chars by (auto simp: list_all_iff)
  then have t: "trimSpace (formatInt n) = ?s" using n by (simp add: formatInt_def trimSpace_solid)
  have "hd ?s \<noteq> CHR ''-''" "hd ?s \<noteq> CHR ''+''" using digit [of "hd ?s"] by simp_all
  then show ?thesis using n digitsValue_natDigits [of "nat n"] unfolding t
    by (simp add: parseInt64_def Let_def minInt64_def)
qed

end
