(* ===== verification/Config_Delivery.thy ===== *)
theory Config_Delivery
  imports Edge_Config Audit_Chain Device_Routes
begin

text \<open>
  Configuration delivery in the control plane: \<open>backend/internal/configdelivery\<close> (the memory and the
  PostgreSQL repository), the database functions they call (migration 10), and the two device routes of
  \<open>httpapi/configuration_delivery.go\<close>.

  The tables are lists and maps of rows; row level security shows a transaction the rows of its tenant.
  A \<open>deliveryLib\<close> has the JSON and UUID functions, with \<open>dlJsonb\<close> the text a \<open>jsonb\<close> column gives
  back; a \<open>deliveryEnv\<close> has the clock, a fresh id, the SQLSTATE of every failing statement and whether a
  commit that reports an error was applied. An advisory lock per site serializes publications.
\<close>

section \<open>Data\<close>

definition StatusApplied :: string where "StatusApplied = ''applied''"
definition StatusFailed :: string where "StatusFailed = ''failed''"

record Revision =
  rvID :: string
  rvTenantID :: string
  rvSiteID :: string
  rvNumber :: int
  rvPayload :: bytes
  rvContentHash :: string
  rvCreatedBy :: string
  rvCreatedAt :: gotime

record PublishCommand =
  pcTenantID :: string
  pcSiteID :: string
  pcActorID :: string
  pcRequestID :: string
  pcPayload :: bytes

record ConfigStatus =
  gsDeviceID :: string
  gsTenantID :: string
  gsSiteID :: string
  gsRevision :: int
  gsState :: string
  gsErrorMessage :: string
  gsReportedAt :: gotime
  gsAppliedAt :: "gotime option"

record ReportCommand =
  rcmDeviceID :: string
  rcmState :: string
  rcmErrorMessage :: string
  rcmRevision :: int

record DeviceBinding =
  bdID :: string
  bdTenantID :: string
  bdSiteID :: string

datatype dvCall = DvBegin | DvSetTenant | DvLock | DvSite | DvLast | DvInsert | DvQuery | DvCommit

datatype deliveryError =
    ErrDeviceNotFound | ErrRevisionNotFound | ErrInvalidStatus
  | CdPayload | CdTenant | CdDatabase dvCall | CdAudit auditError

text \<open>
  \<open>dlText n\<close> is the text that a \<open>varchar(n)\<close> column stores, nothing when it refuses the text. \<open>dlUseColumn\<close> tells that
  the server runs with \<open>plpgsql.variable_conflict = use_column\<close>; PostgreSQL's default is \<open>error\<close>.
\<close>

record 'j deliveryLib =
  dlConfig :: configLib
  dlObject :: "bytes \<Rightarrow> bool"
  dlJsonb :: "bytes \<Rightarrow> bytes"
  dlParses :: "string \<Rightarrow> bool"
  dlUUID :: "string \<Rightarrow> string option"
  dlVarchar :: "string \<Rightarrow> string"
  dlText :: "nat \<Rightarrow> string \<Rightarrow> string option"
  dlUseColumn :: bool
  dlRevisionBody :: "Revision \<Rightarrow> bytes"
  dlStatusBody :: "ConfigStatus \<Rightarrow> bytes"
  dlAudit :: "'j auditLib"
  dlAny :: "Revision \<Rightarrow> 'j"
  dlNil :: 'j

record deliveryEnv =
  veNow :: gotime
  veID :: string
  veFails :: "dvCall \<Rightarrow> string option"
  veAudit :: "auditCall \<Rightarrow> bool"
  veCommitApplied :: bool

section \<open>Payloads and reports\<close>

definition normalizePayload :: "'j deliveryLib \<Rightarrow> bytes \<Rightarrow> (bytes \<times> string) option" where
  "normalizePayload L raw =
     (if raw = [] \<or> \<not> clValid (dlConfig L) raw then None
      else
        (case clCanonical (dlConfig L) raw of
           None \<Rightarrow> None
         | Some canonical \<Rightarrow>
             if \<not> dlObject L raw then None
             else Some (canonical, hexEncode (clSha (dlConfig L) canonical))))"

definition validateReport :: "ReportCommand \<Rightarrow> bool" where
  "validateReport c \<longleftrightarrow>
     \<not> (rcmRevision c < 1 \<or> (rcmState c \<noteq> StatusApplied \<and> rcmState c \<noteq> StatusFailed) \<or>
        length (trimSpace (rcmErrorMessage c)) > 512 \<or>
        (rcmState c = StatusApplied \<and> trimSpace (rcmErrorMessage c) \<noteq> []))"

fun latestFrom :: "Revision option \<Rightarrow> Revision list \<Rightarrow> string \<Rightarrow> string \<Rightarrow> Revision option" where
  "latestFrom selected [] tenant site = selected"
| "latestFrom selected (candidate # rest) tenant site =
     latestFrom
       (if rvTenantID candidate = tenant \<and> rvSiteID candidate = site \<and>
           (selected = None \<or> rvNumber candidate > rvNumber (the selected)) then Some candidate else selected)
       rest tenant site"

definition latest :: "Revision list \<Rightarrow> string \<Rightarrow> string \<Rightarrow> Revision option" where
  "latest revisions tenant site = latestFrom None revisions tenant site"

section \<open>The memory repository\<close>

record configMemory =
  cmRevisions :: "Revision list"
  cmDevices :: "string \<rightharpoonup> DeviceBinding"
  cmStatuses :: "string \<rightharpoonup> ConfigStatus"

definition NewConfigMemory :: "DeviceBinding list \<Rightarrow> configMemory" where
  "NewConfigMemory devices =
     \<lparr>cmRevisions = [], cmDevices = fold (\<lambda>d m. m(bdID d \<mapsto> d)) devices Map.empty, cmStatuses = Map.empty\<rparr>"

definition lastNumber :: "Revision list \<Rightarrow> string \<Rightarrow> string \<Rightarrow> int" where
  "lastNumber revisions tenant site =
     fold (\<lambda>r number. if rvTenantID r = tenant \<and> rvSiteID r = site \<and> rvNumber r > number then rvNumber r else number)
       revisions 0"

definition MemoryPublish ::
  "'j deliveryLib \<Rightarrow> deliveryEnv \<Rightarrow> PublishCommand \<Rightarrow> configMemory \<Rightarrow> configMemory \<times> (deliveryError + Revision)" where
  "MemoryPublish L E command m =
     (case normalizePayload L (pcPayload command) of
        None \<Rightarrow> (m, Inl CdPayload)
      | Some (payload, hash) \<Rightarrow>
          let number = lastNumber (cmRevisions m) (pcTenantID command) (pcSiteID command);
              revision = \<lparr>rvID = veID E, rvTenantID = pcTenantID command, rvSiteID = pcSiteID command,
                rvNumber = wrap64 (number + 1), rvPayload = payload, rvContentHash = hash,
                rvCreatedBy = pcActorID command, rvCreatedAt = veNow E\<rparr> in
          (m\<lparr>cmRevisions := cmRevisions m @ [revision]\<rparr>, Inr revision))"

definition revisionLess :: "Revision \<Rightarrow> Revision \<Rightarrow> bool" where
  "revisionLess a b = (if rvSiteID a = rvSiteID b then rvNumber a > rvNumber b else rvSiteID a < rvSiteID b)"

definition MemoryList :: "string \<Rightarrow> string \<Rightarrow> configMemory \<Rightarrow> Revision list" where
  "MemoryList tenant site m =
     sortSlice revisionLess (filter (\<lambda>r. rvTenantID r = tenant \<and> (site = [] \<or> rvSiteID r = site)) (cmRevisions m))"

definition MemoryPull :: "string \<Rightarrow> int \<Rightarrow> configMemory \<Rightarrow> deliveryError + Revision option" where
  "MemoryPull deviceID afterRevision m =
     (case cmDevices m deviceID of
        None \<Rightarrow> Inl ErrDeviceNotFound
      | Some device \<Rightarrow>
          (case latest (cmRevisions m) (bdTenantID device) (bdSiteID device) of
             None \<Rightarrow> Inr None
           | Some r \<Rightarrow> if rvNumber r \<le> afterRevision then Inr None else Inr (Some r)))"

definition MemoryDesiredRevision :: "string \<Rightarrow> configMemory \<Rightarrow> deliveryError + int" where
  "MemoryDesiredRevision deviceID m =
     (case cmDevices m deviceID of
        None \<Rightarrow> Inl ErrDeviceNotFound
      | Some device \<Rightarrow>
          (case latest (cmRevisions m) (bdTenantID device) (bdSiteID device) of
             None \<Rightarrow> Inr 0
           | Some r \<Rightarrow> Inr (rvNumber r)))"

definition MemoryReport :: "gotime \<Rightarrow> ReportCommand \<Rightarrow> configMemory \<Rightarrow> configMemory \<times> (deliveryError + ConfigStatus)" where
  "MemoryReport now command m =
     (case cmDevices m (rcmDeviceID command) of
        None \<Rightarrow> (m, Inl ErrDeviceNotFound)
      | Some device \<Rightarrow>
          if \<not> validateReport command then (m, Inl ErrInvalidStatus)
          else
            (case latest (cmRevisions m) (bdTenantID device) (bdSiteID device) of
               None \<Rightarrow> (m, Inl ErrRevisionNotFound)
             | Some revision \<Rightarrow>
                 if rcmRevision command > rvNumber revision then (m, Inl ErrRevisionNotFound)
                 else if (case cmStatuses m (bdID device) of None \<Rightarrow> False | Some previous \<Rightarrow> rcmRevision command < gsRevision previous)
                 then (m, Inl ErrInvalidStatus)
                 else
                   let status = \<lparr>gsDeviceID = bdID device, gsTenantID = bdTenantID device, gsSiteID = bdSiteID device,
                         gsRevision = rcmRevision command, gsState = rcmState command,
                         gsErrorMessage = trimSpace (rcmErrorMessage command), gsReportedAt = now,
                         gsAppliedAt = (if rcmState command = StatusApplied then Some now else None)\<rparr> in
                   (m\<lparr>cmStatuses := (cmStatuses m)(bdID device \<mapsto> status)\<rparr>, Inr status)))"

definition MemoryGetStatus :: "string \<Rightarrow> string \<Rightarrow> configMemory \<Rightarrow> deliveryError + ConfigStatus" where
  "MemoryGetStatus tenant deviceID m =
     (case cmStatuses m deviceID of
        None \<Rightarrow> Inl ErrDeviceNotFound
      | Some status \<Rightarrow> if gsTenantID status \<noteq> tenant then Inl ErrDeviceNotFound else Inr status)"

section \<open>The database\<close>

record edgeDeviceRow =
  edrTenant :: string
  edrSite :: string
  edrCert :: string
  edrStatus :: string

record configDB =
  cdSites :: "string \<Rightarrow> string \<Rightarrow> bool"
  cdRevisions :: "Revision list"
  cdDevices :: "string \<rightharpoonup> edgeDeviceRow"
  cdStatuses :: "string \<times> string \<rightharpoonup> ConfigStatus"
  cdAudit :: "auditRow list"

text \<open>The device that the three functions of the schema \<open>edge\<close> look up first.\<close>

definition authorizedDevice :: "configDB \<Rightarrow> string \<Rightarrow> edgeDeviceRow option" where
  "authorizedDevice db device =
     (case cdDevices db device of
        None \<Rightarrow> None
      | Some d \<Rightarrow> if edrCert d = ''active'' \<and> (edrStatus d = ''active'' \<or> edrStatus d = ''offline'') then Some d else None)"

definition siteRevisions :: "configDB \<Rightarrow> string \<Rightarrow> string \<Rightarrow> Revision list" where
  "siteRevisions db tenant site = filter (\<lambda>r. rvTenantID r = tenant \<and> rvSiteID r = site) (cdRevisions db)"

definition maxRevision :: "Revision list \<Rightarrow> int" where
  "maxRevision rows = foldr (\<lambda>r n. max (rvNumber r) n) rows 0"

text \<open>\<open>ORDER BY r.revision DESC LIMIT 1\<close>.\<close>

definition newestRevision :: "Revision list \<Rightarrow> Revision option" where
  "newestRevision rows = (case sortSlice (\<lambda>a b. rvNumber a > rvNumber b) rows of [] \<Rightarrow> None | r # _ \<Rightarrow> Some r)"

text \<open>The functions give an SQLSTATE or a result.\<close>

definition pull_device_configuration :: "configDB \<Rightarrow> string \<Rightarrow> int \<Rightarrow> string + Revision option" where
  "pull_device_configuration db device afterRevision =
     (case authorizedDevice db device of
        None \<Rightarrow> Inl ''28000''
      | Some d \<Rightarrow>
          Inr (newestRevision (filter (\<lambda>r. rvNumber r > max afterRevision 0) (siteRevisions db (edrTenant d) (edrSite d)))))"

definition desired_device_configuration_revision :: "configDB \<Rightarrow> string \<Rightarrow> string + int" where
  "desired_device_configuration_revision db device =
     (case authorizedDevice db device of
        None \<Rightarrow> Inl ''28000''
      | Some d \<Rightarrow> Inr (maxRevision (siteRevisions db (edrTenant d) (edrSite d))))"

definition trimBlanks :: "string \<Rightarrow> string" where
  "trimBlanks s = rev (dropWhile (\<lambda>c. c = CHR '' '') (rev (dropWhile (\<lambda>c. c = CHR '' '') s)))"

definition statusArgumentsOK :: "int \<Rightarrow> string \<Rightarrow> string option \<Rightarrow> bool" where
  "statusArgumentsOK revision state message \<longleftrightarrow>
     \<not> ((state \<noteq> ''applied'' \<and> state \<noteq> ''failed'') \<or> revision < 1 \<or>
        (state = ''applied'' \<and> message \<noteq> None) \<or>
        (state = ''failed'' \<and> (message = None \<or> trimBlanks (the message) = [])))"

text \<open>
  The function declares the output columns \<open>tenant_id\<close> and \<open>device_id\<close> and then writes
  \<open>ON CONFLICT (tenant_id, device_id)\<close>, so the names are ambiguous: unless the server resolves them to columns, the
  \<open>INSERT\<close> raises SQLSTATE 42702.
\<close>

definition report_device_configuration ::
  "bool \<Rightarrow> configDB \<Rightarrow> gotime \<Rightarrow> string \<Rightarrow> int \<Rightarrow> string \<Rightarrow> string option \<Rightarrow> string + (configDB \<times> ConfigStatus)" where
  "report_device_configuration useColumn db now device revision state message =
     (case authorizedDevice db device of
        None \<Rightarrow> Inl ''28000''
      | Some d \<Rightarrow>
          if \<not> statusArgumentsOK revision state message then Inl ''22023''
          else if \<not> (\<exists>r \<in> set (siteRevisions db (edrTenant d) (edrSite d)). rvNumber r = revision) then Inl ''22023''
          else
            let previous = cdStatuses db (edrTenant d, device) in
            if previous \<noteq> None \<and> gsRevision (the previous) > revision then Inl ''22023''
            else if \<not> useColumn then Inl ''42702''
            else
              let status = \<lparr>gsDeviceID = device, gsTenantID = edrTenant d,
                    gsSiteID = (case previous of None \<Rightarrow> edrSite d | Some p \<Rightarrow> gsSiteID p),
                    gsRevision = revision, gsState = state,
                    gsErrorMessage = (if state = ''failed'' then trimBlanks (the message) else []), gsReportedAt = now,
                    gsAppliedAt = (if state = ''applied'' then Some now else None)\<rparr> in
              Inr (db\<lparr>cdStatuses := (cdStatuses db)((edrTenant d, device) \<mapsto> status)\<rparr>, status))"

section \<open>The PostgreSQL repository\<close>

definition classifyDeviceError :: "string \<Rightarrow> deliveryError" where
  "classifyDeviceError code = (if code = ''28000'' \<or> code = ''22023'' then ErrDeviceNotFound else CdDatabase DvQuery)"

definition commitDelivery :: "deliveryEnv \<Rightarrow> configDB \<Rightarrow> configDB \<Rightarrow> 'r \<Rightarrow> configDB \<times> (deliveryError + 'r)" where
  "commitDelivery E db db' x =
     (if veFails E DvCommit \<noteq> None then (if veCommitApplied E then db' else db, Inl (CdDatabase DvCommit)) else (db', Inr x))"

definition beginDelivery :: "'j deliveryLib \<Rightarrow> deliveryEnv \<Rightarrow> string \<Rightarrow> deliveryError + string" where
  "beginDelivery L E tenant =
     (if \<not> dlParses L tenant then Inl CdTenant
      else if veFails E DvBegin \<noteq> None then Inl (CdDatabase DvBegin)
      else if veFails E DvSetTenant \<noteq> None then Inl (CdDatabase DvSetTenant)
      else (case dlUUID L tenant of None \<Rightarrow> Inl (CdDatabase DvQuery) | Some t \<Rightarrow> Inr t))"

text \<open>\<open>INSERT INTO config.configuration_revisions\<close> with the constraints of the table.\<close>

definition insertRevision :: "'j deliveryLib \<Rightarrow> deliveryEnv \<Rightarrow> configDB \<Rightarrow> string \<Rightarrow> string \<Rightarrow> Revision \<Rightarrow> Revision option" where
  "insertRevision L E db tenant site revision =
     (case dlText L 128 (rvCreatedBy revision) of
        None \<Rightarrow> None
      | Some creator \<Rightarrow>
          if veFails E DvInsert \<noteq> None \<or> rvNumber revision \<le> 0 \<or> length (rvContentHash revision) \<noteq> 64 \<or>
             (\<exists>r \<in> set (cdRevisions db). rvID r = rvID revision) \<or>
             (\<exists>r \<in> set (siteRevisions db tenant site). rvNumber r = rvNumber revision) then None
          else Some (revision\<lparr>rvTenantID := tenant, rvSiteID := site, rvPayload := dlJsonb L (rvPayload revision), rvCreatedBy := creator\<rparr>))"

definition publishAudit :: "'j deliveryLib \<Rightarrow> PublishCommand \<Rightarrow> Revision \<Rightarrow> 'j AuditEvent" where
  "publishAudit L command revision =
     \<lparr>aeTenantID = pcTenantID command, aeActorID = pcActorID command, aeAction = ''configuration.published'',
      aeResourceType = ''configuration_revision'', aeResourceID = rvID revision, aeRequestID = pcRequestID command,
      aeBeforeState = dlNil L, aeAfterState = dlAny L revision, aeOccurredAt = rvCreatedAt revision\<rparr>"

definition storeRevision ::
  "'j deliveryLib \<Rightarrow> deliveryEnv \<Rightarrow> PublishCommand \<Rightarrow> configDB \<Rightarrow> string \<Rightarrow> string \<Rightarrow> bytes \<Rightarrow> string \<Rightarrow>
     configDB \<times> (deliveryError + Revision)" where
  "storeRevision L E command db tenant site payload hash =
     (let revision = \<lparr>rvID = veID E, rvTenantID = pcTenantID command, rvSiteID = pcSiteID command,
            rvNumber = wrap64 (maxRevision (siteRevisions db tenant site) + 1), rvPayload = payload,
            rvContentHash = hash, rvCreatedBy = pcActorID command, rvCreatedAt = veNow E\<rparr> in
      (case insertRevision L E db tenant site revision of
         None \<Rightarrow> (db, Inl (CdDatabase DvInsert))
       | Some row \<Rightarrow>
           (case auditAppend (dlAudit L) (veAudit E) (veNow E) (publishAudit L command revision) (cdAudit db) of
              Inl err \<Rightarrow> (db, Inl (CdAudit err))
            | Inr (audit, _) \<Rightarrow>
                commitDelivery E db (db\<lparr>cdRevisions := cdRevisions db @ [row], cdAudit := audit\<rparr>) revision)))"

definition PostgresPublish ::
  "'j deliveryLib \<Rightarrow> deliveryEnv \<Rightarrow> PublishCommand \<Rightarrow> configDB \<Rightarrow> configDB \<times> (deliveryError + Revision)" where
  "PostgresPublish L E command db =
     (case normalizePayload L (pcPayload command) of
        None \<Rightarrow> (db, Inl CdPayload)
      | Some (payload, hash) \<Rightarrow>
          (case beginDelivery L E (pcTenantID command) of
             Inl err \<Rightarrow> (db, Inl err)
           | Inr tenant \<Rightarrow>
               if veFails E DvLock \<noteq> None then (db, Inl (CdDatabase DvLock))
               else
                 (case dlUUID L (pcSiteID command) of
                    None \<Rightarrow> (db, Inl (CdDatabase DvSite))
                  | Some site \<Rightarrow>
                      if veFails E DvSite \<noteq> None then (db, Inl (CdDatabase DvSite))
                      else if \<not> cdSites db tenant site then (db, Inl ErrRevisionNotFound)
                      else if veFails E DvLast \<noteq> None then (db, Inl (CdDatabase DvLast))
                      else storeRevision L E command db tenant site payload hash)))"

definition PostgresList ::
  "'j deliveryLib \<Rightarrow> deliveryEnv \<Rightarrow> string \<Rightarrow> string \<Rightarrow> configDB \<Rightarrow> deliveryError + Revision list" where
  "PostgresList L E tenantID siteID db =
     (case beginDelivery L E tenantID of
        Inl err \<Rightarrow> Inl err
      | Inr tenant \<Rightarrow>
          (case (if siteID = [] then Some None else map_option Some (dlUUID L siteID)) of
             None \<Rightarrow> Inl (CdDatabase DvQuery)
           | Some site \<Rightarrow>
               if veFails E DvQuery \<noteq> None then Inl (CdDatabase DvQuery)
               else if veFails E DvCommit \<noteq> None then Inl (CdDatabase DvCommit)
               else Inr (take 500 (sortSlice revisionLess
                 (filter (\<lambda>r. rvTenantID r = tenant \<and> (site = None \<or> Some (rvSiteID r) = site)) (cdRevisions db))))))"

definition PostgresPull ::
  "'j deliveryLib \<Rightarrow> deliveryEnv \<Rightarrow> string \<Rightarrow> int \<Rightarrow> configDB \<Rightarrow> deliveryError + Revision option" where
  "PostgresPull L E deviceID afterRevision db =
     (if veFails E DvBegin \<noteq> None then Inl (CdDatabase DvBegin)
      else
        (case (veFails E DvQuery, dlUUID L deviceID) of
           (Some code, _) \<Rightarrow> Inl (classifyDeviceError code)
         | (None, None) \<Rightarrow> Inl (classifyDeviceError ''22P02'')
         | (None, Some device) \<Rightarrow>
             (case pull_device_configuration db device afterRevision of
                Inl code \<Rightarrow> Inl (classifyDeviceError code)
              | Inr result \<Rightarrow> if veFails E DvCommit \<noteq> None then Inl (CdDatabase DvCommit) else Inr result)))"

definition PostgresDesiredRevision :: "'j deliveryLib \<Rightarrow> deliveryEnv \<Rightarrow> string \<Rightarrow> configDB \<Rightarrow> deliveryError + int" where
  "PostgresDesiredRevision L E deviceID db =
     (if veFails E DvBegin \<noteq> None then Inl (CdDatabase DvBegin)
      else
        (case (veFails E DvQuery, dlUUID L deviceID) of
           (Some code, _) \<Rightarrow> Inl (classifyDeviceError code)
         | (None, None) \<Rightarrow> Inl (classifyDeviceError ''22P02'')
         | (None, Some device) \<Rightarrow>
             (case desired_device_configuration_revision db device of
                Inl code \<Rightarrow> Inl (classifyDeviceError code)
              | Inr n \<Rightarrow> if veFails E DvCommit \<noteq> None then Inl (CdDatabase DvCommit) else Inr n)))"

definition PostgresReport ::
  "'j deliveryLib \<Rightarrow> deliveryEnv \<Rightarrow> ReportCommand \<Rightarrow> configDB \<Rightarrow> configDB \<times> (deliveryError + ConfigStatus)" where
  "PostgresReport L E command db =
     (if \<not> validateReport command then (db, Inl ErrInvalidStatus)
      else if veFails E DvBegin \<noteq> None then (db, Inl (CdDatabase DvBegin))
      else
        (case (veFails E DvQuery, dlUUID L (rcmDeviceID command)) of
           (Some code, _) \<Rightarrow> (db, Inl (classifyDeviceError code))
         | (None, None) \<Rightarrow> (db, Inl (classifyDeviceError ''22P02''))
         | (None, Some device) \<Rightarrow>
             (case report_device_configuration (dlUseColumn L) db (veNow E) device (rcmRevision command) (rcmState command)
                (if rcmErrorMessage command = [] then None else Some (dlVarchar L (rcmErrorMessage command))) of
                Inl code \<Rightarrow> (db, Inl (classifyDeviceError code))
              | Inr (db', status) \<Rightarrow> commitDelivery E db db' status)))"

definition PostgresGetStatus ::
  "'j deliveryLib \<Rightarrow> deliveryEnv \<Rightarrow> string \<Rightarrow> string \<Rightarrow> configDB \<Rightarrow> deliveryError + ConfigStatus" where
  "PostgresGetStatus L E tenantID deviceID db =
     (case beginDelivery L E tenantID of
        Inl err \<Rightarrow> Inl err
      | Inr tenant \<Rightarrow>
          (case (veFails E DvQuery, dlUUID L deviceID) of
             (None, Some device) \<Rightarrow>
               (case cdStatuses db (tenant, device) of
                  None \<Rightarrow> Inl ErrDeviceNotFound
                | Some status \<Rightarrow> if veFails E DvCommit \<noteq> None then Inl (CdDatabase DvCommit) else Inr status)
           | _ \<Rightarrow> Inl (CdDatabase DvQuery)))"

section \<open>The device routes\<close>

text \<open>
  A response is a status and a body; the envelopes of errors, whose content the edge discards, are left
  empty. \<open>verified\<close> is the device the client certificate names, \<open>pathID\<close> the one in the path.
\<close>

definition pullDeviceConfiguration ::
  "'j deliveryLib \<Rightarrow> deliveryEnv \<Rightarrow> string option \<Rightarrow> string \<Rightarrow> string \<Rightarrow> configDB \<Rightarrow> int \<times> bytes" where
  "pullDeviceConfiguration L E verified pathID rawAfter db =
     (case verifiedDeviceRequest verified pathID of
        None \<Rightarrow> (401, [])
      | Some deviceID \<Rightarrow>
          let raw = trimSpace rawAfter; parsed = (if raw = [] then Some 0 else parseInt64 raw) in
          if parsed = None \<or> the parsed < 0 then (422, [])
          else
            (case PostgresPull L E deviceID (the parsed) db of
               Inl ErrDeviceNotFound \<Rightarrow> (401, [])
             | Inl _ \<Rightarrow> (503, [])
             | Inr None \<Rightarrow> (204, [])
             | Inr (Some revision) \<Rightarrow> (200, dlRevisionBody L revision)))"

text \<open>\<open>input\<close> is the decoded body, \<open>correlated\<close> whether the correlation header is a UUIDv4.\<close>

definition reportDeviceConfiguration ::
  "'j deliveryLib \<Rightarrow> deliveryEnv \<Rightarrow> string option \<Rightarrow> string \<Rightarrow> bool \<Rightarrow> (int \<times> string \<times> string) option \<Rightarrow> configDB \<Rightarrow>
     configDB \<times> (int \<times> bytes)" where
  "reportDeviceConfiguration L E verified pathID correlated input db =
     (case verifiedDeviceRequest verified pathID of
        None \<Rightarrow> (db, (401, []))
      | Some deviceID \<Rightarrow>
          if \<not> correlated then (db, (422, []))
          else
            (case input of
               None \<Rightarrow> (db, (422, []))
             | Some (revision, state, message) \<Rightarrow>
                 (case PostgresReport L E \<lparr>rcmDeviceID = deviceID, rcmState = trimSpace state,
                    rcmErrorMessage = trimSpace message, rcmRevision = revision\<rparr> db of
                    (db', Inl ErrDeviceNotFound) \<Rightarrow> (db', (401, []))
                  | (db', Inl ErrRevisionNotFound) \<Rightarrow> (db', (422, []))
                  | (db', Inl ErrInvalidStatus) \<Rightarrow> (db', (422, []))
                  | (db', Inl _) \<Rightarrow> (db', (503, []))
                  | (db', Inr status) \<Rightarrow> (db', (200, dlStatusBody L status)))))"

end
