(* ===== verification/Config_Loop.thy ===== *)
theory Config_Loop
  imports Config_Delivery
begin

text \<open>
  Configuration from publication to activation. The first part has the invariant of the server's
  tables: the revisions of a site are numbered 1, 2, ... in the order of publication and carry the hash of
  their payload. The second part runs an edge synchronizer (\<open>Edge_Config\<close>) against the device routes
  (\<open>Config_Delivery\<close>) over a network that may lose any request and any response, next to
  publications, other devices and changes of the device registry.
\<close>

section \<open>The invariant of the server\<close>

text \<open>Documented behaviour of the JSON library and of \<open>jsonb\<close>: canonical text survives storage.\<close>

definition jsonbOK :: "'j deliveryLib \<Rightarrow> bool" where
  "jsonbOK L \<longleftrightarrow> (\<forall>raw c. clCanonical (dlConfig L) raw = Some c \<longrightarrow>
     clCanonical (dlConfig L) (dlJsonb L c) = Some c \<and> clValid (dlConfig L) (dlJsonb L c) \<and> dlJsonb L c \<noteq> [])"

definition hashOK :: "'j deliveryLib \<Rightarrow> Revision \<Rightarrow> bool" where
  "hashOK L r \<longleftrightarrow> (\<exists>c. clCanonical (dlConfig L) (rvPayload r) = Some c \<and> rvContentHash r = hexEncode (clSha (dlConfig L) c) \<and>
     length (rvContentHash r) = 64)"

definition statusOK :: "configDB \<Rightarrow> string \<times> string \<Rightarrow> ConfigStatus \<Rightarrow> bool" where
  "statusOK db k st \<longleftrightarrow> (\<exists>d. cdDevices db (snd k) = Some d \<and> edrTenant d = fst k \<and> gsSiteID st = edrSite d \<and>
     (\<exists>r \<in> set (siteRevisions db (edrTenant d) (edrSite d)). rvNumber r = gsRevision st))"

definition configInv :: "'j deliveryLib \<Rightarrow> configDB \<Rightarrow> bool" where
  "configInv L db \<longleftrightarrow>
     (\<forall>t s. map rvNumber (siteRevisions db t s) = [1..int (length (siteRevisions db t s))]) \<and>
     (\<forall>r \<in> set (cdRevisions db). hashOK L r \<and> rvNumber r \<le> maxInt64) \<and>
     (\<forall>k st. cdStatuses db k = Some st \<longrightarrow> statusOK db k st)"

lemma siteRevisions_sub: "r \<in> set (siteRevisions db t s) \<Longrightarrow> r \<in> set (cdRevisions db)"
  by (simp add: siteRevisions_def)

lemma maxRevision_ge: "r \<in> set rows \<Longrightarrow> rvNumber r \<le> maxRevision rows"
  by (induction rows) (auto simp: maxRevision_def)

lemma maxRevision_upto: "map rvNumber rows = [1..int n] \<Longrightarrow> length rows = n \<Longrightarrow> maxRevision rows = int n"
proof (induction n arbitrary: rows)
  case (Suc n)
  have "[1..int (Suc n)] = [1..int n] @ [int (Suc n)]" by (simp add: upto_rec2)
  with Suc.prems obtain rs r where rows: "rows = rs @ [r]" "map rvNumber rs = [1..int n]" "rvNumber r = int (Suc n)"
    by (auto simp: map_eq_append_conv)
  have "foldr (\<lambda>r n. max (rvNumber r) n) rs m = max (foldr (\<lambda>r n. max (rvNumber r) n) rs 0) m" if "0 \<le> m" for m rs
    using that by (induction rs) auto
  from this [of "rvNumber r" rs] Suc.IH [OF rows(2)] Suc.prems(2) rows show ?case by (simp add: maxRevision_def)
qed (simp add: maxRevision_def)

lemma commitDelivery_cases:
  "commitDelivery E db db1 x = (db', r) \<Longrightarrow> (db' = db \<and> (\<forall>y. r \<noteq> Inr y)) \<or> (db' = db1 \<and> (\<forall>y. r = Inr y \<longrightarrow> y = x))"
  by (auto simp: commitDelivery_def split: if_splits)

definition publishAdds :: "'j deliveryLib \<Rightarrow> configDB \<Rightarrow> configDB \<Rightarrow> Revision \<Rightarrow> bool" where
  "publishAdds L db db' row \<longleftrightarrow> (\<exists>audit rs. db' = db\<lparr>cdRevisions := cdRevisions db @ [row], cdAudit := audit\<rparr> \<and>
     rs = siteRevisions db (rvTenantID row) (rvSiteID row) \<and> rvNumber row = wrap64 (maxRevision rs + 1) \<and> 0 < rvNumber row \<and>
     length (rvContentHash row) = 64 \<and> cdSites db (rvTenantID row) (rvSiteID row) \<and>
     (\<exists>raw c. clCanonical (dlConfig L) raw = Some c \<and> rvPayload row = dlJsonb L c \<and> rvContentHash row = hexEncode (clSha (dlConfig L) c)))"

lemma insertRevision_Some:
  "insertRevision L E db tenant site r = Some row \<Longrightarrow> 0 < rvNumber r \<and> length (rvContentHash r) = 64 \<and>
     (\<exists>creator. row = r\<lparr>rvTenantID := tenant, rvSiteID := site, rvPayload := dlJsonb L (rvPayload r), rvCreatedBy := creator\<rparr>)"
  by (auto simp: insertRevision_def split: if_split_asm option.split_asm)

lemma storeRevision_cases:
  assumes "storeRevision L E c db tenant site payload hash = (db', r)" "cdSites db tenant site"
    "clCanonical (dlConfig L) raw = Some payload" "hash = hexEncode (clSha (dlConfig L) payload)"
  shows "(db' = db \<and> (\<forall>x. r \<noteq> Inr x)) \<or> (\<exists>row. publishAdds L db db' row \<and> (\<forall>x. r = Inr x \<longrightarrow> rvNumber x = rvNumber row \<and> rvID x = rvID row))"
proof -
  define v where "v = \<lparr>rvID = veID E, rvTenantID = pcTenantID c, rvSiteID = pcSiteID c,
            rvNumber = wrap64 (maxRevision (siteRevisions db tenant site) + 1), rvPayload = payload,
            rvContentHash = hash, rvCreatedBy = pcActorID c, rvCreatedAt = veNow E\<rparr>"
  consider "db' = db" "\<forall>x. r \<noteq> Inr x"
    | row audit where "insertRevision L E db tenant site v = Some row"
        "commitDelivery E db (db\<lparr>cdRevisions := cdRevisions db @ [row], cdAudit := audit\<rparr>) v = (db', r)"
    using assms(1) by (auto simp: storeRevision_def Let_def simp flip: v_def split: option.splits sum.splits prod.splits)
  then show ?thesis
  proof cases
    case (2 row audit)
    have row: "0 < rvNumber row" "length (rvContentHash row) = 64" "rvTenantID row = tenant" "rvSiteID row = site"
        "rvNumber row = wrap64 (maxRevision (siteRevisions db tenant site) + 1)" "rvPayload row = dlJsonb L payload"
        "rvContentHash row = hexEncode (clSha (dlConfig L) payload)" "rvID row = rvID v" "rvNumber row = rvNumber v"
      using insertRevision_Some [OF 2(1)] assms(4) by (auto simp: v_def)
    from commitDelivery_cases [OF 2(2)] show ?thesis
    proof
      assume c: "db' = db\<lparr>cdRevisions := cdRevisions db @ [row], cdAudit := audit\<rparr> \<and> (\<forall>y. r = Inr y \<longrightarrow> y = v)"
      have "publishAdds L db db' row"
        unfolding publishAdds_def row(3,4) using c row(1,2,5,6,7) assms(2,3) by blast
      with c row(8,9) show ?thesis by auto
    qed blast
  qed blast
qed

lemma PostgresPublish_cases:
  assumes "PostgresPublish L E c db = (db', r)"
  shows "(db' = db \<and> (\<forall>x. r \<noteq> Inr x)) \<or> (\<exists>row. publishAdds L db db' row \<and> (\<forall>x. r = Inr x \<longrightarrow> rvNumber x = rvNumber row \<and> rvID x = rvID row))"
proof -
  consider "db' = db" "\<forall>x. r \<noteq> Inr x"
    | payload hash tenant site where "normalizePayload L (pcPayload c) = Some (payload, hash)" "cdSites db tenant site"
        "storeRevision L E c db tenant site payload hash = (db', r)"
    using assms by (auto simp: PostgresPublish_def split: option.splits sum.splits prod.splits if_splits)
  then show ?thesis
  proof cases
    case (2 payload hash tenant site)
    have "clCanonical (dlConfig L) (pcPayload c) = Some payload" "hash = hexEncode (clSha (dlConfig L) payload)"
      using 2(1) by (auto simp: normalizePayload_def split: if_splits option.splits)
    from storeRevision_cases [OF 2(3,2) this] show ?thesis .
  qed blast
qed

text \<open>What a report changes.\<close>

lemma report_device_cases:
  assumes "report_device_configuration b db now device n state message = Inr (db', st)"
  shows "\<exists>d. cdDevices db device = Some d \<and> db' = db\<lparr>cdStatuses := (cdStatuses db)((edrTenant d, device) \<mapsto> st)\<rparr> \<and>
    gsRevision st = n \<and> gsState st = state \<and> (\<exists>r \<in> set (siteRevisions db (edrTenant d) (edrSite d)). rvNumber r = n) \<and>
    gsSiteID st = (case cdStatuses db (edrTenant d, device) of None \<Rightarrow> edrSite d | Some p \<Rightarrow> gsSiteID p) \<and>
    (\<forall>p. cdStatuses db (edrTenant d, device) = Some p \<longrightarrow> gsRevision p \<le> n)"
  using assms
  by (auto simp: report_device_configuration_def authorizedDevice_def Let_def split: option.splits if_splits)

definition reportAdds :: "configDB \<Rightarrow> configDB \<Rightarrow> string \<Rightarrow> int \<Rightarrow> string \<Rightarrow> ConfigStatus \<Rightarrow> bool" where
  "reportAdds db db' device n state st \<longleftrightarrow> (\<exists>d. cdDevices db device = Some d \<and>
    db' = db\<lparr>cdStatuses := (cdStatuses db)((edrTenant d, device) \<mapsto> st)\<rparr> \<and> gsRevision st = n \<and> gsState st = state \<and>
    (\<exists>r \<in> set (siteRevisions db (edrTenant d) (edrSite d)). rvNumber r = n) \<and>
    gsSiteID st = (case cdStatuses db (edrTenant d, device) of None \<Rightarrow> edrSite d | Some p \<Rightarrow> gsSiteID p) \<and>
    (\<forall>p. cdStatuses db (edrTenant d, device) = Some p \<longrightarrow> gsRevision p \<le> n))"

lemma PostgresReport_cases:
  assumes "PostgresReport L E c db = (db', r)"
  shows "db' = db \<or> (\<exists>device st. dlUUID L (rcmDeviceID c) = Some device \<and> reportAdds db db' device (rcmRevision c) (rcmState c) st)"
proof -
  consider "db' = db"
    | device db1 st m where "dlUUID L (rcmDeviceID c) = Some device"
        "report_device_configuration (dlUseColumn L) db (veNow E) device (rcmRevision c) (rcmState c) m = Inr (db1, st)"
        "commitDelivery E db db1 st = (db', r)"
    using assms by (auto simp: PostgresReport_def split: option.splits sum.splits prod.splits if_splits)
  then show ?thesis
  proof cases
    case (2 device db1 st m)
    from report_device_cases [OF 2(2)] have "reportAdds db db1 device (rcmRevision c) (rcmState c) st"
      by (simp add: reportAdds_def)
    with commitDelivery_cases [OF 2(3)] 2(1) show ?thesis by blast
  qed simp
qed

section \<open>Every transaction keeps the invariant\<close>

text \<open>The device registry may change in any way that keeps a device in its tenant and site.\<close>

definition registryKeeps :: "configDB \<Rightarrow> (string \<rightharpoonup> edgeDeviceRow) \<Rightarrow> bool" where
  "registryKeeps db m \<longleftrightarrow> (\<forall>x d. cdDevices db x = Some d \<longrightarrow> (\<exists>d'. m x = Some d' \<and> edrTenant d' = edrTenant d \<and> edrSite d' = edrSite d))"

lemma siteRevisions_simps [simp]:
  "siteRevisions (db\<lparr>cdStatuses := x\<rparr>) t s = siteRevisions db t s"
  "siteRevisions (db\<lparr>cdDevices := m\<rparr>) t s = siteRevisions db t s"
  "siteRevisions (db\<lparr>cdRevisions := cdRevisions db @ [row], cdAudit := a\<rparr>) t s =
     siteRevisions db t s @ (if rvTenantID row = t \<and> rvSiteID row = s then [row] else [])"
  by (simp_all add: siteRevisions_def)

lemma configInv_max:
  assumes "configInv L db"
  shows "maxRevision (siteRevisions db t s) = int (length (siteRevisions db t s))"
    "int (length (siteRevisions db t s)) \<le> maxInt64"
proof -
  let ?rs = "siteRevisions db t s"
  have num: "map rvNumber ?rs = [1..int (length ?rs)]" using assms by (simp add: configInv_def)
  then show max: "maxRevision ?rs = int (length ?rs)" by (rule maxRevision_upto) simp
  show "int (length ?rs) \<le> maxInt64"
  proof (cases "?rs = []")
    case False
    then have "int (length ?rs) \<in> set (map rvNumber ?rs)" unfolding num by (cases ?rs) auto
    then obtain r where "r \<in> set ?rs" "rvNumber r = int (length ?rs)" by auto
    moreover have "set ?rs \<subseteq> set (cdRevisions db)" by (auto simp: siteRevisions_def)
    ultimately have "r \<in> set (cdRevisions db)" "rvNumber r = int (length ?rs)" by blast+
    then show ?thesis using assms unfolding configInv_def by metis
  qed (simp add: maxInt64_def)
qed

lemma configInv_publish:
  assumes "configInv L db" "publishAdds L db db' row" "jsonbOK L"
  shows "configInv L db' \<and> rvNumber row = int (length (siteRevisions db (rvTenantID row) (rvSiteID row))) + 1"
proof -
  let ?rs = "siteRevisions db (rvTenantID row) (rvSiteID row)"
  from assms(2) obtain audit raw c where db': "db' = db\<lparr>cdRevisions := cdRevisions db @ [row], cdAudit := audit\<rparr>"
    and n: "rvNumber row = wrap64 (maxRevision ?rs + 1)" "0 < rvNumber row" and len: "length (rvContentHash row) = 64"
    and c: "clCanonical (dlConfig L) raw = Some c" "rvPayload row = dlJsonb L c" "rvContentHash row = hexEncode (clSha (dlConfig L) c)"
    unfolding publishAdds_def by blast
  note max = configInv_max [OF assms(1), of "rvTenantID row" "rvSiteID row"]
  have number: "rvNumber row = int (length ?rs) + 1"
  proof -
    have "int (length ?rs) + 1 < 2 ^ 63"
    proof (rule ccontr)
      assume "\<not> ?thesis"
      then have "int (length ?rs) + 1 = 2 ^ 63" using max(2) by (simp add: maxInt64_def)
      then show False using n max(1) by (simp add: wrap64_def)
    qed
    then show ?thesis using n max(1) by (simp add: int64_simps)
  qed
  have "rvNumber row \<le> maxInt64" using wrap64_range [of "maxRevision ?rs + 1"] n(1) by (simp add: maxInt64_def)
  moreover have "hashOK L row" using c len assms(3) by (auto simp: hashOK_def jsonbOK_def)
  moreover have "map rvNumber (siteRevisions db' t s) = [1..int (length (siteRevisions db' t s))]" for t s
  proof -
    have "map rvNumber (siteRevisions db t s) = [1..int (length (siteRevisions db t s))]" using assms(1) by (simp add: configInv_def)
    moreover have "[1..int n + 1] = [1..int n] @ [int n + 1]" for n by (simp add: upto_rec2)
    ultimately show ?thesis using number by (auto simp: db' add.commute)
  qed
  moreover have "statusOK db' k st" if "cdStatuses db k = Some st" for k st
    using assms(1) that unfolding configInv_def statusOK_def db' by fastforce
  ultimately show ?thesis using number assms(1) unfolding configInv_def by (auto simp: db')
qed

lemma configInv_report:
  assumes "configInv L db" "reportAdds db db' device n state st"
  shows "configInv L db'"
proof -
  from assms(2) obtain d where d: "cdDevices db device = Some d"
      "db' = db\<lparr>cdStatuses := (cdStatuses db)((edrTenant d, device) \<mapsto> st)\<rparr>" "gsRevision st = n"
      "\<exists>r \<in> set (siteRevisions db (edrTenant d) (edrSite d)). rvNumber r = n"
      "gsSiteID st = (case cdStatuses db (edrTenant d, device) of None \<Rightarrow> edrSite d | Some p \<Rightarrow> gsSiteID p)"
    unfolding reportAdds_def by blast
  have "gsSiteID st = edrSite d"
  proof (cases "cdStatuses db (edrTenant d, device)")
    case (Some p)
    with assms(1) have "statusOK db (edrTenant d, device) p" by (simp add: configInv_def)
    with Some d(1,5) show ?thesis by (auto simp: statusOK_def)
  qed (simp add: d(5))
  then have "statusOK db' (edrTenant d, device) st" using d(1,3,4) by (simp add: statusOK_def d(2))
  moreover have "statusOK db' k p" if "cdStatuses db k = Some p" for k p
    using assms(1) that unfolding configInv_def statusOK_def d(2) by simp
  ultimately have "\<forall>k p. cdStatuses db' k = Some p \<longrightarrow> statusOK db' k p" by (auto simp: d(2))
  then show ?thesis using assms(1) unfolding configInv_def by (simp add: d(2))
qed

lemma configInv_registry:
  assumes "configInv L db" "registryKeeps db m"
  shows "configInv L (db\<lparr>cdDevices := m\<rparr>)"
proof -
  have "statusOK (db\<lparr>cdDevices := m\<rparr>) k st" if st: "cdStatuses db k = Some st" for k st
  proof -
    from assms(1) st have "statusOK db k st" unfolding configInv_def by blast
    then obtain d where d: "cdDevices db (snd k) = Some d" "edrTenant d = fst k" "gsSiteID st = edrSite d"
        "\<exists>r \<in> set (siteRevisions db (edrTenant d) (edrSite d)). rvNumber r = gsRevision st" unfolding statusOK_def by blast
    from assms(2) d(1) obtain d' where "m (snd k) = Some d'" "edrTenant d' = edrTenant d" "edrSite d' = edrSite d"
      by (auto simp: registryKeeps_def)
    with d show ?thesis by (simp add: statusOK_def)
  qed
  then show ?thesis using assms(1) by (simp add: configInv_def)
qed

inductive configServes :: "'j deliveryLib \<Rightarrow> configDB \<Rightarrow> bool" for L where
  start: "cdRevisions db = [] \<Longrightarrow> cdStatuses db = Map.empty \<Longrightarrow> configServes L db"
| publish: "configServes L db \<Longrightarrow> configServes L (fst (PostgresPublish L E c db))"
| report: "configServes L db \<Longrightarrow> configServes L (fst (PostgresReport L E rc db))"
| registry: "configServes L db \<Longrightarrow> registryKeeps db m \<Longrightarrow> configServes L (db\<lparr>cdDevices := m\<rparr>)"

lemma configInv_publish_run: "configInv L db \<Longrightarrow> jsonbOK L \<Longrightarrow> configInv L (fst (PostgresPublish L E c db))"
  using PostgresPublish_cases [of L E c db] configInv_publish by (metis prod.collapse)

lemma configInv_report_run: "configInv L db \<Longrightarrow> configInv L (fst (PostgresReport L E c db))"
  using PostgresReport_cases [of L E c db] configInv_report by (metis prod.collapse)

lemma configServes_inv: "configServes L db \<Longrightarrow> jsonbOK L \<Longrightarrow> configInv L db"
proof (induction rule: configServes.induct)
  case (start db)
  then show ?case by (simp add: configInv_def siteRevisions_def)
qed (simp_all add: configInv_publish_run configInv_report_run configInv_registry)

section \<open>The edge against the server\<close>

text \<open>
  What one synchronization meets: the environment of the agent, the environments of the two requests at
  the server, whether the requests and responses get through, and what JSON makes of the error text.
\<close>

record loopEnv =
  leSync :: syncEnv
  lePullLost :: "string option"
  lePullEnv :: deliveryEnv
  leArrives :: bool
  leReportLost :: "string option"
  leReportEnv :: deliveryEnv
  leWire :: "string \<Rightarrow> string"

definition serverReport ::
  "'j deliveryLib \<Rightarrow> string \<Rightarrow> loopEnv \<Rightarrow> int \<times> string \<times> string \<Rightarrow> configDB \<Rightarrow> configDB \<times> (int \<times> bytes)" where
  "serverReport L device X rep db = (case rep of (n, state, message) \<Rightarrow>
     reportDeviceConfiguration L (leReportEnv X) (Some device) device True (Some (n, state, leWire X message)) db)"

definition loopSyncEnv :: "'j deliveryLib \<Rightarrow> string \<Rightarrow> loopEnv \<Rightarrow> configDB \<Rightarrow> syncEnv" where
  "loopSyncEnv L device X db = (leSync X)\<lparr>
     sePull := (\<lambda>n. case lePullLost X of Some e \<Rightarrow> Inl e
       | None \<Rightarrow> Inr (pullDeviceConfiguration L (lePullEnv X) (Some device) device (formatInt n) db)),
     seReport := (\<lambda>rep. case leReportLost X of Some e \<Rightarrow> Inl e | None \<Rightarrow> Inr (snd (serverReport L device X rep db)))\<rparr>"

definition edgeSync ::
  "'j deliveryLib \<Rightarrow> string \<Rightarrow> string \<Rightarrow> loopEnv \<Rightarrow> configSync \<times> configDB \<Rightarrow> (configSync \<times> configDB) \<times> configError option" where
  "edgeSync L path device X sdb =
     (case Sync (dlConfig L) path (loopSyncEnv L device X (snd sdb)) (fst sdb) of (s', err, rep) \<Rightarrow>
        ((s', case rep of None \<Rightarrow> snd sdb | Some r \<Rightarrow> if leArrives X then fst (serverReport L device X r (snd sdb)) else snd sdb), err))"

inductive configLoop :: "'j deliveryLib \<Rightarrow> string \<Rightarrow> string \<Rightarrow> configSync \<Rightarrow> configSync \<times> configDB \<Rightarrow> bool"
  for L path device s0 where
  start: "configServes L db \<Longrightarrow> (\<forall>t. cdStatuses db (t, device) = None) \<Longrightarrow> configLoop L path device s0 (s0, db)"
| sync: "configLoop L path device s0 sdb \<Longrightarrow> configLoop L path device s0 (fst (edgeSync L path device X sdb))"
| publish: "configLoop L path device s0 (s, db) \<Longrightarrow> configLoop L path device s0 (s, fst (PostgresPublish L E c db))"
| other: "configLoop L path device s0 (s, db) \<Longrightarrow> dlUUID L (rcmDeviceID rc) \<noteq> Some device \<Longrightarrow>
    configLoop L path device s0 (s, fst (PostgresReport L E rc db))"
| registry: "configLoop L path device s0 (s, db) \<Longrightarrow> registryKeeps db m \<Longrightarrow> configLoop L path device s0 (s, db\<lparr>cdDevices := m\<rparr>)"

text \<open>
  Documented behaviour of the coders: a decoded revision is the encoded one, up to the spelling of its
  payload. Device ids are canonical texts.
\<close>

definition delivered :: "'j deliveryLib \<Rightarrow> Revision \<Rightarrow> ConfigurationRevision \<Rightarrow> bool" where
  "delivered L r er \<longleftrightarrow> cvID er = rvID r \<and> cvTenantID er = rvTenantID r \<and> cvSiteID er = rvSiteID r \<and> cvNumber er = rvNumber r \<and>
     cvContentHash er = rvContentHash r \<and> cvCreatedAt er = rvCreatedAt r \<and>
     clCanonical (dlConfig L) (cvPayload er) = clCanonical (dlConfig L) (rvPayload r)"

definition wireOK :: "'j deliveryLib \<Rightarrow> bool" where
  "wireOK L \<longleftrightarrow> (\<forall>r er. clEnvelope (dlConfig L) (take maxConfigBody (dlRevisionBody L r)) = Some er \<longrightarrow> delivered L r er)"

definition deviceOK :: "'j deliveryLib \<Rightarrow> string \<Rightarrow> bool" where
  "deviceOK L device \<longleftrightarrow> dlUUID L device = Some device \<and> trimSpace device = device"

text \<open>The agent runs the configuration it started with or a published revision of its own site.\<close>

definition runsPublished :: "'j deliveryLib \<Rightarrow> string \<Rightarrow> configSync \<Rightarrow> configSync \<Rightarrow> configDB \<Rightarrow> bool" where
  "runsPublished L device s0 s db \<longleftrightarrow> s = s0 \<or>
     (\<exists>d row er. cdDevices db device = Some d \<and> row \<in> set (siteRevisions db (edrTenant d) (edrSite d)) \<and> delivered L row er \<and>
        csApplied s0 < csApplied s \<and> rvNumber row = csApplied s \<and> csActive s = clMarshal (dlConfig L) er \<and> csActive s \<noteq> None)"

definition knowsApplied :: "string \<Rightarrow> configSync \<Rightarrow> configDB \<Rightarrow> bool" where
  "knowsApplied device s db \<longleftrightarrow>
     (\<forall>t st. cdStatuses db (t, device) = Some st \<and> gsState st = StatusApplied \<longrightarrow> gsRevision st \<le> csApplied s)"

lemma sort_head_in:
  assumes "sortSlice lt xs = y # ys"
  shows "y \<in> set xs"
  using set_sortSlice [of lt xs] unfolding assms by auto

lemma newestRevision_in: "newestRevision rows = Some r \<Longrightarrow> r \<in> set rows"
  by (auto simp: newestRevision_def split: list.splits dest: sort_head_in)

lemma PostgresPull_Some:
  "PostgresPull L E deviceID n db = Inr (Some r) \<Longrightarrow> \<exists>device d. dlUUID L deviceID = Some device \<and> cdDevices db device = Some d \<and>
     r \<in> set (siteRevisions db (edrTenant d) (edrSite d)) \<and> n < rvNumber r"
  by (auto simp: PostgresPull_def pull_device_configuration_def authorizedDevice_def split: option.splits sum.splits if_splits
      dest!: newestRevision_in)

lemma pullDeviceConfiguration_200:
  assumes "pullDeviceConfiguration L E verified pathID rawAfter db = (200, body)"
  shows "\<exists>n r. PostgresPull L E (trimSpace pathID) n db = Inr (Some r) \<and> body = dlRevisionBody L r"
  using assms
  by (auto simp: pullDeviceConfiguration_def verifiedDeviceRequest_def Let_def split: option.splits if_splits sum.splits deliveryError.splits)

text \<open>A revision that the agent pulls from the server is one of its site.\<close>

lemma loop_pull:
  assumes "Pull (dlConfig L) (sePull (loopSyncEnv L device X db) n) m = Inr (Some er)" "wireOK L" "deviceOK L device"
  shows "validateConfiguration (dlConfig L) er \<and>
    (\<exists>d row. cdDevices db device = Some d \<and> row \<in> set (siteRevisions db (edrTenant d) (edrSite d)) \<and> delivered L row er)"
proof -
  from assms(1) obtain body where b: "pullDeviceConfiguration L (lePullEnv X) (Some device) device (formatInt n) db = (200, body)"
      "clEnvelope (dlConfig L) (take maxConfigBody body) = Some er" "validateConfiguration (dlConfig L) er"
    by (auto simp: Pull_def loopSyncEnv_def split: if_splits option.splits prod.splits)
  from pullDeviceConfiguration_200 [OF b(1)] obtain k r where r: "PostgresPull L (lePullEnv X) (trimSpace device) k db = Inr (Some r)"
      "body = dlRevisionBody L r" by blast
  from PostgresPull_Some [OF r(1)] assms(3) obtain d where
    "cdDevices db device = Some d" "r \<in> set (siteRevisions db (edrTenant d) (edrSite d))" by (auto simp: deviceOK_def)
  moreover have "delivered L r er" using assms(2) b(2) r(2) by (simp add: wireOK_def)
  ultimately show ?thesis using b(3) by blast
qed

lemma serverReport_cases:
  assumes "deviceOK L device"
  shows "fst (serverReport L device X (n, state, m) db) = db \<or>
    (\<exists>st. reportAdds db (fst (serverReport L device X (n, state, m) db)) device n (trimSpace state) st)"
proof -
  let ?c = "\<lparr>rcmDeviceID = device, rcmState = trimSpace state, rcmErrorMessage = trimSpace (leWire X m), rcmRevision = n\<rparr>"
  obtain db' r where run: "PostgresReport L (leReportEnv X) ?c db = (db', r)" by force
  have "fst (serverReport L device X (n, state, m) db) = db'"
    using run assms
    by (auto simp: serverReport_def reportDeviceConfiguration_def verifiedDeviceRequest_def deviceOK_def split: sum.split deliveryError.split)
  with PostgresReport_cases [OF run] assms show ?thesis by (auto simp: deviceOK_def)
qed

text \<open>One synchronization, from the agent's point of view.\<close>

lemma loop_Sync:
  assumes "Sync (dlConfig L) path (loopSyncEnv L device X db) s = (s', err, rep)" "wireOK L" "deviceOK L device"
  shows "(s' = s \<and> (\<forall>n st m. rep = Some (n, st, m) \<longrightarrow> st = ''failed'')) \<or>
    (\<exists>d row er. cdDevices db device = Some d \<and> row \<in> set (siteRevisions db (edrTenant d) (edrSite d)) \<and> delivered L row er \<and>
      csApplied s < csApplied s' \<and> rvNumber row = csApplied s' \<and> csActive s' = clMarshal (dlConfig L) er \<and> csActive s' \<noteq> None \<and>
      rep = Some (csApplied s', ''applied'', []))"
proof -
  let ?E = "loopSyncEnv L device X db"
  consider "s' = s" "rep = None" | er where "Pull (dlConfig L) (sePull ?E (csApplied s)) (csApplied s) = Inr (Some er)"
      "\<not> cvNumber er \<le> csApplied s"
      "(case ApplyAtomic (dlConfig L) (seFails ?E) (seContext ?E) path er (csActive s) of
         (active, Some err) \<Rightarrow> (s\<lparr>csActive := active\<rparr>, Some err, Some (cvNumber er, ''failed'', safeConfigurationError (seErrorText ?E err)))
       | (active, None) \<Rightarrow> (s\<lparr>csApplied := cvNumber er, csActive := active\<rparr>,
           Report (dlConfig L) (seUUID ?E) (seReport ?E (cvNumber er, ''applied'', [])) (cvNumber er) ''applied'' [],
           Some (cvNumber er, ''applied'', []))) = (s', err, rep)"
    using assms(1) by (auto simp: Sync_def split: sum.splits option.splits if_splits)
  then show ?thesis
  proof cases
    case (2 er)
    obtain active e where run: "ApplyAtomic (dlConfig L) (seFails ?E) (seContext ?E) path er (csActive s) = (active, e)" by force
    from loop_pull [OF 2(1) assms(2,3)] obtain d row where
      row: "cdDevices db device = Some d" "row \<in> set (siteRevisions db (edrTenant d) (edrSite d))" "delivered L row er" by blast
    show ?thesis
    proof (cases e)
      case None
      have "csApplied s' = cvNumber er" "csActive s' = active" "rep = Some (cvNumber er, ''applied'', [])"
        using 2(3) run None by auto
      moreover have "active = clMarshal (dlConfig L) er" "clMarshal (dlConfig L) er \<noteq> None"
        using ApplyAtomic_cases [OF run] None by simp_all
      ultimately show ?thesis using row 2(2) by (intro disjI2 exI [of _ d] exI [of _ row] exI [of _ er]) (simp add: delivered_def)
    next
      case (Some x)
      with run 2(3) ApplyAtomic_cases [OF run] show ?thesis by auto
    qed
  qed simp
qed

section \<open>The loop keeps its promise\<close>

definition loopInv :: "'j deliveryLib \<Rightarrow> string \<Rightarrow> configSync \<Rightarrow> configSync \<times> configDB \<Rightarrow> bool" where
  "loopInv L device s0 sdb \<longleftrightarrow> configInv L (snd sdb) \<and> runsPublished L device s0 (fst sdb) (snd sdb) \<and>
     csApplied s0 \<le> csApplied (fst sdb) \<and> knowsApplied device (fst sdb) (snd sdb)"

lemma runsPublished_mono:
  assumes "runsPublished L device s0 s db" "registryKeeps db (cdDevices db')"
    "\<And>t z. set (siteRevisions db t z) \<subseteq> set (siteRevisions db' t z)"
  shows "runsPublished L device s0 s db'"
proof (cases "s = s0")
  case False
  with assms(1) obtain d row er where r: "cdDevices db device = Some d" "row \<in> set (siteRevisions db (edrTenant d) (edrSite d))"
      "delivered L row er" "csApplied s0 < csApplied s" "rvNumber row = csApplied s" "csActive s = clMarshal (dlConfig L) er" "csActive s \<noteq> None"
    unfolding runsPublished_def by blast
  from assms(2) r(1) obtain d' where "cdDevices db' device = Some d'" "edrTenant d' = edrTenant d" "edrSite d' = edrSite d"
    by (auto simp: registryKeeps_def)
  with r assms(3) [of "edrTenant d" "edrSite d"] show ?thesis unfolding runsPublished_def by (metis subsetD)
qed (simp add: runsPublished_def)

lemma registryKeeps_refl [simp]: "registryKeeps db (cdDevices db)"
  by (simp add: registryKeeps_def)

lemma loopInv_publish:
  assumes "loopInv L device s0 (s, db)" "jsonbOK L"
  shows "loopInv L device s0 (s, fst (PostgresPublish L E c db))"
proof -
  obtain db' r where run: "PostgresPublish L E c db = (db', r)" by force
  have inv: "configInv L db'" using configInv_publish_run [of L db E c] assms run by (simp add: loopInv_def)
  from PostgresPublish_cases [OF run] show ?thesis
  proof (elim disjE exE conjE)
    fix row
    assume "publishAdds L db db' row"
    then obtain audit where db': "db' = db\<lparr>cdRevisions := cdRevisions db @ [row], cdAudit := audit\<rparr>" by (auto simp: publishAdds_def)
    have "runsPublished L device s0 s db'"
    proof (rule runsPublished_mono [of _ _ _ _ db])
      show "registryKeeps db (cdDevices db')" using registryKeeps_refl [of db] by (simp add: db')
    qed (use assms(1) in \<open>simp_all add: loopInv_def db'\<close>)
    moreover have "knowsApplied device s db'" using assms(1) unfolding loopInv_def knowsApplied_def by (auto simp: db')
    ultimately show ?thesis using assms(1) inv run by (simp add: loopInv_def)
  qed (use assms(1) run in simp)
qed

lemma loopInv_reportAdds:
  assumes "loopInv L device s0 (s, db)" "reportAdds db db' x n state st" "x = device \<Longrightarrow> state = StatusApplied \<Longrightarrow> n \<le> csApplied s"
  shows "loopInv L device s0 (s, db')"
proof -
  from assms(2) obtain d where d: "cdDevices db x = Some d"
      "db' = db\<lparr>cdStatuses := (cdStatuses db)((edrTenant d, x) \<mapsto> st)\<rparr>" "gsRevision st = n" "gsState st = state"
    unfolding reportAdds_def by blast
  have "configInv L db'" by (rule configInv_report [OF _ assms(2)]) (use assms(1) in \<open>simp add: loopInv_def\<close>)
  moreover have "runsPublished L device s0 s db'"
  proof (rule runsPublished_mono [of _ _ _ _ db])
    show "registryKeeps db (cdDevices db')" using registryKeeps_refl [of db] by (simp add: d(2))
  qed (use assms(1) in \<open>simp_all add: loopInv_def d(2)\<close>)
  moreover have "knowsApplied device s db'"
    using assms(1,3) d(3,4) by (auto simp: loopInv_def knowsApplied_def d(2))
  ultimately show ?thesis using assms(1) by (simp add: loopInv_def)
qed

lemma loopInv_registry:
  assumes "loopInv L device s0 (s, db)" "registryKeeps db m"
  shows "loopInv L device s0 (s, db\<lparr>cdDevices := m\<rparr>)"
proof -
  have "runsPublished L device s0 s (db\<lparr>cdDevices := m\<rparr>)"
    by (rule runsPublished_mono [of _ _ _ _ db]) (use assms in \<open>simp_all add: loopInv_def\<close>)
  moreover have "knowsApplied device s (db\<lparr>cdDevices := m\<rparr>)" using assms(1) unfolding loopInv_def knowsApplied_def by auto
  ultimately show ?thesis using assms configInv_registry [of L db m] by (simp add: loopInv_def)
qed

lemma trimSpace_states: "trimSpace ''failed'' = ''failed''" "trimSpace ''applied'' = ''applied''"
  by code_simp+

lemma loopInv_sync:
  assumes "loopInv L device s0 (s, db)" "wireOK L" "deviceOK L device"
  shows "loopInv L device s0 (fst (edgeSync L path device X (s, db)))"
proof -
  obtain s' err rep where run: "Sync (dlConfig L) path (loopSyncEnv L device X db) s = (s', err, rep)" by (metis prod.exhaust)
  define db' where "db' = (case rep of None \<Rightarrow> db | Some r \<Rightarrow> if leArrives X then fst (serverReport L device X r db) else db)"
  have fst: "fst (edgeSync L path device X (s, db)) = (s', db')" by (simp add: edgeSync_def run db'_def split: option.split)
  have agent: "loopInv L device s0 (s', db) \<and> (\<forall>n st m. rep = Some (n, st, m) \<longrightarrow> st = ''failed'' \<or> (st = ''applied'' \<and> n \<le> csApplied s'))"
    using loop_Sync [OF run assms(2,3)]
  proof (elim disjE exE conjE)
    fix d row er
    assume r: "cdDevices db device = Some d" "row \<in> set (siteRevisions db (edrTenant d) (edrSite d))" "delivered L row er"
      "csApplied s < csApplied s'" "rvNumber row = csApplied s'" "csActive s' = clMarshal (dlConfig L) er" "csActive s' \<noteq> None"
      "rep = Some (csApplied s', ''applied'', [])"
    have le: "csApplied s0 < csApplied s'" using assms(1) r(4) by (simp add: loopInv_def)
    then have "runsPublished L device s0 s' db" using r(1-3,5-7) unfolding runsPublished_def by blast
    moreover have "knowsApplied device s' db" using assms(1) r(4) by (fastforce simp: loopInv_def knowsApplied_def)
    ultimately show ?thesis using assms(1) le r(8) by (simp add: loopInv_def)
  qed (use assms(1) in simp)
  show ?thesis
  proof (cases "rep = None \<or> \<not> leArrives X")
    case True
    then show ?thesis using agent unfolding fst db'_def by (auto split: option.split)
  next
    case False
    then obtain n st m where rep: "rep = Some (n, st, m)" "leArrives X" by (cases rep) auto
    from serverReport_cases [OF assms(3), of X n st m db] show ?thesis
    proof
      assume "\<exists>stat. reportAdds db (fst (serverReport L device X (n, st, m) db)) device n (trimSpace st) stat"
      then obtain stat where adds: "reportAdds db db' device n (trimSpace st) stat" by (auto simp: db'_def rep)
      have "n \<le> csApplied s'" if "trimSpace st = StatusApplied"
        using agent rep(1) that trimSpace_states by (auto simp: StatusApplied_def)
      with loopInv_reportAdds [OF _ adds] agent show ?thesis unfolding fst by blast
    qed (use agent in \<open>simp add: fst db'_def rep\<close>)
  qed
qed

lemma configLoop_inv:
  assumes "configLoop L path device s0 sdb" "jsonbOK L" "wireOK L" "deviceOK L device"
  shows "loopInv L device s0 sdb"
  using assms(1)
proof (induction rule: configLoop.induct)
  case (start db)
  then show ?case using configServes_inv [OF start(1) assms(2)] by (simp add: loopInv_def runsPublished_def knowsApplied_def)
next
  case (sync sdb X)
  then show ?case using loopInv_sync [of L device s0 "fst sdb" "snd sdb", OF _ assms(3,4)] by simp
next
  case (publish s db E c)
  then show ?case using loopInv_publish assms(2) by blast
next
  case (other s db rc E)
  obtain db' r where run: "PostgresReport L E rc db = (db', r)" by force
  from PostgresReport_cases [OF run] show ?case
  proof (elim disjE exE conjE)
    fix x st
    assume x: "dlUUID L (rcmDeviceID rc) = Some x" "reportAdds db db' x (rcmRevision rc) (rcmState rc) st"
    with other.hyps have "x \<noteq> device" by auto
    with loopInv_reportAdds [OF other.IH x(2)] run show ?thesis by simp
  qed (use other.IH run in simp)
next
  case (registry s db m)
  then show ?case using loopInv_registry by blast
qed

end
