(* ===== verification/Config_Props.thy ===== *)
theory Config_Props
  imports Config_Loop
begin

text \<open>
  The properties of configuration delivery: the invariant of the server's tables, the agreement between
  what a device runs and what the server knows about it, and convergence to the newest revision.
\<close>

section \<open>A synchronization that nothing disturbs\<close>

definition loopFine :: "loopEnv \<Rightarrow> bool" where
  "loopFine X \<longleftrightarrow> lePullLost X = None \<and> leReportLost X = None \<and> leArrives X \<and> (\<forall>c. veFails (lePullEnv X) c = None) \<and>
     (\<forall>c. veFails (leReportEnv X) c = None) \<and> (\<forall>c. \<not> seFails (leSync X) c) \<and> seContext (leSync X) = None \<and>
     seUUID (leSync X) \<noteq> None \<and> leWire X [] = []"

text \<open>The coders handle this revision and every status.\<close>

definition codecFine :: "'j deliveryLib \<Rightarrow> Revision \<Rightarrow> ConfigurationRevision \<Rightarrow> bool" where
  "codecFine L row er \<longleftrightarrow> clEnvelope (dlConfig L) (take maxConfigBody (dlRevisionBody L row)) = Some er \<and>
     cvPayload er \<noteq> [] \<and> clValid (dlConfig L) (cvPayload er) \<and> clMarshal (dlConfig L) er \<noteq> None \<and> rvCreatedAt row \<noteq> 0 \<and>
     (\<forall>st. \<exists>x. clStatusData (dlConfig L) (take maxConfigBody (dlStatusBody L st)) = Some x \<and> x \<noteq> [])"

lemma newestRevision_max: "newestRevision rows = Some r \<Longrightarrow> x \<in> set rows \<Longrightarrow> rvNumber x \<le> rvNumber r"
proof -
  assume r: "newestRevision rows = Some r" "x \<in> set rows"
  have "sortSlice (\<lambda>a b. rvNumber a > rvNumber b) rows = sort_key (\<lambda>r. - rvNumber r) rows" by (rule sortSlice_key) auto
  with r(1) obtain ys where "sort_key (\<lambda>r. - rvNumber r) rows = r # ys" by (auto simp: newestRevision_def split: list.splits)
  from sort_key_hd_le [OF this r(2)] show ?thesis by simp
qed

lemma newestRevision_None: "newestRevision rows = None \<longleftrightarrow> rows = []"
  using sortSlice_Nil [of "\<lambda>a b. rvNumber a > rvNumber b" rows]
  by (auto simp: newestRevision_def simp del: sortSlice_Nil split: list.splits)

text \<open>The server answers with the last revision of the site.\<close>

lemma fine_pull:
  assumes "configInv L db" "authorizedDevice db device = Some d" "deviceOK L device" "\<And>c. veFails E c = None"
    "0 \<le> k" "siteRevisions db (edrTenant d) (edrSite d) = rows @ [row]" "k < rvNumber row"
  shows "pullDeviceConfiguration L E (Some device) device (formatInt k) db = (200, dlRevisionBody L row)"
    "rvNumber row = int (length rows) + 1"
proof -
  have "map rvNumber (rows @ [row]) = [1..int (length (rows @ [row]))]"
    using assms(1,6) unfolding configInv_def by metis
  also have "\<dots> = [1..int (length rows)] @ [int (length rows) + 1]" by (simp add: upto_rec2 add.commute)
  finally have nums: "map rvNumber rows = [1..int (length rows)]" and last: "rvNumber row = int (length rows) + 1" by auto
  show "rvNumber row = int (length rows) + 1" by (rule last)
  have "row \<in> set (cdRevisions db)" by (rule siteRevisions_sub [of _ _ "edrTenant d" "edrSite d"]) (simp add: assms(6))
  then have "rvNumber row \<le> maxInt64" using assms(1) unfolding configInv_def by blast
  with assms(5,7) have k: "0 \<le> k" "k \<le> maxInt64" by auto
  let ?new = "filter (\<lambda>r. rvNumber r > max k 0) (rows @ [row])"
  have row: "row \<in> set ?new" using assms(5,7) by simp
  then obtain r where r: "newestRevision ?new = Some r" using newestRevision_None [of ?new] by fastforce
  have "r = row"
  proof (rule ccontr)
    assume "r \<noteq> row"
    with newestRevision_in [OF r] have "r \<in> set rows" by (auto split: if_splits)
    then have "rvNumber r \<in> set [1..int (length rows)]" unfolding nums [symmetric] by simp
    with newestRevision_max [OF r row] last show False by simp
  qed
  with r have "PostgresPull L E device k db = Inr (Some row)"
    using assms(2-4,6) by (simp add: PostgresPull_def pull_device_configuration_def deviceOK_def)
  with parse_format [OF k] assms(3) k show "pullDeviceConfiguration L E (Some device) device (formatInt k) db = (200, dlRevisionBody L row)"
    by (simp add: pullDeviceConfiguration_def verifiedDeviceRequest_def deviceOK_def Let_def)
qed

lemma fine_valid:
  assumes "hashOK L row" "delivered L row er" "codecFine L row er" "1 \<le> rvNumber row"
  shows "validateConfiguration (dlConfig L) er"
proof -
  from assms(1) obtain c where "clCanonical (dlConfig L) (rvPayload row) = Some c"
    "rvContentHash row = hexEncode (clSha (dlConfig L) c)" "length (rvContentHash row) = 64" by (auto simp: hashOK_def)
  then show ?thesis using assms(2-4) by (simp add: validateConfiguration_def delivered_def codecFine_def equalFoldHex_def)
qed

lemma fine_report:
  assumes "configInv L db" "authorizedDevice db device = Some d" "deviceOK L device" "loopFine X"
    "siteRevisions db (edrTenant d) (edrSite d) = rows @ [row]" "rvNumber row = int (length rows) + 1"
  shows "\<exists>st. serverReport L device X (rvNumber row, ''applied'', []) db =
      (if dlUseColumn L then (db\<lparr>cdStatuses := (cdStatuses db)((edrTenant d, device) \<mapsto> st)\<rparr>, (200, dlStatusBody L st)) else (db, (503, []))) \<and>
    gsRevision st = rvNumber row \<and> gsState st = StatusApplied"
proof -
  let ?k = "(edrTenant d, device)" and ?n = "rvNumber row"
  have dev: "cdDevices db device = Some d" using assms(2) by (auto simp: authorizedDevice_def split: option.splits if_splits)
  have prev: "\<not> gsRevision p > ?n" if "cdStatuses db ?k = Some p" for p
  proof -
    have "statusOK db ?k p" using assms(1) that unfolding configInv_def by blast
    then obtain r where "r \<in> set (rows @ [row])" "rvNumber r = gsRevision p" using dev assms(5) by (auto simp: statusOK_def)
    then have "gsRevision p \<in> set (map rvNumber (rows @ [row]))" by force
    moreover have "map rvNumber (rows @ [row]) = [1..int (length (rows @ [row]))]"
      using assms(1,5) unfolding configInv_def by metis
    ultimately have "gsRevision p \<in> set [1..int (length (rows @ [row]))]" by (simp only:)
    then show ?thesis using assms(6) by simp
  qed
  define st where "st = \<lparr>gsDeviceID = device, gsTenantID = edrTenant d,
    gsSiteID = (case cdStatuses db ?k of None \<Rightarrow> edrSite d | Some p \<Rightarrow> gsSiteID p), gsRevision = ?n, gsState = ''applied'',
    gsErrorMessage = [], gsReportedAt = veNow (leReportEnv X), gsAppliedAt = Some (veNow (leReportEnv X))\<rparr>"
  have ok: "statusArgumentsOK ?n ''applied'' None" using assms(6) by (simp add: statusArgumentsOK_def)
  have ex: "\<exists>r \<in> set (siteRevisions db (edrTenant d) (edrSite d)). rvNumber r = ?n" using assms(5) by simp
  have nprev: "\<not> (cdStatuses db ?k \<noteq> None \<and> gsRevision (the (cdStatuses db ?k)) > ?n)" using prev by auto
  have "report_device_configuration (dlUseColumn L) db (veNow (leReportEnv X)) device ?n ''applied'' None =
      (if dlUseColumn L then Inr (db\<lparr>cdStatuses := (cdStatuses db)(?k \<mapsto> st)\<rparr>, st) else Inl ''42702'')"
    unfolding report_device_configuration_def assms(2) option.case Let_def
    by (subst if_not_P, use ok in simp, subst if_not_P, use ex in simp, subst if_not_P, rule nprev) (simp add: st_def)
  then have "PostgresReport L (leReportEnv X) \<lparr>rcmDeviceID = device, rcmState = ''applied'', rcmErrorMessage = [], rcmRevision = ?n\<rparr> db =
      (if dlUseColumn L then (db\<lparr>cdStatuses := (cdStatuses db)(?k \<mapsto> st)\<rparr>, Inr st) else (db, Inl (CdDatabase DvQuery)))"
    using assms(3,4,6)
    by (simp add: PostgresReport_def validateReport_def StatusApplied_def deviceOK_def loopFine_def commitDelivery_def classifyDeviceError_def)
  then have "serverReport L device X (?n, ''applied'', []) db =
      (if dlUseColumn L then (db\<lparr>cdStatuses := (cdStatuses db)(?k \<mapsto> st)\<rparr>, (200, dlStatusBody L st)) else (db, (503, [])))"
    using assms(3,4) trimSpace_states
    by (simp add: serverReport_def reportDeviceConfiguration_def verifiedDeviceRequest_def deviceOK_def loopFine_def)
  then show ?thesis by (intro exI [of _ st]) (simp add: st_def StatusApplied_def)
qed

lemma fine_sync:
  assumes "configInv L db" "authorizedDevice db device = Some d" "deviceOK L device" "wireOK L" "loopFine X"
    "siteRevisions db (edrTenant d) (edrSite d) = rows @ [row]" "codecFine L row er"
    "0 \<le> csApplied s" "csApplied s < rvNumber row" "trimSpace path \<noteq> []"
  shows "\<exists>st. edgeSync L path device X (s, db) =
      ((\<lparr>csApplied = rvNumber row, csActive = clMarshal (dlConfig L) er\<rparr>,
        if dlUseColumn L then db\<lparr>cdStatuses := (cdStatuses db)((edrTenant d, device) \<mapsto> st)\<rparr> else db),
       if dlUseColumn L then None else Some (CfStatus 503)) \<and>
    gsRevision st = rvNumber row \<and> gsState st = StatusApplied"
proof -
  let ?E = "loopSyncEnv L device X db" and ?C = "dlConfig L"
  have del: "delivered L row er" using assms(4,7) by (auto simp: wireOK_def codecFine_def)
  have fails: "veFails (lePullEnv X) c = None" for c using assms(5) by (simp add: loopFine_def)
  note pull = fine_pull [OF assms(1-3) fails assms(8,6,9)]
  have "row \<in> set (cdRevisions db)" by (rule siteRevisions_sub [of _ _ "edrTenant d" "edrSite d"]) (simp add: assms(6))
  then have "hashOK L row" using assms(1) unfolding configInv_def by blast
  from fine_valid [OF this del assms(7)] pull(2) have valid: "validateConfiguration ?C er" by simp
  have p: "Pull ?C (sePull ?E (csApplied s)) (csApplied s) = Inr (Some er)"
    using assms(5,7,8) pull(1) valid by (simp add: Pull_def loopSyncEnv_def loopFine_def codecFine_def)
  have a: "ApplyAtomic ?C (seFails ?E) (seContext ?E) path er (csActive s) = (clMarshal ?C er, None)"
    using valid assms(5,7,10) by (auto simp: ApplyAtomic_def loopSyncEnv_def loopFine_def codecFine_def)
  obtain st where st: "serverReport L device X (rvNumber row, ''applied'', []) db =
      (if dlUseColumn L then (db\<lparr>cdStatuses := (cdStatuses db)((edrTenant d, device) \<mapsto> st)\<rparr>, (200, dlStatusBody L st)) else (db, (503, [])))"
    "gsRevision st = rvNumber row" "gsState st = StatusApplied" using fine_report [OF assms(1-3,5,6) pull(2)] by blast
  have num: "cvNumber er = rvNumber row" using del by (simp add: delivered_def)
  obtain x where x: "clStatusData ?C (take maxConfigBody (dlStatusBody L st)) = Some x" "x \<noteq> []"
    using assms(7) by (auto simp: codecFine_def)
  have r: "Report ?C (seUUID ?E) (seReport ?E (cvNumber er, ''applied'', [])) (cvNumber er) ''applied'' [] =
      (if dlUseColumn L then None else Some (CfStatus 503))"
    using assms(5) st(1) x pull(2) num
    by (auto simp: Report_def loopSyncEnv_def loopFine_def newUUIDv4_def Let_def split: option.split)
  have "Sync ?C path ?E s = (s\<lparr>csApplied := rvNumber row, csActive := clMarshal ?C er\<rparr>,
      if dlUseColumn L then None else Some (CfStatus 503), Some (rvNumber row, ''applied'', []))"
    using assms(9) by (simp add: Sync_def p a r [unfolded num] num)
  then have "edgeSync L path device X (s, db) =
      ((\<lparr>csApplied = rvNumber row, csActive = clMarshal ?C er\<rparr>,
        if dlUseColumn L then db\<lparr>cdStatuses := (cdStatuses db)((edrTenant d, device) \<mapsto> st)\<rparr> else db),
       if dlUseColumn L then None else Some (CfStatus 503))"
    using assms(5) st(1) by (cases s) (simp add: edgeSync_def loopFine_def)
  with st(2,3) show ?thesis by blast
qed

text \<open>An authorized device that reports an outcome older than the recorded one is answered as if it were unknown:
  the repository has no other error for the SQLSTATE of that refusal.\<close>

lemma stale_report_is_unauthorized:
  assumes "authorizedDevice db device = Some d" "deviceOK L device" "\<And>c. veFails E c = None"
    "cdStatuses db (edrTenant d, device) = Some p" "n < gsRevision p" "1 \<le> n"
  shows "reportDeviceConfiguration L E (Some device) device True (Some (n, ''applied'', [])) db = (db, (401, []))"
  using assms trimSpace_states
  by (auto simp: reportDeviceConfiguration_def verifiedDeviceRequest_def deviceOK_def PostgresReport_def validateReport_def
      StatusApplied_def report_device_configuration_def classifyDeviceError_def Let_def)

section \<open>A concrete system\<close>

definition wdRow :: Revision where
  "wdRow = \<lparr>rvID = ''i'', rvTenantID = ''t'', rvSiteID = ''s'', rvNumber = 1, rvPayload = ''{}'',
     rvContentHash = ''7b7d'' @ replicate 60 CHR ''0'', rvCreatedBy = ''a'', rvCreatedAt = 5\<rparr>"

definition wdEdge :: ConfigurationRevision where
  "wdEdge = \<lparr>cvID = ''i'', cvTenantID = ''t'', cvSiteID = ''s'', cvNumber = 1, cvPayload = ''{}'',
     cvContentHash = ''7b7d'' @ replicate 60 CHR ''0'', cvCreatedAt = 5\<rparr>"

definition wdLib :: "bool \<Rightarrow> string deliveryLib" where
  "wdLib b = \<lparr>dlConfig = \<lparr>clSha = (\<lambda>x. take 32 (x @ replicate 32 CHR 0x00)), clValid = (\<lambda>_. True),
       clCanonical = (\<lambda>b. if b = [] then None else Some b), clMarshal = (\<lambda>r. Some (cvPayload r)),
       clEnvelope = (\<lambda>b. if b = ''R'' then Some wdEdge else None), clStatusData = (\<lambda>_. Some ''d'')\<rparr>,
     dlObject = (\<lambda>_. True), dlJsonb = (\<lambda>b. b), dlParses = (\<lambda>_. True), dlUUID = Some, dlVarchar = (\<lambda>x. x), dlText = (\<lambda>n x. Some x), dlUseColumn = b,
     dlRevisionBody = (\<lambda>r. if r = wdRow then ''R'' else []), dlStatusBody = (\<lambda>_. []), dlAudit = wAuditLib,
     dlAny = (\<lambda>_. ''x''), dlNil = ''null''\<rparr>"

definition wdEnv :: deliveryEnv where
  "wdEnv = \<lparr>veNow = 5, veID = ''i'', veFails = (\<lambda>_. None), veAudit = (\<lambda>_. False), veCommitApplied = False\<rparr>"

definition wdCommand :: PublishCommand where
  "wdCommand = \<lparr>pcTenantID = ''t'', pcSiteID = ''s'', pcActorID = ''a'', pcRequestID = ''r'', pcPayload = ''{}''\<rparr>"

definition wdStart :: configDB where
  "wdStart = \<lparr>cdSites = (\<lambda>_ _. True), cdRevisions = [],
     cdDevices = [''d'' \<mapsto> \<lparr>edrTenant = ''t'', edrSite = ''s'', edrCert = ''active'', edrStatus = ''active''\<rparr>],
     cdStatuses = Map.empty, cdAudit = []\<rparr>"

definition wdDB :: "bool \<Rightarrow> configDB" where "wdDB b = fst (PostgresPublish (wdLib b) wdEnv wdCommand wdStart)"

definition wdLoop :: loopEnv where
  "wdLoop = \<lparr>leSync = \<lparr>seUUID = Some (replicate 16 CHR 0x01), sePull = (\<lambda>_. Inl []), seReport = (\<lambda>_. Inl []), seFails = (\<lambda>_. False),
       seContext = None, seErrorText = (\<lambda>_. [])\<rparr>, lePullLost = None, lePullEnv = wdEnv, leArrives = True, leReportLost = None,
     leReportEnv = wdEnv, leWire = (\<lambda>m. m)\<rparr>"

definition wdAgent :: configSync where "wdAgent = \<lparr>csApplied = 0, csActive = None\<rparr>"

lemma wdHash: "hexEncode (take 32 (''{}'' @ replicate 32 CHR 0x00)) = ''7b7d'' @ replicate 60 CHR ''0''"
  by code_simp

lemma wdNumber: "wrap64 1 = 1"
  by code_simp

lemma wdPublish: "\<exists>a. PostgresPublish (wdLib b) wdEnv wdCommand wdStart =
    (wdStart\<lparr>cdRevisions := [wdRow], cdAudit := a\<rparr>, Inr wdRow)"
proof -
  have n: "normalizePayload (wdLib b) (pcPayload wdCommand) = Some (''{}'', ''7b7d'' @ replicate 60 CHR ''0'')"
    unfolding wdHash [symmetric] by (simp add: normalizePayload_def wdLib_def wdCommand_def)
  have b: "beginDelivery (wdLib b) wdEnv (pcTenantID wdCommand) = Inr ''t''"
    by (simp add: beginDelivery_def wdLib_def wdEnv_def wdCommand_def)
  have "siteRevisions wdStart ''t'' ''s'' = []" by (simp add: siteRevisions_def wdStart_def)
  then have st: "\<exists>a. storeRevision (wdLib b) wdEnv wdCommand wdStart ''t'' ''s'' ''{}'' (''7b7d'' @ replicate 60 CHR ''0'') =
      (wdStart\<lparr>cdRevisions := [wdRow], cdAudit := a\<rparr>, Inr wdRow)"
    by (simp add: storeRevision_def insertRevision_def Let_def commitDelivery_def maxRevision_def wdNumber publishAudit_def
        auditAppend_def canonicalAudit_def wAuditLib_def wdLib_def wdEnv_def wdCommand_def wdStart_def wdRow_def)
  show ?thesis unfolding PostgresPublish_def n option.case prod.case b sum.case using st
    by (simp add: wdLib_def wdEnv_def wdCommand_def wdStart_def)
qed

lemma wdDB_sel: "cdRevisions (wdDB b) = [wdRow]" "cdStatuses (wdDB b) = Map.empty" "cdDevices (wdDB b) = cdDevices wdStart"
  using wdPublish [of b] by (auto simp: wdDB_def wdStart_def)

lemma wdServes: "configServes (wdLib b) (wdDB b)"
  unfolding wdDB_def by (rule configServes.publish, rule configServes.start) (simp_all add: wdStart_def)

lemma wdSite: "siteRevisions (wdDB b) ''t'' ''s'' = [] @ [wdRow]"
  by (simp add: siteRevisions_def wdDB_sel wdRow_def)

lemma wdDelivered: "delivered (wdLib b) wdRow wdEdge"
  by (simp add: delivered_def wdRow_def wdEdge_def wdLib_def)

lemma wdOK: "jsonbOK (wdLib b)" "wireOK (wdLib b)" "deviceOK (wdLib b) ''d''" "codecFine (wdLib b) wdRow wdEdge" "loopFine wdLoop"
proof -
  show "jsonbOK (wdLib b)" by (simp add: jsonbOK_def wdLib_def)
  show "wireOK (wdLib b)" using wdDelivered by (auto simp: wireOK_def wdLib_def maxConfigBody_def split: if_splits)
  have "trimSpace ''d'' = ''d''" by code_simp
  then show "deviceOK (wdLib b) ''d''" by (simp add: deviceOK_def wdLib_def)
  show "codecFine (wdLib b) wdRow wdEdge" by (simp add: codecFine_def wdLib_def wdEdge_def wdRow_def maxConfigBody_def)
  show "loopFine wdLoop" by (simp add: loopFine_def wdLoop_def wdEnv_def)
qed

lemma wdReach: "configLoop (wdLib b) ''/c'' ''d'' wdAgent (wdAgent, (wdDB b))"
  by (rule configLoop.start [OF wdServes]) (simp add: wdDB_sel)

lemma wdDevice: "authorizedDevice (wdDB b) ''d'' = Some \<lparr>edrTenant = ''t'', edrSite = ''s'', edrCert = ''active'', edrStatus = ''active''\<rparr>"
  by (simp add: authorizedDevice_def wdDB_sel wdStart_def)

section \<open>Properties\<close>

text \<open>C22: The configuration tables of the server: in every reachable state the revisions of a site are numbered 1, 2, ...
  without gap in the order of publication, every stored revision carries the hash of its payload's canonical form, and every
  device status names a published revision of the site of a registered device. A successful publication returns the next
  number, and no report lowers the revision a device is known to have reached.\<close>

theorem configuration_store_invariant:
  assumes "configServes L db" "jsonbOK L"
  shows "(\<forall>t z. map rvNumber (siteRevisions db t z) = [1..int (length (siteRevisions db t z))]) \<and>
    (\<forall>r \<in> set (cdRevisions db). hashOK L r) \<and>
    (\<forall>k st. cdStatuses db k = Some st \<longrightarrow> statusOK db k st) \<and>
    (\<forall>E c db' x. PostgresPublish L E c db = (db', Inr x) \<longrightarrow>
      (\<exists>row. cdRevisions db' = cdRevisions db @ [row] \<and> rvID row = rvID x \<and> rvNumber row = rvNumber x \<and>
        rvNumber x = int (length (siteRevisions db (rvTenantID row) (rvSiteID row))) + 1)) \<and>
    (\<forall>E c db' y k st. PostgresReport L E c db = (db', y) \<longrightarrow> cdStatuses db k = Some st \<longrightarrow>
      (\<exists>st'. cdStatuses db' k = Some st' \<and> gsRevision st \<le> gsRevision st'))"
proof -
  have inv: "configInv L db" using configServes_inv [OF assms] .
  have pub: "\<exists>row. cdRevisions db' = cdRevisions db @ [row] \<and> rvID row = rvID x \<and> rvNumber row = rvNumber x \<and>
        rvNumber x = int (length (siteRevisions db (rvTenantID row) (rvSiteID row))) + 1"
    if run: "PostgresPublish L E c db = (db', Inr x)" for E c db' x
  proof -
    from PostgresPublish_cases [OF run] obtain row where row: "publishAdds L db db' row" "rvNumber x = rvNumber row" "rvID x = rvID row" by blast
    have "cdRevisions db' = cdRevisions db @ [row]" using row(1) by (auto simp: publishAdds_def)
    with configInv_publish [OF inv row(1) assms(2)] row(2,3) show ?thesis by auto
  qed
  have rep: "\<exists>st'. cdStatuses db' k = Some st' \<and> gsRevision st \<le> gsRevision st'"
    if "PostgresReport L E c db = (db', y)" "cdStatuses db k = Some st" for E c db' y k st
    using PostgresReport_cases [OF that(1)] that(2) by (auto simp: reportAdds_def)
  from inv pub rep show ?thesis unfolding configInv_def by blast
qed

theorem configuration_store_invariant_witness: "map rvNumber (siteRevisions (wdDB True) ''t'' ''s'') = [1] \<and> hashOK (wdLib True) wdRow"
proof -
  have "map rvNumber (siteRevisions (wdDB True) ''t'' ''s'') = [1..int (length (siteRevisions (wdDB True) ''t'' ''s''))]" "\<forall>r \<in> set (cdRevisions (wdDB True)). hashOK (wdLib True) r"
    using configuration_store_invariant [OF wdServes wdOK(1)] by blast+
  then show ?thesis by (simp add: wdSite wdDB_sel)
qed

text \<open>C10: Agreement between device and server: with lost requests, lost responses, failing disks and failing transactions, next
  to publications, other devices and changes of the registry, an agent always runs the configuration it started with or a
  published revision of its own site, complete and with its number as the applied revision; and the server never lists a
  revision as applied by the device that is newer than the one the device applied.\<close>

theorem configuration_agreement:
  assumes "configLoop L path device s0 (s, db)" "jsonbOK L" "wireOK L" "deviceOK L device"
  shows "csApplied s0 \<le> csApplied s \<and>
    (s = s0 \<or> (\<exists>d row er. cdDevices db device = Some d \<and> row \<in> set (siteRevisions db (edrTenant d) (edrSite d)) \<and>
       delivered L row er \<and> hashOK L row \<and> rvNumber row = csApplied s \<and> csActive s = clMarshal (dlConfig L) er \<and> csActive s \<noteq> None)) \<and>
    (\<forall>t st. cdStatuses db (t, device) = Some st \<and> gsState st = StatusApplied \<longrightarrow> gsRevision st \<le> csApplied s)"
proof -
  have inv: "configInv L db" "runsPublished L device s0 s db" "csApplied s0 \<le> csApplied s" "knowsApplied device s db"
    using configLoop_inv [OF assms] by (simp_all add: loopInv_def)
  have hash: "hashOK L row" if "row \<in> set (siteRevisions db t z)" for row t z
    using inv(1) siteRevisions_sub [OF that] unfolding configInv_def by blast
  show ?thesis using inv(2-4) hash unfolding runsPublished_def knowsApplied_def by blast
qed

theorem configuration_agreement_witness:
  "\<exists>row er. delivered (wdLib True) row er \<and> hashOK (wdLib True) row \<and> rvNumber row = 1 \<and>
     csActive (fst (fst (edgeSync (wdLib True) ''/c'' ''d'' wdLoop (wdAgent, (wdDB True))))) = clMarshal (dlConfig (wdLib True)) er"
proof -
  have inv: "configInv (wdLib True) (wdDB True)" using configServes_inv [OF wdServes wdOK(1)] .
  have path: "trimSpace ''/c'' \<noteq> []" by code_simp
  obtain st where run: "edgeSync (wdLib True) ''/c'' ''d'' wdLoop (wdAgent, (wdDB True)) =
      ((\<lparr>csApplied = 1, csActive = Some ''{}''\<rparr>, (wdDB True)\<lparr>cdStatuses := (cdStatuses (wdDB True))((''t'', ''d'') \<mapsto> st)\<rparr>), None)"
    using fine_sync [OF inv wdDevice wdOK(3,2,5) _ wdOK(4) _ _ path, of "[]" wdAgent] wdSite
    by (auto simp: wdAgent_def wdRow_def wdEdge_def wdLib_def)
  have "configLoop (wdLib True) ''/c'' ''d'' wdAgent (\<lparr>csApplied = 1, csActive = Some ''{}''\<rparr>, (wdDB True)\<lparr>cdStatuses := (cdStatuses (wdDB True))((''t'', ''d'') \<mapsto> st)\<rparr>)"
    using configLoop.sync [OF wdReach [of True], of wdLoop] unfolding run by simp
  from configuration_agreement [OF this wdOK(1-3)] show ?thesis unfolding run by (auto simp: wdAgent_def)
qed



end
