(* ===== verification/Keyed_Store.thy ===== *)
theory Keyed_Store
  imports Idempotency Audit_Chain
begin

text \<open>
  The frame that the configuration writes of the control plane share: \<open>CreateSite\<close> of
  \<open>tenant/repository.go\<close>, \<open>Create\<close> of \<open>device/postgres_repository.go\<close> and of
  \<open>zones/postgres_repository.go\<close>, and \<open>IssueClaim\<close> of \<open>device/postgres_enrollment.go\<close>.
  Each of them opens a transaction for the tenant, takes the advisory lock of tenant and idempotency key,
  deletes the key if it has expired, looks it up, and then either repeats the stored answer or does its
  own insertions, stores the answer under the key for twenty-four hours, appends an audit record and
  commits. \<open>keyedCreate\<close> is this frame, written once; the insertions of each operation are its argument.

  A database is a record that extends \<open>storeDB\<close>. Row level security shows a transaction the rows of its
  tenant. The locale \<open>keyed_create\<close> has what an operation promises about its insertions; every such
  operation provides the interface \<open>retained_calls\<close>.
\<close>

section \<open>Data\<close>

text \<open>The rows of \<open>config.sites\<close>, which every component consults.\<close>

record Site =
  siID :: string
  siTenantID :: string
  siName :: string
  siAddress :: string
  siTimezone :: string
  siStatus :: string
  siCreatedAt :: gotime

record keyRow =
  kyTenant :: string
  kyKey :: string
  kyHash :: string
  kyBody :: bytes
  kyExpires :: gotime

record storeDB =
  sdTenants :: "string \<Rightarrow> bool"
  sdSites :: "Site list"
  sdKeys :: "keyRow list"
  sdAudit :: "auditRow list"

datatype stCall =
    StBegin | StSetTenant | StLock | StExpire | StReadKey | StSite | StInsert | StInsertClaim | StStoreKey | StCommit
  | StRead | StUpdate | StUpdateClaim | StApprovals | StDevice

datatype 'e storeError =
    Domain 'e | ErrIdempotencyConflict | StTenant | StDecode | StEncode | StDatabase stCall | StAuditError auditError

text \<open>SHA-256, the UUID functions, \<open>jsonb\<close>, the Unicode cases and the audit library.\<close>

record 'j storeLib =
  slSha :: "bytes \<Rightarrow> bytes"
  slParses :: "string \<Rightarrow> bool"
  slUUID :: "string \<Rightarrow> string option"
  slJsonb :: "bytes \<Rightarrow> bytes"
  slLower :: "string \<Rightarrow> string"
  slUpper :: "string \<Rightarrow> string"
  slAudit :: "'j auditLib"
  slNil :: 'j

text \<open>What a transaction meets: clock, fresh identifiers, the SQLSTATE of failing statements.\<close>

record storeEnv =
  stNow :: gotime
  stID :: string
  stID2 :: string
  stFails :: "stCall \<Rightarrow> string option"
  stAudit :: "auditCall \<Rightarrow> bool"
  stCommitApplied :: bool

section \<open>Transactions\<close>

definition beginStore :: "('j, 'm) storeLib_scheme \<Rightarrow> storeEnv \<Rightarrow> string \<Rightarrow> 'e storeError + string" where
  "beginStore L E tenantID =
     (if \<not> slParses L tenantID then Inl StTenant
      else if stFails E StBegin \<noteq> None then Inl (StDatabase StBegin)
      else if stFails E StSetTenant \<noteq> None then Inl (StDatabase StSetTenant)
      else (case slUUID L tenantID of None \<Rightarrow> Inl (StDatabase StRead) | Some t \<Rightarrow> Inr t))"

definition commitStore :: "storeEnv \<Rightarrow> 'd \<Rightarrow> 'd \<Rightarrow> 'r \<Rightarrow> 'd \<times> ('e storeError + 'r)" where
  "commitStore E db db' x =
     (if stFails E StCommit \<noteq> None then (if stCommitApplied E then db' else db, Inl (StDatabase StCommit)) else (db', Inr x))"

text \<open>\<open>EXISTS (SELECT 1 FROM config.sites WHERE id = ... AND tenant_id = ... AND status <> 'retired')\<close>.\<close>

definition siteOpen :: "'d storeDB_scheme \<Rightarrow> string \<Rightarrow> string \<Rightarrow> bool" where
  "siteOpen db tenant site \<longleftrightarrow> (\<exists>s \<in> set (sdSites db). siID s = site \<and> siTenantID s = tenant \<and> siStatus s \<noteq> ''retired'')"

definition keyLifetime :: duration where "keyLifetime = 24 * 60 * minute"

definition expireKey :: "storeEnv \<Rightarrow> string \<Rightarrow> string \<Rightarrow> 'd storeDB_scheme \<Rightarrow> 'd storeDB_scheme" where
  "expireKey E tenant key db =
     db\<lparr>sdKeys := filter (\<lambda>r. \<not> (kyTenant r = tenant \<and> kyKey r = key \<and> kyExpires r \<le> stNow E)) (sdKeys db)\<rparr>"

definition keyRowOf :: "'d storeDB_scheme \<Rightarrow> string \<Rightarrow> string \<Rightarrow> keyRow option" where
  "keyRowOf db tenant key = find (\<lambda>r. kyTenant r = tenant \<and> kyKey r = key) (sdKeys db)"

definition finishKeyed ::
  "('j, 'm) storeLib_scheme \<Rightarrow> storeEnv \<Rightarrow> string \<Rightarrow> string \<Rightarrow> string \<Rightarrow> 'd storeDB_scheme \<Rightarrow>
     'd storeDB_scheme \<times> 'r \<times> bytes option \<times> 'j AuditEvent \<Rightarrow> 'd storeDB_scheme \<times> ('e storeError + 'r \<times> bool)" where
  "finishKeyed L E tenant key hash db done =
     (case done of (db2, r, body, event) \<Rightarrow>
        (case body of
           None \<Rightarrow> (db, Inl StEncode)
         | Some b \<Rightarrow>
             if stFails E StStoreKey \<noteq> None \<or> length hash \<noteq> 64 then (db, Inl (StDatabase StStoreKey))
             else
               (case auditAppend (slAudit L) (stAudit E) (stNow E) event (sdAudit db2) of
                  Inl err \<Rightarrow> (db, Inl (StAuditError err))
                | Inr (audit, _) \<Rightarrow>
                    commitStore E db
                      (db2\<lparr>sdKeys := sdKeys db2 @ [\<lparr>kyTenant = tenant, kyKey = key, kyHash = hash, kyBody = slJsonb L b,
                             kyExpires = stNow E + keyLifetime\<rparr>], sdAudit := audit\<rparr>)
                      (r, False))))"

text \<open>The lookup of the key, after which the stored answer is repeated or the work is done.\<close>

definition answerKeyed ::
  "('j, 'm) storeLib_scheme \<Rightarrow> storeEnv \<Rightarrow> string \<Rightarrow> string \<Rightarrow> string \<Rightarrow> (bytes \<Rightarrow> 'e storeError + 'r) \<Rightarrow>
     (string \<Rightarrow> 'd storeDB_scheme \<Rightarrow> 'e storeError + 'd storeDB_scheme \<times> 'r \<times> bytes option \<times> 'j AuditEvent) \<Rightarrow>
     'd storeDB_scheme \<Rightarrow> 'd storeDB_scheme \<times> ('e storeError + 'r \<times> bool)" where
  "answerKeyed L E tenant key h decode work db =
     (case keyRowOf (expireKey E tenant key db) tenant key of
        Some row \<Rightarrow>
          if kyHash row \<noteq> h then (db, Inl ErrIdempotencyConflict)
          else
            (case decode (kyBody row) of
               Inl err \<Rightarrow> (db, Inl err)
             | Inr r \<Rightarrow> commitStore E db (expireKey E tenant key db) (r, True))
      | None \<Rightarrow>
          (case work tenant (expireKey E tenant key db) of
             Inl err \<Rightarrow> (db, Inl err)
           | Inr done \<Rightarrow> finishKeyed L E tenant key h db done))"

text \<open>\<open>check\<close> are validations made before the lock, \<open>hash\<close> is the request hash, \<open>decode\<close> reads a stored answer.\<close>

definition keyedCreate ::
  "('j, 'm) storeLib_scheme \<Rightarrow> storeEnv \<Rightarrow> string \<Rightarrow> string \<Rightarrow> 'e storeError option \<Rightarrow> 'e storeError + string \<Rightarrow>
     (bytes \<Rightarrow> 'e storeError + 'r) \<Rightarrow>
     (string \<Rightarrow> 'd storeDB_scheme \<Rightarrow> 'e storeError + 'd storeDB_scheme \<times> 'r \<times> bytes option \<times> 'j AuditEvent) \<Rightarrow>
     'd storeDB_scheme \<Rightarrow> 'd storeDB_scheme \<times> ('e storeError + 'r \<times> bool)" where
  "keyedCreate L E tenantID key check hash decode work db =
     (case beginStore L E tenantID of
        Inl err \<Rightarrow> (db, Inl err)
      | Inr tenant \<Rightarrow>
          (case check of
             Some err \<Rightarrow> (db, Inl err)
           | None \<Rightarrow>
               if stFails E StLock \<noteq> None then (db, Inl (StDatabase StLock))
               else if stFails E StExpire \<noteq> None then (db, Inl (StDatabase StExpire))
               else
                 (case hash of
                    Inl err \<Rightarrow> (db, Inl err)
                  | Inr h \<Rightarrow>
                      if stFails E StReadKey \<noteq> None then (db, Inl (StDatabase StReadKey))
                      else answerKeyed L E tenant key h decode work db)))"

section \<open>One call\<close>

lemma beginStore_Inr: "beginStore L E tenantID = Inr tenant \<Longrightarrow> slUUID L tenantID = Some tenant"
  by (auto simp: beginStore_def split: if_splits option.splits)

lemma commitStore_cases:
  "commitStore E db db1 x = (db', r) \<Longrightarrow> (db' = db \<and> (\<forall>y. r \<noteq> Inr y)) \<or> (db' = db1 \<and> (\<forall>y. r = Inr y \<longrightarrow> y = x))"
  by (auto simp: commitStore_def split: if_splits)

lemma finishKeyed_cases:
  assumes "finishKeyed L E tenant key h db (db2, x, body, event) = (db', r)"
  shows "(db' = db \<and> (\<forall>y. r \<noteq> Inr y)) \<or>
    (\<exists>b audit hh. body = Some b \<and> auditAppend (slAudit L) (stAudit E) (stNow E) event (sdAudit db2) = Inr (audit, hh) \<and>
       db' = db2\<lparr>sdKeys := sdKeys db2 @ [\<lparr>kyTenant = tenant, kyKey = key, kyHash = h, kyBody = slJsonb L b,
         kyExpires = stNow E + keyLifetime\<rparr>], sdAudit := audit\<rparr> \<and> (\<forall>y. r = Inr y \<longrightarrow> y = (x, False)))"
proof -
  consider "db' = db" "\<forall>y. r \<noteq> Inr y"
    | b audit hh where "body = Some b" "auditAppend (slAudit L) (stAudit E) (stNow E) event (sdAudit db2) = Inr (audit, hh)"
      "commitStore E db (db2\<lparr>sdKeys := sdKeys db2 @ [\<lparr>kyTenant = tenant, kyKey = key, kyHash = h, kyBody = slJsonb L b,
         kyExpires = stNow E + keyLifetime\<rparr>], sdAudit := audit\<rparr>) (x, False) = (db', r)"
    using assms by (auto simp: finishKeyed_def split: option.splits if_splits sum.splits prod.splits)
  then show ?thesis
  proof cases
    case (2 b audit hh)
    from commitStore_cases [OF 2(3)] 2(1,2) show ?thesis by blast
  qed blast
qed

text \<open>A call fails without effect, repeats a stored answer, or does its work and stores the answer.\<close>

lemma keyedCreate_cases:
  assumes "keyedCreate L E tenantID key check hash decode work db = (db', r)"
  obtains (failed) "db' = db" "\<forall>x. r \<noteq> Inr x"
    | (replay) tenant h row x where "slUUID L tenantID = Some tenant" "hash = Inr h"
        "keyRowOf (expireKey E tenant key db) tenant key = Some row" "kyHash row = h" "decode (kyBody row) = Inr x"
        "db' = expireKey E tenant key db" "\<forall>y. r = Inr y \<longrightarrow> y = (x, True)"
    | (stored) tenant h db2 x b event audit hh where "slUUID L tenantID = Some tenant" "hash = Inr h" "check = None"
        "keyRowOf (expireKey E tenant key db) tenant key = None"
        "work tenant (expireKey E tenant key db) = Inr (db2, x, Some b, event)"
        "auditAppend (slAudit L) (stAudit E) (stNow E) event (sdAudit db2) = Inr (audit, hh)"
        "db' = db2\<lparr>sdKeys := sdKeys db2 @ [\<lparr>kyTenant = tenant, kyKey = key, kyHash = h, kyBody = slJsonb L b,
           kyExpires = stNow E + keyLifetime\<rparr>], sdAudit := audit\<rparr>" "\<forall>y. r = Inr y \<longrightarrow> y = (x, False)"
proof -
  consider "db' = db" "\<forall>x. r \<noteq> Inr x"
    | tenant h where "slUUID L tenantID = Some tenant" "hash = Inr h" "check = None" "answerKeyed L E tenant key h decode work db = (db', r)"
    using assms unfolding keyedCreate_def
    by (auto simp: beginStore_def split: option.split_asm sum.split_asm if_split_asm)
  then consider "db' = db" "\<forall>x. r \<noteq> Inr x"
    | tenant h row x where "slUUID L tenantID = Some tenant" "hash = Inr h"
        "keyRowOf (expireKey E tenant key db) tenant key = Some row" "kyHash row = h" "decode (kyBody row) = Inr x"
        "commitStore E db (expireKey E tenant key db) (x, True) = (db', r)"
    | tenant h db2 x body event where "slUUID L tenantID = Some tenant" "hash = Inr h" "check = None"
        "keyRowOf (expireKey E tenant key db) tenant key = None"
        "work tenant (expireKey E tenant key db) = Inr (db2, x, body, event)"
        "finishKeyed L E tenant key h db (db2, x, body, event) = (db', r)"
    unfolding answerKeyed_def by cases (auto split: option.split_asm sum.split_asm if_split_asm)
  then show ?thesis
  proof cases
    case 1
    then show ?thesis by (rule failed)
  next
    case (2 tenant h row x)
    from commitStore_cases [OF 2(6)] show ?thesis using failed replay [OF 2(1-5)] by blast
  next
    case (3 tenant h db2 x body event)
    from finishKeyed_cases [OF 3(6)] show ?thesis using failed stored [OF 3(1-4)] 3(5) by blast
  qed
qed

section \<open>The interface\<close>

definition storedKey :: "(bytes \<Rightarrow> 'e storeError + 'r) \<Rightarrow> 'd storeDB_scheme \<Rightarrow> string option \<times> string \<Rightarrow>
    (string \<times> ('e storeError + 'r)) option" where
  "storedKey decode db k = (case fst k of None \<Rightarrow> None
     | Some tenant \<Rightarrow> map_option (\<lambda>row. (kyHash row, decode (kyBody row))) (keyRowOf db tenant (snd k)))"

text \<open>The states and the calls of a period of less than a day that ends at \<open>horizon\<close>.\<close>

definition keysOutlive :: "gotime \<Rightarrow> 'd storeDB_scheme \<Rightarrow> bool" where
  "keysOutlive horizon db \<longleftrightarrow> (\<forall>row \<in> set (sdKeys db). horizon < kyExpires row)"

definition withinDay :: "gotime \<Rightarrow> storeEnv \<Rightarrow> bool" where
  "withinDay horizon E \<longleftrightarrow> stNow E \<le> horizon \<and> horizon < stNow E + keyLifetime"

lemma expireKey_none:
  assumes "keysOutlive horizon db" "withinDay horizon E"
  shows "expireKey E tenant key db = db"
proof -
  have "filter (\<lambda>r. \<not> (kyTenant r = tenant \<and> kyKey r = key \<and> kyExpires r \<le> stNow E)) (sdKeys db) = sdKeys db"
    using assms by (intro filter_True) (auto simp: keysOutlive_def withinDay_def)
  then show ?thesis by (simp add: expireKey_def)
qed

lemma storedKey_snoc:
  assumes "storedKey decode db (Some tenant, key) = None" "sdKeys db' = sdKeys db @ [row]" "kyTenant row = tenant" "kyKey row = key"
  shows "storedKey decode db' = (storedKey decode db)((Some tenant, key) \<mapsto> (kyHash row, decode (kyBody row)))"
proof
  fix k :: "string option \<times> string"
  show "storedKey decode db' k = ((storedKey decode db)((Some tenant, key) \<mapsto> (kyHash row, decode (kyBody row)))) k"
    using assms by (cases k) (auto simp: storedKey_def keyRowOf_def find_snoc split: option.splits)
qed

locale keyed_create =
  fixes L :: "('j, 'm) storeLib_scheme"
    and tenantOf :: "'c \<Rightarrow> string" and keyOf :: "'c \<Rightarrow> string"
    and checkOf :: "'c \<Rightarrow> 'e storeError option" and hashOf :: "'c \<Rightarrow> 'e storeError + string"
    and decode :: "bytes \<Rightarrow> 'e storeError + 'r"
    and work :: "storeEnv \<Rightarrow> 'c \<Rightarrow> string \<Rightarrow> 'd storeDB_scheme \<Rightarrow> 'e storeError + 'd storeDB_scheme \<times> 'r \<times> bytes option \<times> 'j AuditEvent"
    and codec :: bool and horizon :: gotime
  assumes work_keys: "work E c tenant db = Inr (db', x, body, event) \<Longrightarrow> sdKeys db' = sdKeys db"
    and work_answer: "codec \<Longrightarrow> work E c tenant db = Inr (db', x, Some b, event) \<Longrightarrow> decode (slJsonb L b) = Inr x"

sublocale keyed_create < keyed: retained_calls
  "\<lambda>E c. keyedCreate L E (tenantOf c) (keyOf c) (checkOf c) (hashOf c) decode (work E c)"
  "\<lambda>c. (slUUID L (tenantOf c), keyOf c)" "\<lambda>c. case hashOf c of Inl _ \<Rightarrow> [] | Inr h \<Rightarrow> h" "\<lambda>x. Inr (fst x)" snd
  "storedKey decode" "\<lambda>db. codec \<and> keysOutlive horizon db" "withinDay horizon"
proof (unfold_locales, goal_cases)
  case (1 db E c db' r)
  note same = expireKey_none [OF conjunct2 [OF 1(1)] 1(2)]
  show ?case
  proof (rule keyedCreate_cases [OF 1(3)], goal_cases)
    case (3 tenant h db2 x b event audit hh)
    have "sdKeys db2 = sdKeys db" using work_keys [OF 3(5)] by (simp add: same)
    with 3(7) 1(1,2) show ?case by (auto simp: keysOutlive_def withinDay_def)
  qed (use 1(1) same in simp_all)
next
  case (2 db E c db' r h v)
  note same = expireKey_none [OF conjunct2 [OF 2(1)] 2(2)]
  show ?case
  proof (rule keyedCreate_cases [OF 2(3)], goal_cases)
    case (2 tenant h' row x)
    with \<open>storedKey decode db _ = _\<close> show ?case by (auto simp: storedKey_def same)
  next
    case (3 tenant h' db2 x b event audit hh)
    with \<open>storedKey decode db _ = _\<close> show ?case by (simp add: storedKey_def same)
  qed simp_all
next
  case (3 db E c db' r)
  note same = expireKey_none [OF conjunct2 [OF 3(1)] 3(2)]
  show ?case
  proof (rule keyedCreate_cases [OF 3(3)], goal_cases)
    case (2 tenant h row x)
    with 3(4) show ?case by (simp add: storedKey_def same)
  next
    case (3 tenant h db2 x b event audit hh)
    have "sdKeys db2 = sdKeys db" using work_keys [OF 3(5)] by (simp add: same)
    then have "storedKey decode db' = (storedKey decode db)((Some tenant, keyOf c) \<mapsto> (h, decode (slJsonb L b)))"
      using storedKey_snoc [of decode db tenant "keyOf c" db' "\<lparr>kyTenant = tenant, kyKey = keyOf c, kyHash = h,
          kyBody = slJsonb L b, kyExpires = stNow E + keyLifetime\<rparr>"] \<open>storedKey decode db _ = None\<close> 3(1,7) by simp
    moreover have "decode (slJsonb L b) = Inr x" using work_answer [OF _ 3(5)] \<open>codec \<and> _\<close> by simp
    ultimately show ?case using 3(1,2,8) by (intro disjI2 exI [of _ "Inr x"]) auto
  qed simp_all
qed

end
