(* ===== verification/Camera_Registry.thy ===== *)
theory Camera_Registry
  imports Keyed_Store
begin

text \<open>
  The camera registry, \<open>backend/internal/device/repository.go\<close> and \<open>postgres_repository.go\<close>: cameras with a
  lifecycle and an optimistic version. JSON and the database's \<open>upper\<close> are fields of \<open>cameraLib\<close>.
\<close>

section \<open>Data\<close>

record Camera =
  caID :: string
  caTenantID :: string
  caSiteID :: string
  caSerialNumber :: string
  caName :: string
  caGroupName :: string
  caTags :: "string list"
  caLifecycleStatus :: string
  caConfigVersion :: int
  caCreatedAt :: gotime
  caUpdatedAt :: gotime

record CreateCameraCommand =
  kcTenantID :: string
  kcActorID :: string
  kcRequestID :: string
  kcIdempotencyKey :: string
  kcSiteID :: string
  kcSerialNumber :: string
  kcName :: string
  kcGroupName :: string
  kcTags :: "string list"

record UpdateCameraCommand =
  kuTenantID :: string
  kuActorID :: string
  kuRequestID :: string
  kuCameraID :: string
  kuExpectedVersion :: int
  kuName :: "string option"
  kuGroupName :: "string option"
  kuTags :: "string list option"
  kuLifecycleStatus :: "string option"

record RetireCameraCommand =
  krTenantID :: string
  krActorID :: string
  krRequestID :: string
  krCameraID :: string

datatype cameraError =
  ErrCameraNotFound | CamSiteNotFound | ErrSerialConflict | CamVersionConflict | ErrLifecycleConflict | CamWriteFailed

record 'j cameraLib = "'j storeLib" +
  klEncodeRequest :: "string \<times> string \<times> string \<times> string \<times> string list \<Rightarrow> bytes option"
  klEncode :: "Camera \<Rightarrow> bytes option"
  klDecode :: "bytes \<Rightarrow> Camera option"
  klAny :: "Camera \<Rightarrow> 'j"
  klSqlUpper :: "string \<Rightarrow> string"

record cameraDB = storeDB +
  cbCameras :: "Camera list"

section \<open>Normalization and transitions\<close>

definition normalizeSerial :: "(string \<Rightarrow> string) \<Rightarrow> string \<Rightarrow> string" where
  "normalizeSerial uni v = toUpper uni (trimSpace v)"

fun collectTags :: "(string \<Rightarrow> string) \<Rightarrow> string list \<Rightarrow> string list \<Rightarrow> string list" where
  "collectTags uni [] result = result"
| "collectTags uni (v # vs) result =
     (let tag = toLower uni (trimSpace v) in
      if tag = [] \<or> tag \<in> set result then collectTags uni vs result else collectTags uni vs (result @ [tag]))"

definition normalizeTags :: "(string \<Rightarrow> string) \<Rightarrow> string list \<Rightarrow> string list" where
  "normalizeTags uni values = sort (collectTags uni values [])"

definition canTransition :: "string \<Rightarrow> string \<Rightarrow> bool" where
  "canTransition from to =
     (if from = to then True
      else if from = ''pending'' then to = ''active'' \<or> to = ''retired''
      else if from = ''active'' then to = ''offline'' \<or> to = ''retired''
      else if from = ''offline'' then to = ''active'' \<or> to = ''retired''
      else False)"

definition sameMutableState :: "Camera \<Rightarrow> Camera \<Rightarrow> bool" where
  "sameMutableState left right \<longleftrightarrow>
     caName left = caName right \<and> caGroupName left = caGroupName right \<and>
     caLifecycleStatus left = caLifecycleStatus right \<and> caTags left = caTags right"

definition applyUpdate :: "(string \<Rightarrow> string) \<Rightarrow> Camera \<Rightarrow> UpdateCameraCommand \<Rightarrow> (Camera \<times> bool) option" where
  "applyUpdate uni current command =
     (let next = current\<lparr>
            caName := (case kuName command of None \<Rightarrow> caName current | Some v \<Rightarrow> trimSpace v),
            caGroupName := (case kuGroupName command of None \<Rightarrow> caGroupName current | Some v \<Rightarrow> trimSpace v),
            caTags := (case kuTags command of None \<Rightarrow> caTags current | Some v \<Rightarrow> normalizeTags uni v)\<rparr> in
      (case kuLifecycleStatus command of
         None \<Rightarrow> Some (next, \<not> sameMutableState current next)
       | Some v \<Rightarrow>
           let status = trimSpace v; next' = next\<lparr>caLifecycleStatus := status\<rparr> in
           if \<not> canTransition (caLifecycleStatus current) status then None
           else Some (next', \<not> sameMutableState current next')))"

definition hashCreateCamera :: "'j cameraLib \<Rightarrow> CreateCameraCommand \<Rightarrow> cameraError storeError + string" where
  "hashCreateCamera L command =
     (case klEncodeRequest L (kcSiteID command, normalizeSerial (slUpper L) (kcSerialNumber command), trimSpace (kcName command),
         trimSpace (kcGroupName command), normalizeTags (slLower L) (kcTags command)) of
        None \<Rightarrow> Inl StEncode
      | Some payload \<Rightarrow> Inr (hexEncode (slSha L payload)))"

section \<open>The PostgreSQL repository\<close>

definition classifyCameraWrite :: "string \<Rightarrow> cameraError" where
  "classifyCameraWrite code =
     (if code = ''23503'' then CamSiteNotFound else if code = ''23505'' then ErrSerialConflict else CamWriteFailed)"

definition newCamera :: "'j cameraLib \<Rightarrow> storeEnv \<Rightarrow> CreateCameraCommand \<Rightarrow> Camera" where
  "newCamera L E command =
     \<lparr>caID = stID E, caTenantID = kcTenantID command, caSiteID = kcSiteID command,
      caSerialNumber = normalizeSerial (slUpper L) (kcSerialNumber command), caName = kcName command,
      caGroupName = kcGroupName command, caTags = normalizeTags (slLower L) (kcTags command),
      caLifecycleStatus = ''pending'', caConfigVersion = 1, caCreatedAt = stNow E, caUpdatedAt = stNow E\<rparr>"

text \<open>\<open>INSERT INTO config.cameras\<close> with its keys; \<open>stFails\<close> stands for every other failure.\<close>

definition insertCamera :: "'j cameraLib \<Rightarrow> storeEnv \<Rightarrow> string \<Rightarrow> string \<Rightarrow> Camera \<Rightarrow> cameraDB \<Rightarrow> string + Camera" where
  "insertCamera L E tenant site camera db =
     (case stFails E StInsert of
        Some code \<Rightarrow> Inl code
      | None \<Rightarrow>
          if \<exists>c \<in> set (cbCameras db). caID c = caID camera \<or>
               (caTenantID c = tenant \<and> klSqlUpper L (caSerialNumber c) = klSqlUpper L (caSerialNumber camera))
          then Inl ''23505''
          else if \<not> (\<exists>s \<in> set (sdSites db). siTenantID s = tenant \<and> siID s = site) then Inl ''23503''
          else Inr (camera\<lparr>caTenantID := tenant, caSiteID := site\<rparr>))"

definition cameraAudit :: "'j cameraLib \<Rightarrow> string \<Rightarrow> string \<Rightarrow> string \<Rightarrow> string \<Rightarrow> 'j \<Rightarrow> Camera \<Rightarrow> gotime \<Rightarrow> 'j AuditEvent" where
  "cameraAudit L tenant actor action request before camera occurred =
     \<lparr>aeTenantID = tenant, aeActorID = actor, aeAction = action, aeResourceType = ''camera'', aeResourceID = caID camera,
      aeRequestID = request, aeBeforeState = before, aeAfterState = klAny L camera, aeOccurredAt = occurred\<rparr>"

definition cameraWork ::
  "'j cameraLib \<Rightarrow> storeEnv \<Rightarrow> CreateCameraCommand \<Rightarrow> string \<Rightarrow> cameraDB \<Rightarrow>
     cameraError storeError + cameraDB \<times> Camera \<times> bytes option \<times> 'j AuditEvent" where
  "cameraWork L E command tenant db =
     (case slUUID L (kcSiteID command) of
        None \<Rightarrow> Inl (StDatabase StSite)
      | Some site \<Rightarrow>
          if stFails E StSite \<noteq> None then Inl (StDatabase StSite)
          else if \<not> siteOpen db tenant site then Inl (Domain CamSiteNotFound)
          else
            let camera = newCamera L E command in
            (case insertCamera L E tenant site camera db of
               Inl code \<Rightarrow> Inl (Domain (classifyCameraWrite code))
             | Inr row \<Rightarrow>
                 Inr (db\<lparr>cbCameras := cbCameras db @ [row]\<rparr>, camera, klEncode L camera,
                   cameraAudit L (kcTenantID command) (kcActorID command) ''camera.created'' (kcRequestID command) (slNil L)
                     camera (caCreatedAt camera))))"

definition decodeCamera :: "'j cameraLib \<Rightarrow> bytes \<Rightarrow> cameraError storeError + Camera" where
  "decodeCamera L b = (case klDecode L b of None \<Rightarrow> Inl StDecode | Some camera \<Rightarrow> Inr camera)"

definition CreateCamera ::
  "'j cameraLib \<Rightarrow> storeEnv \<Rightarrow> CreateCameraCommand \<Rightarrow> cameraDB \<Rightarrow> cameraDB \<times> (cameraError storeError + Camera \<times> bool)" where
  "CreateCamera L E command db =
     keyedCreate L E (kcTenantID command) (kcIdempotencyKey command) None (hashCreateCamera L command) (decodeCamera L)
       (cameraWork L E command) db"

definition cameraByID :: "cameraDB \<Rightarrow> string \<Rightarrow> string \<Rightarrow> Camera option" where
  "cameraByID db tenant i = find (\<lambda>c. caTenantID c = tenant \<and> caID c = i) (cbCameras db)"

definition putCamera :: "cameraDB \<Rightarrow> Camera \<Rightarrow> cameraDB" where
  "putCamera db next = db\<lparr>cbCameras := map (\<lambda>c. if caID c = caID next then next else c) (cbCameras db)\<rparr>"

text \<open>The row that \<open>SELECT ... FOR UPDATE\<close> gives: an error, none, or a camera.\<close>

definition selectCameraForUpdate ::
  "'j cameraLib \<Rightarrow> storeEnv \<Rightarrow> string \<Rightarrow> string \<Rightarrow> cameraDB \<Rightarrow> cameraError storeError + Camera option" where
  "selectCameraForUpdate L E tenant cameraID db =
     (case slUUID L cameraID of
        None \<Rightarrow> Inl (StDatabase StRead)
      | Some i \<Rightarrow> if stFails E StRead \<noteq> None then Inl (StDatabase StRead) else Inr (cameraByID db tenant i))"

text \<open>The writing statement increments the version, audits, and commits.\<close>

definition writeCamera ::
  "'j cameraLib \<Rightarrow> storeEnv \<Rightarrow> string \<Rightarrow> string \<Rightarrow> string \<Rightarrow> string \<Rightarrow> Camera \<Rightarrow> Camera \<Rightarrow> cameraDB \<Rightarrow>
     cameraDB \<times> (cameraError storeError + Camera)" where
  "writeCamera L E tenantID actor request action current next db =
     (let written = next\<lparr>caConfigVersion := caConfigVersion current + 1, caUpdatedAt := stNow E\<rparr> in
      (case stFails E StUpdate of
         Some code \<Rightarrow> (db, Inl (Domain (classifyCameraWrite code)))
       | None \<Rightarrow>
           if caConfigVersion current \<ge> maxInt64 then (db, Inl (Domain (classifyCameraWrite ''22003'')))
           else
             (case auditAppend (slAudit L) (stAudit E) (stNow E)
                 (cameraAudit L tenantID actor action request (klAny L current) written (caUpdatedAt written)) (sdAudit db) of
                Inl err \<Rightarrow> (db, Inl (StAuditError err))
              | Inr (audit, _) \<Rightarrow> commitStore E db ((putCamera db written)\<lparr>sdAudit := audit\<rparr>) written)))"

definition UpdateCamera ::
  "'j cameraLib \<Rightarrow> storeEnv \<Rightarrow> UpdateCameraCommand \<Rightarrow> cameraDB \<Rightarrow> cameraDB \<times> (cameraError storeError + Camera)" where
  "UpdateCamera L E command db =
     (case beginStore L E (kuTenantID command) of
        Inl err \<Rightarrow> (db, Inl err)
      | Inr tenant \<Rightarrow>
          (case selectCameraForUpdate L E tenant (kuCameraID command) db of
             Inl err \<Rightarrow> (db, Inl err)
           | Inr None \<Rightarrow> (db, Inl (Domain ErrCameraNotFound))
           | Inr (Some current) \<Rightarrow>
               if caLifecycleStatus current = ''retired'' then (db, Inl (Domain ErrCameraNotFound))
               else if caConfigVersion current \<noteq> kuExpectedVersion command then (db, Inl (Domain CamVersionConflict))
               else
                 (case applyUpdate (slLower L) current command of
                    None \<Rightarrow> (db, Inl (Domain ErrLifecycleConflict))
                  | Some (next, changed) \<Rightarrow>
                      if \<not> changed then commitStore E db db current
                      else writeCamera L E (kuTenantID command) (kuActorID command) (kuRequestID command) ''camera.updated''
                        current next db)))"

definition RetireCamera ::
  "'j cameraLib \<Rightarrow> storeEnv \<Rightarrow> RetireCameraCommand \<Rightarrow> cameraDB \<Rightarrow> cameraDB \<times> (cameraError storeError + Camera)" where
  "RetireCamera L E command db =
     (case beginStore L E (krTenantID command) of
        Inl err \<Rightarrow> (db, Inl err)
      | Inr tenant \<Rightarrow>
          (case selectCameraForUpdate L E tenant (krCameraID command) db of
             Inl err \<Rightarrow> (db, Inl err)
           | Inr None \<Rightarrow> (db, Inl (Domain ErrCameraNotFound))
           | Inr (Some current) \<Rightarrow>
               if caLifecycleStatus current = ''retired'' then commitStore E db db current
               else writeCamera L E (krTenantID command) (krActorID command) (krRequestID command) ''camera.retired'' current
                 (current\<lparr>caLifecycleStatus := ''retired''\<rparr>) db))"

definition ListCameras ::
  "'j cameraLib \<Rightarrow> storeEnv \<Rightarrow> string \<Rightarrow> string \<Rightarrow> cameraDB \<Rightarrow> cameraError storeError + Camera list" where
  "ListCameras L E tenantID siteID db =
     (case beginStore L E tenantID of
        Inl err \<Rightarrow> Inl err
      | Inr tenant \<Rightarrow>
          if siteID \<noteq> [] \<and> \<not> slParses L siteID then Inl StTenant
          else if stFails E StRead \<noteq> None \<or> (siteID \<noteq> [] \<and> slUUID L siteID = None) then Inl (StDatabase StRead)
          else if stFails E StCommit \<noteq> None then Inl (StDatabase StCommit)
          else Inr (take 500 (sortSlice (\<lambda>a b. caID a < caID b)
            (filter (\<lambda>c. caTenantID c = tenant \<and> caLifecycleStatus c \<noteq> ''retired'' \<and>
               (siteID = [] \<or> Some (caSiteID c) = slUUID L siteID)) (cbCameras db)))))"

definition GetCamera ::
  "'j cameraLib \<Rightarrow> storeEnv \<Rightarrow> string \<Rightarrow> string \<Rightarrow> cameraDB \<Rightarrow> cameraError storeError + Camera" where
  "GetCamera L E tenantID cameraID db =
     (case beginStore L E tenantID of
        Inl err \<Rightarrow> Inl err
      | Inr tenant \<Rightarrow>
          (case selectCameraForUpdate L E tenant cameraID db of
             Inl err \<Rightarrow> Inl err
           | Inr None \<Rightarrow> Inl (Domain ErrCameraNotFound)
           | Inr (Some c) \<Rightarrow>
               if caLifecycleStatus c = ''retired'' then Inl (Domain ErrCameraNotFound)
               else if stFails E StCommit \<noteq> None then Inl (StDatabase StCommit)
               else Inr c))"

section \<open>The memory repository\<close>

record cameraMemory =
  mcCameras :: "Camera list"
  mcKeys :: "string \<rightharpoonup> string \<times> Camera"

fun findCamera :: "Camera list \<Rightarrow> string \<Rightarrow> string \<Rightarrow> nat option" where
  "findCamera [] tenant i = None"
| "findCamera (c # cs) tenant i =
     (if caTenantID c = tenant \<and> caID c = i then Some 0 else map_option Suc (findCamera cs tenant i))"

definition MemoryListCameras :: "string \<Rightarrow> string \<Rightarrow> cameraMemory \<Rightarrow> Camera list" where
  "MemoryListCameras tenant site m =
     sortSlice (\<lambda>a b. caID a < caID b)
       (filter (\<lambda>c. caTenantID c = tenant \<and> caLifecycleStatus c \<noteq> ''retired'' \<and> (site = [] \<or> caSiteID c = site)) (mcCameras m))"

definition MemoryGetCamera :: "string \<Rightarrow> string \<Rightarrow> cameraMemory \<Rightarrow> cameraError storeError + Camera" where
  "MemoryGetCamera tenant cameraID m =
     (case findCamera (mcCameras m) tenant cameraID of
        None \<Rightarrow> Inl (Domain ErrCameraNotFound)
      | Some k \<Rightarrow> if caLifecycleStatus (mcCameras m ! k) = ''retired'' then Inl (Domain ErrCameraNotFound) else Inr (mcCameras m ! k))"

definition MemoryCreateCamera ::
  "'j cameraLib \<Rightarrow> storeEnv \<Rightarrow> CreateCameraCommand \<Rightarrow> cameraMemory \<Rightarrow> cameraMemory \<times> (cameraError storeError + Camera \<times> bool)" where
  "MemoryCreateCamera L E command m =
     (case hashCreateCamera L command of
        Inl err \<Rightarrow> (m, Inl err)
      | Inr hash \<Rightarrow>
          let key = kcTenantID command @ '':'' @ kcIdempotencyKey command in
          (case mcKeys m key of
             Some (stored, camera) \<Rightarrow> if stored \<noteq> hash then (m, Inl ErrIdempotencyConflict) else (m, Inr (camera, True))
           | None \<Rightarrow>
               if \<exists>c \<in> set (mcCameras m). caTenantID c = kcTenantID command \<and>
                    normalizeSerial (slUpper L) (caSerialNumber c) = normalizeSerial (slUpper L) (kcSerialNumber command)
               then (m, Inl (Domain ErrSerialConflict))
               else
                 let camera = (newCamera L E command)\<lparr>caName := trimSpace (kcName command), caGroupName := trimSpace (kcGroupName command)\<rparr> in
                 (m\<lparr>mcCameras := mcCameras m @ [camera], mcKeys := (mcKeys m)(key \<mapsto> (hash, camera))\<rparr>, Inr (camera, False))))"

definition MemoryUpdateCamera ::
  "'j cameraLib \<Rightarrow> storeEnv \<Rightarrow> UpdateCameraCommand \<Rightarrow> cameraMemory \<Rightarrow> cameraMemory \<times> (cameraError storeError + Camera)" where
  "MemoryUpdateCamera L E command m =
     (case findCamera (mcCameras m) (kuTenantID command) (kuCameraID command) of
        None \<Rightarrow> (m, Inl (Domain ErrCameraNotFound))
      | Some k \<Rightarrow>
          let current = mcCameras m ! k in
          if caLifecycleStatus current = ''retired'' then (m, Inl (Domain ErrCameraNotFound))
          else if caConfigVersion current \<noteq> kuExpectedVersion command then (m, Inl (Domain CamVersionConflict))
          else
            (case applyUpdate (slLower L) current command of
               None \<Rightarrow> (m, Inl (Domain ErrLifecycleConflict))
             | Some (next, changed) \<Rightarrow>
                 if \<not> changed then (m, Inr next)
                 else
                   let written = next\<lparr>caConfigVersion := wrap64 (caConfigVersion next + 1), caUpdatedAt := stNow E\<rparr> in
                   (m\<lparr>mcCameras := (mcCameras m)[k := written]\<rparr>, Inr written)))"

definition MemoryRetireCamera ::
  "storeEnv \<Rightarrow> RetireCameraCommand \<Rightarrow> cameraMemory \<Rightarrow> cameraMemory \<times> (cameraError storeError + Camera)" where
  "MemoryRetireCamera E command m =
     (case findCamera (mcCameras m) (krTenantID command) (krCameraID command) of
        None \<Rightarrow> (m, Inl (Domain ErrCameraNotFound))
      | Some k \<Rightarrow>
          let camera = mcCameras m ! k in
          if caLifecycleStatus camera = ''retired'' then (m, Inr camera)
          else
            let written = camera\<lparr>caLifecycleStatus := ''retired'', caConfigVersion := wrap64 (caConfigVersion camera + 1),
                  caUpdatedAt := stNow E\<rparr> in
            (m\<lparr>mcCameras := (mcCameras m)[k := written]\<rparr>, Inr written))"

section \<open>Idempotent creation\<close>

definition cameraCodec :: "'j cameraLib \<Rightarrow> bool" where
  "cameraCodec L \<longleftrightarrow> (\<forall>c b. klEncode L c = Some b \<longrightarrow> klDecode L (slJsonb L b) = Some c)"

lemma cameraWork_Inr:
  assumes "cameraWork L E c tenant db = Inr (db', x, body, event)"
  shows "\<exists>site. db' = db\<lparr>cbCameras := cbCameras db @ [x\<lparr>caTenantID := tenant, caSiteID := site\<rparr>]\<rparr> \<and> x = newCamera L E c \<and>
    body = klEncode L x \<and> siteOpen db tenant site \<and> aeResourceID event = caID x \<and> aeAction event = ''camera.created'' \<and>
    (\<forall>k \<in> set (cbCameras db). caID k \<noteq> caID x \<and>
      (caTenantID k = tenant \<longrightarrow> klSqlUpper L (caSerialNumber k) \<noteq> klSqlUpper L (caSerialNumber x)))"
  using assms
  by (auto simp: cameraWork_def insertCamera_def cameraAudit_def Let_def split: option.splits sum.splits if_splits)

interpretation cameraCreate: keyed_create L kcTenantID kcIdempotencyKey "\<lambda>_. None" "hashCreateCamera L" "decodeCamera L" "cameraWork L"
  "cameraCodec L" horizon for L horizon
  by unfold_locales (auto dest!: cameraWork_Inr simp: cameraCodec_def decodeCamera_def)

definition memoryCameraKey :: "CreateCameraCommand \<Rightarrow> string" where
  "memoryCameraKey c = kcTenantID c @ '':'' @ kcIdempotencyKey c"

interpretation memoryCamera: idempotent_calls "MemoryCreateCamera L" memoryCameraKey
  "\<lambda>c. case hashCreateCamera L c of Inl _ \<Rightarrow> [] | Inr h \<Rightarrow> h" fst snd mcKeys for L
  by unfold_locales (auto simp: MemoryCreateCamera_def memoryCameraKey_def Let_def split: sum.splits option.splits if_splits)

section \<open>The life of a camera\<close>

definition validStatus :: "string \<Rightarrow> bool" where
  "validStatus s \<longleftrightarrow> s \<in> {''pending'', ''active'', ''offline'', ''retired''}"

text \<open>A camera is unchanged, or moves to its next version along an allowed transition.\<close>

definition evolves :: "Camera \<Rightarrow> Camera \<Rightarrow> bool" where
  "evolves c c' \<longleftrightarrow> c' = c \<or>
     (caID c' = caID c \<and> caTenantID c' = caTenantID c \<and> caSiteID c' = caSiteID c \<and> caSerialNumber c' = caSerialNumber c \<and>
      caCreatedAt c' = caCreatedAt c \<and> caConfigVersion c' = caConfigVersion c + 1 \<and> caLifecycleStatus c \<noteq> ''retired'' \<and>
      canTransition (caLifecycleStatus c) (caLifecycleStatus c'))"

definition cameraInv :: "'j cameraLib \<Rightarrow> cameraDB \<Rightarrow> bool" where
  "cameraInv L db \<longleftrightarrow> distinct (map caID (cbCameras db)) \<and>
     distinct (map (\<lambda>c. (caTenantID c, klSqlUpper L (caSerialNumber c))) (cbCameras db)) \<and>
     (\<forall>c \<in> set (cbCameras db). validStatus (caLifecycleStatus c) \<and> 1 \<le> caConfigVersion c \<and> caConfigVersion c \<le> maxInt64)"

text \<open>What a transaction does: nothing, or one audited change of one camera.\<close>

definition cameraChange :: "cameraDB \<Rightarrow> cameraDB \<Rightarrow> bool" where
  "cameraChange db db' \<longleftrightarrow>
     (cbCameras db' = cbCameras db \<and> sdAudit db' = sdAudit db) \<or>
     (\<exists>rec. sdAudit db' = sdAudit db @ [rec] \<and>
       ((\<exists>c. cbCameras db' = cbCameras db @ [c] \<and> arAction rec = ''camera.created'' \<and> arResourceID rec = caID c \<and>
           caConfigVersion c = 1 \<and> caLifecycleStatus c = ''pending'') \<or>
        (\<exists>c c'. c \<in> set (cbCameras db) \<and> evolves c c' \<and> c' \<noteq> c \<and> caConfigVersion c < maxInt64 \<and> arResourceID rec = caID c \<and>
           cbCameras db' = map (\<lambda>x. if caID x = caID c then c' else x) (cbCameras db))))"

lemma auditAppend_row_of:
  assumes "auditAppend L fails now event db = Inr (db', h)"
  shows "\<exists>r. db' = db @ [r] \<and> arAction r = aeAction event \<and> arResourceID r = aeResourceID event \<and> arActorID r = aeActorID event"
  using assms by (auto simp: auditAppend_def Let_def split: if_splits option.splits)

lemma CreateCamera_change:
  assumes "CreateCamera L E c db = (db', r)"
  shows "cameraChange db db' \<and> (cameraInv L db \<longrightarrow> cameraInv L db')"
proof (rule keyedCreate_cases [OF assms [unfolded CreateCamera_def]], goal_cases)
  case 1
  then show ?case by (simp add: cameraChange_def)
next
  case (2 tenant h row x)
  then show ?case by (simp add: cameraChange_def cameraInv_def expireKey_def)
next
  case (3 tenant h db2 x b event audit hh)
  from cameraWork_Inr [OF 3(5)] obtain site where w: "cbCameras db2 = cbCameras db @ [x\<lparr>caTenantID := tenant, caSiteID := site\<rparr>]"
      "sdAudit db2 = sdAudit db" "x = newCamera L E c" "aeResourceID event = caID x" "aeAction event = ''camera.created''"
      "\<forall>k \<in> set (cbCameras db). caID k \<noteq> caID x \<and>
        (caTenantID k = tenant \<longrightarrow> klSqlUpper L (caSerialNumber k) \<noteq> klSqlUpper L (caSerialNumber x))"
    by (auto simp: expireKey_def)
  from auditAppend_row_of [OF 3(6)] w(2,4,5) obtain rec where
    "audit = sdAudit db @ [rec]" "arAction rec = ''camera.created''" "arResourceID rec = caID x" by auto
  with 3(7) w(1,3) have "cameraChange db db'" by (auto simp: cameraChange_def newCamera_def)
  moreover have "cameraInv L db'" if "cameraInv L db"
    using that w 3(7) by (auto simp: cameraInv_def newCamera_def validStatus_def maxInt64_def)
  ultimately show ?case by simp
qed

lemma canTransition_valid: "validStatus s \<Longrightarrow> canTransition s t \<Longrightarrow> validStatus t"
  by (auto simp: validStatus_def canTransition_def split: if_splits)

lemma evolvesI:
  "caID c' = caID c \<Longrightarrow> caTenantID c' = caTenantID c \<Longrightarrow> caSiteID c' = caSiteID c \<Longrightarrow> caSerialNumber c' = caSerialNumber c \<Longrightarrow>
   caCreatedAt c' = caCreatedAt c \<Longrightarrow> caConfigVersion c' = caConfigVersion c + 1 \<Longrightarrow> caLifecycleStatus c \<noteq> ''retired'' \<Longrightarrow>
   canTransition (caLifecycleStatus c) (caLifecycleStatus c') \<Longrightarrow> evolves c c'"
  by (simp add: evolves_def)

lemma evolves_fields: "evolves c c' \<Longrightarrow> caTenantID c' = caTenantID c" "evolves c c' \<Longrightarrow> caSerialNumber c' = caSerialNumber c"
    "evolves c c' \<Longrightarrow> caSiteID c' = caSiteID c" "evolves c c' \<Longrightarrow> caID c' = caID c"
  by (auto simp: evolves_def)

lemma canTransition_refl [simp]: "canTransition s s"
  by (simp add: canTransition_def)

lemma evolve_inv:
  assumes "cameraInv L db" "c \<in> set (cbCameras db)" "evolves c c'" "caConfigVersion c < maxInt64"
    "cbCameras db' = map (\<lambda>x. if caID x = caID c then c' else x) (cbCameras db)"
  shows "cameraInv L db'"
proof -
  have same: "(if caID x = caID c then c' else x) = x \<or> (x = c \<and> (if caID x = caID c then c' else x) = c')" if "x \<in> set (cbCameras db)" for x
    using assms(1,2) that by (auto simp: cameraInv_def distinct_map dest: inj_onD)
  have id: "map caID (cbCameras db') = map caID (cbCameras db)"
    unfolding assms(5) using assms(3) by (auto simp: evolves_def)
  have serial: "map (\<lambda>c. (caTenantID c, klSqlUpper L (caSerialNumber c))) (cbCameras db') =
      map (\<lambda>c. (caTenantID c, klSqlUpper L (caSerialNumber c))) (cbCameras db)"
    unfolding assms(5) map_map
  proof (rule map_cong [OF refl])
    fix x
    assume "x \<in> set (cbCameras db)"
    from same [OF this] show "((\<lambda>c. (caTenantID c, klSqlUpper L (caSerialNumber c))) \<circ> (\<lambda>x. if caID x = caID c then c' else x)) x =
        (caTenantID x, klSqlUpper L (caSerialNumber x))"
      by (elim disjE conjE) (simp_all only: o_apply evolves_fields [OF assms(3)])
  qed
  have "validStatus (caLifecycleStatus y) \<and> 1 \<le> caConfigVersion y \<and> caConfigVersion y \<le> maxInt64" if "y \<in> set (cbCameras db')" for y
  proof -
    from that obtain x where x: "x \<in> set (cbCameras db)" "y = (if caID x = caID c then c' else x)" by (auto simp: assms(5))
    have old: "validStatus (caLifecycleStatus x) \<and> 1 \<le> caConfigVersion x \<and> caConfigVersion x \<le> maxInt64"
      using assms(1) x(1) by (simp add: cameraInv_def)
    from same [OF x(1)] show ?thesis
    proof
      assume "x = c \<and> (if caID x = caID c then c' else x) = c'"
      with x(2) old assms(3,4) show ?thesis by (auto simp: evolves_def dest: canTransition_valid)
    qed (use x(2) old in simp)
  qed
  with assms(1) id serial show ?thesis by (simp add: cameraInv_def)
qed

lemma writeCamera_change:
  assumes "writeCamera L E t a q act current next db = (db', r)" "current \<in> set (cbCameras db)" "caID next = caID current"
    "evolves current (next\<lparr>caConfigVersion := caConfigVersion current + 1, caUpdatedAt := stNow E\<rparr>)"
  shows "cameraChange db db' \<and> (cameraInv L db \<longrightarrow> cameraInv L db') \<and>
    (\<forall>x. r = Inr x \<longrightarrow> x \<in> set (cbCameras db') \<and> caID x = caID current \<and> caConfigVersion x = caConfigVersion current + 1 \<and>
       caTenantID x = caTenantID current \<and> caSiteID x = caSiteID current)"
proof -
  define w where "w = next\<lparr>caConfigVersion := caConfigVersion current + 1, caUpdatedAt := stNow E\<rparr>"
  consider "db' = db" "\<forall>x. r \<noteq> Inr x"
    | audit hh where "caConfigVersion current < maxInt64"
      "auditAppend (slAudit L) (stAudit E) (stNow E) (cameraAudit L t a act q (klAny L current) w (caUpdatedAt w)) (sdAudit db) = Inr (audit, hh)"
      "commitStore E db ((putCamera db w)\<lparr>sdAudit := audit\<rparr>) w = (db', r)"
    using assms(1) by (auto simp: writeCamera_def Let_def simp flip: w_def split: option.splits if_splits sum.splits prod.splits)
  then show ?thesis
  proof cases
    case 1
    then show ?thesis by (simp add: cameraChange_def)
  next
    case (2 audit hh)
    have wid: "caID w = caID current" using assms(3) by (simp add: w_def)
    have "caConfigVersion w \<noteq> caConfigVersion current" by (simp add: w_def)
    then have ev: "evolves current w" "w \<noteq> current" using assms(4) unfolding w_def by metis+
    from auditAppend_row_of [OF 2(2)] obtain rec where rec: "audit = sdAudit db @ [rec]" "arResourceID rec = caID current"
      by (auto simp: cameraAudit_def wid)
    from commitStore_cases [OF 2(3)] show ?thesis
    proof
      assume c: "db' = (putCamera db w)\<lparr>sdAudit := audit\<rparr> \<and> (\<forall>y. r = Inr y \<longrightarrow> y = w)"
      have cams: "cbCameras db' = map (\<lambda>x. if caID x = caID current then w else x) (cbCameras db)"
        using c by (simp add: putCamera_def wid)
      have "cameraChange db db'" using c rec ev assms(2) 2(1) cams unfolding cameraChange_def by (intro disjI2 exI [of _ rec]) auto
      moreover have "cameraInv L db \<longrightarrow> cameraInv L db'" using evolve_inv [OF _ assms(2) ev(1) 2(1) cams] by blast
      moreover have "w \<in> set (cbCameras db')" using assms(2) by (auto simp: cams)
      moreover have "caConfigVersion w = caConfigVersion current + 1" by (simp add: w_def)
      ultimately show ?thesis using c wid evolves_fields [OF ev(1)] by blast
    qed (simp add: cameraChange_def)
  qed
qed

lemma cameraByID_Some: "cameraByID db tenant i = Some c \<Longrightarrow> c \<in> set (cbCameras db) \<and> caTenantID c = tenant \<and> caID c = i"
  by (auto simp: cameraByID_def find_Some_iff)

lemma select_Some:
  "selectCameraForUpdate L E tenant cameraID db = Inr (Some c) \<Longrightarrow>
     c \<in> set (cbCameras db) \<and> caTenantID c = tenant \<and> slUUID L cameraID = Some (caID c)"
  by (auto simp: selectCameraForUpdate_def split: option.splits if_splits dest: cameraByID_Some)

lemma applyUpdate_evolves:
  assumes "applyUpdate uni current command = Some (next, changed)" "caLifecycleStatus current \<noteq> ''retired''"
  shows "caID next = caID current \<and> evolves current (next\<lparr>caConfigVersion := caConfigVersion current + 1, caUpdatedAt := t\<rparr>)"
proof -
  have n: "caID next = caID current" "caTenantID next = caTenantID current" "caSiteID next = caSiteID current"
    "caSerialNumber next = caSerialNumber current" "caCreatedAt next = caCreatedAt current"
    using assms(1) by (auto simp: applyUpdate_def Let_def split: option.split_asm if_split_asm)
  have "canTransition (caLifecycleStatus current) (caLifecycleStatus next)"
    using assms(1) by (auto simp: applyUpdate_def Let_def split: option.split_asm if_split_asm)
  with n assms(2) show ?thesis by (intro conjI evolvesI) simp_all
qed

lemma UpdateCamera_cases:
  assumes "UpdateCamera L E c db = (db', r)"
  obtains (failed) "db' = db" "\<forall>x. r \<noteq> Inr x"
    | (found) tenant current nxt changed where "slUUID L (kuTenantID c) = Some tenant"
        "selectCameraForUpdate L E tenant (kuCameraID c) db = Inr (Some current)" "caLifecycleStatus current \<noteq> ''retired''"
        "caConfigVersion current = kuExpectedVersion c" "applyUpdate (slLower L) current c = Some (nxt, changed)"
        "(if \<not> changed then commitStore E db db current
          else writeCamera L E (kuTenantID c) (kuActorID c) (kuRequestID c) ''camera.updated'' current nxt db) = (db', r)"
  using assms unfolding UpdateCamera_def beginStore_def
  by (simp split: option.split_asm sum.split_asm if_split_asm prod.split_asm) blast+

lemma RetireCamera_cases:
  assumes "RetireCamera L E c db = (db', r)"
  obtains (failed) "db' = db" "\<forall>x. r \<noteq> Inr x"
    | (found) tenant current where "slUUID L (krTenantID c) = Some tenant" "selectCameraForUpdate L E tenant (krCameraID c) db = Inr (Some current)"
        "(if caLifecycleStatus current = ''retired'' then commitStore E db db current
          else writeCamera L E (krTenantID c) (krActorID c) (krRequestID c) ''camera.retired'' current (current\<lparr>caLifecycleStatus := ''retired''\<rparr>) db) = (db', r)"
  using assms unfolding RetireCamera_def beginStore_def
  by (simp split: option.split_asm sum.split_asm if_split_asm) blast+

lemma UpdateCamera_change:
  assumes "UpdateCamera L E c db = (db', r)"
  shows "cameraChange db db' \<and> (cameraInv L db \<longrightarrow> cameraInv L db') \<and>
    (\<forall>x. r = Inr x \<longrightarrow> (\<exists>k \<in> set (cbCameras db). slUUID L (kuCameraID c) = Some (caID k) \<and> slUUID L (kuTenantID c) = Some (caTenantID k) \<and>
       caConfigVersion k = kuExpectedVersion c \<and> caID x = caID k \<and> x \<in> set (cbCameras db') \<and>
       caTenantID x = caTenantID k \<and> caSiteID x = caSiteID k \<and> (x = k \<or> caConfigVersion x = caConfigVersion k + 1)))"
  using assms
proof (cases rule: UpdateCamera_cases)
  case failed
  then show ?thesis by (simp add: cameraChange_def)
next
  case (found tenant current nxt changed)
  note sel = select_Some [OF found(2)]
  note ev = applyUpdate_evolves [OF found(5,3), of "stNow E"]
  show ?thesis
  proof (cases changed)
    case True
    with found(6) have "writeCamera L E (kuTenantID c) (kuActorID c) (kuRequestID c) ''camera.updated'' current nxt db = (db', r)" by simp
    from writeCamera_change [OF this conjunct1 [OF sel] conjunct1 [OF ev] conjunct2 [OF ev]] sel found(1,4)
    show ?thesis by (intro conjI allI impI) (simp, simp, rule bexI [of _ current], auto)
  next
    case False
    with found(6) have "db' = db" "\<forall>x. r = Inr x \<longrightarrow> x = current" using commitStore_cases [of E db db current db' r] by auto
    with sel found(1,4) show ?thesis by (auto simp: cameraChange_def)
  qed
qed

lemma RetireCamera_change:
  assumes "RetireCamera L E c db = (db', r)" "cameraInv L db"
  shows "cameraChange db db' \<and> cameraInv L db' \<and>
    (\<forall>x. r = Inr x \<longrightarrow> (\<exists>k \<in> set (cbCameras db). slUUID L (krCameraID c) = Some (caID k) \<and> slUUID L (krTenantID c) = Some (caTenantID k) \<and>
       caTenantID x = caTenantID k \<and> caSiteID x = caSiteID k))"
  using assms(1)
proof (cases rule: RetireCamera_cases)
  case failed
  then show ?thesis using assms(2) by (simp add: cameraChange_def)
next
  case (found tenant current)
  note sel = select_Some [OF found(2)]
  show ?thesis
  proof (cases "caLifecycleStatus current = ''retired''")
    case True
    with found(3) have "db' = db" "\<forall>x. r = Inr x \<longrightarrow> x = current" using commitStore_cases [of E db db current db' r] by auto
    with sel found(1) assms(2) show ?thesis by (auto simp: cameraChange_def)
  next
    case False
    have "validStatus (caLifecycleStatus current)" using assms(2) sel by (simp add: cameraInv_def)
    then have ev: "evolves current ((current\<lparr>caLifecycleStatus := ''retired''\<rparr>)\<lparr>caConfigVersion := caConfigVersion current + 1, caUpdatedAt := stNow E\<rparr>)"
      using False by (intro evolvesI) (auto simp: canTransition_def validStatus_def)
    have "writeCamera L E (krTenantID c) (krActorID c) (krRequestID c) ''camera.retired'' current (current\<lparr>caLifecycleStatus := ''retired''\<rparr>) db = (db', r)"
      using found(3) False by simp
    from writeCamera_change [OF this conjunct1 [OF sel] _ ev] have
      w: "cameraChange db db'" "cameraInv L db'" "\<And>x. r = Inr x \<Longrightarrow> caTenantID x = caTenantID current \<and> caSiteID x = caSiteID current"
      using assms(2) by simp_all
    show ?thesis
    proof (intro conjI allI impI)
      fix x
      assume "r = Inr x"
      from w(3) [OF this] sel found(1)
      show "\<exists>k \<in> set (cbCameras db). slUUID L (krCameraID c) = Some (caID k) \<and> slUUID L (krTenantID c) = Some (caTenantID k) \<and>
          caTenantID x = caTenantID k \<and> caSiteID x = caSiteID k"
        by (intro bexI [of _ current]) simp_all
    qed (rule w)+
  qed
qed

inductive cameraStep :: "'j cameraLib \<Rightarrow> cameraDB \<Rightarrow> cameraDB \<Rightarrow> bool" for L where
  create: "cameraStep L db (fst (CreateCamera L E cc db))"
| update: "cameraStep L db (fst (UpdateCamera L E cu db))"
| retire: "cameraStep L db (fst (RetireCamera L E cr db))"

lemma cameraStep_change: "cameraStep L db db' \<Longrightarrow> cameraInv L db \<Longrightarrow> cameraChange db db' \<and> cameraInv L db'"
  by (induction rule: cameraStep.induct) (metis CreateCamera_change UpdateCamera_change RetireCamera_change prod.collapse)+

lemma cameraSteps_inv: "(cameraStep L)\<^sup>*\<^sup>* db db' \<Longrightarrow> cameraInv L db \<Longrightarrow> cameraInv L db'"
  by (induction rule: rtranclp_induct) (auto dest: cameraStep_change)

text \<open>A camera stays in the registry and its version never falls.\<close>

lemma cameraChange_version:
  assumes "cameraChange db db'" "cameraInv L db" "c \<in> set (cbCameras db)"
  shows "\<exists>c' \<in> set (cbCameras db'). caID c' = caID c \<and> caTenantID c' = caTenantID c \<and> caConfigVersion c \<le> caConfigVersion c'"
proof -
  consider "set (cbCameras db) \<subseteq> set (cbCameras db')"
    | k k' where "k \<in> set (cbCameras db)" "evolves k k'" "cbCameras db' = map (\<lambda>x. if caID x = caID k then k' else x) (cbCameras db)"
    using assms(1) unfolding cameraChange_def by force
  then show ?thesis
  proof cases
    case 1
    with assms(3) show ?thesis by auto
  next
    case (2 k k')
    show ?thesis
    proof (cases "caID c = caID k")
      case True
      with 2(1) assms(2,3) have "c = k" by (auto simp: cameraInv_def distinct_map dest: inj_onD)
      moreover have "k' \<in> set (cbCameras db')" using 2(1,3) by force
      ultimately show ?thesis using 2(2) by (intro bexI [of _ k']) (auto simp: evolves_def)
    next
      case False
      then have "c \<in> set (cbCameras db')" using 2(3) assms(3) by force
      then show ?thesis by auto
    qed
  qed
qed

lemma cameraSteps_version:
  assumes "(cameraStep L)\<^sup>*\<^sup>* db db'" "cameraInv L db" "c \<in> set (cbCameras db)"
  shows "\<exists>c' \<in> set (cbCameras db'). caID c' = caID c \<and> caTenantID c' = caTenantID c \<and> caConfigVersion c \<le> caConfigVersion c'"
  using assms(1)
proof (induction rule: rtranclp_induct)
  case base
  then show ?case using assms(3) by auto
next
  case (step db1 db2)
  note inv = cameraSteps_inv [OF step.hyps(1) assms(2)]
  from step.IH obtain c1 where c1: "c1 \<in> set (cbCameras db1)" "caID c1 = caID c" "caTenantID c1 = caTenantID c" "caConfigVersion c \<le> caConfigVersion c1"
    by blast
  from cameraChange_version [OF conjunct1 [OF cameraStep_change [OF step.hyps(2) inv]] inv c1(1)] c1(2-4) show ?case by force
qed

end
