(* ===== verification/Claim_Token.thy ===== *)
theory Claim_Token
  imports Base64_Url Identifiers
begin

text \<open>
  Device claim tokens, \<open>ClaimTokenManager\<close> of \<open>backend/internal/device/enrollment.go\<close>: a bearer text
  \<open>v1.<payload>.<signature>\<close> whose payload holds the claim's and the tenant's identifier. HMAC-SHA-256
  and the two functions of \<open>google/uuid\<close> are the fields of \<open>tokenLib\<close>. The lemmas show that a token
  verifies to the identifiers it was made from, and what a text that verifies must be.
\<close>

section \<open>Definitions\<close>

datatype claimError =
    ErrClaimInvalid | ErrClaimExpired | ErrClaimConsumed | ErrClaimSerialMismatch | ErrClaimTokenConfig
  | ErrDeviceSerialConflict | ClaimSiteNotFound | EnrollmentWriteFailed

record tokenLib =
  tlHmac :: "bytes \<Rightarrow> bytes \<Rightarrow> bytes"
  tlParse :: "string \<Rightarrow> bytes option"
  tlString :: "bytes \<Rightarrow> string"

text \<open>A manager is its key; a nil manager is \<open>None\<close>.\<close>

type_synonym ClaimTokenManager = "bytes option"

definition NewClaimTokenManager :: "bytes \<Rightarrow> claimError + ClaimTokenManager" where
  "NewClaimTokenManager key = (if length key < 32 then Inl ErrClaimTokenConfig else Inr (Some key))"

definition NewClaimTokenManagerFromBase64 :: "string \<Rightarrow> claimError + ClaimTokenManager" where
  "NewClaimTokenManagerFromBase64 raw =
     (case rawURLDecode (trimSpace raw) of None \<Rightarrow> Inl ErrClaimTokenConfig | Some key \<Rightarrow> NewClaimTokenManager key)"

text \<open>The key of a manager that can be used.\<close>

definition usableKey :: "ClaimTokenManager \<Rightarrow> bytes option" where
  "usableKey m = (case m of None \<Rightarrow> None | Some key \<Rightarrow> if length key < 32 then None else Some key)"

definition claimMessage :: "bytes \<Rightarrow> string" where
  "claimMessage payload = ''v1.'' @ rawURLEncode payload"

definition Token :: "tokenLib \<Rightarrow> ClaimTokenManager \<Rightarrow> string \<Rightarrow> string \<Rightarrow> claimError + string" where
  "Token T m claimID tenantID =
     (case usableKey m of
        None \<Rightarrow> Inl ErrClaimTokenConfig
      | Some key \<Rightarrow>
          (case tlParse T claimID of
             None \<Rightarrow> Inl ErrClaimInvalid
           | Some claim \<Rightarrow>
               (case tlParse T tenantID of
                  None \<Rightarrow> Inl ErrClaimInvalid
                | Some tenant \<Rightarrow>
                    let message = claimMessage (claim @ tenant) in
                    Inr (message @ ''.'' @ rawURLEncode (tlHmac T key message)))))"

text \<open>\<open>strings.Split(token, ".")\<close>.\<close>

fun splitDots :: "string \<Rightarrow> string list" where
  "splitDots [] = [[]]"
| "splitDots (c # cs) = (if c = CHR ''.'' then [] # splitDots cs else (c # hd (splitDots cs)) # tl (splitDots cs))"

text \<open>The decoded payload and signature of a token that has the right shape, with the signed text.\<close>

definition tokenParts :: "string \<Rightarrow> (bytes \<times> bytes \<times> string) option" where
  "tokenParts token =
     (case splitDots token of
        [version, encoded, sealed] \<Rightarrow>
          if version \<noteq> ''v1'' then None
          else
            (case (rawURLDecode encoded, rawURLDecode sealed) of
               (Some payload, Some signature) \<Rightarrow>
                 if length payload \<noteq> 32 \<or> length signature \<noteq> 32 then None
                 else Some (payload, signature, version @ ''.'' @ encoded)
             | _ \<Rightarrow> None)
      | _ \<Rightarrow> None)"

definition Verify :: "tokenLib \<Rightarrow> ClaimTokenManager \<Rightarrow> string \<Rightarrow> claimError + string \<times> string" where
  "Verify T m token =
     (case usableKey m of
        None \<Rightarrow> Inl ErrClaimTokenConfig
      | Some key \<Rightarrow>
          (case tokenParts token of
             None \<Rightarrow> Inl ErrClaimInvalid
           | Some (payload, signature, message) \<Rightarrow>
               if signature \<noteq> tlHmac T key message then Inl ErrClaimInvalid
               else Inr (tlString T (take 16 payload), tlString T (drop 16 payload))))"

definition claimTokenHash :: "(bytes \<Rightarrow> bytes) \<Rightarrow> string \<Rightarrow> bytes" where
  "claimTokenHash sha token = sha token"

section \<open>Laws\<close>

text \<open>
  Documented behaviour of the libraries: HMAC-SHA-256 has 32 bytes, a UUID has 16, and its text is
  read back.
\<close>

definition tokenLibOK :: "tokenLib \<Rightarrow> bool" where
  "tokenLibOK T \<longleftrightarrow> (\<forall>key msg. length (tlHmac T key msg) = 32) \<and> (\<forall>s b. tlParse T s = Some b \<longrightarrow> length b = 16) \<and>
     (\<forall>b. length b = 16 \<longrightarrow> tlParse T (tlString T b) = Some b)"

text \<open>A canonical UUID text is the one the library writes.\<close>

definition canonicalUUID :: "tokenLib \<Rightarrow> string \<Rightarrow> bool" where
  "canonicalUUID T s \<longleftrightarrow> (\<exists>b. length b = 16 \<and> s = tlString T b)"

lemma splitDots_nonempty: "splitDots s \<noteq> []"
  by (cases s) auto

lemma splitDots_plain: "CHR ''.'' \<notin> set s \<Longrightarrow> splitDots s = [s]"
  by (induction s) auto

lemma splitDots_append: "CHR ''.'' \<notin> set s \<Longrightarrow> splitDots (s @ CHR ''.'' # t) = s # splitDots t"
  by (induction s) auto

lemma tokenParts_of:
  assumes "length payload = 32" "length signature = 32"
  shows "tokenParts (claimMessage payload @ ''.'' @ rawURLEncode signature) = Some (payload, signature, claimMessage payload)"
proof -
  have plain: "CHR ''.'' \<notin> set (rawURLEncode bs)" for bs using rawURLEncode_chars by blast
  have "splitDots (claimMessage payload @ ''.'' @ rawURLEncode signature) = [''v1'', rawURLEncode payload, rawURLEncode signature]"
    by (simp add: claimMessage_def splitDots_append [OF plain] splitDots_plain [OF plain])
  with assms show ?thesis by (simp add: tokenParts_def claimMessage_def)
qed

lemma Token_Inr:
  assumes "Token T m claimID tenantID = Inr token"
  obtains key claim tenant where "usableKey m = Some key" "tlParse T claimID = Some claim" "tlParse T tenantID = Some tenant"
    "token = claimMessage (claim @ tenant) @ ''.'' @ rawURLEncode (tlHmac T key (claimMessage (claim @ tenant)))"
  using assms by (auto simp: Token_def Let_def split: option.splits)

lemma Verify_Token:
  assumes lib: "tokenLibOK T" and token: "Token T m claimID tenantID = Inr token"
  obtains claim tenant where "tlParse T claimID = Some claim" "tlParse T tenantID = Some tenant"
    "Verify T m token = Inr (tlString T claim, tlString T tenant)"
proof -
  from token obtain key claim tenant where *: "usableKey m = Some key" "tlParse T claimID = Some claim"
    "tlParse T tenantID = Some tenant"
    "token = claimMessage (claim @ tenant) @ ''.'' @ rawURLEncode (tlHmac T key (claimMessage (claim @ tenant)))"
    by (rule Token_Inr)
  have len: "length claim = 16" "length tenant = 16" using lib *(2,3) by (auto simp: tokenLibOK_def)
  have "tokenParts token = Some (claim @ tenant, tlHmac T key (claimMessage (claim @ tenant)), claimMessage (claim @ tenant))"
    unfolding *(4) using lib len by (intro tokenParts_of) (simp_all add: tokenLibOK_def)
  with *(1) len show ?thesis by (intro that [OF *(2,3)]) (simp add: Verify_def)
qed

text \<open>A canonical pair of identifiers survives the round trip.\<close>

lemma Verify_Token_canonical:
  assumes "tokenLibOK T" "canonicalUUID T claimID" "canonicalUUID T tenantID" "Token T m claimID tenantID = Inr token"
  shows "Verify T m token = Inr (claimID, tenantID)"
proof -
  obtain claim tenant where *: "tlParse T claimID = Some claim" "tlParse T tenantID = Some tenant"
    "Verify T m token = Inr (tlString T claim, tlString T tenant)"
    using Verify_Token [OF assms(1,4)] by blast
  have "tlString T b = s" if "canonicalUUID T s" "tlParse T s = Some b" for s b
    using assms(1) that by (auto simp: tokenLibOK_def canonicalUUID_def)
  with assms(2,3) * show ?thesis by metis
qed

lemma Token_defined:
  assumes "tokenLibOK T" "usableKey m = Some key" "canonicalUUID T claimID" "canonicalUUID T tenantID"
  shows "\<exists>token. Token T m claimID tenantID = Inr token"
  using assms by (auto simp: Token_def Let_def canonicalUUID_def tokenLibOK_def)

text \<open>A text verifies only with a signature, under the manager's key, of the text before it.\<close>

lemma Verify_Inr:
  assumes "Verify T m token = Inr (claimID, tenantID)"
  obtains key payload signature message where "usableKey m = Some key" "tokenParts token = Some (payload, signature, message)"
    "signature = tlHmac T key message" "claimID = tlString T (take 16 payload)" "tenantID = tlString T (drop 16 payload)"
  using assms by (auto simp: Verify_def split: option.splits if_splits)

lemma tokenParts_payload: "tokenParts token = Some (payload, signature, message) \<Longrightarrow> length payload = 32 \<and> length signature = 32"
  by (auto simp: tokenParts_def split: list.splits option.splits if_splits)

lemma Verify_canonical:
  assumes "Verify T m token = Inr (claimID, tenantID)"
  shows "canonicalUUID T claimID \<and> canonicalUUID T tenantID"
proof -
  obtain payload signature message where *: "tokenParts token = Some (payload, signature, message)"
    "claimID = tlString T (take 16 payload)" "tenantID = tlString T (drop 16 payload)"
    using assms by (rule Verify_Inr)
  have "length (take 16 payload) = 16" "length (drop 16 payload) = 16" using tokenParts_payload [OF *(1)] by auto
  with *(2,3) show ?thesis unfolding canonicalUUID_def by blast
qed

lemma token_solid:
  assumes "Token T m claimID tenantID = Inr token"
  shows "trimSpace token = token"
proof -
  obtain bs cs where token: "token = ''v1.'' @ rawURLEncode bs @ ''.'' @ rawURLEncode cs"
    using assms by (rule Token_Inr) (simp add: claimMessage_def)
  have "list_all solid (''v1.'' @ base64Alphabet)" by code_simp
  then have "list_all solid token"
    unfolding token by (auto simp: list_all_iff dest: rawURLEncode_chars)
  then show ?thesis by (rule trimSpace_solid)
qed

end
