(* ===== verification/Device_Health.thy ===== *)
theory Device_Health
  imports Go_Float Identifiers
begin

text \<open>
  Health telemetry of an edge device on both sides of the wire: \<open>health.go\<close> of the agent samples,
  classifies and reports, \<open>ValidDeviceHealth\<close> of \<open>backend/internal/device/heartbeat.go\<close> decides what
  the control plane accepts. Both loops of the agent that tick (health and heartbeat) are instances of
  \<open>tickLoop\<close>.
\<close>

section \<open>Sampling\<close>

definition HealthInterval :: duration where "HealthInterval = 30 * second"
definition ThermalWarningCelsius :: float64 where "ThermalWarningCelsius = Fin 80"
definition ThermalCriticalCelsius :: float64 where "ThermalCriticalCelsius = Fin 90"
definition maxInferenceLatencyMillis :: float64 where "maxInferenceLatencyMillis = Fin 600000"
definition minimumTemperatureCelsius :: float64 where "minimumTemperatureCelsius = Fin (- 40)"
definition maximumTemperatureCelsius :: float64 where "maximumTemperatureCelsius = Fin 150"

definition ThermalNormal :: string where "ThermalNormal = ''normal''"
definition ThermalWarning :: string where "ThermalWarning = ''warning''"
definition ThermalCritical :: string where "ThermalCritical = ''critical''"

record HealthSample =
  hsCPU :: float64
  hsGPU :: float64
  hsTemperature :: float64
  hsLatency :: float64

record HealthTelemetry = HealthSample +
  htThermalState :: string

datatype 'e healthError = ErrInvalidHealthTelemetry | HealthProbeError 'e | HealthContext 'e

definition classifyThermalState :: "float64 \<Rightarrow> string" where
  "classifyThermalState temperature =
     (if fgeq temperature ThermalCriticalCelsius then ThermalCritical
      else if fgeq temperature ThermalWarningCelsius then ThermalWarning
      else ThermalNormal)"

definition NormalizeHealth :: "'m HealthSample_scheme \<Rightarrow> HealthTelemetry option" where
  "NormalizeHealth sample =
     (if list_ex (\<lambda>v. isNaN v \<or> isInf v) [hsCPU sample, hsGPU sample, hsTemperature sample, hsLatency sample] then None
      else if fless (hsCPU sample) (Fin 0) \<or> fless (Fin 100) (hsCPU sample) \<or>
         fless (hsGPU sample) (Fin 0) \<or> fless (Fin 100) (hsGPU sample) \<or>
         fless (hsTemperature sample) minimumTemperatureCelsius \<or> fless maximumTemperatureCelsius (hsTemperature sample) \<or>
         fless (hsLatency sample) (Fin 0) \<or> fless maxInferenceLatencyMillis (hsLatency sample)
      then None
      else Some \<lparr>hsCPU = hsCPU sample, hsGPU = hsGPU sample, hsTemperature = hsTemperature sample,
                 hsLatency = hsLatency sample, htThermalState = classifyThermalState (hsTemperature sample)\<rparr>)"

definition validHealthTelemetry :: "HealthTelemetry \<Rightarrow> bool" where
  "validHealthTelemetry health =
     (case NormalizeHealth health of
        None \<Rightarrow> False
      | Some normalized \<Rightarrow> htThermalState normalized = htThermalState health)"

section \<open>Loops that tick\<close>

text \<open>
  The loops of the agent act once, leave if their context has ended, and then act at every tick. An
  event of a loop is a tick with its input and what \<open>ctx.Err()\<close> gives after the action, or the end of
  the context; the result is the inputs acted on and the error returned, \<open>None\<close> while the loop runs.
\<close>

datatype 'a loopEvent = LoopTick 'a "string option" | LoopDone string

fun tickLoop :: "'a loopEvent list \<Rightarrow> 'a list \<times> string option" where
  "tickLoop [] = ([], None)"
| "tickLoop (LoopDone err # events) = ([], Some err)"
| "tickLoop (LoopTick x (Some err) # events) = ([x], Some err)"
| "tickLoop (LoopTick x None # events) = (x # fst (tickLoop events), snd (tickLoop events))"

definition NewHealthMonitor :: "'p option \<Rightarrow> duration \<Rightarrow> ('p \<times> duration) option" where
  "NewHealthMonitor probe interval =
     (case probe of None \<Rightarrow> None | Some p \<Rightarrow> if interval \<le> 0 \<or> interval > HealthInterval then None else Some (p, interval))"

text \<open>What one sampling reports; a probe fails or gives a sample.\<close>

definition sampleReport :: "string + HealthSample \<Rightarrow> string healthError + HealthTelemetry" where
  "sampleReport raw =
     (case raw of
        Inl err \<Rightarrow> Inl (HealthProbeError err)
      | Inr sample \<Rightarrow>
          (case NormalizeHealth sample of None \<Rightarrow> Inl ErrInvalidHealthTelemetry | Some health \<Rightarrow> Inr health))"

definition healthRun ::
  "duration \<Rightarrow> string + HealthSample \<Rightarrow> string option \<Rightarrow> (string + HealthSample) loopEvent list \<Rightarrow>
     (string healthError + HealthTelemetry) list \<times> string healthError option" where
  "healthRun interval first cancelled events =
     (if interval \<le> 0 \<or> interval > HealthInterval then ([], Some ErrInvalidHealthTelemetry)
      else
        (case tickLoop (LoopTick first cancelled # events) of
           (inputs, err) \<Rightarrow> (map sampleReport inputs, map_option HealthContext err)))"

section \<open>The control plane\<close>

definition ValidDeviceHealth :: "HealthTelemetry option \<Rightarrow> bool" where
  "ValidDeviceHealth health =
     (case health of
        None \<Rightarrow> True
      | Some h \<Rightarrow>
          if list_ex (\<lambda>v. isNaN v \<or> isInf v) [hsCPU h, hsGPU h, hsTemperature h, hsLatency h] then False
          else if fless (hsCPU h) (Fin 0) \<or> fless (Fin 100) (hsCPU h) \<or> fless (hsGPU h) (Fin 0) \<or> fless (Fin 100) (hsGPU h) \<or>
             fless (hsTemperature h) (Fin (- 40)) \<or> fless (Fin 150) (hsTemperature h) \<or>
             fless (hsLatency h) (Fin 0) \<or> fless (Fin 600000) (hsLatency h)
          then False
          else
            let want = (if fgeq (hsTemperature h) (Fin 90) then ''critical''
                        else if fgeq (hsTemperature h) (Fin 80) then ''warning'' else ''normal'')
            in htThermalState h = want)"

section \<open>Laws\<close>

lemmas thermal_defs = ThermalWarningCelsius_def ThermalCriticalCelsius_def maxInferenceLatencyMillis_def
  minimumTemperatureCelsius_def maximumTemperatureCelsius_def ThermalNormal_def ThermalWarning_def ThermalCritical_def

text \<open>The two sides, written separately, accept the same telemetry.\<close>

lemma health_sides_agree: "ValidDeviceHealth (Some h) = validHealthTelemetry h"
  by (simp add: ValidDeviceHealth_def validHealthTelemetry_def NormalizeHealth_def classifyThermalState_def thermal_defs Let_def eq_commute [of "htThermalState h"])

text \<open>A normalized sample is the sample, in range, with its state.\<close>

lemma NormalizeHealth_Some:
  assumes "NormalizeHealth sample = Some h"
  obtains cpu gpu t l where "hsCPU sample = Fin cpu" "hsGPU sample = Fin gpu" "hsTemperature sample = Fin t" "hsLatency sample = Fin l"
    "h = \<lparr>hsCPU = Fin cpu, hsGPU = Fin gpu, hsTemperature = Fin t, hsLatency = Fin l,
       htThermalState = (if t \<ge> 90 then ''critical'' else if t \<ge> 80 then ''warning'' else ''normal'')\<rparr>"
    "0 \<le> cpu" "cpu \<le> 100" "0 \<le> gpu" "gpu \<le> 100" "- 40 \<le> t" "t \<le> 150" "0 \<le> l" "l \<le> 600000"
proof -
  from assms have *: "\<not> isNaN (hsCPU sample)" "\<not> isInf (hsCPU sample)" "\<not> isNaN (hsGPU sample)" "\<not> isInf (hsGPU sample)"
    "\<not> isNaN (hsTemperature sample)" "\<not> isInf (hsTemperature sample)" "\<not> isNaN (hsLatency sample)" "\<not> isInf (hsLatency sample)"
    "\<not> fless (hsCPU sample) (Fin 0)" "\<not> fless (Fin 100) (hsCPU sample)" "\<not> fless (hsGPU sample) (Fin 0)" "\<not> fless (Fin 100) (hsGPU sample)"
    "\<not> fless (hsTemperature sample) (Fin (- 40))" "\<not> fless (Fin 150) (hsTemperature sample)"
    "\<not> fless (hsLatency sample) (Fin 0)" "\<not> fless (Fin 600000) (hsLatency sample)"
    by (auto simp: NormalizeHealth_def thermal_defs split: if_splits)
  obtain cpu where cpu: "hsCPU sample = Fin cpu" "0 \<le> cpu" "cpu \<le> 100" using finite_between [OF *(1,2,9,10)] by blast
  obtain gpu where gpu: "hsGPU sample = Fin gpu" "0 \<le> gpu" "gpu \<le> 100" using finite_between [OF *(3,4,11,12)] by blast
  obtain t where t: "hsTemperature sample = Fin t" "- 40 \<le> t" "t \<le> 150" using finite_between [OF *(5,6,13,14)] by blast
  obtain l where l: "hsLatency sample = Fin l" "0 \<le> l" "l \<le> 600000" using finite_between [OF *(7,8,15,16)] by blast
  have "h = \<lparr>hsCPU = Fin cpu, hsGPU = Fin gpu, hsTemperature = Fin t, hsLatency = Fin l,
       htThermalState = (if t \<ge> 90 then ''critical'' else if t \<ge> 80 then ''warning'' else ''normal'')\<rparr>"
    using assms cpu(1) gpu(1) t(1) l(1)
    by (auto simp: NormalizeHealth_def classifyThermalState_def thermal_defs split: if_splits)
  then show thesis by (rule that [OF cpu(1) gpu(1) t(1) l(1)]) (use cpu gpu t l in simp_all)
qed

lemma NormalizeHealth_valid: "NormalizeHealth sample = Some h \<Longrightarrow> validHealthTelemetry h"
  by (auto simp: NormalizeHealth_def validHealthTelemetry_def split: if_splits)

lemma sampleReport_valid: "sampleReport raw = Inr h \<Longrightarrow> validHealthTelemetry h"
  by (auto simp: sampleReport_def split: sum.splits option.splits intro: NormalizeHealth_valid)

lemma healthRun_valid: "Inr h \<in> set (fst (healthRun interval first cancelled events)) \<Longrightarrow> validHealthTelemetry h"
  by (auto simp: healthRun_def dest!: sym [of "Inr h"] intro: sampleReport_valid split: if_splits prod.splits)

text \<open>A loop acts at least once and, until its context ends, at every tick.\<close>

fun ticksOf :: "'a loopEvent list \<Rightarrow> 'a list" where
  "ticksOf [] = []"
| "ticksOf (LoopDone err # events) = []"
| "ticksOf (LoopTick x c # events) = x # (if c = None then ticksOf events else [])"

lemma tickLoop_inputs: "fst (tickLoop events) = ticksOf events"
  by (induction events rule: tickLoop.induct) auto

lemma tickLoop_stops: "LoopDone err \<in> set events \<Longrightarrow> snd (tickLoop events) \<noteq> None"
  by (induction events rule: tickLoop.induct) auto

lemma healthRun_survives:
  assumes "0 < interval" "interval \<le> HealthInterval"
  shows "fst (healthRun interval first None (map (\<lambda>x. LoopTick x None) inputs)) = map sampleReport (first # inputs)"
proof -
  have "ticksOf (map (\<lambda>x. LoopTick x None) inputs) = inputs" by (induction inputs) auto
  with assms show ?thesis by (simp add: healthRun_def tickLoop_inputs split: prod.splits)
qed

end
