(* ===== verification/Enrollment.thy ===== *)
theory Enrollment
  imports Camera_Registry Claim_Token Device_Health
begin

text \<open>
  One-time enrollment of edge devices, \<open>enrollment.go\<close> and \<open>postgres_enrollment.go\<close> of
  \<open>backend/internal/device\<close>: an administrator is issued a claim for a serial number, the appliance
  activates itself once with the bearer token. JSON and the database's \<open>upper\<close> are fields of \<open>enrollLib\<close>.
\<close>

section \<open>Data\<close>

definition claimLifetime :: duration where "claimLifetime = 24 * 60 * minute"

record EdgeDevice =
  edID :: string
  edTenantID :: string
  edSiteID :: string
  edSerialNumber :: string
  edHardwareTier :: string
  edModel :: string
  edStatus :: string
  edCertificateStatus :: string
  edFirmwareVersion :: string
  edStoreForwardDepth :: int
  edUptimeSeconds :: int
  edDesiredConfigRevision :: int
  edHealth :: "HealthTelemetry option"
  edLastHeartbeat :: "gotime option"
  edActivatedAt :: "gotime option"
  edCreatedAt :: gotime
  edUpdatedAt :: gotime

record DeviceClaim =
  dcID :: string
  dcDeviceID :: string
  dcTenantID :: string
  dcSiteID :: string
  dcSerialNumber :: string
  dcHardwareTier :: string
  dcModel :: string
  dcExpiresAt :: gotime
  dcCreatedAt :: gotime

record IssueClaimCommand =
  icTenantID :: string
  icActorID :: string
  icRequestID :: string
  icIdempotencyKey :: string
  icSiteID :: string
  icSerialNumber :: string
  icHardwareTier :: string
  icModel :: string

record ActivateDeviceCommand =
  avDeviceID :: string
  avClaimToken :: string
  avSerialNumber :: string
  avRequestID :: string

record 'j enrollLib = "'j storeLib" +
  elTokens :: tokenLib
  elEncodeRequest :: "string \<times> string \<times> string \<times> string \<Rightarrow> bytes option"
  elEncode :: "DeviceClaim \<Rightarrow> bytes option"
  elDecode :: "bytes \<Rightarrow> DeviceClaim option"
  elAnyClaim :: "DeviceClaim \<Rightarrow> 'j"
  elAnyDevice :: "EdgeDevice \<Rightarrow> 'j"
  elSqlUpper :: "string \<Rightarrow> string"

definition normalizeHardwareTier :: "(string \<Rightarrow> string) \<Rightarrow> string \<Rightarrow> string" where
  "normalizeHardwareTier uni v = toLower uni (trimSpace v)"

definition hashIssueClaim :: "'j enrollLib \<Rightarrow> IssueClaimCommand \<Rightarrow> claimError storeError + string" where
  "hashIssueClaim L command =
     (case elEncodeRequest L (trimSpace (icSiteID command), normalizeSerial (slUpper L) (icSerialNumber command),
         normalizeHardwareTier (slLower L) (icHardwareTier command), trimSpace (icModel command)) of
        None \<Rightarrow> Inl StEncode
      | Some payload \<Rightarrow> Inr (hexEncode (slSha L payload)))"

text \<open>The device and the claim an issuance makes; the times are the clock's.\<close>

definition newDevice :: "'j enrollLib \<Rightarrow> storeEnv \<Rightarrow> IssueClaimCommand \<Rightarrow> EdgeDevice" where
  "newDevice L E command =
     \<lparr>edID = stID E, edTenantID = icTenantID command, edSiteID = icSiteID command,
      edSerialNumber = normalizeSerial (slUpper L) (icSerialNumber command),
      edHardwareTier = normalizeHardwareTier (slLower L) (icHardwareTier command), edModel = trimSpace (icModel command),
      edStatus = ''pending'', edCertificateStatus = ''pending'', edFirmwareVersion = [], edStoreForwardDepth = 0,
      edUptimeSeconds = 0, edDesiredConfigRevision = 0, edHealth = None, edLastHeartbeat = None, edActivatedAt = None,
      edCreatedAt = stNow E, edUpdatedAt = stNow E\<rparr>"

definition newClaim :: "storeEnv \<Rightarrow> EdgeDevice \<Rightarrow> DeviceClaim" where
  "newClaim E device =
     \<lparr>dcID = stID2 E, dcDeviceID = edID device, dcTenantID = edTenantID device, dcSiteID = edSiteID device,
      dcSerialNumber = edSerialNumber device, dcHardwareTier = edHardwareTier device, dcModel = edModel device,
      dcExpiresAt = stNow E + claimLifetime, dcCreatedAt = stNow E\<rparr>"

section \<open>The memory repository\<close>

record memoryEnrollmentClaim =
  mcClaim :: DeviceClaim
  mcTokenHash :: bytes
  mcConsumedAt :: "gotime option"

record enrollMemory =
  emTokens :: ClaimTokenManager
  emClaims :: "string \<rightharpoonup> memoryEnrollmentClaim"
  emDevices :: "EdgeDevice list"
  emKeys :: "string \<rightharpoonup> string \<times> DeviceClaim"

definition MemoryIssueClaim ::
  "'j enrollLib \<Rightarrow> storeEnv \<Rightarrow> IssueClaimCommand \<Rightarrow> enrollMemory \<Rightarrow>
     enrollMemory \<times> (claimError storeError + (DeviceClaim \<times> string) \<times> bool)" where
  "MemoryIssueClaim L E command m =
     (if emTokens m = None then (m, Inl (Domain ErrClaimTokenConfig))
      else
        (case hashIssueClaim L command of
           Inl err \<Rightarrow> (m, Inl err)
         | Inr hash \<Rightarrow>
             let key = icTenantID command @ '':'' @ icIdempotencyKey command in
             (case emKeys m key of
                Some (stored, claim) \<Rightarrow>
                  if stored \<noteq> hash then (m, Inl ErrIdempotencyConflict)
                  else
                    (case Token (elTokens L) (emTokens m) (dcID claim) (dcTenantID claim) of
                       Inl err \<Rightarrow> (m, Inl (Domain err))
                     | Inr token \<Rightarrow> (m, Inr ((claim, token), True)))
              | None \<Rightarrow>
                  let device = newDevice L E command; claim = newClaim E device in
                  if \<exists>d \<in> set (emDevices m). edTenantID d = icTenantID command \<and> edSerialNumber d = edSerialNumber device
                  then (m, Inl (Domain ErrDeviceSerialConflict))
                  else
                    (case Token (elTokens L) (emTokens m) (dcID claim) (dcTenantID claim) of
                       Inl err \<Rightarrow> (m, Inl (Domain err))
                     | Inr token \<Rightarrow>
                         (m\<lparr>emDevices := emDevices m @ [device],
                            emClaims := (emClaims m)(dcID claim \<mapsto> \<lparr>mcClaim = claim,
                              mcTokenHash = claimTokenHash (slSha L) token, mcConsumedAt = None\<rparr>),
                            emKeys := (emKeys m)(key \<mapsto> (hash, claim))\<rparr>, Inr ((claim, token), False))))))"

definition activated :: "gotime \<Rightarrow> EdgeDevice \<Rightarrow> EdgeDevice" where
  "activated now device = device\<lparr>edStatus := ''active'', edActivatedAt := Some now, edUpdatedAt := now\<rparr>"

definition MemoryActivate ::
  "'j enrollLib \<Rightarrow> storeEnv \<Rightarrow> ActivateDeviceCommand \<Rightarrow> enrollMemory \<Rightarrow> enrollMemory \<times> (claimError + EdgeDevice)" where
  "MemoryActivate L E command m =
     (let token = trimSpace (avClaimToken command) in
      (case Verify (elTokens L) (emTokens m) token of
         Inl err \<Rightarrow> (m, Inl err)
       | Inr (claimID, tenantID) \<Rightarrow>
           (case emClaims m claimID of
              None \<Rightarrow> (m, Inl ErrClaimInvalid)
            | Some stored \<Rightarrow>
                if dcTenantID (mcClaim stored) \<noteq> tenantID \<or> mcTokenHash stored \<noteq> claimTokenHash (slSha L) token
                then (m, Inl ErrClaimInvalid)
                else if mcConsumedAt stored \<noteq> None then (m, Inl ErrClaimConsumed)
                else if \<not> stNow E < dcExpiresAt (mcClaim stored) then (m, Inl ErrClaimExpired)
                else if normalizeSerial (slUpper L) (avSerialNumber command) \<noteq> dcSerialNumber (mcClaim stored)
                then (m, Inl ErrClaimSerialMismatch)
                else
                  (case find (\<lambda>d. edID d = dcDeviceID (mcClaim stored)) (emDevices m) of
                     None \<Rightarrow> (m, Inl ErrClaimInvalid)
                   | Some device \<Rightarrow>
                       if edTenantID device \<noteq> tenantID \<or> edID device \<noteq> avDeviceID command then (m, Inl ErrClaimInvalid)
                       else
                         (m\<lparr>emClaims := (emClaims m)(claimID \<mapsto> stored\<lparr>mcConsumedAt := Some (stNow E)\<rparr>),
                            emDevices := map (\<lambda>d. if edID d = edID device then activated (stNow E) device else d) (emDevices m)\<rparr>,
                          Inr (activated (stNow E) device))))))"

section \<open>The PostgreSQL repository\<close>

record claimRow =
  clID :: string
  clTenant :: string
  clDevice :: string
  clTokenHash :: bytes
  clCreatedAt :: gotime
  clExpiresAt :: gotime
  clConsumedAt :: "gotime option"

record enrollDB = storeDB +
  ebDevices :: "EdgeDevice list"
  ebClaims :: "claimRow list"

definition classifyEnrollmentWrite :: "string \<Rightarrow> claimError" where
  "classifyEnrollmentWrite code =
     (if code = ''23503'' then ClaimSiteNotFound else if code = ''23505'' then ErrDeviceSerialConflict else EnrollmentWriteFailed)"

text \<open>
  The two \<open>INSERT\<close>s with their keys and checks; \<open>stFails\<close> stands for every other failure. The default
  of \<open>expires_at\<close> is twenty-four hours after the statement.
\<close>

definition insertDevice :: "'j enrollLib \<Rightarrow> storeEnv \<Rightarrow> string \<Rightarrow> string \<Rightarrow> EdgeDevice \<Rightarrow> 'd enrollDB_scheme \<Rightarrow> string + EdgeDevice" where
  "insertDevice L E tenant site device db =
     (case stFails E StInsert of
        Some code \<Rightarrow> Inl code
      | None \<Rightarrow>
          if edHardwareTier device \<notin> {''s'', ''m'', ''l''} then Inl ''23514''
          else if \<exists>d \<in> set (ebDevices db). edID d = edID device \<or>
               (edTenantID d = tenant \<and> elSqlUpper L (edSerialNumber d) = elSqlUpper L (edSerialNumber device))
          then Inl ''23505''
          else if \<not> (\<exists>s \<in> set (sdSites db). siTenantID s = tenant \<and> siID s = site) then Inl ''23503''
          else Inr (device\<lparr>edTenantID := tenant, edSiteID := site\<rparr>))"

definition insertClaim :: "storeEnv \<Rightarrow> string \<Rightarrow> DeviceClaim \<Rightarrow> bytes \<Rightarrow> 'd enrollDB_scheme \<Rightarrow> string + claimRow" where
  "insertClaim E tenant claim hash db =
     (case stFails E StInsertClaim of
        Some code \<Rightarrow> Inl code
      | None \<Rightarrow>
          if length hash \<noteq> 32 then Inl ''23514''
          else if \<exists>c \<in> set (ebClaims db). clID c = dcID claim then Inl ''23505''
          else Inr \<lparr>clID = dcID claim, clTenant = tenant, clDevice = dcDeviceID claim, clTokenHash = hash,
                    clCreatedAt = stNow E, clExpiresAt = stNow E + claimLifetime, clConsumedAt = None\<rparr>)"

definition claimAudit :: "'j enrollLib \<Rightarrow> IssueClaimCommand \<Rightarrow> DeviceClaim \<Rightarrow> 'j AuditEvent" where
  "claimAudit L command claim =
     \<lparr>aeTenantID = icTenantID command, aeActorID = icActorID command, aeAction = ''device.claim_issued'',
      aeResourceType = ''edge_device'', aeResourceID = dcDeviceID claim, aeRequestID = icRequestID command,
      aeBeforeState = slNil L, aeAfterState = elAnyClaim L claim, aeOccurredAt = dcCreatedAt claim\<rparr>"

text \<open>The rows of a device and its claim, or the error of the first statement that fails.\<close>

definition insertEnrollment ::
  "'j enrollLib \<Rightarrow> ClaimTokenManager \<Rightarrow> storeEnv \<Rightarrow> string \<Rightarrow> string \<Rightarrow> EdgeDevice \<Rightarrow> DeviceClaim \<Rightarrow> 'd enrollDB_scheme \<Rightarrow>
     claimError + EdgeDevice \<times> claimRow \<times> string" where
  "insertEnrollment L m E tenant site device claim db =
     (case insertDevice L E tenant site device db of
        Inl code \<Rightarrow> Inl (classifyEnrollmentWrite code)
      | Inr row \<Rightarrow>
          (case Token (elTokens L) m (dcID claim) (dcTenantID claim) of
             Inl err \<Rightarrow> Inl err
           | Inr token \<Rightarrow>
               (case insertClaim E tenant claim (claimTokenHash (slSha L) token) db of
                  Inl code \<Rightarrow> Inl (classifyEnrollmentWrite code)
                | Inr claimed \<Rightarrow> Inr (row, claimed, token))))"

definition claimWork ::
  "'j enrollLib \<Rightarrow> ClaimTokenManager \<Rightarrow> storeEnv \<Rightarrow> IssueClaimCommand \<Rightarrow> string \<Rightarrow> 'd enrollDB_scheme \<Rightarrow>
     claimError storeError + 'd enrollDB_scheme \<times> (DeviceClaim \<times> string) \<times> bytes option \<times> 'j AuditEvent" where
  "claimWork L m E command tenant db =
     (case slUUID L (icSiteID command) of
        None \<Rightarrow> Inl (StDatabase StSite)
      | Some site \<Rightarrow>
          if stFails E StSite \<noteq> None then Inl (StDatabase StSite)
          else if \<not> siteOpen db tenant site then Inl (Domain ClaimSiteNotFound)
          else
            let device = newDevice L E command; claim = newClaim E device in
            (case insertEnrollment L m E tenant site device claim db of
               Inl err \<Rightarrow> Inl (Domain err)
             | Inr (row, claimed, token) \<Rightarrow>
                 Inr (db\<lparr>ebDevices := ebDevices db @ [row], ebClaims := ebClaims db @ [claimed]\<rparr>, (claim, token),
                   elEncode L claim, claimAudit L command claim)))"

text \<open>A replay makes the token again; it is not stored.\<close>

definition decodeClaim :: "'j enrollLib \<Rightarrow> ClaimTokenManager \<Rightarrow> bytes \<Rightarrow> claimError storeError + DeviceClaim \<times> string" where
  "decodeClaim L m b =
     (case elDecode L b of
        None \<Rightarrow> Inl StDecode
      | Some claim \<Rightarrow>
          (case Token (elTokens L) m (dcID claim) (dcTenantID claim) of Inl err \<Rightarrow> Inl (Domain err) | Inr token \<Rightarrow> Inr (claim, token)))"

definition IssueClaim ::
  "'j enrollLib \<Rightarrow> ClaimTokenManager \<Rightarrow> storeEnv \<Rightarrow> IssueClaimCommand \<Rightarrow> 'd enrollDB_scheme \<Rightarrow>
     'd enrollDB_scheme \<times> (claimError storeError + (DeviceClaim \<times> string) \<times> bool)" where
  "IssueClaim L m E command db =
     (if m = None then (db, Inl (StDatabase StBegin))
      else keyedCreate L E (icTenantID command) (icIdempotencyKey command) None (hashIssueClaim L command) (decodeClaim L m)
             (claimWork L m E command) db)"

text \<open>\<open>device_claims JOIN edge_devices\<close> under row level security.\<close>

definition claimOf :: "'d enrollDB_scheme \<Rightarrow> string \<Rightarrow> string \<Rightarrow> string \<Rightarrow> (claimRow \<times> EdgeDevice) option" where
  "claimOf db tenant claimID deviceID =
     (case find (\<lambda>c. clID c = claimID \<and> clTenant c = tenant) (ebClaims db) of
        None \<Rightarrow> None
      | Some c \<Rightarrow>
          map_option (Pair c) (find (\<lambda>d. edID d = deviceID \<and> edTenantID d = tenant \<and> edID d = clDevice c) (ebDevices db)))"

text \<open>The columns that the \<open>SELECT\<close> reads; the other fields stay zero.\<close>

definition selectedDevice :: "EdgeDevice \<Rightarrow> EdgeDevice" where
  "selectedDevice d = d\<lparr>edFirmwareVersion := [], edStoreForwardDepth := 0, edUptimeSeconds := 0, edDesiredConfigRevision := 0,
     edHealth := None, edLastHeartbeat := None\<rparr>"

definition activateAudit :: "'j enrollLib \<Rightarrow> string \<Rightarrow> ActivateDeviceCommand \<Rightarrow> EdgeDevice \<Rightarrow> gotime \<Rightarrow> 'j AuditEvent" where
  "activateAudit L tenantID command device now =
     \<lparr>aeTenantID = tenantID, aeActorID = ''device:'' @ edID device, aeAction = ''device.activated'', aeResourceType = ''edge_device'',
      aeResourceID = edID device, aeRequestID = avRequestID command, aeBeforeState = slNil L, aeAfterState = elAnyDevice L device,
      aeOccurredAt = now\<rparr>"

definition putActivation :: "string \<Rightarrow> string \<Rightarrow> gotime \<Rightarrow> 'd enrollDB_scheme \<Rightarrow> 'd enrollDB_scheme" where
  "putActivation claimID deviceID now db =
     db\<lparr>ebClaims := map (\<lambda>c. if clID c = claimID then c\<lparr>clConsumedAt := Some now\<rparr> else c) (ebClaims db),
        ebDevices := map (\<lambda>d. if edID d = deviceID then activated now d else d) (ebDevices db)\<rparr>"

text \<open>The guards of \<open>Activate\<close>, in order.\<close>

definition claimRefusal :: "'j enrollLib \<Rightarrow> storeEnv \<Rightarrow> ActivateDeviceCommand \<Rightarrow> string \<Rightarrow> string \<Rightarrow> claimRow \<Rightarrow> EdgeDevice \<Rightarrow> claimError option" where
  "claimRefusal L E command token tenantID c d =
     (if clTokenHash c \<noteq> claimTokenHash (slSha L) token \<or> edTenantID d \<noteq> tenantID then Some ErrClaimInvalid
      else if clConsumedAt c \<noteq> None then Some ErrClaimConsumed
      else if \<not> stNow E < clExpiresAt c then Some ErrClaimExpired
      else if normalizeSerial (slUpper L) (avSerialNumber command) \<noteq> edSerialNumber d then Some ErrClaimSerialMismatch
      else None)"

text \<open>The two \<open>UPDATE\<close>s, the audit record and the commit; the table checks \<open>consumed_at >= created_at\<close>.\<close>

definition writeActivation ::
  "'j enrollLib \<Rightarrow> storeEnv \<Rightarrow> ActivateDeviceCommand \<Rightarrow> string \<Rightarrow> claimRow \<Rightarrow> EdgeDevice \<Rightarrow> 'd enrollDB_scheme \<Rightarrow>
     'd enrollDB_scheme \<times> (claimError storeError + EdgeDevice)" where
  "writeActivation L E command tenantID c d db =
     (let device = activated (stNow E) (selectedDevice d) in
      if stFails E StUpdateClaim \<noteq> None \<or> stNow E < clCreatedAt c then (db, Inl (StDatabase StUpdateClaim))
      else if stFails E StUpdate \<noteq> None then (db, Inl (StDatabase StUpdate))
      else
        (case auditAppend (slAudit L) (stAudit E) (stNow E) (activateAudit L tenantID command device (stNow E)) (sdAudit db) of
           Inl err \<Rightarrow> (db, Inl (StAuditError err))
         | Inr (audit, _) \<Rightarrow>
             commitStore E db ((putActivation (clID c) (edID d) (stNow E) db)\<lparr>sdAudit := audit\<rparr>) device))"

definition Activate ::
  "'j enrollLib \<Rightarrow> ClaimTokenManager \<Rightarrow> storeEnv \<Rightarrow> ActivateDeviceCommand \<Rightarrow> 'd enrollDB_scheme \<Rightarrow>
     'd enrollDB_scheme \<times> (claimError storeError + EdgeDevice)" where
  "Activate L m E command db =
     (let token = trimSpace (avClaimToken command) in
      (case Verify (elTokens L) m token of
         Inl err \<Rightarrow> (db, Inl (Domain err))
       | Inr (claimID, tenantID) \<Rightarrow>
           (case beginStore L E tenantID of
              Inl err \<Rightarrow> (db, Inl err)
            | Inr tenant \<Rightarrow>
                (case (stFails E StRead, slUUID L claimID, slUUID L (avDeviceID command)) of
                   (None, Some claim, Some device) \<Rightarrow>
                     (case claimOf db tenant claim device of
                        None \<Rightarrow> (db, Inl (Domain ErrClaimInvalid))
                      | Some (c, d) \<Rightarrow>
                          (case claimRefusal L E command token tenantID c d of
                             Some err \<Rightarrow> (db, Inl (Domain err))
                           | None \<Rightarrow> writeActivation L E command tenantID c d db))
                 | _ \<Rightarrow> (db, Inl (StDatabase StRead))))))"

end
