(* ===== verification/Enrollment_Laws.thy ===== *)
theory Enrollment_Laws
  imports Enrollment
begin

text \<open>
  Laws of device enrollment. A step of the system is an issuance or an activation with any command and
  in any environment, failing statements and ambiguous commits included. The lemmas: what each step
  changes and keeps, that a spent claim stays spent, that an unspent one can be used, and the invariant
  that ties claims, devices and audit records together.
\<close>

section \<open>Steps\<close>

definition enrollCodec :: "'j enrollLib \<Rightarrow> bool" where
  "enrollCodec L \<longleftrightarrow> (\<forall>c b. elEncode L c = Some b \<longrightarrow> elDecode L (slJsonb L b) = Some c)"

lemma claimWork_Inr:
  assumes "claimWork L m E c tenant db = Inr (db', x, body, event)"
  obtains site row claimed where "insertEnrollment L m E tenant site (newDevice L E c) (newClaim E (newDevice L E c)) db = Inr (row, claimed, snd x)"
    "fst x = newClaim E (newDevice L E c)" "body = elEncode L (fst x)" "event = claimAudit L c (fst x)" "slUUID L (icSiteID c) = Some site"
    "db' = db\<lparr>ebDevices := ebDevices db @ [row], ebClaims := ebClaims db @ [claimed]\<rparr>"
  using assms by (auto simp: claimWork_def Let_def split: option.splits sum.splits if_splits)

lemma insertEnrollment_Inr:
  assumes "insertEnrollment L m E tenant site device claim db = Inr (row, claimed, token)"
  shows "row = device\<lparr>edTenantID := tenant, edSiteID := site\<rparr> \<and> edID device \<notin> edID ` set (ebDevices db) \<and>
    dcID claim \<notin> clID ` set (ebClaims db) \<and> Token (elTokens L) m (dcID claim) (dcTenantID claim) = Inr token \<and>
    claimed = \<lparr>clID = dcID claim, clTenant = tenant, clDevice = dcDeviceID claim, clTokenHash = slSha L token,
      clCreatedAt = stNow E, clExpiresAt = stNow E + claimLifetime, clConsumedAt = None\<rparr>"
  using assms
  by (auto simp: insertEnrollment_def insertDevice_def insertClaim_def claimTokenHash_def split: option.splits sum.splits if_splits)

interpretation claimCreate: keyed_create L icTenantID icIdempotencyKey "\<lambda>_. None" "hashIssueClaim L" "decodeClaim L m"
  "claimWork L m :: storeEnv \<Rightarrow> IssueClaimCommand \<Rightarrow> string \<Rightarrow> 'd enrollDB_scheme \<Rightarrow> _" "enrollCodec L" horizon for L m horizon
proof unfold_locales
  fix E c tenant x body event
  fix db db' :: "'d enrollDB_scheme"
  assume "claimWork L m E c tenant db = Inr (db', x, body, event)"
  then show "sdKeys db' = sdKeys db" by (rule claimWork_Inr) simp
next
  fix E c tenant x b event
  fix db db' :: "'d enrollDB_scheme"
  assume codec: "enrollCodec L" and work: "claimWork L m E c tenant db = Inr (db', x, Some b, event)"
  from work obtain site row claimed where
    ins: "insertEnrollment L m E tenant site (newDevice L E c) (newClaim E (newDevice L E c)) db = Inr (row, claimed, snd x)"
    and x: "fst x = newClaim E (newDevice L E c)" "Some b = elEncode L (fst x)" by (rule claimWork_Inr)
  have "elDecode L (slJsonb L b) = Some (fst x)" using codec x(2) [symmetric] by (simp add: enrollCodec_def)
  moreover have "Token (elTokens L) m (dcID (fst x)) (dcTenantID (fst x)) = Inr (snd x)"
    using insertEnrollment_Inr [OF ins] x(1) by simp
  ultimately show "decodeClaim L m (slJsonb L b) = Inr x" by (simp add: decodeClaim_def)
qed

definition memoryClaimKey :: "IssueClaimCommand \<Rightarrow> string" where
  "memoryClaimKey c = icTenantID c @ '':'' @ icIdempotencyKey c"

interpretation memoryClaim: idempotent_calls "MemoryIssueClaim L" memoryClaimKey
  "\<lambda>c. case hashIssueClaim L c of Inl _ \<Rightarrow> [] | Inr h \<Rightarrow> h" "\<lambda>x. fst (fst x)" snd emKeys for L
  by unfold_locales
    (auto simp: MemoryIssueClaim_def memoryClaimKey_def Let_def split: sum.splits option.splits if_splits)

lemma insertEnrollment_expire:
  "insertEnrollment L m E tenant site device claim (expireKey E t key db) = insertEnrollment L m E tenant site device claim db"
proof -
  have "ebDevices (expireKey E t key db) = ebDevices db" "ebClaims (expireKey E t key db) = ebClaims db"
    "sdSites (expireKey E t key db) = sdSites db" by (simp_all add: expireKey_def)
  then show ?thesis by (simp only: insertEnrollment_def insertDevice_def insertClaim_def)
qed

text \<open>An issuance adds a device and its claim, both with fresh identifiers, or leaves the tables alone.\<close>

lemma IssueClaim_cases:
  assumes "IssueClaim L m E c db = (db', r)"
  obtains (same) "ebDevices db' = ebDevices db" "ebClaims db' = ebClaims db" "sdAudit db' = sdAudit db" "\<forall>x. r \<noteq> Inr (x, False)"
    | (issued) tenant site row claimed x rec where
        "insertEnrollment L m E tenant site (newDevice L E c) (newClaim E (newDevice L E c)) db = Inr (row, claimed, snd x)"
        "slUUID L (icTenantID c) = Some tenant" "fst x = newClaim E (newDevice L E c)"
        "ebDevices db' = ebDevices db @ [row]" "ebClaims db' = ebClaims db @ [claimed]"
        "sdAudit db' = sdAudit db @ [rec]" "arAction rec = ''device.claim_issued''" "arResourceID rec = edID row"
        "\<forall>y. r = Inr y \<longrightarrow> y = (x, False)"
proof (cases "m = None")
  case True
  then show ?thesis using assms same by (auto simp: IssueClaim_def)
next
  case False
  then have "keyedCreate L E (icTenantID c) (icIdempotencyKey c) None (hashIssueClaim L c) (decodeClaim L m) (claimWork L m E c) db = (db', r)"
    using assms by (simp only: IssueClaim_def if_False)
  then show ?thesis
  proof (rule keyedCreate_cases, goal_cases)
    case 1
    then show ?thesis using same by simp
  next
    case (2 tenant h row x)
    have "\<forall>y. r \<noteq> Inr (y, False)" using 2(7) by blast
    then show ?thesis using 2(6) same by (simp add: expireKey_def)
  next
    case (3 tenant h db2 x b event audit hh)
    from 3(5) obtain site row claimed where w:
      "insertEnrollment L m E tenant site (newDevice L E c) (newClaim E (newDevice L E c)) (expireKey E tenant (icIdempotencyKey c) db) = Inr (row, claimed, snd x)"
      "fst x = newClaim E (newDevice L E c)" "event = claimAudit L c (fst x)"
      "db2 = (expireKey E tenant (icIdempotencyKey c) db)\<lparr>ebDevices := ebDevices db @ [row], ebClaims := ebClaims db @ [claimed]\<rparr>"
      by (rule claimWork_Inr) (auto simp: expireKey_def)
    have ins: "insertEnrollment L m E tenant site (newDevice L E c) (newClaim E (newDevice L E c)) db = Inr (row, claimed, snd x)"
      using w(1) by (simp only: insertEnrollment_expire)
    have "edID row = dcDeviceID (fst x)" using insertEnrollment_Inr [OF ins] w(2) by (simp add: newClaim_def)
    with auditAppend_row_of [OF 3(6)] w(3,4) obtain rec where
      "audit = sdAudit db @ [rec]" "arAction rec = ''device.claim_issued''" "arResourceID rec = edID row"
      by (auto simp: claimAudit_def expireKey_def)
    then show ?thesis using issued [OF ins 3(1) w(2)] 3(7,8) w(4) by simp
  qed
qed

text \<open>An activation consumes a claim it found and activates the claim's device, or changes nothing.\<close>

lemma Activate_cases:
  assumes "Activate L m E c db = (db', r)"
  obtains (refused) "db' = db" "\<forall>x. r \<noteq> Inr x"
    | (activated) claimID tenantID tenant claim device k d rec where "Verify (elTokens L) m (trimSpace (avClaimToken c)) = Inr (claimID, tenantID)"
        "slUUID L tenantID = Some tenant" "slUUID L claimID = Some claim" "slUUID L (avDeviceID c) = Some device"
        "claimOf db tenant claim device = Some (k, d)" "claimRefusal L E c (trimSpace (avClaimToken c)) tenantID k d = None"
        "\<not> stNow E < clCreatedAt k"
        "db' = (putActivation (clID k) (edID d) (stNow E) db)\<lparr>sdAudit := sdAudit db @ [rec]\<rparr>"
        "arAction rec = ''device.activated''" "arResourceID rec = edID d" "arActorID rec = ''device:'' @ edID d"
        "\<forall>x. r = Inr x \<longrightarrow> x = Enrollment.activated (stNow E) (selectedDevice d)"
proof -
  consider "db' = db" "\<forall>x. r \<noteq> Inr x"
    | claimID tenantID tenant claim device k d where "Verify (elTokens L) m (trimSpace (avClaimToken c)) = Inr (claimID, tenantID)"
        "slUUID L tenantID = Some tenant" "slUUID L claimID = Some claim" "slUUID L (avDeviceID c) = Some device"
        "claimOf db tenant claim device = Some (k, d)" "claimRefusal L E c (trimSpace (avClaimToken c)) tenantID k d = None"
        "writeActivation L E c tenantID k d db = (db', r)"
    using assms unfolding Activate_def Let_def beginStore_def
    by (simp split: option.split_asm sum.split_asm if_split_asm prod.split_asm) blast+
  then show thesis
  proof cases
    case 1
    then show thesis by (rule refused)
  next
    case (2 claimID tenantID tenant claim device k d)
    let ?x = "Enrollment.activated (stNow E) (selectedDevice d)"
    consider "db' = db" "\<forall>x. r \<noteq> Inr x"
      | audit hh where "\<not> stNow E < clCreatedAt k"
        "auditAppend (slAudit L) (stAudit E) (stNow E) (activateAudit L tenantID c ?x (stNow E)) (sdAudit db) = Inr (audit, hh)"
        "commitStore E db ((putActivation (clID k) (edID d) (stNow E) db)\<lparr>sdAudit := audit\<rparr>) ?x = (db', r)"
      using 2(7) by (auto simp: writeActivation_def Let_def split: if_splits sum.splits prod.splits)
    then show thesis
    proof cases
      case 1
      then show thesis by (rule refused)
    next
      case (2 audit hh)
      have "edID ?x = edID d" by (simp add: Enrollment.activated_def selectedDevice_def)
      with auditAppend_row_of [OF 2(2)] obtain rec where rec: "audit = sdAudit db @ [rec]" "arAction rec = ''device.activated''"
        "arResourceID rec = edID d" "arActorID rec = ''device:'' @ edID d" by (auto simp: activateAudit_def)
      from commitStore_cases [OF 2(3)] show thesis
        using refused activated [OF \<open>Verify _ _ _ = _\<close> \<open>slUUID L tenantID = _\<close> \<open>slUUID L claimID = _\<close> \<open>slUUID L (avDeviceID c) = _\<close>
            \<open>claimOf _ _ _ _ = _\<close> \<open>claimRefusal _ _ _ _ _ _ _ = _\<close> 2(1), of rec] rec by blast
    qed
  qed
qed

inductive enrollReach :: "'j enrollLib \<Rightarrow> ClaimTokenManager \<Rightarrow> 'd enrollDB_scheme \<Rightarrow> 'd enrollDB_scheme \<Rightarrow> bool"
  for L m db0 where
  start: "enrollReach L m db0 db0"
| issue: "enrollReach L m db0 db \<Longrightarrow> IssueClaim L m E c db = (db', r) \<Longrightarrow> enrollReach L m db0 db'"
| activate: "enrollReach L m db0 db \<Longrightarrow> Activate L m E a db = (db', s) \<Longrightarrow> enrollReach L m db0 db'"


section \<open>What stays\<close>

definition claimRows :: "'d enrollDB_scheme \<Rightarrow> string \<Rightarrow> claimRow list" where
  "claimRows db i = filter (\<lambda>c. clID c = i) (ebClaims db)"

definition deviceRows :: "'d enrollDB_scheme \<Rightarrow> string \<Rightarrow> EdgeDevice list" where
  "deviceRows db i = filter (\<lambda>d. edID d = i) (ebDevices db)"

definition sameDevice :: "EdgeDevice \<Rightarrow> EdgeDevice \<Rightarrow> bool" where
  "sameDevice d d' \<longleftrightarrow> edID d' = edID d \<and> edTenantID d' = edTenantID d \<and> edSerialNumber d' = edSerialNumber d"

definition sameClaim :: "claimRow \<Rightarrow> claimRow \<Rightarrow> bool" where
  "sameClaim c c' \<longleftrightarrow> clID c' = clID c \<and> clTenant c' = clTenant c \<and> clDevice c' = clDevice c \<and> clTokenHash c' = clTokenHash c \<and>
     clCreatedAt c' = clCreatedAt c \<and> clExpiresAt c' = clExpiresAt c"

lemma same_refl [simp]: "sameDevice d d" "sameClaim c c"
  by (simp_all add: sameDevice_def sameClaim_def)

lemma same_trans: "sameDevice a b \<Longrightarrow> sameDevice b d \<Longrightarrow> sameDevice a d" "sameClaim k l \<Longrightarrow> sameClaim l n \<Longrightarrow> sameClaim k n"
  by (simp_all add: sameDevice_def sameClaim_def)

text \<open>Rows with one identifier stay alone with it; a claim can only be consumed, once and for all.\<close>

definition enrollKeeps :: "'d enrollDB_scheme \<Rightarrow> 'd enrollDB_scheme \<Rightarrow> bool" where
  "enrollKeeps db db' \<longleftrightarrow>
     (\<forall>i c. claimRows db i = [c] \<longrightarrow> (\<exists>c'. claimRows db' i = [c'] \<and> sameClaim c c')) \<and>
     (\<forall>i d. deviceRows db i = [d] \<longrightarrow> (\<exists>d'. deviceRows db' i = [d'] \<and> sameDevice d d')) \<and>
     (\<forall>i. claimRows db i \<noteq> [] \<and> (\<forall>c \<in> set (claimRows db i). clConsumedAt c \<noteq> None) \<longrightarrow>
        claimRows db' i \<noteq> [] \<and> (\<forall>c \<in> set (claimRows db' i). clConsumedAt c \<noteq> None))"

lemma enrollKeeps_refl: "ebDevices db' = ebDevices db \<Longrightarrow> ebClaims db' = ebClaims db \<Longrightarrow> enrollKeeps db db'"
  by (simp add: enrollKeeps_def claimRows_def deviceRows_def)

lemma enrollKeeps_trans:
  assumes "enrollKeeps db1 db2" "enrollKeeps db2 db3"
  shows "enrollKeeps db1 db3"
  unfolding enrollKeeps_def
proof (intro conjI allI impI)
  fix i c
  assume "claimRows db1 i = [c]"
  with assms(1) obtain c' where c': "claimRows db2 i = [c']" "sameClaim c c'" unfolding enrollKeeps_def by blast
  from assms(2) c'(1) obtain c'' where "claimRows db3 i = [c'']" "sameClaim c' c''" unfolding enrollKeeps_def by blast
  with same_trans(2) [OF c'(2)] show "\<exists>c'. claimRows db3 i = [c'] \<and> sameClaim c c'" by blast
next
  fix i d
  assume "deviceRows db1 i = [d]"
  with assms(1) obtain d' where d': "deviceRows db2 i = [d']" "sameDevice d d'" unfolding enrollKeeps_def by blast
  from assms(2) d'(1) obtain d'' where "deviceRows db3 i = [d'']" "sameDevice d' d''" unfolding enrollKeeps_def by blast
  with same_trans(1) [OF d'(2)] show "\<exists>d'. deviceRows db3 i = [d'] \<and> sameDevice d d'" by blast
next
  fix i
  assume "claimRows db1 i \<noteq> [] \<and> (\<forall>c \<in> set (claimRows db1 i). clConsumedAt c \<noteq> None)"
  with assms(1) have two: "claimRows db2 i \<noteq> [] \<and> (\<forall>c \<in> set (claimRows db2 i). clConsumedAt c \<noteq> None)" unfolding enrollKeeps_def by blast
  then have three: "claimRows db3 i \<noteq> [] \<and> (\<forall>c \<in> set (claimRows db3 i). clConsumedAt c \<noteq> None)"
    using assms(2) unfolding enrollKeeps_def by blast
  then show "claimRows db3 i \<noteq> []" by blast
  from three show "\<forall>c \<in> set (claimRows db3 i). clConsumedAt c \<noteq> None" by blast
qed

lemma filter_map_same: "(\<And>x. P (f x) = P x) \<Longrightarrow> filter P (map f xs) = map f (filter P xs)"
  by (simp add: filter_map comp_def)

lemma putActivation_rows:
  "claimRows (putActivation claim device now db) i = map (\<lambda>c. if clID c = claim then c\<lparr>clConsumedAt := Some now\<rparr> else c) (claimRows db i)"
  "deviceRows (putActivation claim device now db) i = map (\<lambda>d. if edID d = device then activated now d else d) (deviceRows db i)"
  by (simp_all add: claimRows_def deviceRows_def putActivation_def activated_def filter_map_same)

lemma rows_audit [simp]: "claimRows (db\<lparr>sdAudit := a\<rparr>) i = claimRows db i" "deviceRows (db\<lparr>sdAudit := a\<rparr>) i = deviceRows db i"
  by (simp_all add: claimRows_def deviceRows_def)

lemma IssueClaim_keeps:
  assumes "IssueClaim L m E c db = (db', r)"
  shows "enrollKeeps db db'"
  using assms
proof (cases rule: IssueClaim_cases)
  case same
  then show ?thesis by (intro enrollKeeps_refl)
next
  case (issued tenant site row claimed x rec)
  note ins = insertEnrollment_Inr [OF issued(1)]
  have dev: "deviceRows db' i = (if i = edID row then deviceRows db i @ [row] else deviceRows db i)" for i
    using issued(4) by (simp add: deviceRows_def)
  have clm: "claimRows db' i = (if i = clID claimed then claimRows db i @ [claimed] else claimRows db i)" for i
    using issued(5) by (simp add: claimRows_def)
  have "deviceRows db (edID row) = []" "claimRows db (clID claimed) = []"
    using ins by (auto simp: deviceRows_def claimRows_def filter_empty_conv image_iff dest: sym)
  then show ?thesis unfolding enrollKeeps_def dev clm by auto
qed

lemma Activate_keeps:
  assumes "Activate L m E a db = (db', r)"
  shows "enrollKeeps db db'"
  using assms
proof (cases rule: Activate_cases)
  case refused
  then show ?thesis by (intro enrollKeeps_refl) simp_all
next
  case (activated claimID tenantID tenant claim device k d rec)
  have rows: "claimRows db' i = map (\<lambda>c. if clID c = clID k then c\<lparr>clConsumedAt := Some (stNow E)\<rparr> else c) (claimRows db i)"
    "deviceRows db' i = map (\<lambda>x. if edID x = edID d then Enrollment.activated (stNow E) x else x) (deviceRows db i)" for i
    unfolding activated(8) rows_audit by (rule putActivation_rows)+
  have "sameDevice x (Enrollment.activated (stNow E) x)" "sameClaim c (c\<lparr>clConsumedAt := Some (stNow E)\<rparr>)" for x c
    by (simp_all add: sameDevice_def sameClaim_def Enrollment.activated_def)
  then show ?thesis unfolding enrollKeeps_def rows by auto
qed

lemma enrollReach_keeps: "enrollReach L m db db' \<Longrightarrow> enrollKeeps db db'"
proof (induction rule: enrollReach.induct)
  case start
  show ?case by (intro enrollKeeps_refl) simp_all
next
  case (issue db1 E c db2 r)
  from enrollKeeps_trans [OF issue.IH IssueClaim_keeps [OF issue.hyps(2)]] show ?case .
next
  case (activate db1 E a db2 s)
  from enrollKeeps_trans [OF activate.IH Activate_keeps [OF activate.hyps(2)]] show ?case .
qed

section \<open>A token is good for one activation\<close>

definition spent :: "'d enrollDB_scheme \<Rightarrow> string \<Rightarrow> bool" where
  "spent db i \<longleftrightarrow> claimRows db i \<noteq> [] \<and> (\<forall>c \<in> set (claimRows db i). clConsumedAt c \<noteq> None)"

lemma enrollKeeps_spent: "enrollKeeps db db' \<Longrightarrow> spent db i \<Longrightarrow> spent db' i"
  by (simp add: enrollKeeps_def spent_def)

lemma claimOf_Some:
  assumes "claimOf db tenant claim device = Some (k, d)"
  shows "k \<in> set (claimRows db claim) \<and> clTenant k = tenant \<and> d \<in> set (ebDevices db) \<and> edID d = device \<and> edTenantID d = tenant \<and> clDevice k = device"
  using assms by (auto simp: claimOf_def claimRows_def find_Some_iff split: option.splits)

lemma Activate_spends:
  assumes "Activate L m E a db = (db1, Inr d)"
  obtains claimID tenantID claim where "Verify (elTokens L) m (trimSpace (avClaimToken a)) = Inr (claimID, tenantID)"
    "slUUID L claimID = Some claim" "spent db1 claim"
  using assms
proof (cases rule: Activate_cases)
  case refused
  then show thesis by simp
next
  case (activated claimID tenantID tenant claim device k x rec)
  note k = claimOf_Some [OF activated(5)]
  have "clID k = claim" using k by (simp add: claimRows_def)
  then have "claimRows db1 claim = map (\<lambda>c. c\<lparr>clConsumedAt := Some (stNow E)\<rparr>) (claimRows db claim)"
    unfolding activated(8) rows_audit putActivation_rows by (auto simp: claimRows_def)
  then have "spent db1 claim" using k by (auto simp: spent_def)
  with activated(1,3) show thesis by (rule that)
qed

lemma spent_refuses:
  assumes "Verify (elTokens L) m (trimSpace (avClaimToken a)) = Inr (claimID, tenantID)" "slUUID L claimID = Some claim" "spent db claim"
    "Activate L m E a db = (db', r)"
  shows "db' = db \<and> (\<forall>x. r \<noteq> Inr x)"
  using assms(4)
proof (cases rule: Activate_cases)
  case (activated claimID' tenantID' tenant claim' device k d rec)
  have "claim' = claim" using activated(1,3) assms(1,2) by simp
  with claimOf_Some [OF activated(5)] assms(3) have "clConsumedAt k \<noteq> None" by (simp add: spent_def)
  with activated(6) show ?thesis by (simp add: claimRefusal_def split: if_splits)
qed simp


section \<open>An issued claim can be used\<close>

text \<open>
  Documented behaviour of the UUID library and the database: both write a UUID in the same canonical
  text and read it back; a text that both read is the same UUID to both.
\<close>

definition uuidAgree :: "'j enrollLib \<Rightarrow> bool" where
  "uuidAgree L \<longleftrightarrow>
     (\<forall>b. length b = 16 \<longrightarrow> slParses L (tlString (elTokens L) b) \<and> slUUID L (tlString (elTokens L) b) = Some (tlString (elTokens L) b) \<and>
        auUUID (slAudit L) (tlString (elTokens L) b) \<noteq> None) \<and>
     (\<forall>s b u. tlParse (elTokens L) s = Some b \<longrightarrow> slUUID L s = Some u \<longrightarrow> u = tlString (elTokens L) b)"

definition auditTotal :: "'j auditLib \<Rightarrow> bool" where
  "auditTotal A \<longleftrightarrow> (\<forall>e. auMarshalEvent A e \<noteq> None) \<and> (\<forall>j. auMarshalState A j \<noteq> None)"

text \<open>An environment in which no statement fails.\<close>

definition calmStore :: "storeEnv \<Rightarrow> bool" where
  "calmStore E \<longleftrightarrow> (\<forall>s. stFails E s = None) \<and> (\<forall>s. \<not> stAudit E s)"

lemma auditAppend_calm:
  assumes "auditTotal A" "\<forall>s. \<not> fails s" "auUUID A (aeTenantID event) \<noteq> None" "auUUID A (aeRequestID event) \<noteq> None"
  shows "\<exists>rows h. auditAppend A fails now event db = Inr (rows, h)"
proof -
  have "auMarshalEvent A e \<noteq> None" "auMarshalState A j \<noteq> None" for e j using assms(1) by (simp_all add: auditTotal_def del: not_None_eq)
  with assms(2-4) show ?thesis
    by (cases "aeOccurredAt event = 0") (auto simp: auditAppend_def Let_def simp del: not_None_eq split: option.split)
qed

lemma find_filter: "(\<And>y. P y \<Longrightarrow> Q y) \<Longrightarrow> find P (filter Q xs) = find P xs"
  by (induction xs) auto

lemma claimOf_rows:
  assumes "claimRows db claim = [k]" "deviceRows db device = [d]" "clTenant k = tenant" "edTenantID d = tenant" "clDevice k = device"
  shows "claimOf db tenant claim device = Some (k, d)"
proof -
  have "k \<in> set (claimRows db claim)" "d \<in> set (deviceRows db device)" using assms(1,2) by simp_all
  then have ids: "clID k = claim" "edID d = device" by (simp_all add: claimRows_def deviceRows_def)
  have "find (\<lambda>c. clID c = claim \<and> clTenant c = tenant) (ebClaims db) = find (\<lambda>c. clID c = claim \<and> clTenant c = tenant) (claimRows db claim)"
    unfolding claimRows_def by (rule find_filter [symmetric]) simp
  moreover have "find (\<lambda>x. edID x = device \<and> edTenantID x = tenant \<and> edID x = clDevice k) (ebDevices db) =
      find (\<lambda>x. edID x = device \<and> edTenantID x = tenant \<and> edID x = clDevice k) (deviceRows db device)"
    unfolding deviceRows_def by (rule find_filter [symmetric]) simp
  ultimately show ?thesis using assms ids by (simp add: claimOf_def)
qed

text \<open>The rows that an issuance leaves, and what its token verifies to.\<close>

lemma issued_rows:
  assumes "IssueClaim L m E c db = (db1, Inr ((claim, token), False))" "tokenLibOK (elTokens L)" "uuidAgree L"
    "canonicalUUID (elTokens L) (stID E)" "canonicalUUID (elTokens L) (stID2 E)"
  obtains tenant k d where "claim = newClaim E (newDevice L E c)" "slUUID L tenant = Some tenant" "slParses L tenant"
    "auUUID (slAudit L) tenant \<noteq> None"
    "Verify (elTokens L) m token = Inr (dcID claim, tenant)" "trimSpace token = token"
    "claimRows db1 (dcID claim) = [k]" "deviceRows db1 (dcDeviceID claim) = [d]" "clTenant k = tenant" "edTenantID d = tenant"
    "clDevice k = dcDeviceID claim" "clTokenHash k = slSha L token" "clCreatedAt k = dcCreatedAt claim" "clExpiresAt k = dcExpiresAt claim"
    "edSerialNumber d = dcSerialNumber claim" "edID d = dcDeviceID claim"
  using assms(1)
proof (cases rule: IssueClaim_cases)
  case same
  then show thesis by simp
next
  case (issued tenant site row claimed x rec)
  have x: "x = (claim, token)" using issued(9) by simp
  note ins = insertEnrollment_Inr [OF issued(1), folded issued(3), unfolded x fst_conv snd_conv]
  have claim: "claim = newClaim E (newDevice L E c)" using issued(3) x by simp
  then have ids: "dcID claim = stID2 E" "dcDeviceID claim = stID E" "dcTenantID claim = icTenantID c"
    by (simp_all add: newClaim_def newDevice_def)
  have tok: "Token (elTokens L) m (dcID claim) (dcTenantID claim) = Inr token" using ins by blast
  obtain b t where bt: "tlParse (elTokens L) (dcID claim) = Some b" "tlParse (elTokens L) (dcTenantID claim) = Some t"
    "Verify (elTokens L) m token = Inr (tlString (elTokens L) b, tlString (elTokens L) t)"
    using Verify_Token [OF assms(2) tok] by blast
  have len: "length t = 16" using assms(2) bt(2) by (simp add: tokenLibOK_def)
  have tenant: "tenant = tlString (elTokens L) t" using assms(3) bt(2) issued(2) ids(3) by (simp add: uuidAgree_def)
  have "tlString (elTokens L) b = dcID claim"
    using assms(2,5) bt(1) ids(1) by (auto simp: tokenLibOK_def canonicalUUID_def)
  then have ver: "Verify (elTokens L) m token = Inr (dcID claim, tenant)" using bt(3) tenant by simp
  have uuid: "slUUID L tenant = Some tenant" "slParses L tenant" "auUUID (slAudit L) tenant \<noteq> None"
    using assms(3) len unfolding tenant by (simp_all add: uuidAgree_def)
  have rid: "edID row = dcDeviceID claim" "clID claimed = dcID claim" using ins ids claim by (simp_all add: newDevice_def)
  have fresh: "claimRows db (dcID claim) = []" "deviceRows db (dcDeviceID claim) = []"
    using ins ids(2) claim by (auto simp: deviceRows_def claimRows_def filter_empty_conv image_iff newDevice_def)
  have one: "claimRows db1 (dcID claim) = claimRows db (dcID claim) @ [claimed]" "deviceRows db1 (dcDeviceID claim) = deviceRows db (dcDeviceID claim) @ [row]"
    using issued(4,5) rid by (simp_all add: claimRows_def deviceRows_def)
  have k: "clTenant claimed = tenant" "clDevice claimed = dcDeviceID claim" "clTokenHash claimed = slSha L token"
    "clCreatedAt claimed = stNow E" "clExpiresAt claimed = stNow E + claimLifetime" using ins by simp_all
  have d: "edTenantID row = tenant" "edSerialNumber row = dcSerialNumber claim" using ins claim by (simp_all add: newClaim_def)
  have times: "dcCreatedAt claim = stNow E" "dcExpiresAt claim = stNow E + claimLifetime" using claim by (simp_all add: newClaim_def)
  show thesis
    by (rule that [OF claim uuid ver token_solid [OF tok], of claimed row]) (use one fresh k d rid times in simp_all)
qed

lemma claim_usable:
  assumes "IssueClaim L m E c db = (db1, Inr ((claim, token), False))" "tokenLibOK (elTokens L)" "uuidAgree L" "auditTotal (slAudit L)"
    "canonicalUUID (elTokens L) (stID E)" "canonicalUUID (elTokens L) (stID2 E)" "enrollReach L m db1 db2"
    "calmStore F" "dcCreatedAt claim \<le> stNow F" "stNow F < dcExpiresAt claim"
    "avDeviceID a = dcDeviceID claim" "avClaimToken a = token" "avSerialNumber a = icSerialNumber c" "auUUID (slAudit L) (avRequestID a) \<noteq> None"
  shows "if spent db2 (dcID claim) then snd (Activate L m F a db2) = Inl (Domain ErrClaimConsumed)
    else \<exists>d. snd (Activate L m F a db2) = Inr d \<and> edID d = dcDeviceID claim \<and> edStatus d = ''active''"
proof -
  obtain tenant k0 d0 where i: "claim = newClaim E (newDevice L E c)" "slUUID L tenant = Some tenant" "slParses L tenant"
    "auUUID (slAudit L) tenant \<noteq> None" "Verify (elTokens L) m token = Inr (dcID claim, tenant)" "trimSpace token = token"
    "claimRows db1 (dcID claim) = [k0]" "deviceRows db1 (dcDeviceID claim) = [d0]" "clTenant k0 = tenant" "edTenantID d0 = tenant"
    "clDevice k0 = dcDeviceID claim" "clTokenHash k0 = slSha L token" "clCreatedAt k0 = dcCreatedAt claim" "clExpiresAt k0 = dcExpiresAt claim"
    "edSerialNumber d0 = dcSerialNumber claim" "edID d0 = dcDeviceID claim"
    using assms(1-3,5,6) by (rule issued_rows)
  obtain k d where kd: "claimRows db2 (dcID claim) = [k]" "sameClaim k0 k" "deviceRows db2 (dcDeviceID claim) = [d]" "sameDevice d0 d"
    using enrollReach_keeps [OF assms(7)] i(7,8) unfolding enrollKeeps_def by blast
  have found: "claimOf db2 tenant (dcID claim) (dcDeviceID claim) = Some (k, d)"
    using kd i(9-16) by (intro claimOf_rows) (simp_all add: sameClaim_def sameDevice_def)
  have uuids: "slUUID L (dcID claim) = Some (dcID claim)" "slUUID L (dcDeviceID claim) = Some (dcDeviceID claim)"
    using assms(3,5,6) i(1) by (auto simp: canonicalUUID_def uuidAgree_def newClaim_def newDevice_def)
  have serial: "normalizeSerial (slUpper L) (icSerialNumber c) = edSerialNumber d"
    using kd(4) i(1,15) by (simp add: sameDevice_def newClaim_def newDevice_def)
  have refusal: "claimRefusal L F a token tenant k d = (if clConsumedAt k \<noteq> None then Some ErrClaimConsumed else None)"
    using kd(2,4) i(10,12,14) assms(10,13) serial by (simp add: claimRefusal_def claimTokenHash_def sameClaim_def sameDevice_def)
  have act: "Activate L m F a db2 = (if clConsumedAt k \<noteq> None then (db2, Inl (Domain ErrClaimConsumed)) else writeActivation L F a tenant k d db2)"
    using assms(8,11,12) i(2,3,5,6) uuids found refusal by (simp add: Activate_def beginStore_def calmStore_def)
  obtain rows h where "auditAppend (slAudit L) (stAudit F) (stNow F) (activateAudit L tenant a (activated (stNow F) (selectedDevice d)) (stNow F)) (sdAudit db2) = Inr (rows, h)"
    using auditAppend_calm [OF assms(4), of "stAudit F"] assms(8,14) i(4) by (force simp: activateAudit_def calmStore_def)
  then have "snd (writeActivation L F a tenant k d db2) = Inr (activated (stNow F) (selectedDevice d))"
    using assms(8,9) kd(2) i(13) by (simp add: writeActivation_def calmStore_def commitStore_def sameClaim_def)
  moreover have "edID d = dcDeviceID claim" using kd(4) i(16) by (simp add: sameDevice_def)
  ultimately show ?thesis using kd(1) unfolding act by (simp add: spent_def activated_def selectedDevice_def)
qed

end
