(* ===== verification/Enrollment_Props.thy ===== *)
theory Enrollment_Props
  imports Enrollment_Laws
begin

text \<open>
  Properties of device enrollment: the round trip of claim tokens, the single use of a token, the
  usability of an issued claim, and the invariant of the registry.
\<close>

section \<open>The invariant\<close>

definition activations :: "'d enrollDB_scheme \<Rightarrow> string \<Rightarrow> nat" where
  "activations db i = length (filter (\<lambda>r. arAction r = ''device.activated'' \<and> arResourceID r = i) (sdAudit db))"

text \<open>The stored hash is the hash of the claim's token.\<close>

definition hashOfToken :: "'j enrollLib \<Rightarrow> ClaimTokenManager \<Rightarrow> claimRow \<Rightarrow> bool" where
  "hashOfToken L m c \<longleftrightarrow> (\<exists>raw token. slUUID L raw = Some (clTenant c) \<and> Token (elTokens L) m (clID c) raw = Inr token \<and> clTokenHash c = slSha L token)"

text \<open>A claim and its device, which are inserted together.\<close>

definition enrolled :: "'j enrollLib \<Rightarrow> ClaimTokenManager \<Rightarrow> 'd enrollDB_scheme \<Rightarrow> claimRow \<Rightarrow> EdgeDevice \<Rightarrow> bool" where
  "enrolled L m db c d \<longleftrightarrow> clDevice c = edID d \<and> clTenant c = edTenantID d \<and> clExpiresAt c = clCreatedAt c + claimLifetime \<and>
     hashOfToken L m c \<and>
     (case clConsumedAt c of
        None \<Rightarrow> edStatus d = ''pending'' \<and> edActivatedAt d = None \<and> activations db (edID d) = 0
      | Some t \<Rightarrow> edStatus d = ''active'' \<and> edActivatedAt d = Some t \<and> clCreatedAt c \<le> t \<and> t < clExpiresAt c \<and>
          activations db (edID d) = 1)"

definition enrollInv :: "'j enrollLib \<Rightarrow> ClaimTokenManager \<Rightarrow> 'd enrollDB_scheme \<Rightarrow> bool" where
  "enrollInv L m db \<longleftrightarrow> distinct (map clID (ebClaims db)) \<and> distinct (map edID (ebDevices db)) \<and>
     list_all2 (enrolled L m db) (ebClaims db) (ebDevices db) \<and>
     (\<forall>r \<in> set (sdAudit db). arAction r = ''device.activated'' \<longrightarrow> arResourceID r \<in> edID ` set (ebDevices db))"

lemma enrolled_cong:
  "activations db' (edID d) = activations db (edID d) \<Longrightarrow> enrolled L m db c d \<Longrightarrow> enrolled L m db' c d"
  by (auto simp: enrolled_def split: option.splits)

lemma IssueClaim_inv:
  assumes "enrollInv L m db" "IssueClaim L m E c db = (db', r)"
  shows "enrollInv L m db'"
  using assms(2)
proof (cases rule: IssueClaim_cases)
  case same
  then have "activations db' i = activations db i" for i by (simp add: activations_def)
  with same assms(1) show ?thesis
    unfolding enrollInv_def by (auto elim!: list_all2_mono intro: enrolled_cong)
next
  case (issued tenant site row claimed x rec)
  note ins = insertEnrollment_Inr [OF issued(1)]
  have act: "activations db' i = activations db i" for i using issued(6,7) by (simp add: activations_def)
  have row: "edID row = stID E" "edStatus row = ''pending''" "edActivatedAt row = None" "edTenantID row = tenant"
    using ins by (simp_all add: newDevice_def)
  have fresh: "edID row \<notin> edID ` set (ebDevices db)" "clID claimed \<notin> clID ` set (ebClaims db)" using ins by (simp_all add: newDevice_def)
  have "activations db (edID row) = 0"
    using assms(1) fresh(1) unfolding activations_def enrollInv_def length_0_conv filter_empty_conv by metis
  moreover have tok: "Token (elTokens L) m (clID claimed) (icTenantID c) = Inr (snd x)" "clTokenHash claimed = slSha L (snd x)"
    "clTenant claimed = tenant" "clDevice claimed = stID E" "clConsumedAt claimed = None" "clExpiresAt claimed = clCreatedAt claimed + claimLifetime"
    using ins by (simp_all add: newClaim_def newDevice_def)
  ultimately have "enrolled L m db' claimed row" unfolding enrolled_def hashOfToken_def using row issued(2) act by auto
  moreover have "list_all2 (enrolled L m db') (ebClaims db) (ebDevices db)"
    using assms(1) by (auto simp: enrollInv_def act elim!: list_all2_mono intro: enrolled_cong)
  ultimately have "list_all2 (enrolled L m db') (ebClaims db') (ebDevices db')"
    unfolding issued(4,5) by (simp add: list_all2_appendI)
  with assms(1) fresh issued(4-7) show ?thesis by (auto simp: enrollInv_def)
qed

lemma distinct_map_nth:
  "distinct (map f xs) \<Longrightarrow> i < length xs \<Longrightarrow> j < length xs \<Longrightarrow> f (xs ! i) = f (xs ! j) \<Longrightarrow> i = j"
  using nth_eq_iff_index_eq [of "map f xs" i j] by simp

lemma Activate_inv:
  assumes inv: "enrollInv L m db" and run: "Activate L m E a db = (db', r)"
  shows "enrollInv L m db'"
  using run
proof (cases rule: Activate_cases)
  case refused
  with inv show ?thesis by simp
next
  case (activated claimID tenantID tenant claim device k d rec)
  note found = claimOf_Some [OF activated(5)]
  have len: "length (ebClaims db) = length (ebDevices db)" and all: "\<And>i. i < length (ebClaims db) \<Longrightarrow> enrolled L m db (ebClaims db ! i) (ebDevices db ! i)"
    using inv by (auto simp: enrollInv_def list_all2_conv_all_nth)
  obtain n where n: "n < length (ebClaims db)" "ebClaims db ! n = k" using found by (auto simp: claimRows_def in_set_conv_nth)
  obtain j where j: "j < length (ebDevices db)" "ebDevices db ! j = d" using found by (auto simp: in_set_conv_nth)
  have "edID (ebDevices db ! n) = edID d" using all [OF n(1)] n(2) found by (simp add: enrolled_def)
  with inv j len n(1) have jn: "j = n" by (auto simp: enrollInv_def intro: distinct_map_nth)
  have claims: "ebClaims db' = map (\<lambda>c. if clID c = clID k then c\<lparr>clConsumedAt := Some (stNow E)\<rparr> else c) (ebClaims db)"
    and devices: "ebDevices db' = map (\<lambda>x. if edID x = edID d then Enrollment.activated (stNow E) x else x) (ebDevices db)"
    and audit: "sdAudit db' = sdAudit db @ [rec]"
    using activated(8) by (simp_all add: putActivation_def)
  have ids: "map clID (ebClaims db') = map clID (ebClaims db)" "map edID (ebDevices db') = map edID (ebDevices db)"
    unfolding claims devices by (simp_all add: Enrollment.activated_def)
  have act: "activations db' i = activations db i + (if i = edID d then 1 else 0)" for i
    using audit activated(9,10) by (auto simp: activations_def)
  have k: "clConsumedAt k = None" "stNow E < clExpiresAt k" "clCreatedAt k \<le> stNow E"
    using activated(6,7) by (auto simp: claimRefusal_def split: if_splits)
  have "enrolled L m db' (ebClaims db' ! i) (ebDevices db' ! i)" if i: "i < length (ebClaims db)" for i
  proof (cases "i = n")
    case True
    have "ebClaims db' ! i = k\<lparr>clConsumedAt := Some (stNow E)\<rparr>" "ebDevices db' ! i = Enrollment.activated (stNow E) d"
      using True n j jn len unfolding claims devices by simp_all
    with all [OF n(1)] n(2) j(2) jn k act [of "edID d"] show ?thesis by (auto simp: enrolled_def hashOfToken_def Enrollment.activated_def)
  next
    case False
    have "clID (ebClaims db ! i) \<noteq> clID k" using False inv i n by (auto simp: enrollInv_def dest: distinct_map_nth)
    moreover have "edID (ebDevices db ! i) \<noteq> edID d" using False inv i j jn len by (auto simp: enrollInv_def dest: distinct_map_nth)
    ultimately show ?thesis using all [OF i] i len act unfolding claims devices by (simp add: enrolled_cong)
  qed
  then have "list_all2 (enrolled L m db') (ebClaims db') (ebDevices db')"
    using len by (simp add: list_all2_conv_all_nth claims devices)
  moreover have "\<forall>r \<in> set (sdAudit db'). arAction r = ''device.activated'' \<longrightarrow> arResourceID r \<in> edID ` set (ebDevices db')"
  proof -
    have "edID ` set (ebDevices db') = edID ` set (ebDevices db)" using ids(2) by (metis set_map)
    moreover have "arResourceID rec \<in> edID ` set (ebDevices db)" using activated(10) found by (metis imageI)
    ultimately show ?thesis using inv audit by (auto simp: enrollInv_def)
  qed
  ultimately show ?thesis using inv ids by (simp add: enrollInv_def)
qed

lemma enrollReach_inv: "enrollReach L m db0 db \<Longrightarrow> enrollInv L m db0 \<Longrightarrow> enrollInv L m db"
proof (induction rule: enrollReach.induct)
  case (issue db E c db' r)
  then show ?case using IssueClaim_inv by blast
next
  case (activate db E a db' s)
  then show ?case using Activate_inv by blast
qed


section \<open>Instances\<close>

text \<open>Identifiers of sixteen letters that are their own canonical text, and a signature that is a prefix.\<close>

definition wTokens :: tokenLib where
  "wTokens = \<lparr>tlHmac = (\<lambda>key msg. take 32 (msg @ replicate 32 CHR ''h'')),
     tlParse = (\<lambda>s. if length s = 16 then Some s else None), tlString = (\<lambda>b. b)\<rparr>"

definition weTenant :: string where "weTenant = ''tenant-000000001''"
definition weSite :: string where "weSite = ''site-00000000001''"
definition weDevice :: string where "weDevice = ''device-000000001''"
definition weClaim :: string where "weClaim = ''claim-0000000001''"

definition weOffer :: DeviceClaim where
  "weOffer = \<lparr>dcID = weClaim, dcDeviceID = weDevice, dcTenantID = weTenant, dcSiteID = weSite, dcSerialNumber = ''SN1'', dcHardwareTier = ''m'',
     dcModel = [], dcExpiresAt = 5 + claimLifetime, dcCreatedAt = 5\<rparr>"

definition weLib :: "string enrollLib" where
  "weLib = \<lparr>slSha = (\<lambda>x. take 32 (rev x @ replicate 32 CHR ''s'')), slParses = (\<lambda>s. length s = 16),
     slUUID = (\<lambda>s. if length s = 16 then Some s else None), slJsonb = (\<lambda>b. b), slLower = (\<lambda>s. s), slUpper = (\<lambda>s. s), slAudit = wAuditLib, slNil = [],
     elTokens = wTokens, elEncodeRequest = (\<lambda>x. Some (fst x)), elEncode = (\<lambda>c. if c = weOffer then Some ''offer'' else None), elDecode = (\<lambda>b. Some weOffer),
     elAnyClaim = dcID, elAnyDevice = edID, elSqlUpper = (\<lambda>s. s)\<rparr>"

definition weKey :: ClaimTokenManager where "weKey = Some (replicate 32 CHR ''k'')"

definition weEnv :: "gotime \<Rightarrow> storeEnv" where
  "weEnv now = \<lparr>stNow = now, stID = weDevice, stID2 = weClaim, stFails = (\<lambda>_. None), stAudit = (\<lambda>_. False), stCommitApplied = False\<rparr>"

definition weDB :: enrollDB where
  "weDB = \<lparr>sdTenants = (\<lambda>_. True), sdSites = [\<lparr>siID = weSite, siTenantID = weTenant, siName = [], siAddress = [], siTimezone = [],
      siStatus = ''active'', siCreatedAt = 1\<rparr>], sdKeys = [], sdAudit = [], ebDevices = [], ebClaims = []\<rparr>"

definition weIssue :: IssueClaimCommand where
  "weIssue = \<lparr>icTenantID = weTenant, icActorID = ''admin'', icRequestID = weClaim, icIdempotencyKey = ''key'', icSiteID = weSite,
     icSerialNumber = ''SN1'', icHardwareTier = ''m'', icModel = []\<rparr>"

definition weToken :: string where
  "weToken = (case Token wTokens weKey weClaim weTenant of Inr t \<Rightarrow> t | Inl _ \<Rightarrow> [])"

definition weActivate :: ActivateDeviceCommand where
  "weActivate = \<lparr>avDeviceID = weDevice, avClaimToken = weToken, avSerialNumber = ''SN1'', avRequestID = weClaim\<rparr>"

lemma weIDs: "length weTenant = 16" "length weSite = 16" "length weDevice = 16" "length weClaim = 16"
  by (simp_all add: weTenant_def weSite_def weDevice_def weClaim_def)

lemma wTokens_OK: "tokenLibOK wTokens"
  by (auto simp: tokenLibOK_def wTokens_def split: if_splits)

lemma weCanonical: "canonicalUUID wTokens s" if "length s = 16"
  using that by (simp add: canonicalUUID_def wTokens_def)

lemma weToken_made: "Token wTokens weKey weClaim weTenant = Inr weToken"
proof -
  have "\<exists>t. Token wTokens weKey weClaim weTenant = Inr t"
    by (rule Token_defined [OF wTokens_OK, of _ "replicate 32 CHR ''k''"]) (simp_all add: weKey_def usableKey_def weCanonical weIDs)
  then show ?thesis by (auto simp: weToken_def)
qed

lemma weLib_agree: "uuidAgree weLib"
  by (simp add: uuidAgree_def weLib_def wTokens_def wAuditLib_def)

lemma weLib_audit: "auditTotal (slAudit weLib)"
  by (simp add: auditTotal_def weLib_def wAuditLib_def)

lemma we_serial: "normalizeSerial (\<lambda>s. s) ''SN1'' = ''SN1''" "normalizeHardwareTier (\<lambda>s. s) ''m'' = ''m''" "trimSpace [] = []"
  "hexEncode (slSha weLib weSite) \<noteq> []"
  by code_simp+

lemma weOffered: "newClaim (weEnv 5) (newDevice weLib (weEnv 5) weIssue) = weOffer"
  using we_serial by (simp add: newClaim_def newDevice_def weEnv_def weIssue_def weLib_def weOffer_def)

lemma weWork:
  "\<exists>db2 event. claimWork weLib weKey (weEnv 5) weIssue weTenant weDB = Inr (db2, (weOffer, weToken), Some ''offer'', event) \<and>
     sdKeys db2 = [] \<and> sdAudit db2 = [] \<and> aeTenantID event = weTenant \<and> aeRequestID event = weClaim"
proof -
  have len: "length (slSha weLib weToken) = 32" by (simp add: weLib_def)
  have dev: "newDevice weLib (weEnv 5) weIssue = (newDevice weLib (weEnv 5) weIssue)\<lparr>edHardwareTier := ''m''\<rparr>"
    using we_serial by (simp add: newDevice_def weEnv_def weIssue_def weLib_def)
  have "edHardwareTier (newDevice weLib (weEnv 5) weIssue) = ''m''" by (subst dev) simp
  then obtain row where "insertDevice weLib (weEnv 5) weTenant weSite (newDevice weLib (weEnv 5) weIssue) weDB = Inr row"
    by (simp add: insertDevice_def weEnv_def weDB_def)
  moreover obtain claimed where "insertClaim (weEnv 5) weTenant weOffer (claimTokenHash (slSha weLib) weToken) weDB = Inr claimed"
    using len by (simp add: insertClaim_def claimTokenHash_def weEnv_def weDB_def)
  moreover have "Token (elTokens weLib) weKey (dcID weOffer) (dcTenantID weOffer) = Inr weToken"
    using weToken_made by (simp add: weLib_def weOffer_def)
  ultimately have "insertEnrollment weLib weKey (weEnv 5) weTenant weSite (newDevice weLib (weEnv 5) weIssue) weOffer weDB = Inr (row, claimed, weToken)"
    by (simp add: insertEnrollment_def)
  moreover have "slUUID weLib (icSiteID weIssue) = Some weSite" by (simp add: weLib_def weIssue_def weIDs)
  moreover have "stFails (weEnv 5) StSite = None" by (simp add: weEnv_def)
  moreover have "siteOpen weDB weTenant weSite" "sdKeys weDB = []" "sdAudit weDB = []" by (simp_all add: siteOpen_def weDB_def)
  moreover have "elEncode weLib weOffer = Some ''offer''" by (simp add: weLib_def)
  moreover have "aeTenantID (claimAudit weLib weIssue weOffer) = weTenant" "aeRequestID (claimAudit weLib weIssue weOffer) = weClaim"
    by (simp_all add: claimAudit_def weIssue_def)
  ultimately show ?thesis by (simp add: claimWork_def weOffered Let_def)
qed

lemma weSel: "weKey \<noteq> None" "icTenantID weIssue = weTenant" "icIdempotencyKey weIssue = ''key''"
  by (simp_all add: weKey_def weIssue_def)

lemma weIssued: "\<exists>db1. IssueClaim weLib weKey (weEnv 5) weIssue weDB = (db1, Inr ((weOffer, weToken), False))"
proof -
  obtain db2 event where w: "claimWork weLib weKey (weEnv 5) weIssue weTenant weDB = Inr (db2, (weOffer, weToken), Some ''offer'', event)"
    "sdKeys db2 = []" "sdAudit db2 = []" "aeTenantID event = weTenant" "aeRequestID event = weClaim" using weWork by blast
  have calm: "stFails (weEnv 5) s = None" "stAudit (weEnv 5) q = False" "stNow (weEnv 5) = 5" for s q by (simp_all add: weEnv_def)
  obtain rows h where audit: "auditAppend (slAudit weLib) (stAudit (weEnv 5)) 5 event [] = Inr (rows, h)"
    using auditAppend_calm [OF weLib_audit, of "stAudit (weEnv 5)" event] calm w(4,5) by (force simp: weLib_def wAuditLib_def)
  obtain hash where hash: "hashIssueClaim weLib weIssue = Inr hash" "length hash = 64"
    by (simp add: hashIssueClaim_def weLib_def weIssue_def)
  have tenant: "(beginStore weLib (weEnv 5) weTenant :: claimError storeError + string) = Inr weTenant" using calm by (simp add: beginStore_def weLib_def weIDs)
  have "expireKey (weEnv 5) weTenant ''key'' weDB = weDB" "keyRowOf weDB weTenant ''key'' = None"
    by (simp_all add: expireKey_def keyRowOf_def weDB_def)
  then have "answerKeyed weLib (weEnv 5) weTenant ''key'' hash (decodeClaim weLib weKey) (claimWork weLib weKey (weEnv 5) weIssue) weDB =
      finishKeyed weLib (weEnv 5) weTenant ''key'' hash weDB (db2, (weOffer, weToken), Some ''offer'', event)"
    by (simp add: answerKeyed_def w(1))
  moreover have "snd (finishKeyed weLib (weEnv 5) weTenant ''key'' hash weDB (db2, (weOffer, weToken), Some ''offer'', event)) = Inr ((weOffer, weToken), False)"
    by (simp add: finishKeyed_def calm hash(2) w(3) audit commitStore_def)
  ultimately have "snd (IssueClaim weLib weKey (weEnv 5) weIssue weDB) = Inr ((weOffer, weToken), False)"
    using tenant hash(1) calm weSel by (simp add: IssueClaim_def keyedCreate_def)
  then show ?thesis by (metis prod.collapse)
qed


lemma weDB_inv: "enrollInv weLib weKey weDB"
  by (simp add: enrollInv_def weDB_def)

lemma weTimes: "dcID weOffer = weClaim" "dcDeviceID weOffer = weDevice" "dcCreatedAt weOffer = 5" "dcExpiresAt weOffer = 5 + claimLifetime"
    "6 < 5 + claimLifetime" "calmStore (weEnv t)" "stNow (weEnv t) = t" "stID (weEnv t) = weDevice" "stID2 (weEnv t) = weClaim"
  by (simp_all add: weOffer_def claimLifetime_def minute_def second_def calmStore_def weEnv_def)

lemma weActivate_sel: "avDeviceID weActivate = weDevice" "avClaimToken weActivate = weToken" "avSerialNumber weActivate = icSerialNumber weIssue"
    "auUUID (slAudit weLib) (avRequestID weActivate) \<noteq> None" "elTokens weLib = wTokens"
  by (simp_all add: weActivate_def weIssue_def weLib_def wAuditLib_def)

lemma issued_not_spent:
  assumes "IssueClaim L m E c db = (db1, Inr ((claim, token), False))"
  shows "\<not> spent db1 (dcID claim)"
  using assms
proof (cases rule: IssueClaim_cases)
  case (issued tenant site row claimed x rec)
  have "claim = newClaim E (newDevice L E c)" using issued(3,9) by auto
  then have "claimed \<in> set (claimRows db1 (dcID claim))" "clConsumedAt claimed = None"
    using insertEnrollment_Inr [OF issued(1)] issued(5) by (simp_all add: claimRows_def)
  then show ?thesis by (auto simp: spent_def)
qed simp

section \<open>Properties\<close>

text \<open>C37: a claim token verifies to the identifiers it was made from, for every key of at least thirty-two
  bytes and all canonical identifiers, and it exists for them.\<close>

theorem claim_token_roundtrip:
  assumes "tokenLibOK T" "NewClaimTokenManager key = Inr m" "canonicalUUID T claimID" "canonicalUUID T tenantID"
  shows "\<exists>token. Token T m claimID tenantID = Inr token \<and> Verify T m token = Inr (claimID, tenantID) \<and> trimSpace token = token"
proof -
  have "usableKey m = Some key" using assms(2) by (auto simp: NewClaimTokenManager_def usableKey_def split: if_splits)
  then obtain token where token: "Token T m claimID tenantID = Inr token" using Token_defined [OF assms(1) _ assms(3,4)] by blast
  with Verify_Token_canonical [OF assms(1,3,4) token] token_solid [OF token] show ?thesis by blast
qed

theorem claim_token_roundtrip_witness:
  "\<exists>token. Token wTokens weKey weClaim weTenant = Inr token \<and> Verify wTokens weKey token = Inr (weClaim, weTenant) \<and> trimSpace token = token"
  by (rule claim_token_roundtrip [OF wTokens_OK, of "replicate 32 CHR ''k''"])
    (simp_all add: NewClaimTokenManager_def weKey_def weCanonical weIDs)

text \<open>C9: a claim token is good for one activation: once an activation has succeeded, no later
  activation with the same token succeeds or changes anything, whatever has happened in between.\<close>

theorem activation_once:
  assumes "Activate L m E a db = (db1, Inr d)" "enrollReach L m db1 db2" "trimSpace (avClaimToken a') = trimSpace (avClaimToken a)"
  shows "fst (Activate L m E' a' db2) = db2 \<and> (\<forall>x. snd (Activate L m E' a' db2) \<noteq> Inr x)"
proof -
  obtain claimID tenantID claim where v: "Verify (elTokens L) m (trimSpace (avClaimToken a)) = Inr (claimID, tenantID)"
    "slUUID L claimID = Some claim" "spent db1 claim" using assms(1) by (rule Activate_spends)
  have "spent db2 claim" using enrollKeeps_spent [OF enrollReach_keeps [OF assms(2)] v(3)] .
  from spent_refuses [OF v(1) [folded assms(3)] v(2) this, of E' "fst (Activate L m E' a' db2)" "snd (Activate L m E' a' db2)"]
  show ?thesis by simp
qed

text \<open>C25: an issued claim can be used. After any further issuances and activations, an activation
  with its token, device and serial number, in time and with the database available, activates the
  device, unless the claim has been used before, which is then what it reports.\<close>

theorem issued_claim_usable:
  assumes "IssueClaim L m E c db = (db1, Inr ((claim, token), False))" "tokenLibOK (elTokens L)" "uuidAgree L" "auditTotal (slAudit L)"
    "canonicalUUID (elTokens L) (stID E)" "canonicalUUID (elTokens L) (stID2 E)" "enrollReach L m db1 db2"
    "calmStore F" "dcCreatedAt claim \<le> stNow F" "stNow F < dcExpiresAt claim"
    "avDeviceID a = dcDeviceID claim" "avClaimToken a = token" "avSerialNumber a = icSerialNumber c" "auUUID (slAudit L) (avRequestID a) \<noteq> None"
  shows "if spent db2 (dcID claim) then snd (Activate L m F a db2) = Inl (Domain ErrClaimConsumed)
    else \<exists>d. snd (Activate L m F a db2) = Inr d \<and> edID d = dcDeviceID claim \<and> edStatus d = ''active''"
  using assms by (rule claim_usable)

theorem issued_claim_usable_witness:
  "\<exists>db1 d. IssueClaim weLib weKey (weEnv 5) weIssue weDB = (db1, Inr ((weOffer, weToken), False)) \<and>
     snd (Activate weLib weKey (weEnv 6) weActivate db1) = Inr d \<and> edID d = weDevice \<and> edStatus d = ''active''"
proof -
  obtain db1 where i: "IssueClaim weLib weKey (weEnv 5) weIssue weDB = (db1, Inr ((weOffer, weToken), False))" using weIssued by blast
  from issued_claim_usable [OF i, of db1 "weEnv 6" weActivate] issued_not_spent [OF i] show ?thesis
    using i enrollReach.start [of weLib weKey db1]
    by (simp add: weTimes weActivate_sel wTokens_OK weLib_agree weLib_audit weCanonical weIDs)
qed

theorem activation_once_witness:
  "\<exists>db1 db2 d. IssueClaim weLib weKey (weEnv 5) weIssue weDB = (db1, Inr ((weOffer, weToken), False)) \<and>
     Activate weLib weKey (weEnv 6) weActivate db1 = (db2, Inr d) \<and> edStatus d = ''active'' \<and>
     fst (Activate weLib weKey (weEnv 7) weActivate db2) = db2 \<and> (\<forall>x. snd (Activate weLib weKey (weEnv 7) weActivate db2) \<noteq> Inr x)"
proof -
  obtain db1 where i: "IssueClaim weLib weKey (weEnv 5) weIssue weDB = (db1, Inr ((weOffer, weToken), False))" using weIssued by blast
  from claim_usable [OF i, of db1 "weEnv 6" weActivate] issued_not_spent [OF i] obtain d where
    "snd (Activate weLib weKey (weEnv 6) weActivate db1) = Inr d" "edStatus d = ''active''"
    using enrollReach.start [of weLib weKey db1]
    by (auto simp: weTimes weActivate_sel wTokens_OK weLib_agree weLib_audit weCanonical weIDs)
  then obtain db2 where a: "Activate weLib weKey (weEnv 6) weActivate db1 = (db2, Inr d)" "edStatus d = ''active''" by (metis prod.collapse)
  from activation_once [OF a(1) enrollReach.start refl, of "weEnv 7"] a i show ?thesis by blast
qed

text \<open>C26: the registry invariant. Every device has one claim, with the hash of its token and a
  lifetime of a day; the device is active, with an activation time within that day and exactly one
  audit record of it, if and only if the claim is consumed.\<close>

theorem enrollment_invariant:
  assumes "enrollReach L m db0 db" "enrollInv L m db0"
  shows "enrollInv L m db"
  using enrollReach_inv [OF assms] .

theorem enrollment_invariant_witness:
  "\<exists>db1. IssueClaim weLib weKey (weEnv 5) weIssue weDB = (db1, Inr ((weOffer, weToken), False)) \<and> enrollInv weLib weKey db1"
proof -
  obtain db1 where i: "IssueClaim weLib weKey (weEnv 5) weIssue weDB = (db1, Inr ((weOffer, weToken), False))" using weIssued by blast
  from enrollment_invariant [OF enrollReach.issue [OF enrollReach.start i] weDB_inv] i show ?thesis by blast
qed

end
