(* ===== verification/Authz.thy ===== *)
theory Authz
  imports Go_Prelude
begin

text \<open>
  Authorization: the verified principal (\<open>backend/internal/identity/principal.go\<close>) and the
  deny-by-default policy (\<open>backend/internal/authz/policy.go\<close>). Roles and capabilities are Go
  strings. Unicode lowering is the parameter \<open>uni\<close>.
\<close>

section \<open>Principals\<close>

definition RoleSuperAdmin :: string where "RoleSuperAdmin = ''super_admin''"
definition RoleSiteAdmin :: string where "RoleSiteAdmin = ''site_admin''"
definition RoleOperator :: string where "RoleOperator = ''operator''"
definition RoleAuditor :: string where "RoleAuditor = ''auditor''"
definition RoleViewer :: string where "RoleViewer = ''viewer''"

record Principal =
  pUserID :: string
  pEmail :: string
  pTenantID :: string
  pSiteIDs :: "string list"
  pRoles :: "string list"
  pScopes :: "string list"
  pDataClasses :: "string list"
  pMFALevel :: string

fun containsText :: "string list \<Rightarrow> string \<Rightarrow> bool" where
  "containsText [] x = False"
| "containsText (y # ys) x = (if y = x then True else containsText ys x)"

definition HasRole :: "Principal \<Rightarrow> string \<Rightarrow> bool" where
  "HasRole p role = containsText (pRoles p) role"

definition HasScope :: "Principal \<Rightarrow> string \<Rightarrow> bool" where
  "HasScope p scope = containsText (pScopes p) scope"

definition HasDataClass :: "Principal \<Rightarrow> string \<Rightarrow> bool" where
  "HasDataClass p dataClass = containsText (pDataClasses p) dataClass"

definition HasSite :: "Principal \<Rightarrow> string \<Rightarrow> bool" where
  "HasSite p siteID = containsText (pSiteIDs p) siteID"

definition MFAAuthenticated :: "(string \<Rightarrow> string) \<Rightarrow> Principal \<Rightarrow> bool" where
  "MFAAuthenticated uni p =
     (let level = toLower uni (trimSpace (pMFALevel p))
      in level \<noteq> [] \<and> level \<noteq> ''none'' \<and> level \<noteq> ''password'')"

fun knownRoles :: "string list \<Rightarrow> bool" where
  "knownRoles [] = True"
| "knownRoles (role # rs) =
     (if role = RoleSuperAdmin \<or> role = RoleSiteAdmin \<or> role = RoleOperator \<or> role = RoleAuditor \<or>
         role = RoleViewer then knownRoles rs else False)"

text \<open>\<open>None\<close> is the nil error.\<close>

definition Validate :: "Principal \<Rightarrow> string option" where
  "Validate p =
     (if trimSpace (pUserID p) = [] then Some ''identity: missing subject''
      else if trimSpace (pTenantID p) = [] then Some ''identity: missing tenant claim''
      else if length (pRoles p) = 0 then Some ''identity: missing roles claim''
      else if \<not> knownRoles (pRoles p) then Some ''identity: unknown seed role''
      else if length (pScopes p) = 0 then Some ''identity: missing scopes claim''
      else if length (pDataClasses p) = 0 then Some ''identity: missing data class claim''
      else if trimSpace (pMFALevel p) = [] then Some ''identity: missing MFA level claim''
      else if \<not> HasRole p RoleSuperAdmin \<and> length (pSiteIDs p) = 0
      then Some ''identity: site-scoped role has no sites''
      else None)"

section \<open>The policy\<close>

definition CapabilityAuthRead :: string where "CapabilityAuthRead = ''auth:read''"
definition CapabilitySitesRead :: string where "CapabilitySitesRead = ''sites:read''"
definition CapabilityTenantManage :: string where "CapabilityTenantManage = ''tenant:manage''"
definition CapabilityUsersManage :: string where "CapabilityUsersManage = ''users:manage''"
definition CapabilitySiteManage :: string where "CapabilitySiteManage = ''site:manage''"
definition CapabilityConfigRead :: string where "CapabilityConfigRead = ''config:read''"
definition CapabilityConfigWrite :: string where "CapabilityConfigWrite = ''config:write''"
definition CapabilityRawVideoRead :: string where "CapabilityRawVideoRead = ''raw_video:read''"
definition CapabilityAlertsRead :: string where "CapabilityAlertsRead = ''alerts:read''"
definition CapabilityAlertsWrite :: string where "CapabilityAlertsWrite = ''alerts:write''"
definition CapabilityEvidenceExport :: string where "CapabilityEvidenceExport = ''evidence:export''"
definition CapabilityBiometricRead :: string where "CapabilityBiometricRead = ''biometric:read''"
definition CapabilityAuditRead :: string where "CapabilityAuditRead = ''audit:read''"
definition CapabilityDataErase :: string where "CapabilityDataErase = ''data:erase''"
definition CapabilityAnalyticsRead :: string where "CapabilityAnalyticsRead = ''analytics:read''"
definition CapabilityEventsWrite :: string where "CapabilityEventsWrite = ''events:write''"
definition CapabilityPrivacyMaskApprove :: string where
  "CapabilityPrivacyMaskApprove = ''privacy_masks:approve''"

lemmas capabilities = CapabilityAuthRead_def CapabilitySitesRead_def CapabilityTenantManage_def
  CapabilityUsersManage_def CapabilitySiteManage_def CapabilityConfigRead_def CapabilityConfigWrite_def
  CapabilityRawVideoRead_def CapabilityAlertsRead_def CapabilityAlertsWrite_def
  CapabilityEvidenceExport_def CapabilityBiometricRead_def CapabilityAuditRead_def
  CapabilityDataErase_def CapabilityAnalyticsRead_def CapabilityEventsWrite_def
  CapabilityPrivacyMaskApprove_def

lemmas roles = RoleSuperAdmin_def RoleSiteAdmin_def RoleOperator_def RoleAuditor_def RoleViewer_def

record AuthzRequest =
  rqCapability :: string
  rqTenantID :: string
  rqSiteID :: string

record roleGrant =
  grCapabilities :: "string list"
  grTenantWide :: bool

definition seedRoleList :: "(string \<times> roleGrant) list" where
  "seedRoleList =
     [(RoleSuperAdmin, \<lparr>grCapabilities =
         [CapabilityAuthRead, CapabilitySitesRead, CapabilityTenantManage, CapabilityUsersManage,
          CapabilitySiteManage, CapabilityConfigRead, CapabilityConfigWrite, CapabilityRawVideoRead,
          CapabilityAlertsRead, CapabilityAlertsWrite, CapabilityEvidenceExport,
          CapabilityBiometricRead, CapabilityAuditRead, CapabilityAnalyticsRead,
          CapabilityEventsWrite, CapabilityPrivacyMaskApprove], grTenantWide = True\<rparr>),
      (RoleSiteAdmin, \<lparr>grCapabilities =
         [CapabilityAuthRead, CapabilitySitesRead, CapabilitySiteManage, CapabilityConfigRead,
          CapabilityConfigWrite, CapabilityRawVideoRead, CapabilityAlertsRead, CapabilityAlertsWrite,
          CapabilityEvidenceExport, CapabilityBiometricRead, CapabilityAnalyticsRead,
          CapabilityEventsWrite], grTenantWide = False\<rparr>),
      (RoleOperator, \<lparr>grCapabilities =
         [CapabilityAuthRead, CapabilitySitesRead, CapabilityConfigRead, CapabilityRawVideoRead,
          CapabilityAlertsRead, CapabilityAlertsWrite, CapabilityEvidenceExport,
          CapabilityBiometricRead, CapabilityAnalyticsRead], grTenantWide = False\<rparr>),
      (RoleAuditor, \<lparr>grCapabilities =
         [CapabilityAuthRead, CapabilitySitesRead, CapabilityConfigRead, CapabilityEvidenceExport,
          CapabilityAuditRead, CapabilityAnalyticsRead], grTenantWide = False\<rparr>),
      (RoleViewer, \<lparr>grCapabilities =
         [CapabilityAuthRead, CapabilitySitesRead, CapabilityConfigRead, CapabilityAlertsRead,
          CapabilityAnalyticsRead], grTenantWide = False\<rparr>)]"

definition seedRoles :: "string \<rightharpoonup> roleGrant" where
  "seedRoles = map_of seedRoleList"

definition mfaCapabilities :: "string list" where
  "mfaCapabilities = [CapabilityEvidenceExport, CapabilityBiometricRead, CapabilityDataErase,
     CapabilityPrivacyMaskApprove]"

definition dataClassCapabilities :: "string \<rightharpoonup> string" where
  "dataClassCapabilities = map_of
     [(CapabilityRawVideoRead, ''raw_video''), (CapabilityBiometricRead, ''biometric'')]"

text \<open>The loop over the roles: the first role that grants the request ends it.\<close>

fun authorizeRoles :: "(string \<Rightarrow> string) \<Rightarrow> Principal \<Rightarrow> AuthzRequest \<Rightarrow> string list \<Rightarrow> bool" where
  "authorizeRoles uni prin request [] = False"
| "authorizeRoles uni prin request (role # rs) =
     (case seedRoles role of
        None \<Rightarrow> authorizeRoles uni prin request rs
      | Some grant \<Rightarrow>
          if (role = RoleSuperAdmin \<or> role = RoleAuditor) \<and> \<not> MFAAuthenticated uni prin
          then authorizeRoles uni prin request rs
          else if rqCapability request \<notin> set (grCapabilities grant)
          then authorizeRoles uni prin request rs
          else if rqSiteID request = [] \<or> grTenantWide grant \<or> HasSite prin (rqSiteID request)
          then True
          else authorizeRoles uni prin request rs)"

text \<open>The result says whether the error is nil; the only error is \<open>ErrDenied\<close>.\<close>

definition Authorize :: "(string \<Rightarrow> string) \<Rightarrow> Principal \<Rightarrow> AuthzRequest \<Rightarrow> bool" where
  "Authorize uni prin request =
     (if rqTenantID request = [] \<or> pTenantID prin \<noteq> rqTenantID request then False
      else if \<not> HasScope prin (rqCapability request) then False
      else if rqCapability request \<in> set mfaCapabilities \<and> \<not> MFAAuthenticated uni prin then False
      else if (case dataClassCapabilities (rqCapability request) of
                 Some dataClass \<Rightarrow> \<not> HasDataClass prin dataClass | None \<Rightarrow> False) then False
      else authorizeRoles uni prin request (pRoles prin))"

definition CanAccessSite :: "(string \<Rightarrow> string) \<Rightarrow> Principal \<Rightarrow> string \<Rightarrow> string \<Rightarrow> bool" where
  "CanAccessSite uni prin tenantID siteID =
     (if pTenantID prin \<noteq> tenantID then False
      else if HasRole prin RoleSuperAdmin then MFAAuthenticated uni prin
      else HasSite prin siteID)"

section \<open>Laws\<close>

lemma containsText_iff [simp]: "containsText xs x \<longleftrightarrow> x \<in> set xs"
  by (induction xs) auto

lemma knownRoles_iff: "knownRoles rs \<longleftrightarrow> set rs \<subseteq> dom seedRoles"
proof -
  have "dom seedRoles = {RoleSuperAdmin, RoleSiteAdmin, RoleOperator, RoleAuditor, RoleViewer}"
    unfolding seedRoles_def dom_map_of_conv_image_fst by (simp add: seedRoleList_def)
  then show ?thesis by (induction rs) simp_all
qed

text \<open>The declarative reading of the loop.\<close>

definition roleAllows :: "(string \<Rightarrow> string) \<Rightarrow> Principal \<Rightarrow> AuthzRequest \<Rightarrow> string \<Rightarrow> bool" where
  "roleAllows uni p rq role \<longleftrightarrow>
     (\<exists>g. seedRoles role = Some g \<and> rqCapability rq \<in> set (grCapabilities g) \<and>
        (role \<in> {RoleSuperAdmin, RoleAuditor} \<longrightarrow> MFAAuthenticated uni p) \<and>
        (rqSiteID rq \<noteq> [] \<longrightarrow> grTenantWide g \<or> rqSiteID rq \<in> set (pSiteIDs p)))"

lemma authorizeRoles_Cons:
  "authorizeRoles uni p rq (role # rs) \<longleftrightarrow> roleAllows uni p rq role \<or> authorizeRoles uni p rq rs"
  by (cases "seedRoles role") (simp_all add: roleAllows_def HasSite_def, blast)

lemma authorizeRoles_iff: "authorizeRoles uni p rq rs \<longleftrightarrow> (\<exists>role \<in> set rs. roleAllows uni p rq role)"
  by (induction rs) (simp_all only: authorizeRoles_Cons, simp_all)

text \<open>The table itself, entry by entry.\<close>

definition grantOK :: "string \<Rightarrow> roleGrant \<Rightarrow> bool" where
  "grantOK role g \<longleftrightarrow> (grTenantWide g \<longleftrightarrow> role = RoleSuperAdmin) \<and> CapabilityDataErase \<notin> set (grCapabilities g) \<and>
     (role \<noteq> RoleSuperAdmin \<longrightarrow> CapabilityTenantManage \<notin> set (grCapabilities g) \<and>
        CapabilityUsersManage \<notin> set (grCapabilities g) \<and> CapabilityPrivacyMaskApprove \<notin> set (grCapabilities g))"

lemma seedRoles_OK: "seedRoles role = Some g \<Longrightarrow> grantOK role g"
proof -
  have "list_all (\<lambda>(role, g). grantOK role g) seedRoleList" by code_simp
  moreover assume "seedRoles role = Some g"
  then have "(role, g) \<in> set seedRoleList" unfolding seedRoles_def by (rule map_of_SomeD)
  ultimately show ?thesis by (auto simp: list_all_iff)
qed

section \<open>Properties\<close>

definition wPrincipal :: "string list \<Rightarrow> string \<Rightarrow> Principal" where
  "wPrincipal rs mfa = \<lparr>pUserID = ''u'', pEmail = ''e'', pTenantID = ''t'', pSiteIDs = [''s1''], pRoles = rs,
     pScopes = [''alerts:read'', ''data:erase'', ''users:manage''], pDataClasses = [''raw_video''], pMFALevel = mfa\<rparr>"

definition wRequest :: "string \<Rightarrow> string \<Rightarrow> AuthzRequest" where
  "wRequest c site = \<lparr>rqCapability = c, rqTenantID = ''t'', rqSiteID = site\<rparr>"

lemma wPrincipal_sel: "pRoles (wPrincipal rs mfa) = rs"
  by (simp add: wPrincipal_def)

lemma wAuthorized: "Authorize id (wPrincipal [''viewer''] ''none'') (wRequest ''alerts:read'' ''s1'')"
  by code_simp

lemma wAuthorized_admin: "Authorize id (wPrincipal [''super_admin''] ''totp'') (wRequest ''users:manage'' ''s9'')"
  by code_simp

text \<open>
  The reference: the role matrix of the architecture document (\<open>ARCHITECTURE.md\<close> 12.2), one line per capability with the
  roles that have it, in the capabilities of the policy. Erasure, which the document gives to a super
  administrator under dual approval, is in nobody's hands, and the capabilities without a line in the document
  (\<open>auth:read\<close>, \<open>sites:read\<close>, \<open>users:manage\<close>, \<open>alerts:read\<close>, \<open>events:write\<close>, \<open>privacy_masks:approve\<close>) are as their comments and the development guides say.
\<close>

definition roleMatrix :: "(string \<times> string list) list" where
  "roleMatrix =
     [(''auth:read'', [''super_admin'', ''site_admin'', ''operator'', ''auditor'', ''viewer'']),
      (''sites:read'', [''super_admin'', ''site_admin'', ''operator'', ''auditor'', ''viewer'']),
      (''tenant:manage'', [''super_admin'']),
      (''users:manage'', [''super_admin'']),
      (''site:manage'', [''super_admin'', ''site_admin'']),
      (''config:read'', [''super_admin'', ''site_admin'', ''operator'', ''auditor'', ''viewer'']),
      (''config:write'', [''super_admin'', ''site_admin'']),
      (''raw_video:read'', [''super_admin'', ''site_admin'', ''operator'']),
      (''alerts:read'', [''super_admin'', ''site_admin'', ''operator'', ''viewer'']),
      (''alerts:write'', [''super_admin'', ''site_admin'', ''operator'']),
      (''evidence:export'', [''super_admin'', ''site_admin'', ''operator'', ''auditor'']),
      (''biometric:read'', [''super_admin'', ''site_admin'', ''operator'']),
      (''audit:read'', [''super_admin'', ''auditor'']),
      (''data:erase'', []),
      (''analytics:read'', [''super_admin'', ''site_admin'', ''operator'', ''auditor'', ''viewer'']),
      (''events:write'', [''super_admin'', ''site_admin'']),
      (''privacy_masks:approve'', [''super_admin''])]"

definition permits :: "string \<Rightarrow> string \<Rightarrow> bool" where
  "permits capability role = list_ex (\<lambda>(c, rs). c = capability \<and> role \<in> set rs) roleMatrix"

text \<open>A second factor was used when the level is none of these words, in any case and with blanks around.\<close>

definition secondFactor :: "(string \<Rightarrow> string) \<Rightarrow> Principal \<Rightarrow> bool" where
  "secondFactor uni p \<longleftrightarrow> toLower uni (trimSpace (pMFALevel p)) \<notin> {[], ''none'', ''password''}"

text \<open>
  Who is granted what: the tenant's own principals, within the scopes and data classes of their token, through one of
  their roles; privileged roles and sensitive capabilities need a second factor; everyone but a super administrator
  stays on the sites of the token.
\<close>

definition accessGranted :: "(string \<Rightarrow> string) \<Rightarrow> Principal \<Rightarrow> AuthzRequest \<Rightarrow> bool" where
  "accessGranted uni p rq \<longleftrightarrow>
     rqTenantID rq \<noteq> [] \<and> rqTenantID rq = pTenantID p \<and> rqCapability rq \<in> set (pScopes p) \<and>
     (rqCapability rq = ''raw_video:read'' \<longrightarrow> ''raw_video'' \<in> set (pDataClasses p)) \<and>
     (rqCapability rq = ''biometric:read'' \<longrightarrow> ''biometric'' \<in> set (pDataClasses p)) \<and>
     (\<exists>role \<in> set (pRoles p). permits (rqCapability rq) role \<and>
        (role \<in> {''super_admin'', ''auditor''} \<or> rqCapability rq \<in> {''evidence:export'', ''biometric:read'', ''data:erase'', ''privacy_masks:approve''} \<longrightarrow>
           secondFactor uni p) \<and>
        (rqSiteID rq = [] \<or> role = ''super_admin'' \<or> rqSiteID rq \<in> set (pSiteIDs p)))"

text \<open>The table of the code, by role, and the matrix, by capability, are one relation.\<close>

definition tablePairs :: "(string \<times> string) list" where
  "tablePairs = concat (map (\<lambda>(role, g). map (\<lambda>c. (c, role)) (grCapabilities g)) seedRoleList)"

lemma seedRoles_iff: "seedRoles role = Some g \<longleftrightarrow> (role, g) \<in> set seedRoleList"
proof -
  have "distinct (map fst seedRoleList)" by code_simp
  then show ?thesis by (simp add: seedRoles_def)
qed

lemma tablePairs_iff: "(c, role) \<in> set tablePairs \<longleftrightarrow> (\<exists>g. seedRoles role = Some g \<and> c \<in> set (grCapabilities g))"
  by (auto simp: tablePairs_def seedRoles_iff)

lemma permits_table: "permits c role \<longleftrightarrow> (\<exists>g. seedRoles role = Some g \<and> c \<in> set (grCapabilities g))"
proof -
  have "list_all (\<lambda>(c, role). permits c role) tablePairs" by code_simp
  moreover have "list_all (\<lambda>(c, rs). list_all (\<lambda>role. (c, role) \<in> set tablePairs) rs) roleMatrix" by code_simp
  ultimately have "permits c role \<longleftrightarrow> (c, role) \<in> set tablePairs"
    by (auto simp: permits_def list_ex_iff list_all_iff)
  then show ?thesis by (simp only: tablePairs_iff)
qed

lemma roleAllows_permits:
  "roleAllows uni p rq role \<longleftrightarrow> permits (rqCapability rq) role \<and> (role \<in> {RoleSuperAdmin, RoleAuditor} \<longrightarrow> MFAAuthenticated uni p) \<and>
     (rqSiteID rq = [] \<or> role = RoleSuperAdmin \<or> rqSiteID rq \<in> set (pSiteIDs p))"
  using seedRoles_OK [of role] unfolding permits_table roleAllows_def by (auto simp: grantOK_def)

lemma secondFactor_iff: "secondFactor uni p \<longleftrightarrow> MFAAuthenticated uni p"
  by (simp add: secondFactor_def MFAAuthenticated_def Let_def)

text \<open>Whatever some role may do, a super administrator may do.\<close>

lemma permits_super: "permits c role \<Longrightarrow> permits c RoleSuperAdmin"
proof -
  have "list_all (\<lambda>(c, role). permits c RoleSuperAdmin) tablePairs" by code_simp
  then show "permits c role \<Longrightarrow> permits c RoleSuperAdmin" unfolding permits_table tablePairs_iff [symmetric] by (auto simp: list_all_iff)
qed

text \<open>C15: the policy implements the documented role matrix: over all principals and requests, \<open>Authorize\<close> grants exactly what
  the matrix with its conditions on tenant, scope, data class, second factor and site grants.\<close>

theorem authorize_implements_matrix: "Authorize uni p rq \<longleftrightarrow> accessGranted uni p rq"
  unfolding Authorize_def authorizeRoles_iff roleAllows_permits accessGranted_def secondFactor_iff
  by (auto simp: HasScope_def HasDataClass_def mfaCapabilities_def dataClassCapabilities_def capabilities roles split: option.splits if_splits)

text \<open>C32: site containment. A request for a site is granted only to principals who have that site in the verified token or
  are super administrators with a second factor. Asking in two steps, \<open>Authorize\<close> for the tenant and then \<open>CanAccessSite\<close>, as the
  list handlers do, admits exactly what asking for the site admits, except that it refuses a super administrator
  without second factor whom another role admits.\<close>

theorem authorize_confines_sites:
  assumes "site \<noteq> []"
  shows "(Authorize uni p \<lparr>rqCapability = c, rqTenantID = t, rqSiteID = site\<rparr> \<longrightarrow>
      site \<in> set (pSiteIDs p) \<or> (RoleSuperAdmin \<in> set (pRoles p) \<and> MFAAuthenticated uni p)) \<and>
    ((Authorize uni p \<lparr>rqCapability = c, rqTenantID = t, rqSiteID = []\<rparr> \<and> CanAccessSite uni p t site) \<longleftrightarrow>
     (Authorize uni p \<lparr>rqCapability = c, rqTenantID = t, rqSiteID = site\<rparr> \<and>
        \<not> (RoleSuperAdmin \<in> set (pRoles p) \<and> \<not> MFAAuthenticated uni p)))"
proof -
  let ?rq = "\<lambda>site. \<lparr>rqCapability = c, rqTenantID = t, rqSiteID = site\<rparr>"
  let ?free = "t \<noteq> [] \<and> pTenantID p = t \<and> HasScope p c \<and> (c \<in> set mfaCapabilities \<longrightarrow> MFAAuthenticated uni p) \<and>
    (case dataClassCapabilities c of None \<Rightarrow> True | Some d \<Rightarrow> HasDataClass p d)"
  have auth: "Authorize uni p (?rq x) \<longleftrightarrow> ?free \<and> (\<exists>role \<in> set (pRoles p). permits c role \<and>
      (role \<in> {RoleSuperAdmin, RoleAuditor} \<longrightarrow> MFAAuthenticated uni p) \<and> (x = [] \<or> role = RoleSuperAdmin \<or> x \<in> set (pSiteIDs p)))" for x
    by (auto simp: Authorize_def authorizeRoles_iff roleAllows_permits split: option.split)
  show ?thesis
  proof (cases "RoleSuperAdmin \<in> set (pRoles p)")
    case True
    then have "CanAccessSite uni p t site \<longleftrightarrow> pTenantID p = t \<and> MFAAuthenticated uni p" by (simp add: CanAccessSite_def HasRole_def)
    with True permits_super assms show ?thesis unfolding auth by blast
  next
    case False
    then have "CanAccessSite uni p t site \<longleftrightarrow> pTenantID p = t \<and> site \<in> set (pSiteIDs p)" by (simp add: CanAccessSite_def HasRole_def HasSite_def)
    with False assms show ?thesis unfolding auth by blast
  qed
qed

theorem authorize_confines_sites_witness:
  "CanAccessSite id (wPrincipal [''viewer''] ''none'') ''t'' ''s1'' \<and>
   \<not> CanAccessSite id (wPrincipal [''super_admin'', ''viewer''] ''none'') ''t'' ''s1''"
proof -
  have "Authorize id (wPrincipal [''super_admin'', ''viewer''] ''none'') (wRequest ''alerts:read'' [])"
    "\<not> MFAAuthenticated id (wPrincipal [''super_admin'', ''viewer''] ''none'')" by code_simp+
  with authorize_confines_sites [of "''s1''" id "wPrincipal [''viewer''] ''none''" "''alerts:read''" "''t''"] wAuthorized
    authorize_confines_sites [of "''s1''" id "wPrincipal [''super_admin'', ''viewer''] ''none''" "''alerts:read''" "''t''"]
  show ?thesis by (auto simp: wRequest_def wPrincipal_sel RoleSuperAdmin_def)
qed

text \<open>Separation of privileges: nobody is ever granted \<open>data:erase\<close>; tenant management, user
  management and privacy-mask approval are granted only to a super administrator with MFA.\<close>

theorem authorize_privileged:
  assumes "Authorize uni p rq"
  shows "rqCapability rq \<noteq> CapabilityDataErase \<and>
    (rqCapability rq \<in> {CapabilityTenantManage, CapabilityUsersManage, CapabilityPrivacyMaskApprove} \<longrightarrow>
       RoleSuperAdmin \<in> set (pRoles p) \<and> MFAAuthenticated uni p)"
proof -
  obtain role where role: "role \<in> set (pRoles p)" "roleAllows uni p rq role"
    using assms by (auto simp: Authorize_def authorizeRoles_iff split: if_splits)
  then obtain g where g: "seedRoles role = Some g" "rqCapability rq \<in> set (grCapabilities g)"
    "role \<in> {RoleSuperAdmin, RoleAuditor} \<longrightarrow> MFAAuthenticated uni p"
    by (auto simp: roleAllows_def)
  have ok: "grantOK role g" by (rule seedRoles_OK [OF g(1)])
  show ?thesis using ok g(2,3) role(1) unfolding grantOK_def by auto
qed

theorem authorize_privileged_witness:
  "RoleSuperAdmin \<in> set (pRoles (wPrincipal [''super_admin''] ''totp'')) \<and>
     MFAAuthenticated id (wPrincipal [''super_admin''] ''totp'')"
  using authorize_privileged [OF wAuthorized_admin] by (simp add: wRequest_def CapabilityUsersManage_def)

end
