(* ===== verification/Http_Base.thy ===== *)
theory Http_Base
  imports Authz Keyed_Store
begin

text \<open>
  What the handlers of \<open>backend/internal/httpapi\<close> share: the request as far as a handler reads it, the
  answers, authentication, the tenant header, the request contexts and the headers of mutations. A body
  is modelled by what decoding it gives (\<open>None\<close> when it is refused), an answer by its status, its data
  and whether it carries \<open>Idempotent-Replayed\<close>; an error by its status and code. \<open>google/uuid\<close> is the
  field \<open>hlParse\<close>: the canonical text and the version of a UUID.

  The interface \<open>scoped_routes\<close> is what a group of routes promises about tenants and sites; its lemmas are about
  whole histories of requests.
\<close>

section \<open>Requests and answers\<close>

record httpLib =
  hlParse :: "string \<Rightarrow> (string \<times> nat) option"
  hlUnicode :: "string \<Rightarrow> string"
  hlFold :: "string \<Rightarrow> string \<Rightarrow> bool"

record httpRequest =
  hqAuthorization :: "string list"
  hqTenant :: string
  hqKey :: string
  hqCorrelation :: string
  hqSite :: string
  hqPath :: string
  hqFresh :: string

datatype 'a reply = Reply int 'a bool | Failure int string

fun status :: "'a reply \<Rightarrow> int" where
  "status (Reply s a replayed) = s"
| "status (Failure s code) = s"

definition authRequired :: "'a reply" where "authRequired = Failure 401 ''AUTH_REQUIRED''"
definition notFound :: "'a reply" where "notFound = Failure 404 ''NOT_FOUND''"
definition forbidden :: "'a reply" where "forbidden = Failure 403 ''FORBIDDEN''"
definition invalid :: "'a reply" where "invalid = Failure 422 ''VALIDATION_FAILED''"
definition unavailable :: "'a reply" where "unavailable = Failure 503 ''SERVICE_UNAVAILABLE''"
definition keyReplayed :: "'a reply" where "keyReplayed = Failure 409 ''IDEMPOTENCY_REPLAY''"
definition conflicting :: "'a reply" where "conflicting = Failure 409 ''RESOURCE_CONFLICT''"
definition deviceAuthRequired :: "'a reply" where "deviceAuthRequired = Failure 401 ''DEVICE_AUTH_REQUIRED''"

lemmas failures = authRequired_def notFound_def forbidden_def invalid_def unavailable_def keyReplayed_def conflicting_def deviceAuthRequired_def

section \<open>Authentication and the tenant header\<close>

text \<open>
  \<open>hqAuthorization\<close> are the fields of the \<open>Authorization\<close> header (\<open>strings.Fields\<close>), \<open>verifier\<close> is the
  token verifier, absent when the server has none. The principal is put into the request's context.
\<close>

definition authenticate :: "httpLib \<Rightarrow> (string \<Rightarrow> Principal option) option \<Rightarrow> httpRequest \<Rightarrow> Principal option" where
  "authenticate L verifier r =
     (case verifier of
        None \<Rightarrow> None
      | Some verify \<Rightarrow>
          (case hqAuthorization r of
             [scheme, token] \<Rightarrow> if \<not> hlFold L scheme ''Bearer'' \<or> token = [] then None else verify token
           | _ \<Rightarrow> None))"

datatype tenantError = TenantRequired | TenantDenied

definition requestTenant :: "httpRequest \<Rightarrow> Principal \<Rightarrow> tenantError + string" where
  "requestTenant r prin =
     (let tenantID = trimSpace (hqTenant r) in
      if tenantID = [] then Inl TenantRequired
      else if tenantID \<noteq> pTenantID prin then Inl TenantDenied
      else Inr tenantID)"

text \<open>The opening lines of most handlers: principal and tenant.\<close>

definition tenantContext :: "Principal option \<Rightarrow> httpRequest \<Rightarrow> 'a reply + Principal \<times> string" where
  "tenantContext who r =
     (case who of
        None \<Rightarrow> Inl authRequired
      | Some prin \<Rightarrow>
          (case requestTenant r prin of
             Inl TenantDenied \<Rightarrow> Inl notFound
           | Inl TenantRequired \<Rightarrow> Inl invalid
           | Inr tenantID \<Rightarrow> Inr (prin, tenantID)))"

text \<open>
  The request contexts of cameras, zones, device enrollment, device status and configuration are the
  same code for different capabilities and repositories; \<open>available\<close> says that the repository is there.
\<close>

definition requestContext :: "httpLib \<Rightarrow> string \<Rightarrow> bool \<Rightarrow> Principal option \<Rightarrow> httpRequest \<Rightarrow> 'a reply + Principal \<times> string" where
  "requestContext L capability available who r =
     (case tenantContext who r of
        Inl failure \<Rightarrow> Inl failure
      | Inr (prin, tenantID) \<Rightarrow>
          if \<not> Authorize (hlUnicode L) prin \<lparr>rqCapability = capability, rqTenantID = tenantID, rqSiteID = []\<rparr> then Inl forbidden
          else if \<not> available then Inl unavailable
          else Inr (prin, tenantID))"

definition cameraRequestContext :: "httpLib \<Rightarrow> bool \<Rightarrow> string \<Rightarrow> Principal option \<Rightarrow> httpRequest \<Rightarrow> 'a reply + Principal \<times> string" where
  "cameraRequestContext L available capability = requestContext L capability available"

definition zoneRequestContext :: "httpLib \<Rightarrow> bool \<Rightarrow> string \<Rightarrow> Principal option \<Rightarrow> httpRequest \<Rightarrow> 'a reply + Principal \<times> string" where
  "zoneRequestContext L available capability = requestContext L capability available"

definition configurationRequestContext :: "httpLib \<Rightarrow> bool \<Rightarrow> string \<Rightarrow> Principal option \<Rightarrow> httpRequest \<Rightarrow> 'a reply + Principal \<times> string" where
  "configurationRequestContext L available capability = requestContext L capability available"

definition enrollmentRequestContext :: "httpLib \<Rightarrow> bool \<Rightarrow> Principal option \<Rightarrow> httpRequest \<Rightarrow> 'a reply + Principal \<times> string" where
  "enrollmentRequestContext L available = requestContext L CapabilityConfigWrite available"

definition deviceStatusRequestContext :: "httpLib \<Rightarrow> bool \<Rightarrow> Principal option \<Rightarrow> httpRequest \<Rightarrow> 'a reply + Principal \<times> string" where
  "deviceStatusRequestContext L available = requestContext L CapabilityConfigRead available"

lemmas contexts = cameraRequestContext_def zoneRequestContext_def configurationRequestContext_def enrollmentRequestContext_def
  deviceStatusRequestContext_def

section \<open>Headers and identifiers\<close>

definition validUUID :: "httpLib \<Rightarrow> string \<Rightarrow> bool" where
  "validUUID L v = (hlParse L v \<noteq> None)"

text \<open>\<open>uuid.NewString()\<close> is \<open>hqFresh\<close>.\<close>

definition correlationID :: "httpLib \<Rightarrow> httpRequest \<Rightarrow> string option" where
  "correlationID L r =
     (let value = trimSpace (hqCorrelation r) in
      if value = [] then Some (hqFresh r)
      else
        (case hlParse L value of
           None \<Rightarrow> None
         | Some (canonical, version) \<Rightarrow> if version \<noteq> 4 then None else Some canonical))"

definition correlationHeaderOnly :: "httpLib \<Rightarrow> httpRequest \<Rightarrow> 'a reply + string" where
  "correlationHeaderOnly L r = (case correlationID L r of None \<Rightarrow> Inl invalid | Some requestID \<Rightarrow> Inr requestID)"

definition mutationHeaders :: "httpLib \<Rightarrow> httpRequest \<Rightarrow> 'a reply + string \<times> string" where
  "mutationHeaders L r =
     (let key = trimSpace (hqKey r) in
      if key = [] \<or> length key > 128 then Inl invalid
      else (case correlationHeaderOnly L r of Inl failure \<Rightarrow> Inl failure | Inr requestID \<Rightarrow> Inr (key, requestID)))"

text \<open>The site of a listing, when the query names one.\<close>

definition siteQuery :: "httpLib \<Rightarrow> Principal \<Rightarrow> string \<Rightarrow> httpRequest \<Rightarrow> 'a reply + string" where
  "siteQuery L prin tenantID r =
     (let siteID = trimSpace (hqSite r) in
      if siteID = [] then Inr siteID
      else if \<not> validUUID L siteID then Inl invalid
      else if \<not> CanAccessSite (hlUnicode L) prin tenantID siteID then Inl notFound
      else Inr siteID)"

text \<open>The loop over the sites of the principal, one transaction each.\<close>

fun listEachSite :: "(nat \<Rightarrow> string \<Rightarrow> 'e + 'a list) \<Rightarrow> nat \<Rightarrow> string list \<Rightarrow> 'e + 'a list" where
  "listEachSite f n [] = Inr []"
| "listEachSite f n (site # sites) =
     (case f n site of
        Inl err \<Rightarrow> Inl err
      | Inr xs \<Rightarrow> (case listEachSite f (Suc n) sites of Inl err \<Rightarrow> Inl err | Inr ys \<Rightarrow> Inr (xs @ ys)))"

section \<open>Laws\<close>

lemma tenantContext_Inr:
  "tenantContext who r = Inr (prin, tenantID) \<Longrightarrow> who = Some prin \<and> tenantID = pTenantID prin \<and> tenantID = trimSpace (hqTenant r) \<and> tenantID \<noteq> []"
  by (auto simp: tenantContext_def requestTenant_def Let_def split: option.splits if_splits)

lemma requestContext_Inr:
  "requestContext L capability available who r = Inr (prin, tenantID) \<Longrightarrow>
     who = Some prin \<and> tenantID = pTenantID prin \<and> tenantID \<noteq> [] \<and>
     Authorize (hlUnicode L) prin \<lparr>rqCapability = capability, rqTenantID = tenantID, rqSiteID = []\<rparr>"
  by (auto simp: requestContext_def split: sum.splits if_splits dest: tenantContext_Inr)

lemma requestContext_Inl: "requestContext L capability available who r = Inl x \<Longrightarrow> \<exists>s c. x = Failure s c"
  by (auto simp: requestContext_def tenantContext_def failures split: sum.splits option.splits tenantError.splits if_splits)

lemma header_Inl:
  "correlationHeaderOnly L r = Inl x \<Longrightarrow> \<exists>s c. x = Failure s c"
  "mutationHeaders L r = Inl x \<Longrightarrow> \<exists>s c. x = Failure s c"
  "siteQuery L prin tenantID r = Inl x \<Longrightarrow> \<exists>s c. x = Failure s c"
  by (auto simp: correlationHeaderOnly_def mutationHeaders_def siteQuery_def Let_def failures split: option.splits sum.splits if_splits)

lemma CanAccessSite_tenant: "CanAccessSite uni prin tenantID siteID \<Longrightarrow> pTenantID prin = tenantID"
  by (simp add: CanAccessSite_def split: if_splits)

section \<open>Tenants and sites\<close>

text \<open>Documented behaviour of \<open>uuid\<close> in the database: a canonical text denotes itself.\<close>

definition uuidStable :: "('j, 'm) storeLib_scheme \<Rightarrow> bool" where
  "uuidStable L \<longleftrightarrow> (\<forall>s u. slUUID L s = Some u \<longrightarrow> slUUID L u = Some u)"

text \<open>Who may change the configuration of a site: a principal of its tenant with \<open>config:write\<close> and access to it.\<close>

definition mayConfigure :: "httpLib \<Rightarrow> ('j, 'm) storeLib_scheme \<Rightarrow> Principal \<Rightarrow> string \<times> string \<Rightarrow> bool" where
  "mayConfigure H L prin k \<longleftrightarrow> slUUID L (pTenantID prin) = Some (fst k) \<and>
     Authorize (hlUnicode H) prin \<lparr>rqCapability = CapabilityConfigWrite, rqTenantID = pTenantID prin, rqSiteID = []\<rparr> \<and>
     (\<exists>site. (site = snd k \<or> slUUID L site = Some (snd k)) \<and> CanAccessSite (hlUnicode H) prin (pTenantID prin) site)"

text \<open>A replay repeats an earlier answer; what is new in an answer are the rows of one that is not.\<close>

fun newRows :: "'a list reply \<Rightarrow> 'a set" where
  "newRows (Reply s xs replayed) = (if replayed then {} else set xs)"
| "newRows (Failure s code) = {}"

lemma newRows_failures [simp]: "newRows notFound = {}" "newRows unavailable = {}" "newRows invalid = {}" "newRows keyReplayed = {}"
    "newRows conflicting = {}" "newRows forbidden = {}" "newRows authRequired = {}" "newRows deviceAuthRequired = {}"
  by (simp_all add: failures)

lemma newRows_context [simp]: "requestContext H cap av who r = Inl failure \<Longrightarrow> newRows failure = {}"
    "mutationHeaders H r = Inl failure \<Longrightarrow> newRows failure = {}" "correlationHeaderOnly H r = Inl failure \<Longrightarrow> newRows failure = {}"
    "siteQuery H prin tenantID r = Inl failure \<Longrightarrow> newRows failure = {}"
  by (auto dest: requestContext_Inl header_Inl)

text \<open>What a command says about the principal it was made for.\<close>

definition configures :: "httpLib \<Rightarrow> Principal option \<Rightarrow> string \<Rightarrow> Principal \<Rightarrow> bool" where
  "configures H who tenantID prin \<longleftrightarrow> who = Some prin \<and> tenantID = pTenantID prin \<and>
     Authorize (hlUnicode H) prin \<lparr>rqCapability = CapabilityConfigWrite, rqTenantID = pTenantID prin, rqSiteID = []\<rparr>"

lemma configuresI: "requestContext H CapabilityConfigWrite av who r = Inr (prin, tenantID) \<Longrightarrow> configures H who tenantID prin"
  by (auto simp: configures_def dest: requestContext_Inr)

lemma filter_update_other:
  assumes "\<And>x. x \<in> set xs \<Longrightarrow> P x \<Longrightarrow> f x = x" "\<And>x. x \<in> set xs \<Longrightarrow> \<not> P x \<Longrightarrow> \<not> P (f x)"
  shows "filter P (map f xs) = filter P xs"
  using assms by (induction xs) auto

section \<open>The interface of a group of routes\<close>

text \<open>
  A call carries the principal that authentication found. \<open>rows k\<close> is what the database holds for the
  scope \<open>k\<close> (a tenant, or a tenant and a site), \<open>mayWrite\<close> says whose requests may change it, \<open>shown\<close> are
  the rows an answer contains and \<open>maySee\<close> says whom they may be shown to.
\<close>

locale scoped_routes =
  fixes serve :: "'e \<Rightarrow> Principal option \<times> 'c \<Rightarrow> 's \<Rightarrow> 's \<times> 'r"
    and rows :: "'k \<Rightarrow> 's \<Rightarrow> 'v"
    and mayWrite :: "Principal \<Rightarrow> 'k \<Rightarrow> bool"
    and shown :: "'r \<Rightarrow> 'row set"
    and maySee :: "Principal \<Rightarrow> 'row \<Rightarrow> bool"
    and good :: "'s \<Rightarrow> bool"
  assumes keeps: "good s \<Longrightarrow> serve e (who, c) s = (s', r) \<Longrightarrow> good s'"
    and confined: "good s \<Longrightarrow> serve e (who, c) s = (s', r) \<Longrightarrow> rows k s' \<noteq> rows k s \<Longrightarrow> \<exists>prin. who = Some prin \<and> mayWrite prin k"
    and answers: "good s \<Longrightarrow> serve e (who, c) s = (s', r) \<Longrightarrow> x \<in> shown r \<Longrightarrow> \<exists>prin. who = Some prin \<and> maySee prin x"
begin

text \<open>Whatever others do, and in whatever order, the rows of a scope stay as they are.\<close>

lemma isolation:
  assumes "good s" "\<And>e prin c. (e, Some prin, c) \<in> set calls \<Longrightarrow> \<not> mayWrite prin k"
  shows "rows k (fst (runCalls serve calls s)) = rows k s"
proof -
  have "good (fst (runCalls serve calls s)) \<and> rows k (fst (runCalls serve calls s)) = rows k s"
  proof (rule runCalls_invariant [where I = "\<lambda>s'. good s' \<and> rows k s' = rows k s"])
    fix e c s1 s2 r
    assume c: "(e, c) \<in> set calls" and eq: "good s1 \<and> rows k s1 = rows k s" and run: "serve e c s1 = (s2, r)"
    obtain who d where d: "c = (who, d)" by (cases c)
    have "rows k s2 = rows k s1"
    proof (rule ccontr)
      assume "rows k s2 \<noteq> rows k s1"
      from confined [OF conjunct1 [OF eq] run [unfolded d] this] assms(2) c [unfolded d] show False by auto
    qed
    with eq keeps [OF conjunct1 [OF eq] run [unfolded d]] show "good s2 \<and> rows k s2 = rows k s" by simp
  qed (simp add: assms(1))
  then show ?thesis ..
qed

lemma stays_good: "good s \<Longrightarrow> good (fst (runCalls serve calls s))"
  by (rule runCalls_invariant [where I = good]) (auto intro: keeps)

text \<open>What an answer shows was visible to the principal it was given to.\<close>

lemma confidentiality:
  assumes "good s" "n < length calls" "x \<in> shown (snd (runCalls serve calls s) ! n)"
  shows "\<exists>prin. fst (snd (calls ! n)) = Some prin \<and> maySee prin x"
proof -
  obtain e who c where c: "calls ! n = (e, who, c)" by (cases "calls ! n") auto
  have "serve e (who, c) (fst (runCalls serve (take n calls) s)) =
      (fst (runCalls serve (take (Suc n) calls) s), snd (runCalls serve calls s) ! n)"
    using runCalls_nth [OF assms(2), of serve s] by (simp add: c)
  from answers [OF stays_good [OF assms(1)] this assms(3)] show ?thesis by (simp add: c)
qed

end

end
