(* ===== verification/Heartbeat.thy ===== *)
theory Heartbeat
  imports Enrollment
begin

text \<open>
  Heartbeats from both ends: the agent's client, \<open>heartbeat.go\<close>, which normalizes, sends and checks the
  answer, and the control plane's repositories, \<open>heartbeat.go\<close> and \<open>postgres_heartbeat.go\<close> of
  \<open>backend/internal/device\<close> with the database function \<open>edge.record_device_heartbeat\<close> of migration 8.
\<close>

section \<open>The agent\<close>

definition HeartbeatInterval :: duration where "HeartbeatInterval = 30 * second"
definition maxFirmwareVersionSize :: nat where "maxFirmwareVersionSize = 128"
definition maxUptimeSeconds :: int where "maxUptimeSeconds = 3155760000"
definition maxStoreForwardDepth :: int where "maxStoreForwardDepth = 1000000000"

datatype heartbeatError =
    ErrInvalidTelemetry | ErrMalformedHeartbeat | HbRandom | HbEncode | HbBuild | HbTransport | ResponseError int | HbContext string

record Telemetry =
  tmHeartbeatID :: string
  tmReportedAt :: gotime
  tmUptimeSeconds :: int
  tmDesiredConfigRevision :: int
  tmStoreForwardDepth :: int
  tmFirmwareVersion :: string
  tmHealth :: "HealthTelemetry option"

record DeviceStatus =
  dsID :: string
  dsStatus :: string
  dsCertificateStatus :: string
  dsFirmwareVersion :: string
  dsStoreForwardDepth :: int
  dsUptimeSeconds :: int
  dsDesiredConfigRevision :: int
  dsLastHeartbeat :: gotime
  dsHealth :: "HealthTelemetry option"

text \<open>\<open>heartbeatEnvelope.Data\<close>: the device and the time of observation.\<close>

type_synonym heartbeatReply = "DeviceStatus \<times> gotime"

text \<open>The clock is read once for a missing report time and once for the bound.\<close>

definition heartbeatID :: "bytes option \<Rightarrow> string \<Rightarrow> heartbeatError + string" where
  "heartbeatID random raw =
     (if raw = [] then (case newUUIDv4 random of None \<Rightarrow> Inl HbRandom | Some i \<Rightarrow> Inr i)
      else (case normalizeUUIDv4 raw of None \<Rightarrow> Inl ErrInvalidTelemetry | Some i \<Rightarrow> Inr i))"

definition normalizeTelemetry :: "bytes option \<Rightarrow> gotime \<Rightarrow> gotime \<Rightarrow> Telemetry \<Rightarrow> heartbeatError + Telemetry" where
  "normalizeTelemetry random now later telemetry =
     (case heartbeatID random (tmHeartbeatID telemetry) of
        Inl err \<Rightarrow> Inl err
      | Inr i \<Rightarrow>
          let reported = (if tmReportedAt telemetry = 0 then now else tmReportedAt telemetry);
              firmware = trimSpace (tmFirmwareVersion telemetry) in
          if reported > later + 5 * minute \<or> tmUptimeSeconds telemetry < 0 \<or> tmUptimeSeconds telemetry > maxUptimeSeconds \<or>
             tmStoreForwardDepth telemetry < 0 \<or> tmStoreForwardDepth telemetry > maxStoreForwardDepth \<or>
             (case tmHealth telemetry of None \<Rightarrow> False | Some h \<Rightarrow> \<not> validHealthTelemetry h)
          then Inl ErrInvalidTelemetry
          else if firmware = [] \<or> length firmware > maxFirmwareVersionSize then Inl ErrInvalidTelemetry
          else Inr (telemetry\<lparr>tmHeartbeatID := i, tmReportedAt := reported, tmFirmwareVersion := firmware\<rparr>))"

definition validateHeartbeatResult :: "string \<Rightarrow> heartbeatReply \<Rightarrow> bool" where
  "validateHeartbeatResult deviceID reply =
     (case reply of (device, observed) \<Rightarrow>
        \<not> (dsID device \<noteq> deviceID \<or> dsStatus device = [] \<or> dsCertificateStatus device = [] \<or> dsDesiredConfigRevision device < 0 \<or>
           observed = 0 \<or> (case dsHealth device of None \<Rightarrow> False | Some h \<Rightarrow> \<not> validHealthTelemetry h)))"

text \<open>What one exchange meets: clock, random bytes, and the server's answer to the telemetry sent.\<close>

record heartbeatEnv =
  hvNow :: gotime
  hvLater :: gotime
  hvRandom :: "bytes option"
  hvCorrelation :: "bytes option"
  hvEncodes :: bool
  hvBuilds :: bool
  hvExchange :: "string \<Rightarrow> string \<Rightarrow> Telemetry \<Rightarrow> (int \<times> heartbeatReply option \<times> bool) option"

definition heartbeatPath :: "string \<Rightarrow> string \<Rightarrow> string" where
  "heartbeatPath base deviceID = base @ ''/v1/edge/devices/'' @ deviceID @ ''/heartbeat''"

text \<open>What leaves the agent: the correlation identifier and the normalized telemetry.\<close>

definition heartbeatRequest :: "heartbeatEnv \<Rightarrow> Telemetry \<Rightarrow> heartbeatError + string \<times> Telemetry" where
  "heartbeatRequest E telemetry =
     (case normalizeTelemetry (hvRandom E) (hvNow E) (hvLater E) telemetry of
        Inl err \<Rightarrow> Inl err
      | Inr normalized \<Rightarrow>
          if \<not> hvEncodes E then Inl HbEncode
          else if \<not> hvBuilds E then Inl HbBuild
          else (case newUUIDv4 (hvCorrelation E) of None \<Rightarrow> Inl HbRandom | Some correlation \<Rightarrow> Inr (correlation, normalized)))"

definition readHeartbeatReply ::
  "string \<Rightarrow> (int \<times> heartbeatReply option \<times> bool) option \<Rightarrow> heartbeatError + heartbeatReply \<times> bool" where
  "readHeartbeatReply deviceID response =
     (case response of
        None \<Rightarrow> Inl HbTransport
      | Some (status, reply, replayed) \<Rightarrow>
          if status \<noteq> 200 then Inl (ResponseError status)
          else
            (case reply of
               None \<Rightarrow> Inl ErrMalformedHeartbeat
             | Some r \<Rightarrow> if \<not> validateHeartbeatResult deviceID r then Inl ErrMalformedHeartbeat else Inr (r, replayed)))"

definition sendHeartbeat :: "string \<Rightarrow> string \<Rightarrow> heartbeatEnv \<Rightarrow> Telemetry \<Rightarrow> heartbeatError + heartbeatReply \<times> bool" where
  "sendHeartbeat base deviceID E telemetry =
     (case heartbeatRequest E telemetry of
        Inl err \<Rightarrow> Inl err
      | Inr (correlation, normalized) \<Rightarrow>
          readHeartbeatReply deviceID (hvExchange E (heartbeatPath base deviceID) correlation normalized))"

text \<open>One round of the loop sends the snapshot under a fresh identifier.\<close>

definition heartbeatRound :: "string \<Rightarrow> string \<Rightarrow> heartbeatEnv \<times> Telemetry \<Rightarrow> heartbeatError + heartbeatReply \<times> bool" where
  "heartbeatRound base deviceID x = (case x of (E, snapshot) \<Rightarrow> sendHeartbeat base deviceID E (snapshot\<lparr>tmHeartbeatID := []\<rparr>))"

definition heartbeatRun ::
  "string \<Rightarrow> string \<Rightarrow> duration \<Rightarrow> heartbeatEnv \<times> Telemetry \<Rightarrow> string option \<Rightarrow> (heartbeatEnv \<times> Telemetry) loopEvent list \<Rightarrow>
     (heartbeatError + heartbeatReply \<times> bool) list \<times> heartbeatError option" where
  "heartbeatRun base deviceID interval first cancelled events =
     (if interval \<le> 0 \<or> interval > HeartbeatInterval then ([], Some ErrInvalidTelemetry)
      else
        (case tickLoop (LoopTick first cancelled # events) of
           (inputs, err) \<Rightarrow> (map (heartbeatRound base deviceID) inputs, map_option HbContext err)))"

section \<open>The control plane\<close>

definition DeviceOfflineAfter :: duration where "DeviceOfflineAfter = 90 * second"

datatype statusError =
    ErrDeviceUnauthorized | ErrHeartbeatConflict | ErrInvalidDeviceHealth | DsEncode | DsBegin | DsDatabase | DsCommit | DsTenant | DsSite

record HeartbeatCommand =
  hcDeviceID :: string
  hcHeartbeatID :: string
  hcReportedAt :: gotime
  hcUptimeSeconds :: int
  hcStoreForwardDepth :: int
  hcFirmwareVersion :: string
  hcHealth :: "HealthTelemetry option"

record HeartbeatResult =
  hrDevice :: EdgeDevice
  hrObservedAt :: gotime

text \<open>SHA-256, \<open>uuid\<close> and \<open>varchar(128)\<close> of the database and the JSON of the hashed request.\<close>

record statusLib =
  tsSha :: "bytes \<Rightarrow> bytes"
  tsParses :: "string \<Rightarrow> bool"
  tsVarchar :: "string \<Rightarrow> string"
  tsUUID :: "string \<Rightarrow> string option"
  tsEncode :: "gotime \<times> int \<times> int \<times> string \<times> HealthTelemetry option \<Rightarrow> bytes option"

definition EffectiveDeviceStatus :: "EdgeDevice \<Rightarrow> gotime \<Rightarrow> string" where
  "EffectiveDeviceStatus device observedAt =
     (if edStatus device = ''pending'' \<or> edStatus device = ''retired'' then edStatus device
      else
        let latest = (if edLastHeartbeat device \<noteq> None then edLastHeartbeat device else edActivatedAt device) in
        (case latest of
           None \<Rightarrow> ''offline''
         | Some t \<Rightarrow> if timeSub observedAt t > DeviceOfflineAfter then ''offline'' else edStatus device))"

definition hashHeartbeat :: "statusLib \<Rightarrow> HeartbeatCommand \<Rightarrow> string option" where
  "hashHeartbeat L command =
     map_option (\<lambda>payload. hexEncode (tsSha L payload))
       (tsEncode L (hcReportedAt command, hcUptimeSeconds command, hcStoreForwardDepth command, trimSpace (hcFirmwareVersion command),
          hcHealth command))"

text \<open>The device after a heartbeat; \<open>health\<close> is the health it then has.\<close>

definition beaten :: "HeartbeatCommand \<Rightarrow> string \<Rightarrow> gotime \<Rightarrow> HealthTelemetry option \<Rightarrow> EdgeDevice \<Rightarrow> EdgeDevice" where
  "beaten command firmware observedAt health device =
     device\<lparr>edStatus := ''active'', edFirmwareVersion := firmware,
       edStoreForwardDepth := hcStoreForwardDepth command, edUptimeSeconds := hcUptimeSeconds command,
       edHealth := health, edLastHeartbeat := Some observedAt, edUpdatedAt := observedAt\<rparr>"

subsection \<open>The memory repository\<close>

record statusMemory =
  mmDevices :: "EdgeDevice list"
  mmReceipts :: "string \<rightharpoonup> string \<times> HeartbeatResult"

definition MemoryListDevices :: "string \<Rightarrow> string \<Rightarrow> gotime \<Rightarrow> statusMemory \<Rightarrow> EdgeDevice list" where
  "MemoryListDevices tenantID siteID observedAt m =
     sortSlice (\<lambda>a b. edID a < edID b)
       (map (\<lambda>d. d\<lparr>edStatus := EffectiveDeviceStatus d observedAt\<rparr>)
         (filter (\<lambda>d. \<not> (edTenantID d \<noteq> tenantID \<or> (siteID \<noteq> [] \<and> edSiteID d \<noteq> siteID) \<or> edStatus d = ''retired'')) (mmDevices m)))"

definition MemoryRecordHeartbeat ::
  "statusLib \<Rightarrow> gotime \<Rightarrow> HeartbeatCommand \<Rightarrow> statusMemory \<Rightarrow> statusMemory \<times> (statusError + HeartbeatResult \<times> bool)" where
  "MemoryRecordHeartbeat L now command m =
     (if \<not> ValidDeviceHealth (hcHealth command) then (m, Inl ErrInvalidDeviceHealth)
      else
        (case find (\<lambda>d. edID d = hcDeviceID command) (mmDevices m) of
           None \<Rightarrow> (m, Inl ErrDeviceUnauthorized)
         | Some device \<Rightarrow>
             if edCertificateStatus device \<noteq> ''active'' \<or> edStatus device = ''pending'' \<or> edStatus device = ''retired''
             then (m, Inl ErrDeviceUnauthorized)
             else
               (case hashHeartbeat L command of
                  None \<Rightarrow> (m, Inl DsEncode)
                | Some hash \<Rightarrow>
                    let key = hcDeviceID command @ '':'' @ hcHeartbeatID command in
                    (case mmReceipts m key of
                       Some (stored, result) \<Rightarrow>
                         if stored \<noteq> hash then (m, Inl ErrHeartbeatConflict) else (m, Inr (result, True))
                     | None \<Rightarrow>
                         let device' = beaten command (trimSpace (hcFirmwareVersion command)) now (hcHealth command) device;
                             result = \<lparr>hrDevice = device', hrObservedAt = now\<rparr> in
                         (m\<lparr>mmDevices := map (\<lambda>d. if edID d = edID device' then device' else d) (mmDevices m),
                            mmReceipts := (mmReceipts m)(key \<mapsto> (hash, result))\<rparr>, Inr (result, False))))))"

subsection \<open>The PostgreSQL repository\<close>

record heartbeatRow =
  hwTenant :: string
  hwDevice :: string
  hwID :: string
  hwHash :: string
  hwObservedAt :: gotime

record heartbeatDB = enrollDB +
  hbRows :: "heartbeatRow list"

text \<open>The statement fails (with an SQLSTATE), the commit fails, or a failed commit was applied.\<close>

record statusEnv =
  svNow :: gotime
  svBegin :: bool
  svQuery :: "string option"
  svCommit :: bool
  svApplied :: bool

text \<open>The checks of \<open>edge.device_heartbeats\<close>.\<close>

definition heartbeatChecks :: "HeartbeatCommand \<Rightarrow> string \<Rightarrow> bool" where
  "heartbeatChecks command hash \<longleftrightarrow>
     length hash = 64 \<and> list_all lowerHex hash \<and> 0 \<le> hcUptimeSeconds command \<and> hcUptimeSeconds command \<le> 3155760000 \<and>
     0 \<le> hcStoreForwardDepth command \<and> hcStoreForwardDepth command \<le> 1000000000 \<and> ValidDeviceHealth (hcHealth command)"

text \<open>\<open>edge.record_device_heartbeat\<close>: an SQLSTATE, or the tables and the row returned.\<close>

definition record_device_heartbeat ::
  "HeartbeatCommand \<Rightarrow> string \<Rightarrow> string \<Rightarrow> string \<Rightarrow> string \<Rightarrow> gotime \<Rightarrow> 'd heartbeatDB_scheme \<Rightarrow> string + 'd heartbeatDB_scheme \<times> HeartbeatResult \<times> bool" where
  "record_device_heartbeat command device heartbeat hash firmware now db =
     (case find (\<lambda>d. edID d = device) (ebDevices db) of
        None \<Rightarrow> Inl ''28000''
      | Some d \<Rightarrow>
          if edCertificateStatus d \<noteq> ''active'' \<or> edStatus d \<notin> {''active'', ''offline''} then Inl ''28000''
          else if \<not> heartbeatChecks command hash then Inl ''23514''
          else
            (case find (\<lambda>h. hwTenant h = edTenantID d \<and> hwDevice h = device \<and> hwID h = heartbeat) (hbRows db) of
               Some stored \<Rightarrow>
                 if hwHash stored \<noteq> hash then Inl ''23505''
                 else Inr (db, \<lparr>hrDevice = d, hrObservedAt = hwObservedAt stored\<rparr>, True)
             | None \<Rightarrow>
                 let d' = beaten command firmware now (if hcHealth command = None then edHealth d else hcHealth command) d in
                 Inr (db\<lparr>ebDevices := map (\<lambda>x. if edID x = device then d' else x) (ebDevices db),
                         hbRows := hbRows db @ [\<lparr>hwTenant = edTenantID d, hwDevice = device, hwID = heartbeat, hwHash = hash,
                           hwObservedAt = now\<rparr>]\<rparr>,
                      \<lparr>hrDevice = d', hrObservedAt = now\<rparr>, False)))"

definition classifyHeartbeatError :: "string \<Rightarrow> statusError" where
  "classifyHeartbeatError code =
     (if code = ''28000'' then ErrDeviceUnauthorized else if code = ''23505'' then ErrHeartbeatConflict else DsDatabase)"

definition RecordHeartbeat ::
  "statusLib \<Rightarrow> statusEnv \<Rightarrow> HeartbeatCommand \<Rightarrow> 'd heartbeatDB_scheme \<Rightarrow> 'd heartbeatDB_scheme \<times> (statusError + HeartbeatResult \<times> bool)" where
  "RecordHeartbeat L E command db =
     (if \<not> ValidDeviceHealth (hcHealth command) then (db, Inl ErrInvalidDeviceHealth)
      else
        (case hashHeartbeat L command of
           None \<Rightarrow> (db, Inl DsEncode)
         | Some hash \<Rightarrow>
             if svBegin E then (db, Inl DsBegin)
             else
               (case (svQuery E, tsUUID L (hcDeviceID command), tsUUID L (hcHeartbeatID command)) of
                  (None, Some device, Some heartbeat) \<Rightarrow>
                    (case record_device_heartbeat command device heartbeat hash (tsVarchar L (trimSpace (hcFirmwareVersion command))) (svNow E) db of
                       Inl code \<Rightarrow> (db, Inl (classifyHeartbeatError code))
                     | Inr (db', result, replayed) \<Rightarrow>
                         if svCommit E then (if svApplied E then db' else db, Inl DsCommit) else (db', Inr (result, replayed)))
                | (Some code, _, _) \<Rightarrow> (db, Inl (classifyHeartbeatError code))
                | _ \<Rightarrow> (db, Inl DsDatabase))))"

definition ListDevices ::
  "statusLib \<Rightarrow> statusEnv \<Rightarrow> string \<Rightarrow> string \<Rightarrow> gotime \<Rightarrow> 'd heartbeatDB_scheme \<Rightarrow> statusError + EdgeDevice list" where
  "ListDevices L E tenantID siteID observedAt db =
     (if \<not> tsParses L tenantID then Inl DsTenant
      else if svBegin E then Inl DsBegin
      else if siteID \<noteq> [] \<and> \<not> tsParses L siteID then Inl DsSite
      else
        (case (svQuery E, tsUUID L tenantID, if siteID = [] then Some [] else tsUUID L siteID) of
           (None, Some tenant, Some site) \<Rightarrow>
             if svCommit E then Inl DsCommit
             else
               Inr (map (\<lambda>d. d\<lparr>edStatus := EffectiveDeviceStatus d observedAt\<rparr>)
                 (take 500 (sortSlice (\<lambda>a b. edID a < edID b)
                   (filter (\<lambda>d. edTenantID d = tenant \<and> (siteID \<noteq> [] \<longrightarrow> edSiteID d = site) \<and> edStatus d \<noteq> ''retired'') (ebDevices db)))))
         | _ \<Rightarrow> Inl DsDatabase))"

end
