(* ===== verification/Http_Devices.thy ===== *)
theory Http_Devices
  imports Http_Base Heartbeat
begin

text \<open>
  The device routes: issuing and redeeming claims (\<open>httpapi/device_enrollment.go\<close>), the fleet listing and
  the heartbeat route (\<open>httpapi/device_status.go\<close>), and the certificate check
  \<open>MTLSDeviceVerifier.VerifyDevice\<close> of \<open>device/heartbeat.go\<close>, composed with the agent's client into one trip of
  a heartbeat. The server has its verifier and repositories (without them these routes answer 503).
\<close>

section \<open>Enrollment routes\<close>

record issueDeviceClaimRequest =
  diSiteID :: string
  diSerialNumber :: string
  diHardwareTier :: string
  diModel :: string

record activateDeviceRequest =
  daClaimToken :: string
  daSerialNumber :: string

definition normalizeIssueClaim :: "httpLib \<Rightarrow> issueDeviceClaimRequest \<Rightarrow> issueDeviceClaimRequest" where
  "normalizeIssueClaim H input =
     \<lparr>diSiteID = trimSpace (diSiteID input), diSerialNumber = trimSpace (diSerialNumber input),
      diHardwareTier = toLower (hlUnicode H) (trimSpace (diHardwareTier input)), diModel = trimSpace (diModel input)\<rparr>"

definition validIssueClaim :: "httpLib \<Rightarrow> issueDeviceClaimRequest \<Rightarrow> bool" where
  "validIssueClaim H input \<longleftrightarrow>
     \<not> (hlParse H (diSiteID input) = None \<or> length (diSerialNumber input) = 0 \<or> length (diSerialNumber input) > 128 \<or>
        diHardwareTier input \<notin> {''s'', ''m'', ''l''} \<or> length (diModel input) > 120)"

definition issueClaimCommand ::
  "httpLib \<Rightarrow> bool \<Rightarrow> Principal option \<Rightarrow> httpRequest \<Rightarrow> issueDeviceClaimRequest option \<Rightarrow> 'a reply + IssueClaimCommand" where
  "issueClaimCommand H available who r body =
     (case enrollmentRequestContext H available who r of
        Inl failure \<Rightarrow> Inl failure
      | Inr (prin, tenantID) \<Rightarrow>
          (case mutationHeaders H r of
             Inl failure \<Rightarrow> Inl failure
           | Inr (key, requestID) \<Rightarrow>
               (case body of
                  None \<Rightarrow> Inl invalid
                | Some raw \<Rightarrow>
                    let input = normalizeIssueClaim H raw in
                    if \<not> validIssueClaim H input then Inl invalid
                    else if \<not> CanAccessSite (hlUnicode H) prin tenantID (diSiteID input) then Inl notFound
                    else Inr \<lparr>icTenantID = tenantID, icActorID = pUserID prin, icRequestID = requestID, icIdempotencyKey = key,
                           icSiteID = diSiteID input, icSerialNumber = diSerialNumber input, icHardwareTier = diHardwareTier input,
                           icModel = diModel input\<rparr>)))"

fun issueClaimFailure :: "claimError storeError \<Rightarrow> 'a reply" where
  "issueClaimFailure ErrIdempotencyConflict = keyReplayed"
| "issueClaimFailure (Domain ErrDeviceSerialConflict) = conflicting"
| "issueClaimFailure (Domain ClaimSiteNotFound) = notFound"
| "issueClaimFailure err = unavailable"

definition issueDeviceClaim ::
  "httpLib \<Rightarrow> 'j enrollLib \<Rightarrow> ClaimTokenManager \<Rightarrow> storeEnv \<Rightarrow> Principal option \<Rightarrow> httpRequest \<Rightarrow> issueDeviceClaimRequest option \<Rightarrow>
     'd enrollDB_scheme \<Rightarrow> 'd enrollDB_scheme \<times> (DeviceClaim \<times> string) reply" where
  "issueDeviceClaim H L m E who r body db =
     (case issueClaimCommand H True who r body of
        Inl failure \<Rightarrow> (db, failure)
      | Inr command \<Rightarrow>
          (case IssueClaim L m E command db of
             (db', Inl err) \<Rightarrow> (db', issueClaimFailure err)
           | (db', Inr (claim, replayed)) \<Rightarrow> (db', Reply 201 claim replayed)))"

definition claimInvalid :: "'a reply" where "claimInvalid = Failure 401 ''DEVICE_CLAIM_INVALID''"

definition activateCommand :: "httpLib \<Rightarrow> httpRequest \<Rightarrow> activateDeviceRequest option \<Rightarrow> 'a reply + ActivateDeviceCommand" where
  "activateCommand H r body =
     (case correlationHeaderOnly H r of
        Inl failure \<Rightarrow> Inl failure
      | Inr requestID \<Rightarrow>
          (case body of
             None \<Rightarrow> Inl invalid
           | Some input \<Rightarrow>
               let token = trimSpace (daClaimToken input); serial = trimSpace (daSerialNumber input); deviceID = trimSpace (hqPath r) in
               if hlParse H deviceID = None \<or> length token < 80 \<or> length token > 256 \<or> length serial = 0 \<or> length serial > 128 then Inl invalid
               else Inr \<lparr>avDeviceID = deviceID, avClaimToken = token, avSerialNumber = serial, avRequestID = requestID\<rparr>))"

fun activateFailure :: "claimError storeError \<Rightarrow> 'a reply" where
  "activateFailure (Domain ErrClaimInvalid) = claimInvalid"
| "activateFailure (Domain ErrClaimExpired) = claimInvalid"
| "activateFailure (Domain ErrClaimConsumed) = claimInvalid"
| "activateFailure (Domain ErrClaimSerialMismatch) = claimInvalid"
| "activateFailure err = unavailable"

definition activateDevice ::
  "httpLib \<Rightarrow> 'j enrollLib \<Rightarrow> ClaimTokenManager \<Rightarrow> storeEnv \<Rightarrow> httpRequest \<Rightarrow> activateDeviceRequest option \<Rightarrow>
     'd enrollDB_scheme \<Rightarrow> 'd enrollDB_scheme \<times> EdgeDevice reply" where
  "activateDevice H L m E r body db =
     (case activateCommand H r body of
        Inl failure \<Rightarrow> (db, failure)
      | Inr command \<Rightarrow>
          (case Activate L m E command db of
             (db', Inl err) \<Rightarrow> (db', activateFailure err)
           | (db', Inr device) \<Rightarrow> (db', Reply 200 device False)))"

section \<open>Fleet listing\<close>

definition listEdgeDevices ::
  "httpLib \<Rightarrow> statusLib \<Rightarrow> (nat \<Rightarrow> statusEnv) \<Rightarrow> gotime \<Rightarrow> Principal option \<Rightarrow> httpRequest \<Rightarrow> 'd heartbeatDB_scheme \<Rightarrow> EdgeDevice list reply" where
  "listEdgeDevices H S E observedAt who r db =
     (case deviceStatusRequestContext H True who r of
        Inl failure \<Rightarrow> failure
      | Inr (prin, tenantID) \<Rightarrow>
          (case siteQuery H prin tenantID r of
             Inl failure \<Rightarrow> failure
           | Inr siteID \<Rightarrow>
               (case (if siteID \<noteq> [] \<or> HasRole prin RoleSuperAdmin then ListDevices S (E 0) tenantID siteID observedAt db
                      else listEachSite (\<lambda>n site. ListDevices S (E n) tenantID site observedAt db) 0 (pSiteIDs prin)) of
                  Inl err \<Rightarrow> unavailable
                | Inr devices \<Rightarrow>
                    Reply 200 (filter (\<lambda>d. edTenantID d = tenantID \<and> CanAccessSite (hlUnicode H) prin tenantID (edSiteID d)) devices) False)))"

section \<open>The heartbeat route\<close>

record clientCertificate =
  ccNotBefore :: gotime
  ccNotAfter :: gotime
  ccCommonName :: string

text \<open>\<open>verifiedChains\<close> are the chains that TLS verified.\<close>

definition VerifyDevice :: "httpLib \<Rightarrow> gotime \<Rightarrow> clientCertificate list list \<Rightarrow> string option" where
  "VerifyDevice H now verifiedChains =
     (case verifiedChains of
        (certificate # _) # _ \<Rightarrow>
          if now < ccNotBefore certificate \<or> \<not> now < ccNotAfter certificate then None
          else map_option fst (hlParse H (trimSpace (ccCommonName certificate)))
      | _ \<Rightarrow> None)"

record deviceHeartbeatRequest =
  bhHeartbeatID :: string
  bhReportedAt :: gotime
  bhUptimeSeconds :: int
  bhStoreForwardDepth :: int
  bhFirmwareVersion :: string
  bhHealth :: "HealthTelemetry option"

definition heartbeatCommand ::
  "httpLib \<Rightarrow> gotime \<Rightarrow> string option \<Rightarrow> httpRequest \<Rightarrow> deviceHeartbeatRequest option \<Rightarrow> 'a reply + HeartbeatCommand" where
  "heartbeatCommand H now verified r body =
     (let deviceID = trimSpace (hqPath r) in
      if verified \<noteq> Some deviceID then Inl deviceAuthRequired
      else
        (case correlationHeaderOnly H r of
           Inl failure \<Rightarrow> Inl failure
         | Inr _ \<Rightarrow>
             (case body of
                None \<Rightarrow> Inl invalid
              | Some input \<Rightarrow>
                  let firmware = trimSpace (bhFirmwareVersion input) in
                  (case hlParse H (trimSpace (bhHeartbeatID input)) of
                     None \<Rightarrow> Inl invalid
                   | Some (canonicalID, version) \<Rightarrow>
                       if version \<noteq> 4 \<or> bhReportedAt input = 0 \<or> bhReportedAt input > now + 5 * minute \<or>
                          bhUptimeSeconds input < 0 \<or> bhUptimeSeconds input > 3155760000 \<or>
                          bhStoreForwardDepth input < 0 \<or> bhStoreForwardDepth input > 1000000000 \<or>
                          firmware = [] \<or> length firmware > 128 \<or> \<not> ValidDeviceHealth (bhHealth input)
                       then Inl invalid
                       else Inr \<lparr>hcDeviceID = deviceID, hcHeartbeatID = canonicalID, hcReportedAt = bhReportedAt input,
                              hcUptimeSeconds = bhUptimeSeconds input, hcStoreForwardDepth = bhStoreForwardDepth input,
                              hcFirmwareVersion = firmware, hcHealth = bhHealth input\<rparr>))))"

fun heartbeatFailure :: "statusError \<Rightarrow> 'a reply" where
  "heartbeatFailure ErrDeviceUnauthorized = deviceAuthRequired"
| "heartbeatFailure ErrHeartbeatConflict = keyReplayed"
| "heartbeatFailure err = unavailable"

text \<open>\<open>desired\<close> is what the configuration repository gives for the device, if it is there and answers.\<close>

definition recordDeviceHeartbeat ::
  "httpLib \<Rightarrow> statusLib \<Rightarrow> gotime \<Rightarrow> statusEnv \<Rightarrow> (string \<Rightarrow> int option) \<Rightarrow> clientCertificate list list \<Rightarrow> httpRequest \<Rightarrow>
     deviceHeartbeatRequest option \<Rightarrow> 'd heartbeatDB_scheme \<Rightarrow> 'd heartbeatDB_scheme \<times> HeartbeatResult reply" where
  "recordDeviceHeartbeat H S now E desired verifiedChains r body db =
     (case heartbeatCommand H now (VerifyDevice H now verifiedChains) r body of
        Inl failure \<Rightarrow> (db, failure)
      | Inr command \<Rightarrow>
          (case RecordHeartbeat S E command db of
             (db', Inl err) \<Rightarrow> (db', heartbeatFailure err)
           | (db', Inr (result, replayed)) \<Rightarrow>
               (db', Reply 200 (case desired (hcDeviceID command) of
                    None \<Rightarrow> result
                  | Some n \<Rightarrow> result\<lparr>hrDevice := (hrDevice result)\<lparr>edDesiredConfigRevision := n\<rparr>\<rparr>) replayed)))"

section \<open>A heartbeat's trip\<close>

text \<open>
  The JSON of the agent as the control plane decodes it: \<open>desired_config_revision\<close>, sent unless it is zero,
  is unknown to the decoder, which refuses unknown fields. The answer as the agent decodes it.
\<close>

definition telemetryBody :: "Telemetry \<Rightarrow> deviceHeartbeatRequest option" where
  "telemetryBody t =
     (if tmDesiredConfigRevision t \<noteq> 0 then None
      else Some \<lparr>bhHeartbeatID = tmHeartbeatID t, bhReportedAt = tmReportedAt t, bhUptimeSeconds = tmUptimeSeconds t,
             bhStoreForwardDepth = tmStoreForwardDepth t, bhFirmwareVersion = tmFirmwareVersion t, bhHealth = tmHealth t\<rparr>)"

definition deviceStatusOf :: "EdgeDevice \<Rightarrow> DeviceStatus" where
  "deviceStatusOf d =
     \<lparr>dsID = edID d, dsStatus = edStatus d, dsCertificateStatus = edCertificateStatus d, dsFirmwareVersion = edFirmwareVersion d,
      dsStoreForwardDepth = edStoreForwardDepth d, dsUptimeSeconds = edUptimeSeconds d,
      dsDesiredConfigRevision = edDesiredConfigRevision d,
      dsLastHeartbeat = (case edLastHeartbeat d of None \<Rightarrow> 0 | Some t \<Rightarrow> t), dsHealth = edHealth d\<rparr>"

fun heartbeatResponse :: "HeartbeatResult reply \<Rightarrow> int \<times> heartbeatReply option \<times> bool" where
  "heartbeatResponse (Failure code name) = (code, None, False)"
| "heartbeatResponse (Reply code result replayed) = (code, Some (deviceStatusOf (hrDevice result), hrObservedAt result), replayed)"

text \<open>
  One trip: the request of the agent reaches the route of its device or is lost (\<open>reached\<close>), and so is the
  answer (\<open>answered\<close>).
\<close>

record tripEnv =
  teAgent :: heartbeatEnv
  teReached :: bool
  teAnswered :: bool
  teServer :: gotime
  teStore :: statusEnv
  teDesired :: "string \<Rightarrow> int option"
  teChains :: "clientCertificate list list"

definition deviceRequest :: "string \<Rightarrow> string \<Rightarrow> httpRequest" where
  "deviceRequest deviceID correlation =
     \<lparr>hqAuthorization = [], hqTenant = [], hqKey = [], hqCorrelation = correlation, hqSite = [], hqPath = deviceID, hqFresh = []\<rparr>"

definition heartbeatTrip ::
  "httpLib \<Rightarrow> statusLib \<Rightarrow> string \<Rightarrow> tripEnv \<Rightarrow> Telemetry \<Rightarrow> 'd heartbeatDB_scheme \<Rightarrow>
     'd heartbeatDB_scheme \<times> (heartbeatError + heartbeatReply \<times> bool)" where
  "heartbeatTrip H S deviceID X t db =
     (case heartbeatRequest (teAgent X) t of
        Inl err \<Rightarrow> (db, Inl err)
      | Inr (correlation, normalized) \<Rightarrow>
          if \<not> teReached X then (db, readHeartbeatReply deviceID None)
          else
            (case recordDeviceHeartbeat H S (teServer X) (teStore X) (teDesired X) (teChains X) (deviceRequest deviceID correlation)
                (telemetryBody normalized) db of
               (db', answer) \<Rightarrow> (db', readHeartbeatReply deviceID (if teAnswered X then Some (heartbeatResponse answer) else None))))"

text \<open>The agent's part of a trip is \<open>sendHeartbeat\<close> over the exchange that the control plane makes.\<close>

lemma heartbeatTrip_send:
  "snd (heartbeatTrip H S deviceID X t db) =
     sendHeartbeat base deviceID ((teAgent X)\<lparr>hvExchange := (\<lambda>path correlation n.
       if teReached X \<and> teAnswered X then Some (heartbeatResponse (snd (recordDeviceHeartbeat H S (teServer X) (teStore X) (teDesired X)
         (teChains X) (deviceRequest deviceID correlation) (telemetryBody n) db))) else None)\<rparr>) t"
  by (simp add: heartbeatTrip_def sendHeartbeat_def heartbeatRequest_def split: sum.splits option.splits prod.splits if_splits)

end
