(* ===== verification/Heartbeat_Props.thy ===== *)
theory Heartbeat_Props
  imports Http_Devices Idempotency
begin

text \<open>
  Heartbeats are recorded once per identifier, in both repositories, and a heartbeat that makes its trip
  keeps its device online for the next ninety seconds.
\<close>

section \<open>Once per identifier\<close>

definition heartbeatKey :: "statusLib \<Rightarrow> HeartbeatCommand \<Rightarrow> string option \<times> string option" where
  "heartbeatKey S c = (tsUUID S (hcDeviceID c), tsUUID S (hcHeartbeatID c))"

definition heartbeatHash :: "statusLib \<Rightarrow> HeartbeatCommand \<Rightarrow> string" where
  "heartbeatHash S c = (case hashHeartbeat S c of None \<Rightarrow> [] | Some h \<Rightarrow> h)"

definition deviceOf :: "'d enrollDB_scheme \<Rightarrow> string \<Rightarrow> EdgeDevice option" where
  "deviceOf db i = find (\<lambda>d. edID d = i) (ebDevices db)"

definition beatOf :: "'d heartbeatDB_scheme \<Rightarrow> string \<Rightarrow> string \<Rightarrow> string \<Rightarrow> heartbeatRow option" where
  "beatOf db tenant device i = find (\<lambda>h. hwTenant h = tenant \<and> hwDevice h = device \<and> hwID h = i) (hbRows db)"

fun storedBeat :: "'d heartbeatDB_scheme \<Rightarrow> string option \<times> string option \<Rightarrow> (string \<times> gotime) option" where
  "storedBeat db (Some device, Some i) =
     (case deviceOf db device of
        None \<Rightarrow> None
      | Some d \<Rightarrow> map_option (\<lambda>h. (hwHash h, hwObservedAt h)) (beatOf db (edTenantID d) device i))"
| "storedBeat db _ = None"

text \<open>What the database function does, case by case.\<close>

lemma record_cases:
  assumes "record_device_heartbeat c device i hash firmware now db = y"
  obtains code where "y = Inl code"
  | d row where "deviceOf db device = Some d" "beatOf db (edTenantID d) device i = Some row" "hwHash row = hash"
      "y = Inr (db, \<lparr>hrDevice = d, hrObservedAt = hwObservedAt row\<rparr>, True)"
  | d d' where "deviceOf db device = Some d" "beatOf db (edTenantID d) device i = None"
      "edCertificateStatus d = ''active''" "edStatus d = ''active'' \<or> edStatus d = ''offline''"
      "d' = beaten c firmware now (if hcHealth c = None then edHealth d else hcHealth c) d"
      "y = Inr (db\<lparr>ebDevices := map (\<lambda>x. if edID x = device then d' else x) (ebDevices db),
         hbRows := hbRows db @ [\<lparr>hwTenant = edTenantID d, hwDevice = device, hwID = i, hwHash = hash, hwObservedAt = now\<rparr>]\<rparr>,
         \<lparr>hrDevice = d', hrObservedAt = now\<rparr>, False)"
  using assms unfolding record_device_heartbeat_def deviceOf_def [symmetric] beatOf_def [symmetric]
  by (auto simp: Let_def split: option.splits if_splits)

lemma RecordHeartbeat_cases:
  assumes "RecordHeartbeat S E c db = (db', r)"
  obtains err where "db' = db" "r = Inl err"
  | hash device i db1 result replayed where "hashHeartbeat S c = Some hash" "tsUUID S (hcDeviceID c) = Some device"
      "tsUUID S (hcHeartbeatID c) = Some i"
      "record_device_heartbeat c device i hash (tsVarchar S (trimSpace (hcFirmwareVersion c))) (svNow E) db = Inr (db1, result, replayed)"
      "(db' = db \<or> db' = db1) \<and> r = Inl DsCommit \<or> db' = db1 \<and> r = Inr (result, replayed)"
  using assms unfolding RecordHeartbeat_def by (auto split: if_splits option.splits sum.splits prod.splits)

lemma find_update:
  assumes "edID d' = device"
  shows "find (\<lambda>d. edID d = k) (map (\<lambda>x. if edID x = device then d' else x) xs) =
    (if k = device then map_option (\<lambda>_. d') (find (\<lambda>d. edID d = k) xs) else find (\<lambda>d. edID d = k) xs)"
  by (cases "k = device"; induction xs) (simp_all add: assms)

lemma deviceOf_update:
  assumes "deviceOf db device = Some d" "edID d' = device"
  shows "deviceOf (db\<lparr>ebDevices := map (\<lambda>x. if edID x = device then d' else x) (ebDevices db)\<rparr>) k =
    (if k = device then Some d' else deviceOf db k)"
  using assms(1) by (simp add: deviceOf_def find_update [OF assms(2)])

lemma beaten_sel [simp]: "edID (beaten c f t h d) = edID d" "edTenantID (beaten c f t h d) = edTenantID d"
    "edSiteID (beaten c f t h d) = edSiteID d" "edCertificateStatus (beaten c f t h d) = edCertificateStatus d"
    "edStatus (beaten c f t h d) = ''active''" "edLastHeartbeat (beaten c f t h d) = Some t" "edHealth (beaten c f t h d) = h"
    "edDesiredConfigRevision (beaten c f t h d) = edDesiredConfigRevision d"
  by (simp_all add: beaten_def)

lemma deviceOf_id: "deviceOf db device = Some d \<Longrightarrow> edID d = device"
  by (auto simp: deviceOf_def find_Some_iff)

lemma storedBeat_new:
  assumes "deviceOf db device = Some d" "beatOf db (edTenantID d) device i = None" "edID d' = device" "edTenantID d' = edTenantID d"
  shows "storedBeat (db\<lparr>ebDevices := map (\<lambda>x. if edID x = device then d' else x) (ebDevices db),
      hbRows := hbRows db @ [\<lparr>hwTenant = edTenantID d, hwDevice = device, hwID = i, hwHash = hash, hwObservedAt = now\<rparr>]\<rparr>) =
    (storedBeat db)((Some device, Some i) \<mapsto> (hash, now))"
    (is "storedBeat ?db = _")
proof
  fix k :: "string option \<times> string option"
  have dev: "deviceOf ?db j = (if j = device then Some d' else deviceOf db j)" for j
    using deviceOf_update [OF assms(1,3), of j] by (simp add: deviceOf_def)
  have beat: "beatOf ?db t j n = (case beatOf db t j n of Some y \<Rightarrow> Some y
      | None \<Rightarrow> if t = edTenantID d \<and> j = device \<and> n = i
          then Some \<lparr>hwTenant = edTenantID d, hwDevice = device, hwID = i, hwHash = hash, hwObservedAt = now\<rparr> else None)" for t j n
    by (simp add: beatOf_def find_snoc) metis
  obtain x y where k: "k = (x, y)" by (cases k)
  show "storedBeat ?db k = ((storedBeat db)((Some device, Some i) \<mapsto> (hash, now))) k"
  proof (cases "x = None \<or> y = None")
    case False
    then obtain j n where xy: "k = (Some j, Some n)" using k by auto
    show ?thesis
    proof (cases "j = device")
      case True
      then show ?thesis using assms(1,2,4) unfolding xy storedBeat.simps fun_upd_apply dev beat by (auto split: option.splits)
    next
      case False
      then show ?thesis unfolding xy storedBeat.simps fun_upd_apply dev beat by (auto split: option.splits)
    qed
  qed (use k in \<open>cases x; cases y; simp\<close>)
qed

interpretation pgBeat: idempotent_calls "RecordHeartbeat S :: statusEnv \<Rightarrow> HeartbeatCommand \<Rightarrow> 'd heartbeatDB_scheme \<Rightarrow> _"
  "heartbeatKey S" "heartbeatHash S" "\<lambda>x. hrObservedAt (fst x)" snd storedBeat for S
proof (unfold_locales, goal_cases)
  case (1 E c db db' r h v)
  from 1(1) show ?case
  proof (cases rule: RecordHeartbeat_cases)
    case (2 hash device i db1 result replayed)
    from 2(4) show ?thesis
    proof (cases rule: record_cases)
      case (2 d row)
      then show ?thesis using 1(2) \<open>hashHeartbeat S c = Some hash\<close> \<open>tsUUID S (hcDeviceID c) = Some device\<close>
          \<open>tsUUID S (hcHeartbeatID c) = Some i\<close> \<open>_ \<and> r = Inl DsCommit \<or> _\<close>
        by (auto simp: heartbeatKey_def heartbeatHash_def)
    next
      case (3 d d')
      then show ?thesis using 1(2) \<open>tsUUID S (hcDeviceID c) = Some device\<close> \<open>tsUUID S (hcHeartbeatID c) = Some i\<close>
        by (auto simp: heartbeatKey_def)
    qed auto
  qed auto
next
  case (2 E c db db' r)
  from 2(1) show ?case
  proof (cases rule: RecordHeartbeat_cases)
    case (2 hash device i db1 result replayed)
    from 2(4) show ?thesis
    proof (cases rule: record_cases)
      case (2 d row)
      then show ?thesis using \<open>storedBeat db (heartbeatKey S c) = None\<close> \<open>tsUUID S (hcDeviceID c) = Some device\<close> \<open>tsUUID S (hcHeartbeatID c) = Some i\<close>
        by (auto simp: heartbeatKey_def)
    next
      case (3 d d')
      have "storedBeat db1 = (storedBeat db)((Some device, Some i) \<mapsto> (hash, svNow E))"
        using storedBeat_new [OF 3(1,2), of d' hash "svNow E"] 3(5,6) deviceOf_id [OF 3(1)] by simp
      then show ?thesis using 3(6) 2 by (auto simp: heartbeatKey_def heartbeatHash_def)
    qed auto
  qed auto
qed

interpretation memoryBeat: idempotent_calls "MemoryRecordHeartbeat S" "\<lambda>c. hcDeviceID c @ '':'' @ hcHeartbeatID c" "heartbeatHash S"
  fst snd mmReceipts for S
proof (unfold_locales, goal_cases)
  case (1 now c m m' r h v)
  then show ?case by (auto simp: MemoryRecordHeartbeat_def heartbeatHash_def Let_def split: if_splits option.splits)
next
  case (2 now c m m' r)
  then show ?case by (auto simp: MemoryRecordHeartbeat_def heartbeatHash_def Let_def split: if_splits option.splits)
qed

section \<open>The trip of a heartbeat\<close>

text \<open>What the two UUID parsers do with the canonical texts the agent makes, and the codecs of the record.\<close>

definition uuidsCanonical :: "httpLib \<Rightarrow> statusLib \<Rightarrow> bool" where
  "uuidsCanonical H S \<longleftrightarrow> (\<forall>bs. uuidV4 bs \<longrightarrow> hlParse H (formatUUID bs) = Some (formatUUID bs, 4) \<and> tsUUID S (formatUUID bs) = Some (formatUUID bs))"

definition beatCodec :: "statusLib \<Rightarrow> bool" where
  "beatCodec S \<longleftrightarrow> (\<forall>b. length (tsSha S b) = 32) \<and> (\<forall>p. tsEncode S p \<noteq> None) \<and> (\<forall>s. length s \<le> 128 \<longrightarrow> tsVarchar S s = s)"

definition sixteen :: "bytes option \<Rightarrow> bool" where
  "sixteen random \<longleftrightarrow> (case random of None \<Rightarrow> True | Some bs \<Rightarrow> length bs = 16)"

text \<open>A trip on which nothing is lost: random bytes of the right number, a certificate that names the device, a working database.\<close>

definition tripFine :: "httpLib \<Rightarrow> string \<Rightarrow> tripEnv \<Rightarrow> bool" where
  "tripFine H deviceID X \<longleftrightarrow> sixteen (hvRandom (teAgent X)) \<and> sixteen (hvCorrelation (teAgent X)) \<and> hvNow (teAgent X) \<noteq> 0 \<and>
     teReached X \<and> teAnswered X \<and> VerifyDevice H (teServer X) (teChains X) = Some deviceID \<and>
     \<not> svBegin (teStore X) \<and> svQuery (teStore X) = None \<and> \<not> svCommit (teStore X) \<and> svNow (teStore X) \<noteq> 0 \<and>
     (\<forall>n. teDesired X deviceID = Some n \<longrightarrow> 0 \<le> n)"

definition mayBeat :: "EdgeDevice \<Rightarrow> bool" where
  "mayBeat d \<longleftrightarrow> edCertificateStatus d = ''active'' \<and> (edStatus d = ''active'' \<or> edStatus d = ''offline'') \<and> ValidDeviceHealth (edHealth d) \<and>
     0 \<le> edDesiredConfigRevision d"

lemma trim_format [simp]: "uuidV4 bs \<Longrightarrow> trimSpace (formatUUID bs) = formatUUID bs"
  by (intro uuidText_trim formatUUID_text) (simp add: uuidV4_def)

lemma newUUIDv4_canonical: "sixteen random \<Longrightarrow> newUUIDv4 random = Some u \<Longrightarrow> \<exists>bs. uuidV4 bs \<and> u = formatUUID bs"
  using newUUIDv4_V4 by (cases random) (fastforce simp: sixteen_def newUUIDv4_def)+

lemma heartbeatID_canonical: "sixteen random \<Longrightarrow> heartbeatID random raw = Inr i \<Longrightarrow> \<exists>bs. uuidV4 bs \<and> i = formatUUID bs"
  using newUUIDv4_canonical normalizeUUIDv4_Some by (auto simp: heartbeatID_def split: if_splits option.splits)

lemma heartbeatRequest_Inr:
  assumes "heartbeatRequest E t = Inr (corr, n)" "sixteen (hvRandom E)" "sixteen (hvCorrelation E)" "hvNow E \<noteq> 0"
  shows "\<exists>cs bs. uuidV4 cs \<and> corr = formatUUID cs \<and> uuidV4 bs \<and> tmHeartbeatID n = formatUUID bs" "tmReportedAt n \<noteq> 0"
    "0 \<le> tmUptimeSeconds n" "tmUptimeSeconds n \<le> 3155760000" "0 \<le> tmStoreForwardDepth n" "tmStoreForwardDepth n \<le> 1000000000"
    "trimSpace (tmFirmwareVersion n) \<noteq> []" "length (trimSpace (tmFirmwareVersion n)) \<le> 128" "ValidDeviceHealth (tmHealth n)"
    "tmDesiredConfigRevision n = tmDesiredConfigRevision t"
proof -
  obtain i where i: "heartbeatID (hvRandom E) (tmHeartbeatID t) = Inr i" "newUUIDv4 (hvCorrelation E) = Some corr"
    and n: "normalizeTelemetry (hvRandom E) (hvNow E) (hvLater E) t = Inr n"
    using assms(1) by (auto simp: heartbeatRequest_def normalizeTelemetry_def split: sum.splits option.splits if_splits)
  from n i(1) have eq: "n = t\<lparr>tmHeartbeatID := i, tmReportedAt := (if tmReportedAt t = 0 then hvNow E else tmReportedAt t),
        tmFirmwareVersion := trimSpace (tmFirmwareVersion t)\<rparr>"
      and ok: "0 \<le> tmUptimeSeconds t" "tmUptimeSeconds t \<le> maxUptimeSeconds" "0 \<le> tmStoreForwardDepth t" "tmStoreForwardDepth t \<le> maxStoreForwardDepth"
        "trimSpace (tmFirmwareVersion t) \<noteq> []" "length (trimSpace (tmFirmwareVersion t)) \<le> maxFirmwareVersionSize"
        "case tmHealth t of None \<Rightarrow> True | Some h \<Rightarrow> validHealthTelemetry h"
    by (auto simp: normalizeTelemetry_def Let_def not_less split: if_splits option.splits)
  show "\<exists>cs bs. uuidV4 cs \<and> corr = formatUUID cs \<and> uuidV4 bs \<and> tmHeartbeatID n = formatUUID bs"
    using heartbeatID_canonical [OF assms(2) i(1)] newUUIDv4_canonical [OF assms(3) i(2)] by (auto simp: eq)
  show "ValidDeviceHealth (tmHealth n)" using ok(7)
    by (cases "tmHealth t") (simp_all add: eq health_sides_agree, simp add: ValidDeviceHealth_def)
  show "tmReportedAt n \<noteq> 0" "0 \<le> tmUptimeSeconds n" "tmUptimeSeconds n \<le> 3155760000" "0 \<le> tmStoreForwardDepth n"
    "tmStoreForwardDepth n \<le> 1000000000" "trimSpace (tmFirmwareVersion n) \<noteq> []" "length (trimSpace (tmFirmwareVersion n)) \<le> 128"
    "tmDesiredConfigRevision n = tmDesiredConfigRevision t"
    using assms(4) ok by (simp_all add: eq maxUptimeSeconds_def maxStoreForwardDepth_def maxFirmwareVersionSize_def)
qed

text \<open>Such a request becomes a command, and the command a new row.\<close>

lemma heartbeatCommand_fine:
  assumes "heartbeatRequest (teAgent X) t = Inr (corr, n)" "tripFine H deviceID X" "uuidsCanonical H S" "uuidV4 ds" "deviceID = formatUUID ds"
    "tmDesiredConfigRevision t = 0" "tmReportedAt n \<le> teServer X + 5 * minute"
  shows "heartbeatCommand H (teServer X) (VerifyDevice H (teServer X) (teChains X)) (deviceRequest deviceID corr) (telemetryBody n) =
    Inr \<lparr>hcDeviceID = deviceID, hcHeartbeatID = tmHeartbeatID n, hcReportedAt = tmReportedAt n, hcUptimeSeconds = tmUptimeSeconds n,
         hcStoreForwardDepth = tmStoreForwardDepth n, hcFirmwareVersion = trimSpace (tmFirmwareVersion n), hcHealth = tmHealth n\<rparr>"
proof -
  have fine: "sixteen (hvRandom (teAgent X))" "sixteen (hvCorrelation (teAgent X))" "hvNow (teAgent X) \<noteq> 0"
    "VerifyDevice H (teServer X) (teChains X) = Some deviceID" using assms(2) by (simp_all add: tripFine_def)
  note req = heartbeatRequest_Inr [OF assms(1) fine(1-3)]
  from req(1) obtain cs bs where ids: "uuidV4 cs" "corr = formatUUID cs" "uuidV4 bs" "tmHeartbeatID n = formatUUID bs" by blast
  have parse: "hlParse H (formatUUID cs) = Some (formatUUID cs, 4)" "hlParse H (formatUUID bs) = Some (formatUUID bs, 4)"
    using assms(3) ids by (simp_all add: uuidsCanonical_def)
  have "formatUUID cs \<noteq> []" by (simp add: formatUUID_def)
  then have corr: "correlationHeaderOnly H (deviceRequest deviceID corr) = Inr corr"
    using ids parse by (simp add: correlationHeaderOnly_def correlationID_def deviceRequest_def)
  have body: "telemetryBody n = Some \<lparr>bhHeartbeatID = formatUUID bs, bhReportedAt = tmReportedAt n, bhUptimeSeconds = tmUptimeSeconds n,
      bhStoreForwardDepth = tmStoreForwardDepth n, bhFirmwareVersion = tmFirmwareVersion n, bhHealth = tmHealth n\<rparr>"
    using req(10) assms(6) ids by (simp add: telemetryBody_def)
  have path: "trimSpace (hqPath (deviceRequest deviceID corr)) = deviceID" using assms(4,5) by (simp add: deviceRequest_def)
  show ?thesis unfolding heartbeatCommand_def Let_def fine(4) path corr body
    using ids parse req(2-9) assms(7) by simp
qed

lemma RecordHeartbeat_fine:
  assumes "\<not> svBegin E" "svQuery E = None" "\<not> svCommit E" "beatCodec S" "tsUUID S (hcDeviceID c) = Some device"
    "tsUUID S (hcHeartbeatID c) = Some i" "deviceOf db device = Some d" "mayBeat d" "beatOf db (edTenantID d) device i = None"
    "ValidDeviceHealth (hcHealth c)" "0 \<le> hcUptimeSeconds c" "hcUptimeSeconds c \<le> 3155760000" "0 \<le> hcStoreForwardDepth c"
    "hcStoreForwardDepth c \<le> 1000000000"
  shows "\<exists>db' d'. RecordHeartbeat S E c db = (db', Inr (\<lparr>hrDevice = d', hrObservedAt = svNow E\<rparr>, False)) \<and> deviceOf db' device = Some d' \<and>
    (\<exists>f. d' = beaten c f (svNow E) (if hcHealth c = None then edHealth d else hcHealth c) d)"
proof -
  obtain payload where payload: "tsEncode S (hcReportedAt c, hcUptimeSeconds c, hcStoreForwardDepth c, trimSpace (hcFirmwareVersion c), hcHealth c) = Some payload"
    using assms(4) unfolding beatCodec_def by (metis option.exhaust)
  then have hash: "hashHeartbeat S c = Some (hexEncode (tsSha S payload))" by (simp add: hashHeartbeat_def)
  have checks: "heartbeatChecks c (hexEncode (tsSha S payload))"
    using assms(4,10-14) by (auto simp: heartbeatChecks_def beatCodec_def list_all_iff dest: set_hexEncode)
  let ?f = "tsVarchar S (trimSpace (hcFirmwareVersion c))"
  let ?d = "beaten c ?f (svNow E) (if hcHealth c = None then edHealth d else hcHealth c) d"
  let ?db = "db\<lparr>ebDevices := map (\<lambda>x. if edID x = device then ?d else x) (ebDevices db),
    hbRows := hbRows db @ [\<lparr>hwTenant = edTenantID d, hwDevice = device, hwID = i, hwHash = hexEncode (tsSha S payload), hwObservedAt = svNow E\<rparr>]\<rparr>"
  have "record_device_heartbeat c device i (hexEncode (tsSha S payload)) ?f (svNow E) db = Inr (?db, \<lparr>hrDevice = ?d, hrObservedAt = svNow E\<rparr>, False)"
    using assms(7,8,9) checks unfolding record_device_heartbeat_def deviceOf_def [symmetric] beatOf_def [symmetric] mayBeat_def Let_def by auto
  then have run: "RecordHeartbeat S E c db = (?db, Inr (\<lparr>hrDevice = ?d, hrObservedAt = svNow E\<rparr>, False))"
    using assms(1-3,5,6,10) hash by (simp add: RecordHeartbeat_def)
  have "deviceOf ?db device = Some ?d"
    using deviceOf_update [OF assms(7), of ?d device] deviceOf_id [OF assms(7)] by (simp add: deviceOf_def)
  with run show ?thesis by blast
qed

lemma beaten_online:
  assumes "now \<le> t" "t \<le> now + DeviceOfflineAfter"
  shows "EffectiveDeviceStatus (beaten c f now h d) t = ''active''"
  using assms by (auto simp: EffectiveDeviceStatus_def DeviceOfflineAfter_def timeSub_def second_def minInt64_def maxInt64_def)


section \<open>An instance\<close>

definition whBytes :: bytes where "whBytes = (replicate 16 CHR 0x00)[6 := CHR 0x40, 8 := CHR 0x80]"
definition whDevice :: string where "whDevice = formatUUID whBytes"

definition whHttp :: httpLib where "whHttp = \<lparr>hlParse = (\<lambda>s. Some (s, 4)), hlUnicode = (\<lambda>s. s), hlFold = (=)\<rparr>"

definition whLib :: statusLib where
  "whLib = \<lparr>tsSha = (\<lambda>_. replicate 32 CHR ''x''), tsParses = (\<lambda>_. True), tsVarchar = (\<lambda>s. s), tsUUID = Some, tsEncode = (\<lambda>_. Some [])\<rparr>"

definition whEnv :: statusEnv where "whEnv = \<lparr>svNow = 7, svBegin = False, svQuery = None, svCommit = False, svApplied = False\<rparr>"

definition whRow :: EdgeDevice where
  "whRow = \<lparr>edID = whDevice, edTenantID = ''t'', edSiteID = ''s'', edSerialNumber = ''n'', edHardwareTier = ''s'', edModel = [], edStatus = ''offline'',
     edCertificateStatus = ''active'', edFirmwareVersion = [], edStoreForwardDepth = 0, edUptimeSeconds = 0, edDesiredConfigRevision = 0,
     edHealth = None, edLastHeartbeat = None, edActivatedAt = Some 1, edCreatedAt = 1, edUpdatedAt = 1\<rparr>"

definition whDB :: heartbeatDB where
  "whDB = \<lparr>sdTenants = (\<lambda>_. True), sdSites = [], sdKeys = [], sdAudit = [], ebDevices = [whRow], ebClaims = [], hbRows = []\<rparr>"

definition whMemory :: statusMemory where "whMemory = \<lparr>mmDevices = [whRow], mmReceipts = Map.empty\<rparr>"

definition whCommand :: HeartbeatCommand where
  "whCommand = \<lparr>hcDeviceID = whDevice, hcHeartbeatID = ''h'', hcReportedAt = 5, hcUptimeSeconds = 1, hcStoreForwardDepth = 0, hcFirmwareVersion = ''f'',
     hcHealth = None\<rparr>"

definition whTelemetry :: Telemetry where
  "whTelemetry = \<lparr>tmHeartbeatID = [], tmReportedAt = 5, tmUptimeSeconds = 1, tmDesiredConfigRevision = 0, tmStoreForwardDepth = 0,
     tmFirmwareVersion = ''f'', tmHealth = None\<rparr>"

definition whTrip :: tripEnv where
  "whTrip = \<lparr>teAgent = \<lparr>hvNow = 6, hvLater = 6, hvRandom = Some whBytes, hvCorrelation = Some whBytes, hvEncodes = True, hvBuilds = True,
       hvExchange = (\<lambda>_ _ _. None)\<rparr>,
     teReached = True, teAnswered = True, teServer = 7, teStore = whEnv, teDesired = (\<lambda>_. Some 4),
     teChains = [[\<lparr>ccNotBefore = 0, ccNotAfter = 100, ccCommonName = whDevice\<rparr>]]\<rparr>"

lemma wh16: "length whBytes = 16" by (simp add: whBytes_def)

lemma whV4: "uuidV4 whBytes"
  by (simp add: uuidV4_def whBytes_def byteOf_def)

lemma whDevice_trim [simp]: "trimSpace whDevice = whDevice" unfolding whDevice_def by (rule trim_format [OF whV4])

lemma whFirmware: "trimSpace ''f'' = ''f''" by code_simp

lemma whOK: "uuidsCanonical whHttp whLib" "beatCodec whLib" "mayBeat whRow" "deviceOf whDB whDevice = Some whRow" "beatOf whDB t device i = None"
    "normalizeUUIDv4 whDevice = Some whDevice"
  by (simp_all add: uuidsCanonical_def whHttp_def whLib_def beatCodec_def mayBeat_def whRow_def ValidDeviceHealth_def deviceOf_def whDB_def beatOf_def
      whDevice_def normalize_format whV4)

lemma whFine: "tripFine whHttp whDevice whTrip"
  by (simp add: tripFine_def whTrip_def sixteen_def wh16 VerifyDevice_def whHttp_def whEnv_def)

lemma whRequest: "\<exists>corr n. heartbeatRequest (teAgent whTrip) whTelemetry = Inr (corr, n) \<and> tmReportedAt n = 5"
proof -
  obtain u where "newUUIDv4 (Some whBytes) = Some u" using newUUIDv4_V4 [OF wh16] by blast
  then show ?thesis
    using whFirmware by (simp add: heartbeatRequest_def normalizeTelemetry_def heartbeatID_def whTrip_def whTelemetry_def maxUptimeSeconds_def
        maxStoreForwardDepth_def maxFirmwareVersionSize_def minute_def second_def)
qed

lemma whRecorded:
  "\<exists>x y. snd (runCalls (RecordHeartbeat whLib) [(whEnv, whCommand), (whEnv\<lparr>svNow := 9\<rparr>, whCommand)] whDB) = [Inr x, Inr y] \<and> hrObservedAt (fst x) = 7"
proof -
  have hex: "list_all lowerHex (hexEncode (replicate 32 CHR ''x''))" by (auto simp: list_all_iff dest: set_hexEncode)
  have "\<exists>b. b" "\<exists>b. \<not> b" by auto
  with hex show ?thesis using whFirmware
    by (simp add: RecordHeartbeat_def whCommand_def ValidDeviceHealth_def hashHeartbeat_def whLib_def whEnv_def record_device_heartbeat_def whDB_def whRow_def
        heartbeatChecks_def Let_def beaten_def)
qed

lemma whRemembered:
  "\<exists>u v. snd (runCalls (MemoryRecordHeartbeat whLib) [(7, whCommand), (9, whCommand)] whMemory) = [Inr u, Inr v] \<and> hrObservedAt (fst u) = 7"
  using whFirmware by (simp add: MemoryRecordHeartbeat_def whCommand_def ValidDeviceHealth_def hashHeartbeat_def whLib_def whMemory_def whRow_def Let_def beaten_def) blast

section \<open>Properties\<close>

text \<open>C38: heartbeats take effect once, in both repositories. In every history of calls, with any failures
  of the database, two accepted calls with one device and heartbeat identifier have the same request
  hash and the later one is marked as a replay; it gives the time at which the first was observed, and in
  the memory repository the whole result of the first.\<close>

theorem heartbeat_once:
  fixes db :: "'d heartbeatDB_scheme"
  assumes "i < j"
  shows "(j < length calls \<and> heartbeatKey S (snd (calls ! i)) = heartbeatKey S (snd (calls ! j)) \<and>
      snd (runCalls (RecordHeartbeat S) calls db) ! i = Inr x \<and> snd (runCalls (RecordHeartbeat S) calls db) ! j = Inr y \<longrightarrow>
      heartbeatHash S (snd (calls ! j)) = heartbeatHash S (snd (calls ! i)) \<and> snd y \<and> hrObservedAt (fst y) = hrObservedAt (fst x)) \<and>
    (j < length beats \<and> hcDeviceID (snd (beats ! i)) = hcDeviceID (snd (beats ! j)) \<and> hcHeartbeatID (snd (beats ! i)) = hcHeartbeatID (snd (beats ! j)) \<and>
      snd (runCalls (MemoryRecordHeartbeat S) beats m) ! i = Inr u \<and> snd (runCalls (MemoryRecordHeartbeat S) beats m) ! j = Inr v \<longrightarrow>
      heartbeatHash S (snd (beats ! j)) = heartbeatHash S (snd (beats ! i)) \<and> snd v \<and> fst v = fst u)"
proof (intro conjI [OF impI impI]; elim conjE)
  assume "j < length calls" "heartbeatKey S (snd (calls ! i)) = heartbeatKey S (snd (calls ! j))"
    "snd (runCalls (RecordHeartbeat S) calls db) ! i = Inr x" "snd (runCalls (RecordHeartbeat S) calls db) ! j = Inr y"
  then show "heartbeatHash S (snd (calls ! j)) = heartbeatHash S (snd (calls ! i)) \<and> snd y \<and> hrObservedAt (fst y) = hrObservedAt (fst x)"
    by (rule pgBeat.once_decided [OF assms])
next
  assume "j < length beats" and ids: "hcDeviceID (snd (beats ! i)) = hcDeviceID (snd (beats ! j))" "hcHeartbeatID (snd (beats ! i)) = hcHeartbeatID (snd (beats ! j))"
    and run: "snd (runCalls (MemoryRecordHeartbeat S) beats m) ! i = Inr u" "snd (runCalls (MemoryRecordHeartbeat S) beats m) ! j = Inr v"
  then show "heartbeatHash S (snd (beats ! j)) = heartbeatHash S (snd (beats ! i)) \<and> snd v \<and> fst v = fst u"
    by (intro memoryBeat.once_decided [OF assms _ _ run]) simp_all
qed

theorem heartbeat_once_witness:
  "(\<exists>x y. snd (runCalls (RecordHeartbeat whLib) [(whEnv, whCommand), (whEnv\<lparr>svNow := 9\<rparr>, whCommand)] whDB) = [Inr x, Inr y] \<and>
      snd y \<and> hrObservedAt (fst y) = 7) \<and>
   (\<exists>u v. snd (runCalls (MemoryRecordHeartbeat whLib) [(7, whCommand), (9, whCommand)] whMemory) = [Inr u, Inr v] \<and>
      snd v \<and> hrObservedAt (fst v) = 7)"
proof -
  obtain x y where run: "snd (runCalls (RecordHeartbeat whLib) [(whEnv, whCommand), (whEnv\<lparr>svNow := 9\<rparr>, whCommand)] whDB) = [Inr x, Inr y]"
    "hrObservedAt (fst x) = 7" using whRecorded by blast
  obtain u v where mem: "snd (runCalls (MemoryRecordHeartbeat whLib) [(7, whCommand), (9, whCommand)] whMemory) = [Inr u, Inr v]"
    "hrObservedAt (fst u) = 7" using whRemembered by blast
  from heartbeat_once [of 0 1 "[(whEnv, whCommand), (whEnv\<lparr>svNow := 9\<rparr>, whCommand)]" whLib whDB x y "[(7, whCommand), (9, whCommand)]" whMemory u v]
    run mem show ?thesis by auto
qed

text \<open>C39: a heartbeat keeps its device online. When the request of an agent reaches the control plane with
  a certificate of its registered device, within the clock bound, with telemetry that carries no desired
  configuration revision (with one, the control plane refuses the body) and under an identifier the device
  has not used (a retry of a recorded heartbeat is answered and renews nothing), and nothing fails, the
  agent gets an answer that it accepts, and for the next ninety seconds the device is shown as active.\<close>

theorem heartbeat_keeps_online:
  fixes db :: "'d heartbeatDB_scheme"
  assumes "heartbeatRequest (teAgent X) t = Inr (corr, n)" "tripFine H deviceID X" "uuidsCanonical H S" "beatCodec S"
    "normalizeUUIDv4 configured = Some deviceID" "tmDesiredConfigRevision t = 0" "tmReportedAt n \<le> teServer X + 5 * minute"
    "deviceOf db deviceID = Some d" "mayBeat d" "beatOf db (edTenantID d) deviceID (tmHeartbeatID n) = None"
  shows "\<exists>db' s d'. heartbeatTrip H S deviceID X t db = (db', Inr ((s, svNow (teStore X)), False)) \<and> dsStatus s = ''active'' \<and>
    deviceOf db' deviceID = Some d' \<and>
    (\<forall>later. svNow (teStore X) \<le> later \<and> later \<le> svNow (teStore X) + DeviceOfflineAfter \<longrightarrow> EffectiveDeviceStatus d' later = ''active'')"
proof -
  obtain ds where ds: "uuidV4 ds" "deviceID = formatUUID ds" using normalizeUUIDv4_Some [OF assms(5)] by blast
  have fine: "sixteen (hvRandom (teAgent X))" "sixteen (hvCorrelation (teAgent X))" "hvNow (teAgent X) \<noteq> 0" "teReached X" "teAnswered X"
    "\<not> svBegin (teStore X)" "svQuery (teStore X) = None" "\<not> svCommit (teStore X)" "svNow (teStore X) \<noteq> 0"
    using assms(2) by (simp_all add: tripFine_def)
  note req = heartbeatRequest_Inr [OF assms(1) fine(1-3)]
  let ?c = "\<lparr>hcDeviceID = deviceID, hcHeartbeatID = tmHeartbeatID n, hcReportedAt = tmReportedAt n, hcUptimeSeconds = tmUptimeSeconds n,
         hcStoreForwardDepth = tmStoreForwardDepth n, hcFirmwareVersion = trimSpace (tmFirmwareVersion n), hcHealth = tmHealth n\<rparr>"
  have ids: "tsUUID S deviceID = Some deviceID" "tsUUID S (tmHeartbeatID n) = Some (tmHeartbeatID n)"
    using req(1) ds assms(3) by (auto simp: uuidsCanonical_def)
  have "\<exists>db' d'. RecordHeartbeat S (teStore X) ?c db = (db', Inr (\<lparr>hrDevice = d', hrObservedAt = svNow (teStore X)\<rparr>, False)) \<and>
      deviceOf db' deviceID = Some d' \<and> (\<exists>f. d' = beaten ?c f (svNow (teStore X)) (if hcHealth ?c = None then edHealth d else hcHealth ?c) d)"
    by (rule RecordHeartbeat_fine) (use fine assms(4,8-10) ids req(3-6,9) in \<open>simp_all\<close>)
  then obtain db' d' f where run: "RecordHeartbeat S (teStore X) ?c db = (db', Inr (\<lparr>hrDevice = d', hrObservedAt = svNow (teStore X)\<rparr>, False))"
    "deviceOf db' deviceID = Some d'" "d' = beaten ?c f (svNow (teStore X)) (if hcHealth ?c = None then edHealth d else hcHealth ?c) d" by blast
  define shown where "shown = (case teDesired X deviceID of None \<Rightarrow> d' | Some k \<Rightarrow> d'\<lparr>edDesiredConfigRevision := k\<rparr>)"
  have reply: "recordDeviceHeartbeat H S (teServer X) (teStore X) (teDesired X) (teChains X) (deviceRequest deviceID corr) (telemetryBody n) db =
      (db', Reply 200 \<lparr>hrDevice = shown, hrObservedAt = svNow (teStore X)\<rparr> False)"
  proof -
    have cmd: "(heartbeatCommand H (teServer X) (VerifyDevice H (teServer X) (teChains X)) (deviceRequest deviceID corr) (telemetryBody n)
        :: HeartbeatResult reply + HeartbeatCommand) = Inr ?c"
      by (rule heartbeatCommand_fine [OF assms(1-3) ds assms(6,7)])
    show ?thesis unfolding recordDeviceHeartbeat_def cmd sum.case run(1) prod.case shown_def by (simp split: option.splits)
  qed
  have "ValidDeviceHealth (edHealth d')" using run(3) assms(9) req(9) by (simp add: mayBeat_def)
  then have health: "case edHealth shown of None \<Rightarrow> True | Some h \<Rightarrow> validHealthTelemetry h"
    by (auto simp: shown_def health_sides_agree split: option.splits)
  have sel: "edID shown = deviceID" "edStatus shown = ''active''" "edCertificateStatus shown = ''active''" "0 \<le> edDesiredConfigRevision shown"
    using run(3) deviceOf_id [OF assms(8)] assms(2,9) by (auto simp: shown_def mayBeat_def tripFine_def split: option.splits)
  then have "validateHeartbeatResult deviceID (deviceStatusOf shown, svNow (teStore X))"
    using health fine(9) by (auto simp: validateHeartbeatResult_def deviceStatusOf_def split: option.splits)
  then have "heartbeatTrip H S deviceID X t db = (db', Inr ((deviceStatusOf shown, svNow (teStore X)), False))"
    using reply fine(4,5) assms(1) by (simp add: heartbeatTrip_def readHeartbeatReply_def)
  moreover have "dsStatus (deviceStatusOf shown) = ''active''" using sel by (simp add: deviceStatusOf_def)
  moreover have "EffectiveDeviceStatus d' later = ''active''"
    if "svNow (teStore X) \<le> later \<and> later \<le> svNow (teStore X) + DeviceOfflineAfter" for later
    using beaten_online that unfolding run(3) by blast
  ultimately show ?thesis using run(2) by blast
qed


theorem heartbeat_keeps_online_witness:
  "\<exists>db' s d'. heartbeatTrip whHttp whLib whDevice whTrip whTelemetry whDB = (db', Inr ((s, 7), False)) \<and> deviceOf db' whDevice = Some d' \<and>
     EffectiveDeviceStatus d' 90000000007 = ''active''"
proof -
  obtain corr n where req: "heartbeatRequest (teAgent whTrip) whTelemetry = Inr (corr, n)" "tmReportedAt n = 5" using whRequest by blast
  have "tmDesiredConfigRevision whTelemetry = 0" "tmReportedAt n \<le> teServer whTrip + 5 * minute" "svNow (teStore whTrip) = 7"
    using req(2) by (simp_all add: whTelemetry_def whTrip_def minute_def second_def whEnv_def)
  from heartbeat_keeps_online [OF req(1) whFine whOK(1,2,6) this(1,2) whOK(4,3,5)] this(3) obtain db' s d' where
    "heartbeatTrip whHttp whLib whDevice whTrip whTelemetry whDB = (db', Inr ((s, 7), False))" "deviceOf db' whDevice = Some d'"
    "\<forall>later. 7 \<le> later \<and> later \<le> 7 + DeviceOfflineAfter \<longrightarrow> EffectiveDeviceStatus d' later = ''active''" by auto
  moreover have "(7 :: gotime) \<le> 90000000007 \<and> 90000000007 \<le> 7 + DeviceOfflineAfter" by (simp add: DeviceOfflineAfter_def second_def)
  ultimately show ?thesis by blast
qed

end
