(* ===== verification/Tenant_Sites.thy ===== *)
theory Tenant_Sites
  imports Keyed_Store
begin

text \<open>
  Sites of a tenant, \<open>backend/internal/tenant/repository.go\<close>: listing and creating, in the PostgreSQL and in the
  memory repository. The JSON encoders are fields of \<open>siteLib\<close>.
\<close>

section \<open>Operations\<close>

record CreateSiteCommand =
  csTenantID :: string
  csActorID :: string
  csRequestID :: string
  csIdempotencyKey :: string
  csName :: string
  csAddress :: string
  csTimezone :: string

datatype siteError = ErrSiteConflict | ErrTenantNotFound | SiteInsertFailed

record 'j siteLib = "'j storeLib" +
  siEncodeRequest :: "string \<times> string \<times> string \<Rightarrow> bytes option"
  siEncode :: "Site \<Rightarrow> bytes option"
  siDecode :: "bytes \<Rightarrow> Site option"
  siAny :: "Site \<Rightarrow> 'j"

definition hashCreateSite :: "'j siteLib \<Rightarrow> CreateSiteCommand \<Rightarrow> siteError storeError + string" where
  "hashCreateSite L command =
     (case siEncodeRequest L (trimSpace (csName command), trimSpace (csAddress command), csTimezone command) of
        None \<Rightarrow> Inl StEncode
      | Some payload \<Rightarrow> Inr (hexEncode (slSha L payload)))"

definition classifyCreateError :: "string \<Rightarrow> siteError" where
  "classifyCreateError code =
     (if code = ''23503'' then ErrTenantNotFound else if code = ''23505'' then ErrSiteConflict else SiteInsertFailed)"

definition newSite :: "storeEnv \<Rightarrow> CreateSiteCommand \<Rightarrow> Site" where
  "newSite E command =
     \<lparr>siID = stID E, siTenantID = csTenantID command, siName = trimSpace (csName command),
      siAddress = trimSpace (csAddress command), siTimezone = csTimezone command, siStatus = ''provisioning'',
      siCreatedAt = stNow E\<rparr>"

text \<open>\<open>INSERT INTO config.sites\<close>: an SQLSTATE or the new row.\<close>

definition insertSite :: "storeEnv \<Rightarrow> string \<Rightarrow> Site \<Rightarrow> 'd storeDB_scheme \<Rightarrow> string + Site" where
  "insertSite E tenant site db =
     (case stFails E StInsert of
        Some code \<Rightarrow> Inl code
      | None \<Rightarrow>
          if \<exists>s \<in> set (sdSites db). siID s = siID site then Inl ''23505''
          else if \<not> sdTenants db tenant then Inl ''23503''
          else Inr (site\<lparr>siTenantID := tenant\<rparr>))"

definition siteWork ::
  "'j siteLib \<Rightarrow> storeEnv \<Rightarrow> CreateSiteCommand \<Rightarrow> string \<Rightarrow> storeDB \<Rightarrow>
     siteError storeError + storeDB \<times> Site \<times> bytes option \<times> 'j AuditEvent" where
  "siteWork L E command tenant db =
     (let site = newSite E command in
      (case insertSite E tenant site db of
         Inl code \<Rightarrow> Inl (Domain (classifyCreateError code))
       | Inr row \<Rightarrow>
           Inr (db\<lparr>sdSites := sdSites db @ [row]\<rparr>, site, siEncode L site,
             \<lparr>aeTenantID = csTenantID command, aeActorID = csActorID command, aeAction = ''site.created'',
              aeResourceType = ''site'', aeResourceID = siID site, aeRequestID = csRequestID command,
              aeBeforeState = slNil L, aeAfterState = siAny L site, aeOccurredAt = siCreatedAt site\<rparr>)))"

definition decodeSite :: "'j siteLib \<Rightarrow> bytes \<Rightarrow> siteError storeError + Site" where
  "decodeSite L b = (case siDecode L b of None \<Rightarrow> Inl StDecode | Some site \<Rightarrow> Inr site)"

definition CreateSite ::
  "'j siteLib \<Rightarrow> storeEnv \<Rightarrow> CreateSiteCommand \<Rightarrow> storeDB \<Rightarrow> storeDB \<times> (siteError storeError + Site \<times> bool)" where
  "CreateSite L E command db =
     keyedCreate L E (csTenantID command) (csIdempotencyKey command) None (hashCreateSite L command) (decodeSite L)
       (siteWork L E command) db"

definition ListSites :: "'j siteLib \<Rightarrow> storeEnv \<Rightarrow> string \<Rightarrow> storeDB \<Rightarrow> siteError storeError + Site list" where
  "ListSites L E tenantID db =
     (case beginStore L E tenantID of
        Inl err \<Rightarrow> Inl err
      | Inr tenant \<Rightarrow>
          if stFails E StRead \<noteq> None then Inl (StDatabase StRead)
          else if stFails E StCommit \<noteq> None then Inl (StDatabase StCommit)
          else Inr (sortSlice (\<lambda>a b. siID a < siID b) (filter (\<lambda>s. siTenantID s = tenant) (sdSites db))))"

section \<open>The memory repository\<close>

record siteMemory =
  smSites :: "Site list"
  smKeys :: "string \<rightharpoonup> string \<times> Site"

definition MemoryListSites :: "string \<Rightarrow> siteMemory \<Rightarrow> Site list" where
  "MemoryListSites tenantID m = sortSlice (\<lambda>a b. siID a < siID b) (filter (\<lambda>s. siTenantID s = tenantID) (smSites m))"

definition MemoryCreateSite ::
  "'j siteLib \<Rightarrow> storeEnv \<Rightarrow> CreateSiteCommand \<Rightarrow> siteMemory \<Rightarrow> siteMemory \<times> (siteError storeError + Site \<times> bool)" where
  "MemoryCreateSite L E command m =
     (case hashCreateSite L command of
        Inl err \<Rightarrow> (m, Inl err)
      | Inr hash \<Rightarrow>
          let key = csTenantID command @ '':'' @ csIdempotencyKey command in
          (case smKeys m key of
             Some (stored, site) \<Rightarrow> if stored \<noteq> hash then (m, Inl ErrIdempotencyConflict) else (m, Inr (site, True))
           | None \<Rightarrow>
               let site = newSite E command in
               (m\<lparr>smSites := smSites m @ [site], smKeys := (smKeys m)(key \<mapsto> (hash, site))\<rparr>, Inr (site, False))))"

section \<open>Laws\<close>

text \<open>Documented behaviour of the coders: what was encoded and stored is read back.\<close>

definition siteCodec :: "'j siteLib \<Rightarrow> bool" where
  "siteCodec L \<longleftrightarrow> (\<forall>s b. siEncode L s = Some b \<longrightarrow> siDecode L (slJsonb L b) = Some s)"

lemma siteWork_Inr:
  assumes "siteWork L E c tenant db = Inr (db', x, body, event)"
  shows "sdKeys db' = sdKeys db \<and> sdSites db' = sdSites db @ [x\<lparr>siTenantID := tenant\<rparr>] \<and> sdAudit db' = sdAudit db \<and>
    body = siEncode L x \<and> x = newSite E c \<and> siID x \<notin> siID ` set (sdSites db) \<and> sdTenants db tenant \<and>
    aeAction event = ''site.created'' \<and> aeResourceID event = siID x"
  using assms by (auto simp: siteWork_def insertSite_def Let_def split: sum.splits option.splits if_splits)

interpretation siteCreate: keyed_create L csTenantID csIdempotencyKey "\<lambda>_. None" "hashCreateSite L" "decodeSite L" "siteWork L"
  "siteCodec L" horizon for L horizon
  by unfold_locales (auto dest!: siteWork_Inr simp: siteCodec_def decodeSite_def)

definition memorySiteKey :: "CreateSiteCommand \<Rightarrow> string" where
  "memorySiteKey c = csTenantID c @ '':'' @ csIdempotencyKey c"

interpretation memorySite: idempotent_calls "MemoryCreateSite L" memorySiteKey
  "\<lambda>c. case hashCreateSite L c of Inl _ \<Rightarrow> [] | Inr h \<Rightarrow> h" fst snd smKeys for L
  by unfold_locales (auto simp: MemoryCreateSite_def memorySiteKey_def Let_def split: sum.splits option.splits if_splits)

end
