(* ===== verification/Http_Cameras.thy ===== *)
theory Http_Cameras
  imports Http_Base Camera_Registry
begin

text \<open>
  The camera routes, \<open>backend/internal/httpapi/cameras.go\<close>, over the PostgreSQL registry. \<open>E n\<close> is the
  environment of the n-th transaction of a request.
\<close>

section \<open>Validation\<close>

record createCameraRequest =
  ciSiteID :: string
  ciSerialNumber :: string
  ciName :: string
  ciGroupName :: string
  ciTags :: "string list"

record updateCameraRequest =
  uiConfigVersion :: int
  uiName :: "string option"
  uiGroupName :: "string option"
  uiTags :: "string list option"
  uiLifecycleStatus :: "string option"

definition validTags :: "string list \<Rightarrow> bool" where
  "validTags tags =
     (if length tags > 32 then False
      else \<not> list_ex (\<lambda>tag. length (trimSpace tag) = 0 \<or> length (trimSpace tag) > 64) tags)"

definition normalizeCreateCamera :: "createCameraRequest \<Rightarrow> createCameraRequest" where
  "normalizeCreateCamera input =
     input\<lparr>ciSiteID := trimSpace (ciSiteID input), ciSerialNumber := trimSpace (ciSerialNumber input),
       ciName := trimSpace (ciName input), ciGroupName := trimSpace (ciGroupName input)\<rparr>"

definition validCameraCreate :: "httpLib \<Rightarrow> createCameraRequest \<Rightarrow> bool" where
  "validCameraCreate H input =
     (if hlParse H (ciSiteID input) = None then False
      else length (ciSerialNumber input) > 0 \<and> length (ciSerialNumber input) \<le> 128 \<and> length (ciName input) > 0 \<and>
        length (ciName input) \<le> 120 \<and> length (ciGroupName input) \<le> 120 \<and> validTags (ciTags input))"

text \<open>The pointers of the input are trimmed in place; the result is the input as it is then.\<close>

definition validCameraUpdate :: "updateCameraRequest \<Rightarrow> updateCameraRequest option" where
  "validCameraUpdate input =
     (let name = map_option trimSpace (uiName input); group = map_option trimSpace (uiGroupName input);
          lifecycle = map_option trimSpace (uiLifecycleStatus input) in
      if uiConfigVersion input \<le> 0 \<or>
         (uiName input = None \<and> uiGroupName input = None \<and> uiTags input = None \<and> uiLifecycleStatus input = None) then None
      else if (case name of None \<Rightarrow> False | Some v \<Rightarrow> v = [] \<or> length v > 120) then None
      else if (case group of None \<Rightarrow> False | Some v \<Rightarrow> length v > 120) then None
      else if (case uiTags input of None \<Rightarrow> False | Some v \<Rightarrow> \<not> validTags v) then None
      else if (case lifecycle of None \<Rightarrow> False | Some v \<Rightarrow> v \<notin> {''pending'', ''active'', ''offline''}) then None
      else Some (input\<lparr>uiName := name, uiGroupName := group, uiLifecycleStatus := lifecycle\<rparr>))"

section \<open>Handlers\<close>

definition listCameras ::
  "httpLib \<Rightarrow> 'j cameraLib \<Rightarrow> (nat \<Rightarrow> storeEnv) \<Rightarrow> Principal option \<Rightarrow> httpRequest \<Rightarrow> cameraDB \<Rightarrow> Camera list reply" where
  "listCameras H L E who r db =
     (case cameraRequestContext H True CapabilityConfigRead who r of
        Inl failure \<Rightarrow> failure
      | Inr (prin, tenantID) \<Rightarrow>
          (case siteQuery H prin tenantID r of
             Inl failure \<Rightarrow> failure
           | Inr siteID \<Rightarrow>
               (case (if siteID \<noteq> [] \<or> HasRole prin RoleSuperAdmin then ListCameras L (E 0) tenantID siteID db
                      else listEachSite (\<lambda>n site. ListCameras L (E n) tenantID site db) 0 (pSiteIDs prin)) of
                  Inl err \<Rightarrow> unavailable
                | Inr cameras \<Rightarrow>
                    Reply 200 (filter (\<lambda>c. caTenantID c = tenantID \<and> CanAccessSite (hlUnicode H) prin tenantID (caSiteID c)) cameras) False)))"

definition authorizedCamera ::
  "httpLib \<Rightarrow> 'j cameraLib \<Rightarrow> storeEnv \<Rightarrow> Principal \<Rightarrow> string \<Rightarrow> httpRequest \<Rightarrow> cameraDB \<Rightarrow> 'a reply + Camera" where
  "authorizedCamera H L E prin tenantID r db =
     (if hlParse H (hqPath r) = None then Inl notFound
      else
        (case GetCamera L E tenantID (hqPath r) db of
           Inl (Domain ErrCameraNotFound) \<Rightarrow> Inl notFound
         | Inl err \<Rightarrow> Inl unavailable
         | Inr camera \<Rightarrow> if \<not> CanAccessSite (hlUnicode H) prin tenantID (caSiteID camera) then Inl notFound else Inr camera))"

definition getCamera ::
  "httpLib \<Rightarrow> 'j cameraLib \<Rightarrow> (nat \<Rightarrow> storeEnv) \<Rightarrow> Principal option \<Rightarrow> httpRequest \<Rightarrow> cameraDB \<Rightarrow> Camera list reply" where
  "getCamera H L E who r db =
     (case cameraRequestContext H True CapabilityConfigRead who r of
        Inl failure \<Rightarrow> failure
      | Inr (prin, tenantID) \<Rightarrow>
          (case authorizedCamera H L (E 0) prin tenantID r db of Inl failure \<Rightarrow> failure | Inr camera \<Rightarrow> Reply 200 [camera] False))"

fun createCameraFailure :: "cameraError storeError \<Rightarrow> 'a reply" where
  "createCameraFailure ErrIdempotencyConflict = keyReplayed"
| "createCameraFailure (Domain ErrSerialConflict) = conflicting"
| "createCameraFailure (Domain CamSiteNotFound) = notFound"
| "createCameraFailure err = unavailable"

text \<open>A writing handler turns the request into a command or into an answer, and then calls the repository.\<close>

definition createCameraCommand ::
  "httpLib \<Rightarrow> Principal option \<Rightarrow> httpRequest \<Rightarrow> createCameraRequest option \<Rightarrow> 'a reply + CreateCameraCommand" where
  "createCameraCommand H who r body =
     (case cameraRequestContext H True CapabilityConfigWrite who r of
        Inl failure \<Rightarrow> Inl failure
      | Inr (prin, tenantID) \<Rightarrow>
          (case mutationHeaders H r of
             Inl failure \<Rightarrow> Inl failure
           | Inr (key, requestID) \<Rightarrow>
               (case body of
                  None \<Rightarrow> Inl invalid
                | Some raw \<Rightarrow>
                    let input = normalizeCreateCamera raw in
                    if \<not> validCameraCreate H input then Inl invalid
                    else if \<not> CanAccessSite (hlUnicode H) prin tenantID (ciSiteID input) then Inl notFound
                    else Inr \<lparr>kcTenantID = tenantID, kcActorID = pUserID prin, kcRequestID = requestID,
                           kcIdempotencyKey = key, kcSiteID = ciSiteID input, kcSerialNumber = ciSerialNumber input,
                           kcName = ciName input, kcGroupName = ciGroupName input, kcTags = ciTags input\<rparr>)))"

definition createCamera ::
  "httpLib \<Rightarrow> 'j cameraLib \<Rightarrow> (nat \<Rightarrow> storeEnv) \<Rightarrow> Principal option \<Rightarrow> httpRequest \<Rightarrow> createCameraRequest option \<Rightarrow> cameraDB \<Rightarrow>
     cameraDB \<times> Camera list reply" where
  "createCamera H L E who r body db =
     (case createCameraCommand H who r body of
        Inl failure \<Rightarrow> (db, failure)
      | Inr command \<Rightarrow>
          (case CreateCamera L (E 0) command db of
             (db', Inl err) \<Rightarrow> (db', createCameraFailure err)
           | (db', Inr (camera, replayed)) \<Rightarrow> (db', Reply 201 [camera] replayed)))"

fun updateCameraFailure :: "cameraError storeError \<Rightarrow> 'a reply" where
  "updateCameraFailure (Domain ErrCameraNotFound) = notFound"
| "updateCameraFailure (Domain CamVersionConflict) = conflicting"
| "updateCameraFailure (Domain ErrLifecycleConflict) = conflicting"
| "updateCameraFailure err = unavailable"

definition updateCameraCommand ::
  "httpLib \<Rightarrow> 'j cameraLib \<Rightarrow> storeEnv \<Rightarrow> Principal option \<Rightarrow> httpRequest \<Rightarrow> updateCameraRequest option \<Rightarrow> cameraDB \<Rightarrow>
     'a reply + UpdateCameraCommand" where
  "updateCameraCommand H L E who r body db =
     (case cameraRequestContext H True CapabilityConfigWrite who r of
        Inl failure \<Rightarrow> Inl failure
      | Inr (prin, tenantID) \<Rightarrow>
          (case authorizedCamera H L E prin tenantID r db of
             Inl failure \<Rightarrow> Inl failure
           | Inr camera \<Rightarrow>
               (case correlationHeaderOnly H r of
                  Inl failure \<Rightarrow> Inl failure
                | Inr requestID \<Rightarrow>
                    (case (case body of None \<Rightarrow> None | Some raw \<Rightarrow> validCameraUpdate raw) of
                       None \<Rightarrow> Inl invalid
                     | Some input \<Rightarrow>
                         Inr \<lparr>kuTenantID = tenantID, kuActorID = pUserID prin, kuRequestID = requestID,
                              kuCameraID = caID camera, kuExpectedVersion = uiConfigVersion input, kuName = uiName input,
                              kuGroupName = uiGroupName input, kuTags = uiTags input, kuLifecycleStatus = uiLifecycleStatus input\<rparr>))))"

definition updateCamera ::
  "httpLib \<Rightarrow> 'j cameraLib \<Rightarrow> (nat \<Rightarrow> storeEnv) \<Rightarrow> Principal option \<Rightarrow> httpRequest \<Rightarrow> updateCameraRequest option \<Rightarrow> cameraDB \<Rightarrow>
     cameraDB \<times> Camera list reply" where
  "updateCamera H L E who r body db =
     (case updateCameraCommand H L (E 0) who r body db of
        Inl failure \<Rightarrow> (db, failure)
      | Inr command \<Rightarrow>
          (case UpdateCamera L (E 1) command db of
             (db', Inl err) \<Rightarrow> (db', updateCameraFailure err)
           | (db', Inr updated) \<Rightarrow> (db', Reply 200 [updated] False)))"

definition retireCameraCommand ::
  "httpLib \<Rightarrow> 'j cameraLib \<Rightarrow> storeEnv \<Rightarrow> Principal option \<Rightarrow> httpRequest \<Rightarrow> cameraDB \<Rightarrow> 'a reply + RetireCameraCommand" where
  "retireCameraCommand H L E who r db =
     (case cameraRequestContext H True CapabilityConfigWrite who r of
        Inl failure \<Rightarrow> Inl failure
      | Inr (prin, tenantID) \<Rightarrow>
          (case authorizedCamera H L E prin tenantID r db of
             Inl failure \<Rightarrow> Inl failure
           | Inr camera \<Rightarrow>
               (case correlationHeaderOnly H r of
                  Inl failure \<Rightarrow> Inl failure
                | Inr requestID \<Rightarrow>
                    Inr \<lparr>krTenantID = tenantID, krActorID = pUserID prin, krRequestID = requestID, krCameraID = caID camera\<rparr>)))"

definition retireCamera ::
  "httpLib \<Rightarrow> 'j cameraLib \<Rightarrow> (nat \<Rightarrow> storeEnv) \<Rightarrow> Principal option \<Rightarrow> httpRequest \<Rightarrow> cameraDB \<Rightarrow> cameraDB \<times> Camera list reply" where
  "retireCamera H L E who r db =
     (case retireCameraCommand H L (E 0) who r db of
        Inl failure \<Rightarrow> (db, failure)
      | Inr command \<Rightarrow>
          (case RetireCamera L (E 1) command db of
             (db', Inl (Domain ErrCameraNotFound)) \<Rightarrow> (db', notFound)
           | (db', Inl err) \<Rightarrow> (db', unavailable)
           | (db', Inr retired) \<Rightarrow> (db', Reply 200 [retired] False)))"

datatype cameraRoute =
    RouteListCameras | RouteGetCamera | RouteCreateCamera "createCameraRequest option" | RouteUpdateCamera "updateCameraRequest option"
  | RouteRetireCamera

definition serveCamera ::
  "httpLib \<Rightarrow> 'j cameraLib \<Rightarrow> (nat \<Rightarrow> storeEnv) \<Rightarrow> Principal option \<times> httpRequest \<times> cameraRoute \<Rightarrow> cameraDB \<Rightarrow> cameraDB \<times> Camera list reply" where
  "serveCamera H L E call db =
     (case call of (who, r, route) \<Rightarrow>
        (case route of
           RouteListCameras \<Rightarrow> (db, listCameras H L E who r db)
         | RouteGetCamera \<Rightarrow> (db, getCamera H L E who r db)
         | RouteCreateCamera body \<Rightarrow> createCamera H L E who r body db
         | RouteUpdateCamera body \<Rightarrow> updateCamera H L E who r body db
         | RouteRetireCamera \<Rightarrow> retireCamera H L E who r db))"


section \<open>Tenants and sites\<close>

definition camerasOf :: "string \<times> string \<Rightarrow> cameraDB \<Rightarrow> Camera list" where
  "camerasOf k db = filter (\<lambda>c. caTenantID c = fst k \<and> caSiteID c = snd k) (cbCameras db)"

definition maySeeCamera :: "httpLib \<Rightarrow> 'j cameraLib \<Rightarrow> Principal \<Rightarrow> Camera \<Rightarrow> bool" where
  "maySeeCamera H L prin c \<longleftrightarrow> (caTenantID c = pTenantID prin \<or> slUUID L (pTenantID prin) = Some (caTenantID c)) \<and>
     CanAccessSite (hlUnicode H) prin (pTenantID prin) (caSiteID c)"

lemma newRows_create [simp]: "newRows (createCameraFailure err) = {}"
  by (induction err rule: createCameraFailure.induct) simp_all

lemma newRows_update [simp]: "newRows (updateCameraFailure err) = {}"
  by (induction err rule: updateCameraFailure.induct) simp_all

lemma authorizedCamera_Inl [simp]: "authorizedCamera H L E prin tenantID r db = Inl failure \<Longrightarrow> newRows failure = {}"
  by (auto simp: authorizedCamera_def split: if_splits sum.splits storeError.splits cameraError.splits)

lemma authorizedCamera_Inr:
  "authorizedCamera H L E prin tenantID r db = Inr c \<Longrightarrow> c \<in> set (cbCameras db) \<and> slUUID L (hqPath r) = Some (caID c) \<and>
     slUUID L tenantID = Some (caTenantID c) \<and> CanAccessSite (hlUnicode H) prin tenantID (caSiteID c)"
  by (auto simp: authorizedCamera_def GetCamera_def beginStore_def split: if_splits sum.splits storeError.splits cameraError.splits option.splits
      dest: select_Some)

text \<open>A change of one camera leaves every other site alone.\<close>

lemma change_confined:
  assumes "cameraInv L db" "c \<in> set (cbCameras db)" "evolves c c'"
    "cbCameras db' = map (\<lambda>x. if caID x = caID c then c' else x) (cbCameras db)" "k \<noteq> (caTenantID c, caSiteID c)"
  shows "camerasOf k db' = camerasOf k db"
  unfolding camerasOf_def assms(4)
proof (rule filter_update_other)
  have same: "x = c" if "x \<in> set (cbCameras db)" "caID x = caID c" for x
    using assms(1,2) that by (auto simp: cameraInv_def distinct_map dest: inj_onD)
  fix x
  assume x: "x \<in> set (cbCameras db)"
  show "(if caID x = caID c then c' else x) = x" if "caTenantID x = fst k \<and> caSiteID x = snd k"
    using that same [OF x] assms(5) by (cases k) auto
  show "\<not> (caTenantID (if caID x = caID c then c' else x) = fst k \<and> caSiteID (if caID x = caID c then c' else x) = snd k)"
    if "\<not> (caTenantID x = fst k \<and> caSiteID x = snd k)"
    using that same [OF x] evolves_fields [OF assms(3)] by auto
qed


lemma writeCamera_confined:
  assumes "writeCamera L E t a q act current next db = (db', r)" "cameraInv L db" "current \<in> set (cbCameras db)" "caID next = caID current"
    "evolves current (next\<lparr>caConfigVersion := caConfigVersion current + 1, caUpdatedAt := stNow E\<rparr>)" "k \<noteq> (caTenantID current, caSiteID current)"
  shows "camerasOf k db' = camerasOf k db"
proof -
  define w where "w = next\<lparr>caConfigVersion := caConfigVersion current + 1, caUpdatedAt := stNow E\<rparr>"
  have id: "caID w = caID current" using assms(4) by (simp add: w_def)
  consider "db' = db" | audit where "db' = (putCamera db w)\<lparr>sdAudit := audit\<rparr>"
    using assms(1) by (auto simp: writeCamera_def Let_def commitStore_def simp flip: w_def split: option.splits if_splits sum.splits prod.splits)
  then show ?thesis
  proof cases
    case (2 audit)
    then have "cbCameras db' = map (\<lambda>x. if caID x = caID current then w else x) (cbCameras db)" by (simp add: putCamera_def id)
    from change_confined [OF assms(2,3) assms(5) [folded w_def] this assms(6)] show ?thesis .
  qed simp
qed

lemma CreateCamera_confined:
  assumes "CreateCamera L E c db = (db', r)" "camerasOf k db' \<noteq> camerasOf k db"
  shows "slUUID L (kcTenantID c) = Some (fst k) \<and> slUUID L (kcSiteID c) = Some (snd k)"
proof (rule keyedCreate_cases [OF assms(1) [unfolded CreateCamera_def]], goal_cases)
  case 1
  then show ?case using assms(2) by simp
next
  case (2 tenant h row x)
  then show ?case using assms(2) by (simp add: camerasOf_def expireKey_def)
next
  case (3 tenant h db2 x b event audit hh)
  from 3(5) obtain site where site: "slUUID L (kcSiteID c) = Some site"
    "cbCameras db2 = cbCameras db @ [x\<lparr>caTenantID := tenant, caSiteID := site\<rparr>]"
    by (auto simp: cameraWork_def insertCamera_def expireKey_def Let_def split: option.splits sum.splits if_splits)
  with 3(1,7) assms(2) show ?case by (auto simp: camerasOf_def split: if_splits)
qed

lemma CreateCamera_answer:
  assumes "CreateCamera L E c db = (db', Inr (x, False))"
  shows "caTenantID x = kcTenantID c \<and> caSiteID x = kcSiteID c"
proof (rule keyedCreate_cases [OF assms(1) [unfolded CreateCamera_def]], goal_cases)
  case (3 tenant h db2 y b event audit hh)
  then show ?case using cameraWork_Inr [OF 3(5)] by (auto simp: newCamera_def)
qed auto

lemma UpdateCamera_confined:
  assumes "UpdateCamera L E c db = (db', r)" "cameraInv L db" "camerasOf k db' \<noteq> camerasOf k db"
  shows "\<exists>x \<in> set (cbCameras db). slUUID L (kuTenantID c) = Some (caTenantID x) \<and> slUUID L (kuCameraID c) = Some (caID x) \<and> k = (caTenantID x, caSiteID x)"
  using assms(1)
proof (cases rule: UpdateCamera_cases)
  case failed
  then show ?thesis using assms(3) by simp
next
  case (found tenant current nxt changed)
  note sel = select_Some [OF found(2)]
  note ev = applyUpdate_evolves [OF found(5,3), of "stNow E"]
  have changed using found(6) assms(3) by (cases changed) (auto simp: commitStore_def split: if_splits)
  with found(6) have "writeCamera L E (kuTenantID c) (kuActorID c) (kuRequestID c) ''camera.updated'' current nxt db = (db', r)" by simp
  from writeCamera_confined [OF this assms(2) conjunct1 [OF sel] conjunct1 [OF ev] conjunct2 [OF ev]] assms(3)
  have "k = (caTenantID current, caSiteID current)" by blast
  with sel found(1) show ?thesis by auto
qed

lemma RetireCamera_confined:
  assumes "RetireCamera L E c db = (db', r)" "cameraInv L db" "camerasOf k db' \<noteq> camerasOf k db"
  shows "\<exists>x \<in> set (cbCameras db). slUUID L (krTenantID c) = Some (caTenantID x) \<and> slUUID L (krCameraID c) = Some (caID x) \<and> k = (caTenantID x, caSiteID x)"
  using assms(1)
proof (cases rule: RetireCamera_cases)
  case failed
  then show ?thesis using assms(3) by simp
next
  case (found tenant current)
  note sel = select_Some [OF found(2)]
  have live: "caLifecycleStatus current \<noteq> ''retired''" using found(3) assms(3) by (auto simp: commitStore_def split: if_splits)
  have valid: "validStatus (caLifecycleStatus current)" using assms(2) sel by (simp add: cameraInv_def)
  then have ev: "evolves current ((current\<lparr>caLifecycleStatus := ''retired''\<rparr>)\<lparr>caConfigVersion := caConfigVersion current + 1, caUpdatedAt := stNow E\<rparr>)"
    using live by (intro evolvesI) (auto simp: canTransition_def validStatus_def)
  have id: "caID (current\<lparr>caLifecycleStatus := ''retired''\<rparr>) = caID current" by simp
  have "writeCamera L E (krTenantID c) (krActorID c) (krRequestID c) ''camera.retired'' current (current\<lparr>caLifecycleStatus := ''retired''\<rparr>) db = (db', r)"
    using found(3) live by simp
  from writeCamera_confined [OF this assms(2) conjunct1 [OF sel] id ev] assms(3)
  have "k = (caTenantID current, caSiteID current)" by blast
  with sel found(1) show ?thesis by auto
qed

lemma createCameraCommand_Inr:
  assumes "createCameraCommand H who r body = Inr command"
  obtains prin where "configures H who (kcTenantID command) prin" "CanAccessSite (hlUnicode H) prin (kcTenantID command) (kcSiteID command)"
  using assms by (auto simp: createCameraCommand_def contexts Let_def split: sum.splits option.splits if_splits dest!: configuresI)

lemma createCameraCommand_Inl: "createCameraCommand H who r body = Inl failure \<Longrightarrow> newRows failure = {}"
  by (auto simp: createCameraCommand_def contexts Let_def split: sum.splits option.splits if_splits)

lemma updateCameraCommand_Inr:
  assumes "updateCameraCommand H L E who r body db = Inr command"
  obtains prin camera where "configures H who (kuTenantID command) prin" "camera \<in> set (cbCameras db)" "kuCameraID command = caID camera"
    "slUUID L (hqPath r) = Some (caID camera)" "CanAccessSite (hlUnicode H) prin (kuTenantID command) (caSiteID camera)"
  using assms by (auto simp: updateCameraCommand_def contexts split: sum.splits option.splits if_splits dest!: configuresI authorizedCamera_Inr)

lemma updateCameraCommand_Inl: "updateCameraCommand H L E who r body db = Inl failure \<Longrightarrow> newRows failure = {}"
  by (auto simp: updateCameraCommand_def contexts split: sum.splits option.splits if_splits)

lemma retireCameraCommand_Inr:
  assumes "retireCameraCommand H L E who r db = Inr command"
  obtains prin camera where "configures H who (krTenantID command) prin" "camera \<in> set (cbCameras db)" "krCameraID command = caID camera"
    "slUUID L (hqPath r) = Some (caID camera)" "CanAccessSite (hlUnicode H) prin (krTenantID command) (caSiteID camera)"
  using assms by (auto simp: retireCameraCommand_def contexts split: sum.splits option.splits if_splits dest!: configuresI authorizedCamera_Inr)

lemma retireCameraCommand_Inl: "retireCameraCommand H L E who r db = Inl failure \<Longrightarrow> newRows failure = {}"
  by (auto simp: retireCameraCommand_def contexts split: sum.splits option.splits if_splits)


text \<open>The five routes change the registry by its own operations only.\<close>

lemma createCamera_run:
  assumes "createCamera H L E who r body db = (db', rep)"
  obtains (refused) "db' = db" "newRows rep = {}"
    | (called) command res where "createCameraCommand H who r body = (Inr command :: Camera list reply + _)" "CreateCamera L (E 0) command db = (db', res)"
        "newRows rep = (case res of Inr (x, False) \<Rightarrow> {x} | _ \<Rightarrow> {})"
  using assms unfolding createCamera_def
  by (cases "createCameraCommand H who r body :: Camera list reply + _")
    (force simp: createCameraCommand_Inl split: prod.splits sum.splits if_splits)+

lemma updateCamera_run:
  assumes "updateCamera H L E who r body db = (db', rep)"
  obtains (refused) "db' = db" "newRows rep = {}"
    | (called) command res where "updateCameraCommand H L (E 0) who r body db = (Inr command :: Camera list reply + _)"
        "UpdateCamera L (E 1) command db = (db', res)" "newRows rep = (case res of Inr x \<Rightarrow> {x} | _ \<Rightarrow> {})"
  using assms unfolding updateCamera_def
  by (cases "updateCameraCommand H L (E 0) who r body db :: Camera list reply + _")
    (force simp: updateCameraCommand_Inl split: prod.splits sum.splits)+

lemma retireCamera_run:
  assumes "retireCamera H L E who r db = (db', rep)"
  obtains (refused) "db' = db" "newRows rep = {}"
    | (called) command res where "retireCameraCommand H L (E 0) who r db = (Inr command :: Camera list reply + _)"
        "RetireCamera L (E 1) command db = (db', res)" "newRows rep = (case res of Inr x \<Rightarrow> {x} | _ \<Rightarrow> {})"
  using assms unfolding retireCamera_def
  by (cases "retireCameraCommand H L (E 0) who r db :: Camera list reply + _")
    (force simp: retireCameraCommand_Inl split: prod.splits sum.splits storeError.splits cameraError.splits)+

lemma serveCamera_inv:
  assumes "cameraInv L db" "serveCamera H L E (who, r, route) db = (db', rep)"
  shows "cameraInv L db'"
proof (cases route)
  case (RouteCreateCamera body)
  then have "createCamera H L E who r body db = (db', rep)" using assms(2) by (simp add: serveCamera_def)
  then show ?thesis using assms(1) CreateCamera_change by (cases rule: createCamera_run) blast+
next
  case (RouteUpdateCamera body)
  then have "updateCamera H L E who r body db = (db', rep)" using assms(2) by (simp add: serveCamera_def)
  then show ?thesis using assms(1) UpdateCamera_change by (cases rule: updateCamera_run) blast+
next
  case RouteRetireCamera
  then have "retireCamera H L E who r db = (db', rep)" using assms(2) by (simp add: serveCamera_def)
  then show ?thesis using assms(1) RetireCamera_change by (cases rule: retireCamera_run) blast+
qed (use assms in \<open>simp_all add: serveCamera_def\<close>)

lemma camera_of_id:
  assumes "cameraInv L db" "x \<in> set (cbCameras db)" "c \<in> set (cbCameras db)" "caID x = caID c"
  shows "x = c"
  using assms by (auto simp: cameraInv_def distinct_map dest: inj_onD)

lemma serveCamera_confined:
  assumes stable: "uuidStable L" and inv: "cameraInv L db" and run: "serveCamera H L E (who, r, route) db = (db', rep)"
    and changed: "camerasOf k db' \<noteq> camerasOf k db"
  shows "\<exists>prin. who = Some prin \<and> mayConfigure H L prin k"
proof (cases route)
  case (RouteCreateCamera body)
  then have "createCamera H L E who r body db = (db', rep)" using run by (simp add: serveCamera_def)
  then show ?thesis
  proof (cases rule: createCamera_run)
    case (called command res)
    from called(1) obtain prin where "configures H who (kcTenantID command) prin" "CanAccessSite (hlUnicode H) prin (kcTenantID command) (kcSiteID command)"
      by (rule createCameraCommand_Inr)
    with CreateCamera_confined [OF called(2) changed] show ?thesis by (auto simp: configures_def mayConfigure_def)
  qed (use changed in simp)
next
  case (RouteUpdateCamera body)
  then have "updateCamera H L E who r body db = (db', rep)" using run by (simp add: serveCamera_def)
  then show ?thesis
  proof (cases rule: updateCamera_run)
    case (called command res)
    from called(1) obtain prin camera where c: "configures H who (kuTenantID command) prin" "camera \<in> set (cbCameras db)" "kuCameraID command = caID camera"
      "slUUID L (hqPath r) = Some (caID camera)" "CanAccessSite (hlUnicode H) prin (kuTenantID command) (caSiteID camera)"
      by (rule updateCameraCommand_Inr)
    from UpdateCamera_confined [OF called(2) inv changed] obtain x where x: "x \<in> set (cbCameras db)" "slUUID L (kuTenantID command) = Some (caTenantID x)"
      "slUUID L (kuCameraID command) = Some (caID x)" "k = (caTenantID x, caSiteID x)" by blast
    have "x = camera" using camera_of_id [OF inv x(1) c(2)] x(3) c(3,4) stable by (simp add: uuidStable_def)
    with c x show ?thesis by (auto simp: configures_def mayConfigure_def)
  qed (use changed in simp)
next
  case RouteRetireCamera
  then have "retireCamera H L E who r db = (db', rep)" using run by (simp add: serveCamera_def)
  then show ?thesis
  proof (cases rule: retireCamera_run)
    case (called command res)
    from called(1) obtain prin camera where c: "configures H who (krTenantID command) prin" "camera \<in> set (cbCameras db)" "krCameraID command = caID camera"
      "slUUID L (hqPath r) = Some (caID camera)" "CanAccessSite (hlUnicode H) prin (krTenantID command) (caSiteID camera)"
      by (rule retireCameraCommand_Inr)
    from RetireCamera_confined [OF called(2) inv changed] obtain x where x: "x \<in> set (cbCameras db)" "slUUID L (krTenantID command) = Some (caTenantID x)"
      "slUUID L (krCameraID command) = Some (caID x)" "k = (caTenantID x, caSiteID x)" by blast
    have "x = camera" using camera_of_id [OF inv x(1) c(2)] x(3) c(3,4) stable by (simp add: uuidStable_def)
    with c x show ?thesis by (auto simp: configures_def mayConfigure_def)
  qed (use changed in simp)
qed (use run changed in \<open>simp_all add: serveCamera_def\<close>)

lemma listCameras_rows:
  assumes "x \<in> newRows (listCameras H L E who r db)"
  shows "\<exists>prin. who = Some prin \<and> maySeeCamera H L prin x"
  using assms by (auto simp: listCameras_def contexts maySeeCamera_def split: sum.splits prod.splits dest!: requestContext_Inr)

lemma getCamera_rows:
  assumes "x \<in> newRows (getCamera H L E who r db)"
  shows "\<exists>prin. who = Some prin \<and> maySeeCamera H L prin x"
  using assms
  by (auto simp: getCamera_def contexts maySeeCamera_def split: sum.splits prod.splits dest!: requestContext_Inr authorizedCamera_Inr)

lemma serveCamera_answers:
  assumes stable: "uuidStable L" and inv: "cameraInv L db" and run: "serveCamera H L E (who, r, route) db = (db', rep)" and x: "x \<in> newRows rep"
  shows "\<exists>prin. who = Some prin \<and> maySeeCamera H L prin x"
proof (cases route)
  case RouteListCameras
  with run x listCameras_rows show ?thesis by (auto simp: serveCamera_def)
next
  case RouteGetCamera
  with run x getCamera_rows show ?thesis by (auto simp: serveCamera_def)
next
  case (RouteCreateCamera body)
  then have "createCamera H L E who r body db = (db', rep)" using run by (simp add: serveCamera_def)
  then show ?thesis
  proof (cases rule: createCamera_run)
    case (called command res)
    from called(3) x have "res = Inr (x, False)" by (auto split: sum.splits bool.splits)
    with called(2) have "caTenantID x = kcTenantID command \<and> caSiteID x = kcSiteID command" by (auto dest: CreateCamera_answer)
    moreover from called(1) obtain prin where "configures H who (kcTenantID command) prin"
      "CanAccessSite (hlUnicode H) prin (kcTenantID command) (kcSiteID command)" by (rule createCameraCommand_Inr)
    ultimately show ?thesis by (auto simp: configures_def maySeeCamera_def)
  qed (use x in simp)
next
  case (RouteUpdateCamera body)
  then have "updateCamera H L E who r body db = (db', rep)" using run by (simp add: serveCamera_def)
  then show ?thesis
  proof (cases rule: updateCamera_run)
    case (called command res)
    from called(3) x have "res = Inr x" by (auto split: sum.splits)
    with UpdateCamera_change [OF called(2)] obtain y where y: "y \<in> set (cbCameras db)" "slUUID L (kuCameraID command) = Some (caID y)"
      "slUUID L (kuTenantID command) = Some (caTenantID y)" "caTenantID x = caTenantID y" "caSiteID x = caSiteID y" by blast
    from called(1) obtain prin camera where c: "configures H who (kuTenantID command) prin" "camera \<in> set (cbCameras db)" "kuCameraID command = caID camera"
      "slUUID L (hqPath r) = Some (caID camera)" "CanAccessSite (hlUnicode H) prin (kuTenantID command) (caSiteID camera)"
      by (rule updateCameraCommand_Inr)
    have "y = camera" using camera_of_id [OF inv y(1) c(2)] y(2) c(3,4) stable by (simp add: uuidStable_def)
    with c y show ?thesis by (auto simp: configures_def maySeeCamera_def)
  qed (use x in simp)
next
  case RouteRetireCamera
  then have "retireCamera H L E who r db = (db', rep)" using run by (simp add: serveCamera_def)
  then show ?thesis
  proof (cases rule: retireCamera_run)
    case (called command res)
    from called(3) x have "res = Inr x" by (auto split: sum.splits)
    with RetireCamera_change [OF called(2) inv] obtain y where y: "y \<in> set (cbCameras db)" "slUUID L (krCameraID command) = Some (caID y)"
      "slUUID L (krTenantID command) = Some (caTenantID y)" "caTenantID x = caTenantID y" "caSiteID x = caSiteID y" by blast
    from called(1) obtain prin camera where c: "configures H who (krTenantID command) prin" "camera \<in> set (cbCameras db)" "krCameraID command = caID camera"
      "slUUID L (hqPath r) = Some (caID camera)" "CanAccessSite (hlUnicode H) prin (krTenantID command) (caSiteID camera)"
      by (rule retireCameraCommand_Inr)
    have "y = camera" using camera_of_id [OF inv y(1) c(2)] y(2) c(3,4) stable by (simp add: uuidStable_def)
    with c y show ?thesis by (auto simp: configures_def maySeeCamera_def)
  qed (use x in simp)
qed

interpretation cameraRoutes: scoped_routes "serveCamera H L" camerasOf "mayConfigure H L" newRows "maySeeCamera H L"
  "\<lambda>db. uuidStable L \<and> cameraInv L db" for H L
proof unfold_locales
  fix E who c db db' rep k x
  assume good: "uuidStable L \<and> cameraInv L db" and run: "serveCamera H L E (who, c) db = (db', rep)"
  obtain r route where c: "c = (r, route)" by (cases c)
  show "uuidStable L \<and> cameraInv L db'" using good serveCamera_inv run c by blast
  show "camerasOf k db' \<noteq> camerasOf k db \<Longrightarrow> \<exists>prin. who = Some prin \<and> mayConfigure H L prin k"
    using good serveCamera_confined run c by blast
  show "x \<in> newRows rep \<Longrightarrow> \<exists>prin. who = Some prin \<and> maySeeCamera H L prin x"
    using good serveCamera_answers run c by blast
qed

end
