(* ===== verification/Zone_Registry.thy ===== *)
theory Zone_Registry
  imports Keyed_Store
begin

text \<open>
  Zones, \<open>backend/internal/zones\<close>: geometry and rule metadata with an optimistic version, in the memory and the
  PostgreSQL repository. JSON is in \<open>zoneLib\<close>; the CHECK constraints of migrations 9, 11 and 12 are part of the
  insertion and of the update.
\<close>

section \<open>Data\<close>

definition DefaultLoiterSeconds :: int where "DefaultLoiterSeconds = 30"
definition MinimumLoiterSeconds :: int where "MinimumLoiterSeconds = 30"
definition MaximumLoiterSeconds :: int where "MaximumLoiterSeconds = 600"
definition MaximumSubjectClasses :: nat where "MaximumSubjectClasses = 7"

definition canonicalSubjectClasses :: "string list" where
  "canonicalSubjectClasses = [''person'', ''bicycle'', ''bus'', ''car'', ''motorcycle'', ''truck'', ''van'']"

record Zone =
  zoID :: string
  zoTenantID :: string
  zoSiteID :: string
  zoCameraID :: string
  zoFloor :: string
  zoName :: string
  zoKind :: string
  zoGeometry :: bytes
  zoEnabled :: bool
  zoLoiterSeconds :: "int option"
  zoSubjectClasses :: "string list"
  zoConfigVersion :: int
  zoCreatedAt :: gotime
  zoUpdatedAt :: gotime

record CreateZoneCommand =
  zcTenantID :: string
  zcActorID :: string
  zcRequestID :: string
  zcIdempotencyKey :: string
  zcSiteID :: string
  zcCameraID :: string
  zcFloor :: string
  zcName :: string
  zcKind :: string
  zcGeometry :: bytes
  zcEnabled :: bool
  zcLoiterSeconds :: "int option"
  zcSubjectClasses :: "string list"

record UpdateZoneCommand =
  zuTenantID :: string
  zuActorID :: string
  zuRequestID :: string
  zuZoneID :: string
  zuExpectedVersion :: int
  zuName :: "string option"
  zuFloor :: "string option"
  zuGeometry :: "bytes option"
  zuEnabled :: "bool option"
  zuLoiterSeconds :: "int option"
  zuSubjectClasses :: "string list option"

datatype zoneError = ErrZoneNotFound | ZoneSiteNotFound | ZoneVersionConflict | ZoneInvalid | ZoneWriteFailed

record zoneRequest =
  zrqSite :: string
  zrqCamera :: string
  zrqFloor :: string
  zrqName :: string
  zrqKind :: string
  zrqGeometry :: bytes
  zrqEnabled :: bool
  zrqLoiter :: "int option"
  zrqClasses :: "string list"

record 'j zoneLib = "'j storeLib" +
  zlEncodeRequest :: "zoneRequest \<Rightarrow> bytes option"
  zlEncode :: "Zone \<Rightarrow> bytes option"
  zlDecode :: "bytes \<Rightarrow> Zone option"
  zlAny :: "Zone \<Rightarrow> 'j"

record zoneDB = storeDB +
  zbCameras :: "string \<Rightarrow> string \<Rightarrow> bool"
  zbZones :: "Zone list"

section \<open>Normalization\<close>

definition normalizeLoiterSeconds :: "string \<Rightarrow> int option \<Rightarrow> int option option" where
  "normalizeLoiterSeconds kind v =
     (if trimSpace kind \<noteq> ''loitering'' then (if v \<noteq> None then None else Some None)
      else
        let seconds = (case v of None \<Rightarrow> DefaultLoiterSeconds | Some n \<Rightarrow> n) in
        if seconds < MinimumLoiterSeconds \<or> seconds > MaximumLoiterSeconds then None else Some (Some seconds))"

fun collectClasses :: "(string \<Rightarrow> string) \<Rightarrow> string list \<Rightarrow> string list \<Rightarrow> string list option" where
  "collectClasses uni [] result = Some result"
| "collectClasses uni (v # vs) result =
     (let canonical = toLower uni (trimSpace v) in
      if canonical \<notin> set canonicalSubjectClasses \<or> canonical \<in> set result then None
      else collectClasses uni vs (result @ [canonical]))"

definition NormalizeSubjectClasses :: "(string \<Rightarrow> string) \<Rightarrow> string list \<Rightarrow> string list option" where
  "NormalizeSubjectClasses uni values =
     (if values = [] then Some []
      else if length values > MaximumSubjectClasses then None
      else map_option sort (collectClasses uni values []))"

definition sameZone :: "Zone \<Rightarrow> Zone \<Rightarrow> bool" where
  "sameZone a b \<longleftrightarrow> zoName a = zoName b \<and> zoFloor a = zoFloor b \<and> zoEnabled a = zoEnabled b \<and> zoGeometry a = zoGeometry b \<and>
     zoLoiterSeconds a = zoLoiterSeconds b \<and> zoSubjectClasses a = zoSubjectClasses b"

definition hashCreateZone :: "'j zoneLib \<Rightarrow> CreateZoneCommand \<Rightarrow> zoneError storeError + string" where
  "hashCreateZone L c =
     (case (normalizeLoiterSeconds (zcKind c) (zcLoiterSeconds c), NormalizeSubjectClasses (slLower L) (zcSubjectClasses c)) of
        (Some loiter, Some classes) \<Rightarrow>
          (case zlEncodeRequest L \<lparr>zrqSite = zcSiteID c, zrqCamera = trimSpace (zcCameraID c), zrqFloor = trimSpace (zcFloor c),
               zrqName = trimSpace (zcName c), zrqKind = trimSpace (zcKind c), zrqGeometry = zcGeometry c, zrqEnabled = zcEnabled c,
               zrqLoiter = loiter, zrqClasses = classes\<rparr> of
             None \<Rightarrow> Inl StEncode
           | Some payload \<Rightarrow> Inr (hexEncode (slSha L payload)))
      | _ \<Rightarrow> Inl (Domain ZoneInvalid))"

section \<open>The PostgreSQL repository\<close>

definition zoneKinds :: "string list" where
  "zoneKinds = [''intrusion'', ''restricted_zone'', ''loitering'', ''abandoned'', ''tripwire'']"

text \<open>
  The CHECK constraints of \<open>config.zones\<close> on kind, loitering time and subject classes. A CHECK refuses a row only when
  it is false: for a loitering zone without a time \<open>loiter_seconds BETWEEN 30 AND 600\<close> is NULL, and the row passes.
\<close>

definition zoneConstraints :: "Zone \<Rightarrow> bool" where
  "zoneConstraints z \<longleftrightarrow> zoKind z \<in> set zoneKinds \<and>
     (case zoLoiterSeconds z of None \<Rightarrow> True | Some n \<Rightarrow> zoKind z = ''loitering'' \<and> 30 \<le> n \<and> n \<le> 600) \<and>
     length (zoSubjectClasses z) \<le> 7 \<and> set (zoSubjectClasses z) \<subseteq> set canonicalSubjectClasses"

definition zoneChecks :: "'j zoneLib \<Rightarrow> CreateZoneCommand \<Rightarrow> zoneError storeError option" where
  "zoneChecks L c =
     (if normalizeLoiterSeconds (zcKind c) (zcLoiterSeconds c) = None \<or> NormalizeSubjectClasses (slLower L) (zcSubjectClasses c) = None
      then Some (Domain ZoneInvalid) else None)"

definition newZone :: "'j zoneLib \<Rightarrow> storeEnv \<Rightarrow> CreateZoneCommand \<Rightarrow> Zone" where
  "newZone L E c =
     \<lparr>zoID = stID E, zoTenantID = zcTenantID c, zoSiteID = zcSiteID c, zoCameraID = zcCameraID c, zoFloor = zcFloor c,
      zoName = zcName c, zoKind = zcKind c, zoGeometry = zcGeometry c, zoEnabled = zcEnabled c,
      zoLoiterSeconds = the (normalizeLoiterSeconds (zcKind c) (zcLoiterSeconds c)),
      zoSubjectClasses = the (NormalizeSubjectClasses (slLower L) (zcSubjectClasses c)),
      zoConfigVersion = 1, zoCreatedAt = stNow E, zoUpdatedAt = stNow E\<rparr>"

text \<open>The camera of the row is NULL, shown as an empty text, or a camera of the tenant.\<close>

definition insertZone :: "'j zoneLib \<Rightarrow> storeEnv \<Rightarrow> string \<Rightarrow> string \<Rightarrow> Zone \<Rightarrow> zoneDB \<Rightarrow> Zone option" where
  "insertZone L E tenant site zone db =
     (if stFails E StInsert \<noteq> None \<or> (\<exists>z \<in> set (zbZones db). zoID z = zoID zone) \<or> \<not> zoneConstraints zone then None
      else if zoCameraID zone = [] then Some (zone\<lparr>zoTenantID := tenant, zoSiteID := site, zoGeometry := slJsonb L (zoGeometry zone)\<rparr>)
      else
        (case slUUID L (zoCameraID zone) of
           None \<Rightarrow> None
         | Some camera \<Rightarrow>
             if \<not> zbCameras db tenant camera then None
             else Some (zone\<lparr>zoTenantID := tenant, zoSiteID := site, zoCameraID := camera, zoGeometry := slJsonb L (zoGeometry zone)\<rparr>)))"

definition zoneAudit :: "'j zoneLib \<Rightarrow> string \<Rightarrow> string \<Rightarrow> string \<Rightarrow> string \<Rightarrow> 'j \<Rightarrow> Zone \<Rightarrow> gotime \<Rightarrow> 'j AuditEvent" where
  "zoneAudit L tenant actor action request before zone occurred =
     \<lparr>aeTenantID = tenant, aeActorID = actor, aeAction = action, aeResourceType = ''zone'', aeResourceID = zoID zone,
      aeRequestID = request, aeBeforeState = before, aeAfterState = zlAny L zone, aeOccurredAt = occurred\<rparr>"

definition zoneWork ::
  "'j zoneLib \<Rightarrow> storeEnv \<Rightarrow> CreateZoneCommand \<Rightarrow> string \<Rightarrow> zoneDB \<Rightarrow> zoneError storeError + zoneDB \<times> Zone \<times> bytes option \<times> 'j AuditEvent" where
  "zoneWork L E c tenant db =
     (case slUUID L (zcSiteID c) of
        None \<Rightarrow> Inl (StDatabase StSite)
      | Some site \<Rightarrow>
          if stFails E StSite \<noteq> None then Inl (StDatabase StSite)
          else if \<not> siteOpen db tenant site then Inl (Domain ZoneSiteNotFound)
          else
            let zone = newZone L E c in
            (case insertZone L E tenant site zone db of
               None \<Rightarrow> Inl (Domain ZoneWriteFailed)
             | Some row \<Rightarrow>
                 Inr (db\<lparr>zbZones := zbZones db @ [row]\<rparr>, zone, zlEncode L zone,
                   zoneAudit L (zcTenantID c) (zcActorID c) ''zone.created'' (zcRequestID c) (slNil L) zone (zoCreatedAt zone))))"

definition decodeZone :: "'j zoneLib \<Rightarrow> bytes \<Rightarrow> zoneError storeError + Zone" where
  "decodeZone L b = (case zlDecode L b of None \<Rightarrow> Inl StDecode | Some z \<Rightarrow> Inr z)"

definition CreateZone ::
  "'j zoneLib \<Rightarrow> storeEnv \<Rightarrow> CreateZoneCommand \<Rightarrow> zoneDB \<Rightarrow> zoneDB \<times> (zoneError storeError + Zone \<times> bool)" where
  "CreateZone L E c db =
     keyedCreate L E (zcTenantID c) (zcIdempotencyKey c) (zoneChecks L c) (hashCreateZone L c) (decodeZone L) (zoneWork L E c) db"

definition zoneByID :: "zoneDB \<Rightarrow> string \<Rightarrow> string \<Rightarrow> Zone option" where
  "zoneByID db tenant i = find (\<lambda>z. zoTenantID z = tenant \<and> zoID z = i) (zbZones db)"

text \<open>The changes of an update; \<open>trim\<close> is applied to the texts (the memory repository trims them again).\<close>

definition changeZone ::
  "(string \<Rightarrow> string) \<Rightarrow> (string \<Rightarrow> string) \<Rightarrow> Zone \<Rightarrow> UpdateZoneCommand \<Rightarrow> Zone option" where
  "changeZone uni trim current c =
     (let next = current\<lparr>
            zoName := (case zuName c of None \<Rightarrow> zoName current | Some v \<Rightarrow> trim v),
            zoFloor := (case zuFloor c of None \<Rightarrow> zoFloor current | Some v \<Rightarrow> trim v),
            zoGeometry := (case zuGeometry c of None \<Rightarrow> zoGeometry current | Some v \<Rightarrow> v),
            zoEnabled := (case zuEnabled c of None \<Rightarrow> zoEnabled current | Some v \<Rightarrow> v)\<rparr> in
      (case (if zuLoiterSeconds c = None then Some (zoLoiterSeconds current) else normalizeLoiterSeconds (zoKind current) (zuLoiterSeconds c)) of
         None \<Rightarrow> None
       | Some loiter \<Rightarrow>
           (case (case zuSubjectClasses c of None \<Rightarrow> Some (zoSubjectClasses current) | Some v \<Rightarrow> NormalizeSubjectClasses uni v) of
              None \<Rightarrow> None
            | Some classes \<Rightarrow> Some (next\<lparr>zoLoiterSeconds := loiter, zoSubjectClasses := classes\<rparr>))))"

definition writeZone ::
  "'j zoneLib \<Rightarrow> storeEnv \<Rightarrow> UpdateZoneCommand \<Rightarrow> Zone \<Rightarrow> Zone \<Rightarrow> zoneDB \<Rightarrow> zoneDB \<times> (zoneError storeError + Zone)" where
  "writeZone L E c current next db =
     (let written = next\<lparr>zoConfigVersion := zoConfigVersion current + 1, zoUpdatedAt := stNow E\<rparr>;
          row = written\<lparr>zoGeometry := slJsonb L (zoGeometry next)\<rparr> in
      if stFails E StUpdate \<noteq> None \<or> zoConfigVersion current \<ge> maxInt64 \<or> \<not> zoneConstraints row then (db, Inl (Domain ZoneWriteFailed))
      else
        (case auditAppend (slAudit L) (stAudit E) (stNow E)
            (zoneAudit L (zuTenantID c) (zuActorID c) ''zone.updated'' (zuRequestID c) (zlAny L current) written (zoUpdatedAt written)) (sdAudit db) of
           Inl err \<Rightarrow> (db, Inl (StAuditError err))
         | Inr (audit, _) \<Rightarrow>
             commitStore E db
               (db\<lparr>zbZones := map (\<lambda>z. if zoID z = zoID current then row else z) (zbZones db), sdAudit := audit\<rparr>) written))"

definition UpdateZone ::
  "'j zoneLib \<Rightarrow> storeEnv \<Rightarrow> UpdateZoneCommand \<Rightarrow> zoneDB \<Rightarrow> zoneDB \<times> (zoneError storeError + Zone)" where
  "UpdateZone L E c db =
     (case beginStore L E (zuTenantID c) of
        Inl err \<Rightarrow> (db, Inl err)
      | Inr tenant \<Rightarrow>
          (case slUUID L (zuZoneID c) of
             None \<Rightarrow> (db, Inl (StDatabase StRead))
           | Some i \<Rightarrow>
               if stFails E StRead \<noteq> None then (db, Inl (StDatabase StRead))
               else
                 (case zoneByID db tenant i of
                    None \<Rightarrow> (db, Inl (Domain ErrZoneNotFound))
                  | Some current \<Rightarrow>
                      if zoConfigVersion current \<noteq> zuExpectedVersion c then (db, Inl (Domain ZoneVersionConflict))
                      else
                        (case changeZone (slLower L) (\<lambda>v. v) current c of
                           None \<Rightarrow> (db, Inl (Domain ZoneInvalid))
                         | Some next \<Rightarrow>
                             if sameZone current next then commitStore E db db current
                             else writeZone L E c current next db))))"

definition ListZones :: "'j zoneLib \<Rightarrow> storeEnv \<Rightarrow> string \<Rightarrow> string \<Rightarrow> zoneDB \<Rightarrow> zoneError storeError + Zone list" where
  "ListZones L E tenantID siteID db =
     (case beginStore L E tenantID of
        Inl err \<Rightarrow> Inl err
      | Inr tenant \<Rightarrow>
          if siteID \<noteq> [] \<and> \<not> slParses L siteID then Inl StTenant
          else if stFails E StRead \<noteq> None \<or> (siteID \<noteq> [] \<and> slUUID L siteID = None) then Inl (StDatabase StRead)
          else if stFails E StCommit \<noteq> None then Inl (StDatabase StCommit)
          else Inr (take 500 (sortSlice (\<lambda>a b. zoID a < zoID b)
            (filter (\<lambda>z. zoTenantID z = tenant \<and> (siteID = [] \<or> Some (zoSiteID z) = slUUID L siteID)) (zbZones db)))))"

definition GetZone :: "'j zoneLib \<Rightarrow> storeEnv \<Rightarrow> string \<Rightarrow> string \<Rightarrow> zoneDB \<Rightarrow> zoneError storeError + Zone" where
  "GetZone L E tenantID zoneID db =
     (case beginStore L E tenantID of
        Inl err \<Rightarrow> Inl err
      | Inr tenant \<Rightarrow>
          (case slUUID L zoneID of
             None \<Rightarrow> Inl (StDatabase StRead)
           | Some i \<Rightarrow>
               if stFails E StRead \<noteq> None then Inl (StDatabase StRead)
               else
                 (case zoneByID db tenant i of
                    None \<Rightarrow> Inl (Domain ErrZoneNotFound)
                  | Some z \<Rightarrow> if stFails E StCommit \<noteq> None then Inl (StDatabase StCommit) else Inr z)))"

section \<open>The memory repository\<close>

record zoneMemory =
  zmZones :: "Zone list"
  zmKeys :: "string \<rightharpoonup> string \<times> Zone"

fun findZone :: "Zone list \<Rightarrow> string \<Rightarrow> string \<Rightarrow> nat option" where
  "findZone [] tenant i = None"
| "findZone (z # zs) tenant i = (if zoTenantID z = tenant \<and> zoID z = i then Some 0 else map_option Suc (findZone zs tenant i))"

definition MemoryListZones :: "string \<Rightarrow> string \<Rightarrow> zoneMemory \<Rightarrow> Zone list" where
  "MemoryListZones tenant site m =
     sortSlice (\<lambda>a b. zoID a < zoID b) (filter (\<lambda>z. zoTenantID z = tenant \<and> (site = [] \<or> zoSiteID z = site)) (zmZones m))"

definition MemoryGetZone :: "string \<Rightarrow> string \<Rightarrow> zoneMemory \<Rightarrow> zoneError storeError + Zone" where
  "MemoryGetZone tenant zoneID m =
     (case findZone (zmZones m) tenant zoneID of None \<Rightarrow> Inl (Domain ErrZoneNotFound) | Some k \<Rightarrow> Inr (zmZones m ! k))"

definition MemoryCreateZone ::
  "'j zoneLib \<Rightarrow> storeEnv \<Rightarrow> CreateZoneCommand \<Rightarrow> zoneMemory \<Rightarrow> zoneMemory \<times> (zoneError storeError + Zone \<times> bool)" where
  "MemoryCreateZone L E c m =
     (case hashCreateZone L c of
        Inl err \<Rightarrow> (m, Inl err)
      | Inr hash \<Rightarrow>
          let key = zcTenantID c @ '':'' @ zcIdempotencyKey c in
          (case zmKeys m key of
             Some (stored, z) \<Rightarrow> if stored \<noteq> hash then (m, Inl ErrIdempotencyConflict) else (m, Inr (z, True))
           | None \<Rightarrow>
               (case zoneChecks L c of
                  Some err \<Rightarrow> (m, Inl err)
                | None \<Rightarrow>
                    let z = (newZone L E c)\<lparr>zoCameraID := trimSpace (zcCameraID c), zoFloor := trimSpace (zcFloor c),
                          zoName := trimSpace (zcName c), zoKind := trimSpace (zcKind c)\<rparr> in
                    (m\<lparr>zmZones := zmZones m @ [z], zmKeys := (zmKeys m)(key \<mapsto> (hash, z))\<rparr>, Inr (z, False)))))"

definition MemoryUpdateZone ::
  "'j zoneLib \<Rightarrow> storeEnv \<Rightarrow> UpdateZoneCommand \<Rightarrow> zoneMemory \<Rightarrow> zoneMemory \<times> (zoneError storeError + Zone)" where
  "MemoryUpdateZone L E c m =
     (case findZone (zmZones m) (zuTenantID c) (zuZoneID c) of
        None \<Rightarrow> (m, Inl (Domain ErrZoneNotFound))
      | Some k \<Rightarrow>
          let current = zmZones m ! k in
          if zoConfigVersion current \<noteq> zuExpectedVersion c then (m, Inl (Domain ZoneVersionConflict))
          else
            (case changeZone (slLower L) trimSpace current c of
               None \<Rightarrow> (m, Inl (Domain ZoneInvalid))
             | Some next \<Rightarrow>
                 if sameZone current next then (m, Inr next)
                 else
                   let written = next\<lparr>zoConfigVersion := wrap64 (zoConfigVersion next + 1), zoUpdatedAt := stNow E\<rparr> in
                   (m\<lparr>zmZones := (zmZones m)[k := written]\<rparr>, Inr written)))"

section \<open>Idempotent creation\<close>

definition zoneCodec :: "'j zoneLib \<Rightarrow> bool" where
  "zoneCodec L \<longleftrightarrow> (\<forall>z b. zlEncode L z = Some b \<longrightarrow> zlDecode L (slJsonb L b) = Some z)"

lemma insertZone_Some:
  assumes "insertZone L E tenant site zone db = Some row"
  shows "zoneConstraints zone \<and> zoneConstraints row \<and> (\<forall>z \<in> set (zbZones db). zoID z \<noteq> zoID row) \<and> zoTenantID row = tenant \<and>
    zoSiteID row = site \<and> zoID row = zoID zone \<and> zoKind row = zoKind zone \<and>
    zoLoiterSeconds row = zoLoiterSeconds zone \<and> zoSubjectClasses row = zoSubjectClasses zone \<and> zoConfigVersion row = zoConfigVersion zone"
  using assms by (auto simp: insertZone_def zoneConstraints_def split: if_splits option.splits)

lemma zoneWork_Inr:
  assumes "zoneWork L E c tenant db = Inr (db', x, body, event)"
  shows "\<exists>row site. db' = db\<lparr>zbZones := zbZones db @ [row]\<rparr> \<and> insertZone L E tenant site x db = Some row \<and> x = newZone L E c \<and>
    slUUID L (zcSiteID c) = Some site \<and> body = zlEncode L x \<and> aeResourceID event = zoID x \<and> aeAction event = ''zone.created''"
  using assms by (auto simp: zoneWork_def zoneAudit_def Let_def split: option.splits if_splits)

interpretation zoneCreate: keyed_create L zcTenantID zcIdempotencyKey "zoneChecks L" "hashCreateZone L" "decodeZone L" "zoneWork L"
  "zoneCodec L" horizon for L horizon
  by unfold_locales (auto dest!: zoneWork_Inr simp: zoneCodec_def decodeZone_def)

definition memoryZoneKey :: "CreateZoneCommand \<Rightarrow> string" where
  "memoryZoneKey c = zcTenantID c @ '':'' @ zcIdempotencyKey c"

interpretation memoryZone: idempotent_calls "MemoryCreateZone L" memoryZoneKey
  "\<lambda>c. case hashCreateZone L c of Inl _ \<Rightarrow> [] | Inr h \<Rightarrow> h" fst snd zmKeys for L
  by unfold_locales (auto simp: MemoryCreateZone_def memoryZoneKey_def Let_def split: sum.splits option.splits if_splits)

section \<open>The invariant\<close>

lemma collectClasses_Some:
  "collectClasses uni vs result = Some classes \<Longrightarrow> distinct result \<Longrightarrow> set result \<subseteq> set canonicalSubjectClasses \<Longrightarrow>
     distinct classes \<and> set classes \<subseteq> set canonicalSubjectClasses"
  by (induction uni vs result rule: collectClasses.induct) (auto simp: Let_def split: if_splits)

lemma NormalizeSubjectClasses_Some:
  assumes "NormalizeSubjectClasses uni vs = Some classes"
  shows "sorted classes \<and> distinct classes \<and> set classes \<subseteq> set canonicalSubjectClasses"
proof (cases "vs = []")
  case False
  with assms obtain cs where "collectClasses uni vs [] = Some cs" "classes = sort cs"
    by (auto simp: NormalizeSubjectClasses_def split: if_splits)
  with collectClasses_Some [OF this(1)] show ?thesis by simp
qed (use assms in \<open>simp add: NormalizeSubjectClasses_def\<close>)

text \<open>What a zone looks like, in the words of the interface, independent of the checks of either side.\<close>

definition zoneShape :: "Zone \<Rightarrow> bool" where
  "zoneShape z \<longleftrightarrow> zoKind z \<in> {''intrusion'', ''restricted_zone'', ''loitering'', ''abandoned'', ''tripwire''} \<and>
     (if zoKind z = ''loitering'' then zoLoiterSeconds z \<in> Some ` {30..600} else zoLoiterSeconds z = None) \<and>
     sorted (zoSubjectClasses z) \<and> distinct (zoSubjectClasses z) \<and>
     set (zoSubjectClasses z) \<subseteq> {''person'', ''bicycle'', ''bus'', ''car'', ''motorcycle'', ''truck'', ''van''}"

lemma trim_kind: "k \<in> set zoneKinds \<Longrightarrow> trimSpace k = k"
proof -
  have "trimSpace ''intrusion'' = ''intrusion''" "trimSpace ''restricted_zone'' = ''restricted_zone''" "trimSpace ''loitering'' = ''loitering''"
    "trimSpace ''abandoned'' = ''abandoned''" "trimSpace ''tripwire'' = ''tripwire''" by code_simp+
  then show "k \<in> set zoneKinds \<Longrightarrow> trimSpace k = k" by (auto simp: zoneKinds_def)
qed

lemma normalizeLoiterSeconds_shape:
  assumes "normalizeLoiterSeconds kind v = Some loiter" "kind \<in> set zoneKinds"
  shows "if kind = ''loitering'' then loiter \<in> Some ` {30..600} else loiter = None"
  using assms(1) unfolding normalizeLoiterSeconds_def trim_kind [OF assms(2)]
  by (auto simp: Let_def MinimumLoiterSeconds_def MaximumLoiterSeconds_def DefaultLoiterSeconds_def split: if_splits option.splits)

lemma newZone_shape:
  assumes "zoneChecks L c = None" "zcKind c \<in> set zoneKinds"
  shows "zoneShape (newZone L E c)"
proof -
  from assms(1) obtain loiter classes where some: "normalizeLoiterSeconds (zcKind c) (zcLoiterSeconds c) = Some loiter"
      "NormalizeSubjectClasses (slLower L) (zcSubjectClasses c) = Some classes"
    by (auto simp: zoneChecks_def split: if_splits)
  have row: "zoKind (newZone L E c) = zcKind c" "zoLoiterSeconds (newZone L E c) = loiter" "zoSubjectClasses (newZone L E c) = classes"
    using some by (simp_all add: newZone_def)
  show ?thesis
    using normalizeLoiterSeconds_shape [OF some(1) assms(2)] NormalizeSubjectClasses_Some [OF some(2)] assms(2)
    unfolding zoneShape_def row canonicalSubjectClasses_def zoneKinds_def by simp
qed

lemma changeZone_shape:
  assumes "changeZone uni trim current c = Some nxt" "zoneShape current"
  shows "zoneShape nxt"
proof -
  have kind: "zoKind current \<in> set zoneKinds" using assms(2) by (auto simp: zoneShape_def zoneKinds_def)
  from assms(1) obtain loiter classes where
      l: "(if zuLoiterSeconds c = None then Some (zoLoiterSeconds current) else normalizeLoiterSeconds (zoKind current) (zuLoiterSeconds c)) = Some loiter"
    and k: "(case zuSubjectClasses c of None \<Rightarrow> Some (zoSubjectClasses current) | Some v \<Rightarrow> NormalizeSubjectClasses uni v) = Some classes"
    and n: "zoKind nxt = zoKind current" "zoLoiterSeconds nxt = loiter" "zoSubjectClasses nxt = classes"
    by (auto simp: changeZone_def Let_def split: option.split_asm)
  have "if zoKind current = ''loitering'' then loiter \<in> Some ` {30..600} else loiter = None"
    using l normalizeLoiterSeconds_shape [OF _ kind] assms(2) by (auto simp: zoneShape_def split: if_split_asm)
  moreover have "sorted classes \<and> distinct classes \<and> set classes \<subseteq> set canonicalSubjectClasses"
    using k NormalizeSubjectClasses_Some assms(2) by (auto simp: zoneShape_def canonicalSubjectClasses_def split: option.split_asm)
  ultimately show ?thesis using assms(2) by (simp add: zoneShape_def n canonicalSubjectClasses_def)
qed

text \<open>The schema refuses no zone of this shape.\<close>

lemma zoneShape_constraints: "zoneShape z \<Longrightarrow> zoneConstraints z"
proof -
  assume shape: "zoneShape z"
  then have classes: "distinct (zoSubjectClasses z)" "set (zoSubjectClasses z) \<subseteq> set canonicalSubjectClasses"
    by (simp_all add: zoneShape_def canonicalSubjectClasses_def)
  have "length (zoSubjectClasses z) \<le> 7"
    using card_mono [OF _ classes(2)] distinct_card [OF classes(1)] card_length [of canonicalSubjectClasses]
    by (simp add: canonicalSubjectClasses_def)
  with shape classes(2) show ?thesis
    by (auto simp: zoneShape_def zoneConstraints_def zoneKinds_def split: if_split_asm)
qed

lemma zoneShape_cong:
  "zoKind a = zoKind b \<Longrightarrow> zoLoiterSeconds a = zoLoiterSeconds b \<Longrightarrow> zoSubjectClasses a = zoSubjectClasses b \<Longrightarrow> zoneShape a = zoneShape b"
  by (simp add: zoneShape_def)

definition zoneInv :: "zoneDB \<Rightarrow> bool" where
  "zoneInv db \<longleftrightarrow> distinct (map zoID (zbZones db)) \<and>
     (\<forall>z \<in> set (zbZones db). zoneShape z \<and> 1 \<le> zoConfigVersion z \<and> zoConfigVersion z \<le> maxInt64)"

lemma CreateZone_inv:
  assumes "CreateZone L E c db = (db', r)" "zoneInv db"
  shows "zoneInv db'"
proof (rule keyedCreate_cases [OF assms(1) [unfolded CreateZone_def]], goal_cases)
  case 1
  then show ?case using assms(2) by simp
next
  case (2 tenant h row x)
  then show ?case using assms(2) by (simp add: zoneInv_def expireKey_def)
next
  case (3 tenant h db2 x b event audit hh)
  from zoneWork_Inr [OF 3(5)] obtain row site where w: "zbZones db2 = zbZones db @ [row]" "x = newZone L E c"
      "insertZone L E tenant site x (expireKey E tenant (zcIdempotencyKey c) db) = Some row"
    by (auto simp: expireKey_def)
  note ins = insertZone_Some [OF w(3)]
  have "zcKind c \<in> set zoneKinds" "zoConfigVersion row = 1" using ins w(2) by (simp_all add: zoneConstraints_def newZone_def)
  moreover from this(1) have "zoneShape row" using newZone_shape [OF 3(3), of E] ins w(2) zoneShape_cong [of row x] by simp
  ultimately show ?case using assms(2) ins w(1) 3(7) by (auto simp: zoneInv_def expireKey_def maxInt64_def)
qed

lemma writeZone_cases:
  assumes "writeZone L E c current nxt db = (db', r)"
  shows "(db' = db \<and> (\<forall>x. r \<noteq> Inr x)) \<or> (\<exists>row audit. zoneShape row = zoneShape nxt \<and> zoID row = zoID nxt \<and>
    zoTenantID row = zoTenantID nxt \<and> zoSiteID row = zoSiteID nxt \<and> zoConfigVersion current < maxInt64 \<and> zoConfigVersion row = zoConfigVersion current + 1 \<and>
    db' = db\<lparr>zbZones := map (\<lambda>z. if zoID z = zoID current then row else z) (zbZones db), sdAudit := audit\<rparr> \<and>
    (\<forall>x. r = Inr x \<longrightarrow> zoConfigVersion x = zoConfigVersion row \<and> zoTenantID x = zoTenantID nxt \<and> zoSiteID x = zoSiteID nxt))"
proof -
  define written where "written = nxt\<lparr>zoConfigVersion := zoConfigVersion current + 1, zoUpdatedAt := stNow E\<rparr>"
  define row where "row = written\<lparr>zoGeometry := slJsonb L (zoGeometry nxt)\<rparr>"
  consider "db' = db" "\<forall>x. r \<noteq> Inr x" | audit where "zoneConstraints row" "zoConfigVersion current < maxInt64"
      "commitStore E db (db\<lparr>zbZones := map (\<lambda>z. if zoID z = zoID current then row else z) (zbZones db), sdAudit := audit\<rparr>) written = (db', r)"
    using assms [unfolded writeZone_def Let_def, folded written_def, folded row_def]
    by (auto split: if_splits sum.splits prod.splits)
  then show ?thesis
  proof cases
    case (2 audit)
    have "zoneShape row = zoneShape nxt" by (rule zoneShape_cong) (simp_all add: row_def written_def)
    moreover have "zoID row = zoID nxt" "zoConfigVersion row = zoConfigVersion current + 1"
        "zoTenantID row = zoTenantID nxt" "zoSiteID row = zoSiteID nxt" "zoTenantID written = zoTenantID nxt" "zoSiteID written = zoSiteID nxt"
        "zoConfigVersion written = zoConfigVersion row"
      by (simp_all add: row_def written_def)
    ultimately show ?thesis using commitStore_cases [OF 2(3)] 2(2) by blast
  qed blast
qed

lemma changeZone_Some:
  assumes "changeZone uni trim current c = Some nxt"
  shows "zoID nxt = zoID current \<and> zoTenantID nxt = zoTenantID current \<and> zoSiteID nxt = zoSiteID current"
  using assms by (auto simp: changeZone_def Let_def split: option.split_asm if_split_asm)

lemma zoneByID_Some: "zoneByID db tenant i = Some z \<Longrightarrow> z \<in> set (zbZones db) \<and> zoTenantID z = tenant \<and> zoID z = i"
  by (auto simp: zoneByID_def find_Some_iff)

lemma UpdateZone_cases:
  assumes "UpdateZone L E c db = (db', r)"
  shows "(db' = db \<and> (\<forall>x. r = Inr x \<longrightarrow> x \<in> set (zbZones db) \<and> zoConfigVersion x = zuExpectedVersion c \<and>
      slUUID L (zuTenantID c) = Some (zoTenantID x) \<and> slUUID L (zuZoneID c) = Some (zoID x))) \<or>
    (\<exists>tenant current nxt. zoneByID db tenant (zoID current) = Some current \<and> slUUID L (zuTenantID c) = Some tenant \<and> slUUID L (zuZoneID c) = Some (zoID current) \<and> zoConfigVersion current = zuExpectedVersion c \<and>
       changeZone (slLower L) (\<lambda>v. v) current c = Some nxt \<and> writeZone L E c current nxt db = (db', r))"
proof -
  consider "db' = db" "\<forall>x. r \<noteq> Inr x"
    | tenant i current nxt where "beginStore L E (zuTenantID c) = (Inr tenant :: zoneError storeError + string)" "slUUID L (zuZoneID c) = Some i"
        "zoneByID db tenant i = Some current" "zoConfigVersion current = zuExpectedVersion c"
        "changeZone (slLower L) (\<lambda>v. v) current c = Some nxt"
        "(if sameZone current nxt then commitStore E db db current else writeZone L E c current nxt db) = (db', r)"
    using assms unfolding UpdateZone_def
    by (cases "beginStore L E (zuTenantID c) :: zoneError storeError + string"; cases "slUUID L (zuZoneID c)")
      (force split: option.split_asm if_split_asm)+
  then show ?thesis
  proof cases
    case (2 tenant i current nxt)
    from zoneByID_Some [OF 2(3)] beginStore_Inr [OF 2(1)] commitStore_cases [of E db db current db' r] 2 show ?thesis by (cases "sameZone current nxt") auto
  qed blast
qed

lemma UpdateZone_inv:
  assumes "UpdateZone L E c db = (db', r)" "zoneInv db"
  shows "zoneInv db'"
  using UpdateZone_cases [OF assms(1)]
proof (elim disjE exE conjE)
  fix tenant current nxt
  assume z: "zoneByID db tenant (zoID current) = Some current" "changeZone (slLower L) (\<lambda>v. v) current c = Some nxt"
    "writeZone L E c current nxt db = (db', r)"
  have cur: "current \<in> set (zbZones db)" using z(1) by (auto simp: zoneByID_def find_Some_iff)
  note nxt = changeZone_Some [OF z(2)]
  from writeZone_cases [OF z(3)] show ?thesis
  proof (elim disjE exE conjE)
    fix row audit
    assume w: "zoneShape row = zoneShape nxt" "zoID row = zoID nxt" "zoConfigVersion current < maxInt64"
      "zoConfigVersion row = zoConfigVersion current + 1"
      "db' = db\<lparr>zbZones := map (\<lambda>z. if zoID z = zoID current then row else z) (zbZones db), sdAudit := audit\<rparr>"
    have old: "zoneShape current" "1 \<le> zoConfigVersion current" using assms(2) cur by (auto simp: zoneInv_def)
    have row: "zoneShape row" using changeZone_shape [OF z(2) old(1)] w(1) by simp
    have "map zoID (zbZones db') = map zoID (zbZones db)" unfolding w(5) using nxt w(2) by auto
    then have "distinct (map zoID (zbZones db'))" using assms(2) unfolding zoneInv_def by (simp only:)
    then show ?thesis using assms(2) w(3,4) row old(2) unfolding zoneInv_def by (auto simp: w(5))
  qed (use assms(2) in simp)
qed (use assms(2) in simp)

inductive zoneReach :: "'j zoneLib \<Rightarrow> zoneDB \<Rightarrow> bool" for L where
  start: "zbZones db = [] \<Longrightarrow> zoneReach L db"
| create: "zoneReach L db \<Longrightarrow> zoneReach L (fst (CreateZone L E cc db))"
| update: "zoneReach L db \<Longrightarrow> zoneReach L (fst (UpdateZone L E cu db))"

lemma zoneReach_inv: "zoneReach L db \<Longrightarrow> zoneInv db"
proof (induction rule: zoneReach.induct)
  case (start db)
  then show ?case by (simp add: zoneInv_def)
next
  case (create db E cc)
  then show ?case using CreateZone_inv by (metis prod.collapse)
next
  case (update db E cu)
  then show ?case using UpdateZone_inv by (metis prod.collapse)
qed

end
