(* ===== verification/Http_Zones.thy ===== *)
theory Http_Zones
  imports Http_Base Zone_Registry Go_Float
begin

text \<open>
  The zone routes, \<open>backend/internal/httpapi/zones.go\<close>, over the PostgreSQL registry. A \<open>shapeLib\<close> has
  \<open>json.Unmarshal\<close> into type and coordinates of a geometry, into rings and into a line. \<open>E n\<close> is the
  environment of the n-th transaction of a request.
\<close>

section \<open>Geometry\<close>

record shapeLib =
  shShape :: "bytes \<Rightarrow> (string \<times> bytes) option"
  shRings :: "bytes \<Rightarrow> float64 list list list option"
  shLine :: "bytes \<Rightarrow> float64 list list option"

definition sameZonePoint :: "float64 list \<Rightarrow> float64 list \<Rightarrow> bool" where
  "sameZonePoint a b \<longleftrightarrow> length a = 2 \<and> length b = 2 \<and> feq (a ! 0) (b ! 0) \<and> feq (a ! 1) (b ! 1)"

definition zonePoint :: "float64 list \<Rightarrow> bool" where
  "zonePoint p \<longleftrightarrow> \<not> (length p \<noteq> 2 \<or> isNaN (p ! 0) \<or> isNaN (p ! 1) \<or> isInf (p ! 0) \<or> isInf (p ! 1) \<or>
     fless (Fin 1000000) (fabs (p ! 0)) \<or> fless (Fin 1000000) (fabs (p ! 1)))"

definition zonePoints :: "shapeLib \<Rightarrow> string \<Rightarrow> bytes \<Rightarrow> float64 list list option" where
  "zonePoints S requiredType coordinates =
     (if requiredType = ''Polygon'' then
        (case shRings S coordinates of
           Some [points] \<Rightarrow>
             if length points < 4 \<or> \<not> sameZonePoint (points ! 0) (points ! (length points - 1)) then None else Some points
         | _ \<Rightarrow> None)
      else
        (case shLine S coordinates of
           None \<Rightarrow> None
         | Some points \<Rightarrow> if length points < 2 then None else Some points))"

definition validGeometry :: "shapeLib \<Rightarrow> bytes \<Rightarrow> string \<Rightarrow> bool" where
  "validGeometry S raw kind =
     (if length raw = 0 then False
      else
        (case shShape S raw of
           None \<Rightarrow> False
         | Some (shapeType, coordinates) \<Rightarrow>
             let requiredType = (if kind = ''tripwire'' then ''LineString'' else ''Polygon'') in
             if shapeType \<noteq> requiredType then False
             else (case zonePoints S requiredType coordinates of None \<Rightarrow> False | Some points \<Rightarrow> list_all zonePoint points)))"

section \<open>Validation\<close>

record createZoneRequest =
  czSiteID :: string
  czCameraID :: string
  czFloor :: string
  czName :: string
  czKind :: string
  czGeometry :: bytes
  czEnabled :: "bool option"
  czLoiterSeconds :: "int option"
  czSubjectClasses :: "string list"

record updateZoneRequest =
  yzConfigVersion :: int
  yzName :: "string option"
  yzFloor :: "string option"
  yzGeometry :: "bytes option"
  yzEnabled :: "bool option"
  yzLoiterSeconds :: "int option"
  yzSubjectClasses :: "string list option"

definition validLoiterSeconds :: "string \<Rightarrow> int option \<Rightarrow> bool" where
  "validLoiterSeconds kind v =
     (if kind \<noteq> ''loitering'' then v = None
      else (case v of None \<Rightarrow> True | Some n \<Rightarrow> n \<ge> MinimumLoiterSeconds \<and> n \<le> MaximumLoiterSeconds))"

definition validSubjectClasses :: "httpLib \<Rightarrow> string list \<Rightarrow> bool" where
  "validSubjectClasses H values \<longleftrightarrow> NormalizeSubjectClasses (hlUnicode H) values \<noteq> None"

text \<open>The trimmed copies live only inside the check.\<close>

definition validCreateZone :: "httpLib \<Rightarrow> shapeLib \<Rightarrow> createZoneRequest \<Rightarrow> bool" where
  "validCreateZone H S input =
     (let siteID = trimSpace (czSiteID input); cameraID = trimSpace (czCameraID input); name = trimSpace (czName input);
          kind = trimSpace (czKind input) in
      if hlParse H siteID = None \<or> length name = 0 \<or> length name > 120 \<or> length (czFloor input) > 120 \<or> kind \<notin> set zoneKinds \<or>
         (cameraID \<noteq> [] \<and> \<not> validUUID H cameraID) \<or> \<not> validLoiterSeconds kind (czLoiterSeconds input) \<or>
         \<not> validSubjectClasses H (czSubjectClasses input) then False
      else validGeometry S (czGeometry input) kind)"

text \<open>The pointers of an update are trimmed in place; the result is the input as it is then.\<close>

definition validUpdateZone :: "httpLib \<Rightarrow> shapeLib \<Rightarrow> updateZoneRequest \<Rightarrow> string \<Rightarrow> updateZoneRequest option" where
  "validUpdateZone H S input kind =
     (let name = map_option trimSpace (yzName input); floor = map_option trimSpace (yzFloor input) in
      if yzConfigVersion input < 1 \<or>
         (yzName input = None \<and> yzFloor input = None \<and> yzGeometry input = None \<and> yzEnabled input = None \<and>
          yzLoiterSeconds input = None \<and> yzSubjectClasses input = None) then None
      else if (case name of None \<Rightarrow> False | Some v \<Rightarrow> v = [] \<or> length v > 120) then None
      else if (case floor of None \<Rightarrow> False | Some v \<Rightarrow> length v > 120) then None
      else if validLoiterSeconds kind (yzLoiterSeconds input) \<and>
        (case yzSubjectClasses input of None \<Rightarrow> True | Some v \<Rightarrow> validSubjectClasses H v) \<and>
        (case yzGeometry input of None \<Rightarrow> True | Some v \<Rightarrow> validGeometry S v kind)
      then Some (input\<lparr>yzName := name, yzFloor := floor\<rparr>) else None)"

section \<open>Handlers\<close>

definition listZones ::
  "httpLib \<Rightarrow> 'j zoneLib \<Rightarrow> (nat \<Rightarrow> storeEnv) \<Rightarrow> Principal option \<Rightarrow> httpRequest \<Rightarrow> zoneDB \<Rightarrow> Zone list reply" where
  "listZones H L E who r db =
     (case zoneRequestContext H True CapabilityConfigRead who r of
        Inl failure \<Rightarrow> failure
      | Inr (prin, tenantID) \<Rightarrow>
          (case siteQuery H prin tenantID r of
             Inl failure \<Rightarrow> failure
           | Inr siteID \<Rightarrow>
               (case ListZones L (E 0) tenantID siteID db of
                  Inl err \<Rightarrow> unavailable
                | Inr listed \<Rightarrow> Reply 200 (filter (\<lambda>z. CanAccessSite (hlUnicode H) prin tenantID (zoSiteID z)) listed) False)))"

definition authorizedZone ::
  "httpLib \<Rightarrow> 'j zoneLib \<Rightarrow> storeEnv \<Rightarrow> Principal \<Rightarrow> string \<Rightarrow> httpRequest \<Rightarrow> zoneDB \<Rightarrow> 'a reply + Zone" where
  "authorizedZone H L E prin tenantID r db =
     (if hlParse H (hqPath r) = None then Inl notFound
      else
        (case GetZone L E tenantID (hqPath r) db of
           Inl (Domain ErrZoneNotFound) \<Rightarrow> Inl notFound
         | Inl err \<Rightarrow> Inl unavailable
         | Inr zone \<Rightarrow> if \<not> CanAccessSite (hlUnicode H) prin tenantID (zoSiteID zone) then Inl notFound else Inr zone))"

definition getZone ::
  "httpLib \<Rightarrow> 'j zoneLib \<Rightarrow> (nat \<Rightarrow> storeEnv) \<Rightarrow> Principal option \<Rightarrow> httpRequest \<Rightarrow> zoneDB \<Rightarrow> Zone list reply" where
  "getZone H L E who r db =
     (case zoneRequestContext H True CapabilityConfigRead who r of
        Inl failure \<Rightarrow> failure
      | Inr (prin, tenantID) \<Rightarrow>
          (case authorizedZone H L (E 0) prin tenantID r db of Inl failure \<Rightarrow> failure | Inr zone \<Rightarrow> Reply 200 [zone] False))"

definition createZoneCommand ::
  "httpLib \<Rightarrow> shapeLib \<Rightarrow> Principal option \<Rightarrow> httpRequest \<Rightarrow> createZoneRequest option \<Rightarrow> 'a reply + CreateZoneCommand" where
  "createZoneCommand H S who r body =
     (case zoneRequestContext H True CapabilityConfigWrite who r of
        Inl failure \<Rightarrow> Inl failure
      | Inr (prin, tenantID) \<Rightarrow>
          (case mutationHeaders H r of
             Inl failure \<Rightarrow> Inl failure
           | Inr (key, requestID) \<Rightarrow>
               (case body of
                  None \<Rightarrow> Inl invalid
                | Some input \<Rightarrow>
                    let enabled = (case czEnabled input of None \<Rightarrow> True | Some v \<Rightarrow> v) in
                    if \<not> validCreateZone H S input then Inl invalid
                    else if \<not> CanAccessSite (hlUnicode H) prin tenantID (czSiteID input) then Inl notFound
                    else Inr \<lparr>zcTenantID = tenantID, zcActorID = pUserID prin, zcRequestID = requestID, zcIdempotencyKey = key,
                           zcSiteID = trimSpace (czSiteID input), zcCameraID = trimSpace (czCameraID input),
                           zcFloor = trimSpace (czFloor input), zcName = trimSpace (czName input), zcKind = trimSpace (czKind input),
                           zcGeometry = czGeometry input, zcEnabled = enabled, zcLoiterSeconds = czLoiterSeconds input,
                           zcSubjectClasses = czSubjectClasses input\<rparr>)))"

fun createZoneFailure :: "zoneError storeError \<Rightarrow> 'a reply" where
  "createZoneFailure ErrIdempotencyConflict = keyReplayed"
| "createZoneFailure (Domain ZoneSiteNotFound) = notFound"
| "createZoneFailure err = unavailable"

definition createZone ::
  "httpLib \<Rightarrow> shapeLib \<Rightarrow> 'j zoneLib \<Rightarrow> (nat \<Rightarrow> storeEnv) \<Rightarrow> Principal option \<Rightarrow> httpRequest \<Rightarrow> createZoneRequest option \<Rightarrow> zoneDB \<Rightarrow>
     zoneDB \<times> Zone list reply" where
  "createZone H S L E who r body db =
     (case createZoneCommand H S who r body of
        Inl failure \<Rightarrow> (db, failure)
      | Inr command \<Rightarrow>
          (case CreateZone L (E 0) command db of
             (db', Inl err) \<Rightarrow> (db', createZoneFailure err)
           | (db', Inr (zone, replayed)) \<Rightarrow> (db', Reply 201 [zone] replayed)))"

definition updateZoneCommand ::
  "httpLib \<Rightarrow> shapeLib \<Rightarrow> 'j zoneLib \<Rightarrow> storeEnv \<Rightarrow> Principal option \<Rightarrow> httpRequest \<Rightarrow> updateZoneRequest option \<Rightarrow> zoneDB \<Rightarrow>
     'a reply + UpdateZoneCommand" where
  "updateZoneCommand H S L E who r body db =
     (case zoneRequestContext H True CapabilityConfigWrite who r of
        Inl failure \<Rightarrow> Inl failure
      | Inr (prin, tenantID) \<Rightarrow>
          (case authorizedZone H L E prin tenantID r db of
             Inl failure \<Rightarrow> Inl failure
           | Inr zone \<Rightarrow>
               (case correlationHeaderOnly H r of
                  Inl failure \<Rightarrow> Inl failure
                | Inr requestID \<Rightarrow>
                    (case (case body of None \<Rightarrow> None | Some raw \<Rightarrow> validUpdateZone H S raw (zoKind zone)) of
                       None \<Rightarrow> Inl invalid
                     | Some input \<Rightarrow>
                         Inr \<lparr>zuTenantID = tenantID, zuActorID = pUserID prin, zuRequestID = requestID, zuZoneID = zoID zone,
                              zuExpectedVersion = yzConfigVersion input, zuName = yzName input, zuFloor = yzFloor input,
                              zuGeometry = yzGeometry input, zuEnabled = yzEnabled input, zuLoiterSeconds = yzLoiterSeconds input,
                              zuSubjectClasses = yzSubjectClasses input\<rparr>))))"

fun updateZoneFailure :: "zoneError storeError \<Rightarrow> 'a reply" where
  "updateZoneFailure (Domain ErrZoneNotFound) = notFound"
| "updateZoneFailure (Domain ZoneVersionConflict) = conflicting"
| "updateZoneFailure err = unavailable"

definition updateZone ::
  "httpLib \<Rightarrow> shapeLib \<Rightarrow> 'j zoneLib \<Rightarrow> (nat \<Rightarrow> storeEnv) \<Rightarrow> Principal option \<Rightarrow> httpRequest \<Rightarrow> updateZoneRequest option \<Rightarrow> zoneDB \<Rightarrow>
     zoneDB \<times> Zone list reply" where
  "updateZone H S L E who r body db =
     (case updateZoneCommand H S L (E 0) who r body db of
        Inl failure \<Rightarrow> (db, failure)
      | Inr command \<Rightarrow>
          (case UpdateZone L (E 1) command db of
             (db', Inl err) \<Rightarrow> (db', updateZoneFailure err)
           | (db', Inr updated) \<Rightarrow> (db', Reply 200 [updated] False)))"

datatype zoneRoute = RouteListZones | RouteGetZone | RouteCreateZone "createZoneRequest option" | RouteUpdateZone "updateZoneRequest option"

definition serveZone ::
  "httpLib \<Rightarrow> shapeLib \<Rightarrow> 'j zoneLib \<Rightarrow> (nat \<Rightarrow> storeEnv) \<Rightarrow> Principal option \<times> httpRequest \<times> zoneRoute \<Rightarrow> zoneDB \<Rightarrow>
     zoneDB \<times> Zone list reply" where
  "serveZone H S L E call db =
     (case call of (who, r, route) \<Rightarrow>
        (case route of
           RouteListZones \<Rightarrow> (db, listZones H L E who r db)
         | RouteGetZone \<Rightarrow> (db, getZone H L E who r db)
         | RouteCreateZone body \<Rightarrow> createZone H S L E who r body db
         | RouteUpdateZone body \<Rightarrow> updateZone H S L E who r body db))"


section \<open>Tenants and sites\<close>

definition zonesOf :: "string \<times> string \<Rightarrow> zoneDB \<Rightarrow> Zone list" where
  "zonesOf k db = filter (\<lambda>z. zoTenantID z = fst k \<and> zoSiteID z = snd k) (zbZones db)"

text \<open>
  A creation asks for access to the site as it was written and stores it trimmed, so the scope of a principal
  covers the site it may access and its trimmed text.
\<close>

definition mayReach :: "httpLib \<Rightarrow> 'j zoneLib \<Rightarrow> Principal \<Rightarrow> string \<Rightarrow> bool" where
  "mayReach H L prin site \<longleftrightarrow> (\<exists>named. CanAccessSite (hlUnicode H) prin (pTenantID prin) named \<and>
     (site = named \<or> site = trimSpace named \<or> slUUID L (trimSpace named) = Some site))"

definition mayConfigureZone :: "httpLib \<Rightarrow> 'j zoneLib \<Rightarrow> Principal \<Rightarrow> string \<times> string \<Rightarrow> bool" where
  "mayConfigureZone H L prin k \<longleftrightarrow> slUUID L (pTenantID prin) = Some (fst k) \<and>
     Authorize (hlUnicode H) prin \<lparr>rqCapability = CapabilityConfigWrite, rqTenantID = pTenantID prin, rqSiteID = []\<rparr> \<and>
     mayReach H L prin (snd k)"

definition maySeeZone :: "httpLib \<Rightarrow> 'j zoneLib \<Rightarrow> Principal \<Rightarrow> Zone \<Rightarrow> bool" where
  "maySeeZone H L prin z \<longleftrightarrow> (zoTenantID z = pTenantID prin \<or> slUUID L (pTenantID prin) = Some (zoTenantID z)) \<and>
     mayReach H L prin (zoSiteID z)"

lemma mayReachI: "CanAccessSite (hlUnicode H) prin (pTenantID prin) site \<Longrightarrow> mayReach H L prin site"
  unfolding mayReach_def by blast

lemma newRows_createZone [simp]: "newRows (createZoneFailure err) = {}"
  by (induction err rule: createZoneFailure.induct) simp_all

lemma newRows_updateZone [simp]: "newRows (updateZoneFailure err) = {}"
  by (induction err rule: updateZoneFailure.induct) simp_all

lemma authorizedZone_Inl [simp]: "authorizedZone H L E prin tenantID r db = Inl failure \<Longrightarrow> newRows failure = {}"
  by (auto simp: authorizedZone_def split: if_splits sum.splits storeError.splits zoneError.splits)

lemma authorizedZone_Inr:
  assumes "authorizedZone H L E prin tenantID r db = Inr z"
  shows "z \<in> set (zbZones db) \<and> slUUID L (hqPath r) = Some (zoID z) \<and> slUUID L tenantID = Some (zoTenantID z) \<and>
    CanAccessSite (hlUnicode H) prin tenantID (zoSiteID z)"
proof -
  have get: "GetZone L E tenantID (hqPath r) db = Inr z" and "CanAccessSite (hlUnicode H) prin tenantID (zoSiteID z)"
    using assms by (auto simp: authorizedZone_def split: if_splits sum.splits storeError.splits zoneError.splits)
  moreover from get obtain tenant where "slUUID L tenantID = Some tenant" "slUUID L (hqPath r) = Some (zoID z)" "z \<in> set (zbZones db)" "zoTenantID z = tenant"
    unfolding GetZone_def by (auto split: sum.splits option.splits if_splits dest: beginStore_Inr zoneByID_Some)
  ultimately show ?thesis by simp
qed

lemma createZoneCommand_Inr:
  assumes "createZoneCommand H S who r body = Inr command"
  obtains prin where "configures H who (zcTenantID command) prin" "mayReach H L prin (zcSiteID command)"
    "\<forall>site. slUUID L (zcSiteID command) = Some site \<longrightarrow> mayReach H L prin site"
  using assms
  by (auto simp: createZoneCommand_def contexts mayReach_def Let_def split: sum.splits option.splits if_splits dest!: requestContext_Inr)
    (auto simp: configures_def)

lemma createZoneCommand_Inl: "createZoneCommand H S who r body = Inl failure \<Longrightarrow> newRows failure = {}"
  by (auto simp: createZoneCommand_def contexts Let_def split: sum.splits option.splits if_splits)

lemma updateZoneCommand_Inr:
  assumes "updateZoneCommand H S L E who r body db = Inr command"
  obtains prin zone where "configures H who (zuTenantID command) prin" "zone \<in> set (zbZones db)" "zuZoneID command = zoID zone"
    "slUUID L (hqPath r) = Some (zoID zone)" "CanAccessSite (hlUnicode H) prin (zuTenantID command) (zoSiteID zone)"
  using assms by (auto simp: updateZoneCommand_def contexts split: sum.splits option.splits if_splits dest!: configuresI authorizedZone_Inr)

lemma updateZoneCommand_Inl: "updateZoneCommand H S L E who r body db = Inl failure \<Longrightarrow> newRows failure = {}"
  by (auto simp: updateZoneCommand_def contexts split: sum.splits option.splits if_splits)

lemma createZone_run:
  assumes "createZone H S L E who r body db = (db', rep)"
  obtains (refused) "db' = db" "newRows rep = {}"
    | (called) command res where "createZoneCommand H S who r body = (Inr command :: Zone list reply + _)" "CreateZone L (E 0) command db = (db', res)"
        "newRows rep = (case res of Inr (x, False) \<Rightarrow> {x} | _ \<Rightarrow> {})"
  using assms unfolding createZone_def
  by (cases "createZoneCommand H S who r body :: Zone list reply + _")
    (force simp: createZoneCommand_Inl split: prod.splits sum.splits if_splits)+

lemma updateZone_run:
  assumes "updateZone H S L E who r body db = (db', rep)"
  obtains (refused) "db' = db" "newRows rep = {}"
    | (called) command res where "updateZoneCommand H S L (E 0) who r body db = (Inr command :: Zone list reply + _)"
        "UpdateZone L (E 1) command db = (db', res)" "newRows rep = (case res of Inr x \<Rightarrow> {x} | _ \<Rightarrow> {})"
  using assms unfolding updateZone_def
  by (cases "updateZoneCommand H S L (E 0) who r body db :: Zone list reply + _")
    (force simp: updateZoneCommand_Inl split: prod.splits sum.splits)+

lemma CreateZone_confined:
  assumes "CreateZone L E c db = (db', r)" "zonesOf k db' \<noteq> zonesOf k db"
  shows "slUUID L (zcTenantID c) = Some (fst k) \<and> slUUID L (zcSiteID c) = Some (snd k)"
proof (rule keyedCreate_cases [OF assms(1) [unfolded CreateZone_def]], goal_cases)
  case (3 tenant h db2 x b event audit hh)
  from zoneWork_Inr [OF 3(5)] obtain row site where w: "zbZones db2 = zbZones db @ [row]" "slUUID L (zcSiteID c) = Some site"
      "insertZone L E tenant site x (expireKey E tenant (zcIdempotencyKey c) db) = Some row" by (auto simp: expireKey_def)
  from insertZone_Some [OF w(3)] have "zoTenantID row = tenant" "zoSiteID row = site" by simp_all
  with assms(2) w(1,2) 3(1,7) show ?case by (auto simp: zonesOf_def split: if_splits)
qed (use assms(2) in \<open>auto simp: zonesOf_def expireKey_def\<close>)

lemma CreateZone_answer:
  assumes "CreateZone L E c db = (db', Inr (x, False))"
  shows "zoTenantID x = zcTenantID c \<and> zoSiteID x = zcSiteID c"
proof (rule keyedCreate_cases [OF assms [unfolded CreateZone_def]], goal_cases)
  case (3 tenant h db2 y b event audit hh)
  from zoneWork_Inr [OF 3(5)] have "y = newZone L E c" by blast
  with 3(8) show ?case by (simp add: newZone_def)
qed auto

text \<open>An update changes one zone and not its place.\<close>

lemma UpdateZone_effect:
  assumes "UpdateZone L E c db = (db', r)"
  obtains (none) "zbZones db' = zbZones db" "\<forall>x. r \<noteq> Inr x"
    | (one) z row where "z \<in> set (zbZones db)" "slUUID L (zuTenantID c) = Some (zoTenantID z)" "slUUID L (zuZoneID c) = Some (zoID z)"
        "zoTenantID row = zoTenantID z" "zoSiteID row = zoSiteID z"
        "zbZones db' = zbZones db \<or> zbZones db' = map (\<lambda>x. if zoID x = zoID z then row else x) (zbZones db)"
        "\<forall>x. r = Inr x \<longrightarrow> zoTenantID x = zoTenantID z \<and> zoSiteID x = zoSiteID z"
  using UpdateZone_cases [OF assms]
proof (elim disjE exE conjE)
  assume same: "db' = db" "\<forall>x. r = Inr x \<longrightarrow> x \<in> set (zbZones db) \<and> zoConfigVersion x = zuExpectedVersion c \<and>
      slUUID L (zuTenantID c) = Some (zoTenantID x) \<and> slUUID L (zuZoneID c) = Some (zoID x)"
  show thesis
  proof (cases r)
    case (Inr x)
    then show thesis using same by (intro one [of x x]) auto
  qed (use none same in auto)
next
  fix tenant current nxt
  assume z: "zoneByID db tenant (zoID current) = Some current" "slUUID L (zuTenantID c) = Some tenant" "slUUID L (zuZoneID c) = Some (zoID current)"
    "changeZone (slLower L) (\<lambda>v. v) current c = Some nxt" "writeZone L E c current nxt db = (db', r)"
  note cur = zoneByID_Some [OF z(1)] and nxt = changeZone_Some [OF z(4)]
  from writeZone_cases [OF z(5)] show thesis
  proof (elim disjE exE conjE)
    fix row audit
    assume w: "zoTenantID row = zoTenantID nxt" "zoSiteID row = zoSiteID nxt"
      "db' = db\<lparr>zbZones := map (\<lambda>z. if zoID z = zoID current then row else z) (zbZones db), sdAudit := audit\<rparr>"
      "\<forall>x. r = Inr x \<longrightarrow> zoConfigVersion x = zoConfigVersion row \<and> zoTenantID x = zoTenantID nxt \<and> zoSiteID x = zoSiteID nxt"
    show thesis by (rule one [of current row]) (use cur nxt w z in simp_all)
  qed (use none in simp)
qed

lemma zone_of_id: "zoneInv db \<Longrightarrow> x \<in> set (zbZones db) \<Longrightarrow> z \<in> set (zbZones db) \<Longrightarrow> zoID x = zoID z \<Longrightarrow> x = z"
  by (auto simp: zoneInv_def distinct_map dest: inj_onD)

lemma UpdateZone_confined:
  assumes "UpdateZone L E c db = (db', r)" "zoneInv db" "zonesOf k db' \<noteq> zonesOf k db"
  shows "\<exists>z \<in> set (zbZones db). slUUID L (zuTenantID c) = Some (zoTenantID z) \<and> slUUID L (zuZoneID c) = Some (zoID z) \<and>
    k = (zoTenantID z, zoSiteID z)"
  using assms(1)
proof (cases rule: UpdateZone_effect)
  case (one z row)
  have "k = (zoTenantID z, zoSiteID z)"
  proof (rule ccontr)
    assume other: "k \<noteq> (zoTenantID z, zoSiteID z)"
    have "filter (\<lambda>x. zoTenantID x = fst k \<and> zoSiteID x = snd k) (map (\<lambda>x. if zoID x = zoID z then row else x) (zbZones db)) =
        filter (\<lambda>x. zoTenantID x = fst k \<and> zoSiteID x = snd k) (zbZones db)"
    proof (rule filter_update_other)
      fix x
      assume x: "x \<in> set (zbZones db)"
      note same = zone_of_id [OF assms(2) x one(1)]
      show "(if zoID x = zoID z then row else x) = x" if "zoTenantID x = fst k \<and> zoSiteID x = snd k"
        using that same other by (cases k) auto
      show "\<not> (zoTenantID (if zoID x = zoID z then row else x) = fst k \<and> zoSiteID (if zoID x = zoID z then row else x) = snd k)"
        if "\<not> (zoTenantID x = fst k \<and> zoSiteID x = snd k)"
        using that same one(4,5) by auto
    qed
    with one(6) assms(3) show False by (auto simp: zonesOf_def)
  qed
  with one show ?thesis by blast
qed (use assms(3) in \<open>simp add: zonesOf_def\<close>)

text \<open>What an update through the route was allowed to touch.\<close>

lemma updateZone_target:
  assumes "uuidStable L" "zoneInv db" "updateZoneCommand H S L E who r body db = Inr command" "z \<in> set (zbZones db)"
    "slUUID L (zuTenantID command) = Some (zoTenantID z)" "slUUID L (zuZoneID command) = Some (zoID z)"
  obtains prin where "configures H who (zuTenantID command) prin" "mayReach H L prin (zoSiteID z)"
proof -
  from assms(3) obtain prin zone where c: "configures H who (zuTenantID command) prin" "zone \<in> set (zbZones db)" "zuZoneID command = zoID zone"
    "slUUID L (hqPath r) = Some (zoID zone)" "CanAccessSite (hlUnicode H) prin (zuTenantID command) (zoSiteID zone)"
    by (rule updateZoneCommand_Inr)
  have "z = zone" using zone_of_id [OF assms(2,4) c(2)] assms(1,6) c(3,4) by (simp add: uuidStable_def)
  with c show thesis by (intro that [of prin] mayReachI) (auto simp: configures_def)
qed

lemma serveZone_inv:
  assumes "zoneInv db" "serveZone H S L E (who, r, route) db = (db', rep)"
  shows "zoneInv db'"
proof (cases route)
  case (RouteCreateZone body)
  then have "createZone H S L E who r body db = (db', rep)" using assms(2) by (simp add: serveZone_def)
  then show ?thesis using assms(1) CreateZone_inv by (cases rule: createZone_run) blast+
next
  case (RouteUpdateZone body)
  then have "updateZone H S L E who r body db = (db', rep)" using assms(2) by (simp add: serveZone_def)
  then show ?thesis using assms(1) UpdateZone_inv by (cases rule: updateZone_run) blast+
qed (use assms in \<open>simp_all add: serveZone_def\<close>)

lemma serveZone_confined:
  assumes stable: "uuidStable L" and inv: "zoneInv db" and run: "serveZone H S L E (who, r, route) db = (db', rep)"
    and changed: "zonesOf k db' \<noteq> zonesOf k db"
  shows "\<exists>prin. who = Some prin \<and> mayConfigureZone H L prin k"
proof (cases route)
  case (RouteCreateZone body)
  then have "createZone H S L E who r body db = (db', rep)" using run by (simp add: serveZone_def)
  then show ?thesis
  proof (cases rule: createZone_run)
    case (called command res)
    from called(1) obtain prin where "configures H who (zcTenantID command) prin" "mayReach H L prin (zcSiteID command)"
      "\<forall>site. slUUID L (zcSiteID command) = Some site \<longrightarrow> mayReach H L prin site" by (rule createZoneCommand_Inr [where L = L])
    with CreateZone_confined [OF called(2) changed] show ?thesis by (auto simp: configures_def mayConfigureZone_def)
  qed (use changed in simp)
next
  case (RouteUpdateZone body)
  then have "updateZone H S L E who r body db = (db', rep)" using run by (simp add: serveZone_def)
  then show ?thesis
  proof (cases rule: updateZone_run)
    case (called command res)
    from UpdateZone_confined [OF called(2) inv changed] obtain z where z: "z \<in> set (zbZones db)" "slUUID L (zuTenantID command) = Some (zoTenantID z)"
      "slUUID L (zuZoneID command) = Some (zoID z)" "k = (zoTenantID z, zoSiteID z)" by blast
    obtain prin where "configures H who (zuTenantID command) prin" "mayReach H L prin (zoSiteID z)"
      by (rule updateZone_target [OF stable inv called(1) z(1-3)])
    with z show ?thesis by (auto simp: configures_def mayConfigureZone_def)
  qed (use changed in simp)
qed (use run changed in \<open>simp_all add: serveZone_def\<close>)

lemma ListZones_tenant: "ListZones L E tenantID siteID db = Inr zs \<Longrightarrow> z \<in> set zs \<Longrightarrow> slUUID L tenantID = Some (zoTenantID z)"
  unfolding ListZones_def by (auto split: sum.splits if_splits dest!: in_set_takeD beginStore_Inr)

lemma listZones_rows:
  assumes "x \<in> newRows (listZones H L E who r db)"
  shows "\<exists>prin. who = Some prin \<and> maySeeZone H L prin x"
  using assms
  by (auto simp: listZones_def contexts maySeeZone_def split: sum.splits prod.splits
      dest!: requestContext_Inr dest: ListZones_tenant intro: mayReachI)

lemma getZone_rows:
  assumes "x \<in> newRows (getZone H L E who r db)"
  shows "\<exists>prin. who = Some prin \<and> maySeeZone H L prin x"
  using assms
  by (auto simp: getZone_def contexts maySeeZone_def split: sum.splits prod.splits dest!: requestContext_Inr authorizedZone_Inr intro: mayReachI)

lemma serveZone_answers:
  assumes stable: "uuidStable L" and inv: "zoneInv db" and run: "serveZone H S L E (who, r, route) db = (db', rep)" and x: "x \<in> newRows rep"
  shows "\<exists>prin. who = Some prin \<and> maySeeZone H L prin x"
proof (cases route)
  case RouteListZones
  with run x listZones_rows show ?thesis by (auto simp: serveZone_def)
next
  case RouteGetZone
  with run x getZone_rows show ?thesis by (auto simp: serveZone_def)
next
  case (RouteCreateZone body)
  then have "createZone H S L E who r body db = (db', rep)" using run by (simp add: serveZone_def)
  then show ?thesis
  proof (cases rule: createZone_run)
    case (called command res)
    from called(3) x have "res = Inr (x, False)" by (auto split: sum.splits bool.splits)
    with called(2) have "zoTenantID x = zcTenantID command \<and> zoSiteID x = zcSiteID command" by (auto dest: CreateZone_answer)
    moreover from called(1) obtain prin where "configures H who (zcTenantID command) prin" "mayReach H L prin (zcSiteID command)"
      "\<forall>site. slUUID L (zcSiteID command) = Some site \<longrightarrow> mayReach H L prin site" by (rule createZoneCommand_Inr [where L = L])
    ultimately show ?thesis by (auto simp: configures_def maySeeZone_def)
  qed (use x in simp)
next
  case (RouteUpdateZone body)
  then have "updateZone H S L E who r body db = (db', rep)" using run by (simp add: serveZone_def)
  then show ?thesis
  proof (cases rule: updateZone_run)
    case (called command res)
    from called(3) x have res: "res = Inr x" by (auto split: sum.splits)
    from called(2) show ?thesis
    proof (cases rule: UpdateZone_effect)
      case (one z row)
      obtain prin where "configures H who (zuTenantID command) prin" "mayReach H L prin (zoSiteID z)"
        by (rule updateZone_target [OF stable inv called(1) one(1-3)])
      with one res show ?thesis by (auto simp: configures_def maySeeZone_def)
    qed (use res in simp)
  qed (use x in simp)
qed

interpretation zoneRoutes: scoped_routes "serveZone H S L" zonesOf "mayConfigureZone H L" newRows "maySeeZone H L"
  "\<lambda>db. uuidStable L \<and> zoneInv db" for H S L
proof unfold_locales
  fix E who c db db' rep k x
  assume good: "uuidStable L \<and> zoneInv db" and run: "serveZone H S L E (who, c) db = (db', rep)"
  obtain r route where c: "c = (r, route)" by (cases c)
  show "uuidStable L \<and> zoneInv db'" using good serveZone_inv run c by blast
  show "zonesOf k db' \<noteq> zonesOf k db \<Longrightarrow> \<exists>prin. who = Some prin \<and> mayConfigureZone H L prin k"
    using good serveZone_confined run c by blast
  show "x \<in> newRows rep \<Longrightarrow> \<exists>prin. who = Some prin \<and> maySeeZone H L prin x"
    using good serveZone_answers run c by blast
qed

end
