(* ===== verification/Registry_Props.thy ===== *)
theory Registry_Props
  imports Tenant_Sites Http_Cameras Http_Zones Identifiers
begin

text \<open>
  Properties of the registries of sites, cameras and zones: creations happen once per idempotency key,
  a camera follows its life cycle with every change audited, updates from a stale version are refused,
  zones stay well formed, and the camera and the zone routes keep tenants and sites apart.
\<close>

section \<open>Creations\<close>

text \<open>The four creations share the frame and so this law; the property below states it of cameras.\<close>

lemma site_created_once:
  assumes "siteCodec L" "keysOutlive horizon db" "\<And>x. x \<in> set calls \<Longrightarrow> withinDay horizon (fst x)" "i < j" "j < length calls"
    "(slUUID L (csTenantID (snd (calls ! i))), csIdempotencyKey (snd (calls ! i))) = (slUUID L (csTenantID (snd (calls ! j))), csIdempotencyKey (snd (calls ! j)))"
    "snd (runCalls (CreateSite L) calls db) ! i = Inr x" "snd (runCalls (CreateSite L) calls db) ! j = Inr y"
  shows "snd y \<and> fst y = fst x"
proof -
  have eq: "CreateSite L = (\<lambda>E c. keyedCreate L E (csTenantID c) (csIdempotencyKey c) None (hashCreateSite L c) (decodeSite L) (siteWork L E c))"
    by (intro ext) (simp add: CreateSite_def)
  show ?thesis
    using siteCreate.keyed.accepted_once [of L horizon db calls i j x y, folded eq] assms by simp
qed

lemma zone_created_once:
  assumes "zoneCodec L" "keysOutlive horizon db" "\<And>x. x \<in> set calls \<Longrightarrow> withinDay horizon (fst x)" "i < j" "j < length calls"
    "(slUUID L (zcTenantID (snd (calls ! i))), zcIdempotencyKey (snd (calls ! i))) = (slUUID L (zcTenantID (snd (calls ! j))), zcIdempotencyKey (snd (calls ! j)))"
    "snd (runCalls (CreateZone L) calls db) ! i = Inr x" "snd (runCalls (CreateZone L) calls db) ! j = Inr y"
  shows "snd y \<and> fst y = fst x"
proof -
  have eq: "CreateZone L = (\<lambda>E c. keyedCreate L E (zcTenantID c) (zcIdempotencyKey c) (zoneChecks L c) (hashCreateZone L c) (decodeZone L) (zoneWork L E c))"
    by (intro ext) (simp add: CreateZone_def)
  show ?thesis
    using zoneCreate.keyed.accepted_once [of L horizon db calls i j x y, folded eq] assms by simp
qed

section \<open>The shape of zones\<close>

text \<open>The memory repository has no constraints of its own: its zones come from the commands of the route and from any updates.\<close>

inductive memoryZoneReach :: "httpLib \<Rightarrow> shapeLib \<Rightarrow> 'j zoneLib \<Rightarrow> zoneMemory \<Rightarrow> bool" for H S L where
  start: "zmZones m = [] \<Longrightarrow> memoryZoneReach H S L m"
| create: "memoryZoneReach H S L m \<Longrightarrow> createZoneCommand H S who r body = (Inr c :: Zone list reply + CreateZoneCommand) \<Longrightarrow>
    memoryZoneReach H S L (fst (MemoryCreateZone L E c m))"
| update: "memoryZoneReach H S L m \<Longrightarrow> memoryZoneReach H S L (fst (MemoryUpdateZone L E cu m))"

lemma createZoneCommand_kind:
  "createZoneCommand H S who r body = Inr c \<Longrightarrow> zcKind c \<in> set zoneKinds"
  by (auto simp: createZoneCommand_def validCreateZone_def Let_def split: sum.splits option.splits if_splits)

text \<open>The route checks the shape before the repository does.\<close>

lemma createZoneCommand_checked:
  assumes "createZoneCommand H S who r body = Inr c" "hlUnicode H = slLower L"
  shows "zoneChecks L c = None"
proof -
  from assms(1) obtain input where "validCreateZone H S input" "zcKind c = trimSpace (czKind input)" "zcLoiterSeconds c = czLoiterSeconds input"
      "zcSubjectClasses c = czSubjectClasses input"
    by (auto simp: createZoneCommand_def Let_def split: sum.splits option.splits if_splits)
  then show ?thesis using trim_kind [OF createZoneCommand_kind [OF assms(1)]] assms(2)
    by (auto simp: validCreateZone_def zoneChecks_def validLoiterSeconds_def validSubjectClasses_def normalizeLoiterSeconds_def Let_def
        MinimumLoiterSeconds_def MaximumLoiterSeconds_def DefaultLoiterSeconds_def split: if_splits option.splits)
qed

lemma memoryZoneReach_shape: "memoryZoneReach H S L m \<Longrightarrow> z \<in> set (zmZones m) \<Longrightarrow> zoneShape z"
proof (induction arbitrary: z rule: memoryZoneReach.induct)
  case (create m who r body c E)
  note kind = createZoneCommand_kind [OF create(2)]
  have "zoneShape ((newZone L E c)\<lparr>zoCameraID := trimSpace (zcCameraID c), zoFloor := trimSpace (zcFloor c),
      zoName := trimSpace (zcName c), zoKind := trimSpace (zcKind c)\<rparr>)" if "zoneChecks L c = None"
    using newZone_shape [OF that kind, of E] trim_kind [OF kind] by (auto simp: zoneShape_def newZone_def split: if_split_asm)
  then show ?case using create(3,4) by (auto simp: MemoryCreateZone_def Let_def split: sum.splits option.splits if_splits)
next
  case (update m E cu)
  have found: "findZone zs t i = Some k \<Longrightarrow> k < length zs" for zs t i k
    by (induction zs arbitrary: k) (auto split: if_splits)
  have "zoneShape (nxt\<lparr>zoConfigVersion := v, zoUpdatedAt := u\<rparr>)"
    if "changeZone (slLower L) trimSpace (zmZones m ! k) cu = Some nxt" "k < length (zmZones m)" for nxt k v u
    using changeZone_shape [OF that(1)] update(2) that(2) by (simp add: zoneShape_def)
  then show ?case using update(2,3) found
    by (auto simp: MemoryUpdateZone_def Let_def dest!: set_update_subset_insert [THEN subsetD] split: option.splits if_splits)
qed simp

section \<open>Instances\<close>

definition wcCamera :: Camera where
  "wcCamera = \<lparr>caID = ''c'', caTenantID = ''t'', caSiteID = ''s'', caSerialNumber = ''SN'', caName = ''n'', caGroupName = [], caTags = [],
     caLifecycleStatus = ''pending'', caConfigVersion = 1, caCreatedAt = 5, caUpdatedAt = 5\<rparr>"

definition wcLib :: "string cameraLib" where
  "wcLib = \<lparr>slSha = (\<lambda>x. replicate 32 CHR ''x''), slParses = (\<lambda>s. True), slUUID = Some, slJsonb = (\<lambda>b. b), slLower = (\<lambda>s. s), slUpper = (\<lambda>s. s),
     slAudit = wAuditLib, slNil = [], klEncodeRequest = (\<lambda>x. Some []), klEncode = (\<lambda>c. if c = wcCamera then Some ''camera'' else None),
     klDecode = (\<lambda>b. Some wcCamera), klAny = caID, klSqlUpper = (\<lambda>s. s)\<rparr>"

definition wcEnv :: storeEnv where
  "wcEnv = \<lparr>stNow = 5, stID = ''c'', stID2 = [], stFails = (\<lambda>_. None), stAudit = (\<lambda>_. False), stCommitApplied = False\<rparr>"

definition wcStart :: cameraDB where
  "wcStart = \<lparr>sdTenants = (\<lambda>_. True), sdSites = [\<lparr>siID = ''s'', siTenantID = ''t'', siName = [], siAddress = [], siTimezone = [],
      siStatus = ''active'', siCreatedAt = 1\<rparr>], sdKeys = [], sdAudit = [], cbCameras = []\<rparr>"

definition wcCreate :: CreateCameraCommand where
  "wcCreate = \<lparr>kcTenantID = ''t'', kcActorID = ''u'', kcRequestID = ''q'', kcIdempotencyKey = ''k'', kcSiteID = ''s'', kcSerialNumber = ''SN'',
     kcName = ''n'', kcGroupName = [], kcTags = []\<rparr>"

definition wcUpdate :: UpdateCameraCommand where
  "wcUpdate = \<lparr>kuTenantID = ''t'', kuActorID = ''u'', kuRequestID = ''q'', kuCameraID = ''c'', kuExpectedVersion = 1, kuName = Some ''m'',
     kuGroupName = None, kuTags = None, kuLifecycleStatus = None\<rparr>"

lemma wcSerial: "normalizeSerial (\<lambda>s. s) ''SN'' = ''SN''" "normalizeTags (\<lambda>s. s) [] = []" "trimSpace ''m'' = ''m''" "trimSpace ''n'' = ''n''" "trimSpace [] = []"
  by code_simp+

lemma wcNew: "newCamera wcLib wcEnv wcCreate = wcCamera"
  using wcSerial by (simp add: newCamera_def wcLib_def wcEnv_def wcCreate_def wcCamera_def)

lemma wcHash: "hashCreateCamera wcLib wcCreate = Inr (hexEncode (replicate 32 CHR ''x''))"
  by (simp add: hashCreateCamera_def wcLib_def)

lemma wcAudit: "\<exists>rows h. auditAppend (slAudit wcLib) (stAudit wcEnv) 5 event db = Inr (rows, h)"
  by (auto simp: wcLib_def wcEnv_def auditAppend_def wAuditLib_def Let_def)

lemma wcBegin: "(beginStore wcLib wcEnv ''t'' :: cameraError storeError + string) = Inr ''t''"
  by (simp add: beginStore_def wcLib_def wcEnv_def)

lemma wcSel: "stFails wcEnv s = None" "stNow wcEnv = 5" "kcTenantID wcCreate = ''t''" "kcIdempotencyKey wcCreate = ''k''" "kcSiteID wcCreate = ''s''"
    "slUUID wcLib u = Some u" "klEncode wcLib wcCamera = Some ''camera''" "slJsonb wcLib b = b" "klDecode wcLib b = Some wcCamera"
  by (simp_all add: wcEnv_def wcCreate_def wcLib_def)

lemma wcCreated:
  "\<exists>db. CreateCamera wcLib wcEnv wcCreate wcStart = (db, Inr (wcCamera, False)) \<and> CreateCamera wcLib wcEnv wcCreate db = (db, Inr (wcCamera, True)) \<and>
     cbCameras db = [wcCamera]"
proof -
  let ?h = "hexEncode (replicate 32 CHR ''x'')"
  have len: "length ?h = 64" by simp
  have empty: "expireKey wcEnv ''t'' ''k'' wcStart = wcStart" "keyRowOf wcStart ''t'' ''k'' = None"
    by (simp_all add: expireKey_def keyRowOf_def wcStart_def)
  obtain row where row: "insertCamera wcLib wcEnv ''t'' ''s'' wcCamera wcStart = Inr row" "row = wcCamera"
    by (simp add: insertCamera_def wcEnv_def wcStart_def wcCamera_def)
  have open_site: "siteOpen wcStart ''t'' ''s''" by (simp add: siteOpen_def wcStart_def)
  let ?event = "cameraAudit wcLib (kcTenantID wcCreate) (kcActorID wcCreate) ''camera.created'' (kcRequestID wcCreate) (slNil wcLib) wcCamera (caCreatedAt wcCamera)"
  have work: "cameraWork wcLib wcEnv wcCreate ''t'' wcStart =
      Inr (wcStart\<lparr>cbCameras := cbCameras wcStart @ [wcCamera]\<rparr>, wcCamera, Some ''camera'', ?event)"
    using row open_site by (simp add: cameraWork_def wcSel wcNew Let_def)
  obtain rows h where audit: "auditAppend (slAudit wcLib) (stAudit wcEnv) 5 ?event (sdAudit wcStart) = Inr (rows, h)" using wcAudit by blast
  define db where "db = wcStart\<lparr>cbCameras := [wcCamera], sdKeys := [\<lparr>kyTenant = ''t'', kyKey = ''k'', kyHash = ?h, kyBody = ''camera'', kyExpires = 5 + keyLifetime\<rparr>],
    sdAudit := rows\<rparr>"
  have first: "CreateCamera wcLib wcEnv wcCreate wcStart = (db, Inr (wcCamera, False))"
    using audit work empty len
    by (simp add: CreateCamera_def keyedCreate_def wcSel wcBegin wcHash answerKeyed_def finishKeyed_def commitStore_def db_def wcStart_def)
  have kept: "expireKey wcEnv ''t'' ''k'' db = db" "keyRowOf db ''t'' ''k'' = Some \<lparr>kyTenant = ''t'', kyKey = ''k'', kyHash = ?h, kyBody = ''camera'', kyExpires = 5 + keyLifetime\<rparr>"
    by (simp_all add: expireKey_def keyRowOf_def db_def wcEnv_def keyLifetime_def minute_def second_def)
  have "CreateCamera wcLib wcEnv wcCreate db = (db, Inr (wcCamera, True))"
    using kept by (simp add: CreateCamera_def keyedCreate_def wcSel wcBegin wcHash answerKeyed_def commitStore_def decodeCamera_def)
  with first show ?thesis by (auto simp: db_def)
qed

lemma wcInv: "cameraInv wcLib wcStart" "uuidStable wcLib" "cameraCodec wcLib" "keysOutlive 6 wcStart" "withinDay 6 wcEnv"
  by (auto simp: cameraInv_def uuidStable_def cameraCodec_def keysOutlive_def withinDay_def wcLib_def wcStart_def wcEnv_def keyLifetime_def minute_def second_def)


definition wcPrincipal :: Principal where
  "wcPrincipal = \<lparr>pUserID = ''u'', pEmail = [], pTenantID = ''t'', pSiteIDs = [''s''], pRoles = [''site_admin''],
     pScopes = [''config:read'', ''config:write''], pDataClasses = [''d''], pMFALevel = ''none''\<rparr>"

definition wcStranger :: Principal where "wcStranger = wcPrincipal\<lparr>pTenantID := ''x''\<rparr>"

definition wcHttp :: httpLib where
  "wcHttp = \<lparr>hlParse = (\<lambda>s. Some (s, 4)), hlUnicode = (\<lambda>s. s), hlFold = (=)\<rparr>"

definition wcRequest :: "string \<Rightarrow> httpRequest" where
  "wcRequest tenant = \<lparr>hqAuthorization = [], hqTenant = tenant, hqKey = ''k'', hqCorrelation = [], hqSite = [], hqPath = ''c'', hqFresh = ''q''\<rparr>"

definition wcDB :: cameraDB where "wcDB = wcStart\<lparr>cbCameras := [wcCamera]\<rparr>"

lemma wcDB_good: "uuidStable wcLib \<and> cameraInv wcLib wcDB"
  by (simp add: uuidStable_def wcLib_def wcDB_def wcStart_def cameraInv_def wcCamera_def validStatus_def maxInt64_def)

lemma wcApply:
  "applyUpdate (slLower wcLib) wcCamera wcUpdate = Some (wcCamera\<lparr>caName := ''m''\<rparr>, True)"
  using wcSerial by (simp add: applyUpdate_def wcUpdate_def wcCamera_def sameMutableState_def Let_def)

lemma wcUpdated: "\<exists>db1 x. UpdateCamera wcLib wcEnv wcUpdate wcDB = (db1, Inr x) \<and> caConfigVersion x = 2"
proof -
  have sel: "selectCameraForUpdate wcLib wcEnv ''t'' ''c'' wcDB = Inr (Some wcCamera)"
    by (simp add: selectCameraForUpdate_def wcSel cameraByID_def wcDB_def) (simp add: wcCamera_def)
  have cam: "caLifecycleStatus wcCamera \<noteq> ''retired''" "caConfigVersion wcCamera = 1" by (simp_all add: wcCamera_def)
  have cmd: "kuTenantID wcUpdate = ''t''" "kuCameraID wcUpdate = ''c''" "kuExpectedVersion wcUpdate = 1" by (simp_all add: wcUpdate_def)
  let ?w = "(wcCamera\<lparr>caName := ''m''\<rparr>)\<lparr>caConfigVersion := caConfigVersion wcCamera + 1, caUpdatedAt := stNow wcEnv\<rparr>"
  obtain rows h where "auditAppend (slAudit wcLib) (stAudit wcEnv) (stNow wcEnv)
      (cameraAudit wcLib ''t'' (kuActorID wcUpdate) ''camera.updated'' (kuRequestID wcUpdate) (klAny wcLib wcCamera) ?w (caUpdatedAt ?w)) (sdAudit wcDB) = Inr (rows, h)"
    using wcAudit [of _ "sdAudit wcDB"] unfolding wcSel(2) by blast
  then have "snd (writeCamera wcLib wcEnv ''t'' (kuActorID wcUpdate) (kuRequestID wcUpdate) ''camera.updated'' wcCamera (wcCamera\<lparr>caName := ''m''\<rparr>) wcDB) = Inr ?w"
    using cam(2) unfolding writeCamera_def Let_def by (simp add: wcSel(1) commitStore_def maxInt64_def)
  then have "snd (UpdateCamera wcLib wcEnv wcUpdate wcDB) = Inr ?w"
    using sel wcBegin cam cmd wcApply by (simp add: UpdateCamera_def)
  moreover have "caConfigVersion ?w = 2" using cam(2) by simp
  ultimately show ?thesis by (metis prod.collapse)
qed

text \<open>A loitering zone for people and cars, from the request to the two registries.\<close>

definition wzShapes :: shapeLib where
  "wzShapes = \<lparr>shShape = (\<lambda>b. Some (''Polygon'', b)),
     shRings = (\<lambda>b. Some [[[Fin 0, Fin 0], [Fin 1, Fin 0], [Fin 1, Fin 1], [Fin 0, Fin 0]]]), shLine = (\<lambda>b. None)\<rparr>"

definition wzLib :: "string zoneLib" where
  "wzLib = \<lparr>slSha = (\<lambda>x. replicate 32 CHR ''x''), slParses = (\<lambda>s. True), slUUID = Some, slJsonb = (\<lambda>b. b), slLower = (\<lambda>s. s), slUpper = (\<lambda>s. s),
     slAudit = wAuditLib, slNil = [], zlEncodeRequest = (\<lambda>x. Some []), zlEncode = (\<lambda>z. Some ''zone''), zlDecode = (\<lambda>b. None), zlAny = zoID\<rparr>"

definition wzBody :: createZoneRequest where
  "wzBody = \<lparr>czSiteID = ''s'', czCameraID = [], czFloor = [], czName = ''n'', czKind = '' loitering'', czGeometry = ''g'', czEnabled = None,
     czLoiterSeconds = Some 90, czSubjectClasses = [''person'', ''Car'']\<rparr>"

definition wzCommand :: CreateZoneCommand where
  "wzCommand = \<lparr>zcTenantID = ''t'', zcActorID = ''u'', zcRequestID = ''q'', zcIdempotencyKey = ''k'', zcSiteID = ''s'', zcCameraID = [], zcFloor = [],
     zcName = ''n'', zcKind = ''loitering'', zcGeometry = ''g'', zcEnabled = True, zcLoiterSeconds = Some 90, zcSubjectClasses = [''person'', ''Car'']\<rparr>"

definition wzStart :: zoneDB where
  "wzStart = \<lparr>sdTenants = (\<lambda>_. True), sdSites = sdSites wcStart, sdKeys = [], sdAudit = [], zbCameras = (\<lambda>_ _. False), zbZones = []\<rparr>"

lemma wzRoute: "(createZoneCommand wcHttp wzShapes (Some wcPrincipal) (wcRequest ''t'') (Some wzBody) :: Zone list reply + _) = Inr wzCommand"
  by code_simp

lemma wzMemory: "map (\<lambda>z. (zoLoiterSeconds z, zoSubjectClasses z))
    (zmZones (fst (MemoryCreateZone wzLib wcEnv wzCommand \<lparr>zmZones = [], zmKeys = Map.empty\<rparr>))) = [(Some 90, [''car'', ''person''])]"
  by code_simp

lemma wzCreated: "map zoID (zbZones (fst (CreateZone wzLib wcEnv wzCommand wzStart))) = [''c'']"
  by code_simp

lemma wzServed: "snd (runCalls (serveZone wcHttp wzShapes wzLib) [(\<lambda>_. wcEnv, Some wcPrincipal, wcRequest ''t'', RouteCreateZone (Some wzBody))] wzStart) =
    [Reply 201 [newZone wzLib wcEnv wzCommand] False]"
  by code_simp

section \<open>Properties\<close>

text \<open>A creation takes effect once per key. Of all calls in a day with one tenant and idempotency
  key, every accepted one after the first has the same request hash and repeats the first answer as
  a replay.\<close>

theorem camera_created_once:
  assumes "cameraCodec L" "keysOutlive horizon db" "\<And>x. x \<in> set calls \<Longrightarrow> withinDay horizon (fst x)" "i < j" "j < length calls"
    "(slUUID L (kcTenantID (snd (calls ! i))), kcIdempotencyKey (snd (calls ! i))) = (slUUID L (kcTenantID (snd (calls ! j))), kcIdempotencyKey (snd (calls ! j)))"
    "snd (runCalls (CreateCamera L) calls db) ! i = Inr x" "snd (runCalls (CreateCamera L) calls db) ! j = Inr y"
  shows "(case hashCreateCamera L (snd (calls ! j)) of Inl _ \<Rightarrow> [] | Inr h \<Rightarrow> h) = (case hashCreateCamera L (snd (calls ! i)) of Inl _ \<Rightarrow> [] | Inr h \<Rightarrow> h) \<and>
    snd y \<and> fst y = fst x"
proof -
  have eq: "CreateCamera L = (\<lambda>E c. keyedCreate L E (kcTenantID c) (kcIdempotencyKey c) None (hashCreateCamera L c) (decodeCamera L) (cameraWork L E c))"
    by (intro ext) (simp add: CreateCamera_def)
  show ?thesis
    using cameraCreate.keyed.accepted_once [of L horizon db calls i j x y, folded eq] assms by simp
qed

theorem camera_created_once_witness:
  "snd (runCalls (CreateCamera wcLib) [(wcEnv, wcCreate), (wcEnv, wcCreate)] wcStart) ! 1 = Inr (wcCamera, True)"
proof -
  obtain db where "CreateCamera wcLib wcEnv wcCreate wcStart = (db, Inr (wcCamera, False))" "CreateCamera wcLib wcEnv wcCreate db = (db, Inr (wcCamera, True))"
    using wcCreated by blast
  then have r: "snd (runCalls (CreateCamera wcLib) [(wcEnv, wcCreate), (wcEnv, wcCreate)] wcStart) = [Inr (wcCamera, False), Inr (wcCamera, True)]" by simp
  have day: "withinDay 6 (fst x)" if "x \<in> set [(wcEnv, wcCreate), (wcEnv, wcCreate)]" for x using that wcInv(5) by auto
  from camera_created_once [OF wcInv(3,4) day, of _ 0 1 "(wcCamera, False)" "(wcCamera, True)"] r show ?thesis by simp
qed

text \<open>C24: the life of cameras. From a well-formed registry every sequence of creations, updates and
  retirements keeps identifiers and serial numbers unique, states and versions valid, and each step
  is nothing or one change of one camera, along an allowed transition, to the next version, with one
  audit record; a retired camera never changes.\<close>

theorem camera_lifecycle:
  assumes "cameraInv L db0" "(cameraStep L)\<^sup>*\<^sup>* db0 db" "cameraStep L db db'"
  shows "cameraInv L db \<and> cameraChange db db' \<and> cameraInv L db'"
  using cameraSteps_inv [OF assms(2,1)] cameraStep_change [OF assms(3)] by blast

theorem camera_lifecycle_witness:
  "cameraChange wcStart (fst (CreateCamera wcLib wcEnv wcCreate wcStart)) \<and> cbCameras (fst (CreateCamera wcLib wcEnv wcCreate wcStart)) = [wcCamera]"
  using camera_lifecycle [OF wcInv(1) rtranclp.rtrancl_refl cameraStep.create, of wcEnv wcCreate] wcCreated by fastforce

text \<open>C23: no update is lost. Once an update has moved a camera to a new version, every later update of
  that camera that expects the old version is refused without effect, whatever happened in between.\<close>

theorem no_lost_camera_update:
  assumes "cameraInv L db" "UpdateCamera L E c db = (db1, Inr x)" "caConfigVersion x \<noteq> kuExpectedVersion c" "(cameraStep L)\<^sup>*\<^sup>* db1 db2"
    "slUUID L (kuCameraID c') = slUUID L (kuCameraID c)" "kuExpectedVersion c' = kuExpectedVersion c"
  shows "fst (UpdateCamera L E' c' db2) = db2 \<and> (\<forall>y. snd (UpdateCamera L E' c' db2) \<noteq> Inr y)"
proof -
  note change = UpdateCamera_change [OF assms(2)]
  from change obtain k where k: "slUUID L (kuCameraID c) = Some (caID k)" "caID x = caID k" "x \<in> set (cbCameras db1)"
    "caConfigVersion k = kuExpectedVersion c" and version: "x = k \<or> caConfigVersion x = caConfigVersion k + 1" by blast
  from version k(4) assms(3) have newer: "caConfigVersion x = caConfigVersion k + 1" by auto
  from change assms(1) have inv1: "cameraInv L db1" by blast
  obtain x' where x': "x' \<in> set (cbCameras db2)" "caID x' = caID x" "caConfigVersion x \<le> caConfigVersion x'"
    using cameraSteps_version [OF assms(4) inv1 k(3)] by blast
  have inv: "cameraInv L db2" by (rule cameraSteps_inv [OF assms(4) inv1])
  obtain db3 r where run: "UpdateCamera L E' c' db2 = (db3, r)" by force
  then show ?thesis
  proof (cases rule: UpdateCamera_cases)
    case (found tenant current nxt changed)
    from select_Some [OF found(2)] have "current \<in> set (cbCameras db2)" "caID current = caID x'" using assms(5) k(1,2) x'(2) by auto
    with camera_of_id [OF inv _ x'(1)] have "current = x'" by blast
    with found(4) assms(6) k(4) newer x'(3) show ?thesis by simp
  qed (simp add: run)
qed

theorem no_lost_camera_update_witness:
  "\<exists>db1 x. UpdateCamera wcLib wcEnv wcUpdate wcDB = (db1, Inr x) \<and> caConfigVersion x = 2 \<and> fst (UpdateCamera wcLib wcEnv wcUpdate db1) = db1 \<and>
     (\<forall>y. snd (UpdateCamera wcLib wcEnv wcUpdate db1) \<noteq> Inr y)"
proof -
  obtain db1 x where u: "UpdateCamera wcLib wcEnv wcUpdate wcDB = (db1, Inr x)" "caConfigVersion x = 2" using wcUpdated by blast
  have "caConfigVersion x \<noteq> kuExpectedVersion wcUpdate" using u(2) by (simp add: wcUpdate_def)
  from no_lost_camera_update [OF conjunct2 [OF wcDB_good] u(1) this rtranclp.rtrancl_refl refl refl, of wcEnv] u show ?thesis by blast
qed

text \<open>C36: zones are well formed. In every reachable PostgreSQL registry, whatever commands come and whatever
  fails, the identifiers are unique, the version lies between one and the largest 64-bit number, and every
  zone has one of the five kinds, a loitering time of 30 to 600 seconds exactly when it is a loitering
  zone, and sorted distinct subject classes among the seven known ones. The memory repository has no
  constraints, and its zones have the same shape in every history of commands of the creation route and of
  any updates. And the constraints are no stricter than the code: a command that the route accepts passes
  the checks of the repository, and its row the constraints on kind, loitering time and classes.\<close>

theorem zones_well_formed:
  assumes "hlUnicode H = slLower L"
  shows "(zoneReach L db \<longrightarrow> distinct (map zoID (zbZones db)) \<and>
      (\<forall>z \<in> set (zbZones db). zoneShape z \<and> 1 \<le> zoConfigVersion z \<and> zoConfigVersion z \<le> maxInt64)) \<and>
    (memoryZoneReach H S L m \<longrightarrow> (\<forall>z \<in> set (zmZones m). zoneShape z)) \<and>
    (createZoneCommand H S who r body = (Inr c :: Zone list reply + CreateZoneCommand) \<longrightarrow>
      zoneChecks L c = None \<and> zoneConstraints (newZone L E c))"
proof (intro conjI impI)
  assume "zoneReach L db"
  from zoneReach_inv [OF this] show "distinct (map zoID (zbZones db))"
    and "\<forall>z \<in> set (zbZones db). zoneShape z \<and> 1 \<le> zoConfigVersion z \<and> zoConfigVersion z \<le> maxInt64"
    by (auto simp: zoneInv_def)
next
  assume "memoryZoneReach H S L m"
  then show "\<forall>z \<in> set (zmZones m). zoneShape z" using memoryZoneReach_shape by blast
next
  assume route: "createZoneCommand H S who r body = (Inr c :: Zone list reply + CreateZoneCommand)"
  show checks: "zoneChecks L c = None" by (rule createZoneCommand_checked [OF route assms])
  show "zoneConstraints (newZone L E c)"
    by (intro zoneShape_constraints newZone_shape [OF checks createZoneCommand_kind [OF route]])
qed

theorem zones_well_formed_witness:
  "(\<exists>z. zbZones (fst (CreateZone wzLib wcEnv wzCommand wzStart)) = [z] \<and> zoneShape z \<and> 1 \<le> zoConfigVersion z) \<and>
   (\<exists>z. zmZones (fst (MemoryCreateZone wzLib wcEnv wzCommand \<lparr>zmZones = [], zmKeys = Map.empty\<rparr>)) = [z] \<and> zoneShape z \<and> zoLoiterSeconds z = Some 90) \<and>
   zoneConstraints (newZone wzLib wcEnv wzCommand)"
proof -
  have eq: "hlUnicode wcHttp = slLower wzLib" by (simp add: wcHttp_def wzLib_def)
  have reach: "zoneReach wzLib (fst (CreateZone wzLib wcEnv wzCommand wzStart))"
    "memoryZoneReach wcHttp wzShapes wzLib (fst (MemoryCreateZone wzLib wcEnv wzCommand \<lparr>zmZones = [], zmKeys = Map.empty\<rparr>))"
    by (rule zoneReach.create [OF zoneReach.start] memoryZoneReach.create [OF memoryZoneReach.start wzRoute], simp add: wzStart_def)+
  from zones_well_formed [OF eq, of "fst (CreateZone wzLib wcEnv wzCommand wzStart)" wzShapes
      "fst (MemoryCreateZone wzLib wcEnv wzCommand \<lparr>zmZones = [], zmKeys = Map.empty\<rparr>)" "Some wcPrincipal" "wcRequest ''t''" "Some wzBody" wzCommand wcEnv]
    reach wzRoute wzMemory wzCreated
  show ?thesis by (auto simp: map_eq_Cons_conv)
qed
text \<open>C5: the camera routes keep tenants and sites apart. In every history of requests, from any
  principals and in any order, the cameras of a site change only if some request came from a principal
  of its tenant who may write configuration and may access the site, and every camera that an answer
  newly shows belongs to the asking principal's tenant and to a site that principal may access.\<close>

theorem camera_routes_isolate:
  assumes "uuidStable L \<and> cameraInv L db"
  shows "((\<forall>E prin c. (E, Some prin, c) \<in> set calls \<longrightarrow> \<not> mayConfigure H L prin k) \<longrightarrow>
      camerasOf k (fst (runCalls (serveCamera H L) calls db)) = camerasOf k db) \<and>
    (\<forall>n x. n < length calls \<longrightarrow> x \<in> newRows (snd (runCalls (serveCamera H L) calls db) ! n) \<longrightarrow>
      (\<exists>prin. fst (snd (calls ! n)) = Some prin \<and> maySeeCamera H L prin x))"
proof (intro conjI allI impI)
  assume "\<forall>E prin c. (E, Some prin, c) \<in> set calls \<longrightarrow> \<not> mayConfigure H L prin k"
  then show "camerasOf k (fst (runCalls (serveCamera H L) calls db)) = camerasOf k db"
    by (intro cameraRoutes.isolation [OF assms]) blast
next
  fix n x
  assume "n < length calls" "x \<in> newRows (snd (runCalls (serveCamera H L) calls db) ! n)"
  then show "\<exists>prin. fst (snd (calls ! n)) = Some prin \<and> maySeeCamera H L prin x"
    by (rule cameraRoutes.confidentiality [OF assms])
qed

theorem camera_routes_isolate_witness:
  "camerasOf (''t'', ''s'') (fst (runCalls (serveCamera wcHttp wcLib) [(\<lambda>_. wcEnv, Some wcStranger, wcRequest ''x'', RouteRetireCamera)] wcDB)) =
     camerasOf (''t'', ''s'') wcDB \<and> maySeeCamera wcHttp wcLib wcPrincipal wcCamera"
proof -
  have no: "\<not> mayConfigure wcHttp wcLib wcStranger (''t'', ''s'')"
    by (simp add: mayConfigure_def wcStranger_def wcLib_def)
  have get: "snd (serveCamera wcHttp wcLib (\<lambda>_. wcEnv) (Some wcPrincipal, wcRequest ''t'', RouteGetCamera) wcDB) = Reply 200 [wcCamera] False"
  proof -
    have "trimSpace ''t'' = ''t''" by code_simp
    then have "(requestContext wcHttp CapabilityConfigRead True (Some wcPrincipal) (wcRequest ''t'') :: Camera list reply + _) = Inr (wcPrincipal, ''t'')"
      unfolding requestContext_def tenantContext_def requestTenant_def Let_def
      by (simp add: wcPrincipal_def wcRequest_def wcHttp_def Authorize_def HasScope_def capabilities mfaCapabilities_def dataClassCapabilities_def
          authorizeRoles_iff roleAllows_def seedRoles_def seedRoleList_def roles)
    moreover have "GetCamera wcLib wcEnv ''t'' ''c'' wcDB = Inr wcCamera"
      by (simp add: GetCamera_def wcBegin selectCameraForUpdate_def wcSel cameraByID_def wcDB_def) (simp add: wcCamera_def)
    moreover have "CanAccessSite (\<lambda>s. s) wcPrincipal ''t'' (caSiteID wcCamera)"
      by (simp add: CanAccessSite_def HasRole_def HasSite_def wcPrincipal_def wcCamera_def roles)
    ultimately show ?thesis
      by (simp add: serveCamera_def getCamera_def contexts authorizedCamera_def) (simp add: wcHttp_def wcRequest_def)
  qed
  have "maySeeCamera wcHttp wcLib wcPrincipal wcCamera"
    using conjunct2 [OF camera_routes_isolate [OF wcDB_good, of "[(\<lambda>_. wcEnv, Some wcPrincipal, wcRequest ''t'', RouteGetCamera)]" wcHttp]] get
    by (auto split: prod.splits)
  moreover have "camerasOf (''t'', ''s'') (fst (runCalls (serveCamera wcHttp wcLib) [(\<lambda>_. wcEnv, Some wcStranger, wcRequest ''x'', RouteRetireCamera)] wcDB)) =
     camerasOf (''t'', ''s'') wcDB"
    using conjunct1 [OF camera_routes_isolate [OF wcDB_good, of "[(\<lambda>_. wcEnv, Some wcStranger, wcRequest ''x'', RouteRetireCamera)]" wcHttp "(''t'', ''s'')"]] no
    by auto
  ultimately show ?thesis by blast
qed

text \<open>C29: the zone routes keep tenants and sites apart. In every history of requests, from any principals and in
  any order, the zones of a site change only if some request came from a principal of its tenant who may
  write configuration and may reach the site, and every zone that an answer newly shows belongs to the asking
  principal's tenant and to a site that principal may reach: a site that \<open>CanAccessSite\<close> grants, or the
  trimmed or canonical text of one, since the creation asks for the site as it was sent and stores it trimmed.\<close>

theorem zone_routes_isolate:
  assumes "uuidStable L \<and> zoneInv db"
  shows "((\<forall>E prin c. (E, Some prin, c) \<in> set calls \<longrightarrow> \<not> mayConfigureZone H L prin k) \<longrightarrow>
      zonesOf k (fst (runCalls (serveZone H S L) calls db)) = zonesOf k db) \<and>
    (\<forall>n x. n < length calls \<longrightarrow> x \<in> newRows (snd (runCalls (serveZone H S L) calls db) ! n) \<longrightarrow>
      (\<exists>prin. fst (snd (calls ! n)) = Some prin \<and> maySeeZone H L prin x))"
proof (intro conjI allI impI)
  assume "\<forall>E prin c. (E, Some prin, c) \<in> set calls \<longrightarrow> \<not> mayConfigureZone H L prin k"
  then show "zonesOf k (fst (runCalls (serveZone H S L) calls db)) = zonesOf k db"
    by (intro zoneRoutes.isolation [OF assms]) blast
next
  fix n x
  assume "n < length calls" "x \<in> newRows (snd (runCalls (serveZone H S L) calls db) ! n)"
  then show "\<exists>prin. fst (snd (calls ! n)) = Some prin \<and> maySeeZone H L prin x"
    by (rule zoneRoutes.confidentiality [OF assms])
qed

theorem zone_routes_isolate_witness:
  "zonesOf (''t'', ''s'') (fst (runCalls (serveZone wcHttp wzShapes wzLib) [(\<lambda>_. wcEnv, Some wcStranger, wcRequest ''x'', RouteCreateZone (Some wzBody))] wzStart)) =
     zonesOf (''t'', ''s'') wzStart \<and>
   maySeeZone wcHttp wzLib wcPrincipal (newZone wzLib wcEnv wzCommand)"
proof -
  have good: "uuidStable wzLib \<and> zoneInv wzStart" by (simp add: uuidStable_def wzLib_def zoneInv_def wzStart_def)
  have no: "\<not> mayConfigureZone wcHttp wzLib wcStranger (''t'', ''s'')"
    by (simp add: mayConfigureZone_def wcStranger_def wzLib_def)
  have "maySeeZone wcHttp wzLib wcPrincipal (newZone wzLib wcEnv wzCommand)"
    using conjunct2 [OF zone_routes_isolate [OF good, where S = wzShapes and H = wcHttp and
          calls = "[(\<lambda>_. wcEnv, Some wcPrincipal, wcRequest ''t'', RouteCreateZone (Some wzBody))]"], unfolded wzServed] by simp
  moreover have "zonesOf (''t'', ''s'') (fst (runCalls (serveZone wcHttp wzShapes wzLib)
      [(\<lambda>_. wcEnv, Some wcStranger, wcRequest ''x'', RouteCreateZone (Some wzBody))] wzStart)) = zonesOf (''t'', ''s'') wzStart"
    using conjunct1 [OF zone_routes_isolate [OF good, of "[(\<lambda>_. wcEnv, Some wcStranger, wcRequest ''x'', RouteCreateZone (Some wzBody))]" wcHttp "(''t'', ''s'')"]] no
    by auto
  ultimately show ?thesis by blast
qed

end
