(* ===== verification/Mask_Requests.thy ===== *)
theory Mask_Requests
  imports Enrollment Mask_Release
begin

text \<open>
  The governance of privacy masks, \<open>backend/internal/privacymasks/repository.go\<close> and \<open>postgres_repository.go\<close> with
  the tables of migration \<open>000013\<close>: a mask is requested by one person and approved by two others.

  The interface \<open>dual_control\<close> is the rule of two further persons, as a law of single calls; its lemmas are about
  histories. Both repositories provide it.
\<close>

section \<open>Data\<close>

datatype maskRequestError =
    MaskNotFound | ErrRequesterCannotApprove | ErrAlreadyApproved | MaskInvalid | ErrReleaseNotAuthorized

definition StatusPending :: string where "StatusPending = ''pending''"
definition StatusApproved :: string where "StatusApproved = ''approved''"

record MaskApproval =
  maApproverID :: string
  maApprovedAt :: gotime

record MaskRequest =
  mrID :: string
  mrTenantID :: string
  mrSiteID :: string
  mrCameraID :: string
  mrName :: string
  mrGeometry :: bytes
  mrStatus :: string
  mrRequestedBy :: string
  mrRequestedAt :: gotime
  mrApprovals :: "MaskApproval list"

record CreateMaskCommand =
  mcTenantID :: string
  mcSiteID :: string
  mcCameraID :: string
  mcActorID :: string
  mcRequestID :: string
  mcName :: string
  mcGeometry :: bytes

record ApproveMaskCommand =
  mpTenantID :: string
  mpRequestID :: string
  mpActorID :: string
  mpAuditRequestID :: string

text \<open>
  The library: \<open>gvMask\<close> has what edge and control plane both call (\<open>uuid.Parse\<close>, JSON, SHA-256, Ed25519),
  \<open>gvKind\<close> is \<open>json.Unmarshal\<close> into the type of a geometry, \<open>gvText n\<close> the text that a \<open>varchar(n)\<close>
  column stores (nothing when it refuses the text) and \<open>gvObject\<close> tells JSON objects. \<open>gvUseColumn\<close> tells that the server runs
  with \<open>plpgsql.variable_conflict = use_column\<close>; PostgreSQL's default is \<open>error\<close>.
\<close>

record 'j governLib = "'j storeLib" +
  gvMask :: maskLib
  gvKind :: "bytes \<Rightarrow> string option"
  gvText :: "nat \<Rightarrow> string \<Rightarrow> string option"
  gvObject :: "bytes \<Rightarrow> bool"
  gvUseColumn :: bool
  gvAnyRequest :: "MaskRequest \<Rightarrow> 'j"

definition parsesUUID :: "('j, 'm) governLib_scheme \<Rightarrow> string \<Rightarrow> bool" where
  "parsesUUID L s \<longleftrightarrow> mlVersion (gvMask L) s \<noteq> None"

definition validateMaskCreate :: "('j, 'm) governLib_scheme \<Rightarrow> CreateMaskCommand \<Rightarrow> bool" where
  "validateMaskCreate L c \<longleftrightarrow>
     list_all (parsesUUID L) [mcTenantID c, mcSiteID c, mcCameraID c] \<and>
     trimSpace (mcActorID c) \<noteq> [] \<and> length (trimSpace (mcActorID c)) \<le> 128 \<and>
     length (trimSpace (mcName c)) \<noteq> 0 \<and> length (trimSpace (mcName c)) \<le> 120 \<and>
     length (mcGeometry c) \<noteq> 0 \<and> mlValid (gvMask L) (mcGeometry c) \<and> gvKind L (mcGeometry c) = Some ''Polygon''"

definition validateAuditRequestID :: "('j, 'm) governLib_scheme \<Rightarrow> string \<Rightarrow> bool" where
  "validateAuditRequestID L s \<longleftrightarrow> uuid4 (gvMask L) s"

definition validateMaskApprove :: "('j, 'm) governLib_scheme \<Rightarrow> ApproveMaskCommand \<Rightarrow> bool" where
  "validateMaskApprove L c \<longleftrightarrow>
     parsesUUID L (mpRequestID c) \<and> trimSpace (mpActorID c) \<noteq> [] \<and> length (trimSpace (mpActorID c)) \<le> 128 \<and>
     validateAuditRequestID L (mpAuditRequestID c)"

definition cloneRequest :: "MaskRequest \<Rightarrow> MaskRequest" where
  "cloneRequest r = r\<lparr>mrApprovals := sortSlice (\<lambda>a b. maApprovedAt a < maApprovedAt b) (mrApprovals r)\<rparr>"

section \<open>The memory repository\<close>

definition NewMaskMemory :: "MaskRequest list \<Rightarrow> MaskRequest list" where
  "NewMaskMemory seed = map cloneRequest seed"

fun findMask :: "MaskRequest list \<Rightarrow> string \<Rightarrow> string \<Rightarrow> nat option" where
  "findMask [] tenantID requestID = None"
| "findMask (r # rs) tenantID requestID =
     (if mrTenantID r = tenantID \<and> mrID r = requestID then Some 0 else map_option Suc (findMask rs tenantID requestID))"

definition MemoryCreateMask ::
  "('j, 'm) governLib_scheme \<Rightarrow> storeEnv \<Rightarrow> CreateMaskCommand \<Rightarrow> MaskRequest list \<Rightarrow>
     MaskRequest list \<times> (maskRequestError + MaskRequest)" where
  "MemoryCreateMask L E c rs =
     (if \<not> validateMaskCreate L c then (rs, Inl MaskInvalid)
      else
        let request = \<lparr>mrID = stID E, mrTenantID = mcTenantID c, mrSiteID = mcSiteID c, mrCameraID = mcCameraID c,
              mrName = trimSpace (mcName c), mrGeometry = mcGeometry c, mrStatus = StatusPending,
              mrRequestedBy = mcActorID c, mrRequestedAt = stNow E, mrApprovals = []\<rparr> in
        (rs @ [request], Inr (cloneRequest request)))"

definition MemoryGetMask :: "string \<Rightarrow> string \<Rightarrow> MaskRequest list \<Rightarrow> maskRequestError + MaskRequest" where
  "MemoryGetMask tenantID requestID rs =
     (case findMask rs tenantID requestID of None \<Rightarrow> Inl MaskNotFound | Some k \<Rightarrow> Inr (cloneRequest (rs ! k)))"

definition addApproval :: "string \<Rightarrow> gotime \<Rightarrow> MaskRequest \<Rightarrow> MaskRequest" where
  "addApproval actor now r =
     (let next = r\<lparr>mrApprovals := mrApprovals r @ [\<lparr>maApproverID = actor, maApprovedAt = now\<rparr>]\<rparr> in
      if length (mrApprovals next) = 2 then next\<lparr>mrStatus := StatusApproved\<rparr> else next)"

definition MemoryApproveMask ::
  "storeEnv \<Rightarrow> ApproveMaskCommand \<Rightarrow> MaskRequest list \<Rightarrow> MaskRequest list \<times> (maskRequestError + MaskRequest)" where
  "MemoryApproveMask E c rs =
     (case findMask rs (mpTenantID c) (mpRequestID c) of
        None \<Rightarrow> (rs, Inl MaskNotFound)
      | Some k \<Rightarrow>
          let request = rs ! k in
          if mpActorID c = mrRequestedBy request then (rs, Inl ErrRequesterCannotApprove)
          else if mpActorID c \<in> set (map maApproverID (mrApprovals request)) then (rs, Inr (cloneRequest request))
          else if mrStatus request = StatusApproved then (rs, Inl ErrAlreadyApproved)
          else
            let next = addApproval (mpActorID c) (stNow E) request in
            (rs[k := next], Inr (cloneRequest next)))"

section \<open>The PostgreSQL repository\<close>

record approvalRow =
  awTenant :: string
  awRequest :: string
  awApproval :: MaskApproval

text \<open>
  The rows of \<open>config.privacy_mask_requests\<close> carry no approvals. The column \<open>approved_at\<close>, which nothing reads,
  is left out. \<open>mbCameras\<close> tells the cameras of a tenant.
\<close>

record maskDB = enrollDB +
  mbCameras :: "string \<Rightarrow> string \<Rightarrow> bool"
  mbRequests :: "MaskRequest list"
  mbApprovals :: "approvalRow list"

definition siteExists :: "'d storeDB_scheme \<Rightarrow> string \<Rightarrow> string \<Rightarrow> bool" where
  "siteExists db tenant site \<longleftrightarrow> (\<exists>s \<in> set (sdSites db). siID s = site \<and> siTenantID s = tenant)"

text \<open>The \<open>INSERT\<close> with the keys and checks of the table.\<close>

definition insertMaskRequest ::
  "('j, 'm) governLib_scheme \<Rightarrow> storeEnv \<Rightarrow> string \<Rightarrow> MaskRequest \<Rightarrow> 'd maskDB_scheme \<Rightarrow> MaskRequest option" where
  "insertMaskRequest L E tenant request db =
     (case (slUUID L (mrID request), slUUID L (mrSiteID request), slUUID L (mrCameraID request), gvText L 120 (mrName request),
            gvText L 128 (mrRequestedBy request)) of
        (Some i, Some site, Some camera, Some name, Some requester) \<Rightarrow>
          if stFails E StInsert \<noteq> None \<or> i \<in> mrID ` set (mbRequests db) \<or> \<not> sdTenants db tenant \<or> \<not> siteExists db tenant site \<or>
             \<not> mbCameras db tenant camera \<or> \<not> gvObject L (mrGeometry request)
          then None
          else Some (request\<lparr>mrID := i, mrTenantID := tenant, mrSiteID := site, mrCameraID := camera, mrName := name,
                 mrGeometry := slJsonb L (mrGeometry request), mrRequestedBy := requester, mrApprovals := []\<rparr>)
      | _ \<Rightarrow> None)"

definition maskAudit :: "string \<Rightarrow> string \<Rightarrow> string \<Rightarrow> string \<Rightarrow> string \<Rightarrow> 'j \<Rightarrow> 'j \<Rightarrow> gotime \<Rightarrow> 'j AuditEvent" where
  "maskAudit tenant actor action i request before after occurred =
     \<lparr>aeTenantID = tenant, aeActorID = actor, aeAction = action, aeResourceType = ''privacy_mask_request'', aeResourceID = i,
      aeRequestID = request, aeBeforeState = before, aeAfterState = after, aeOccurredAt = occurred\<rparr>"

definition CreateMask ::
  "('j, 'm) governLib_scheme \<Rightarrow> storeEnv \<Rightarrow> CreateMaskCommand \<Rightarrow> 'd maskDB_scheme \<Rightarrow>
     'd maskDB_scheme \<times> (maskRequestError storeError + MaskRequest)" where
  "CreateMask L E c db =
     (if \<not> validateMaskCreate L c \<or> \<not> validateAuditRequestID L (mcRequestID c) then (db, Inl (Domain MaskInvalid))
      else
        (case beginStore L E (mcTenantID c) of
           Inl err \<Rightarrow> (db, Inl err)
         | Inr tenant \<Rightarrow>
             let request = \<lparr>mrID = stID E, mrTenantID = mcTenantID c, mrSiteID = mcSiteID c, mrCameraID = mcCameraID c,
                   mrName = trimSpace (mcName c), mrGeometry = mcGeometry c, mrStatus = StatusPending,
                   mrRequestedBy = trimSpace (mcActorID c), mrRequestedAt = stNow E, mrApprovals = []\<rparr> in
             (case insertMaskRequest L E tenant request db of
                None \<Rightarrow> (db, Inl (StDatabase StInsert))
              | Some row \<Rightarrow>
                  (case auditAppend (slAudit L) (stAudit E) (stNow E)
                      (maskAudit (mcTenantID c) (mcActorID c) ''privacy_mask.requested'' (mrID request) (mcRequestID c) (slNil L)
                        (gvAnyRequest L request) (stNow E)) (sdAudit db) of
                     Inl err \<Rightarrow> (db, Inl (StAuditError err))
                   | Inr (audit, _) \<Rightarrow>
                       commitStore E db (db\<lparr>mbRequests := mbRequests db @ [row], sdAudit := audit\<rparr>) (cloneRequest request)))))"

definition maskByID :: "'d maskDB_scheme \<Rightarrow> string \<Rightarrow> string \<Rightarrow> MaskRequest option" where
  "maskByID db tenant i = find (\<lambda>r. mrTenantID r = tenant \<and> mrID r = i) (mbRequests db)"

definition approvalsOf :: "'d maskDB_scheme \<Rightarrow> string \<Rightarrow> string \<Rightarrow> MaskApproval list" where
  "approvalsOf db tenant i = map awApproval (filter (\<lambda>a. awTenant a = tenant \<and> awRequest a = i) (mbApprovals db))"

text \<open>\<open>ORDER BY approved_at, approver_id\<close>.\<close>

definition orderApprovals :: "MaskApproval list \<Rightarrow> MaskApproval list" where
  "orderApprovals = sortSlice (\<lambda>a b. (maApprovedAt a, maApproverID a) < (maApprovedAt b, maApproverID b))"

definition loadRequest ::
  "('j, 'm) governLib_scheme \<Rightarrow> storeEnv \<Rightarrow> string \<Rightarrow> string \<Rightarrow> 'd maskDB_scheme \<Rightarrow> maskRequestError storeError + MaskRequest" where
  "loadRequest L E tenant requestID db =
     (case slUUID L requestID of
        None \<Rightarrow> Inl (StDatabase StRead)
      | Some i \<Rightarrow>
          if stFails E StRead \<noteq> None then Inl (StDatabase StRead)
          else (case maskByID db tenant i of None \<Rightarrow> Inl (Domain MaskNotFound) | Some r \<Rightarrow> Inr r))"

definition loadApprovals ::
  "('j, 'm) governLib_scheme \<Rightarrow> storeEnv \<Rightarrow> string \<Rightarrow> string \<Rightarrow> 'd maskDB_scheme \<Rightarrow> maskRequestError storeError + MaskApproval list" where
  "loadApprovals L E tenant requestID db =
     (case slUUID L requestID of
        None \<Rightarrow> Inl (StDatabase StApprovals)
      | Some i \<Rightarrow>
          if stFails E StApprovals \<noteq> None then Inl (StDatabase StApprovals)
          else Inr (orderApprovals (approvalsOf db tenant i)))"

text \<open>Both reads, with the approvals put into the request.\<close>

definition readMask ::
  "('j, 'm) governLib_scheme \<Rightarrow> storeEnv \<Rightarrow> string \<Rightarrow> string \<Rightarrow> 'd maskDB_scheme \<Rightarrow> maskRequestError storeError + MaskRequest" where
  "readMask L E tenant requestID db =
     (case loadRequest L E tenant requestID db of
        Inl err \<Rightarrow> Inl err
      | Inr request \<Rightarrow>
          (case loadApprovals L E tenant requestID db of
             Inl err \<Rightarrow> Inl err
           | Inr approvals \<Rightarrow> Inr (request\<lparr>mrApprovals := approvals\<rparr>)))"

definition GetMask ::
  "('j, 'm) governLib_scheme \<Rightarrow> storeEnv \<Rightarrow> string \<Rightarrow> string \<Rightarrow> 'd maskDB_scheme \<Rightarrow> maskRequestError storeError + MaskRequest" where
  "GetMask L E tenantID requestID db =
     (case beginStore L E tenantID of
        Inl err \<Rightarrow> Inl err
      | Inr tenant \<Rightarrow>
          (case readMask L E tenant requestID db of
             Inl err \<Rightarrow> Inl err
           | Inr request \<Rightarrow> if stFails E StCommit \<noteq> None then Inl (StDatabase StCommit) else Inr (cloneRequest request)))"

text \<open>The insertion of an approval and, with the second one, the new status.\<close>

definition writeApproval ::
  "('j, 'm) governLib_scheme \<Rightarrow> storeEnv \<Rightarrow> ApproveMaskCommand \<Rightarrow> string \<Rightarrow> MaskRequest \<Rightarrow> 'd maskDB_scheme \<Rightarrow>
     'd maskDB_scheme \<times> (maskRequestError storeError + MaskRequest)" where
  "writeApproval L E c tenant current db =
     (case gvText L 128 (mpActorID c) of
        None \<Rightarrow> (db, Inl (StDatabase StInsert))
      | Some approver \<Rightarrow>
          if stFails E StInsert \<noteq> None \<or> (\<exists>a \<in> set (mbApprovals db). awRequest a = mrID current \<and> maApproverID (awApproval a) = approver)
          then (db, Inl (StDatabase StInsert))
          else
            let next = addApproval (mpActorID c) (stNow E) (cloneRequest current);
                row = \<lparr>awTenant = tenant, awRequest = mrID current,
                  awApproval = \<lparr>maApproverID = approver, maApprovedAt = stNow E\<rparr>\<rparr>;
                final = (length (mrApprovals next) = 2) in
            if final \<and> stFails E StUpdate \<noteq> None then (db, Inl (StDatabase StUpdate))
            else
              (case auditAppend (slAudit L) (stAudit E) (stNow E)
                  (maskAudit (mpTenantID c) (mpActorID c) ''privacy_mask.approval.recorded'' (mpRequestID c) (mpAuditRequestID c)
                    (gvAnyRequest L current) (gvAnyRequest L next) (stNow E)) (sdAudit db) of
                 Inl err \<Rightarrow> (db, Inl (StAuditError err))
               | Inr (audit, _) \<Rightarrow>
                   commitStore E db
                     (db\<lparr>mbApprovals := mbApprovals db @ [row],
                        mbRequests := (if final then map (\<lambda>r. if mrTenantID r = tenant \<and> mrID r = mrID current
                            then r\<lparr>mrStatus := StatusApproved\<rparr> else r) (mbRequests db) else mbRequests db),
                        sdAudit := audit\<rparr>)
                     (cloneRequest next)))"

definition ApproveMask ::
  "('j, 'm) governLib_scheme \<Rightarrow> storeEnv \<Rightarrow> ApproveMaskCommand \<Rightarrow> 'd maskDB_scheme \<Rightarrow>
     'd maskDB_scheme \<times> (maskRequestError storeError + MaskRequest)" where
  "ApproveMask L E c db =
     (if \<not> validateMaskApprove L c then (db, Inl (Domain MaskInvalid))
      else
        (case beginStore L E (mpTenantID c) of
           Inl err \<Rightarrow> (db, Inl err)
         | Inr tenant \<Rightarrow>
             (case readMask L E tenant (mpRequestID c) db of
                Inl err \<Rightarrow> (db, Inl err)
              | Inr current \<Rightarrow>
                  if mpActorID c = mrRequestedBy current then (db, Inl (Domain ErrRequesterCannotApprove))
                  else if mpActorID c \<in> set (map maApproverID (mrApprovals current)) then commitStore E db db (cloneRequest current)
                  else if mrStatus current = StatusApproved \<or> length (mrApprovals current) \<ge> 2 then (db, Inl (Domain ErrAlreadyApproved))
                  else writeApproval L E c tenant current db)))"

end
