(* ===== verification/Mask_Governance.thy ===== *)
theory Mask_Governance
  imports Mask_Requests Idempotency
begin

text \<open>
  The rule of two further persons. The interface \<open>dual_control\<close> has it as a law of single calls and proves it of
  whole histories; the memory and the PostgreSQL repository of mask requests provide it.
\<close>

section \<open>The interface\<close>

text \<open>A request, its approvers and whether it is approved, under the rule.\<close>

definition dualControlled :: "string option \<Rightarrow> string list \<Rightarrow> bool \<Rightarrow> bool" where
  "dualControlled requester approvers approved \<longleftrightarrow>
     (case requester of
        None \<Rightarrow> approvers = [] \<and> \<not> approved
      | Some p \<Rightarrow> p \<notin> set approvers \<and> distinct approvers \<and> length approvers \<le> 2 \<and> (approved \<longleftrightarrow> length approvers = 2))"

locale dual_control =
  fixes act :: "'e \<Rightarrow> 'c \<Rightarrow> 's \<Rightarrow> 's \<times> 'r"
    and actorOf :: "'c \<Rightarrow> string"
    and requester :: "'s \<Rightarrow> 'k \<Rightarrow> string option"
    and approvers :: "'s \<Rightarrow> 'k \<Rightarrow> string list"
    and approved :: "'s \<Rightarrow> 'k \<Rightarrow> bool"
    and admitted :: "'c \<Rightarrow> bool"
    and good :: "'s \<Rightarrow> bool"
  assumes keeps: "good s \<Longrightarrow> admitted c \<Longrightarrow> act e c s = (s', r) \<Longrightarrow> good s'"
    and moves: "good s \<Longrightarrow> admitted c \<Longrightarrow> act e c s = (s', r) \<Longrightarrow>
      (requester s' k = requester s k \<and> approvers s' k = approvers s k \<and> approved s' k = approved s k) \<or>
      (requester s k = None \<and> requester s' k = Some (actorOf c) \<and> approvers s' k = [] \<and> \<not> approved s' k) \<or>
      (\<exists>p. requester s k = Some p \<and> requester s' k = Some p \<and> actorOf c \<noteq> p \<and> actorOf c \<notin> set (approvers s k) \<and> \<not> approved s k \<and>
         approvers s' k = approvers s k @ [actorOf c] \<and> (approved s' k \<longleftrightarrow> length (approvers s' k) = 2))"
begin

lemma step_controlled:
  assumes "good s" "admitted c" "act e c s = (s', r)" "dualControlled (requester s k) (approvers s k) (approved s k)"
  shows "dualControlled (requester s' k) (approvers s' k) (approved s' k)"
  using moves [OF assms(1-3), of k] assms(4)
  by (elim disjE exE conjE) (auto simp: dualControlled_def split: option.splits)

text \<open>The rule holds after every history, and everyone involved has made a call.\<close>

lemma history_controlled:
  assumes "good s" "\<And>x. x \<in> set calls \<Longrightarrow> admitted (snd x)" "\<And>k. dualControlled (requester s k) (approvers s k) (approved s k)"
  shows "good (fst (runCalls act calls s)) \<and>
    (\<forall>k. dualControlled (requester (fst (runCalls act calls s)) k) (approvers (fst (runCalls act calls s)) k) (approved (fst (runCalls act calls s)) k))"
proof (rule runCalls_invariant [where I = "\<lambda>s'. good s' \<and> (\<forall>k. dualControlled (requester s' k) (approvers s' k) (approved s' k))"])
  fix e c s s' r
  assume "(e, c) \<in> set calls" "good s \<and> (\<forall>k. dualControlled (requester s k) (approvers s k) (approved s k))" "act e c s = (s', r)"
  with assms(2) keeps step_controlled show "good s' \<and> (\<forall>k. dualControlled (requester s' k) (approvers s' k) (approved s' k))" by fastforce
qed (use assms in simp)

lemma involved:
  assumes "good s" "\<And>x. x \<in> set calls \<Longrightarrow> admitted (snd x)"
  shows "set_option (requester (fst (runCalls act calls s)) k) \<union> set (approvers (fst (runCalls act calls s)) k) \<subseteq>
    set_option (requester s k) \<union> set (approvers s k) \<union> actorOf ` snd ` set calls"
proof -
  let ?all = "set_option (requester s k) \<union> set (approvers s k) \<union> actorOf ` snd ` set calls"
  have "good (fst (runCalls act calls s)) \<and> set_option (requester (fst (runCalls act calls s)) k) \<union> set (approvers (fst (runCalls act calls s)) k) \<subseteq> ?all"
  proof (rule runCalls_invariant [where I = "\<lambda>s'. good s' \<and> set_option (requester s' k) \<union> set (approvers s' k) \<subseteq> ?all"])
    fix e c s1 s2 r
    assume c: "(e, c) \<in> set calls" and old: "good s1 \<and> set_option (requester s1 k) \<union> set (approvers s1 k) \<subseteq> ?all" and run: "act e c s1 = (s2, r)"
    have adm: "admitted c" using assms(2) [OF c] by simp
    have "actorOf c \<in> ?all" using c by force
    moreover have "set_option (requester s2 k) \<union> set (approvers s2 k) \<subseteq> insert (actorOf c) (set_option (requester s1 k) \<union> set (approvers s1 k))"
      using moves [OF conjunct1 [OF old] adm run, of k] by (elim disjE exE conjE) auto
    ultimately have "set_option (requester s2 k) \<union> set (approvers s2 k) \<subseteq> ?all" using conjunct2 [OF old] by blast
    then show "good s2 \<and> set_option (requester s2 k) \<union> set (approvers s2 k) \<subseteq> ?all"
      using keeps [OF conjunct1 [OF old] adm run] by simp
  qed (use assms in auto)
  then show ?thesis by simp
qed

text \<open>So an approval is the work of three different persons.\<close>

lemma three_persons:
  assumes "good s" "\<And>x. x \<in> set calls \<Longrightarrow> admitted (snd x)" "\<And>k. requester s k = None \<and> approvers s k = [] \<and> \<not> approved s k"
    "approved (fst (runCalls act calls s)) k"
  obtains p a b where "requester (fst (runCalls act calls s)) k = Some p" "approvers (fst (runCalls act calls s)) k = [a, b]"
    "distinct [p, a, b]" "{p, a, b} \<subseteq> actorOf ` snd ` set calls"
proof -
  let ?s = "fst (runCalls act calls s)"
  have "dualControlled (requester ?s k) (approvers ?s k) (approved ?s k)"
    using history_controlled [OF assms(1,2)] assms(3) by (simp add: dualControlled_def)
  with assms(4) obtain p where p: "requester ?s k = Some p" "p \<notin> set (approvers ?s k)" "distinct (approvers ?s k)" "length (approvers ?s k) = 2"
    by (auto simp: dualControlled_def split: option.splits)
  then obtain a b where ab: "approvers ?s k = [a, b]" by (auto simp: numeral_2_eq_2 length_Suc_conv)
  have "{p, a, b} \<subseteq> actorOf ` snd ` set calls"
    using involved [OF assms(1,2), of calls k] assms(3) [of k] p(1) ab by auto
  with p ab show thesis by (intro that [of p a b]) auto
qed

text \<open>What is approved stays as it was approved.\<close>

lemma settled:
  assumes "good s" "\<And>x. x \<in> set calls \<Longrightarrow> admitted (snd x)" "dualControlled (requester s k) (approvers s k) (approved s k)" "approved s k"
  shows "requester (fst (runCalls act calls s)) k = requester s k \<and> approvers (fst (runCalls act calls s)) k = approvers s k \<and>
    approved (fst (runCalls act calls s)) k"
proof -
  let ?I = "\<lambda>s'. good s' \<and> requester s' k = requester s k \<and> approvers s' k = approvers s k \<and> approved s' k"
  have some: "requester s k \<noteq> None" using assms(3,4) by (auto simp: dualControlled_def split: option.splits)
  have "?I (fst (runCalls act calls s))"
  proof (rule runCalls_invariant [where I = ?I])
    fix e c s1 s2 r
    assume "(e, c) \<in> set calls" "?I s1" "act e c s1 = (s2, r)"
    then show "?I s2" using moves [of s1 c e s2 r k] keeps [of s1 c e s2 r] assms(2) some by fastforce
  qed (use assms in simp)
  then show ?thesis by simp
qed

end

section \<open>The memory repository\<close>

datatype maskCall = MaskCreate CreateMaskCommand | MaskApprove ApproveMaskCommand

fun maskActor :: "maskCall \<Rightarrow> string" where
  "maskActor (MaskCreate c) = mcActorID c"
| "maskActor (MaskApprove c) = mpActorID c"

fun memoryMask :: "('j, 'm) governLib_scheme \<Rightarrow> storeEnv \<Rightarrow> maskCall \<Rightarrow> MaskRequest list \<Rightarrow>
    MaskRequest list \<times> (maskRequestError + MaskRequest)" where
  "memoryMask L E (MaskCreate c) rs = MemoryCreateMask L E c rs"
| "memoryMask L E (MaskApprove c) rs = MemoryApproveMask E c rs"

definition memoryRequest :: "MaskRequest list \<Rightarrow> string \<times> string \<Rightarrow> MaskRequest option" where
  "memoryRequest rs k = find (\<lambda>r. mrTenantID r = fst k \<and> mrID r = snd k) rs"

lemma findMask_Some:
  "findMask rs t i = Some n \<Longrightarrow> n < length rs \<and> memoryRequest rs (t, i) = Some (rs ! n) \<and> mrTenantID (rs ! n) = t \<and> mrID (rs ! n) = i"
  by (induction rs arbitrary: n) (auto simp: memoryRequest_def split: if_splits)

lemma memoryRequest_update:
  assumes "findMask rs t i = Some n" "mrTenantID r = t" "mrID r = i"
  shows "memoryRequest (rs[n := r]) k = (if k = (t, i) then Some r else memoryRequest rs k)"
  using assms
proof (induction rs arbitrary: n)
  case (Cons x rs)
  then show ?case by (cases k) (auto simp: memoryRequest_def split: if_splits)
qed simp

lemma addApproval_sel [simp]:
  "mrTenantID (addApproval a t r) = mrTenantID r" "mrID (addApproval a t r) = mrID r" "mrRequestedBy (addApproval a t r) = mrRequestedBy r"
  "mrApprovals (addApproval a t r) = mrApprovals r @ [\<lparr>maApproverID = a, maApprovedAt = t\<rparr>]"
  "mrStatus (addApproval a t r) = (if length (mrApprovals r) = 1 then StatusApproved else mrStatus r)"
  by (auto simp: addApproval_def Let_def)

lemma memoryMask_moves:
  assumes "memoryMask L E c rs = (rs', res)"
  shows "memoryRequest rs' k = memoryRequest rs k \<or>
    (memoryRequest rs k = None \<and> (\<exists>r. memoryRequest rs' k = Some r \<and> mrRequestedBy r = maskActor c \<and> mrApprovals r = [] \<and> mrStatus r = StatusPending)) \<or>
    (\<exists>r t. memoryRequest rs k = Some r \<and> maskActor c \<noteq> mrRequestedBy r \<and> maskActor c \<notin> set (map maApproverID (mrApprovals r)) \<and>
       mrStatus r \<noteq> StatusApproved \<and> memoryRequest rs' k = Some (addApproval (maskActor c) t r))"
proof (cases c)
  case (MaskCreate d)
  then show ?thesis using assms
    by (auto simp: MemoryCreateMask_def memoryRequest_def find_snoc Let_def split: if_splits option.splits)
next
  case (MaskApprove d)
  show ?thesis
  proof (cases "findMask rs (mpTenantID d) (mpRequestID d)")
    case (Some n)
    note f = findMask_Some [OF Some]
    have "rs' = rs \<or> (mpActorID d \<noteq> mrRequestedBy (rs ! n) \<and> mpActorID d \<notin> set (map maApproverID (mrApprovals (rs ! n))) \<and>
        mrStatus (rs ! n) \<noteq> StatusApproved \<and> rs' = rs[n := addApproval (mpActorID d) (stNow E) (rs ! n)])"
      using assms Some by (auto simp: MaskApprove MemoryApproveMask_def Let_def split: if_splits)
    then show ?thesis
      using memoryRequest_update [OF Some, of "addApproval (mpActorID d) (stNow E) (rs ! n)" k] f
      by (cases "k = (mpTenantID d, mpRequestID d)") (auto simp: MaskApprove)
  qed (use assms in \<open>simp add: MaskApprove MemoryApproveMask_def\<close>)
qed

interpretation memoryControl: dual_control "memoryMask L" maskActor "\<lambda>rs k. map_option mrRequestedBy (memoryRequest rs k)"
  "\<lambda>rs k. case memoryRequest rs k of None \<Rightarrow> [] | Some r \<Rightarrow> map maApproverID (mrApprovals r)"
  "\<lambda>rs k. case memoryRequest rs k of None \<Rightarrow> False | Some r \<Rightarrow> mrStatus r = StatusApproved" "\<lambda>c. True" "\<lambda>rs. True" for L
proof (unfold_locales, goal_cases)
  case (2 rs c E rs' res k)
  from memoryMask_moves [OF 2(3), of k] show ?case
    by (elim disjE exE conjE) (auto simp: StatusPending_def StatusApproved_def)
qed simp

section \<open>The PostgreSQL repository\<close>

text \<open>
  What the repository relies on: a \<open>varchar(n)\<close> column stores a text of at most n bytes that neither begins nor ends
  with white space unchanged, or refuses it (\<open>gvText\<close>).
\<close>

definition textKept :: "('j, 'm) governLib_scheme \<Rightarrow> bool" where
  "textKept L \<longleftrightarrow> (\<forall>n s t. gvText L n s = Some t \<longrightarrow> trimSpace s = s \<longrightarrow> length s \<le> n \<longrightarrow> t = s)"

text \<open>The foreign key of the approvals.\<close>

definition maskGood :: "'d maskDB_scheme \<Rightarrow> bool" where
  "maskGood db \<longleftrightarrow> (\<forall>a \<in> set (mbApprovals db). maskByID db (awTenant a) (awRequest a) \<noteq> None)"

fun postgresMask :: "('j, 'm) governLib_scheme \<Rightarrow> storeEnv \<Rightarrow> maskCall \<Rightarrow> 'd maskDB_scheme \<Rightarrow>
    'd maskDB_scheme \<times> (maskRequestError storeError + MaskRequest)" where
  "postgresMask L E (MaskCreate c) db = CreateMask L E c db"
| "postgresMask L E (MaskApprove c) db = ApproveMask L E c db"

lemma insertMaskRequest_Some:
  assumes "insertMaskRequest L E tenant request db = Some row"
  shows "gvText L 128 (mrRequestedBy request) = Some (mrRequestedBy row) \<and> mrID row \<notin> mrID ` set (mbRequests db) \<and>
    mrTenantID row = tenant \<and> mrStatus row = mrStatus request"
  using assms by (auto simp: insertMaskRequest_def split: option.splits if_splits)

lemma CreateMask_cases:
  assumes "CreateMask L E c db = (db', res)"
  obtains (none) "db' = db"
    | (new) row where "mbRequests db' = mbRequests db @ [row]" "mbApprovals db' = mbApprovals db" "mrID row \<notin> mrID ` set (mbRequests db)"
        "gvText L 128 (trimSpace (mcActorID c)) = Some (mrRequestedBy row)" "mrStatus row = StatusPending"
        "length (trimSpace (mcActorID c)) \<le> 128" "\<exists>audit. db' = db\<lparr>mbRequests := mbRequests db @ [row], sdAudit := audit\<rparr>"
proof -
  let ?request = "\<lparr>mrID = stID E, mrTenantID = mcTenantID c, mrSiteID = mcSiteID c, mrCameraID = mcCameraID c, mrName = trimSpace (mcName c),
    mrGeometry = mcGeometry c, mrStatus = StatusPending, mrRequestedBy = trimSpace (mcActorID c), mrRequestedAt = stNow E, mrApprovals = []\<rparr>"
  define request where "request = ?request"
  have fields: "mrRequestedBy request = trimSpace (mcActorID c)" "mrStatus request = StatusPending" by (simp_all add: request_def)
  consider "db' = db"
    | tenant row audit x where "insertMaskRequest L E tenant request db = Some row" "validateMaskCreate L c"
        "commitStore E db (db\<lparr>mbRequests := mbRequests db @ [row], sdAudit := audit\<rparr>) x = (db', res)"
    using assms unfolding CreateMask_def Let_def request_def [symmetric]
    by (auto split: if_splits sum.splits option.splits prod.splits)
  then show thesis
  proof cases
    case (2 tenant row audit x)
    note ins = insertMaskRequest_Some [OF 2(1)]
    from commitStore_cases [OF 2(3)] consider "db' = db" | "db' = db\<lparr>mbRequests := mbRequests db @ [row], sdAudit := audit\<rparr>" by blast
    then show thesis using none new [of row] ins 2(2) fields by cases (auto simp: validateMaskCreate_def)
  qed (use none in simp)
qed

lemma readMask_Inr:
  assumes "readMask L E tenant requestID db = Inr current"
  obtains request where "maskByID db tenant (mrID current) = Some request" "slUUID L requestID = Some (mrID current)"
    "current = request\<lparr>mrApprovals := orderApprovals (approvalsOf db tenant (mrID current))\<rparr>"
proof -
  from assms obtain request i where r: "slUUID L requestID = Some i" "maskByID db tenant i = Some request"
      "current = request\<lparr>mrApprovals := orderApprovals (approvalsOf db tenant i)\<rparr>"
    by (auto simp: readMask_def loadRequest_def loadApprovals_def split: sum.splits option.splits if_splits)
  have "mrID current = i" using r by (auto simp: maskByID_def find_Some_iff)
  with r show thesis by (intro that [of request]) simp_all
qed

lemma length_sortSlice [simp]: "length (sortSlice lt xs) = length xs"
  by (rule mset_eq_length) simp

lemma orderApprovals_sel [simp]: "set (orderApprovals as) = set as" "length (orderApprovals as) = length as"
  by (simp_all add: orderApprovals_def)

lemma cloneRequest_sel [simp]: "length (mrApprovals (cloneRequest r)) = length (mrApprovals r)" "mrID (cloneRequest r) = mrID r"
  "mrStatus (cloneRequest r) = mrStatus r"
  by (simp_all add: cloneRequest_def)

text \<open>An approval through the repository: who may give it, and what it writes.\<close>

lemma writeApproval_cases:
  assumes "writeApproval L E c tenant current db = (db', res)"
  obtains (none) "db' = db"
    | (new) approver audit where "gvText L 128 (mpActorID c) = Some approver"
        "\<forall>a \<in> set (mbApprovals db). \<not> (awRequest a = mrID current \<and> maApproverID (awApproval a) = approver)"
        "db' = db\<lparr>mbApprovals := mbApprovals db @ [\<lparr>awTenant = tenant, awRequest = mrID current,
             awApproval = \<lparr>maApproverID = approver, maApprovedAt = stNow E\<rparr>\<rparr>],
           mbRequests := (if length (mrApprovals current) = 1 then map (\<lambda>r. if mrTenantID r = tenant \<and> mrID r = mrID current
               then r\<lparr>mrStatus := StatusApproved\<rparr> else r) (mbRequests db) else mbRequests db), sdAudit := audit\<rparr>"
proof -
  let ?final = "length (mrApprovals (addApproval (mpActorID c) (stNow E) (cloneRequest current))) = 2"
  have final: "?final \<longleftrightarrow> length (mrApprovals current) = 1" by simp
  let ?row = "\<lambda>approver. \<lparr>awTenant = tenant, awRequest = mrID current, awApproval = \<lparr>maApproverID = approver, maApprovedAt = stNow E\<rparr>\<rparr>"
  let ?rs = "if ?final then map (\<lambda>r. if mrTenantID r = tenant \<and> mrID r = mrID current then r\<lparr>mrStatus := StatusApproved\<rparr> else r) (mbRequests db)
    else mbRequests db"
  consider "db' = db"
    | approver audit x where "gvText L 128 (mpActorID c) = Some approver"
        "\<not> (\<exists>a \<in> set (mbApprovals db). awRequest a = mrID current \<and> maApproverID (awApproval a) = approver)"
        "commitStore E db (db\<lparr>mbApprovals := mbApprovals db @ [?row approver], mbRequests := ?rs, sdAudit := audit\<rparr>) x = (db', res)"
    using assms unfolding writeApproval_def Let_def
    by (force split: option.splits if_split_asm sum.splits prod.splits)
  then show thesis
  proof cases
    case (2 approver audit x)
    from commitStore_cases [OF 2(3)] consider "db' = db"
      | "db' = db\<lparr>mbApprovals := mbApprovals db @ [?row approver], mbRequests := ?rs, sdAudit := audit\<rparr>" by blast
    then show thesis using none new [of approver audit] 2(1,2) unfolding final by cases auto
  qed (use none in simp)
qed


lemma ApproveMask_cases:
  assumes "ApproveMask L E c db = (db', res)"
  obtains (none) "db' = db"
    | (new) tenant request approver audit where "slUUID L (mpRequestID c) = Some (mrID request)"
        "maskByID db tenant (mrID request) = Some request" "mpActorID c \<noteq> mrRequestedBy request"
        "mpActorID c \<notin> set (map maApproverID (approvalsOf db tenant (mrID request)))" "mrStatus request \<noteq> StatusApproved"
        "length (approvalsOf db tenant (mrID request)) < 2" "length (trimSpace (mpActorID c)) \<le> 128" "gvText L 128 (mpActorID c) = Some approver"
        "\<forall>a \<in> set (mbApprovals db). \<not> (awRequest a = mrID request \<and> maApproverID (awApproval a) = approver)"
        "db' = db\<lparr>mbApprovals := mbApprovals db @ [\<lparr>awTenant = tenant, awRequest = mrID request,
             awApproval = \<lparr>maApproverID = approver, maApprovedAt = stNow E\<rparr>\<rparr>],
           mbRequests := (if length (approvalsOf db tenant (mrID request)) = 1 then map (\<lambda>r. if mrTenantID r = tenant \<and> mrID r = mrID request
               then r\<lparr>mrStatus := StatusApproved\<rparr> else r) (mbRequests db) else mbRequests db), sdAudit := audit\<rparr>"
proof -
  consider "db' = db"
    | tenant current where "validateMaskApprove L c" "readMask L E tenant (mpRequestID c) db = Inr current" "mpActorID c \<noteq> mrRequestedBy current"
        "mpActorID c \<notin> set (map maApproverID (mrApprovals current))" "mrStatus current \<noteq> StatusApproved" "length (mrApprovals current) < 2"
        "writeApproval L E c tenant current db = (db', res)"
    using assms unfolding ApproveMask_def commitStore_def
    by (auto split: if_split_asm sum.split_asm)
  then show thesis
  proof cases
    case (2 tenant current)
    obtain request where r: "maskByID db tenant (mrID current) = Some request" "slUUID L (mpRequestID c) = Some (mrID current)"
        "current = request\<lparr>mrApprovals := orderApprovals (approvalsOf db tenant (mrID current))\<rparr>"
      by (rule readMask_Inr [OF 2(2)])
    have i: "mrID current = mrID request" by (subst r(3)) simp
    have cur: "mrApprovals current = orderApprovals (approvalsOf db tenant (mrID request))" "mrRequestedBy current = mrRequestedBy request"
        "mrStatus current = mrStatus request"
      by (subst r(3), simp add: i)+
    show thesis
      using 2(7)
    proof (cases rule: writeApproval_cases)
      case (new approver audit)
      show thesis
        by (rule that(2) [of request tenant approver audit])
          (use 2 r(1,2) new in \<open>simp_all add: cur i validateMaskApprove_def\<close>)
    qed (use that(1) in simp)
  qed (use that(1) in simp)
qed

section \<open>The rule in PostgreSQL\<close>

definition pgRequester :: "'d maskDB_scheme \<Rightarrow> string \<times> string \<Rightarrow> string option" where
  "pgRequester db k = map_option mrRequestedBy (maskByID db (fst k) (snd k))"

definition pgApprovers :: "'d maskDB_scheme \<Rightarrow> string \<times> string \<Rightarrow> string list" where
  "pgApprovers db k = map maApproverID (approvalsOf db (fst k) (snd k))"

definition pgApproved :: "'d maskDB_scheme \<Rightarrow> string \<times> string \<Rightarrow> bool" where
  "pgApproved db k \<longleftrightarrow> (\<exists>r. maskByID db (fst k) (snd k) = Some r \<and> mrStatus r = StatusApproved)"

lemmas pgViews = pgRequester_def pgApprovers_def pgApproved_def

text \<open>Finding a request after an insertion and after a change of status.\<close>

lemma maskByID_fresh: "i \<notin> mrID ` set (mbRequests db) \<Longrightarrow> maskByID db t i = None"
  unfolding maskByID_def find_None_iff by blast

lemma maskByID_new:
  assumes "mbRequests db' = mbRequests db @ [row]" "mrID row \<notin> mrID ` set (mbRequests db)"
  shows "maskByID db' t i = (if (t, i) = (mrTenantID row, mrID row) then Some row else maskByID db t i)"
proof -
  have "maskByID db t (mrID row) = None" by (rule maskByID_fresh [OF assms(2)])
  then show ?thesis using assms(1) by (auto simp: maskByID_def find_snoc split: option.splits)
qed

lemma find_status:
  "find (\<lambda>r. mrTenantID r = t \<and> mrID r = i) (map (\<lambda>r. if mrTenantID r = t' \<and> mrID r = i' then r\<lparr>mrStatus := s\<rparr> else r) rs) =
     (if (t, i) = (t', i') then map_option (\<lambda>r. r\<lparr>mrStatus := s\<rparr>) else id) (find (\<lambda>r. mrTenantID r = t \<and> mrID r = i) rs)"
  by (induction rs) auto

lemma approvalsOf_snoc:
  "mbApprovals db' = mbApprovals db @ [a] \<Longrightarrow>
     approvalsOf db' t i = approvalsOf db t i @ (if (t, i) = (awTenant a, awRequest a) then [awApproval a] else [])"
  by (simp add: approvalsOf_def)

lemma approvals_none: "maskGood db \<Longrightarrow> maskByID db t i = None \<Longrightarrow> approvalsOf db t i = []"
  by (auto simp: maskGood_def approvalsOf_def filter_empty_conv)

lemma CreateMask_moves:
  assumes "textKept L" "maskGood db" "trimSpace (mcActorID c) = mcActorID c" "CreateMask L E c db = (db', res)"
  shows "maskGood db' \<and>
    ((pgRequester db' k = pgRequester db k \<and> pgApprovers db' k = pgApprovers db k \<and> pgApproved db' k = pgApproved db k) \<or>
     (pgRequester db k = None \<and> pgRequester db' k = Some (mcActorID c) \<and> pgApprovers db' k = [] \<and> \<not> pgApproved db' k))"
  using assms(4)
proof (cases rule: CreateMask_cases)
  case none
  with assms(2) show ?thesis by simp
next
  case (new row)
  note m = maskByID_new [OF new(1,3)]
  have a: "approvalsOf db' = approvalsOf db" by (intro ext) (simp add: approvalsOf_def new(2))
  have q: "mrRequestedBy row = mcActorID c" using new(4,6) assms(1,3) by (simp add: textKept_def)
  have fresh: "maskByID db (mrTenantID row) (mrID row) = None" by (rule maskByID_fresh [OF new(3)])
  have "maskGood db'" using assms(2) by (auto simp: maskGood_def new(2) m)
  moreover have "approvalsOf db (mrTenantID row) (mrID row) = []" by (rule approvals_none [OF assms(2) fresh])
  ultimately show ?thesis using fresh q new(5)
    by (cases "k = (mrTenantID row, mrID row)") (auto simp: pgViews m a StatusPending_def StatusApproved_def)
qed

lemma ApproveMask_moves:
  assumes "textKept L" "maskGood db" "trimSpace (mpActorID c) = mpActorID c" "ApproveMask L E c db = (db', res)"
  shows "maskGood db' \<and>
    ((pgRequester db' k = pgRequester db k \<and> pgApprovers db' k = pgApprovers db k \<and> pgApproved db' k = pgApproved db k) \<or>
     (\<exists>p. pgRequester db k = Some p \<and> pgRequester db' k = Some p \<and> mpActorID c \<noteq> p \<and> mpActorID c \<notin> set (pgApprovers db k) \<and>
        \<not> pgApproved db k \<and> pgApprovers db' k = pgApprovers db k @ [mpActorID c] \<and> (pgApproved db' k \<longleftrightarrow> length (pgApprovers db' k) = 2)))"
  using assms(4)
proof (cases rule: ApproveMask_cases)
  case none
  then show ?thesis using assms(2) by simp
next
  case (new tenant request approver audit)
  let ?k = "(tenant, mrID request)" and ?one = "length (approvalsOf db tenant (mrID request)) = 1"
  have actor: "approver = mpActorID c" using new(7,8) assms(1,3) by (simp add: textKept_def)
  have m: "maskByID db' t i = (if (t, i) = ?k \<and> ?one then map_option (\<lambda>r. r\<lparr>mrStatus := StatusApproved\<rparr>) (maskByID db t i) else maskByID db t i)" for t i
    unfolding maskByID_def new(10) by (simp add: find_status)
  have a: "approvalsOf db' t i = approvalsOf db t i @ (if (t, i) = ?k then [\<lparr>maApproverID = approver, maApprovedAt = stNow E\<rparr>] else [])" for t i
    using approvalsOf_snoc [of db' db] unfolding new(10) by simp
  have tenant: "maskByID db tenant (mrID request) = Some request" by (rule new(2))
  have "maskGood db'"
    unfolding maskGood_def
  proof
    fix x
    assume "x \<in> set (mbApprovals db')"
    then have "x \<in> set (mbApprovals db) \<or> (awTenant x, awRequest x) = ?k" by (auto simp: new(10))
    then have "maskByID db (awTenant x) (awRequest x) \<noteq> None" using assms(2) tenant by (auto simp: maskGood_def)
    then show "maskByID db' (awTenant x) (awRequest x) \<noteq> None" by (auto simp: m)
  qed
  moreover have "k \<noteq> ?k \<Longrightarrow> pgRequester db' k = pgRequester db k \<and> pgApprovers db' k = pgApprovers db k \<and> pgApproved db' k = pgApproved db k"
    by (cases k) (auto simp: pgViews m a)
  moreover have "pgRequester db ?k = Some (mrRequestedBy request)" "pgRequester db' ?k = Some (mrRequestedBy request)" "\<not> pgApproved db ?k"
      "pgApprovers db' ?k = pgApprovers db ?k @ [mpActorID c]" "pgApproved db' ?k \<longleftrightarrow> length (pgApprovers db' ?k) = 2"
    using new(5) tenant by (auto simp: pgViews m a actor)
  moreover have "mpActorID c \<noteq> mrRequestedBy request" "mpActorID c \<notin> set (pgApprovers db ?k)" using new(3,4) by (auto simp: pgApprovers_def)
  ultimately show ?thesis by (cases "k = ?k") blast+
qed

text \<open>The interface, for calls of persons whose identifiers have no white space around them.\<close>

interpretation pgControl: dual_control "postgresMask L" maskActor pgRequester pgApprovers pgApproved
  "\<lambda>c. trimSpace (maskActor c) = maskActor c" "\<lambda>db. textKept L \<and> maskGood db" for L
proof (unfold_locales, goal_cases)
  case (1 db c E db' res)
  then show ?case by (cases c) (auto dest: CreateMask_moves ApproveMask_moves)
next
  case (2 db c E db' res k)
  then show ?case
  proof (cases c)
    case (MaskCreate d)
    with 2 CreateMask_moves [of L db d E db' res k] show ?thesis by auto
  next
    case (MaskApprove d)
    with 2 ApproveMask_moves [of L db d E db' res k] show ?thesis by auto
  qed
qed

end
