(* ===== verification/Mask_Authorize.thy ===== *)
theory Mask_Authorize
  imports Mask_Requests
begin

text \<open>
  The authorization and storage of mask releases, \<open>privacymasks/release.go\<close> and \<open>postgres_release_repository.go\<close> with
  the tables of migration \<open>000014\<close>. The control plane repeats the checks of the edge in its own code; the last
  section proves where both agree: what the control plane authorizes, the edge verifies.
\<close>

section \<open>Decoding the evidence\<close>

definition maxReleaseCandidateBytes :: int where "maxReleaseCandidateBytes = 65536"
definition maxReleasePipelineBytes :: int where "maxReleasePipelineBytes = 1024"
definition maxReleaseEvidenceBytes :: int where "maxReleaseEvidenceBytes = 8192"
definition maxReleaseVertices :: nat where "maxReleaseVertices = 128"

record ReleaseEvidence =
  reCandidate :: bytes
  rePipeline :: bytes
  reHILEvidence :: bytes
  reCandidateHash :: string
  reEvidenceHash :: string

record MaskRelease =
  rlID :: string
  rlTenantID :: string
  rlSiteID :: string
  rlCameraID :: string
  rlRequestID :: string
  rlDeviceID :: string
  rlVersion :: int
  rlCandidate :: bytes
  rlPipeline :: bytes
  rlHILEvidence :: bytes
  rlCandidateHash :: string
  rlEvidenceHash :: string
  rlCreatedBy :: string
  rlCreatedAt :: gotime

text \<open>
  \<open>releaseCandidate\<close>, \<open>releasePipeline\<close> and \<open>releaseHIL\<close> have the fields of the edge's types. The three decoders are
  \<open>decodeReleaseJSON\<close>, which refuses unknown fields.
\<close>

record 'j releaseLib = "'j governLib" +
  rvCandidate :: "bytes \<Rightarrow> PrivacyMaskCandidate option"
  rvStages :: "bytes \<Rightarrow> PipelineStage list option"
  rvHIL :: "bytes \<Rightarrow> PrivacyMaskHILAttestation option"
  rvAnyRelease :: "MaskRelease \<Rightarrow> 'j"

definition validReleaseHash :: "('j, 'm) governLib_scheme \<Rightarrow> string \<Rightarrow> bool" where
  "validReleaseHash L v \<longleftrightarrow> length v = 32 * 2 \<and> v = toLower (slLower L) v \<and> hexDecode v \<noteq> None"

definition sameReleasePoint :: "maskPoint \<Rightarrow> maskPoint \<Rightarrow> bool" where
  "sameReleasePoint l r \<longleftrightarrow> length l = 2 \<and> length r = 2 \<and> feq (l ! 0) (r ! 0) \<and> feq (l ! 1) (r ! 1)"

definition releasePoint :: "maskPoint \<Rightarrow> bool" where
  "releasePoint p \<longleftrightarrow> \<not> (length p \<noteq> 2 \<or> isNaN (p ! 0) \<or> isNaN (p ! 1) \<or> isInf (p ! 0) \<or> isInf (p ! 1) \<or>
     fless (p ! 0) (Fin 0) \<or> fless (Fin 1) (p ! 0) \<or> fless (p ! 1) (Fin 0) \<or> fless (Fin 1) (p ! 1))"

fun releaseRings :: "nat \<Rightarrow> maskRings \<Rightarrow> bool" where
  "releaseRings vertices [] = True"
| "releaseRings vertices (ring # rings) =
     (if length ring < 4 then False
      else if vertices + length ring > maxReleaseVertices \<or> \<not> sameReleasePoint (ring ! 0) (ring ! (length ring - 1)) then False
      else list_all releasePoint ring \<and> releaseRings (vertices + length ring) rings)"

definition canonicalReleaseGeometry :: "maskLib \<Rightarrow> bytes \<Rightarrow> bytes option" where
  "canonicalReleaseGeometry L raw =
     (if length raw = 0 \<or> int (length raw) > maxReleaseCandidateBytes \<or> \<not> mlValid L raw then None
      else
        (case mlGeometry L raw of
           None \<Rightarrow> None
         | Some (kind, rings) \<Rightarrow>
             if kind \<noteq> ''Polygon'' \<or> length rings = 0 then None
             else if \<not> releaseRings 0 rings then None
             else mlCanonical L raw))"

fun releaseApprovers :: "string \<Rightarrow> string list \<Rightarrow> string list \<Rightarrow> bool" where
  "releaseApprovers requester seen [] = True"
| "releaseApprovers requester seen (approver # as) =
     (if trimSpace approver = [] \<or> length approver > 128 \<or> approver = requester then False
      else if approver \<in> set seen then False
      else releaseApprovers requester (approver # seen) as)"

definition decodeReleaseCandidate :: "('j, 'm) releaseLib_scheme \<Rightarrow> bytes \<Rightarrow> PrivacyMaskCandidate option" where
  "decodeReleaseCandidate L raw =
     (if length raw = 0 \<or> int (length raw) > maxReleaseCandidateBytes then None
      else
        (case rvCandidate L raw of
           None \<Rightarrow> None
         | Some c \<Rightarrow>
             if \<not> list_all (uuid4 (gvMask L)) [pcRequestID c, pcTenantID c, pcSiteID c, pcCameraID c] then None
             else if pcStatus c \<noteq> StatusApproved \<or> trimSpace (pcRequestedBy c) = [] \<or> length (pcRequestedBy c) > 128 \<or>
               length (pcApproverIDs c) \<noteq> 2 then None
             else if \<not> releaseApprovers (pcRequestedBy c) [] (pcApproverIDs c) then None
             else if canonicalReleaseGeometry (gvMask L) (pcGeometry c) = None then None
             else Some c))"

definition decodeReleasePipeline :: "('j, 'm) releaseLib_scheme \<Rightarrow> bytes \<Rightarrow> PipelineStage list option" where
  "decodeReleasePipeline L raw = (if length raw = 0 \<or> int (length raw) > maxReleasePipelineBytes then None else rvStages L raw)"

definition decodeReleaseHIL :: "('j, 'm) releaseLib_scheme \<Rightarrow> bytes \<Rightarrow> PrivacyMaskHILAttestation option" where
  "decodeReleaseHIL L raw =
     (if length raw = 0 \<or> int (length raw) > maxReleaseEvidenceBytes then None
      else
        (case rvHIL L raw of
           None \<Rightarrow> None
         | Some h \<Rightarrow>
             if \<not> list_all (uuid4 (gvMask L)) [haTestRunID h, haDeviceID h] then None
             else if \<not> validReleaseHash L (haCandidateHash h) \<or> \<not> validReleaseHash L (haEncoderBuildHash h) \<or>
               \<not> validReleaseHash L (haEncodedProbeHash h) \<or> trimSpace (haHarnessID h) = [] \<or> length (haHarnessID h) > 128 \<or>
               haExecutionKind h \<noteq> ''physical'' \<or> haAttestedAt h = 0 \<or> \<not> haMaskBeforeEncode h \<or> \<not> haEncoderBypassDenied h \<or>
               haRawFramesRetained h \<or> length (haSignature h) \<noteq> 64 then None
             else Some h))"

section \<open>Authorization\<close>

text \<open>\<open>strings.Join\<close> with a zero byte.\<close>

fun joinZero :: "string list \<Rightarrow> string" where
  "joinZero [] = []"
| "joinZero [x] = x"
| "joinZero (x # xs) = x @ CHR 0x00 # joinZero xs"

definition sameReleaseCandidate :: "maskLib \<Rightarrow> MaskRequest \<Rightarrow> MaskApproval list \<Rightarrow> PrivacyMaskCandidate \<Rightarrow> bool" where
  "sameReleaseCandidate L request approvals c \<longleftrightarrow>
     \<not> (pcRequestID c \<noteq> mrID request \<or> pcTenantID c \<noteq> mrTenantID request \<or> pcSiteID c \<noteq> mrSiteID request \<or>
        pcCameraID c \<noteq> mrCameraID request \<or> pcRequestedBy c \<noteq> mrRequestedBy request) \<and>
     (case (canonicalReleaseGeometry L (mrGeometry request), canonicalReleaseGeometry L (pcGeometry c)) of
        (Some want, Some got) \<Rightarrow> want = got | _ \<Rightarrow> False) \<and>
     joinZero (sort (map maApproverID approvals)) = joinZero (sort (pcApproverIDs c))"

definition strictReleasePipeline :: "PipelineStage list \<Rightarrow> bool" where
  "strictReleasePipeline stages \<longleftrightarrow>
     length stages = 3 \<and> stages ! 0 = ''decode'' \<and> stages ! 1 = ''mask'' \<and> stages ! 2 = ''encode''"

definition releaseCandidateHash :: "maskLib \<Rightarrow> PrivacyMaskCandidate \<Rightarrow> PipelineStage list \<Rightarrow> string option" where
  "releaseCandidateHash L c stages =
     (case canonicalReleaseGeometry L (pcGeometry c) of
        None \<Rightarrow> None
      | Some geometry \<Rightarrow>
          map_option (\<lambda>payload. hexEncode (mlSha L payload))
            (mlMarshalCandidate L \<lparr>ccVersion = 1, ccCandidate = c\<lparr>pcGeometry := geometry\<rparr>, ccStages = stages\<rparr>))"

definition releaseHILPayload :: "maskLib \<Rightarrow> PrivacyMaskHILAttestation \<Rightarrow> bytes option" where
  "releaseHILPayload L h = mlMarshalHIL L
     \<lparr>chVersion = 1, chTestRunID = haTestRunID h, chDeviceID = haDeviceID h, chCandidateHash = haCandidateHash h,
      chHarnessID = trimSpace (haHarnessID h), chExecutionKind = haExecutionKind h, chAttestedAt = mlNano L (haAttestedAt h),
      chEncoderBuildHash = haEncoderBuildHash h, chEncodedProbeHash = haEncodedProbeHash h,
      chMaskBeforeEncode = haMaskBeforeEncode h, chEncoderBypassDenied = haEncoderBypassDenied h,
      chRawFramesRetained = haRawFramesRetained h\<rparr>"

type_synonym TrustedReleaseAuthorizer = "(string \<times> bytes) list"

definition NewTrustedReleaseAuthorizer :: "(string \<times> bytes) list \<Rightarrow> TrustedReleaseAuthorizer option" where
  "NewTrustedReleaseAuthorizer keys =
     (if keys = [] then None
      else if \<exists>(harness, key) \<in> set keys. trimSpace harness = [] \<or> length key \<noteq> 32 then None
      else Some keys)"

definition AuthorizeRelease ::
  "('j, 'm) releaseLib_scheme \<Rightarrow> TrustedReleaseAuthorizer \<Rightarrow> MaskRequest \<Rightarrow> MaskApproval list \<Rightarrow> ReleaseEvidence \<Rightarrow> bool" where
  "AuthorizeRelease L keys request approvals evidence =
     (if keys = [] \<or> mrStatus request \<noteq> StatusApproved \<or> length approvals \<noteq> 2 then False
      else
        (case decodeReleaseCandidate L (reCandidate evidence) of
           None \<Rightarrow> False
         | Some candidate \<Rightarrow>
             if \<not> sameReleaseCandidate (gvMask L) request approvals candidate then False
             else
               (case decodeReleasePipeline L (rePipeline evidence) of
                  None \<Rightarrow> False
                | Some stages \<Rightarrow>
                    if \<not> strictReleasePipeline stages then False
                    else
                      (case releaseCandidateHash (gvMask L) candidate stages of
                         None \<Rightarrow> False
                       | Some candidateHash \<Rightarrow>
                           if candidateHash \<noteq> reCandidateHash evidence \<or> \<not> validReleaseHash L (reCandidateHash evidence) then False
                           else
                             (case decodeReleaseHIL L (reHILEvidence evidence) of
                                None \<Rightarrow> False
                              | Some hil \<Rightarrow>
                                  if haDeviceID hil = [] \<or> haCandidateHash hil \<noteq> candidateHash then False
                                  else
                                    (case (map_of keys (haHarnessID hil), releaseHILPayload (gvMask L) hil) of
                                       (Some key, Some payload) \<Rightarrow>
                                         mlVerify (gvMask L) key payload (haSignature hil) \<and>
                                         reEvidenceHash evidence = hexEncode (mlSha (gvMask L) payload) \<and>
                                         validReleaseHash L (reEvidenceHash evidence)
                                     | _ \<Rightarrow> False))))))"

section \<open>The release repository\<close>

record CreateReleaseCommand =
  xcReleaseID :: string
  xcTenantID :: string
  xcSiteID :: string
  xcCameraID :: string
  xcRequestID :: string
  xcDeviceID :: string
  xcVersion :: int
  xcCandidate :: bytes
  xcPipeline :: bytes
  xcHILEvidence :: bytes
  xcCandidateHash :: string
  xcEvidenceHash :: string
  xcActorID :: string
  xcAuditRequestID :: string

definition validateCreateRelease :: "('j, 'm) governLib_scheme \<Rightarrow> CreateReleaseCommand \<Rightarrow> bool" where
  "validateCreateRelease L c \<longleftrightarrow>
     list_all (uuid4 (gvMask L)) [xcReleaseID c, xcTenantID c, xcSiteID c, xcCameraID c, xcRequestID c, xcDeviceID c, xcAuditRequestID c] \<and>
     \<not> (xcVersion c < 1 \<or> trimSpace (xcActorID c) = [] \<or> length (trimSpace (xcActorID c)) > 128 \<or>
        \<not> validReleaseHash L (xcCandidateHash c) \<or> \<not> validReleaseHash L (xcEvidenceHash c))"

text \<open>The state that a device last reported, a row of \<open>config.privacy_mask_release_statuses\<close>.\<close>

record DeviceReleaseStatus =
  vsTenantID :: string
  vsDeviceID :: string
  vsReleaseID :: string
  vsVersion :: int
  vsState :: string
  vsErrorCode :: string
  vsReportedAt :: gotime
  vsAcceptedAt :: "gotime option"

record releaseDB = maskDB +
  rbReleases :: "MaskRelease list"
  rbStatuses :: "DeviceReleaseStatus list"

definition deviceServes :: "EdgeDevice \<Rightarrow> bool" where
  "deviceServes d \<longleftrightarrow> edStatus d \<in> {''active'', ''offline''} \<and> edCertificateStatus d = ''active''"

text \<open>The release as the command describes it, and its \<open>INSERT\<close> with the keys and checks of the table.\<close>

definition newRelease :: "storeEnv \<Rightarrow> CreateReleaseCommand \<Rightarrow> MaskRelease" where
  "newRelease E c =
     \<lparr>rlID = xcReleaseID c, rlTenantID = xcTenantID c, rlSiteID = xcSiteID c, rlCameraID = xcCameraID c, rlRequestID = xcRequestID c,
      rlDeviceID = xcDeviceID c, rlVersion = xcVersion c, rlCandidate = xcCandidate c, rlPipeline = xcPipeline c,
      rlHILEvidence = xcHILEvidence c, rlCandidateHash = xcCandidateHash c, rlEvidenceHash = xcEvidenceHash c,
      rlCreatedBy = trimSpace (xcActorID c), rlCreatedAt = stNow E\<rparr>"

definition releaseKeysFree :: "string \<Rightarrow> string \<Rightarrow> string \<Rightarrow> int \<Rightarrow> 'd releaseDB_scheme \<Rightarrow> bool" where
  "releaseKeysFree tenant i device version db \<longleftrightarrow>
     (\<forall>r \<in> set (rbReleases db). rlID r \<noteq> i \<and> \<not> (rlTenantID r = tenant \<and> rlDeviceID r = device \<and> rlVersion r = version))"

definition insertRelease ::
  "('j, 'm) governLib_scheme \<Rightarrow> storeEnv \<Rightarrow> string \<Rightarrow> MaskRelease \<Rightarrow> 'd releaseDB_scheme \<Rightarrow> MaskRelease option" where
  "insertRelease L E tenant release db =
     (case (slUUID L (rlID release), slUUID L (rlSiteID release), slUUID L (rlCameraID release), slUUID L (rlRequestID release),
            slUUID L (rlDeviceID release), gvText L 128 (rlCreatedBy release)) of
        (Some i, Some site, Some camera, Some request, Some device, Some creator) \<Rightarrow>
          if stFails E StInsert \<noteq> None \<or> \<not> releaseKeysFree tenant i device (rlVersion release) db \<or> \<not> sdTenants db tenant \<or>
             \<not> siteExists db tenant site \<or> \<not> mbCameras db tenant camera \<or> maskByID db tenant request = None \<or>
             (\<forall>d \<in> set (ebDevices db). \<not> (edTenantID d = tenant \<and> edID d = device)) \<or>
             \<not> (gvObject L (rlCandidate release) \<and> gvObject L (rlPipeline release) \<and> gvObject L (rlHILEvidence release))
          then None
          else Some (release\<lparr>rlID := i, rlTenantID := tenant, rlSiteID := site, rlCameraID := camera, rlRequestID := request,
                 rlDeviceID := device, rlCandidate := slJsonb L (rlCandidate release), rlPipeline := slJsonb L (rlPipeline release),
                 rlHILEvidence := slJsonb L (rlHILEvidence release), rlCreatedBy := creator\<rparr>)
      | _ \<Rightarrow> None)"

definition storeRelease ::
  "('j, 'm) releaseLib_scheme \<Rightarrow> storeEnv \<Rightarrow> CreateReleaseCommand \<Rightarrow> string \<Rightarrow> 'd releaseDB_scheme \<Rightarrow>
     'd releaseDB_scheme \<times> (maskRequestError storeError + MaskRelease)" where
  "storeRelease L E c tenant db =
     (case insertRelease L E tenant (newRelease E c) db of
        None \<Rightarrow> (db, Inl (StDatabase StInsert))
      | Some row \<Rightarrow>
          (case auditAppend (slAudit L) (stAudit E) (stNow E)
              \<lparr>aeTenantID = xcTenantID c, aeActorID = xcActorID c, aeAction = ''privacy_mask.release.created'',
               aeResourceType = ''privacy_mask_release'', aeResourceID = xcReleaseID c, aeRequestID = xcAuditRequestID c,
               aeBeforeState = slNil L, aeAfterState = rvAnyRelease L (newRelease E c), aeOccurredAt = stNow E\<rparr> (sdAudit db) of
             Inl err \<Rightarrow> (db, Inl (StAuditError err))
           | Inr (audit, _) \<Rightarrow>
               commitStore E db (db\<lparr>rbReleases := rbReleases db @ [row], sdAudit := audit\<rparr>) (newRelease E c)))"

definition releaseEvidence :: "CreateReleaseCommand \<Rightarrow> ReleaseEvidence" where
  "releaseEvidence c = \<lparr>reCandidate = xcCandidate c, rePipeline = xcPipeline c, reHILEvidence = xcHILEvidence c,
     reCandidateHash = xcCandidateHash c, reEvidenceHash = xcEvidenceHash c\<rparr>"

text \<open>\<open>EXISTS (SELECT 1 FROM config.edge_devices ...)\<close> in the tenant of the transaction.\<close>

definition releaseDevice :: "('j, 'm) governLib_scheme \<Rightarrow> CreateReleaseCommand \<Rightarrow> string \<Rightarrow> 'd releaseDB_scheme \<Rightarrow> bool" where
  "releaseDevice L c tenant db \<longleftrightarrow>
     (\<exists>d \<in> set (ebDevices db). edTenantID d = tenant \<and> Some (edID d) = slUUID L (xcDeviceID c) \<and>
        Some (edSiteID d) = slUUID L (xcSiteID c) \<and> deviceServes d)"

definition CreateRelease ::
  "('j, 'm) releaseLib_scheme \<Rightarrow> TrustedReleaseAuthorizer \<Rightarrow> storeEnv \<Rightarrow> CreateReleaseCommand \<Rightarrow> 'd releaseDB_scheme \<Rightarrow>
     'd releaseDB_scheme \<times> (maskRequestError storeError + MaskRelease)" where
  "CreateRelease L keys E c db =
     (if \<not> validateCreateRelease L c then (db, Inl (Domain ErrReleaseNotAuthorized))
      else
        (case beginStore L E (xcTenantID c) of
           Inl err \<Rightarrow> (db, Inl err)
         | Inr tenant \<Rightarrow>
             (case loadRequest L E tenant (xcRequestID c) db of
                Inl (Domain MaskNotFound) \<Rightarrow> (db, Inl (Domain ErrReleaseNotAuthorized))
              | Inl err \<Rightarrow> (db, Inl err)
              | Inr request \<Rightarrow>
                  (case loadApprovals L E tenant (xcRequestID c) db of
                     Inl err \<Rightarrow> (db, Inl err)
                   | Inr approvals \<Rightarrow>
                       if mrStatus request \<noteq> StatusApproved \<or> mrSiteID request \<noteq> xcSiteID c \<or> mrCameraID request \<noteq> xcCameraID c \<or>
                          length approvals \<noteq> 2 then (db, Inl (Domain ErrReleaseNotAuthorized))
                       else if stFails E StDevice \<noteq> None \<or> slUUID L (xcDeviceID c) = None \<or> slUUID L (xcSiteID c) = None
                       then (db, Inl (StDatabase StDevice))
                       else if \<not> releaseDevice L c tenant db then (db, Inl (Domain ErrReleaseNotAuthorized))
                       else if \<not> AuthorizeRelease L keys request approvals (releaseEvidence c)
                       then (db, Inl (Domain ErrReleaseNotAuthorized))
                       else storeRelease L E c tenant db))))"


section \<open>Agreement with the edge\<close>

lemma releasePoint_eq:
  "releasePoint p \<longleftrightarrow> length p = 2 \<and> normalizedCoordinate (p ! 0) \<and> normalizedCoordinate (p ! 1)"
proof -
  have "\<not> fless v (Fin 0) \<and> \<not> fless (Fin 1) v \<longleftrightarrow> fgeq v (Fin 0) \<and> fgeq (Fin 1) v" if "\<not> isNaN v" "\<not> isInf v" for v
    using that by (cases v) auto
  then show ?thesis by (auto simp: releasePoint_def normalizedCoordinate_def)
qed

lemma releaseRings_eq: "releaseRings n rings = checkRings n rings"
proof (induction rings arbitrary: n)
  case (Cons ring rings)
  have "length ring \<ge> 4 \<Longrightarrow> ring ! 0 = hd ring \<and> ring ! (length ring - 1) = last ring"
    by (cases ring) (auto simp: hd_conv_nth last_conv_nth)
  then show ?case
    by (auto simp: Cons maxReleaseVertices_def maxMaskVertices_def samePoint_def sameReleasePoint_def releasePoint_eq list_all_iff)
qed simp

lemma canonicalReleaseGeometry_eq: "canonicalReleaseGeometry L raw = canonicalGeometry L raw"
  by (auto simp: canonicalReleaseGeometry_def canonicalGeometry_def releaseRings_eq maxReleaseCandidateBytes_def
      maxMaskGeometryBytes_def split: option.splits)

lemma releaseApprovers_check:
  assumes "releaseApprovers requester seen as" "\<And>a. a \<in> set as \<Longrightarrow> trimSpace a = a"
  shows "checkApprovers requester seen as"
  using assms by (induction requester seen as rule: releaseApprovers.induct) (auto simp: Let_def split: if_splits)

lemma strictReleasePipeline_eq: "strictReleasePipeline stages = isStrictPreEncodePipeline stages"
  by (simp add: strictReleasePipeline_def isStrictPreEncodePipeline_def PipelineDecode_def PipelineMask_def PipelineEncode_def)

lemma joinZero_pair:
  assumes "length xs = 2" "length ys = 2" "joinZero xs = joinZero ys" "\<And>x. x \<in> set xs \<Longrightarrow> CHR 0x00 \<notin> set x"
  shows "xs = ys"
proof -
  obtain a b c d where p: "xs = [a, b]" "ys = [c, d]"
    using assms(1,2) by (auto simp: numeral_2_eq_2 length_Suc_conv)
  have z: "CHR 0x00 \<notin> set a" "CHR 0x00 \<notin> set b" using assms(4) by (auto simp: p)
  have "a @ CHR 0x00 # b = c @ CHR 0x00 # d" using assms(3) by (simp add: p)
  then show ?thesis by (simp only: append_Cons_eq_iff [OF z] p)
qed

lemma AuthorizeRelease_cases:
  assumes "AuthorizeRelease L keys request approvals evidence"
  obtains c stages h key payload where "mrStatus request = StatusApproved" "length approvals = 2"
    "decodeReleaseCandidate L (reCandidate evidence) = Some c" "sameReleaseCandidate (gvMask L) request approvals c"
    "decodeReleasePipeline L (rePipeline evidence) = Some stages" "strictReleasePipeline stages"
    "releaseCandidateHash (gvMask L) c stages = Some (reCandidateHash evidence)"
    "decodeReleaseHIL L (reHILEvidence evidence) = Some h" "haCandidateHash h = reCandidateHash evidence"
    "map_of keys (haHarnessID h) = Some key" "releaseHILPayload (gvMask L) h = Some payload"
    "mlVerify (gvMask L) key payload (haSignature h)" "reEvidenceHash evidence = hexEncode (mlSha (gvMask L) payload)"
  using assms unfolding AuthorizeRelease_def by (auto split: if_splits option.splits)

lemma decodeReleaseCandidate_Some:
  assumes "decodeReleaseCandidate L raw = Some c"
  shows "rvCandidate L raw = Some c" "list_all (uuid4 (gvMask L)) [pcRequestID c, pcTenantID c, pcSiteID c, pcCameraID c]"
    "pcStatus c = ''approved''" "trimSpace (pcRequestedBy c) \<noteq> []" "length (pcRequestedBy c) \<le> 128" "length (pcApproverIDs c) = 2"
    "releaseApprovers (pcRequestedBy c) [] (pcApproverIDs c)" "canonicalGeometry (gvMask L) (pcGeometry c) \<noteq> None"
  using assms unfolding decodeReleaseCandidate_def canonicalReleaseGeometry_eq StatusApproved_def
  by (auto split: if_splits option.splits)

lemma decodeReleaseHIL_Some:
  assumes "decodeReleaseHIL L raw = Some h"
  shows "rvHIL L raw = Some h" "validateHILAttestation (gvMask L) h"
proof -
  have "length (trimSpace (haHarnessID h)) \<le> 128" if "length (haHarnessID h) \<le> 128"
    using length_trimSpace_le [of "haHarnessID h"] that by simp
  then show "validateHILAttestation (gvMask L) h"
    using assms unfolding decodeReleaseHIL_def validateHILAttestation_def validReleaseHash_def validSHA256Hex_def
    by (auto split: if_splits option.splits)
qed (use assms in \<open>auto simp: decodeReleaseHIL_def split: if_splits option.splits\<close>)

text \<open>A candidate names the two approvers that the table has.\<close>

lemma sameReleaseCandidate_approvers:
  assumes "sameReleaseCandidate M request approvals c" "length approvals = 2" "length (pcApproverIDs c) = 2"
    "\<And>a. a \<in> set approvals \<Longrightarrow> CHR 0x00 \<notin> set (maApproverID a)"
  shows "mset (pcApproverIDs c) = mset (map maApproverID approvals)"
proof -
  have "sort (map maApproverID approvals) = sort (pcApproverIDs c)"
    using assms by (intro joinZero_pair) (auto simp: sameReleaseCandidate_def)
  then show ?thesis by (metis mset_sort)
qed

lemma candidate_verifies:
  assumes "decodeReleaseCandidate L raw = Some c" "releaseCandidateHash (gvMask L) c stages = Some hash" "strictReleasePipeline stages"
    "\<And>x. x \<in> insert (pcRequestedBy c) (set (pcApproverIDs c)) \<Longrightarrow> trimSpace x = x"
  shows "VerifyPreEncodePrivacyMask (gvMask L) c stages = Some \<lparr>pvVerifierVersion = 1, pvCandidateHash = hash, pvStages = stages\<rparr>"
proof -
  note d = decodeReleaseCandidate_Some [OF assms(1)]
  have "checkApprovers (pcRequestedBy c) [] (pcApproverIDs c)" by (rule releaseApprovers_check [OF d(7)]) (use assms(4) in auto)
  then have "validatePrivacyMaskCandidate (gvMask L) c"
    using d assms(4) by (auto simp: validatePrivacyMaskCandidate_def Let_def)
  then show ?thesis using assms(2,3)
    by (auto simp: VerifyPreEncodePrivacyMask_def releaseCandidateHash_def strictReleasePipeline_eq canonicalReleaseGeometry_eq
        split: option.splits)
qed

lemma evidence_verifies:
  assumes "decodeReleaseHIL L raw = Some h" "releaseHILPayload (gvMask L) h = Some payload" "mlVerify (gvMask L) key payload (haSignature h)"
    "keys (trimSpace (haHarnessID h)) = Some key" "length key = 32"
  shows "VerifyPrivacyMaskHILEvidence (gvMask L) h keys =
    Some \<lparr>hvTestRunID = haTestRunID h, hvCandidateHash = haCandidateHash h, hvEvidenceHash = hexEncode (mlSha (gvMask L) payload)\<rparr>"
  using assms decodeReleaseHIL_Some [OF assms(1)]
  by (simp add: VerifyPrivacyMaskHILEvidence_def canonicalHILPayload_def releaseHILPayload_def)

end
