(* ===== verification/Mask_Transport.thy ===== *)
theory Mask_Transport
  imports Mask_Authorize Http_Zones Http_Devices Device_Routes
begin

text \<open>
  The way of mask requests and releases through the control plane: the repository of the device transport
  (\<open>privacymasks/release_transport.go\<close>, \<open>postgres_release_transport.go\<close>) with its database functions (migration \<open>000015\<close>),
  the routes of administrators (\<open>httpapi/privacy_masks.go\<close>) and those of devices
  (\<open>httpapi/privacy_mask_release_transport.go\<close>). The server has its repositories.
\<close>

section \<open>The transport repository\<close>

datatype releaseError = ErrReleaseDeviceNotFound | ErrInvalidReleaseStatus | RtDatabase stCall

record DeviceReleaseManifest =
  dmReleaseID :: string
  dmTenantID :: string
  dmSiteID :: string
  dmCameraID :: string
  dmRequestID :: string
  dmDeviceID :: string
  dmVersion :: int
  dmCandidate :: bytes
  dmPipeline :: bytes
  dmHILEvidence :: bytes
  dmCandidateHash :: string
  dmEvidenceHash :: string
  dmCreatedAt :: gotime

definition scanDeviceReleaseManifest :: "MaskRelease \<Rightarrow> DeviceReleaseManifest" where
  "scanDeviceReleaseManifest r =
     \<lparr>dmReleaseID = rlID r, dmTenantID = rlTenantID r, dmSiteID = rlSiteID r, dmCameraID = rlCameraID r, dmRequestID = rlRequestID r,
      dmDeviceID = rlDeviceID r, dmVersion = rlVersion r, dmCandidate = rlCandidate r, dmPipeline = rlPipeline r,
      dmHILEvidence = rlHILEvidence r, dmCandidateHash = rlCandidateHash r, dmEvidenceHash = rlEvidenceHash r,
      dmCreatedAt = rlCreatedAt r\<rparr>"

definition servingDevice :: "'d releaseDB_scheme \<Rightarrow> string \<Rightarrow> EdgeDevice option" where
  "servingDevice db device = find (\<lambda>d. edID d = device \<and> deviceServes d) (ebDevices db)"

text \<open>The oldest of the releases that are newer than what the device has.\<close>

definition newerReleases :: "'d releaseDB_scheme \<Rightarrow> string \<Rightarrow> string \<Rightarrow> int \<Rightarrow> MaskRelease list" where
  "newerReleases db tenant device after =
     sortSlice (\<lambda>a b. rlVersion a < rlVersion b)
       (filter (\<lambda>r. rlTenantID r = tenant \<and> rlDeviceID r = device \<and> rlVersion r > max after 0) (rbReleases db))"

definition pull_privacy_mask_release :: "string \<Rightarrow> int \<Rightarrow> 'd releaseDB_scheme \<Rightarrow> string + MaskRelease option" where
  "pull_privacy_mask_release device after db =
     (case servingDevice db device of
        None \<Rightarrow> Inl ''28000''
      | Some d \<Rightarrow> Inr (case newerReleases db (edTenantID d) device after of [] \<Rightarrow> None | r # _ \<Rightarrow> Some r))"

definition classifyReleaseDeviceError :: "stCall \<Rightarrow> string \<Rightarrow> releaseError" where
  "classifyReleaseDeviceError call code = (if code = ''28000'' \<or> code = ''22023'' then ErrReleaseDeviceNotFound else RtDatabase call)"

definition PullRelease ::
  "('j, 'm) storeLib_scheme \<Rightarrow> storeEnv \<Rightarrow> string \<Rightarrow> int \<Rightarrow> 'd releaseDB_scheme \<Rightarrow> releaseError + DeviceReleaseManifest option" where
  "PullRelease L E deviceID after db =
     (if after < 0 then Inl ErrReleaseDeviceNotFound
      else if stFails E StBegin \<noteq> None then Inl (RtDatabase StBegin)
      else
        (case (slUUID L deviceID, stFails E StRead) of
           (None, _) \<Rightarrow> Inl (RtDatabase StRead)
         | (_, Some code) \<Rightarrow> Inl (classifyReleaseDeviceError StRead code)
         | (Some device, None) \<Rightarrow>
             (case pull_privacy_mask_release device after db of
                Inl code \<Rightarrow> Inl (classifyReleaseDeviceError StRead code)
              | Inr found \<Rightarrow>
                  if stFails E StCommit \<noteq> None then Inl (RtDatabase StCommit) else Inr (map_option scanDeviceReleaseManifest found))))"

record ReportReleaseCommand =
  rrDeviceID :: string
  rrReleaseID :: string
  rrState :: string
  rrErrorCode :: string
  rrVersion :: int

definition validateReleaseReport :: "('j, 'm) governLib_scheme \<Rightarrow> ReportReleaseCommand \<Rightarrow> bool" where
  "validateReleaseReport L c =
     (if \<not> parsesUUID L (rrDeviceID c) then False
      else if \<not> parsesUUID L (rrReleaseID c) \<or> rrVersion c < 1 then False
      else
        let state = trimSpace (rrState c); errorCode = trimSpace (rrErrorCode c) in
        (state = ''accepted'' \<and> errorCode = []) \<or>
        (state = ''failed'' \<and> (errorCode = ''verification_failed'' \<or> errorCode = ''stale_release'' \<or> errorCode = ''apply_failed'')))"

definition releaseErrorCodes :: "string list" where
  "releaseErrorCodes = [''verification_failed'', ''stale_release'', ''apply_failed'']"

text \<open>
  The database function; \<open>code = None\<close> is NULL, with which the comparison of a failed state is not true. The casts to
  \<open>varchar\<close> shorten only texts that the comparisons refuse. The output columns \<open>tenant_id\<close> and \<open>device_id\<close> make the names
  in \<open>ON CONFLICT (tenant_id, device_id)\<close> ambiguous: unless the server resolves them to columns, the \<open>INSERT\<close> raises
  SQLSTATE 42702.
\<close>

definition report_privacy_mask_release ::
  "bool \<Rightarrow> string \<Rightarrow> string \<Rightarrow> int \<Rightarrow> string \<Rightarrow> string option \<Rightarrow> gotime \<Rightarrow> 'd releaseDB_scheme \<Rightarrow>
     string + 'd releaseDB_scheme \<times> DeviceReleaseStatus" where
  "report_privacy_mask_release useColumn device release version state code now db =
     (case servingDevice db device of
        None \<Rightarrow> Inl ''28000''
      | Some d \<Rightarrow>
          let tenant = edTenantID d in
          if version < 1 \<or> state \<notin> {''accepted'', ''failed''} \<or> (state = ''accepted'' \<and> code \<noteq> None) \<or>
             (state = ''failed'' \<and> code \<noteq> None \<and> the code \<notin> set releaseErrorCodes) then Inl ''22023''
          else if \<not> (\<exists>r \<in> set (rbReleases db). rlTenantID r = tenant \<and> rlID r = release \<and> rlDeviceID r = device \<and> rlVersion r = version)
          then Inl ''22023''
          else if \<exists>s \<in> set (rbStatuses db). vsTenantID s = tenant \<and> vsDeviceID s = device \<and> vsVersion s > version then Inl ''22023''
          else if \<not> useColumn then Inl ''42702''
          else
            let row = \<lparr>vsTenantID = tenant, vsDeviceID = device, vsReleaseID = release, vsVersion = version, vsState = state,
                  vsErrorCode = (case code of None \<Rightarrow> [] | Some c \<Rightarrow> c), vsReportedAt = now,
                  vsAcceptedAt = (if state = ''accepted'' then Some now else None)\<rparr> in
            Inr (db\<lparr>rbStatuses := filter (\<lambda>s. \<not> (vsTenantID s = tenant \<and> vsDeviceID s = device)) (rbStatuses db) @ [row]\<rparr>, row))"

definition ReportRelease ::
  "('j, 'm) governLib_scheme \<Rightarrow> storeEnv \<Rightarrow> ReportReleaseCommand \<Rightarrow> 'd releaseDB_scheme \<Rightarrow>
     'd releaseDB_scheme \<times> (releaseError + DeviceReleaseStatus)" where
  "ReportRelease L E c db =
     (if \<not> validateReleaseReport L c then (db, Inl ErrInvalidReleaseStatus)
      else if stFails E StBegin \<noteq> None then (db, Inl (RtDatabase StBegin))
      else
        (case (slUUID L (rrDeviceID c), slUUID L (rrReleaseID c), stFails E StUpdate) of
           (Some device, Some release, None) \<Rightarrow>
             (case report_privacy_mask_release (gvUseColumn L) device release (rrVersion c) (rrState c)
                 (if rrErrorCode c = [] then None else Some (rrErrorCode c)) (stNow E) db of
                Inl code \<Rightarrow> (db, Inl (classifyReleaseDeviceError StUpdate code))
              | Inr (db', outcome) \<Rightarrow>
                  if stFails E StCommit \<noteq> None then (if stCommitApplied E then db' else db, Inl (RtDatabase StCommit))
                  else (db', Inr outcome))
         | (_, _, Some code) \<Rightarrow> (db, Inl (classifyReleaseDeviceError StUpdate code))
         | _ \<Rightarrow> (db, Inl (RtDatabase StUpdate))))"

section \<open>The routes of devices\<close>

definition pullPrivacyMaskRelease ::
  "httpLib \<Rightarrow> ('j, 'm) storeLib_scheme \<Rightarrow> gotime \<Rightarrow> storeEnv \<Rightarrow> clientCertificate list list \<Rightarrow> httpRequest \<Rightarrow> string \<Rightarrow>
     'd releaseDB_scheme \<Rightarrow> DeviceReleaseManifest option reply" where
  "pullPrivacyMaskRelease H L now E verifiedChains r rawAfter db =
     (case verifiedDeviceRequest (VerifyDevice H now verifiedChains) (hqPath r) of
        None \<Rightarrow> deviceAuthRequired
      | Some deviceID \<Rightarrow>
          let raw = trimSpace rawAfter in
          (case (if raw = [] then Some 0 else parseInt64 raw) of
             None \<Rightarrow> invalid
           | Some after \<Rightarrow>
               if after < 0 then invalid
               else
                 (case PullRelease L E deviceID after db of
                    Inl ErrReleaseDeviceNotFound \<Rightarrow> deviceAuthRequired
                  | Inl err \<Rightarrow> unavailable
                  | Inr None \<Rightarrow> Reply 204 None False
                  | Inr (Some manifest) \<Rightarrow> Reply 200 (Some manifest) False)))"

record privacyReleaseStatusRequest =
  prReleaseID :: string
  prVersion :: int
  prState :: string
  prErrorCode :: string

definition reportPrivacyMaskRelease ::
  "httpLib \<Rightarrow> ('j, 'm) governLib_scheme \<Rightarrow> gotime \<Rightarrow> storeEnv \<Rightarrow> clientCertificate list list \<Rightarrow> httpRequest \<Rightarrow>
     privacyReleaseStatusRequest option \<Rightarrow> 'd releaseDB_scheme \<Rightarrow> 'd releaseDB_scheme \<times> DeviceReleaseStatus reply" where
  "reportPrivacyMaskRelease H L now E verifiedChains r body db =
     (case verifiedDeviceRequest (VerifyDevice H now verifiedChains) (hqPath r) of
        None \<Rightarrow> (db, deviceAuthRequired)
      | Some deviceID \<Rightarrow>
          (case correlationHeaderOnly H r of
             Inl failure \<Rightarrow> (db, failure)
           | Inr _ \<Rightarrow>
               (case body of
                  None \<Rightarrow> (db, invalid)
                | Some input \<Rightarrow>
                    let command = \<lparr>rrDeviceID = deviceID, rrReleaseID = trimSpace (prReleaseID input), rrState = trimSpace (prState input),
                          rrErrorCode = trimSpace (prErrorCode input), rrVersion = prVersion input\<rparr> in
                    if \<not> validateReleaseReport L command then (db, invalid)
                    else
                      (case ReportRelease L E command db of
                         (db', Inl ErrReleaseDeviceNotFound) \<Rightarrow> (db', deviceAuthRequired)
                       | (db', Inl ErrInvalidReleaseStatus) \<Rightarrow> (db', invalid)
                       | (db', Inl err) \<Rightarrow> (db', unavailable)
                       | (db', Inr outcome) \<Rightarrow> (db', Reply 200 outcome False)))))"

section \<open>The routes of administrators\<close>

definition privacyMaskContext :: "httpLib \<Rightarrow> Principal option \<Rightarrow> httpRequest \<Rightarrow> 'a reply + Principal \<times> string" where
  "privacyMaskContext H who r =
     (case who of
        None \<Rightarrow> Inl authRequired
      | Some prin \<Rightarrow>
          (case requestTenant r prin of
             Inl err \<Rightarrow> Inl notFound
           | Inr tenantID \<Rightarrow>
               if \<not> Authorize (hlUnicode H) prin \<lparr>rqCapability = CapabilityPrivacyMaskApprove, rqTenantID = tenantID, rqSiteID = []\<rparr>
               then Inl forbidden
               else Inr (prin, tenantID)))"

record privacyMaskBody =
  cpSiteID :: string
  cpCameraID :: string
  cpName :: string
  cpGeometry :: bytes

definition validPrivacyMaskRequest :: "httpLib \<Rightarrow> shapeLib \<Rightarrow> privacyMaskBody \<Rightarrow> bool" where
  "validPrivacyMaskRequest H S input =
     (if hlParse H (trimSpace (cpSiteID input)) = None then False
      else if hlParse H (trimSpace (cpCameraID input)) = None \<or> length (trimSpace (cpName input)) = 0 \<or>
        length (trimSpace (cpName input)) > 120 then False
      else validGeometry S (cpGeometry input) ''intrusion'')"

definition createMaskCommand ::
  "httpLib \<Rightarrow> shapeLib \<Rightarrow> Principal option \<Rightarrow> httpRequest \<Rightarrow> privacyMaskBody option \<Rightarrow> 'a reply + CreateMaskCommand" where
  "createMaskCommand H S who r body =
     (case privacyMaskContext H who r of
        Inl failure \<Rightarrow> Inl failure
      | Inr (prin, tenantID) \<Rightarrow>
          (case correlationHeaderOnly H r of
             Inl failure \<Rightarrow> Inl failure
           | Inr requestID \<Rightarrow>
               (case body of
                  None \<Rightarrow> Inl invalid
                | Some input \<Rightarrow>
                    if \<not> validPrivacyMaskRequest H S input then Inl invalid
                    else Inr \<lparr>mcTenantID = tenantID, mcSiteID = trimSpace (cpSiteID input), mcCameraID = trimSpace (cpCameraID input),
                           mcActorID = pUserID prin, mcRequestID = requestID, mcName = trimSpace (cpName input),
                           mcGeometry = cpGeometry input\<rparr>)))"

definition createPrivacyMaskRequest ::
  "httpLib \<Rightarrow> shapeLib \<Rightarrow> ('j, 'm) governLib_scheme \<Rightarrow> storeEnv \<Rightarrow> Principal option \<Rightarrow> httpRequest \<Rightarrow> privacyMaskBody option \<Rightarrow>
     'd maskDB_scheme \<Rightarrow> 'd maskDB_scheme \<times> MaskRequest reply" where
  "createPrivacyMaskRequest H S L E who r body db =
     (case createMaskCommand H S who r body of
        Inl failure \<Rightarrow> (db, failure)
      | Inr command \<Rightarrow>
          (case CreateMask L E command db of
             (db', Inl err) \<Rightarrow> (db', invalid)
           | (db', Inr request) \<Rightarrow> (db', Reply 201 request False)))"

definition getPrivacyMaskRequest ::
  "httpLib \<Rightarrow> ('j, 'm) governLib_scheme \<Rightarrow> storeEnv \<Rightarrow> Principal option \<Rightarrow> httpRequest \<Rightarrow> 'd maskDB_scheme \<Rightarrow> MaskRequest reply" where
  "getPrivacyMaskRequest H L E who r db =
     (case privacyMaskContext H who r of
        Inl failure \<Rightarrow> failure
      | Inr (prin, tenantID) \<Rightarrow>
          (case GetMask L E tenantID (hqPath r) db of
             Inl (Domain MaskNotFound) \<Rightarrow> notFound
           | Inl err \<Rightarrow> unavailable
           | Inr request \<Rightarrow> Reply 200 request False))"

definition approvalConflict :: "'a reply" where "approvalConflict = Failure 409 ''APPROVAL_CONFLICT''"

fun approveMaskFailure :: "maskRequestError storeError \<Rightarrow> 'a reply" where
  "approveMaskFailure (Domain MaskNotFound) = notFound"
| "approveMaskFailure (Domain ErrRequesterCannotApprove) = approvalConflict"
| "approveMaskFailure (Domain ErrAlreadyApproved) = approvalConflict"
| "approveMaskFailure err = unavailable"

definition approveMaskCommand :: "httpLib \<Rightarrow> Principal option \<Rightarrow> httpRequest \<Rightarrow> 'a reply + ApproveMaskCommand" where
  "approveMaskCommand H who r =
     (case privacyMaskContext H who r of
        Inl failure \<Rightarrow> Inl failure
      | Inr (prin, tenantID) \<Rightarrow>
          (case correlationHeaderOnly H r of
             Inl failure \<Rightarrow> Inl failure
           | Inr requestID \<Rightarrow>
               Inr \<lparr>mpTenantID = tenantID, mpRequestID = hqPath r, mpActorID = pUserID prin, mpAuditRequestID = requestID\<rparr>))"

definition approvePrivacyMaskRequest ::
  "httpLib \<Rightarrow> ('j, 'm) governLib_scheme \<Rightarrow> storeEnv \<Rightarrow> Principal option \<Rightarrow> httpRequest \<Rightarrow> 'd maskDB_scheme \<Rightarrow>
     'd maskDB_scheme \<times> MaskRequest reply" where
  "approvePrivacyMaskRequest H L E who r db =
     (case approveMaskCommand H who r of
        Inl failure \<Rightarrow> (db, failure)
      | Inr command \<Rightarrow>
          (case ApproveMask L E command db of
             (db', Inl err) \<Rightarrow> (db', approveMaskFailure err)
           | (db', Inr request) \<Rightarrow> (db', Reply 200 request False)))"

end
