(* ===== verification/Mask_Sync.thy ===== *)
theory Mask_Sync
  imports Mask_Transport Edge_Config
begin

text \<open>
  The edge's side of mask releases: the client \<open>privacy_mask_transport.go\<close> and the synchronizers
  \<open>privacy_mask_synchronizer.go\<close> and \<open>privacy_mask_release_bundle_synchronizer.go\<close> over the gate of
  \<open>Mask_Release\<close>; and the synchronizer composed with the control plane over a network that may lose every
  request and every answer.
\<close>

section \<open>The client\<close>

datatype releaseTransportError =
    ErrInvalidPrivacyMaskTransport | RcBuild | RcEncode | RcRandom | RcTransport | RcStatus int

record PrivacyMaskReleaseClient =
  mxEndpoint :: parsedURL
  mxDeviceID :: string

definition NewPrivacyMaskReleaseClient ::
  "(string \<Rightarrow> parsedURL option) \<Rightarrow> string \<Rightarrow> string \<Rightarrow> PrivacyMaskReleaseClient option" where
  "NewPrivacyMaskReleaseClient parse endpoint deviceID =
     (case parse (trimSpace endpoint) of
        None \<Rightarrow> None
      | Some u \<Rightarrow>
          if puScheme u \<noteq> ''https'' \<or> puHost u = [] \<or> \<not> puPlain u then None
          else
            (case normalizeUUIDv4 deviceID of
               None \<Rightarrow> None
             | Some d \<Rightarrow> Some \<lparr>mxEndpoint = u\<lparr>puPath := trimRightSlash (puPath u)\<rparr>, mxDeviceID = d\<rparr>))"

definition releasePath :: "PrivacyMaskReleaseClient \<Rightarrow> string" where
  "releasePath c = puPath (mxEndpoint c) @ ''/v1/edge/devices/'' @ mxDeviceID c @ ''/privacy-mask-release''"

text \<open>\<open>response\<close> is the status and what the body decodes to, \<open>None\<close> when there is no response.\<close>

definition readReleaseReply ::
  "maskLib \<Rightarrow> PrivacyMaskReleaseClient \<Rightarrow> (int \<times> PrivacyMaskReleaseManifest option) option \<Rightarrow>
     releaseTransportError + PrivacyMaskReleaseManifest option" where
  "readReleaseReply M c response =
     (case response of
        None \<Rightarrow> Inl RcTransport
      | Some (code, body) \<Rightarrow>
          if code = 204 then Inr None
          else if code \<noteq> 200 then Inl (RcStatus code)
          else
            (case body of
               None \<Rightarrow> Inl ErrInvalidPrivacyMaskTransport
             | Some m \<Rightarrow>
                 if mlVersion M (pmReleaseID m) = None \<or> pmDeviceID m \<noteq> mxDeviceID c \<or> pmVersion m < 1
                 then Inl ErrInvalidPrivacyMaskTransport else Inr (Some m)))"

definition ClientPull ::
  "maskLib \<Rightarrow> PrivacyMaskReleaseClient \<Rightarrow> bool \<Rightarrow> (string \<Rightarrow> int \<Rightarrow> (int \<times> PrivacyMaskReleaseManifest option) option) \<Rightarrow> int \<Rightarrow>
     releaseTransportError + PrivacyMaskReleaseManifest option" where
  "ClientPull M c builds exchange afterVersion =
     (if afterVersion < 0 then Inl ErrInvalidPrivacyMaskTransport
      else if \<not> builds then Inl RcBuild
      else readReleaseReply M c (exchange (releasePath c) afterVersion))"

fun releaseStateText :: "PrivacyMaskReleaseState \<Rightarrow> string" where
  "releaseStateText PrivacyMaskReleaseAccepted = ''accepted''"
| "releaseStateText PrivacyMaskReleaseFailed = ''failed''"
| "releaseStateText PrivacyMaskReleaseNone = []"

definition reportable :: "PrivacyMaskReleaseClient \<Rightarrow> PrivacyMaskReleaseStatus \<Rightarrow> bool" where
  "reportable c st \<longleftrightarrow> \<not> (psDeviceID st \<noteq> mxDeviceID c \<or> psVersion st < 1 \<or>
     (psState st \<noteq> PrivacyMaskReleaseAccepted \<and> psState st \<noteq> PrivacyMaskReleaseFailed) \<or>
     (psState st = PrivacyMaskReleaseAccepted \<and> psErrorCode st \<noteq> []) \<or>
     (psState st = PrivacyMaskReleaseFailed \<and> psErrorCode st \<noteq> ''verification_failed'' \<and> psErrorCode st \<noteq> ''stale_release'' \<and>
      psErrorCode st \<noteq> ''apply_failed''))"

record reportEnv =
  rtEncodes :: bool
  rtBuilds :: bool
  rtRandom :: "bytes option"

text \<open>What leaves the agent: the correlation identifier and the outcome.\<close>

definition releaseReport ::
  "PrivacyMaskReleaseClient \<Rightarrow> reportEnv \<Rightarrow> PrivacyMaskReleaseStatus \<Rightarrow> releaseTransportError + string \<times> privacyReleaseStatusRequest" where
  "releaseReport c E st =
     (if \<not> reportable c st then Inl ErrInvalidPrivacyMaskTransport
      else if \<not> rtEncodes E then Inl RcEncode
      else if \<not> rtBuilds E then Inl RcBuild
      else
        (case newUUIDv4 (rtRandom E) of
           None \<Rightarrow> Inl RcRandom
         | Some correlation \<Rightarrow>
             Inr (correlation, \<lparr>prReleaseID = psReleaseID st, prVersion = psVersion st, prState = releaseStateText (psState st),
               prErrorCode = psErrorCode st\<rparr>)))"

text \<open>\<open>Some (code, data)\<close> is a response; \<open>data\<close> tells that its body has data.\<close>

definition readReportReply :: "(int \<times> bool) option \<Rightarrow> releaseTransportError option" where
  "readReportReply response =
     (case response of
        None \<Rightarrow> Some RcTransport
      | Some (code, data) \<Rightarrow>
          if code \<noteq> 200 then Some (RcStatus code) else if \<not> data then Some ErrInvalidPrivacyMaskTransport else None)"

definition ReportPrivacyMaskRelease ::
  "PrivacyMaskReleaseClient \<Rightarrow> reportEnv \<Rightarrow> (string \<Rightarrow> string \<Rightarrow> privacyReleaseStatusRequest \<Rightarrow> (int \<times> bool) option) \<Rightarrow>
     PrivacyMaskReleaseStatus \<Rightarrow> releaseTransportError option" where
  "ReportPrivacyMaskRelease c E exchange st =
     (case releaseReport c E st of
        Inl err \<Rightarrow> Some err
      | Inr (correlation, body) \<Rightarrow> readReportReply (exchange (releasePath c @ ''/status'') correlation body))"

section \<open>The synchronizers\<close>

datatype releaseSyncError = SyTransport releaseTransportError | SySource string | SyLoad | SyGate maskError

definition lastVersion :: "ControlledPrivacyMaskRelease \<Rightarrow> int" where
  "lastVersion r = (case crLastAccepted r of None \<Rightarrow> 0 | Some l \<Rightarrow> psVersion l)"

text \<open>The results are the gate with its applier, the status that was handed to the reporter, and the error.\<close>

definition SyncRelease ::
  "maskLib \<Rightarrow> (PrivacyMaskReleaseManifest \<Rightarrow> 'a \<Rightarrow> 'a \<times> maskError option) \<Rightarrow> (PrivacyMaskReleaseStatus \<Rightarrow> string option) \<Rightarrow>
     (int \<Rightarrow> releaseTransportError + PrivacyMaskReleaseManifest option) \<Rightarrow> ControlledPrivacyMaskRelease \<times> 'a \<Rightarrow>
     (ControlledPrivacyMaskRelease \<times> 'a) \<times> PrivacyMaskReleaseStatus option \<times> releaseSyncError option" where
  "SyncRelease M apply report pull s =
     (case pull (lastVersion (fst s)) of
        Inl err \<Rightarrow> (s, None, Some (SyTransport err))
      | Inr None \<Rightarrow> (s, None, None)
      | Inr (Some m) \<Rightarrow> (case Accept M apply report m s of (s', st, err) \<Rightarrow> (s', Some st, map_option SyGate err)))"

text \<open>\<open>source\<close> gives an error, no reader, or a reader with what it yields.\<close>

definition SyncBundle ::
  "maskLib \<Rightarrow> PrivacyMaskReleaseLoader \<Rightarrow> (PrivacyMaskReleaseManifest \<Rightarrow> 'a \<Rightarrow> 'a \<times> maskError option) \<Rightarrow>
     (PrivacyMaskReleaseStatus \<Rightarrow> string option) \<Rightarrow> (int \<Rightarrow> string + bytes option option) \<Rightarrow> ControlledPrivacyMaskRelease \<times> 'a \<Rightarrow>
     (ControlledPrivacyMaskRelease \<times> 'a) \<times> PrivacyMaskReleaseStatus option \<times> releaseSyncError option" where
  "SyncBundle M loader apply report source s =
     (case source (lastVersion (fst s)) of
        Inl err \<Rightarrow> (s, None, Some (SySource err))
      | Inr None \<Rightarrow> (s, None, None)
      | Inr (Some content) \<Rightarrow>
          (case Load M loader content of
             None \<Rightarrow> (s, None, Some SyLoad)
           | Some loaded \<Rightarrow>
               (case Accept M apply report (lpManifest loaded) s of (s', st, err) \<Rightarrow> (s', Some st, map_option SyGate err))))"

section \<open>A synchronization against the control plane\<close>

text \<open>
  \<open>wire\<close> is JSON: what the agent decodes of a manifest that the control plane encodes. The requests reach the
  control plane or are lost (\<open>xtReached\<close>, \<open>xtSent\<close>), and so are the answers (\<open>xtAnswered\<close>, \<open>xtHeard\<close>).
\<close>

record releaseTrip =
  xtNow :: gotime
  xtChains :: "clientCertificate list list"
  xtReached :: bool
  xtAnswered :: bool
  xtPull :: storeEnv
  xtSent :: bool
  xtHeard :: bool
  xtStore :: storeEnv
  xtBuilds :: bool
  xtReport :: reportEnv

definition pullAnswer ::
  "httpLib \<Rightarrow> ('j, 'm) storeLib_scheme \<Rightarrow> (DeviceReleaseManifest \<Rightarrow> PrivacyMaskReleaseManifest option) \<Rightarrow> string \<Rightarrow> releaseTrip \<Rightarrow>
     'd releaseDB_scheme \<Rightarrow> int \<Rightarrow> (int \<times> PrivacyMaskReleaseManifest option) option" where
  "pullAnswer H L wire deviceID X db after =
     (if \<not> xtReached X \<or> \<not> xtAnswered X then None
      else
        Some (case pullPrivacyMaskRelease H L (xtNow X) (xtPull X) (xtChains X) (deviceRequest deviceID []) (formatInt after) db of
          Failure code _ \<Rightarrow> (code, None)
        | Reply code found _ \<Rightarrow> (code, case found of None \<Rightarrow> None | Some d \<Rightarrow> wire d)))"

definition reportAnswer ::
  "httpLib \<Rightarrow> ('j, 'm) governLib_scheme \<Rightarrow> string \<Rightarrow> releaseTrip \<Rightarrow> string \<Rightarrow> privacyReleaseStatusRequest \<Rightarrow> 'd releaseDB_scheme \<Rightarrow>
     'd releaseDB_scheme \<times> (int \<times> bool) option" where
  "reportAnswer H L deviceID X correlation body db =
     (if \<not> xtSent X then (db, None)
      else
        (case reportPrivacyMaskRelease H L (xtNow X) (xtStore X) (xtChains X) (deviceRequest deviceID correlation) (Some body) db of
           (db', Failure code _) \<Rightarrow> (db', if xtHeard X then Some (code, False) else None)
         | (db', Reply code _ _) \<Rightarrow> (db', if xtHeard X then Some (code, True) else None)))"

definition afterReport ::
  "httpLib \<Rightarrow> ('j, 'm) governLib_scheme \<Rightarrow> PrivacyMaskReleaseClient \<Rightarrow> releaseTrip \<Rightarrow> PrivacyMaskReleaseStatus option \<Rightarrow>
     'd releaseDB_scheme \<Rightarrow> 'd releaseDB_scheme" where
  "afterReport H L c X reported db =
     (case reported of
        None \<Rightarrow> db
      | Some st \<Rightarrow>
          (case releaseReport c (xtReport X) st of
             Inl err \<Rightarrow> db
           | Inr (correlation, body) \<Rightarrow> fst (reportAnswer H L (mxDeviceID c) X correlation body db)))"

definition syncTrip ::
  "httpLib \<Rightarrow> ('j, 'm) releaseLib_scheme \<Rightarrow> (DeviceReleaseManifest \<Rightarrow> PrivacyMaskReleaseManifest option) \<Rightarrow> PrivacyMaskReleaseClient \<Rightarrow>
     (PrivacyMaskReleaseManifest \<Rightarrow> 'a \<Rightarrow> 'a \<times> maskError option) \<Rightarrow> releaseTrip \<Rightarrow> 'd releaseDB_scheme \<times> ControlledPrivacyMaskRelease \<times> 'a \<Rightarrow>
     'd releaseDB_scheme \<times> ControlledPrivacyMaskRelease \<times> 'a" where
  "syncTrip H L wire c apply X s =
     (case s of (db, gate) \<Rightarrow>
      case SyncRelease (gvMask L) apply
          (\<lambda>st. map_option (\<lambda>_. ''report'') (ReportPrivacyMaskRelease c (xtReport X)
             (\<lambda>_ correlation body. snd (reportAnswer H L (mxDeviceID c) X correlation body db)) st))
          (ClientPull (gvMask L) c (xtBuilds X) (\<lambda>_. pullAnswer H L wire (mxDeviceID c) X db)) gate of
        (gate', reported, err) \<Rightarrow> (afterReport H L c X reported db, gate'))"

end
