(* ===== verification/Mask_Trip.thy ===== *)
theory Mask_Trip
  imports Mask_Governance Mask_Sync Mask_Props
begin

text \<open>
  Masks from the request to the camera: the tables of the control plane and the gate of one device as a
  transition system. Its steps are the calls of administrators, the creation of releases, reports of any device,
  changes of the device registry, and synchronizations of this device over a lossy network.
\<close>

section \<open>Releases in the tables\<close>

text \<open>A release whose request was approved and whose evidence was authorized; the row has the evidence as \<open>jsonb\<close>.\<close>

definition releaseStores :: "('j, 'm) releaseLib_scheme \<Rightarrow> MaskRelease \<Rightarrow> ReleaseEvidence \<Rightarrow> bool" where
  "releaseStores L row evidence \<longleftrightarrow> rlCandidate row = slJsonb L (reCandidate evidence) \<and> rlPipeline row = slJsonb L (rePipeline evidence) \<and>
     rlHILEvidence row = slJsonb L (reHILEvidence evidence) \<and> rlCandidateHash row = reCandidateHash evidence \<and>
     rlEvidenceHash row = reEvidenceHash evidence"

definition governed :: "('j, 'm) releaseLib_scheme \<Rightarrow> TrustedReleaseAuthorizer \<Rightarrow> 'd releaseDB_scheme \<Rightarrow> MaskRelease \<Rightarrow> bool" where
  "governed L keys db row \<longleftrightarrow>
     (\<exists>request evidence. maskByID db (rlTenantID row) (rlRequestID row) = Some request \<and>
        AuthorizeRelease L keys request (orderApprovals (approvalsOf db (rlTenantID row) (rlRequestID row))) evidence \<and>
        releaseStores L row evidence)"

lemma CreateRelease_cases:
  assumes "CreateRelease L keys E c db = (db', res)"
  obtains (none) "db' = db"
    | (new) row request audit where "maskByID db (rlTenantID row) (rlRequestID row) = Some request"
        "AuthorizeRelease L keys request (orderApprovals (approvalsOf db (rlTenantID row) (rlRequestID row))) (releaseEvidence c)"
        "releaseStores L row (releaseEvidence c)" "db' = db\<lparr>rbReleases := rbReleases db @ [row], sdAudit := audit\<rparr>"
proof -
  consider "db' = db"
    | tenant request i where "slUUID L (xcRequestID c) = Some i" "maskByID db tenant i = Some request"
        "AuthorizeRelease L keys request (orderApprovals (approvalsOf db tenant i)) (releaseEvidence c)" "storeRelease L E c tenant db = (db', res)"
    using assms unfolding CreateRelease_def loadRequest_def loadApprovals_def
    by (auto split: if_split_asm sum.split_asm option.split_asm storeError.split_asm maskRequestError.split_asm)
  then show thesis
  proof cases
    case (2 tenant request i)
    consider "db' = db"
      | row audit x where "insertRelease L E tenant (newRelease E c) db = Some row"
          "commitStore E db (db\<lparr>rbReleases := rbReleases db @ [row], sdAudit := audit\<rparr>) x = (db', res)"
      using 2(4) unfolding storeRelease_def by (auto split: option.split_asm sum.split_asm prod.split_asm)
    then show thesis
    proof cases
      case (2 row audit x)
      have row: "rlTenantID row = tenant" "rlRequestID row = i" "releaseStores L row (releaseEvidence c)"
        using 2(1) \<open>slUUID L (xcRequestID c) = Some i\<close>
        by (auto simp: insertRelease_def newRelease_def releaseStores_def releaseEvidence_def split: option.split_asm if_split_asm)
      from commitStore_cases [OF 2(2)] consider "db' = db" | "db' = db\<lparr>rbReleases := rbReleases db @ [row], sdAudit := audit\<rparr>" by blast
      then show thesis
      proof cases
        case 2
        show thesis
          by (rule new [of row request audit]) (use row 2 \<open>maskByID db tenant i = Some request\<close>
              \<open>AuthorizeRelease L keys request (orderApprovals (approvalsOf db tenant i)) (releaseEvidence c)\<close> in simp_all)
      qed (rule none)
    qed (rule none)
  qed (rule none)
qed

text \<open>An approved request and its approvals never change.\<close>

lemma postgresMask_frame:
  assumes "postgresMask L E call db = (db', res)" "maskByID db t i = Some r" "mrStatus r = StatusApproved"
  shows "maskByID db' t i = Some r \<and> approvalsOf db' t i = approvalsOf db t i"
proof (cases call)
  case (MaskCreate c)
  then have "CreateMask L E c db = (db', res)" using assms(1) by simp
  then show ?thesis
  proof (cases rule: CreateMask_cases)
    case none
    then show ?thesis using assms(2) by simp
  next
    case (new row)
    have "(t, i) \<noteq> (mrTenantID row, mrID row)" using maskByID_fresh [OF new(3)] assms(2) by auto
    then show ?thesis using assms(2) by (auto simp: maskByID_new [OF new(1,3)] approvalsOf_def new(2))
  qed
next
  case (MaskApprove c)
  then have "ApproveMask L E c db = (db', res)" using assms(1) by simp
  then show ?thesis
  proof (cases rule: ApproveMask_cases)
    case none
    then show ?thesis using assms(2) by simp
  next
    case (new tenant request approver audit)
    have other: "(t, i) \<noteq> (tenant, mrID request)" using new(2,5) assms(2,3) by auto
    then have "maskByID db' t i = maskByID db t i" unfolding new(10) maskByID_def by (auto simp: find_status)
    moreover have "approvalsOf db' t i = approvalsOf db t i" using other unfolding new(10) by (auto simp: approvalsOf_def)
    ultimately show ?thesis using assms(2) by simp
  qed
qed

lemma postgresMask_releases: "postgresMask L E call db = (db', res) \<Longrightarrow> rbReleases db' = rbReleases db"
  by (cases call) (auto elim!: CreateMask_cases ApproveMask_cases)

lemma governed_frame:
  assumes "governed L keys db row"
    "\<And>t i r. maskByID db t i = Some r \<Longrightarrow> mrStatus r = StatusApproved \<Longrightarrow> maskByID db' t i = Some r \<and> approvalsOf db' t i = approvalsOf db t i"
  shows "governed L keys db' row"
proof -
  from assms(1) obtain request evidence where r: "maskByID db (rlTenantID row) (rlRequestID row) = Some request"
      "AuthorizeRelease L keys request (orderApprovals (approvalsOf db (rlTenantID row) (rlRequestID row))) evidence" "releaseStores L row evidence"
    by (auto simp: governed_def)
  have "mrStatus request = StatusApproved" using r(2) by (rule AuthorizeRelease_cases)
  with assms(2) r show ?thesis unfolding governed_def by metis
qed

section \<open>Reports and pulls\<close>

lemma report_frame:
  assumes "report_privacy_mask_release b device release version state code now db = Inr (db', x)"
  shows "\<exists>ss. db' = db\<lparr>rbStatuses := ss\<rparr>"
  using assms unfolding report_privacy_mask_release_def Let_def by (auto split: option.split_asm if_split_asm)

lemma ReportRelease_frame: "\<exists>ss. fst (ReportRelease L E c db) = db\<lparr>rbStatuses := ss\<rparr>"
proof -
  have "fst (ReportRelease L E c db) = db \<or>
      (\<exists>device release code x. report_privacy_mask_release (gvUseColumn L) device release (rrVersion c) (rrState c) code (stNow E) db = Inr (fst (ReportRelease L E c db), x))"
    unfolding ReportRelease_def by (simp split: option.split sum.split prod.split) blast
  then show ?thesis
  proof
    assume "fst (ReportRelease L E c db) = db"
    then show ?thesis by (intro exI [of _ "rbStatuses db"]) simp
  qed (use report_frame in blast)
qed

lemma reportPrivacyMaskRelease_frame: "\<exists>ss. fst (reportPrivacyMaskRelease H L now E verifiedChains r body db) = db\<lparr>rbStatuses := ss\<rparr>"
proof -
  have id: "\<exists>ss. db = db\<lparr>rbStatuses := ss\<rparr>" by (rule exI [of _ "rbStatuses db"]) simp
  have call: "\<exists>ss. db' = db\<lparr>rbStatuses := ss\<rparr>" if "ReportRelease L E c db = (db', x)" for c db' x
    using ReportRelease_frame [of L E c db] that by simp
  show ?thesis
    unfolding reportPrivacyMaskRelease_def Let_def
    by (auto split: option.splits sum.splits prod.splits if_splits releaseError.splits intro: id dest: call)
qed

lemma afterReport_frame: "\<exists>ss. afterReport H L c X reported db = db\<lparr>rbStatuses := ss\<rparr>"
proof -
  have id: "\<exists>ss. db = db\<lparr>rbStatuses := ss\<rparr>" by (rule exI [of _ "rbStatuses db"]) simp
  have "\<exists>ss. fst (reportAnswer H L d X correlation body db) = db\<lparr>rbStatuses := ss\<rparr>" for d correlation body
    using reportPrivacyMaskRelease_frame [of H L "xtNow X" "xtStore X" "xtChains X" "deviceRequest d correlation" "Some body" db] id
    by (auto simp: reportAnswer_def split: prod.splits reply.splits)
  then show ?thesis using id by (auto simp: afterReport_def split: option.splits sum.splits prod.splits)
qed

text \<open>What JSON keeps of a manifest: the names, the device and the version.\<close>

definition wireFields :: "(DeviceReleaseManifest \<Rightarrow> PrivacyMaskReleaseManifest option) \<Rightarrow> bool" where
  "wireFields wire \<longleftrightarrow> (\<forall>d m. wire d = Some m \<longrightarrow> pmReleaseID m = dmReleaseID d \<and> pmDeviceID m = dmDeviceID d \<and> pmVersion m = dmVersion d)"

lemma pullRoute_200:
  assumes "pullPrivacyMaskRelease H L now E verifiedChains r raw db = Reply 200 (Some d) flag"
  shows "\<exists>device after. PullRelease L E device after db = Inr (Some d)"
proof -
  obtain device after where "(case PullRelease L E device after db of Inl ErrReleaseDeviceNotFound \<Rightarrow> deviceAuthRequired
      | Inl err \<Rightarrow> unavailable | Inr None \<Rightarrow> Reply 204 None False | Inr (Some manifest) \<Rightarrow> Reply 200 (Some manifest) False) = Reply 200 (Some d) flag"
    using assms unfolding pullPrivacyMaskRelease_def Let_def by (auto simp: failures split: option.split_asm if_split_asm)
  then show ?thesis by (auto simp: failures split: sum.split_asm option.split_asm releaseError.split_asm)
qed

lemma PullRelease_row:
  assumes "PullRelease L E device after db = Inr (Some d)"
  obtains row i where "pull_privacy_mask_release i after db = Inr (Some row)" "d = scanDeviceReleaseManifest row" "slUUID L device = Some i"
  using assms by (auto simp: PullRelease_def split: if_split_asm option.split_asm sum.split_asm)

lemma newerReleases_set: "row \<in> set (newerReleases db t d n) \<longleftrightarrow>
    row \<in> set (rbReleases db) \<and> rlTenantID row = t \<and> rlDeviceID row = d \<and> rlVersion row > max n 0"
  by (auto simp: newerReleases_def)

lemma pull_row:
  assumes "pull_privacy_mask_release i after db = Inr (Some row)"
  shows "row \<in> set (rbReleases db)"
proof -
  obtain t rest where "newerReleases db t i after = row # rest"
    using assms by (auto simp: pull_privacy_mask_release_def split: option.split_asm list.split_asm)
  then show ?thesis using newerReleases_set [of row db t i after] by simp
qed

lemma pullAnswer_200:
  assumes "pullAnswer H L wire deviceID X db after = Some (200, Some m)"
  obtains row where "row \<in> set (rbReleases db)" "wire (scanDeviceReleaseManifest row) = Some m"
proof -
  obtain d flag where d: "pullPrivacyMaskRelease H L (xtNow X) (xtPull X) (xtChains X) (deviceRequest deviceID []) (formatInt after) db = Reply 200 (Some d) flag"
      "wire d = Some m"
    using assms by (auto simp: pullAnswer_def split: if_split_asm reply.split_asm option.split_asm)
  from pullRoute_200 [OF d(1)] obtain device k where "PullRelease L (xtPull X) device k db = Inr (Some d)" by blast
  then show thesis by (rule PullRelease_row) (use that d(2) pull_row in blast)
qed

lemma ClientPull_Some:
  assumes "ClientPull M c b (\<lambda>_. pullAnswer H L wire (mxDeviceID c) X db) n = Inr (Some m)"
  obtains row where "row \<in> set (rbReleases db)" "wire (scanDeviceReleaseManifest row) = Some m" "pmDeviceID m = mxDeviceID c"
proof -
  from assms have "pullAnswer H L wire (mxDeviceID c) X db n = Some (200, Some m)" "pmDeviceID m = mxDeviceID c"
    by (auto simp: ClientPull_def readReleaseReply_def split: if_splits option.splits)
  with pullAnswer_200 that show thesis by metis
qed

section \<open>The system\<close>

inductive governReach ::
  "httpLib \<Rightarrow> ('j, 'm) releaseLib_scheme \<Rightarrow> TrustedReleaseAuthorizer \<Rightarrow> (DeviceReleaseManifest \<Rightarrow> PrivacyMaskReleaseManifest option) \<Rightarrow>
     PrivacyMaskReleaseClient \<Rightarrow> releaseDB \<times> ControlledPrivacyMaskRelease \<times> HardwareBoundPrivacyMaskAdapter \<Rightarrow> bool"
  for H L keys wire c where
  start: "mbRequests db = [] \<Longrightarrow> mbApprovals db = [] \<Longrightarrow> rbReleases db = [] \<Longrightarrow> NewControlledPrivacyMaskRelease ks = Inr r \<Longrightarrow>
    NewHardwareBoundPrivacyMaskAdapter (gvMask L) profile key = Inr a \<Longrightarrow> governReach H L keys wire c (db, r, a)"
| mask: "governReach H L keys wire c (db, g) \<Longrightarrow> trimSpace (maskActor call) = maskActor call \<Longrightarrow>
    governReach H L keys wire c (fst (postgresMask L E call db), g)"
| release: "governReach H L keys wire c (db, g) \<Longrightarrow> governReach H L keys wire c (fst (CreateRelease L keys E x db), g)"
| report: "governReach H L keys wire c (db, g) \<Longrightarrow> governReach H L keys wire c (fst (ReportRelease L E y db), g)"
| devices: "governReach H L keys wire c (db, g) \<Longrightarrow> governReach H L keys wire c (db\<lparr>ebDevices := ds\<rparr>, g)"
| sync: "governReach H L keys wire c s \<Longrightarrow> governReach H L keys wire c (syncTrip H L wire c (ApplyVerifiedRelease (gvMask L) execute) X s)"

text \<open>The tables follow the rule of two further persons, and every release is governed.\<close>

definition tablesInv :: "('j, 'm) releaseLib_scheme \<Rightarrow> TrustedReleaseAuthorizer \<Rightarrow> 'd releaseDB_scheme \<Rightarrow> bool" where
  "tablesInv L keys db \<longleftrightarrow> maskGood db \<and> (\<forall>k. dualControlled (pgRequester db k) (pgApprovers db k) (pgApproved db k)) \<and>
     (\<forall>row \<in> set (rbReleases db). governed L keys db row)"

text \<open>What the gate holds is one of the releases of the tables.\<close>

definition gateListed :: "PrivacyMaskReleaseClient \<Rightarrow> releaseDB \<Rightarrow> ControlledPrivacyMaskRelease \<Rightarrow> bool" where
  "gateListed c db r \<longleftrightarrow> (\<forall>st. crLastAccepted r = Some st \<longrightarrow>
     (\<exists>row \<in> set (rbReleases db). rlID row = psReleaseID st \<and> rlVersion row = psVersion st \<and> rlDeviceID row = mxDeviceID c \<and>
        psDeviceID st = mxDeviceID c))"

lemma tablesInv_frame:
  assumes "tablesInv L keys db" "mbRequests db' = mbRequests db" "mbApprovals db' = mbApprovals db" "rbReleases db' = rbReleases db"
  shows "tablesInv L keys db'"
proof -
  have "maskByID db' = maskByID db" "approvalsOf db' = approvalsOf db" by (intro ext, simp add: maskByID_def approvalsOf_def assms)+
  with assms show ?thesis by (simp add: tablesInv_def maskGood_def pgViews governed_def)
qed

lemma tablesInv_mask:
  assumes "tablesInv L keys db" "textKept L" "trimSpace (maskActor call) = maskActor call" "postgresMask L E call db = (db', res)"
  shows "tablesInv L keys db'"
proof -
  have g: "textKept L \<and> maskGood db" using assms(1,2) by (simp add: tablesInv_def)
  have "maskGood db'" using pgControl.keeps [OF g assms(3,4)] by simp
  moreover have "dualControlled (pgRequester db' k) (pgApprovers db' k) (pgApproved db' k)" for k
    by (rule pgControl.step_controlled [OF g assms(3,4)]) (use assms(1) in \<open>simp only: tablesInv_def\<close>)
  moreover have "governed L keys db' row" if "row \<in> set (rbReleases db')" for row
  proof (rule governed_frame [of L keys db])
    show "governed L keys db row" using that assms(1) by (simp add: tablesInv_def postgresMask_releases [OF assms(4)])
  qed (rule postgresMask_frame [OF assms(4)])
  ultimately show ?thesis by (simp add: tablesInv_def)
qed


lemma tablesInv_release:
  assumes "tablesInv L keys db" "CreateRelease L keys E x db = (db', res)"
  shows "tablesInv L keys db'" "set (rbReleases db) \<subseteq> set (rbReleases db')"
proof -
  show "set (rbReleases db) \<subseteq> set (rbReleases db')" using assms(2) by (cases rule: CreateRelease_cases) auto
  show "tablesInv L keys db'"
    using assms(2)
  proof (cases rule: CreateRelease_cases)
    case none
    with assms(1) show ?thesis by simp
  next
    case (new row request audit)
    have same: "maskByID db' = maskByID db" "approvalsOf db' = approvalsOf db" by (intro ext, simp add: new(4) maskByID_def approvalsOf_def)+
    have "governed L keys db' row" using new(1-3) by (auto simp: governed_def same)
    moreover have "governed L keys db' r = governed L keys db r" for r by (simp add: governed_def same)
    ultimately show ?thesis using assms(1) by (auto simp: tablesInv_def maskGood_def pgViews same) (auto simp: new(4))
  qed
qed

lemma gateListed_mono: "gateListed c db r \<Longrightarrow> set (rbReleases db) \<subseteq> set (rbReleases db') \<Longrightarrow> gateListed c db' r"
  unfolding gateListed_def by blast

text \<open>A synchronization leaves the gate alone or moves it to a release of the tables.\<close>

lemma verifiedStatus_sel:
  "verifiedStatus L r m = Inr st \<Longrightarrow> psReleaseID st = pmReleaseID m \<and> psDeviceID st = pmDeviceID m \<and> psVersion st = pmVersion m"
  by (auto simp: verifiedStatus_def split: if_split_asm option.split_asm)

lemma syncTrip_cases:
  assumes "syncTrip H L wire c (ApplyVerifiedRelease (gvMask L) execute) X (db, r, a) = (db', r', a')"
  obtains (same) "r' = r" "a' = a" "\<exists>ss. db' = db\<lparr>rbStatuses := ss\<rparr>"
    | (moved) row m report st err where "row \<in> set (rbReleases db)" "wire (scanDeviceReleaseManifest row) = Some m" "pmDeviceID m = mxDeviceID c"
        "Accept (gvMask L) (ApplyVerifiedRelease (gvMask L) execute) report m (r, a) = ((r', a'), st, err)" "\<exists>ss. db' = db\<lparr>rbStatuses := ss\<rparr>"
proof -
  define report where "report = (\<lambda>st. map_option (\<lambda>_. ''report'') (ReportPrivacyMaskRelease c (xtReport X)
    (\<lambda>_ correlation body. snd (reportAnswer H L (mxDeviceID c) X correlation body db)) st))"
  define pull where "pull = ClientPull (gvMask L) c (xtBuilds X) (\<lambda>_. pullAnswer H L wire (mxDeviceID c) X db)"
  obtain reported err where run: "SyncRelease (gvMask L) (ApplyVerifiedRelease (gvMask L) execute) report pull (r, a) = ((r', a'), reported, err)"
      and db: "db' = afterReport H L c X reported db"
    using assms unfolding syncTrip_def report_def pull_def by (auto split: prod.split_asm)
  have frame: "\<exists>ss. db' = db\<lparr>rbStatuses := ss\<rparr>" unfolding db by (rule afterReport_frame)
  show thesis
  proof (cases "pull (lastVersion r)")
    case (Inl e)
    with run show thesis by (intro same [OF _ _ frame]) (auto simp: SyncRelease_def)
  next
    case (Inr found)
    show thesis
    proof (cases found)
      case None
      with Inr run show thesis by (intro same [OF _ _ frame]) (auto simp: SyncRelease_def)
    next
      case (Some m)
      with Inr have "pull (lastVersion r) = Inr (Some m)" by simp
      then obtain row where "row \<in> set (rbReleases db)" "wire (scanDeviceReleaseManifest row) = Some m" "pmDeviceID m = mxDeviceID c"
        unfolding pull_def by (rule ClientPull_Some)
      moreover obtain st e where "Accept (gvMask L) (ApplyVerifiedRelease (gvMask L) execute) report m (r, a) = ((r', a'), st, e)"
        using run Inr Some by (auto simp: SyncRelease_def split: prod.split_asm)
      ultimately show thesis using moved frame by metis
    qed
  qed
qed

lemma gateListed_sync:
  assumes "wireFields wire" "gateListed c db r" "syncTrip H L wire c (ApplyVerifiedRelease (gvMask L) execute) X (db, r, a) = (db', r', a')"
  shows "gateListed c db' r'"
  using assms(3)
proof (cases rule: syncTrip_cases)
  case same
  then show ?thesis using assms(2) by (auto simp: gateListed_def)
next
  case (moved row m report st err)
  have set: "rbReleases db' = rbReleases db" using moved(5) by auto
  have row: "rlID row = pmReleaseID m \<and> rlVersion row = pmVersion m \<and> rlDeviceID row = mxDeviceID c"
    using moved(2,3) assms(1) by (auto simp: wireFields_def scanDeviceReleaseManifest_def)
  from Accept_cases [OF moved(4)] show ?thesis
  proof (elim disjE conjE)
    assume "r' = r"
    then show ?thesis using assms(2) set by (simp add: gateListed_def)
  next
    assume v: "verifiedStatus (gvMask L) r m = Inr (st\<lparr>psState := PrivacyMaskReleaseNone\<rparr>)" and r': "r' = r\<lparr>crLastAccepted := Some st\<rparr>"
    from verifiedStatus_sel [OF v] row moved(1,3) show ?thesis by (auto simp: gateListed_def r' set)
  qed
qed

lemma gateInv_sync:
  assumes "gateInv (gvMask L) hk (r, a)" "syncTrip H L wire c (ApplyVerifiedRelease (gvMask L) execute) X (db, r, a) = (db', r', a')"
  shows "gateInv (gvMask L) hk (r', a')"
  using assms(2)
proof (cases rule: syncTrip_cases)
  case (moved row m report st err)
  then show ?thesis using gateInv_accept [OF assms(1), of execute report m] by simp
qed (use assms(1) in simp)

lemma governReach_inv:
  assumes "governReach H L keys wire c s" "textKept L" "wireFields wire"
  shows "tablesInv L keys (fst s) \<and> gateListed c (fst s) (fst (snd s)) \<and> (\<exists>hk. gateInv (gvMask L) hk (snd s))"
  using assms(1)
proof (induction rule: governReach.induct)
  case (start db ks r profile key a)
  have none: "crLastAccepted r = None" using start(4) by (auto simp: NewControlledPrivacyMaskRelease_def split: if_splits)
  have "gateInv (gvMask L) (map_of ks) (r, a)" by (rule gateReach_inv, rule gateReach.start [OF start(4) refl start(5)])
  moreover have "tablesInv L keys db"
    using start by (auto simp: tablesInv_def maskGood_def pgViews maskByID_def approvalsOf_def dualControlled_def)
  ultimately show ?case using none by (auto simp: gateListed_def)
next
  case (mask db g call E)
  obtain db' res where run: "postgresMask L E call db = (db', res)" by force
  have "tablesInv L keys db'" by (rule tablesInv_mask [OF _ assms(2) mask(2) run]) (use mask in simp)
  with mask.IH postgresMask_releases [OF run] show ?case by (auto simp: run gateListed_def)
next
  case (release db g E x)
  obtain db' res where run: "CreateRelease L keys E x db = (db', res)" by force
  with release.IH tablesInv_release [OF _ run] gateListed_mono show ?case by (auto simp: run)
next
  case (report db g E y)
  from ReportRelease_frame obtain ss where "fst (ReportRelease L E y db) = db\<lparr>rbStatuses := ss\<rparr>" by blast
  with report.IH tablesInv_frame [of L keys db "db\<lparr>rbStatuses := ss\<rparr>"] show ?case by (auto simp: gateListed_def)
next
  case (devices db g ds)
  with tablesInv_frame [of L keys db "db\<lparr>ebDevices := ds\<rparr>"] show ?case by (auto simp: gateListed_def)
next
  case (sync s execute X)
  obtain db r a where s: "s = (db, r, a)" by (cases s) auto
  obtain db' r' a' where run: "syncTrip H L wire c (ApplyVerifiedRelease (gvMask L) execute) X (db, r, a) = (db', r', a')" by (metis prod.exhaust)
  have "\<exists>ss. db' = db\<lparr>rbStatuses := ss\<rparr>" using run by (cases rule: syncTrip_cases) auto
  then have "tablesInv L keys db'" using sync.IH tablesInv_frame [of L keys db db'] by (auto simp: s)
  with gateListed_sync [OF assms(3) _ run] gateInv_sync [OF _ run] sync.IH show ?case by (auto simp: s run)
qed

end
