(* ===== verification/Mask_Control_Props.thy ===== *)
theory Mask_Control_Props
  imports Mask_Trip
begin

text \<open>
  Properties of the governance of privacy masks: an approval takes three persons, a device activates only governed
  releases, an authorized release reaches its device, and a release that the device refuses stops the channel.
\<close>

section \<open>A synchronization without failures\<close>

definition tripFine :: "httpLib \<Rightarrow> ('j, 'm) governLib_scheme \<Rightarrow> PrivacyMaskReleaseClient \<Rightarrow> releaseTrip \<Rightarrow> bool" where
  "tripFine H L c X \<longleftrightarrow> xtReached X \<and> xtAnswered X \<and> xtSent X \<and> xtHeard X \<and> xtBuilds X \<and> rtEncodes (xtReport X) \<and> rtBuilds (xtReport X) \<and>
     (\<forall>call. stFails (xtPull X) call = None) \<and> (\<forall>call. stFails (xtStore X) call = None) \<and>
     VerifyDevice H (xtNow X) (xtChains X) = Some (mxDeviceID c) \<and> trimSpace (mxDeviceID c) = mxDeviceID c \<and>
     slUUID L (mxDeviceID c) = Some (mxDeviceID c) \<and> uuid4 (gvMask L) (mxDeviceID c) \<and>
     (\<exists>correlation. newUUIDv4 (rtRandom (xtReport X)) = Some correlation \<and> correlationID H (deviceRequest (mxDeviceID c) correlation) \<noteq> None)"

text \<open>The release that the device is given next.\<close>

definition nextRelease :: "'d releaseDB_scheme \<Rightarrow> PrivacyMaskReleaseClient \<Rightarrow> ControlledPrivacyMaskRelease \<Rightarrow> MaskRelease \<Rightarrow> bool" where
  "nextRelease db c r row \<longleftrightarrow>
     (\<exists>d rest. servingDevice db (mxDeviceID c) = Some d \<and> newerReleases db (edTenantID d) (mxDeviceID c) (lastVersion r) = row # rest)"

lemma nextRelease_row:
  assumes "nextRelease db c r row"
  shows "rlDeviceID row = mxDeviceID c" "1 \<le> rlVersion row" "lastVersion r < rlVersion row"
proof -
  from assms obtain t rest where "newerReleases db t (mxDeviceID c) (lastVersion r) = row # rest" by (auto simp: nextRelease_def)
  then show "rlDeviceID row = mxDeviceID c" "1 \<le> rlVersion row" "lastVersion r < rlVersion row"
    using newerReleases_set [of row db t "mxDeviceID c" "lastVersion r"] by auto
qed

lemma deviceRequest_sel [simp]: "hqPath (deviceRequest d q) = d" "hqCorrelation (deviceRequest d q) = q"
  by (simp_all add: deviceRequest_def)

lemma pullAnswer_fine:
  assumes "tripFine H L c X" "nextRelease db c r row" "0 \<le> lastVersion r" "lastVersion r \<le> maxInt64"
  shows "pullAnswer H L wire (mxDeviceID c) X db (lastVersion r) = Some (200, wire (scanDeviceReleaseManifest row))"
proof -
  note f = assms(1) [unfolded tripFine_def]
  have "PullRelease L (xtPull X) (mxDeviceID c) (lastVersion r) db = Inr (Some (scanDeviceReleaseManifest row))"
    using f assms(2,3) by (auto simp: PullRelease_def pull_privacy_mask_release_def nextRelease_def)
  then have "pullPrivacyMaskRelease H L (xtNow X) (xtPull X) (xtChains X) (deviceRequest (mxDeviceID c) []) (formatInt (lastVersion r)) db =
      Reply 200 (Some (scanDeviceReleaseManifest row)) False"
    using f parse_format [OF assms(3,4)] assms(3) by (simp add: pullPrivacyMaskRelease_def verifiedDeviceRequest_def Let_def)
  then show ?thesis using f by (simp add: pullAnswer_def)
qed

text \<open>The geometry of a candidate counts only in its canonical form.\<close>

lemma VerifyPreEncode_geometry:
  assumes "canonicalGeometry M g = canonicalGeometry M (pcGeometry c)"
  shows "VerifyPreEncodePrivacyMask M (c\<lparr>pcGeometry := g\<rparr>) stages = VerifyPreEncodePrivacyMask M c stages"
  using assms by (simp add: VerifyPreEncodePrivacyMask_def validatePrivacyMaskCandidate_def split: option.splits)

text \<open>What the control plane authorized, the gate of the device verifies.\<close>

definition plainNames :: "MaskRequest \<Rightarrow> MaskApproval list \<Rightarrow> bool" where
  "plainNames request approvals \<longleftrightarrow> (\<forall>x \<in> insert (mrRequestedBy request) (set (map maApproverID approvals)). trimSpace x = x \<and> CHR 0x00 \<notin> set x)"

definition wireReads ::
  "('j, 'm) releaseLib_scheme \<Rightarrow> (DeviceReleaseManifest \<Rightarrow> PrivacyMaskReleaseManifest option) \<Rightarrow> MaskRelease \<Rightarrow> ReleaseEvidence \<Rightarrow>
     PrivacyMaskReleaseManifest \<Rightarrow> bool" where
  "wireReads L wire row evidence m \<longleftrightarrow> wire (scanDeviceReleaseManifest row) = Some m \<and> pmReleaseID m = rlID row \<and> pmDeviceID m = rlDeviceID row \<and>
     pmVersion m = rlVersion row \<and> decodeReleasePipeline L (rePipeline evidence) = Some (pmPipeline m) \<and>
     decodeReleaseHIL L (reHILEvidence evidence) = Some (pmHILEvidence m) \<and>
     (\<exists>c g. decodeReleaseCandidate L (reCandidate evidence) = Some c \<and> pmCandidate m = c\<lparr>pcGeometry := g\<rparr> \<and>
        canonicalGeometry (gvMask L) g = canonicalGeometry (gvMask L) (pcGeometry c))"

definition gateTrusts :: "TrustedReleaseAuthorizer \<Rightarrow> ControlledPrivacyMaskRelease \<Rightarrow> PrivacyMaskHILAttestation \<Rightarrow> bool" where
  "gateTrusts keys r h \<longleftrightarrow> trimSpace (haHarnessID h) = haHarnessID h \<and> crKeys r (haHarnessID h) = map_of keys (haHarnessID h) \<and>
     (\<forall>key. map_of keys (haHarnessID h) = Some key \<longrightarrow> length key = 32)"

lemma authorized_verifies:
  assumes auth: "AuthorizeRelease L keys request approvals evidence" and names: "plainNames request approvals"
    and wire: "wireReads L wire row evidence m" and trust: "gateTrusts keys r (pmHILEvidence m)"
    and ids: "uuid4 (gvMask L) (rlID row)" "uuid4 (gvMask L) (rlDeviceID row)" "1 \<le> rlVersion row" "haDeviceID (pmHILEvidence m) = rlDeviceID row"
  shows "verifiedStatus (gvMask L) r m = Inr \<lparr>psReleaseID = rlID row, psDeviceID = rlDeviceID row, psVersion = rlVersion row,
    psCandidateHash = reCandidateHash evidence, psEvidenceHash = reEvidenceHash evidence, psState = PrivacyMaskReleaseNone, psErrorCode = []\<rparr>"
proof -
  obtain c stages h key payload where a: "length approvals = 2" "decodeReleaseCandidate L (reCandidate evidence) = Some c"
      "sameReleaseCandidate (gvMask L) request approvals c" "decodeReleasePipeline L (rePipeline evidence) = Some stages" "strictReleasePipeline stages"
      "releaseCandidateHash (gvMask L) c stages = Some (reCandidateHash evidence)" "decodeReleaseHIL L (reHILEvidence evidence) = Some h"
      "haCandidateHash h = reCandidateHash evidence" "map_of keys (haHarnessID h) = Some key" "releaseHILPayload (gvMask L) h = Some payload"
      "mlVerify (gvMask L) key payload (haSignature h)" "reEvidenceHash evidence = hexEncode (mlSha (gvMask L) payload)"
    using AuthorizeRelease_cases [OF auth] by metis
  from wire a(2,4,7) obtain g where m: "pmReleaseID m = rlID row" "pmDeviceID m = rlDeviceID row" "pmVersion m = rlVersion row" "pmPipeline m = stages"
      "pmHILEvidence m = h" "pmCandidate m = c\<lparr>pcGeometry := g\<rparr>" "canonicalGeometry (gvMask L) g = canonicalGeometry (gvMask L) (pcGeometry c)"
    by (auto simp: wireReads_def)
  have "mset (pcApproverIDs c) = mset (map maApproverID approvals)"
    by (rule sameReleaseCandidate_approvers [OF a(3,1) decodeReleaseCandidate_Some(6) [OF a(2)]]) (use names in \<open>auto simp: plainNames_def\<close>)
  then have "set (pcApproverIDs c) = set (map maApproverID approvals)" by (metis set_mset_mset)
  moreover have "pcRequestedBy c = mrRequestedBy request" using a(3) by (simp add: sameReleaseCandidate_def)
  ultimately have trimmed: "trimSpace x = x" if "x \<in> insert (pcRequestedBy c) (set (pcApproverIDs c))" for x
    using names that by (auto simp: plainNames_def)
  have v: "VerifyPreEncodePrivacyMask (gvMask L) (pmCandidate m) (pmPipeline m) =
      Some \<lparr>pvVerifierVersion = 1, pvCandidateHash = reCandidateHash evidence, pvStages = stages\<rparr>"
    using candidate_verifies [OF a(2,6,5) trimmed] VerifyPreEncode_geometry [OF m(7), of stages] by (simp add: m)
  have "crKeys r (trimSpace (haHarnessID h)) = Some key" "length key = 32" using trust a(9) by (simp_all add: gateTrusts_def m)
  note h = evidence_verifies [OF a(7,10,11), of "crKeys r", OF this]
  show ?thesis using v h ids a(8,12) by (simp add: verifiedStatus_def m)
qed

text \<open>The report of an accepted release arrives.\<close>

definition acceptedStatus :: "string \<Rightarrow> MaskRelease \<Rightarrow> gotime \<Rightarrow> DeviceReleaseStatus" where
  "acceptedStatus tenant row now = \<lparr>vsTenantID = tenant, vsDeviceID = rlDeviceID row, vsReleaseID = rlID row, vsVersion = rlVersion row,
     vsState = ''accepted'', vsErrorCode = [], vsReportedAt = now, vsAcceptedAt = Some now\<rparr>"

definition noNewerStatus :: "'d releaseDB_scheme \<Rightarrow> MaskRelease \<Rightarrow> bool" where
  "noNewerStatus db row \<longleftrightarrow> (\<forall>s \<in> set (rbStatuses db). vsDeviceID s = rlDeviceID row \<longrightarrow> vsVersion s \<le> rlVersion row)"

lemma report_fine:
  assumes "tripFine H L c X" "nextRelease db c r row" "noNewerStatus db row" "1 \<le> rlVersion row"
    "trimSpace (rlID row) = rlID row" "slUUID L (rlID row) = Some (rlID row)" "uuid4 (gvMask L) (rlID row)" "psReleaseID st = rlID row"
    "psDeviceID st = mxDeviceID c" "psVersion st = rlVersion row" "psState st = PrivacyMaskReleaseAccepted" "psErrorCode st = []"
  shows "\<exists>tenant. if gvUseColumn L then acceptedStatus tenant row (stNow (xtStore X)) \<in> set (rbStatuses (afterReport H L c X (Some st) db))
    else afterReport H L c X (Some st) db = db"
proof -
  note f = assms(1) [unfolded tripFine_def]
  from assms(2) obtain d rest where d: "servingDevice db (mxDeviceID c) = Some d"
      "newerReleases db (edTenantID d) (mxDeviceID c) (lastVersion r) = row # rest" by (auto simp: nextRelease_def)
  have row: "row \<in> set (rbReleases db)" "rlTenantID row = edTenantID d" "rlDeviceID row = mxDeviceID c"
    using newerReleases_set [of row db "edTenantID d" "mxDeviceID c" "lastVersion r"] d(2) by auto
  obtain q where q: "newUUIDv4 (rtRandom (xtReport X)) = Some q" "correlationID H (deviceRequest (mxDeviceID c) q) \<noteq> None" using f by blast
  let ?body = "\<lparr>prReleaseID = rlID row, prVersion = rlVersion row, prState = ''accepted'', prErrorCode = []\<rparr>"
  have rep: "releaseReport c (xtReport X) st = Inr (q, ?body)"
    using f q assms(4,8-12) by (simp add: releaseReport_def reportable_def)
  have t: "trimSpace ''accepted'' = ''accepted''" by code_simp
  let ?cmd = "\<lparr>rrDeviceID = mxDeviceID c, rrReleaseID = rlID row, rrState = ''accepted'', rrErrorCode = [], rrVersion = rlVersion row\<rparr>"
  have valid: "validateReleaseReport L ?cmd"
    using f assms(4,7) t by (simp add: validateReleaseReport_def parsesUUID_def uuid4_def)
  let ?row = "acceptedStatus (edTenantID d) row (stNow (xtStore X))"
  have newer: "\<not> (\<exists>s \<in> set (rbStatuses db). vsTenantID s = edTenantID d \<and> vsDeviceID s = mxDeviceID c \<and> vsVersion s > rlVersion row)"
    using assms(3) row(3) by (auto simp: noNewerStatus_def)
  let ?db = "db\<lparr>rbStatuses := filter (\<lambda>s. \<not> (vsTenantID s = edTenantID d \<and> vsDeviceID s = mxDeviceID c)) (rbStatuses db) @ [?row]\<rparr>"
  have "report_privacy_mask_release (gvUseColumn L) (mxDeviceID c) (rlID row) (rlVersion row) ''accepted'' None (stNow (xtStore X)) db =
      (if gvUseColumn L then Inr (?db, ?row) else Inl ''42702'')"
    using newer d(1) row assms(4) by (auto simp: report_privacy_mask_release_def Let_def acceptedStatus_def)
  then have "ReportRelease L (xtStore X) ?cmd db = (if gvUseColumn L then (?db, Inr ?row) else (db, Inl (RtDatabase StUpdate)))"
    using f valid assms(6) by (simp add: ReportRelease_def classifyReleaseDeviceError_def)
  then have "reportPrivacyMaskRelease H L (xtNow X) (xtStore X) (xtChains X) (deviceRequest (mxDeviceID c) q) (Some ?body) db =
      (if gvUseColumn L then (?db, Reply 200 ?row False) else (db, unavailable))"
    using f valid q(2) assms(5) t
    by (auto simp: reportPrivacyMaskRelease_def verifiedDeviceRequest_def correlationHeaderOnly_def Let_def)
  then have "if gvUseColumn L then ?row \<in> set (rbStatuses (afterReport H L c X (Some st) db)) else afterReport H L c X (Some st) db = db"
    using f rep by (cases "gvUseColumn L") (auto simp: afterReport_def reportAnswer_def failures)
  then show ?thesis by blast
qed


text \<open>A synchronization that finds a release which the gate verifies and the adapter applies.\<close>

lemma syncTrip_accepts:
  assumes "ClientPull (gvMask L) c (xtBuilds X) (\<lambda>_. pullAnswer H L wire (mxDeviceID c) X db) (lastVersion r) = Inr (Some m)"
    "verifiedStatus (gvMask L) r m = Inr st" "lastVersion r < pmVersion m" "apply m a = (a', None)"
  shows "syncTrip H L wire c apply X (db, r, a) =
    (afterReport H L c X (Some (st\<lparr>psState := PrivacyMaskReleaseAccepted\<rparr>)) db,
     r\<lparr>crLastAccepted := Some (st\<lparr>psState := PrivacyMaskReleaseAccepted\<rparr>)\<rparr>, a')"
proof -
  have "\<not> (case crLastAccepted r of None \<Rightarrow> False | Some l \<Rightarrow> pmVersion m \<le> psVersion l)"
    using assms(3) by (auto simp: lastVersion_def split: option.splits)
  then show ?thesis using assms(1,2,4) by (simp add: syncTrip_def SyncRelease_def Accept_def Let_def)
qed

text \<open>Whatever the network and the database do, the device is given the same release.\<close>

lemma ClientPull_next:
  assumes "nextRelease db c r row" "slUUID L (mxDeviceID c) = Some (mxDeviceID c)" "trimSpace (mxDeviceID c) = mxDeviceID c"
    "0 \<le> lastVersion r" "lastVersion r \<le> maxInt64"
    "ClientPull M c b (\<lambda>_. pullAnswer H L wire (mxDeviceID c) X db) (lastVersion r) = Inr (Some m)"
  shows "wire (scanDeviceReleaseManifest row) = Some m"
proof -
  from assms(6) have "pullAnswer H L wire (mxDeviceID c) X db (lastVersion r) = Some (200, Some m)"
    by (auto simp: ClientPull_def readReleaseReply_def split: if_splits option.splits)
  then obtain d flag where d: "wire d = Some m" "pullPrivacyMaskRelease H L (xtNow X) (xtPull X) (xtChains X) (deviceRequest (mxDeviceID c) [])
      (formatInt (lastVersion r)) db = Reply 200 (Some d) flag"
    by (auto simp: pullAnswer_def split: if_split_asm reply.split_asm option.split_asm)
  have "PullRelease L (xtPull X) (mxDeviceID c) (lastVersion r) db = Inr (Some d)"
    using d(2) parse_format [OF assms(4,5)] assms(3)
    by (auto simp: pullPrivacyMaskRelease_def verifiedDeviceRequest_def Let_def failures
        split: if_split_asm sum.split_asm option.split_asm releaseError.split_asm)
  then have "d = scanDeviceReleaseManifest row"
    by (rule PullRelease_row) (use assms(1,2) in \<open>auto simp: pull_privacy_mask_release_def nextRelease_def\<close>)
  with d(1) show ?thesis by simp
qed

lemma verifiedStatus_refused: "verifiedStatus M r m = Inl st \<Longrightarrow> psVersion st = 0"
  by (auto simp: verifiedStatus_def failedStatus_def split: if_split_asm option.split_asm)

lemma syncTrip_refused:
  assumes "nextRelease db c r row" "slUUID L (mxDeviceID c) = Some (mxDeviceID c)" "trimSpace (mxDeviceID c) = mxDeviceID c"
    "0 \<le> lastVersion r" "lastVersion r \<le> maxInt64" "\<And>m. wire (scanDeviceReleaseManifest row) = Some m \<Longrightarrow> \<exists>st. verifiedStatus (gvMask L) r m = Inl st"
  shows "syncTrip H L wire c apply X (db, r, a) = (db, r, a)"
proof (cases "ClientPull (gvMask L) c (xtBuilds X) (\<lambda>_. pullAnswer H L wire (mxDeviceID c) X db) (lastVersion r)")
  case (Inl err)
  then show ?thesis by (simp add: syncTrip_def SyncRelease_def afterReport_def)
next
  case (Inr found)
  show ?thesis
  proof (cases found)
    case None
    with Inr show ?thesis by (simp add: syncTrip_def SyncRelease_def afterReport_def)
  next
    case (Some m)
    with Inr ClientPull_next [OF assms(1-5)] have "wire (scanDeviceReleaseManifest row) = Some m" by blast
    with assms(6) obtain st where st: "verifiedStatus (gvMask L) r m = Inl st" by blast
    then have "\<not> reportable c (st\<lparr>psState := PrivacyMaskReleaseFailed, psErrorCode := ''verification_failed''\<rparr>)"
      using verifiedStatus_refused [OF st] by (simp add: reportable_def)
    with st Inr Some show ?thesis by (simp add: syncTrip_def SyncRelease_def Accept_def afterReport_def releaseReport_def)
  qed
qed

text \<open>What the control plane has authorized arrives.\<close>

definition adapterFits ::
  "maskLib \<Rightarrow> PrivacyMaskReleaseClient \<Rightarrow> PrivacyMaskHILAttestation \<Rightarrow> ControlledPrivacyMaskRelease \<Rightarrow> HardwareBoundPrivacyMaskAdapter \<Rightarrow> bool" where
  "adapterFits M c h r a \<longleftrightarrow> validatePrivacyMaskHardwareProfile M (hbProfile a) \<and> hpDeviceID (hbProfile a) = mxDeviceID c \<and>
     hpHarnessID (hbProfile a) = trimSpace (haHarnessID h) \<and> crKeys r (hpHarnessID (hbProfile a)) = Some (hbKey a)"

text \<open>The adapter of such a device takes what the gate has verified, and a newer version than its own.\<close>

lemma adapter_applies:
  assumes "verifiedStatus M r m = Inr st" "gateReach M hk (r, a)" "adapterFits M c (pmHILEvidence m) r a"
    "pmDeviceID m = mxDeviceID c" "lastVersion r < pmVersion m" "\<forall>act. execute act = None"
  shows "\<exists>a'. ApplyVerifiedRelease M execute m a = (a', None)"
proof -
  let ?e = "pmHILEvidence m" and ?p = "hbProfile a"
  obtain v h where v: "VerifyPreEncodePrivacyMask M (pmCandidate m) (pmPipeline m) = Some v"
      "VerifyPrivacyMaskHILEvidence M ?e (crKeys r) = Some h" "haDeviceID ?e = pmDeviceID m" "haCandidateHash ?e = pvCandidateHash v"
      "uuid4 M (pmReleaseID m)" "1 \<le> pmVersion m"
    using assms(1) by (auto simp: verifiedStatus_def split: if_split_asm option.split_asm)
  have e: "haExecutionKind ?e = ''physical''" "haMaskBeforeEncode ?e" "haEncoderBypassDenied ?e" "\<not> haRawFramesRetained ?e"
    using verifiedStatus_Inr [OF assms(1)] by (simp_all add: releaseJustified_def Let_def)
  have fits: "hpHarnessID ?p = trimSpace (haHarnessID ?e)" "crKeys r (trimSpace (haHarnessID ?e)) = Some (hbKey a)"
    using assms(3) unfolding adapterFits_def by metis+
  have "VerifyPrivacyMaskHILEvidence M ?e [hpHarnessID ?p \<mapsto> hbKey a] = VerifyPrivacyMaskHILEvidence M ?e (crKeys r)"
    by (simp add: VerifyPrivacyMaskHILEvidence_def fits)
  then obtain act where act: "activationFor M a m = Some act" "hmVersion act = pmVersion m"
    using v e assms(3,4) by (auto simp: activationFor_def adapterFits_def Let_def)
  have "hmVersion active < pmVersion m" if "hbActive a = Some active" for active
    using gateReach_inv [OF assms(2)] that assms(5) by (auto simp: gateInv_def sameRelease_def lastVersion_def split: option.split_asm)
  then show ?thesis using act assms(6) by (cases "hbActive a") (auto simp: ApplyVerifiedRelease_def Let_def)
qed

lemma release_arrives:
  assumes "tripFine H L c X" "nextRelease db c r row" "0 \<le> lastVersion r" "lastVersion r \<le> maxInt64" "noNewerStatus db row"
    "AuthorizeRelease L keys request approvals evidence" "plainNames request approvals" "wireReads L wire row evidence m"
    "gateTrusts keys r (pmHILEvidence m)" "haDeviceID (pmHILEvidence m) = mxDeviceID c"
    "uuid4 (gvMask L) (rlID row)" "trimSpace (rlID row) = rlID row" "slUUID L (rlID row) = Some (rlID row)"
    "gateReach (gvMask L) hk (r, a)" "adapterFits (gvMask L) c (pmHILEvidence m) r a" "\<forall>act. execute act = None"
  shows "\<exists>db' r' a' st act tenant. syncTrip H L wire c (ApplyVerifiedRelease (gvMask L) execute) X (db, r, a) = (db', r', a') \<and>
    crLastAccepted r' = Some st \<and> psReleaseID st = rlID row \<and> psVersion st = rlVersion row \<and> lastVersion r' = rlVersion row \<and>
    hbActive a' = Some act \<and> hmReleaseID act = rlID row \<and> hmVersion act = rlVersion row \<and>
    (if gvUseColumn L then acceptedStatus tenant row (stNow (xtStore X)) \<in> set (rbStatuses db') else db' = db)"
proof -
  note row = nextRelease_row [OF assms(2)]
  have f: "xtBuilds X" "uuid4 (gvMask L) (mxDeviceID c)" using assms(1) by (simp_all add: tripFine_def)
  have m: "wire (scanDeviceReleaseManifest row) = Some m" "pmReleaseID m = rlID row" "pmDeviceID m = mxDeviceID c" "pmVersion m = rlVersion row"
    using assms(8) row(1) by (simp_all add: wireReads_def)
  have pulled: "ClientPull (gvMask L) c (xtBuilds X) (\<lambda>_. pullAnswer H L wire (mxDeviceID c) X db) (lastVersion r) = Inr (Some m)"
    using pullAnswer_fine [OF assms(1-4), of wire] assms(3,11) f(1) m row(2) by (auto simp: ClientPull_def readReleaseReply_def uuid4_def)
  obtain st where st: "verifiedStatus (gvMask L) r m = Inr st" "psReleaseID st = rlID row" "psDeviceID st = mxDeviceID c" "psVersion st = rlVersion row"
      "psErrorCode st = []"
    using authorized_verifies [OF assms(6-9,11)] f(2) row assms(10) by simp
  obtain a' where applied: "ApplyVerifiedRelease (gvMask L) execute m a = (a', None)"
    using adapter_applies [OF st(1) assms(14,15)] assms(10,16) m row(3) by auto
  let ?st = "st\<lparr>psState := PrivacyMaskReleaseAccepted\<rparr>"
  obtain tenant where "if gvUseColumn L then acceptedStatus tenant row (stNow (xtStore X)) \<in> set (rbStatuses (afterReport H L c X (Some ?st) db))
      else afterReport H L c X (Some ?st) db = db"
    using report_fine [OF assms(1,2,5) row(2) assms(12,13,11), of ?st] st by auto
  moreover obtain act where "hbActive a' = Some act" "hmReleaseID act = rlID row" "hmVersion act = rlVersion row"
    using ApplyVerified_cases [OF applied] m by auto
  ultimately show ?thesis
    using syncTrip_accepts [of L c X H wire db r m st "ApplyVerifiedRelease (gvMask L) execute" a a'] pulled st applied m row(3)
    by (intro exI [of _ "afterReport H L c X (Some ?st) db"] exI [of _ "r\<lparr>crLastAccepted := Some ?st\<rparr>"] exI [of _ a'] exI [of _ ?st] exI [of _ act] exI [of _ tenant])
      (simp add: lastVersion_def)
qed

text \<open>A release of the tables has its requester and two further approvers.\<close>

lemma governed_three:
  assumes "tablesInv L keys db" "row \<in> set (rbReleases db)"
  shows "\<exists>p x y. pgRequester db (rlTenantID row, rlRequestID row) = Some p \<and> pgApprovers db (rlTenantID row, rlRequestID row) = [x, y] \<and> distinct [p, x, y]"
proof -
  let ?k = "(rlTenantID row, rlRequestID row)"
  from assms obtain request evidence where g: "maskByID db (rlTenantID row) (rlRequestID row) = Some request"
      "AuthorizeRelease L keys request (orderApprovals (approvalsOf db (rlTenantID row) (rlRequestID row))) evidence"
    by (auto simp: tablesInv_def governed_def)
  have "pgApproved db ?k" using g(1) AuthorizeRelease_cases [OF g(2)] by (auto simp: pgApproved_def)
  moreover have "pgRequester db ?k = Some (mrRequestedBy request)" using g(1) by (simp add: pgRequester_def)
  moreover have "dualControlled (pgRequester db ?k) (pgApprovers db ?k) (pgApproved db ?k)" using assms(1) by (simp only: tablesInv_def)
  ultimately have c: "length (pgApprovers db ?k) = 2" "distinct (pgApprovers db ?k)" "mrRequestedBy request \<notin> set (pgApprovers db ?k)"
      "pgRequester db ?k = Some (mrRequestedBy request)" by (simp_all add: dualControlled_def)
  then obtain x y where "pgApprovers db ?k = [x, y]" by (auto simp: length_Suc_conv numeral_2_eq_2)
  with c show ?thesis by auto
qed

section \<open>Instances\<close>

definition wGov :: "string releaseLib" where
  "wGov = \<lparr>slSha = (\<lambda>x. replicate 32 CHR ''x''), slParses = (\<lambda>s. True), slUUID = Some, slJsonb = (\<lambda>b. b), slLower = (\<lambda>s. s), slUpper = (\<lambda>s. s),
     slAudit = wAuditLib, slNil = [], gvMask = wMaskLib, gvKind = (\<lambda>_. Some ''Polygon''), gvText = (\<lambda>n s. Some s), gvObject = (\<lambda>_. True), gvUseColumn = True,
     gvAnyRequest = mrID, rvCandidate = (\<lambda>_. Some wCandidate), rvStages = (\<lambda>_. Some [''decode'', ''mask'', ''encode'']),
     rvHIL = (\<lambda>_. Some (pmHILEvidence wManifest)), rvAnyRelease = rlID\<rparr>"

definition wGovEnv :: storeEnv where
  "wGovEnv = \<lparr>stNow = 5, stID = ''q'', stID2 = [], stFails = (\<lambda>_. None), stAudit = (\<lambda>_. False), stCommitApplied = False\<rparr>"

definition wDevice :: EdgeDevice where
  "wDevice = \<lparr>edID = ''d'', edTenantID = ''t'', edSiteID = ''s'', edSerialNumber = ''n'', edHardwareTier = ''s'', edModel = [], edStatus = ''active'',
     edCertificateStatus = ''active'', edFirmwareVersion = [], edStoreForwardDepth = 0, edUptimeSeconds = 0, edDesiredConfigRevision = 0,
     edHealth = None, edLastHeartbeat = None, edActivatedAt = None,
     edCreatedAt = 1, edUpdatedAt = 1\<rparr>"

definition wGovDB :: releaseDB where
  "wGovDB = \<lparr>sdTenants = (\<lambda>_. True), sdSites = [\<lparr>siID = ''s'', siTenantID = ''t'', siName = [], siAddress = [], siTimezone = [],
      siStatus = ''active'', siCreatedAt = 1\<rparr>], sdKeys = [], sdAudit = [], ebDevices = [wDevice], ebClaims = [], mbCameras = (\<lambda>_ _. True),
      mbRequests = [], mbApprovals = [], rbReleases = [], rbStatuses = []\<rparr>"

definition wMaskCalls :: "(storeEnv \<times> maskCall) list" where
  "wMaskCalls =
     [(wGovEnv, MaskCreate \<lparr>mcTenantID = ''t'', mcSiteID = ''s'', mcCameraID = ''c'', mcActorID = ''r'', mcRequestID = ''u'', mcName = ''n'', mcGeometry = ''g''\<rparr>),
      (wGovEnv, MaskApprove \<lparr>mpTenantID = ''t'', mpRequestID = ''q'', mpActorID = ''a'', mpAuditRequestID = ''u''\<rparr>),
      (wGovEnv, MaskApprove \<lparr>mpTenantID = ''t'', mpRequestID = ''q'', mpActorID = ''b'', mpAuditRequestID = ''u''\<rparr>)]"

definition wReleaseCommand :: CreateReleaseCommand where
  "wReleaseCommand = \<lparr>xcReleaseID = ''rel'', xcTenantID = ''t'', xcSiteID = ''s'', xcCameraID = ''c'', xcRequestID = ''q'', xcDeviceID = ''d'', xcVersion = 1,
     xcCandidate = ''c'', xcPipeline = ''p'', xcHILEvidence = ''e'', xcCandidateHash = ''71'' @ replicate 62 CHR ''0'',
     xcEvidenceHash = ''68'' @ replicate 62 CHR ''0'', xcActorID = ''r'', xcAuditRequestID = ''u''\<rparr>"

definition wKeys :: TrustedReleaseAuthorizer where "wKeys = [(''h'', replicate 32 CHR 0x01)]"

lemma wMaskCalls_trimmed: "list_all (\<lambda>x. trimSpace (maskActor (snd x)) = maskActor (snd x)) wMaskCalls"
  by code_simp

lemma wGov_laws: "textKept wGov"
  by (simp add: textKept_def wGov_def)

lemma wApproved: "map mrStatus (mbRequests (fst (runCalls (postgresMask wGov) wMaskCalls wGovDB))) = [''approved'']"
  by code_simp


text \<open>The tables after the approval and the release, and a synchronization.\<close>

definition wReleased :: releaseDB where
  "wReleased = fst (CreateRelease wGov wKeys wGovEnv wReleaseCommand (fst (runCalls (postgresMask wGov) wMaskCalls wGovDB)))"

definition wWire :: "DeviceReleaseManifest \<Rightarrow> PrivacyMaskReleaseManifest option" where
  "wWire d = Some (wManifest\<lparr>pmReleaseID := dmReleaseID d, pmDeviceID := dmDeviceID d, pmVersion := dmVersion d\<rparr>)"

definition wClient :: PrivacyMaskReleaseClient where
  "wClient = \<lparr>mxEndpoint = \<lparr>puScheme = ''https'', puHost = ''x'', puPlain = True, puPath = []\<rparr>, mxDeviceID = ''d''\<rparr>"

definition wReleaseHttp :: httpLib where
  "wReleaseHttp = \<lparr>hlParse = (\<lambda>s. Some (s, 4)), hlUnicode = (\<lambda>s. s), hlFold = (=)\<rparr>"

definition wTrip :: releaseTrip where
  "wTrip = \<lparr>xtNow = 5, xtChains = [[\<lparr>ccNotBefore = 1, ccNotAfter = 9, ccCommonName = ''d''\<rparr>]], xtReached = True, xtAnswered = True, xtPull = wGovEnv,
     xtSent = True, xtHeard = True, xtStore = wGovEnv, xtBuilds = True,
     xtReport = \<lparr>rtEncodes = True, rtBuilds = True, rtRandom = Some (replicate 16 CHR 0x00)\<rparr>\<rparr>"

definition wMaskRow :: MaskRequest where
  "wMaskRow = \<lparr>mrID = ''q'', mrTenantID = ''t'', mrSiteID = ''s'', mrCameraID = ''c'', mrName = ''n'', mrGeometry = ''g'', mrStatus = ''approved'',
     mrRequestedBy = ''r'', mrRequestedAt = 5, mrApprovals = []\<rparr>"

definition wApprovals :: "MaskApproval list" where
  "wApprovals = [\<lparr>maApproverID = ''a'', maApprovedAt = 5\<rparr>, \<lparr>maApproverID = ''b'', maApprovedAt = 5\<rparr>]"

lemma validReleaseHash_encoded:
  assumes "length bs = 32"
  shows "validReleaseHash L (hexEncode bs)"
proof -
  have "list_all asciiChar (hexEncode bs)" "map lowerChar (hexEncode bs) = hexEncode bs"
    using set_hexEncode uuid_chars lowerHex_hexChar by (auto simp: list_all_iff intro!: map_idI)
  then show ?thesis using assms by (simp add: validReleaseHash_def toLower_def)
qed

lemma hexZeros: "hexEncode (replicate n CHR 0x00) = replicate (2 * n) CHR ''0''"
proof -
  have "hexDigit 0 = CHR ''0''" by code_simp
  then show ?thesis by (induction n) simp_all
qed

lemma wHex: "''71'' @ replicate 62 CHR ''0'' = hexEncode (CHR ''q'' # replicate 31 CHR 0x00)"
    "''68'' @ replicate 62 CHR ''0'' = hexEncode (CHR ''h'' # replicate 31 CHR 0x00)" "replicate 64 CHR ''0'' = hexEncode (replicate 32 CHR 0x00)"
proof -
  have "hexDigit 7 = CHR ''7''" "hexDigit (Suc 0) = CHR ''1''" "hexDigit 6 = CHR ''6''" "hexDigit 8 = CHR ''8''" by code_simp+
  then show "''71'' @ replicate 62 CHR ''0'' = hexEncode (CHR ''q'' # replicate 31 CHR 0x00)"
    "''68'' @ replicate 62 CHR ''0'' = hexEncode (CHR ''h'' # replicate 31 CHR 0x00)" "replicate 64 CHR ''0'' = hexEncode (replicate 32 CHR 0x00)"
    by (simp_all add: hexZeros)
qed

lemma wSha: "mlSha wMaskLib [c] = c # replicate 31 CHR 0x00"
  by (simp add: wMaskLib_def take_Cons' take_replicate)

lemma wHash: "validReleaseHash wGov (''71'' @ replicate 62 CHR ''0'')" "validReleaseHash wGov (''68'' @ replicate 62 CHR ''0'')"
    "validReleaseHash wGov (replicate 64 CHR ''0'')"
  unfolding wHex by (rule validReleaseHash_encoded, simp)+

lemma wDecodeCandidate: "decodeReleaseCandidate wGov ''c'' = Some wCandidate"
  by code_simp

lemma wSame: "sameReleaseCandidate wMaskLib wMaskRow wApprovals wCandidate"
  by code_simp

lemma wTrims: "trimSpace ''h'' = ''h''" "trimSpace ''d'' = ''d''" "trimSpace ''rel'' = ''rel''"
  by code_simp+

lemma wGeometry: "canonicalReleaseGeometry wMaskLib ''g'' = Some ''g''"
  by code_simp

lemma wCandidateHash: "releaseCandidateHash wMaskLib wCandidate [''decode'', ''mask'', ''encode''] = Some (''71'' @ replicate 62 CHR ''0'')"
proof -
  have "mlMarshalCandidate wMaskLib x = Some (pcRequestID (ccCandidate x))" for x by (simp add: wMaskLib_def)
  then show ?thesis unfolding wHex using wGeometry wSha by (simp add: releaseCandidateHash_def wCandidate_def del: hexEncode.simps)
qed

lemma wDecodeHIL: "decodeReleaseHIL wGov ''e'' = Some (pmHILEvidence wManifest)"
proof -
  have "uuid4 (gvMask wGov) x" "rvHIL wGov x = Some (pmHILEvidence wManifest)" for x by (simp_all add: wGov_def uuid4_def wMaskLib_def)
  then show ?thesis using wHash wTrims(1) by (simp add: decodeReleaseHIL_def maxReleaseEvidenceBytes_def wManifest_def del: replicate.simps)
qed

lemma wEvidence: "decodeReleasePipeline wGov ''p'' = Some [''decode'', ''mask'', ''encode'']" "strictReleasePipeline [''decode'', ''mask'', ''encode'']"
    "releaseHILPayload wMaskLib (pmHILEvidence wManifest) = Some ''h''" "haHarnessID (pmHILEvidence wManifest) = ''h''"
    "haCandidateHash (pmHILEvidence wManifest) = ''71'' @ replicate 62 CHR ''0''" "haDeviceID (pmHILEvidence wManifest) = ''d''"
    "length wApprovals = 2" "mrStatus wMaskRow = StatusApproved"
  by (simp_all add: decodeReleasePipeline_def maxReleasePipelineBytes_def strictReleasePipeline_def releaseHILPayload_def wGov_def wMaskLib_def wManifest_def
      wApprovals_def wMaskRow_def StatusApproved_def)

lemma wEvidenceHash: "hexEncode (mlSha wMaskLib ''h'') = ''68'' @ replicate 62 CHR ''0''"
  unfolding wHex wSha ..

lemma wReleaseAuthorized: "AuthorizeRelease wGov wKeys wMaskRow wApprovals (releaseEvidence wReleaseCommand)"
proof -
  have lib: "gvMask wGov = wMaskLib" "mlVerify wMaskLib (replicate 32 CHR 0x01) p sig" for p sig by (simp_all add: wGov_def wMaskLib_def)
  show ?thesis
    using wEvidence wEvidenceHash wHash wDecodeCandidate wSame wCandidateHash wDecodeHIL lib
    by (simp add: AuthorizeRelease_def releaseEvidence_def wReleaseCommand_def wKeys_def del: replicate.simps)
qed

abbreviation wGoverned :: releaseDB where "wGoverned \<equiv> fst (runCalls (postgresMask wGov) wMaskCalls wGovDB)"

definition wApprovalRows :: "approvalRow list" where
  "wApprovalRows = map (\<lambda>a. \<lparr>awTenant = ''t'', awRequest = ''q'', awApproval = a\<rparr>) wApprovals"

text \<open>Requests and approvals touch nothing else.\<close>

definition sameElsewhere :: "releaseDB \<Rightarrow> releaseDB \<Rightarrow> bool" where
  "sameElsewhere db db' \<longleftrightarrow> sdTenants db' = sdTenants db \<and> sdSites db' = sdSites db \<and> ebDevices db' = ebDevices db \<and> mbCameras db' = mbCameras db \<and>
     rbReleases db' = rbReleases db \<and> rbStatuses db' = rbStatuses db"

lemma runMask_frame: "sameElsewhere db (fst (runCalls (postgresMask L) calls db))"
proof (rule runCalls_invariant)
  fix e c s s' res
  assume old: "sameElsewhere db s" and run: "postgresMask L e c s = (s', res)"
  have "sameElsewhere s s'"
  proof (cases c)
    case (MaskCreate x)
    with run have "CreateMask L e x s = (s', res)" by simp
    then show ?thesis by (cases rule: CreateMask_cases) (auto simp: sameElsewhere_def)
  next
    case (MaskApprove x)
    with run have "ApproveMask L e x s = (s', res)" by simp
    then show ?thesis by (cases rule: ApproveMask_cases) (auto simp: sameElsewhere_def)
  qed
  with old show "sameElsewhere db s'" by (simp add: sameElsewhere_def)
qed (simp add: sameElsewhere_def)

lemma wGoverned_rows: "mbRequests wGoverned = [wMaskRow]" "mbApprovals wGoverned = wApprovalRows"
  by code_simp+

lemma wGoverned_rest: "ebDevices wGoverned = [wDevice]" "rbReleases wGoverned = []" "rbStatuses wGoverned = []" "sdTenants wGoverned ''t''"
    "siteExists wGoverned ''t'' ''s''" "mbCameras wGoverned ''t'' ''c''"
  using runMask_frame [of wGovDB wGov wMaskCalls] by (auto simp: sameElsewhere_def siteExists_def wGovDB_def)

lemma wGoverned_views: "maskByID wGoverned ''t'' ''q'' = Some wMaskRow" "orderApprovals (approvalsOf wGoverned ''t'' ''q'') = wApprovals"
    "releaseDevice wGov wReleaseCommand ''t'' wGoverned"
  using wGoverned_rows wGoverned_rest by (simp_all add: maskByID_def approvalsOf_def releaseDevice_def)
    (code_simp+)

lemma wReleaseValid: "validateCreateRelease wGov wReleaseCommand"
  by code_simp

definition wReleaseRow :: MaskRelease where "wReleaseRow = newRelease wGovEnv wReleaseCommand"

lemma wReleaseRow_sel: "rlID wReleaseRow = ''rel''" "rlTenantID wReleaseRow = ''t''" "rlDeviceID wReleaseRow = ''d''" "rlVersion wReleaseRow = 1"
    "rlRequestID wReleaseRow = ''q''"
  by (simp_all add: wReleaseRow_def newRelease_def wReleaseCommand_def)

lemma wReleased_rows: "rbReleases wReleased = [wReleaseRow]" "ebDevices wReleased = [wDevice]" "rbStatuses wReleased = []"
proof -
  have lib: "slUUID wGov x = Some x" "gvText wGov n x = Some x" "gvObject wGov x" "slJsonb wGov x = x" "slAudit wGov = wAuditLib" for n x
    by (simp_all add: wGov_def)
  have env: "stFails wGovEnv call = None" "stNow wGovEnv = 5" for call by (simp_all add: wGovEnv_def)
  have opens: "(beginStore wGov wGovEnv ''t'' :: maskRequestError storeError + string) = Inr ''t''" by (simp add: beginStore_def wGov_def wGovEnv_def)
  have "insertRelease wGov wGovEnv ''t'' wReleaseRow wGoverned = Some wReleaseRow"
    using wGoverned_rest wGoverned_views by (simp add: insertRelease_def lib env wReleaseRow_def newRelease_def wReleaseCommand_def releaseKeysFree_def wDevice_def)
  moreover obtain rows h where audit: "auditAppend wAuditLib (stAudit wGovEnv) 5 event (sdAudit wGoverned) = Inr (rows event, h event)" for event
  proof -
    have "\<exists>rows h. auditAppend wAuditLib (stAudit wGovEnv) 5 event (sdAudit wGoverned) = Inr (rows, h)" for event
      by (auto simp: wGovEnv_def auditAppend_def wAuditLib_def Let_def)
    then show thesis using that by metis
  qed
  ultimately have store: "\<exists>rows. storeRelease wGov wGovEnv wReleaseCommand ''t'' wGoverned =
      (wGoverned\<lparr>rbReleases := [wReleaseRow], sdAudit := rows\<rparr>, Inr wReleaseRow)"
    using wGoverned_rest by (auto simp: storeRelease_def lib env commitStore_def simp flip: wReleaseRow_def)
  have c: "xcTenantID wReleaseCommand = ''t''" "xcRequestID wReleaseCommand = ''q''" "xcSiteID wReleaseCommand = ''s''" "xcCameraID wReleaseCommand = ''c''"
      "xcDeviceID wReleaseCommand = ''d''" "mrSiteID wMaskRow = ''s''" "mrCameraID wMaskRow = ''c''"
    by (simp_all add: wReleaseCommand_def wMaskRow_def)
  have "CreateRelease wGov wKeys wGovEnv wReleaseCommand wGoverned = storeRelease wGov wGovEnv wReleaseCommand ''t'' wGoverned"
    using wReleaseValid opens wGoverned_views wReleaseAuthorized wEvidence by (simp add: CreateRelease_def loadRequest_def loadApprovals_def lib env c)
  with store show "rbReleases wReleased = [wReleaseRow]" "ebDevices wReleased = [wDevice]" "rbStatuses wReleased = []"
    using wGoverned_rest by (auto simp: wReleased_def)
qed

lemma wStart: "NewControlledPrivacyMaskRelease [(''h'', replicate 32 CHR 0x01)] = Inr (fst wGate)"
    "NewHardwareBoundPrivacyMaskAdapter wMaskLib \<lparr>hpProfileID = ''p'', hpDeviceID = ''d'', hpHarnessID = ''h''\<rparr> (replicate 32 CHR 0x01) = Inr (snd wGate)"
proof -
  have "trimSpace ''p'' = ''p''" "trimSpace ''h'' = ''h''" by code_simp+
  then show "NewControlledPrivacyMaskRelease [(''h'', replicate 32 CHR 0x01)] = Inr (fst wGate)"
    "NewHardwareBoundPrivacyMaskAdapter wMaskLib \<lparr>hpProfileID = ''p'', hpDeviceID = ''d'', hpHarnessID = ''h''\<rparr> (replicate 32 CHR 0x01) = Inr (snd wGate)"
    by (simp_all add: wGate_def NewControlledPrivacyMaskRelease_def NewHardwareBoundPrivacyMaskAdapter_def
        validatePrivacyMaskHardwareProfile_def uuid4_def wMaskLib_def maxPrivacyMaskHardwareProfileIDLength_def)
qed

lemma wGate_reach: "gateReach wMaskLib [''h'' \<mapsto> replicate 32 CHR 0x01] (fst wGate, snd wGate)"
  by (rule gateReach.start [OF wStart(1) _ wStart(2)]) simp

lemma wArrival: "tripFine wReleaseHttp wGov wClient wTrip" "nextRelease wReleased wClient (fst wGate) wReleaseRow" "0 \<le> lastVersion (fst wGate)"
    "lastVersion (fst wGate) \<le> maxInt64" "noNewerStatus wReleased wReleaseRow" "plainNames wMaskRow wApprovals"
    "wireReads wGov wWire wReleaseRow (releaseEvidence wReleaseCommand) wManifest" "gateTrusts wKeys (fst wGate) (pmHILEvidence wManifest)"
    "haDeviceID (pmHILEvidence wManifest) = mxDeviceID wClient" "uuid4 (gvMask wGov) (rlID wReleaseRow)" "trimSpace (rlID wReleaseRow) = rlID wReleaseRow"
    "slUUID wGov (rlID wReleaseRow) = Some (rlID wReleaseRow)"
    "gateReach (gvMask wGov) [''h'' \<mapsto> replicate 32 CHR 0x01] (fst wGate, snd wGate)"
    "adapterFits (gvMask wGov) wClient (pmHILEvidence wManifest) (fst wGate) (snd wGate)" "\<forall>act :: HardwarePrivacyMaskActivation. (\<lambda>_. None :: string option) act = None"
proof -
  have lib: "gvMask wGov = wMaskLib" "slUUID wGov x = Some x" "uuid4 wMaskLib x" for x by (simp_all add: wGov_def uuid4_def wMaskLib_def)
  have chains: "VerifyDevice wReleaseHttp 5 [[\<lparr>ccNotBefore = 1, ccNotAfter = 9, ccCommonName = ''d''\<rparr>]] = Some ''d''" by code_simp
  have "case newUUIDv4 (Some (replicate 16 CHR 0x00)) of None \<Rightarrow> False | Some q \<Rightarrow> correlationID wReleaseHttp (deviceRequest ''d'' q) \<noteq> None"
    by code_simp
  then have "\<exists>q. newUUIDv4 (Some (replicate 16 CHR 0x00)) = Some q \<and> correlationID wReleaseHttp (deviceRequest ''d'' q) \<noteq> None"
    by (auto split: option.split_asm)
  then show "tripFine wReleaseHttp wGov wClient wTrip" using chains wTrims lib by (simp add: tripFine_def wTrip_def wClient_def wGovEnv_def)
  have serves: "servingDevice wReleased ''d'' = Some wDevice" using wReleased_rows by (simp add: servingDevice_def wDevice_def deviceServes_def)
  have "newerReleases wReleased ''t'' ''d'' 0 = [wReleaseRow]" using wReleased_rows wReleaseRow_sel by (simp add: newerReleases_def sortSlice_def)
  then show "nextRelease wReleased wClient (fst wGate) wReleaseRow"
    using serves by (simp add: nextRelease_def wClient_def wGate_def lastVersion_def wDevice_def)
  show "0 \<le> lastVersion (fst wGate)" "lastVersion (fst wGate) \<le> maxInt64" by (simp_all add: lastVersion_def wGate_def maxInt64_def)
  show "noNewerStatus wReleased wReleaseRow" using wReleased_rows by (simp add: noNewerStatus_def)
  show "plainNames wMaskRow wApprovals" by code_simp
  show "wireReads wGov wWire wReleaseRow (releaseEvidence wReleaseCommand) wManifest"
    using wDecodeCandidate wDecodeHIL wEvidence(1) wReleaseRow_sel
    by (auto simp: wireReads_def wWire_def scanDeviceReleaseManifest_def releaseEvidence_def wReleaseCommand_def wManifest_def
        intro!: exI [of _ "pcGeometry wCandidate"])
  show "gateTrusts wKeys (fst wGate) (pmHILEvidence wManifest)" using wTrims wEvidence by (simp add: gateTrusts_def wKeys_def wGate_def)
  show "haDeviceID (pmHILEvidence wManifest) = mxDeviceID wClient" using wEvidence by (simp add: wClient_def)
  show "uuid4 (gvMask wGov) (rlID wReleaseRow)" "trimSpace (rlID wReleaseRow) = rlID wReleaseRow" "slUUID wGov (rlID wReleaseRow) = Some (rlID wReleaseRow)"
    using wReleaseRow_sel wTrims lib by simp_all
  show "gateReach (gvMask wGov) [''h'' \<mapsto> replicate 32 CHR 0x01] (fst wGate, snd wGate)" using wGate_reach lib by simp
  have "validatePrivacyMaskHardwareProfile wMaskLib (hbProfile (snd wGate))" by code_simp
  then show "adapterFits (gvMask wGov) wClient (pmHILEvidence wManifest) (fst wGate) (snd wGate)"
    using lib wTrims wEvidence(4) by (simp add: adapterFits_def wGate_def wClient_def)
  show "\<forall>act :: HardwarePrivacyMaskActivation. (\<lambda>_. None :: string option) act = None" by simp
qed

lemma governReach_calls:
  assumes "governReach H L keys wire c (db, g)" "\<And>x. x \<in> set calls \<Longrightarrow> trimSpace (maskActor (snd x)) = maskActor (snd x)"
  shows "governReach H L keys wire c (fst (runCalls (postgresMask L) calls db), g)"
  using assms
proof (induction calls arbitrary: db)
  case (Cons x calls)
  obtain E call where x: "x = (E, call)" by force
  have "governReach H L keys wire c (fst (postgresMask L E call db), g)"
    by (rule governReach.mask [OF Cons.prems(1)]) (use Cons.prems(2) [of x] x in simp)
  from Cons.IH [OF this] Cons.prems(2) show ?case by (simp add: x Let_def case_prod_beta)
qed simp

definition wSynced :: "releaseDB \<times> ControlledPrivacyMaskRelease \<times> HardwareBoundPrivacyMaskAdapter" where
  "wSynced = syncTrip wReleaseHttp wGov wWire wClient (ApplyVerifiedRelease (gvMask wGov) (\<lambda>_. None)) wTrip (wReleased, wGate)"

lemma wSynced_reach: "governReach wReleaseHttp wGov wKeys wWire wClient wSynced"
proof -
  have lib: "gvMask wGov = wMaskLib" by (simp add: wGov_def)
  have "governReach wReleaseHttp wGov wKeys wWire wClient (wGovDB, fst wGate, snd wGate)"
    by (rule governReach.start) (use wStart lib in \<open>simp_all add: wGovDB_def\<close>)
  then have "governReach wReleaseHttp wGov wKeys wWire wClient (wGoverned, fst wGate, snd wGate)"
    by (rule governReach_calls) (use wMaskCalls_trimmed in \<open>auto simp: list_all_iff\<close>)
  then have "governReach wReleaseHttp wGov wKeys wWire wClient (wReleased, fst wGate, snd wGate)"
    unfolding wReleased_def by (rule governReach.release)
  then show ?thesis unfolding wSynced_def prod.collapse by (rule governReach.sync)
qed

text \<open>Why the identifiers matter: a requester with a blank before the name is recorded as an approver of the own request.\<close>

lemma own_approval_with_blanks:
  "let db = fst (runCalls (postgresMask wGov)
      [(wGovEnv, MaskCreate \<lparr>mcTenantID = ''t'', mcSiteID = ''s'', mcCameraID = ''c'', mcActorID = '' r'', mcRequestID = ''u'', mcName = ''n'', mcGeometry = ''g''\<rparr>),
       (wGovEnv, MaskApprove \<lparr>mpTenantID = ''t'', mpRequestID = ''q'', mpActorID = '' r'', mpAuditRequestID = ''u''\<rparr>)] wGovDB) in
   pgRequester db (''t'', ''q'') = Some ''r'' \<and> pgApprovers db (''t'', ''q'') = ['' r'']"
  by code_simp

section \<open>Properties\<close>

text \<open>C7: an approved mask is the work of three persons. In every history of requests and approvals over empty tables
  whose callers have identifiers without white space around them, an approved request of the PostgreSQL repository has
  exactly two approvals, by two different persons other than its requester, and all three have made a call. The memory
  repository promises the same of all identifiers. (The PostgreSQL repository does not: it stores the requester trimmed and
  compares the approver as given, see \<open>own_approval_with_blanks\<close>.)\<close>

theorem mask_two_person:
  assumes "textKept L" "mbRequests db = []" "mbApprovals db = []" "\<And>x. x \<in> set calls \<Longrightarrow> trimSpace (maskActor (snd x)) = maskActor (snd x)"
  shows "(pgApproved (fst (runCalls (postgresMask L) calls db)) k \<longrightarrow>
      (\<exists>p a b. pgRequester (fst (runCalls (postgresMask L) calls db)) k = Some p \<and> pgApprovers (fst (runCalls (postgresMask L) calls db)) k = [a, b] \<and>
         distinct [p, a, b] \<and> {p, a, b} \<subseteq> maskActor ` snd ` set calls)) \<and>
    (memoryRequest (fst (runCalls (memoryMask L) calls' [])) k = Some r \<longrightarrow> mrStatus r = StatusApproved \<longrightarrow>
      (\<exists>a b. map maApproverID (mrApprovals r) = [a, b] \<and> distinct [mrRequestedBy r, a, b] \<and>
         {mrRequestedBy r, a, b} \<subseteq> maskActor ` snd ` set calls'))"
proof (intro conjI impI)
  assume ok: "pgApproved (fst (runCalls (postgresMask L) calls db)) k"
  have good: "textKept L \<and> maskGood db" using assms(1,3) by (simp add: maskGood_def)
  have none: "pgRequester db k = None \<and> pgApprovers db k = [] \<and> \<not> pgApproved db k" for k
    using assms(2,3) by (simp add: pgViews maskByID_def approvalsOf_def)
  from pgControl.three_persons [OF good assms(4) none ok]
  show "\<exists>p a b. pgRequester (fst (runCalls (postgresMask L) calls db)) k = Some p \<and> pgApprovers (fst (runCalls (postgresMask L) calls db)) k = [a, b] \<and>
      distinct [p, a, b] \<and> {p, a, b} \<subseteq> maskActor ` snd ` set calls" by metis
next
  assume r: "memoryRequest (fst (runCalls (memoryMask L) calls' [])) k = Some r" "mrStatus r = StatusApproved"
  obtain p a b where "map_option mrRequestedBy (memoryRequest (fst (runCalls (memoryMask L) calls' [])) k) = Some p"
    "(case memoryRequest (fst (runCalls (memoryMask L) calls' [])) k of None \<Rightarrow> [] | Some r \<Rightarrow> map maApproverID (mrApprovals r)) = [a, b]"
    "distinct [p, a, b]" "{p, a, b} \<subseteq> maskActor ` snd ` set calls'"
    by (rule memoryControl.three_persons [where L = L and s = "[]" and calls = calls' and k = k]) (use r in \<open>simp_all add: memoryRequest_def\<close>)
  with r(1) show "\<exists>a b. map maApproverID (mrApprovals r) = [a, b] \<and> distinct [mrRequestedBy r, a, b] \<and>
      {mrRequestedBy r, a, b} \<subseteq> maskActor ` snd ` set calls'" by auto
qed

theorem mask_two_person_witness:
  "\<exists>p a b. pgRequester wGoverned (''t'', ''q'') = Some p \<and> pgApprovers wGoverned (''t'', ''q'') = [a, b] \<and> distinct [p, a, b]"
proof -
  have "pgApproved wGoverned (''t'', ''q'')" using wGoverned_views(1) wEvidence(8) by (simp add: pgApproved_def)
  moreover have "mbRequests wGovDB = []" "mbApprovals wGovDB = []" by (simp_all add: wGovDB_def)
  moreover have "trimSpace (maskActor (snd x)) = maskActor (snd x)" if "x \<in> set wMaskCalls" for x
    using wMaskCalls_trimmed that by (auto simp: list_all_iff)
  ultimately show ?thesis using mask_two_person [of wGov wGovDB wMaskCalls "(''t'', ''q'')" "[]"] wGov_laws by blast
qed


text \<open>C2: from the request to the camera. In every state that administrators, releases, reports, changes of the registry and
  synchronizations over a lossy network lead to, the mask that the device runs is a release of the tables for
  this device, with the release's name and version; its evidence was authorized against its request, and the
  request was approved by two different persons other than its requester.\<close>

theorem mask_end_to_end:
  assumes "governReach H L keys wire c (db, r, a)" "textKept L" "wireFields wire" "hbActive a = Some act"
  shows "\<exists>row \<in> set (rbReleases db). rlID row = hmReleaseID act \<and> rlVersion row = hmVersion act \<and> rlDeviceID row = hmDeviceID act \<and>
    hmDeviceID act = mxDeviceID c \<and> governed L keys db row \<and>
    (\<exists>p x y. pgRequester db (rlTenantID row, rlRequestID row) = Some p \<and> pgApprovers db (rlTenantID row, rlRequestID row) = [x, y] \<and> distinct [p, x, y])"
proof -
  from governReach_inv [OF assms(1-3)] obtain hk where i: "tablesInv L keys db" "gateListed c db r" "gateInv (gvMask L) hk (r, a)" by auto
  from i(3) assms(4) obtain st where st: "crLastAccepted r = Some st" "sameRelease st act" by (auto simp: gateInv_def split: option.split_asm)
  with i(2) obtain row where row: "row \<in> set (rbReleases db)" "rlID row = psReleaseID st" "rlVersion row = psVersion st" "rlDeviceID row = mxDeviceID c"
      "psDeviceID st = mxDeviceID c" by (auto simp: gateListed_def)
  have "governed L keys db row" using i(1) row(1) by (simp add: tablesInv_def)
  with governed_three [OF i(1) row(1)] row st(2) show ?thesis by (intro bexI [of _ row]) (auto simp: sameRelease_def)
qed

theorem mask_end_to_end_witness:
  "\<exists>row act. row \<in> set (rbReleases (fst wSynced)) \<and> hbActive (snd (snd wSynced)) = Some act \<and> rlID row = hmReleaseID act \<and> rlDeviceID row = ''d'' \<and>
     governed wGov wKeys (fst wSynced) row"
proof -
  obtain db r a where s: "wSynced = (db, r, a)" by (cases wSynced) auto
  have "\<exists>act. hbActive a = Some act"
    using release_arrives [OF wArrival(1-5) wReleaseAuthorized wArrival(6-15)] s unfolding wSynced_def prod.collapse by auto
  then obtain act where act: "hbActive a = Some act" by blast
  have "wireFields wWire" by (simp add: wireFields_def wWire_def)
  from mask_end_to_end [OF wSynced_reach [unfolded s] wGov_laws this act] show ?thesis
    using act by (auto simp: s wClient_def)
qed



text \<open>C40: a release that the gate refuses stops the channel. While the oldest release that is newer than the device's
  own fails verification, every sequence of synchronizations, whatever the network and the database do, leaves the
  tables and the device as they were: later releases are not looked at, and the failure is not reported.\<close>

theorem rejected_release_blocks:
  assumes "nextRelease db c r row" "slUUID L (mxDeviceID c) = Some (mxDeviceID c)" "trimSpace (mxDeviceID c) = mxDeviceID c"
    "0 \<le> lastVersion r" "lastVersion r \<le> maxInt64" "\<And>m. wire (scanDeviceReleaseManifest row) = Some m \<Longrightarrow> \<exists>st. verifiedStatus (gvMask L) r m = Inl st"
  shows "fold (\<lambda>X. syncTrip H L wire c apply X) trips (db, r, a) = (db, r, a)"
  by (induction trips) (simp_all add: syncTrip_refused [OF assms])


definition wStranger :: ControlledPrivacyMaskRelease where "wStranger = \<lparr>crKeys = [''z'' \<mapsto> replicate 32 CHR 0x01], crLastAccepted = None\<rparr>"

theorem rejected_release_blocks_witness:
  "fold (\<lambda>X. syncTrip wReleaseHttp wGov wWire wClient (ApplyVerifiedRelease (gvMask wGov) (\<lambda>_. None)) X) [wTrip, wTrip] (wReleased, wStranger, snd wGate) =
     (wReleased, wStranger, snd wGate)"
proof (rule rejected_release_blocks)
  have r: "lastVersion wStranger = lastVersion (fst wGate)" by (simp add: lastVersion_def wStranger_def wGate_def)
  then show "nextRelease wReleased wClient wStranger wReleaseRow" using wArrival(2) by (simp add: nextRelease_def)
  show "0 \<le> lastVersion wStranger" "lastVersion wStranger \<le> maxInt64" using wArrival(3,4) r by simp_all
  show "slUUID wGov (mxDeviceID wClient) = Some (mxDeviceID wClient)" by (simp add: wGov_def)
  show "trimSpace (mxDeviceID wClient) = mxDeviceID wClient" using wTrims by (simp add: wClient_def)
  fix m
  assume "wWire (scanDeviceReleaseManifest wReleaseRow) = Some m"
  then have m: "pmHILEvidence m = pmHILEvidence wManifest" by (auto simp: wWire_def)
  have "VerifyPrivacyMaskHILEvidence wMaskLib (pmHILEvidence wManifest) (crKeys wStranger) = None" by code_simp
  then show "\<exists>st. verifiedStatus (gvMask wGov) wStranger m = Inl st"
    using m by (auto simp: wGov_def verifiedStatus_def split: option.split)
qed

end
