(* ===== verification/Spec2Isabelle.thy ===== *)
theory Spec2Isabelle
  imports Delivery_Props Privacy_Rights Realtime_Props Pipeline Rtsp_Props Config_Props Enrollment_Props Heartbeat_Props Registry_Props Mask_Control_Props
begin

text \<open>
  \<^bold>\<open>SyncCam: verification of the edge agent and of the control plane.\<close>

  SyncCam is a video surveillance system in two Go programs. The edge agent
  (\<open>src/edge/internal/agent\<close>) runs beside the cameras: it pulls their streams, blackens private
  regions before anything else sees a frame, samples frames for analytics, and keeps review events in
  a durable queue until the control plane accepts them. The control plane
  (\<open>src/backend/internal\<close>) authorizes requests, takes events in, dispatches them through a
  transactional outbox to the operators' alert queue, notifies connected consoles, keeps a hash chain
  of audit records, registers sites, cameras, zones and devices, publishes configurations, and runs the
  privacy workflows. This development models these components as
  executable HOL functions, one per Go function, and proves what they promise each other.

  \<^bold>\<open>Theories, code and properties.\<close>

  \<^item> \<open>Go_Prelude\<close>, \<open>Go_Float\<close>, \<open>Identifiers\<close>: strings, times, 64-bit arithmetic, sorting, trimming,
    hexadecimal, \<open>float64\<close> as it is compared, and the UUID texts of \<open>heartbeat.go\<close> and
    \<open>event_delivery.go\<close>.
  \<^item> \<open>Spool\<close> (\<open>spool.go\<close>): the durable store-and-forward queue over a directory whose every system
    call may fail. \<open>Spool_Laws\<close>, \<open>Spool_Restart\<close> and \<open>Spool_Spec\<close> hold its invariant, its recovery
    and its abstract bounded queue; \<open>Spool_Contract\<close> states the interfaces \<open>retained_queue\<close> and
    \<open>recoverable_queue\<close> and interprets them; \<open>Spool_Props\<close> has the properties: the invariant of every
    reachable state, recovery after a restart and after a crash inside a write, the contracts of
    enqueueing with and without eviction, order and acknowledgment.
  \<^item> \<open>Review_Events\<close> (\<open>event_delivery.go\<close>): validation, queueing and delivery of review events,
    written against the operations of the queue. \<open>Delivery\<close> proves its laws from the interface,
    \<open>Delivery_Props\<close> states them: no accepted event is lost, only accepted ones are acknowledged,
    delivery progresses, and canonical forms are fixed points.
  \<^item> \<open>Mask_Release\<close> (\<open>privacy_mask_verification.go\<close>, \<open>_hil.go\<close>, \<open>_release.go\<close>,
    \<open>_hardware_adapter.go\<close>, \<open>_release_loader.go\<close>), \<open>Mask_Frame\<close> (\<open>privacy_mask_frame.go\<close>,
    \<open>frame_sampling.go\<close>) and \<open>Rtsp\<close> (\<open>rtsp.go\<close>, \<open>decode.go\<close> and the release worker with its
    supervisor): from the approval of a mask to the frames behind it. \<open>Mask_Props\<close> and \<open>Rtsp_Props\<close>
    show that only doubly approved, physically attested releases become active, that no covered pixel
    leaves the mask, the rate bound of the sampler, the closed form of the retry delays and the
    exactness of the frame reader.
  \<^item> \<open>Mask_Requests\<close> (\<open>privacymasks/repository.go\<close>, \<open>postgres_repository.go\<close>), \<open>Mask_Authorize\<close> (\<open>release.go\<close>,
    \<open>postgres_release_repository.go\<close>), \<open>Mask_Transport\<close> (\<open>release_transport.go\<close>, \<open>postgres_release_transport.go\<close>, the
    database functions and the routes of administrators and devices) and \<open>Mask_Sync\<close> (the client and the
    synchronizers of the agent): masks from the request to the device. \<open>Mask_Governance\<close> states the interface
    \<open>dual_control\<close> and interprets it on both repositories; \<open>Mask_Trip\<close> is the transition system of control plane and
    device over a lossy network; \<open>Mask_Control_Props\<close> shows that a device runs only releases that three
    persons stand behind, that an authorized release arrives (its report again as below), and that a refused one stops the
    channel.
  \<^item> \<open>Edge_Config\<close> (\<open>configuration.go\<close>) and \<open>Config_Delivery\<close> (\<open>configdelivery\<close>, its database functions and
    the device routes of \<open>httpapi/configuration_delivery.go\<close>): publishing, pulling, verifying, atomically
    activating and reporting configuration revisions. \<open>Config_Loop\<close> composes both ends over a lossy
    exchange; \<open>Config_Props\<close> shows that devices run only published content of their site, that the server
    never lists a newer revision as applied than the device has, and that one synchronization activates the
    newest revision (and whether its report is recorded, see Parameters).
  \<^item> \<open>Authz\<close> (\<open>authz/policy.go\<close>, \<open>identity/principal.go\<close>): the authorization decision, which is the
    role matrix of \<open>ARCHITECTURE.md\<close> with its conditions on token, second factor and sites, and its two-step form
    in the list handlers.
  \<^item> \<open>Privacy_Rights\<close> (\<open>privacyrights\<close>): the case workflow as a state machine with idempotent commands.
  \<^item> \<open>Idempotency\<close>: the interfaces \<open>retained_calls\<close> and \<open>idempotent_calls\<close> of operations that remember a
    caller's key (for as long as it is kept, or forever), with their lemmas on whole histories. Event
    intake, alert acknowledgment and every keyed creation below provide them.
  \<^item> \<open>Keyed_Store\<close>: the transaction frame that \<open>tenant\<close>, \<open>device\<close> and \<open>zones\<close> repeat around a creation with
    an idempotency key. \<open>Tenant_Sites\<close> (\<open>tenant/repository.go\<close>), \<open>Camera_Registry\<close>
    (\<open>device/repository.go\<close>, \<open>postgres_repository.go\<close>) and \<open>Zone_Registry\<close> (\<open>zones\<close>) are the registries in their
    PostgreSQL and memory versions. \<open>Http_Base\<close> has what the handlers of \<open>httpapi\<close> share, with the interface
    \<open>scoped_routes\<close> of routes that keep tenants and sites apart, \<open>Http_Cameras\<close> the camera routes, \<open>Http_Zones\<close> the zone routes
    and \<open>Device_Routes\<close> what the routes of devices share.
    \<open>Registry_Props\<close> shows creation once per key, the life of cameras, that no update is lost, the shape of
    zones in both repositories with and without the constraints of the schema, and that requests neither change nor show what their principal may not access.
  \<^item> \<open>Base64_Url\<close>, \<open>Claim_Token\<close>, \<open>Enrollment\<close> and \<open>Enrollment_Laws\<close> (\<open>device/enrollment.go\<close>,
    \<open>postgres_enrollment.go\<close>): signed claim tokens and the pairing of devices; \<open>Enrollment_Props\<close> shows that
    a token is read back, usable until it expires, and good for one activation.
  \<^item> \<open>Device_Health\<close> (\<open>health.go\<close> and its check in \<open>device/heartbeat.go\<close>) and \<open>Heartbeat\<close> (both \<open>heartbeat.go\<close>
    files, \<open>postgres_heartbeat.go\<close> and its database function): the telemetry of devices from both ends.
    \<open>Http_Devices\<close> has the enrollment, listing and heartbeat routes and the trip of a heartbeat;
    \<open>Heartbeat_Props\<close> shows that a heartbeat is recorded once and keeps its device online.
  \<^item> \<open>Outbox\<close> (\<open>outbox/dispatcher.go\<close>) with \<open>Outbox_Props\<close>, the interface \<open>lease_store\<close>
    and the histories of claims and marks in which a lease is exclusive;
    \<open>Realtime\<close> (\<open>realtime\<close>) with \<open>Realtime_Props\<close>; \<open>Audit_Chain\<close> (\<open>audit/append.go\<close>); \<open>Eventing\<close>
    (\<open>eventing/repository.go\<close>) with \<open>Eventing_Props\<close>; \<open>Alerting\<close> (\<open>alerting\<close>) with
    \<open>Alerting_Props\<close>.
  \<^item> \<open>Pipeline\<close>: intake, outbox, projection and acknowledgment composed over one database, as a
    transition system whose steps are the transactions of the components in any interleaving, with the
    end-to-end property that alerts are projected exactly once.

  \<^bold>\<open>How code becomes definitions.\<close> A Go struct is a \<open>record\<close> and an error a constructor of a sum type;
  a method returns the new state with its result. A database table is a list of rows (or a map where a
  key determines the row), a transaction one function from tables to tables, and the constraints of the
  schema that the code relies on are checks of the insertion. Each function takes an environment with
  the clock, fresh identifiers, and, for every call that can fail, whether it fails; a commit that
  reports an error may have been applied or not. So the theorems hold for every pattern of failures.
  Times are instants in nanoseconds, durations and \<open>int64\<close> counters integers with \<open>wrap64\<close> where the
  code computes with them, \<open>uint64\<close> counters 64-bit words.

  \<^bold>\<open>Parameters.\<close> Code that is not part of the repository is a parameter: SHA-256, Ed25519, JSON
  encoders and decoders, \<open>uuid.Parse\<close> and \<open>url.Parse\<close>, the Unicode tables, the arithmetic of
  \<open>float64\<close>, the operating system, PostgreSQL failures, the hardware executor and the network. What a
  theorem needs of them is in its hypotheses (hashes of 32 bytes, decoders that read back what was
  encoded, canonical UUID texts that are fixed points), and its witness instantiates them. A parameter is
  also whether PL/pgSQL resolves an ambiguous name as a column (\<open>dlUseColumn\<close>, \<open>gvUseColumn\<close>): the functions
  \<open>report_device_configuration\<close> and \<open>report_privacy_mask_release\<close> declare output columns with the names of their
  \<open>ON CONFLICT\<close> targets, and with PostgreSQL's default, \<open>plpgsql.variable_conflict = error\<close>, their insertion fails. The
  safety properties hold either way; the two properties of arrival state both outcomes.

  \<^bold>\<open>Loops and bounds.\<close> Loops over data are structural or have a termination measure (the length of the
  unread input, of the directory, of the trimmed text); the supervisors, which run until they are
  cancelled, are functions of the list of turns they make, so no fuel is used. Each call under a lock,
  an advisory lock or a row lock is one step of its component; the replay of the realtime buffer, which
  takes no lock, has its own snapshot and clock per statement.

  \<^bold>\<open>Not modelled.\<close> Request routing and the encoding of bodies (\<open>net/http\<close>, JSON), token verification
  (\<open>identity/oidc.go\<close>, calls of a JWT library), certificate verification, the process entry points,
  migrations and the SQL schema beyond the constraints above, the TypeScript console and the Python
  analytics are input and output around the modelled logic or are other languages. The remaining HTTP
  handlers, user management and the edge runtime are not modelled yet.
\<close>

end
